(* ===== verification/Prelude.thy ===== *)
theory Prelude
  imports Main "HOL-Library.Word"
begin

text \<open>
  What every component shares: Go's error values, the result of a fallible call, actions over
  a state (a call that may fail and that may change the state whether or not it fails), the
  wrap-around of \<open>int64\<close> and \<open>uint64\<close> values, times, and the lemmas on lists and actions the
  component proofs are made of.
\<close>

section \<open>Collections of proof rules\<close>

named_theorems act_simps \<open>equations that run an action on a state\<close>
named_theorems driver_simps \<open>what the documented laws of a collection give on a call\<close>
named_theorems go_defs \<open>definitions that a proof about a whole handler unfolds\<close>

section \<open>Errors and results\<close>

text \<open>
  An error of the program: the sentinel errors it compares with \<open>errors.Is\<close>, the errors of the
  database, those made by \<open>fmt.Errorf\<close> or \<open>errors.New\<close> (with the text that does not depend on
  the data), and a run-time panic.
\<close>

datatype goerr =
    ErrNoDocuments
  | ErrDuplicateKey
  | ErrRecordNotFound
  | ErrDB string
  | ErrNoRecordUpdated
  | ErrUnsupportedBlockchain
  | ErrTXNotFound
  | Errorf string
  | GoPanic string

type_synonym 'a res = "goerr + 'a"

text \<open>\<open>err.Error()\<close>; for a panic, its message.\<close>

fun error_text :: "goerr \<Rightarrow> string" where
  "error_text ErrNoDocuments = ''mongo: no documents in result''"
| "error_text ErrDuplicateKey = ''E11000 duplicate key error''"
| "error_text ErrRecordNotFound = ''record not found''"
| "error_text (ErrDB m) = m"
| "error_text ErrNoRecordUpdated = ''no record updated''"
| "error_text ErrUnsupportedBlockchain = ''unsupported blockchain''"
| "error_text ErrTXNotFound = ''transaction is not found''"
| "error_text (Errorf m) = m"
| "error_text (GoPanic m) = m"

definition ok :: "'a res \<Rightarrow> bool" where
  "ok r = (case r of Inl _ \<Rightarrow> False | Inr _ \<Rightarrow> True)"

lemma ok_simps [simp]: "ok (Inr a)" "\<not> ok (Inl e)"
  by (simp_all add: ok_def)

lemma ok_iff: "ok r \<longleftrightarrow> (\<exists>a. r = Inr a)"
  by (cases r) simp_all

definition bindR :: "'a res \<Rightarrow> ('a \<Rightarrow> 'b res) \<Rightarrow> 'b res" where
  "bindR r k = (case r of Inl e \<Rightarrow> Inl e | Inr a \<Rightarrow> k a)"

lemma bindR_simps [simp]: "bindR (Inl e) k = Inl e" "bindR (Inr a) k = k a"
  by (simp_all add: bindR_def)

lemma bindR_Inr_iff: "bindR r k = Inr b \<longleftrightarrow> (\<exists>a. r = Inr a \<and> k a = Inr b)"
  by (cases r) simp_all

fun mapR :: "('a \<Rightarrow> 'b res) \<Rightarrow> 'a list \<Rightarrow> 'b list res" where
  "mapR f [] = Inr []"
| "mapR f (x # xs) = bindR (f x) (\<lambda>y. bindR (mapR f xs) (\<lambda>ys. Inr (y # ys)))"

lemma mapR_length: "mapR f xs = Inr ys \<Longrightarrow> length ys = length xs"
  by (induction xs arbitrary: ys) (auto simp: bindR_Inr_iff)

lemma mapR_all: "(\<And>x. x \<in> set xs \<Longrightarrow> f x = Inr (g x)) \<Longrightarrow> mapR f xs = Inr (map g xs)"
  by (induction xs) auto

section \<open>Actions over a state\<close>

type_synonym ('s, 'a) act = "'s \<Rightarrow> 'a res \<times> 's"

definition retA :: "'a \<Rightarrow> ('s, 'a) act" where
  "retA a = (\<lambda>s. (Inr a, s))"

definition throwA :: "goerr \<Rightarrow> ('s, 'a) act" where
  "throwA e = (\<lambda>s. (Inl e, s))"

definition liftR :: "'a res \<Rightarrow> ('s, 'a) act" where
  "liftR r = (\<lambda>s. (r, s))"

text \<open>\<open>v, err := m(); if err != nil { return err }\<close>, then \<open>k v\<close>.\<close>

definition bindA :: "('s, 'a) act \<Rightarrow> ('a \<Rightarrow> ('s, 'b) act) \<Rightarrow> ('s, 'b) act" where
  "bindA m k = (\<lambda>s. case m s of (r, s') \<Rightarrow> (case r of Inl e \<Rightarrow> (Inl e, s') | Inr a \<Rightarrow> k a s'))"

text \<open>\<open>v, err := m()\<close>, where the code looks at \<open>err\<close> itself.\<close>

definition tryA :: "('s, 'a) act \<Rightarrow> ('s, 'a res) act" where
  "tryA m = (\<lambda>s. case m s of (r, s') \<Rightarrow> (Inr r, s'))"

text \<open>Run an action on one component of the state.\<close>

definition zoomA :: "('s \<Rightarrow> 't) \<Rightarrow> ('t \<Rightarrow> 's \<Rightarrow> 's) \<Rightarrow> ('t, 'a) act \<Rightarrow> ('s, 'a) act" where
  "zoomA get put m = (\<lambda>s. case m (get s) of (r, t) \<Rightarrow> (r, put t s))"

text \<open>Read one component of the state.\<close>

definition readA :: "('s \<Rightarrow> 't) \<Rightarrow> ('t \<Rightarrow> 'a res) \<Rightarrow> ('s, 'a) act" where
  "readA get f = (\<lambda>s. (f (get s), s))"

text \<open>A loop that returns at the first error of its body.\<close>

fun forA :: "('x \<Rightarrow> ('s, unit) act) \<Rightarrow> 'x list \<Rightarrow> ('s, unit) act" where
  "forA body [] = retA ()"
| "forA body (x # xs) = bindA (body x) (\<lambda>_. forA body xs)"

text \<open>The same with a value the iterations pass on.\<close>

fun foldA :: "('x \<Rightarrow> 'a \<Rightarrow> ('s, 'a) act) \<Rightarrow> 'x list \<Rightarrow> 'a \<Rightarrow> ('s, 'a) act" where
  "foldA body [] a = retA a"
| "foldA body (x # xs) a = bindA (body x a) (foldA body xs)"

lemma retA_run [act_simps]: "retA a s = (Inr a, s)"
  by (simp add: retA_def)

lemma throwA_run [act_simps]: "throwA e s = (Inl e, s)"
  by (simp add: throwA_def)

lemma liftR_run [act_simps]: "liftR r s = (r, s)"
  by (simp add: liftR_def)

lemma bindA_run [act_simps]:
  "bindA m k s = (case m s of (r, s') \<Rightarrow> (case r of Inl e \<Rightarrow> (Inl e, s') | Inr a \<Rightarrow> k a s'))"
  by (simp add: bindA_def)

lemma tryA_run [act_simps]: "tryA m s = (case m s of (r, s') \<Rightarrow> (Inr r, s'))"
  by (simp add: tryA_def)

lemma zoomA_run [act_simps]: "zoomA get put m s = (case m (get s) of (r, t) \<Rightarrow> (r, put t s))"
  by (simp add: zoomA_def)

lemma readA_run [act_simps]: "readA get f s = (f (get s), s)"
  by (simp add: readA_def)

lemma bindA_assoc: "bindA (bindA m f) g = bindA m (\<lambda>a. bindA (f a) g)"
  by (auto simp: bindA_def fun_eq_iff split: prod.splits sum.splits)

text \<open>
  Partial correctness of an action, as the invariants are stated: from a state that satisfies
  \<open>P\<close>, the state after the call satisfies \<open>P\<close>, whether or not the call failed.
\<close>

definition keeps :: "('s \<Rightarrow> bool) \<Rightarrow> ('s, 'a) act \<Rightarrow> bool" where
  "keeps P m = (\<forall>s. P s \<longrightarrow> P (snd (m s)))"

lemma keepsI [intro?]: "(\<And>s. P s \<Longrightarrow> P (snd (m s))) \<Longrightarrow> keeps P m"
  by (simp add: keeps_def)

lemma keepsD: "keeps P m \<Longrightarrow> P s \<Longrightarrow> P (snd (m s))"
  by (simp add: keeps_def)

lemma keeps_retA [intro]: "keeps P (retA a)"
  by (simp add: keeps_def retA_def)

lemma keeps_throwA [intro]: "keeps P (throwA e)"
  by (simp add: keeps_def throwA_def)

lemma keeps_liftR [intro]: "keeps P (liftR r)"
  by (simp add: keeps_def liftR_def)

lemma keeps_readA [intro]: "keeps P (readA get f)"
  by (simp add: keeps_def readA_def)

lemma keeps_bindA [intro]:
  assumes "keeps P m" and "\<And>a. keeps P (k a)"
  shows "keeps P (bindA m k)"
  using assms by (fastforce simp: keeps_def bindA_def split: prod.splits sum.splits)

text \<open>The same, with what the first action promises of the value it returns.\<close>

lemma keeps_bindA_post:
  assumes "keeps P m" and "\<And>s a s'. P s \<Longrightarrow> m s = (Inr a, s') \<Longrightarrow> R a"
    and "\<And>a. R a \<Longrightarrow> keeps P (k a)"
  shows "keeps P (bindA m k)"
  using assms by (fastforce simp: keeps_def bindA_def split: prod.splits sum.splits)

lemma keeps_tryA [intro]: "keeps P m \<Longrightarrow> keeps P (tryA m)"
  by (fastforce simp: keeps_def tryA_def split: prod.splits)

lemma keeps_forA [intro]: "(\<And>x. keeps P (body x)) \<Longrightarrow> keeps P (forA body xs)"
  by (induction xs) auto

lemma keeps_if [intro]: "keeps P m \<Longrightarrow> keeps P n \<Longrightarrow> keeps P (if b then m else n)"
  by simp

lemma keeps_Let: "(\<And>a. keeps P (f a)) \<Longrightarrow> keeps P (Let x f)"
  by simp

lemma keeps_case_sum:
  "(\<And>a. keeps P (f a)) \<Longrightarrow> (\<And>b. keeps P (g b)) \<Longrightarrow> keeps P (case x of Inl a \<Rightarrow> f a | Inr b \<Rightarrow> g b)"
  by (cases x) auto

lemma keeps_case_option:
  "keeps P m \<Longrightarrow> (\<And>b. keeps P (g b)) \<Longrightarrow> keeps P (case x of None \<Rightarrow> m | Some b \<Rightarrow> g b)"
  by (cases x) auto

lemma keeps_case_list:
  "keeps P m \<Longrightarrow> (\<And>a b. keeps P (g a b)) \<Longrightarrow> keeps P (case x of [] \<Rightarrow> m | a # b \<Rightarrow> g a b)"
  by (cases x) auto

lemma keeps_case_prod: "(\<And>a b. keeps P (g a b)) \<Longrightarrow> keeps P (case x of (a, b) \<Rightarrow> g a b)"
  by (cases x) auto

lemma keeps_forA_in: "(\<And>x. x \<in> set xs \<Longrightarrow> keeps P (body x)) \<Longrightarrow> keeps P (forA body xs)"
  by (induction xs) auto

text \<open>The rules that follow the structure of a handler.\<close>

lemmas keeps_rules = keeps_retA keeps_throwA keeps_liftR keeps_readA keeps_bindA keeps_tryA
  keeps_forA keeps_if keeps_Let keeps_case_sum keeps_case_option keeps_case_list keeps_case_prod

lemma forA_append:
  "forA body (xs @ ys) = bindA (forA body xs) (\<lambda>_. forA body ys)"
  by (induction xs) (auto simp: bindA_def retA_def fun_eq_iff split: prod.splits sum.splits)

text \<open>A loop that succeeded went through its body for every element.\<close>

lemma forA_Inr_Cons:
  "forA body (x # xs) s = (Inr (), s') \<longleftrightarrow>
     (\<exists>t. body x s = (Inr (), t) \<and> forA body xs t = (Inr (), s'))"
  by (auto simp: bindA_run split: prod.splits sum.splits)

section \<open>Machine integers\<close>

text \<open>
  Go's \<open>int64\<close> and \<open>uint64\<close> values are read as integers; arithmetic on them wraps through the
  word type of the same width.
\<close>

definition i64 :: "int \<Rightarrow> int" where
  "i64 n = sint (word_of_int n :: 64 word)"

definition u64 :: "int \<Rightarrow> int" where
  "u64 n = uint (word_of_int n :: 64 word)"

lemma u64_mod: "u64 n = n mod 2 ^ 64"
  by (simp add: u64_def uint_word_of_int)

lemma u64_id: "0 \<le> n \<Longrightarrow> n < 2 ^ 64 \<Longrightarrow> u64 n = n"
  by (simp add: u64_mod)

lemma u64_range: "0 \<le> u64 n \<and> u64 n < 2 ^ 64"
  by (simp add: u64_mod)

lemma i64_signed_take_bit: "i64 n = signed_take_bit 63 n"
  by (simp add: i64_def sint_sbintrunc')

lemma i64_id: "- (2 ^ 63) \<le> n \<Longrightarrow> n < 2 ^ 63 \<Longrightarrow> i64 n = n"
  by (simp add: i64_signed_take_bit signed_take_bit_int_eq_self)

lemma i64_add_left: "i64 (i64 a + b) = i64 (a + b)"
  by (simp add: i64_def)

lemma i64_add_right: "i64 (a + i64 b) = i64 (a + b)"
  by (simp add: i64_def)

lemma i64_minus: "i64 (- i64 a) = i64 (- a)"
  by (simp add: i64_def)

lemma i64_0 [simp]: "i64 0 = 0"
  by (simp add: i64_def)

section \<open>Times\<close>

text \<open>
  A time is the number of milliseconds since Go's zero time (the first of January of year 1,
  UTC), the precision at which the database stores it; the zero time, for which \<open>IsZero\<close>
  holds, is 0. \<open>Unix\<close> counts seconds since 1970. \<open>Sub\<close> gives nanoseconds and saturates at the
  bounds of \<open>int64\<close>, as \<open>time.Time.Sub\<close> does.
\<close>

type_synonym gotime = int

definition unix_epoch :: gotime where
  "unix_epoch = 62135596800000"

definition time_IsZero :: "gotime \<Rightarrow> bool" where
  "time_IsZero t = (t = 0)"

definition time_Unix :: "gotime \<Rightarrow> int" where
  "time_Unix t = (t - unix_epoch) div 1000"

definition time_of_Unix :: "int \<Rightarrow> gotime" where
  "time_of_Unix n = n * 1000 + unix_epoch"

definition time_Sub :: "gotime \<Rightarrow> gotime \<Rightarrow> int" where
  "time_Sub a b = max (- (2 ^ 63)) (min (2 ^ 63 - 1) ((a - b) * 1000000))"

lemma time_Sub_nonpos: "time_Sub a b \<le> 0 \<longleftrightarrow> a \<le> b"
  by (auto simp: time_Sub_def max_def min_def)

lemma time_Sub_zero: "time_Sub a b = 0 \<longleftrightarrow> a = b"
  by (auto simp: time_Sub_def max_def min_def)

lemma time_Unix_of_Unix [simp]: "time_Unix (time_of_Unix n) = n"
  by (simp add: time_Unix_def time_of_Unix_def)

section \<open>Lists\<close>

text \<open>The first element that satisfies a predicate, replaced or removed.\<close>

fun upd1 :: "('d \<Rightarrow> bool) \<Rightarrow> ('d \<Rightarrow> 'd) \<Rightarrow> 'd list \<Rightarrow> 'd list" where
  "upd1 p f [] = []"
| "upd1 p f (d # ds) = (if p d then f d # ds else d # upd1 p f ds)"

fun del1 :: "('d \<Rightarrow> bool) \<Rightarrow> 'd list \<Rightarrow> 'd list" where
  "del1 p [] = []"
| "del1 p (d # ds) = (if p d then ds else d # del1 p ds)"

lemma length_upd1 [simp]: "length (upd1 p f ds) = length ds"
  by (induction ds) auto

lemma upd1_none: "(\<And>d. d \<in> set ds \<Longrightarrow> \<not> p d) \<Longrightarrow> upd1 p f ds = ds"
  by (induction ds) auto

lemma upd1_cong: "(\<And>d. d \<in> set ds \<Longrightarrow> p d = q d) \<Longrightarrow> upd1 p f ds = upd1 q f ds"
  by (induction ds) auto

lemma map_upd1_inv: "(\<And>d. p d \<Longrightarrow> g (f d) = g d) \<Longrightarrow> map g (upd1 p f ds) = map g ds"
  by (induction ds) auto

lemma set_upd1: "x \<in> set (upd1 p f ds) \<Longrightarrow> x \<in> set ds \<or> (\<exists>d\<in>set ds. p d \<and> x = f d)"
  by (induction ds) (auto split: if_splits)

lemma find_upd1:
  assumes "\<And>d. p d \<Longrightarrow> q (f d) \<longleftrightarrow> q d" and "\<And>d. p d \<Longrightarrow> q d"
  shows "List.find q (upd1 p f ds) =
    (case List.find q ds of
       None \<Rightarrow> None
     | Some d \<Rightarrow> Some (if p d then f d else d))" (is "?l = ?r")
proof (induction ds)
  case Nil
  then show ?case by simp
next
  case (Cons d ds)
  then show ?case
    by (cases "p d"; cases "q d") (auto simp: assms)
qed

lemma find_upd1_other:
  assumes "\<And>d. p d \<Longrightarrow> \<not> q d" and "\<And>d. p d \<Longrightarrow> \<not> q (f d)"
  shows "List.find q (upd1 p f ds) = List.find q ds"
  by (induction ds) (auto simp: assms)

lemma find_append: "List.find p (xs @ ys) = (case List.find p xs of None \<Rightarrow> List.find p ys | Some x \<Rightarrow> Some x)"
  by (induction xs) auto

lemma find_Some_set: "List.find p xs = Some x \<Longrightarrow> x \<in> set xs \<and> p x"
  by (induction xs) (auto split: if_splits)

lemma find_key: "distinct (map k ds) \<Longrightarrow> d \<in> set ds \<Longrightarrow> List.find (\<lambda>b. k b = k d) ds = Some d"
  by (induction ds) (auto simp: rev_image_eqI)

lemma find_None: "List.find p xs = None \<longleftrightarrow> (\<forall>x\<in>set xs. \<not> p x)"
  by (induction xs) auto

text \<open>A list cut into consecutive pages of at most \<open>n\<close> elements.\<close>

function chunks :: "nat \<Rightarrow> 'a list \<Rightarrow> 'a list list" where
  "chunks n xs = (if n = 0 \<or> xs = [] then [] else take n xs # chunks n (drop n xs))"
  by pat_completeness auto
termination
  by (relation "measure (\<lambda>(n, xs). length xs)") auto

declare chunks.simps [simp del]

lemma chunks_nil [simp]: "chunks n [] = []"
  by (subst chunks.simps) simp

lemma concat_chunks: "0 < n \<Longrightarrow> concat (chunks n xs) = xs"
proof (induction n xs rule: chunks.induct)
  case (1 n xs)
  then show ?case
    by (subst chunks.simps) auto
qed

lemma chunks_bound: "ys \<in> set (chunks n xs) \<Longrightarrow> length ys \<le> n \<and> ys \<noteq> []"
proof (induction n xs rule: chunks.induct)
  case (1 n xs)
  from "1.prems" show ?case
    using "1.IH" by (subst (asm) chunks.simps) (auto split: if_splits)
qed

lemma fold_add_sum_list: "fold (\<lambda>x acc. acc + f x) xs (a :: int) = a + sum_list (map f xs)"
  by (induction xs arbitrary: a) auto

end
