(* ===== verification/GoStrings.thy ===== *)
theory GoStrings
  imports Prelude "HOL-Library.Char_ord" "HOL-Library.List_Lexorder"
begin

text \<open>
  The functions of Go's \<open>strings\<close>, \<open>strconv\<close> and \<open>math/big\<close> packages that the repository calls,
  on byte strings: splitting and joining, prefixes and substrings, parsing and printing of
  numbers. \<open>to_lower\<close> folds the ASCII letters and leaves the other bytes alone. The order on
  strings is the bytewise lexicographic one, as Go compares them, so \<open>sort\<close> is \<open>sort.Strings\<close>.
\<close>

section \<open>Prefixes and substrings\<close>

definition has_prefix :: "string \<Rightarrow> string \<Rightarrow> bool" where
  "has_prefix p s = (take (length p) s = p)"

fun contains :: "string \<Rightarrow> string \<Rightarrow> bool" where
  "contains sub [] = (sub = [])"
| "contains sub (c # s) = (has_prefix sub (c # s) \<or> contains sub s)"

definition trim_prefix :: "string \<Rightarrow> string \<Rightarrow> string" where
  "trim_prefix p s = (if has_prefix p s then drop (length p) s else s)"

definition trim_left_char :: "char \<Rightarrow> string \<Rightarrow> string" where
  "trim_left_char c s = dropWhile (\<lambda>x. x = c) s"

text \<open>\<open>strings.TrimSpace\<close>, for the white space of ASCII.\<close>

definition is_space :: "char \<Rightarrow> bool" where
  "is_space ch = (let n = of_char ch :: nat in (9 \<le> n \<and> n \<le> 13) \<or> n = 32)"

definition TrimSpace :: "string \<Rightarrow> string" where
  "TrimSpace s = rev (dropWhile is_space (rev (dropWhile is_space s)))"

lemma has_prefix_append [simp]: "has_prefix p (p @ s)"
  by (simp add: has_prefix_def)

lemma has_prefix_iff: "has_prefix p s \<longleftrightarrow> (\<exists>t. s = p @ t)"
  by (metis append_take_drop_id has_prefix_append has_prefix_def)

lemma has_prefix_refl [simp]: "has_prefix s s"
  by (simp add: has_prefix_def)

definition lower_char :: "char \<Rightarrow> char" where
  "lower_char c = (let n = of_char c :: nat in if 65 \<le> n \<and> n \<le> 90 then char_of (n + 32) else c)"

definition to_lower :: "string \<Rightarrow> string" where
  "to_lower s = map lower_char s"

lemma lower_char_idem [simp]: "lower_char (lower_char c) = lower_char c"
proof -
  have "(of_char (char_of (n + 32) :: char) :: nat) = n + 32" if "n \<le> 90" for n :: nat
    using that by simp
  then show ?thesis by (auto simp: lower_char_def Let_def)
qed

lemma to_lower_idem [simp]: "to_lower (to_lower s) = to_lower s"
  by (simp add: to_lower_def)

section \<open>Splitting and joining\<close>

text \<open>\<open>strings.Split\<close> with a separator that is not empty.\<close>

function split :: "string \<Rightarrow> string \<Rightarrow> string list" where
  "split sep s =
     (if s = [] then [[]]
      else if sep \<noteq> [] \<and> has_prefix sep s then [] # split sep (drop (length sep) s)
      else (case split sep (tl s) of
              [] \<Rightarrow> [[hd s]]
            | p # ps \<Rightarrow> (hd s # p) # ps))"
  by pat_completeness auto
termination
  by (relation "measure (\<lambda>(sep, s). length s)") auto

declare split.simps [simp del]

fun join :: "string \<Rightarrow> string list \<Rightarrow> string" where
  "join sep [] = []"
| "join sep [x] = x"
| "join sep (x # y # zs) = x @ sep @ join sep (y # zs)"

lemma split_Nil [simp]: "split sep [] = [[]]"
  by (subst split.simps) simp

lemma split_not_Nil [simp]: "split sep s \<noteq> []"
  by (subst split.simps) (simp split: list.splits)

lemma split_sep: "split [c] (c # s) = [] # split [c] s"
  by (subst split.simps) (simp add: has_prefix_def)

lemma split_char: "x \<noteq> c \<Longrightarrow> split [c] (x # s) = (x # hd (split [c] s)) # tl (split [c] s)"
  by (subst split.simps) (auto simp: has_prefix_def split: list.splits)

lemma split_atom: "c \<notin> set s \<Longrightarrow> split [c] s = [s]"
  by (induction s) (auto simp: split_char)

lemma split_append: "c \<notin> set s \<Longrightarrow> split [c] (s @ c # t) = s # split [c] t"
  by (induction s) (auto simp: split_char split_sep)

lemma split_join:
  assumes "ps \<noteq> []" and "\<And>p. p \<in> set ps \<Longrightarrow> c \<notin> set p"
  shows "split [c] (join [c] ps) = ps"
  using assms
proof (induction "[c]" ps rule: join.induct)
  case (3 x y zs)
  then show ?case by (simp add: split_append)
qed (simp_all add: split_atom)

lemma join_split: "join [c] (split [c] s) = s"
proof (induction s)
  case Nil
  then show ?case by simp
next
  case (Cons x s)
  obtain p ps where "split [c] s = p # ps" by (cases "split [c] s") auto
  with Cons show ?case
    by (cases "x = c"; cases ps) (auto simp: split_sep split_char)
qed

lemma split_no_sep_char: "p \<in> set (split [c] s) \<Longrightarrow> c \<notin> set p"
proof (induction s arbitrary: p)
  case Nil
  then show ?case by simp
next
  case (Cons x s)
  obtain q qs where "split [c] s = q # qs" by (cases "split [c] s") auto
  with Cons show ?case
    by (cases "x = c") (auto simp: split_sep split_char)
qed

section \<open>Numbers\<close>

definition digit_val :: "char \<Rightarrow> nat option" where
  "digit_val c = (let n = of_char c :: nat in
     if 48 \<le> n \<and> n \<le> 57 then Some (n - 48)
     else if 97 \<le> n \<and> n \<le> 122 then Some (n - 87)
     else if 65 \<le> n \<and> n \<le> 90 then Some (n - 55)
     else None)"

definition digit_char :: "nat \<Rightarrow> char" where
  "digit_char d = (if d < 10 then char_of (48 + d) else char_of (87 + d))"

fun parse_digits :: "nat \<Rightarrow> nat \<Rightarrow> string \<Rightarrow> nat option" where
  "parse_digits base acc [] = Some acc"
| "parse_digits base acc (c # cs) =
     (case digit_val c of
        None \<Rightarrow> None
      | Some v \<Rightarrow> if v < base then parse_digits base (acc * base + v) cs else None)"

definition parse_nat :: "nat \<Rightarrow> string \<Rightarrow> nat option" where
  "parse_nat base s = (if s = [] then None else parse_digits base 0 s)"

text \<open>\<open>new(big.Int).SetString(s, base)\<close> for bases 10 and 16: an optional sign, then digits.\<close>

definition big_SetString :: "nat \<Rightarrow> string \<Rightarrow> int option" where
  "big_SetString base s =
     (case s of
        [] \<Rightarrow> None
      | c # cs \<Rightarrow>
          if c = CHR ''-'' then map_option (\<lambda>n. - int n) (parse_nat base cs)
          else if c = CHR ''+'' then map_option int (parse_nat base cs)
          else map_option int (parse_nat base s))"

function nat_digits :: "nat \<Rightarrow> nat \<Rightarrow> string" where
  "nat_digits base n =
     (if base < 2 \<or> n < base then [digit_char n]
      else nat_digits base (n div base) @ [digit_char (n mod base)])"
  by pat_completeness auto
termination
  by (relation "measure (\<lambda>(base, n). n)") auto

declare nat_digits.simps [simp del]

text \<open>\<open>x.Text(base)\<close>.\<close>

definition big_Text :: "nat \<Rightarrow> int \<Rightarrow> string" where
  "big_Text base n =
     (if n < 0 then CHR ''-'' # nat_digits base (nat (- n)) else nat_digits base (nat n))"

text \<open>\<open>strconv.ParseUint(s, 10, 64)\<close>, \<open>strconv.ParseInt(s, 10, 64)\<close> and \<open>strconv.Atoi\<close>.\<close>

definition parse_uint64 :: "string \<Rightarrow> int option" where
  "parse_uint64 s =
     (case parse_nat 10 s of
        None \<Rightarrow> None
      | Some n \<Rightarrow> if n < 2 ^ 64 then Some (int n) else None)"

definition parse_int64 :: "string \<Rightarrow> int option" where
  "parse_int64 s =
     (case big_SetString 10 s of
        None \<Rightarrow> None
      | Some n \<Rightarrow> if - (2 ^ 63) \<le> n \<and> n < 2 ^ 63 then Some n else None)"

lemma digit_val_digit_char: "d < 16 \<Longrightarrow> digit_val (digit_char d) = Some d"
  by (auto simp: digit_val_def digit_char_def Let_def)

lemma digit_char_not_sign: "d < 16 \<Longrightarrow> digit_char d \<noteq> CHR ''-'' \<and> digit_char d \<noteq> CHR ''+''"
proof -
  assume "d < 16"
  then have "digit_val (digit_char d) \<noteq> None" by (simp add: digit_val_digit_char)
  then show ?thesis by (auto simp: digit_val_def)
qed

lemma nat_digits_not_Nil [simp]: "nat_digits base n \<noteq> []"
  by (subst nat_digits.simps) simp

lemma mod_base_16: "2 \<le> base \<Longrightarrow> base \<le> 16 \<Longrightarrow> n mod base < (16 :: nat)"
  using mod_less_divisor [of base n] by linarith

lemma nat_digits_no_sign:
  "2 \<le> base \<Longrightarrow> base \<le> 16 \<Longrightarrow> CHR ''-'' \<notin> set (nat_digits base n) \<and> CHR ''+'' \<notin> set (nat_digits base n)"
proof (induction base n rule: nat_digits.induct)
  case (1 base n)
  have m: "n mod base < 16" using "1.prems" by (rule mod_base_16)
  show ?case
  proof (cases "n < base")
    case True
    with "1.prems" have "n < 16" by simp
    with True show ?thesis
      using digit_char_not_sign [of n] by (subst (1 2) nat_digits.simps) auto
  next
    case False
    with 1 m show ?thesis
      using digit_char_not_sign [of "n mod base"] by (subst (1 2) nat_digits.simps) auto
  qed
qed

lemma parse_digits_append:
  "parse_digits base acc (s @ t) =
     (case parse_digits base acc s of None \<Rightarrow> None | Some a \<Rightarrow> parse_digits base a t)"
  by (induction s arbitrary: acc) (auto split: option.splits)

lemma parse_digits_nat_digits:
  "2 \<le> base \<Longrightarrow> base \<le> 16 \<Longrightarrow> parse_digits base 0 (nat_digits base n) = Some n"
proof (induction base n rule: nat_digits.induct)
  case (1 base n)
  show ?case
  proof (cases "n < base")
    case True
    with "1.prems" show ?thesis
      by (subst nat_digits.simps) (simp add: digit_val_digit_char)
  next
    case False
    have "n mod base < base" using "1.prems" by simp
    have m: "n mod base < 16" using "1.prems" by (rule mod_base_16)
    from m have "digit_val (digit_char (n mod base)) = Some (n mod base)"
      by (rule digit_val_digit_char)
    with False 1 \<open>n mod base < base\<close> show ?thesis
      by (subst nat_digits.simps) (simp add: parse_digits_append)
  qed
qed

lemma parse_nat_nat_digits: "2 \<le> base \<Longrightarrow> base \<le> 16 \<Longrightarrow> parse_nat base (nat_digits base n) = Some n"
  by (simp add: parse_nat_def parse_digits_nat_digits)

lemma big_SetString_Text:
  assumes "2 \<le> base" and "base \<le> 16"
  shows "big_SetString base (big_Text base n) = Some n"
proof -
  obtain c cs where d: "nat_digits base (nat n) = c # cs"
    by (cases "nat_digits base (nat n)") auto
  from nat_digits_no_sign [OF assms, of "nat n"] d have "c \<noteq> CHR ''-''" "c \<noteq> CHR ''+''" by auto
  with d parse_nat_nat_digits [OF assms, of "nat n"] parse_nat_nat_digits [OF assms, of "nat (- n)"]
  show ?thesis by (auto simp: big_SetString_def big_Text_def)
qed

lemma big_Text_nonneg_no_dash:
  "0 \<le> n \<Longrightarrow> 2 \<le> base \<Longrightarrow> base \<le> 16 \<Longrightarrow> CHR ''-'' \<notin> set (big_Text base n)"
  using nat_digits_no_sign [of base "nat n"] by (simp add: big_Text_def)

lemma parse_uint64_Text: "0 \<le> n \<Longrightarrow> n < 2 ^ 64 \<Longrightarrow> parse_uint64 (big_Text 10 n) = Some n"
  using parse_nat_nat_digits [of 10 "nat n"]
  by (simp add: parse_uint64_def big_Text_def nat_less_iff)

lemma parse_uint64_range: "parse_uint64 s = Some n \<Longrightarrow> 0 \<le> n \<and> n < 2 ^ 64"
  by (auto simp: parse_uint64_def split: option.splits if_splits)

lemma parse_int64_range: "parse_int64 s = Some n \<Longrightarrow> - (2 ^ 63) \<le> n \<and> n < 2 ^ 63"
  by (auto simp: parse_int64_def split: option.splits if_splits)

end
