(* ===== verification/Types.thy ===== *)
theory Types
  imports GoStrings
begin

text \<open>
  The data model of \<open>structs.go\<close> and \<open>schema.go\<close>: one record per struct, the fields in the
  order of the source with a prefix for the struct. A pointer that may be nil is an option, and
  so is a slice or a map of a token for which nil (null in the database) and empty differ; a
  Go map that the code only looks up and stores into is a partial function, a Go map that the
  code iterates over is an association list, a \<open>float64\<close> is its bit pattern. Fields that hold an
  arbitrary JSON value have the type \<open>json\<close>.
\<close>

section \<open>JSON values\<close>

text \<open>A \<open>primitive.Decimal128\<close> is its bit pattern.\<close>

type_synonym decimal128 = "128 word"

text \<open>
  The dynamic value of an \<open>interface{}\<close>: what the decoder of JSON makes, and the decimal that the
  decoder of BSON makes.
\<close>

datatype json =
    JNull
  | JBool bool
  | JNum string
  | JStr string
  | JArr "json list"
  | JObj "(string \<times> json) list"
  | JDec decimal128

text \<open>Type assertions \<open>v.(string)\<close>, \<open>v.([]interface{})\<close>, \<open>v.(map[string]interface{})\<close>.\<close>

fun as_string :: "json \<Rightarrow> string option" where
  "as_string (JStr s) = Some s"
| "as_string _ = None"

fun as_slice :: "json \<Rightarrow> json list option" where
  "as_slice (JArr xs) = Some xs"
| "as_slice _ = None"

fun as_map :: "json \<Rightarrow> (string \<times> json) list option" where
  "as_map (JObj kvs) = Some kvs"
| "as_map _ = None"

text \<open>A lookup \<open>m[k]\<close>, with the nil interface for a missing key.\<close>

definition jlookup :: "(string \<times> json) list \<Rightarrow> string \<Rightarrow> json" where
  "jlookup m k = (case map_of m k of None \<Rightarrow> JNull | Some v \<Rightarrow> v)"

type_synonym float64 = "64 word"
type_synonym Medium = string

abbreviation MediumUnknown :: Medium where "MediumUnknown \<equiv> ''unknown''"
abbreviation MediumVideo :: Medium where "MediumVideo \<equiv> ''video''"
abbreviation MediumImage :: Medium where "MediumImage \<equiv> ''image''"
abbreviation MediumSoftware :: Medium where "MediumSoftware \<equiv> ''software''"
abbreviation MediumOther :: Medium where "MediumOther \<equiv> ''other''"

section \<open>Tokens and provenance\<close>

record Provenance =
  prov_FormerOwner :: "string option"
  prov_Type :: string
  prov_Owner :: string
  prov_Blockchain :: string
  prov_BlockNumber :: "int option"
  prov_Timestamp :: gotime
  prov_TxID :: string
  prov_TxURL :: string

record BaseTokenInfo =
  base_ID :: string
  base_Blockchain :: string
  base_Fungible :: bool
  base_ContractType :: string
  base_ContractAddress :: string

record Token =
  tok_Base :: BaseTokenInfo
  tok_Edition :: int
  tok_EditionName :: string
  tok_MintedAt :: gotime
  tok_Balance :: int
  tok_Owner :: string
  tok_Owners :: "(string \<rightharpoonup> int) option"
  tok_OwnersArray :: "string list option"
  tok_AssetID :: string
  tok_OriginTokenInfo :: "BaseTokenInfo list"
  tok_IsDemo :: bool
  tok_IndexID :: string
  tok_Source :: string
  tok_Swapped :: bool
  tok_SwappedFrom :: "string option"
  tok_SwappedTo :: "string option"
  tok_Burned :: bool
  tok_Provenances :: "Provenance list option"
  tok_LastActivityTime :: gotime
  tok_LastRefreshedTime :: gotime

text \<open>The promoted fields of the embedded \<open>BaseTokenInfo\<close>.\<close>

abbreviation tok_ID :: "Token \<Rightarrow> string" where "tok_ID t \<equiv> base_ID (tok_Base t)"
abbreviation tok_Blockchain :: "Token \<Rightarrow> string" where "tok_Blockchain t \<equiv> base_Blockchain (tok_Base t)"
abbreviation tok_Fungible :: "Token \<Rightarrow> bool" where "tok_Fungible t \<equiv> base_Fungible (tok_Base t)"
abbreviation tok_ContractAddress :: "Token \<Rightarrow> string" where
  "tok_ContractAddress t \<equiv> base_ContractAddress (tok_Base t)"

section \<open>Assets\<close>

record AssetConfiguration =
  cfg_Scaling :: string
  cfg_BackgroundColor :: string
  cfg_MarginLeft :: float64
  cfg_MarginRight :: float64
  cfg_MarginTop :: float64
  cfg_MarginBottom :: float64
  cfg_AutoPlay :: bool
  cfg_Looping :: bool
  cfg_Interactable :: bool
  cfg_Overridable :: bool

record AssetAttributes =
  attr_Configuration :: "AssetConfiguration option"

record Artist =
  artist_ID :: string
  artist_Name :: string
  artist_URL :: string

record ProjectMetadata =
  pm_ArtistID :: string
  pm_ArtistName :: string
  pm_ArtistURL :: string
  pm_Artists :: "Artist list"
  pm_AssetID :: string
  pm_Title :: string
  pm_Description :: string
  pm_MIMEType :: string
  pm_Medium :: Medium
  pm_MaxEdition :: int
  pm_BaseCurrency :: string
  pm_BasePrice :: float64
  pm_Source :: string
  pm_SourceURL :: string
  pm_PreviewURL :: string
  pm_ThumbnailURL :: string
  pm_GalleryThumbnailURL :: string
  pm_AssetData :: string
  pm_AssetURL :: string
  pm_Attributes :: "AssetAttributes option"
  pm_ArtworkMetadata :: "(string \<times> json) list"
  pm_LastUpdatedAt :: gotime
  pm_InitialSaleModel :: string
  pm_OriginalFileURL :: string

record AssetUpdates =
  au_ID :: string
  au_Source :: string
  au_ProjectMetadata :: ProjectMetadata
  au_BlockchainMetadata :: json
  au_Tokens :: "Token list"

record SwapUpdate =
  swap_OriginalTokenID :: string
  swap_OriginalBlockchain :: string
  swap_OriginalContractAddress :: string
  swap_NewTokenID :: string
  swap_NewBlockchain :: string
  swap_NewContractAddress :: string
  swap_NewContractType :: string
  swap_ProjectMetadata :: ProjectMetadata
  swap_BlockchainMetadata :: json

record VersionedProjectMetadata =
  vpm_Origin :: ProjectMetadata
  vpm_Latest :: ProjectMetadata

text \<open>
  A document of the \<open>assets\<close> collection: the fields \<open>AssetUpdateSet\<close> writes and those other
  writers add to it.
\<close>

record AssetDoc =
  asset_ID :: string
  asset_IndexID :: string
  asset_Source :: string
  asset_BlockchainMetadata :: json
  asset_ProjectMetadata :: VersionedProjectMetadata
  asset_LastRefreshedTime :: gotime
  asset_ThumbnailID :: "string option"
  asset_IPFSPinned :: bool
  asset_Attributes :: "AssetAttributes option"

text \<open>The summary of a token and its asset, as the first version of the API returns it.\<close>

record DetailedToken =
  dt_Token :: Token
  dt_ThumbnailID :: string
  dt_IPFSPinned :: bool
  dt_Attributes :: "AssetAttributes option"
  dt_ProjectMetadata :: VersionedProjectMetadata

record AssetV2 =
  av2_IndexID :: string
  av2_ThumbnailID :: string
  av2_LastRefreshedTime :: gotime
  av2_Attributes :: "AssetAttributes option"
  av2_ProjectMetadata :: VersionedProjectMetadata
  av2_StaticPreviewURLLandscape :: "string option"
  av2_StaticPreviewURLPortrait :: "string option"

record DetailedTokenV2 =
  dt2_Token :: Token
  dt2_IPFSPinned :: bool
  dt2_Asset :: AssetV2

section \<open>Accounts, identities, collections\<close>

record AccountIdentity =
  ident_AccountNumber :: string
  ident_Blockchain :: string
  ident_Name :: string
  ident_LastUpdatedTime :: gotime

record Account =
  acc_Account :: string
  acc_Blockchain :: string
  acc_LastUpdatedTime :: gotime
  acc_LastActivityTime :: gotime

record AccountToken =
  at_Base :: BaseTokenInfo
  at_IndexID :: string
  at_OwnerAccount :: string
  at_Balance :: int
  at_LastActivityTime :: gotime
  at_LastRefreshedTime :: gotime
  at_LastPendingTime :: "gotime list"
  at_PendingTxs :: "string list"

record EthereumContractAddresses =
  eca_ERC721 :: "string list"
  eca_ERC1155 :: "string list"

record TezosContractAddresses =
  tca_FA2 :: "string list"

record ContractAddresses =
  ca_Ethereum :: EthereumContractAddresses
  ca_Tezos :: TezosContractAddresses

record Collection =
  col_ID :: string
  col_ExternalID :: string
  col_Creators :: "string list"
  col_Name :: string
  col_Description :: string
  col_Items :: int
  col_ImageURL :: string
  col_Contracts :: ContractAddresses
  col_Published :: bool
  col_Source :: string
  col_ExternalURL :: string
  col_Metadata :: "(string \<times> json) list"
  col_LastUpdatedTime :: gotime
  col_CreatedAt :: gotime

text \<open>A document of \<open>asset_static_preview_url\<close>, which the view \<open>token_assets\<close> joins.\<close>

record StaticPreview =
  sp_AssetID :: string
  sp_LandscapeURL :: "string option"
  sp_PortraitURL :: "string option"

record CollectionAsset =
  cas_CollectionID :: string
  cas_TokenIndexID :: string
  cas_Edition :: int
  cas_LastActivityTime :: gotime
  cas_RunID :: string

text \<open>The zero values of the structs, as \<open>var x T\<close> gives them.\<close>

definition zero_BaseTokenInfo :: BaseTokenInfo where
  "zero_BaseTokenInfo = \<lparr>base_ID = [], base_Blockchain = [], base_Fungible = False,
     base_ContractType = [], base_ContractAddress = []\<rparr>"

definition zero_Account :: Account where
  "zero_Account = \<lparr>acc_Account = [], acc_Blockchain = [], acc_LastUpdatedTime = 0,
     acc_LastActivityTime = 0\<rparr>"

definition zero_AccountIdentity :: AccountIdentity where
  "zero_AccountIdentity = \<lparr>ident_AccountNumber = [], ident_Blockchain = [], ident_Name = [],
     ident_LastUpdatedTime = 0\<rparr>"

definition zero_AccountToken :: AccountToken where
  "zero_AccountToken = \<lparr>at_Base = zero_BaseTokenInfo, at_IndexID = [], at_OwnerAccount = [],
     at_Balance = 0, at_LastActivityTime = 0, at_LastRefreshedTime = 0, at_LastPendingTime = [],
     at_PendingTxs = []\<rparr>"

definition zero_Token :: Token where
  "zero_Token = \<lparr>tok_Base = zero_BaseTokenInfo, tok_Edition = 0, tok_EditionName = [],
     tok_MintedAt = 0, tok_Balance = 0, tok_Owner = [], tok_Owners = None,
     tok_OwnersArray = None, tok_AssetID = [], tok_OriginTokenInfo = [], tok_IsDemo = False,
     tok_IndexID = [], tok_Source = [], tok_Swapped = False, tok_SwappedFrom = None,
     tok_SwappedTo = None, tok_Burned = False, tok_Provenances = None, tok_LastActivityTime = 0,
     tok_LastRefreshedTime = 0\<rparr>"

definition zero_ProjectMetadata :: ProjectMetadata where
  "zero_ProjectMetadata = \<lparr>pm_ArtistID = [], pm_ArtistName = [], pm_ArtistURL = [],
     pm_Artists = [], pm_AssetID = [], pm_Title = [], pm_Description = [], pm_MIMEType = [],
     pm_Medium = [], pm_MaxEdition = 0, pm_BaseCurrency = [], pm_BasePrice = 0, pm_Source = [],
     pm_SourceURL = [], pm_PreviewURL = [], pm_ThumbnailURL = [], pm_GalleryThumbnailURL = [],
     pm_AssetData = [], pm_AssetURL = [], pm_Attributes = None, pm_ArtworkMetadata = [],
     pm_LastUpdatedAt = 0, pm_InitialSaleModel = [], pm_OriginalFileURL = []\<rparr>"

definition zero_Collection :: Collection where
  "zero_Collection = \<lparr>col_ID = [], col_ExternalID = [], col_Creators = [], col_Name = [],
     col_Description = [], col_Items = 0, col_ImageURL = [],
     col_Contracts = \<lparr>ca_Ethereum = \<lparr>eca_ERC721 = [], eca_ERC1155 = []\<rparr>,
                      ca_Tezos = \<lparr>tca_FA2 = []\<rparr>\<rparr>,
     col_Published = False, col_Source = [], col_ExternalURL = [], col_Metadata = [],
     col_LastUpdatedTime = 0, col_CreatedAt = 0\<rparr>"

section \<open>Sales and exchange rates\<close>

record GenericSalesTimeSeries =
  gst_Timestamp :: string
  gst_Metadata :: "(string \<times> json) list"
  gst_Values :: "(string \<times> string) list"
  gst_Shares :: "(string \<times> string) list"

text \<open>
  A document of the \<open>sales_time_series\<close> collection: the timestamp, the metadata, the amounts
  (\<open>Values\<close> parsed to decimals) and the shares.
\<close>

record SaleDoc =
  sale_Timestamp :: gotime
  sale_Metadata :: "(string \<times> json) list"
  sale_Values :: "(string \<times> decimal128) list"
  sale_Shares :: "(string \<times> decimal128) list"

record ExchangeRate =
  er_Timestamp :: gotime
  er_Price :: float64
  er_CurrencyPair :: string

record SeriesMetadata =
  sm_Name :: string
  sm_Description :: string
  sm_Image :: string
  sm_ExternalURL :: string
  sm_Metadata :: "(string \<times> json) list"
  sm_MetadataVersion :: string

section \<open>Token registries\<close>

type_synonym ContractTokens = "(string \<times> string list) list"

record EthereumContracts =
  ec_ERC721 :: ContractTokens
  ec_ERC1155 :: ContractTokens

record TezosContracts =
  tc_FA2 :: ContractTokens

record TokenRegistry =
  tr_Ethereum :: EthereumContracts
  tr_Tezos :: TezosContracts

definition CT_ContractAddresses :: "ContractTokens \<Rightarrow> string list" where
  "CT_ContractAddresses ct = map fst ct"

definition EC_ContractAddressMap :: "EthereumContracts \<Rightarrow> EthereumContractAddresses" where
  "EC_ContractAddressMap ec =
     \<lparr>eca_ERC721 = CT_ContractAddresses (ec_ERC721 ec),
      eca_ERC1155 = CT_ContractAddresses (ec_ERC1155 ec)\<rparr>"

definition TC_ContractAddressMap :: "TezosContracts \<Rightarrow> TezosContractAddresses" where
  "TC_ContractAddressMap tc = \<lparr>tca_FA2 = CT_ContractAddresses (tc_FA2 tc)\<rparr>"

definition AllContractAddresses :: "TokenRegistry \<Rightarrow> ContractAddresses" where
  "AllContractAddresses tr =
     \<lparr>ca_Ethereum = EC_ContractAddressMap (tr_Ethereum tr),
      ca_Tezos = TC_ContractAddressMap (tr_Tezos tr)\<rparr>"

text \<open>The three loops of \<open>TotalSupply\<close>, one after the other.\<close>

fun add_lengths :: "int \<Rightarrow> ContractTokens \<Rightarrow> int" where
  "add_lengths n [] = n"
| "add_lengths n ((c, ids) # ct) = add_lengths (n + int (length ids)) ct"

definition TotalSupply :: "TokenRegistry \<Rightarrow> int" where
  "TotalSupply tr =
     (let total = add_lengths 0 (ec_ERC721 (tr_Ethereum tr));
          total = add_lengths total (ec_ERC1155 (tr_Ethereum tr))
      in add_lengths total (tc_FA2 (tr_Tezos tr)))"

lemma add_lengths_sum: "add_lengths n ct = n + int (length (concat (map snd ct)))"
  by (induction n ct rule: add_lengths.induct) auto

text \<open>All the tokens of a registry, with the contract each is listed under.\<close>

definition registry_pairs :: "ContractTokens \<Rightarrow> (string \<times> string) list" where
  "registry_pairs ct = concat (map (\<lambda>(c, ids). map (Pair c) ids) ct)"

lemma length_registry_pairs: "int (length (registry_pairs ct)) = add_lengths 0 ct"
proof -
  have "length (registry_pairs ct) = length (concat (map snd ct))"
    by (induction ct) (auto simp: registry_pairs_def)
  then show ?thesis by (simp add: add_lengths_sum)
qed

lemma TotalSupply_registry_pairs:
  "TotalSupply tr = int (length (registry_pairs (ec_ERC721 (tr_Ethereum tr))
      @ registry_pairs (ec_ERC1155 (tr_Ethereum tr)) @ registry_pairs (tc_FA2 (tr_Tezos tr))))"
proof -
  have shift: "add_lengths n ct = n + add_lengths 0 ct" for n ct
    by (simp add: add_lengths_sum)
  have "TotalSupply tr = add_lengths 0 (ec_ERC721 (tr_Ethereum tr))
      + add_lengths 0 (ec_ERC1155 (tr_Ethereum tr)) + add_lengths 0 (tc_FA2 (tr_Tezos tr))"
    unfolding TotalSupply_def Let_def
    using shift [of "add_lengths 0 (ec_ERC721 (tr_Ethereum tr))"] shift by metis
  then show ?thesis by (simp add: length_registry_pairs flip: length_registry_pairs)
qed

end
