(* ===== verification/Utils.thy ===== *)
theory Utils
  imports Types
begin

text \<open>
  \<open>utils.go\<close>, \<open>utils_eth.go\<close> and \<open>constants.go\<close>: token index ids, their parsing and
  normalisation, number formats, burn addresses, IPFS links and the classification of Ethereum
  transfer logs. What the code takes from other modules (go-ethereum's address parsing, the
  blockchain names and address recognition of \<open>autonomy-utils\<close>, the URL parser) is the record
  \<open>ext\<close>, a parameter; the locale \<open>external\<close> states what the code relies on.
\<close>

section \<open>Code outside the repository\<close>

record url =
  u_Scheme :: string
  u_Host :: string
  u_Path :: string
  u_RawQuery :: string
  u_Rest :: string

record ext =
  x_HexToAddressHex :: "string \<Rightarrow> string"
  x_GetBlockchainByAddress :: "string \<Rightarrow> string"
  x_EthereumBlockchain :: string
  x_TezosBlockchain :: string
  x_BitmarkBlockchain :: string
  x_UnknownBlockchain :: string
  x_hash_Big :: "string \<Rightarrow> int"
  x_sha1_hex :: "string \<Rightarrow> string"
  x_Partition :: "nat \<Rightarrow> nat \<Rightarrow> (nat \<times> nat) list"
  x_ParseDecimal128 :: "string \<Rightarrow> decimal128 option"
  x_Decimal128_add :: "decimal128 \<Rightarrow> decimal128 \<Rightarrow> decimal128"
  x_url_Parse :: "string \<Rightarrow> url option"
  x_url_String :: "url \<Rightarrow> string"

text \<open>\<open>xs[lo:hi]\<close> for \<open>lo \<le> hi \<le> len(xs)\<close>.\<close>

definition slice :: "nat \<Rightarrow> nat \<Rightarrow> 'a list \<Rightarrow> 'a list" where
  "slice lo hi xs = take (hi - lo) (drop lo xs)"

text \<open>
  \<open>common.HexToAddress(a).Hex()\<close> is an address in checksum form: it is not changed by a second
  pass and holds no dash. The blockchain names are pairwise different. A hash read as a number
  is not negative. \<open>gopart.Partition(n, k)\<close> yields consecutive ranges that cover the indices below \<open>n\<close>.
\<close>

locale external =
  fixes X :: ext
  assumes address_idem: "x_HexToAddressHex X (x_HexToAddressHex X a) = x_HexToAddressHex X a"
    and address_no_dash: "CHR ''-'' \<notin> set (x_HexToAddressHex X a)"
    and chains_distinct: "distinct [x_EthereumBlockchain X, x_TezosBlockchain X,
          x_BitmarkBlockchain X, x_UnknownBlockchain X]"
    and hash_nonneg: "0 \<le> x_hash_Big X h"
    and partition_cover: "0 < k \<Longrightarrow>
          concat (map (\<lambda>(lo, hi). slice lo hi xs) (x_Partition X (length (xs :: string list)) k)) = xs"

section \<open>Constants\<close>

abbreviation EthereumZeroAddress :: string where
  "EthereumZeroAddress \<equiv> ''0x0000000000000000000000000000000000000000''"
abbreviation EthereumDeadAddress :: string where
  "EthereumDeadAddress \<equiv> ''0x000000000000000000000000000000000000dEaD''"
abbreviation LivenetZeroAddress :: string where
  "LivenetZeroAddress \<equiv> ''a3ezwdYVEVrHwszQrYzDTCAZwUD3yKtNsCq9YhEu97bPaGAKy1''"
abbreviation TestnetZeroAddress :: string where
  "TestnetZeroAddress \<equiv> ''dw9MQXcC5rJZb3QE1nz86PiQAheMP1dx9M3dr52tT8NNs14m33''"
abbreviation TezosBurnAddress :: string where
  "TezosBurnAddress \<equiv> ''tz1burnburnburnburnburnburnburjAYjjX''"
abbreviation TransferEventSignature :: string where
  "TransferEventSignature \<equiv> ''0xddf252ad1be2c89b69c2b068fc378daa952ba7f163c4a11628f55a4df523b3ef''"
abbreviation TransferSingleEventSignature :: string where
  "TransferSingleEventSignature \<equiv> ''0xc3d58168c5ae7397731d063d5bbf3d657854427343f4c083240f7aacaa2d0f62''"
abbreviation SourceFeralFile :: string where "SourceFeralFile \<equiv> ''feralfile''"
abbreviation SourceOpensea :: string where "SourceOpensea \<equiv> ''opensea''"
abbreviation SourceTZKT :: string where "SourceTZKT \<equiv> ''tzkt''"
abbreviation DevelopmentEnvironment :: string where "DevelopmentEnvironment \<equiv> ''development''"
abbreviation ProductionEnvironment :: string where "ProductionEnvironment \<equiv> ''production''"

definition EthereumIndexExcludedOwners :: "string list" where
  "EthereumIndexExcludedOwners = [EthereumZeroAddress, EthereumDeadAddress]"

definition TezosIndexExcludedOwners :: "string list" where
  "TezosIndexExcludedOwners =
     [''tz1Ke2h7sDdakHJQh8WX4Z372du1KChsksyU'', TezosBurnAddress,
      ''KT1HbQepzV1nVGg8QVznG7z4RcHseD5kwqBn'', ''KT1PHubm9HtyQEJ4BBpMTVomq6mhbfNZ9z5w'',
      ''KT1FvqJwEDWb1Gwc55Jd1jjTHRVWbYKUUpyq'']"

definition SupportedCurrencyPairs :: "string \<Rightarrow> bool" where
  "SupportedCurrencyPairs p = (p = ''ETH-USD'' \<or> p = ''XTZ-USD'')"

definition BlockchainAlias :: "ext \<Rightarrow> string \<Rightarrow> string option" where
  "BlockchainAlias X b =
     (if b = x_BitmarkBlockchain X then Some ''bmk''
      else if b = x_EthereumBlockchain X then Some ''eth''
      else if b = x_TezosBlockchain X then Some ''tez''
      else None)"

text \<open>\<open>BlockchainAlias[b]\<close> as a value: the empty string for a missing key.\<close>

definition alias_of :: "ext \<Rightarrow> string \<Rightarrow> string" where
  "alias_of X b = (case BlockchainAlias X b of None \<Rightarrow> [] | Some a \<Rightarrow> a)"

section \<open>Addresses and token index ids\<close>

definition EthereumChecksumAddress :: "ext \<Rightarrow> string \<Rightarrow> string" where
  "EthereumChecksumAddress X address = x_HexToAddressHex X address"

definition OpenseaTokenIDToHex :: "string \<Rightarrow> string res" where
  "OpenseaTokenIDToHex tokenID =
     (case big_SetString 10 tokenID of
        None \<Rightarrow> Inl (Errorf ''fail to parse token id'')
      | Some n \<Rightarrow> Inr (big_Text 16 n))"

definition TokenIndexID :: "ext \<Rightarrow> string \<Rightarrow> string \<Rightarrow> string \<Rightarrow> string" where
  "TokenIndexID X blockchainType contractAddress tokenID =
     (let alias = (case BlockchainAlias X blockchainType of None \<Rightarrow> ''undefined'' | Some a \<Rightarrow> a);
          contract = (if blockchainType = x_EthereumBlockchain X
                      then EthereumChecksumAddress X contractAddress else contractAddress)
      in alias @ ''-'' @ contract @ ''-'' @ tokenID)"

definition ParseTokenIndexID :: "ext \<Rightarrow> string \<Rightarrow> (string \<times> string \<times> string) res" where
  "ParseTokenIndexID X indexID =
     (case split ''-'' indexID of
        [v0, v1, v2] \<Rightarrow>
          Inr (v0, if v0 = alias_of X (x_EthereumBlockchain X) then EthereumChecksumAddress X v1 else v1, v2)
      | _ \<Rightarrow> Inl (Errorf ''error while parsing indexID''))"

definition HexToDec :: "string \<Rightarrow> string" where
  "HexToDec hex = (case big_SetString 16 hex of None \<Rightarrow> [] | Some n \<Rightarrow> big_Text 10 n)"

text \<open>One round of the loop of \<open>NormalizeIndexIDs\<close>: the id to append, or none on \<open>continue\<close>.\<close>

definition normalize_one :: "ext \<Rightarrow> bool \<Rightarrow> string \<Rightarrow> string option" where
  "normalize_one X isConvertToDecimal indexID =
     (case ParseTokenIndexID X indexID of
        Inl _ \<Rightarrow> None
      | Inr (blockchain, contractAddress, tokenID) \<Rightarrow>
          if blockchain = alias_of X (x_EthereumBlockchain X) then
            (if isConvertToDecimal then
               (case big_SetString 16 tokenID of
                  None \<Rightarrow> None
                | Some n \<Rightarrow> Some (blockchain @ ''-'' @ contractAddress @ ''-'' @ big_Text 10 n))
             else Some (blockchain @ ''-'' @ contractAddress @ ''-'' @ tokenID))
          else Some indexID)"

fun NormalizeIndexIDs :: "ext \<Rightarrow> string list \<Rightarrow> bool \<Rightarrow> string list" where
  "NormalizeIndexIDs X [] dec = []"
| "NormalizeIndexIDs X (indexID # rest) dec =
     (case normalize_one X dec indexID of
        None \<Rightarrow> NormalizeIndexIDs X rest dec
      | Some i \<Rightarrow> i # NormalizeIndexIDs X rest dec)"

definition DemoTokenPrefix :: "string \<Rightarrow> string" where
  "DemoTokenPrefix indexID = ''demo'' @ indexID"

definition TxURL :: "ext \<Rightarrow> string \<Rightarrow> string \<Rightarrow> string \<Rightarrow> string" where
  "TxURL X blockchain environment txID =
     (if blockchain = x_BitmarkBlockchain X then
        (if environment = DevelopmentEnvironment
         then ''https://registry.test.bitmark.com/transaction/'' @ txID
         else ''https://registry.bitmark.com/transaction/'' @ txID)
      else if blockchain = x_EthereumBlockchain X then
        (if environment = DevelopmentEnvironment
         then ''https://goerli.etherscan.io/tx/'' @ txID
         else ''https://etherscan.io/tx/'' @ txID)
      else [])"

definition IsBurnAddress :: "string \<Rightarrow> string \<Rightarrow> bool" where
  "IsBurnAddress address environment =
     (address = EthereumZeroAddress \<or> address = TezosBurnAddress \<or>
      (environment = DevelopmentEnvironment \<and> address = TestnetZeroAddress) \<or>
      (environment = ProductionEnvironment \<and> address = LivenetZeroAddress))"

context external
begin

lemma alias_eth [simp]: "BlockchainAlias X (x_EthereumBlockchain X) = Some ''eth''"
  using chains_distinct by (auto simp: BlockchainAlias_def)

lemma alias_of_eth [simp]: "alias_of X (x_EthereumBlockchain X) = ''eth''"
  by (simp add: alias_of_def)

lemma alias_tez [simp]: "BlockchainAlias X (x_TezosBlockchain X) = Some ''tez''"
  using chains_distinct by (auto simp: BlockchainAlias_def)

lemma alias_bmk [simp]: "BlockchainAlias X (x_BitmarkBlockchain X) = Some ''bmk''"
  by (simp add: BlockchainAlias_def)

lemma alias_no_dash: "BlockchainAlias X b = Some a \<Longrightarrow> CHR ''-'' \<notin> set a \<and> a \<noteq> []"
  by (auto simp: BlockchainAlias_def split: if_splits)

lemma alias_inj: "BlockchainAlias X b = Some a \<Longrightarrow> BlockchainAlias X b' = Some a \<Longrightarrow> b = b'"
  by (auto simp: BlockchainAlias_def split: if_splits)

lemma alias_is_eth: "BlockchainAlias X b = Some ''eth'' \<longleftrightarrow> b = x_EthereumBlockchain X"
  using chains_distinct by (auto simp: BlockchainAlias_def)

lemma split_index_id:
  assumes "CHR ''-'' \<notin> set a" and "CHR ''-'' \<notin> set c" and "CHR ''-'' \<notin> set i"
  shows "split ''-'' (a @ ''-'' @ c @ ''-'' @ i) = [a, c, i]"
  using assms by (simp add: split_append split_atom)

lemma parse_TokenIndexID:
  assumes al: "BlockchainAlias X b = Some a"
    and dash: "CHR ''-'' \<notin> set c" "CHR ''-'' \<notin> set i"
  shows "ParseTokenIndexID X (TokenIndexID X b c i) =
    Inr (a, if b = x_EthereumBlockchain X then EthereumChecksumAddress X c else c, i)"
proof -
  let ?c = "if b = x_EthereumBlockchain X then EthereumChecksumAddress X c else c"
  have "CHR ''-'' \<notin> set a" using alias_no_dash [OF al] by simp
  moreover have "CHR ''-'' \<notin> set ?c"
    using dash address_no_dash by (simp add: EthereumChecksumAddress_def)
  moreover have "TokenIndexID X b c i = a @ ''-'' @ ?c @ ''-'' @ i"
    by (simp add: TokenIndexID_def al)
  ultimately have s: "split ''-'' (TokenIndexID X b c i) = [a, ?c, i]"
    using split_index_id [of a ?c i] dash(2) by (simp only: simp_thms)
  have eth: "a = ''eth'' \<longleftrightarrow> b = x_EthereumBlockchain X"
    using al alias_is_eth [of b] by fastforce
  have idem: "EthereumChecksumAddress X (EthereumChecksumAddress X c) = EthereumChecksumAddress X c"
    by (simp only: EthereumChecksumAddress_def address_idem)
  show ?thesis
    unfolding ParseTokenIndexID_def s by (simp add: eth idem)
qed

lemma parse_parts_no_dash:
  assumes "ParseTokenIndexID X indexID = Inr (v0, v1, v2)"
  shows "CHR ''-'' \<notin> set v0" and "CHR ''-'' \<notin> set v1" and "CHR ''-'' \<notin> set v2"
proof -
  from assms obtain w1 where s: "split ''-'' indexID = [v0, w1, v2]"
    and v1: "v1 = (if v0 = ''eth'' then EthereumChecksumAddress X w1 else w1)"
    by (auto simp: ParseTokenIndexID_def split: list.splits)
  from s split_no_sep_char [of _ "CHR ''-''" indexID]
  have "CHR ''-'' \<notin> set v0 \<and> CHR ''-'' \<notin> set w1 \<and> CHR ''-'' \<notin> set v2" by auto
  with v1 address_no_dash show "CHR ''-'' \<notin> set v0" "CHR ''-'' \<notin> set v1" "CHR ''-'' \<notin> set v2"
    by (auto simp: EthereumChecksumAddress_def)
qed

text \<open>A second normalisation, without the conversion, changes nothing.\<close>

lemma normalize_one_stable:
  assumes n: "normalize_one X False indexID = Some j"
  shows "normalize_one X False j = Some j"
proof -
  from n obtain v0 v1 v2 where p: "ParseTokenIndexID X indexID = Inr (v0, v1, v2)"
    and j: "j = (if v0 = ''eth'' then v0 @ ''-'' @ v1 @ ''-'' @ v2 else indexID)"
    by (auto simp: normalize_one_def split: sum.splits if_splits)
  show ?thesis
  proof (cases "v0 = ''eth''")
    case True
    from p True have idem: "EthereumChecksumAddress X v1 = v1"
      by (auto simp: ParseTokenIndexID_def EthereumChecksumAddress_def address_idem split: list.splits)
    from j have "j = v0 @ ''-'' @ v1 @ ''-'' @ v2" unfolding if_P [OF True] .
    then have "split ''-'' j = [v0, v1, v2]"
      by (simp only: split_index_id [OF parse_parts_no_dash [OF p]])
    with True j idem show ?thesis
      by (simp add: normalize_one_def ParseTokenIndexID_def)
  next
    case False
    with n j p show ?thesis by simp
  qed
qed

lemma normalize_stable: "NormalizeIndexIDs X (NormalizeIndexIDs X ids False) False = NormalizeIndexIDs X ids False"
  by (induction ids) (auto simp: normalize_one_stable split: option.splits)

end

section \<open>Numbers of tokens in two bases\<close>

lemma HexToDec_Text: "0 \<le> n \<Longrightarrow> HexToDec (big_Text 16 n) = big_Text 10 n"
  by (simp add: HexToDec_def big_SetString_Text)

lemma HexToDec_OpenseaTokenIDToHex:
  "big_SetString 10 s = Some n \<Longrightarrow> \<exists>h. OpenseaTokenIDToHex s = Inr h \<and> HexToDec h = big_Text 10 n"
  by (simp add: OpenseaTokenIDToHex_def HexToDec_def big_SetString_Text)

section \<open>Flattening a configuration into dotted paths\<close>

text \<open>\<open>flattenMap\<close> writes into the result map it is given.\<close>

fun flattenMap :: "(string \<times> json) list \<Rightarrow> string \<Rightarrow> (string \<rightharpoonup> json) \<Rightarrow> (string \<rightharpoonup> json)" where
  "flattenMap [] prefix result = result"
| "flattenMap ((k, v) # rest) prefix result =
     (case v of
        JObj nested \<Rightarrow> flattenMap rest prefix (flattenMap nested (prefix @ ''.'' @ k) result)
      | _ \<Rightarrow> flattenMap rest prefix (result(prefix @ ''.'' @ k \<mapsto> v)))"

lemma flattenMap_flat:
  assumes "\<And>k v. (k, v) \<in> set kvs \<Longrightarrow> as_map v = None" and "distinct (map fst kvs)"
  shows "flattenMap kvs prefix result (prefix @ ''.'' @ k) =
    (case map_of kvs k of None \<Rightarrow> result (prefix @ ''.'' @ k) | Some v \<Rightarrow> Some v)"
  using assms
proof (induction kvs arbitrary: result)
  case Nil
  then show ?case by simp
next
  case (Cons kv kvs)
  obtain k' v where kv: "kv = (k', v)" by (cases kv)
  have none: "as_map v = None" using Cons.prems(1) kv by auto
  have step: "flattenMap (kv # kvs) prefix result = flattenMap kvs prefix (result(prefix @ ''.'' @ k' \<mapsto> v))"
    using none kv by (cases v) auto
  have IH: "flattenMap kvs prefix r (prefix @ ''.'' @ k) =
      (case map_of kvs k of None \<Rightarrow> r (prefix @ ''.'' @ k) | Some v \<Rightarrow> Some v)" for r
    using Cons.IH Cons.prems by fastforce
  have absent: "map_of kvs k' = None"
    using Cons.prems(2) kv by (simp add: map_of_eq_None_iff)
  show ?case
    unfolding step IH using absent kv by (cases "k = k'") (auto split: option.splits)
qed

section \<open>Links\<close>

definition IsIPFSURI :: "string \<Rightarrow> bool" where
  "IsIPFSURI uri = has_prefix ''ipfs://'' uri"

definition IsHTTPSURI :: "string \<Rightarrow> bool" where
  "IsHTTPSURI uri = has_prefix ''https://'' uri"

definition ResolveIPFSURI :: "ext \<Rightarrow> string \<Rightarrow> string \<Rightarrow> string" where
  "ResolveIPFSURI X gateway uri =
     (if \<not> IsIPFSURI uri then uri
      else case x_url_Parse X uri of
        None \<Rightarrow> uri
      | Some parsedURL \<Rightarrow>
          let cid = u_Host parsedURL;
              path = trim_left_char (CHR ''/'') (u_Path parsedURL);
              gatewayPath = ''ipfs/'' @ cid;
              gatewayPath = (if path \<noteq> [] then gatewayPath @ ''/'' @ path else gatewayPath)
          in ''https://'' @ gateway @ ''/'' @ gatewayPath)"

text \<open>\<open>path.Ext\<close> and \<open>path.Clean\<close>.\<close>

definition path_Ext :: "string \<Rightarrow> string" where
  "path_Ext p =
     (let base = rev (takeWhile (\<lambda>c. c \<noteq> CHR ''/'') (rev p))
      in if CHR ''.'' \<in> set base
         then CHR ''.'' # rev (takeWhile (\<lambda>c. c \<noteq> CHR ''.'') (rev base)) else [])"

fun clean_parts :: "bool \<Rightarrow> string list \<Rightarrow> string list \<Rightarrow> string list" where
  "clean_parts rooted out [] = out"
| "clean_parts rooted out (p # ps) =
     (if p = [] \<or> p = ''.'' then clean_parts rooted out ps
      else if p = ''..'' then
        (if out \<noteq> [] \<and> last out \<noteq> ''..'' then clean_parts rooted (butlast out) ps
         else if rooted then clean_parts rooted out ps
         else clean_parts rooted (out @ [p]) ps)
      else clean_parts rooted (out @ [p]) ps)"

definition path_Clean :: "string \<Rightarrow> string" where
  "path_Clean p =
     (let rooted = has_prefix ''/'' p;
          out = (if rooted then ''/'' else []) @ join ''/'' (clean_parts rooted [] (split ''/'' p))
      in if out = [] then ''.'' else out)"

definition GetMIMETypeByURL :: "ext \<Rightarrow> string \<Rightarrow> string" where
  "GetMIMETypeByURL X urlString =
     (case x_url_Parse X urlString of
        None \<Rightarrow> []
      | Some u \<Rightarrow>
          let extn = path_Ext (u_Path u)
          in if extn = ''.svg'' then MediumImage @ ''/'' @ ''svg+xml''
             else if extn = ''.jpg'' \<or> extn = ''.jpeg'' then MediumImage @ ''/'' @ ''jpeg''
             else if extn = ''.png'' \<or> extn = ''.gif'' then MediumImage @ ''/'' @ (split ''.'' extn ! 1)
             else if extn = ''.mp4'' then MediumVideo @ ''/'' @ ''mp4''
             else if extn = ''.mov'' then MediumVideo @ ''/'' @ ''quicktime''
             else [])"

fun cid_after_ipfs :: "string list \<Rightarrow> string option" where
  "cid_after_ipfs (p # q # ps) = (if p = ''ipfs'' then Some q else cid_after_ipfs (q # ps))"
| "cid_after_ipfs _ = None"

definition GetCIDFromIPFSLink :: "ext \<Rightarrow> string \<Rightarrow> string res" where
  "GetCIDFromIPFSLink X link =
     (case x_url_Parse X link of
        None \<Rightarrow> Inl (Errorf ''parse'')
      | Some u \<Rightarrow>
          if u_Scheme u = ''ipfs'' then Inr (u_Host u)
          else if u_Scheme u = ''http'' \<or> u_Scheme u = ''https'' then
            (case cid_after_ipfs (split ''/'' (path_Clean (u_Path u))) of
               Some cid \<Rightarrow> Inr cid
             | None \<Rightarrow> Inl (Errorf ''cid not found''))
          else Inl (Errorf ''unsupported ipfs link''))"

lemma cid_after_ipfs_iff:
  "cid_after_ipfs ps = Some c \<longleftrightarrow> (\<exists>as bs. ps = as @ ''ipfs'' # c # bs \<and> cid_after_ipfs (as @ [''ipfs'']) = None)"
  (is "_ \<longleftrightarrow> ?R ps")
proof (induction ps rule: cid_after_ipfs.induct)
  case (1 p q ps)
  show ?case
  proof (cases "p = ''ipfs''")
    case True
    have "cid_after_ipfs (as @ [''ipfs'']) \<noteq> None" if "as = ''ipfs'' # as'" for as as'
      using that by (cases as') auto
    then have "?R (p # q # ps) \<longleftrightarrow> q = c"
      using True by (auto simp: Cons_eq_append_conv intro: exI [of _ "[]"])
    with True show ?thesis by simp
  next
    case False
    have "?R (p # q # ps) \<longleftrightarrow> ?R (q # ps)"
    proof
      assume "?R (p # q # ps)"
      then obtain as bs where "p # q # ps = as @ ''ipfs'' # c # bs" "cid_after_ipfs (as @ [''ipfs'']) = None"
        by blast
      moreover from this False obtain as' where "as = p # as'" by (cases as) auto
      ultimately show "?R (q # ps)"
        using False by (intro exI [of _ as'] exI [of _ bs]) (cases as'; auto split: if_splits)
    next
      assume "?R (q # ps)"
      then obtain as bs where "q # ps = as @ ''ipfs'' # c # bs" "cid_after_ipfs (as @ [''ipfs'']) = None"
        by blast
      with False show "?R (p # q # ps)"
        by (intro exI [of _ "p # as"] exI [of _ bs]) (cases as; auto)
    qed
    with 1 False show ?thesis by simp
  qed
qed auto

section \<open>Reading a document over HTTP\<close>

record http_response =
  http_StatusCode :: int
  http_ContentLength :: int
  http_Body :: "string \<times> goerr option"

text \<open>
  The body is the bytes the connection delivers and the error it then ends with, if any; a reader
  limited to \<open>n\<close> bytes does not see an error behind them. \<open>client.Head(url)\<close> and \<open>client.Do(req)\<close> are parameters.\<close>

definition CheckCDNURLIsExist :: "(string \<Rightarrow> http_response res) \<Rightarrow> string \<Rightarrow> bool" where
  "CheckCDNURLIsExist head u =
     (case head u of
        Inl _ \<Rightarrow> False
      | Inr r \<Rightarrow> 200 \<le> http_StatusCode r \<and> http_StatusCode r < 400)"

definition maxContentLength :: nat where
  "maxContentLength = 10 * 1024 * 1024"

definition read_all_limited :: "nat \<Rightarrow> string \<times> goerr option \<Rightarrow> string res" where
  "read_all_limited n body =
     (case snd body of
        Some e \<Rightarrow> if length (fst body) < n then Inl e else Inr (take n (fst body))
      | None \<Rightarrow> Inr (take n (fst body)))"

definition ReadFromURL :: "(string \<Rightarrow> http_response res) \<Rightarrow> string \<Rightarrow> string res" where
  "ReadFromURL do_get u =
     bindR (do_get u) (\<lambda>resp.
       if http_StatusCode resp \<noteq> 200 then Inl (Errorf ''unexpected status code'')
       else if http_ContentLength resp > int maxContentLength then Inl (Errorf ''response too large'')
       else
         bindR (read_all_limited maxContentLength (http_Body resp)) (\<lambda>data.
           if data = [] then Inl (Errorf ''empty response body'') else Inr data))"

lemma ReadFromURL_bounds: "ReadFromURL do_get u = Inr data \<Longrightarrow> data \<noteq> [] \<and> length data \<le> maxContentLength"
  by (auto simp: ReadFromURL_def read_all_limited_def bindR_Inr_iff split: if_splits option.splits)

section \<open>Ethereum logs\<close>

text \<open>
  A log of a transaction; a hash is the string its \<open>Hex\<close> method returns. The classifiers read
  \<open>Topics[0]\<close> without a check, which panics for a log without topics.
\<close>

record eth_log =
  log_Address :: string
  log_Topics :: "string list"
  log_Data :: "nat list"
  log_BlockNumber :: int
  log_BlockHash :: string
  log_TxHash :: string
  log_Index :: int

definition index_panic :: goerr where
  "index_panic = GoPanic ''index out of range''"

definition TransferEventLog :: "eth_log \<Rightarrow> bool res" where
  "TransferEventLog l =
     (case log_Topics l of
        [] \<Rightarrow> Inl index_panic
      | evtHash # _ \<Rightarrow> Inr (evtHash = TransferEventSignature))"

definition ERC20Transfer :: "eth_log \<Rightarrow> bool res" where
  "ERC20Transfer l = bindR (TransferEventLog l) (\<lambda>b. Inr (b \<and> length (log_Topics l) = 3))"

definition ERC721Transfer :: "eth_log \<Rightarrow> bool res" where
  "ERC721Transfer l = bindR (TransferEventLog l) (\<lambda>b. Inr (b \<and> length (log_Topics l) = 4))"

definition ERC1155SingleTransfer :: "eth_log \<Rightarrow> bool res" where
  "ERC1155SingleTransfer l =
     (case log_Topics l of
        [] \<Rightarrow> Inl index_panic
      | t0 # _ \<Rightarrow> Inr (t0 = TransferSingleEventSignature \<and> length (log_Topics l) = 4))"

lemma transfer_kinds_exclusive:
  assumes "ERC20Transfer l = Inr a" and "ERC721Transfer l = Inr b" and "ERC1155SingleTransfer l = Inr c"
  shows "\<not> (a \<and> b) \<and> \<not> (a \<and> c) \<and> \<not> (b \<and> c)"
  using assms
  by (auto simp: ERC20Transfer_def ERC721Transfer_def ERC1155SingleTransfer_def TransferEventLog_def
      split: list.splits)

section \<open>A concrete environment\<close>

text \<open>
  An environment with these properties, on which the witnesses run: addresses in the form
  \<open>0x\<close> and forty characters are kept, anything else is the zero address.
\<close>

definition sample_address :: "string \<Rightarrow> string" where
  "sample_address a =
     (if has_prefix ''0x'' a \<and> length a = 42 \<and> CHR ''-'' \<notin> set a then a else EthereumZeroAddress)"

function sample_partition :: "nat \<Rightarrow> nat \<Rightarrow> nat \<Rightarrow> (nat \<times> nat) list" where
  "sample_partition lo n k =
     (if k = 0 \<or> n \<le> lo then [] else (lo, min n (lo + k)) # sample_partition (lo + k) n k)"
  by pat_completeness auto
termination
  by (relation "measure (\<lambda>(lo, n, k). n - lo)") auto

declare sample_partition.simps [simp del]

lemma sample_partition_cover:
  "0 < k \<Longrightarrow> concat (map (\<lambda>(lo, hi). slice lo hi xs) (sample_partition lo (length xs) k)) = drop lo xs"
proof (induction lo "length xs" k rule: sample_partition.induct)
  case (1 lo k)
  show ?case
  proof (cases "length xs \<le> lo")
    case True
    then show ?thesis by (subst sample_partition.simps) simp
  next
    case False
    have "slice lo (min (length xs) (lo + k)) xs @ drop (lo + k) xs = drop lo xs"
      by (metis (no_types, lifting) add.commute add_diff_cancel_left' append_take_drop_id drop_drop
          length_drop min_def nat_le_linear slice_def take_all diff_le_mono)
    with False 1 show ?thesis by (subst sample_partition.simps) simp
  qed
qed

definition sample_ext :: ext where
  "sample_ext =
     \<lparr>x_HexToAddressHex = sample_address,
      x_GetBlockchainByAddress = (\<lambda>a. if has_prefix ''0x'' a then ''ethereum''
         else if has_prefix ''tz'' a \<or> has_prefix ''KT1'' a then ''tezos'' else ''unknown''),
      x_EthereumBlockchain = ''ethereum'', x_TezosBlockchain = ''tezos'',
      x_BitmarkBlockchain = ''bitmark'', x_UnknownBlockchain = ''unknown'',
      x_hash_Big = (\<lambda>h. case big_SetString 16 (trim_prefix ''0x'' h) of
         Some n \<Rightarrow> \<bar>n\<bar> | None \<Rightarrow> 0),
      x_sha1_hex = (\<lambda>s. s),
      x_Partition = sample_partition 0,
      x_ParseDecimal128 = (\<lambda>s. map_option word_of_int (big_SetString 10 s)),
      x_Decimal128_add = (+),
      x_url_Parse = (\<lambda>s. if has_prefix ''ipfs://'' s
         then Some \<lparr>u_Scheme = ''ipfs'', u_Host = takeWhile (\<lambda>c. c \<noteq> CHR ''/'') (drop 7 s),
                   u_Path = dropWhile (\<lambda>c. c \<noteq> CHR ''/'') (drop 7 s), u_RawQuery = [], u_Rest = []\<rparr>
         else None),
      x_url_String = (\<lambda>u. u_Scheme u @ ''://'' @ u_Host u @ u_Path u)\<rparr>"

interpretation sample: external sample_ext
proof
  show "x_HexToAddressHex sample_ext (x_HexToAddressHex sample_ext a) = x_HexToAddressHex sample_ext a" for a
    by (simp add: sample_ext_def sample_address_def has_prefix_def)
  show "CHR ''-'' \<notin> set (x_HexToAddressHex sample_ext a)" for a
    by (simp add: sample_ext_def sample_address_def)
  show "distinct [x_EthereumBlockchain sample_ext, x_TezosBlockchain sample_ext,
          x_BitmarkBlockchain sample_ext, x_UnknownBlockchain sample_ext]"
    by (simp add: sample_ext_def)
  show "0 \<le> x_hash_Big sample_ext h" for h
    by (simp add: sample_ext_def split: option.splits)
  show "concat (map (\<lambda>(lo, hi). slice lo hi xs) (x_Partition sample_ext (length xs) k)) = xs"
    if "0 < k" for k and xs :: "string list"
    using sample_partition_cover [OF that, of xs 0] by (simp add: sample_ext_def)
qed

section \<open>Properties\<close>

text \<open>
  C17: An index id made by \<open>TokenIndexID\<close> for a supported blockchain is parsed back by
  \<open>ParseTokenIndexID\<close> into the alias of that blockchain, the contract address (in checksum form
  for Ethereum) and the token id, as long as neither of the two given parts contains a dash.
\<close>

theorem TokenIndexID_roundtrip:
  assumes "external X" and "BlockchainAlias X b = Some a"
    and "CHR ''-'' \<notin> set c" and "CHR ''-'' \<notin> set i"
  shows "ParseTokenIndexID X (TokenIndexID X b c i) =
    Inr (a, if b = x_EthereumBlockchain X then EthereumChecksumAddress X c else c, i)"
  using external.parse_TokenIndexID [OF assms] .

theorem TokenIndexID_roundtrip_witness:
  "ParseTokenIndexID sample_ext (TokenIndexID sample_ext ''tezos'' ''KT1abc'' ''42'') =
    Inr (''tez'', ''KT1abc'', ''42'')"
proof -
  have "BlockchainAlias sample_ext ''tezos'' = Some ''tez''"
    by (simp add: BlockchainAlias_def sample_ext_def)
  from TokenIndexID_roundtrip [OF sample.external_axioms this, of "''KT1abc''" "''42''"]
  show ?thesis by (simp add: sample_ext_def)
qed

text \<open>
  \<open>NormalizeIndexIDs\<close> without the conversion to decimal is idempotent: the ids it returns
  are in normal form, and every one of them is kept by a second call.
\<close>

theorem NormalizeIndexIDs_idempotent:
  assumes "external X"
  shows "NormalizeIndexIDs X (NormalizeIndexIDs X ids False) False = NormalizeIndexIDs X ids False"
  using external.normalize_stable [OF assms] .

theorem NormalizeIndexIDs_idempotent_witness:
  "NormalizeIndexIDs sample_ext (NormalizeIndexIDs sample_ext [''eth-0x1-2'', ''bad'', ''tez-KT1-3''] False) False
    = NormalizeIndexIDs sample_ext [''eth-0x1-2'', ''bad'', ''tez-KT1-3''] False"
  by (rule NormalizeIndexIDs_idempotent [OF sample.external_axioms])

end
