(* ===== verification/Mongo.thy ===== *)
theory Mongo
  imports Prelude
begin

text \<open>
  The interface to one MongoDB collection. The driver and the server are not part of the
  repository: a collection is a record of operations, a parameter of every definition that
  uses it. The data is a list of documents in the order of their \<open>_id\<close>, the newest last. The
  filters and the updates the repository writes in BSON are predicates and functions on the
  documents, the sort of a query is a function on lists, and an aggregation pipeline is the
  function its stages compose to.

  The locale \<open>mongo_collection\<close> states the documented behaviour of the operations while the
  server answers; \<open>mem_coll\<close> is a driver that has it.
\<close>

section \<open>Operations\<close>

record upd_result =
  MatchedCount :: nat
  ModifiedCount :: nat
  UpsertedCount :: nat

record 'd coll =
  FindOne :: "('d \<Rightarrow> bool) \<Rightarrow> ('d list \<Rightarrow> 'd list) \<Rightarrow> 'd list \<Rightarrow> 'd res"
  Find :: "('d \<Rightarrow> bool) \<Rightarrow> ('d list \<Rightarrow> 'd list) \<Rightarrow> int \<Rightarrow> int \<Rightarrow> 'd list \<Rightarrow> 'd list res"
  CountDocuments :: "('d \<Rightarrow> bool) \<Rightarrow> 'd list \<Rightarrow> nat res"
  InsertOne :: "'d \<Rightarrow> ('d list, unit) act"
  InsertMany :: "'d list \<Rightarrow> ('d list, unit) act"
  UpdateOne :: "('d \<Rightarrow> bool) \<Rightarrow> ('d \<Rightarrow> 'd) \<Rightarrow> ('d list, upd_result) act"
  UpdateOneWith :: "('d \<Rightarrow> bool) \<Rightarrow> ('d \<Rightarrow> 'd res) \<Rightarrow> ('d list, upd_result) act"
  UpsertOne :: "('d \<Rightarrow> bool) \<Rightarrow> ('d \<Rightarrow> 'd) \<Rightarrow> 'd \<Rightarrow> ('d list, upd_result) act"
  UpdateMany :: "('d \<Rightarrow> bool) \<Rightarrow> ('d \<Rightarrow> 'd) \<Rightarrow> ('d list, upd_result) act"
  DeleteOne :: "('d \<Rightarrow> bool) \<Rightarrow> ('d list, nat) act"
  DeleteMany :: "('d \<Rightarrow> bool) \<Rightarrow> ('d list, nat) act"

section \<open>The documented behaviour\<close>

text \<open>
  \<open>limit 0\<close> of a \<open>find\<close> is no limit (and a negative one is read as its absolute value); the
  server refuses a negative \<open>skip\<close>. In an aggregation, a \<open>$limit\<close> that is not positive is
  refused.
\<close>

definition page :: "int \<Rightarrow> int \<Rightarrow> 'd list \<Rightarrow> 'd list" where
  "page skip limit ds =
     (let rest = drop (nat skip) ds
      in if limit = 0 then rest else take (nat \<bar>limit\<bar>) rest)"

definition find_page :: "('d \<Rightarrow> bool) \<Rightarrow> ('d list \<Rightarrow> 'd list) \<Rightarrow> int \<Rightarrow> int \<Rightarrow> 'd list \<Rightarrow> 'd list res" where
  "find_page p srt skip limit ds =
     (if skip < 0 then Inl (ErrDB ''skip value must be non-negative'')
      else Inr (page skip limit (srt (filter p ds))))"

definition agg_page :: "int \<Rightarrow> int \<Rightarrow> 'r list \<Rightarrow> 'r list res" where
  "agg_page skip limit rs =
     (if skip < 0 then Inl (ErrDB ''invalid argument to $skip stage'')
      else if limit \<le> 0 then Inl (ErrDB ''the limit must be positive'')
      else Inr (take (nat limit) (drop (nat skip) rs)))"

text \<open>
  A unique index is the relation \<open>sk\<close> "same key" (\<open>\<lambda>_ _. False\<close> for a collection without one):
  a write that would give a document the key of another one is refused with a duplicate key
  error and changes nothing; an update of many documents stops there.
\<close>

definition taken :: "('d \<Rightarrow> 'd \<Rightarrow> bool) \<Rightarrow> 'd \<Rightarrow> 'd list \<Rightarrow> bool" where
  "taken sk d ds = (\<exists>x\<in>set ds. sk x d)"

definition upd_res :: "'d \<Rightarrow> 'd \<Rightarrow> upd_result" where
  "upd_res d d' = \<lparr>MatchedCount = 1, ModifiedCount = (if d' = d then 0 else 1), UpsertedCount = 0\<rparr>"

definition insert_doc :: "('d \<Rightarrow> 'd \<Rightarrow> bool) \<Rightarrow> 'd \<Rightarrow> ('d list, unit) act" where
  "insert_doc sk d ds = (if taken sk d ds then (Inl ErrDuplicateKey, ds) else (Inr (), ds @ [d]))"

definition update_one :: "('d \<Rightarrow> 'd \<Rightarrow> bool) \<Rightarrow> ('d \<Rightarrow> bool) \<Rightarrow> ('d \<Rightarrow> 'd) \<Rightarrow> ('d list, upd_result) act" where
  "update_one sk p f ds =
     (case List.find p ds of
        None \<Rightarrow> (Inr \<lparr>MatchedCount = 0, ModifiedCount = 0, UpsertedCount = 0\<rparr>, ds)
      | Some d \<Rightarrow>
          if \<not> sk d (f d) \<and> taken sk (f d) (del1 p ds) then (Inl ErrDuplicateKey, ds)
          else (Inr (upd_res d (f d)), upd1 p f ds))"

text \<open>
  An update whose operators the server may refuse on the document they are applied to, such as
  a \<open>$push\<close> on a field that is not an array: a refusal is an error and changes nothing.
\<close>

definition update_one_with ::
    "('d \<Rightarrow> 'd \<Rightarrow> bool) \<Rightarrow> ('d \<Rightarrow> bool) \<Rightarrow> ('d \<Rightarrow> 'd res) \<Rightarrow> ('d list, upd_result) act" where
  "update_one_with sk p f ds =
     (case List.find p ds of
        None \<Rightarrow> update_one sk p (\<lambda>d. d) ds
      | Some d \<Rightarrow> (case f d of Inl e \<Rightarrow> (Inl e, ds) | Inr d' \<Rightarrow> update_one sk p (\<lambda>_. d') ds))"

definition upsert_one ::
    "('d \<Rightarrow> 'd \<Rightarrow> bool) \<Rightarrow> ('d \<Rightarrow> bool) \<Rightarrow> ('d \<Rightarrow> 'd) \<Rightarrow> 'd \<Rightarrow> ('d list, upd_result) act" where
  "upsert_one sk p f new ds =
     (if \<exists>d\<in>set ds. p d then update_one sk p f ds
      else if taken sk new ds then (Inl ErrDuplicateKey, ds)
      else (Inr \<lparr>MatchedCount = 0, ModifiedCount = 0, UpsertedCount = 1\<rparr>, ds @ [new]))"

fun update_many_from ::
    "('d \<Rightarrow> 'd \<Rightarrow> bool) \<Rightarrow> ('d \<Rightarrow> bool) \<Rightarrow> ('d \<Rightarrow> 'd) \<Rightarrow> 'd list \<Rightarrow> nat \<Rightarrow> ('d list, nat) act" where
  "update_many_from sk p f done n [] = (Inr n, done)"
| "update_many_from sk p f done n (d # ds) =
     (if \<not> p d then update_many_from sk p f (done @ [d]) n ds
      else if \<not> sk d (f d) \<and> taken sk (f d) (done @ ds) then (Inl ErrDuplicateKey, done @ d # ds)
      else update_many_from sk p f (done @ [f d]) (Suc n) ds)"

definition update_many :: "('d \<Rightarrow> 'd \<Rightarrow> bool) \<Rightarrow> ('d \<Rightarrow> bool) \<Rightarrow> ('d \<Rightarrow> 'd) \<Rightarrow> ('d list, upd_result) act" where
  "update_many sk p f ds =
     (case update_many_from sk p f [] 0 ds of
        (Inl e, ds') \<Rightarrow> (Inl e, ds')
      | (Inr n, ds') \<Rightarrow>
          (Inr \<lparr>MatchedCount = n, ModifiedCount = length (filter (\<lambda>d. p d \<and> f d \<noteq> d) ds),
                UpsertedCount = 0\<rparr>, ds'))"

locale mongo_collection =
  fixes C :: "'d coll" and sk :: "'d \<Rightarrow> 'd \<Rightarrow> bool"
  assumes FindOne_law: "FindOne C p srt ds =
      (case srt (filter p ds) of [] \<Rightarrow> Inl ErrNoDocuments | d # _ \<Rightarrow> Inr d)"
    and Find_law: "Find C p srt skip limit ds = find_page p srt skip limit ds"
    and CountDocuments_law: "CountDocuments C p ds = Inr (length (filter p ds))"
    and InsertOne_law: "InsertOne C d ds = insert_doc sk d ds"
    and InsertMany_law: "InsertMany C docs ds = forA (insert_doc sk) docs ds"
    and UpdateOne_law: "UpdateOne C p f ds = update_one sk p f ds"
    and UpdateOneWith_law: "UpdateOneWith C p g ds = update_one_with sk p g ds"
    and UpsertOne_law: "UpsertOne C p f new ds = upsert_one sk p f new ds"
    and UpdateMany_law: "UpdateMany C p f ds = update_many sk p f ds"
    and DeleteOne_law: "DeleteOne C p ds = (Inr (min 1 (length (filter p ds))), del1 p ds)"
    and DeleteMany_law: "DeleteMany C p ds = (Inr (length (filter p ds)), filter (\<lambda>d. \<not> p d) ds)"

section \<open>What the updates do when they keep the keys\<close>

lemma update_many_from_keep:
  assumes "\<And>d. sk d (f d)"
  shows "update_many_from sk p f done n ds =
    (Inr (n + length (filter p ds)), done @ map (\<lambda>d. if p d then f d else d) ds)"
  using assms by (induction ds arbitrary: "done" n) auto

lemma update_many_keep:
  assumes "\<And>d. sk d (f d)"
  shows "update_many sk p f ds =
    (Inr \<lparr>MatchedCount = length (filter p ds),
          ModifiedCount = length (filter (\<lambda>d. p d \<and> f d \<noteq> d) ds), UpsertedCount = 0\<rparr>,
     map (\<lambda>d. if p d then f d else d) ds)"
  using update_many_from_keep [of sk f p "[]" 0 ds] assms by (simp add: update_many_def)

text \<open>An update of many documents that is not refused changes all of them.\<close>

lemma update_many_from_ok:
  "update_many_from sk p f done n ds = (Inr m, ds') \<Longrightarrow> ds' = done @ map (\<lambda>d. if p d then f d else d) ds"
proof (induction ds arbitrary: "done" n)
  case (Cons d ds)
  from Cons.prems show ?case
    using Cons.IH [of "done @ [f d]" "Suc n"] Cons.IH [of "done @ [d]" n] by (auto split: if_splits)
qed simp

lemma update_many_ok:
  "update_many sk p f ds = (Inr r, ds') \<Longrightarrow> ds' = map (\<lambda>d. if p d then f d else d) ds"
  by (auto simp: update_many_def dest: update_many_from_ok split: prod.splits sum.splits)

lemma update_many_from_error:
  "fst (update_many_from sk p f done n ds) = Inl e \<Longrightarrow> e = ErrDuplicateKey"
  by (induction ds arbitrary: "done" n) (auto split: if_splits)

lemma update_many_error: "fst (update_many sk p f ds) = Inl e \<Longrightarrow> e = ErrDuplicateKey"
  using update_many_from_error [of sk p f "[]" 0 ds]
  by (auto simp: update_many_def split: prod.splits sum.splits)

lemma update_one_keep:
  assumes "\<And>d. sk d (f d)"
  shows "snd (update_one sk p f ds) = upd1 p f ds"
    and "\<exists>r. fst (update_one sk p f ds) = Inr r \<and>
           MatchedCount r = (if \<exists>d\<in>set ds. p d then 1 else 0)"
  using assms
  by (auto simp: update_one_def upd_res_def find_None dest: find_Some_set split: option.splits
      intro: upd1_none [symmetric])

lemma page_0 [simp]: "page 0 0 ds = ds"
  by (simp add: page_def)

lemma length_page: "limit \<noteq> 0 \<Longrightarrow> length (page skip limit ds) \<le> nat \<bar>limit\<bar>"
  by (simp add: page_def Let_def)

lemma hd_filter_find: "filter p ds = d # ds' \<Longrightarrow> List.find p ds = Some d"
  by (induction ds) (auto split: if_splits)

lemma find_hd_filter: "List.find p ds = Some d \<Longrightarrow> \<exists>ds'. filter p ds = d # ds'"
  by (induction ds) (auto split: if_splits)

context mongo_collection
begin

lemma find_one_natural:
  "FindOne C p id ds = (case List.find p ds of None \<Rightarrow> Inl ErrNoDocuments | Some d \<Rightarrow> Inr d)"
proof (cases "List.find p ds")
  case None
  then have "filter p ds = []"
    by (simp add: find_None filter_empty_conv)
  with None show ?thesis by (simp add: FindOne_law)
next
  case (Some d)
  with find_hd_filter [OF Some] show ?thesis by (auto simp: FindOne_law)
qed

lemma find_one_sound: "FindOne C p id ds = Inr d \<Longrightarrow> d \<in> set ds \<and> p d"
  by (auto simp: find_one_natural split: option.splits dest: find_Some_set)

lemma find_all: "Find C p id 0 0 ds = Inr (filter p ds)"
  by (simp add: Find_law find_page_def)

lemma update_one_keeping:
  assumes "\<And>d. sk d (f d)"
  shows "UpdateOne C p f ds =
    (Inr (case List.find p ds of
            None \<Rightarrow> \<lparr>MatchedCount = 0, ModifiedCount = 0, UpsertedCount = 0\<rparr>
          | Some d \<Rightarrow> upd_res d (f d)), upd1 p f ds)"
proof (cases "List.find p ds")
  case None
  then have "upd1 p f ds = ds" by (intro upd1_none) (simp add: find_None)
  with None show ?thesis by (simp add: UpdateOne_law update_one_def)
next
  case (Some d)
  with assms show ?thesis by (simp add: UpdateOne_law update_one_def)
qed

lemma update_many_keeping:
  assumes "\<And>d. sk d (f d)"
  shows "\<exists>r. UpdateMany C p f ds = (Inr r, map (\<lambda>d. if p d then f d else d) ds)"
  using assms by (simp add: UpdateMany_law update_many_keep)

lemma upsert_existing:
  assumes "\<And>d. sk d (f d)" and "\<exists>d\<in>set ds. p d"
  shows "\<exists>r. UpsertOne C p f new ds = (Inr r, upd1 p f ds)"
  using assms update_one_keep [of sk f p ds]
  by (auto simp: UpsertOne_law upsert_one_def prod_eq_iff)

lemma upsert_new:
  assumes "\<forall>d\<in>set ds. \<not> p d" and "\<not> taken sk new ds"
  shows "\<exists>r. UpsertOne C p f new ds = (Inr r, ds @ [new])"
  using assms by (auto simp: UpsertOne_law upsert_one_def)

lemma upsert_duplicate:
  assumes "\<forall>d\<in>set ds. \<not> p d" and "taken sk new ds"
  shows "UpsertOne C p f new ds = (Inl ErrDuplicateKey, ds)"
  using assms by (auto simp: UpsertOne_law upsert_one_def)

lemmas driver_laws = find_one_natural Find_law CountDocuments_law InsertOne_law InsertMany_law
  UpdateOne_law UpdateOneWith_law UpsertOne_law UpdateMany_law DeleteOne_law DeleteMany_law

end

text \<open>A property of every document, kept by the operations that respect it.\<close>

abbreviation each :: "('d \<Rightarrow> bool) \<Rightarrow> 'd list \<Rightarrow> bool" where
  "each Q ds \<equiv> \<forall>d\<in>set ds. Q d"

lemma each_upd1: "each Q ds \<Longrightarrow> (\<And>d. Q d \<Longrightarrow> p d \<Longrightarrow> Q (f d)) \<Longrightarrow> each Q (upd1 p f ds)"
  by (auto dest: set_upd1)

lemma each_update_one: "each Q ds \<Longrightarrow> (\<And>d. Q d \<Longrightarrow> p d \<Longrightarrow> Q (f d)) \<Longrightarrow> each Q (snd (update_one sk p f ds))"
  by (auto simp: update_one_def dest: set_upd1 split: option.splits)

lemma each_update_many_from:
  assumes "each Q (done @ ds)" and "\<And>d. Q d \<Longrightarrow> p d \<Longrightarrow> Q (f d)"
  shows "each Q (snd (update_many_from sk p f done n ds))"
  using assms(1)
proof (induction ds arbitrary: "done" n)
  case Nil
  then show ?case by simp
next
  case (Cons d ds)
  have "each Q ((done @ [f d]) @ ds)" if "p d" using Cons.prems assms(2) that by auto
  with Cons.IH [of "done @ [f d]"] Cons.IH [of "done @ [d]"] Cons.prems show ?case by auto
qed

context mongo_collection
begin

lemma all_InsertOne: "Q d \<Longrightarrow> keeps (each Q) (InsertOne C d)"
  by (rule keepsI) (auto simp: InsertOne_law insert_doc_def)

lemma all_UpdateOne:
  assumes "\<And>d. Q d \<Longrightarrow> p d \<Longrightarrow> Q (f d)"
  shows "keeps (each Q) (UpdateOne C p f)"
proof
  fix ds assume "each Q ds"
  from each_update_one [where Q = Q and p = p and f = f, OF this assms] show "each Q (snd (UpdateOne C p f ds))"
    unfolding UpdateOne_law .
qed

lemma all_UpdateOneWith:
  "(\<And>d d'. Q d \<Longrightarrow> p d \<Longrightarrow> g d = Inr d' \<Longrightarrow> Q d') \<Longrightarrow> keeps (each Q) (UpdateOneWith C p g)"
  by (rule keepsI)
    (auto simp: UpdateOneWith_law update_one_with_def update_one_def dest!: find_Some_set
      dest: set_upd1 split: option.splits sum.splits if_splits)

lemma all_UpsertOne:
  assumes "\<And>d. Q d \<Longrightarrow> p d \<Longrightarrow> Q (f d)" and "Q new"
  shows "keeps (each Q) (UpsertOne C p f new)"
proof
  fix ds assume ds: "each Q ds"
  from each_update_one [where Q = Q and p = p and f = f, OF ds assms(1)] ds assms(2) show "each Q (snd (UpsertOne C p f new ds))"
    by (simp add: UpsertOne_law upsert_one_def)
qed

lemma all_UpdateMany:
  assumes "\<And>d. Q d \<Longrightarrow> p d \<Longrightarrow> Q (f d)"
  shows "keeps (each Q) (UpdateMany C p f)"
proof
  fix ds assume "each Q ds"
  then have "each Q ([] @ ds)" by simp
  from each_update_many_from [where Q = Q and p = p and f = f and sk = sk and n = 0, OF this assms] show "each Q (snd (UpdateMany C p f ds))"
    by (simp add: UpdateMany_law update_many_def split: prod.splits sum.splits)
qed

lemma all_DeleteMany: "keeps (each Q) (DeleteMany C p)"
  by (rule keepsI) (auto simp: DeleteMany_law)

end

section \<open>Transactions\<close>

text \<open>
  Inside a transaction an operation that fails aborts the transaction on the server, and every
  later operation of it is refused, whatever the callback does with the error; the flag of the
  state records it. The changes take effect when the callback and the commit succeed, and none
  of them does otherwise.
\<close>

definition txn_aborted :: goerr where
  "txn_aborted = ErrDB ''NoSuchTransaction''"

definition sess_op :: "('s, 'a) act \<Rightarrow> ('s \<times> bool, 'a) act" where
  "sess_op m =
     (\<lambda>(s, aborted).
        if aborted then (Inl txn_aborted, (s, True))
        else case m s of
            (Inl e, s') \<Rightarrow> (Inl e, (s', True))
          | (Inr a, s') \<Rightarrow> (Inr a, (s', False)))"

definition run_transaction :: "('s \<times> bool, unit) act \<Rightarrow> ('s, unit) act" where
  "run_transaction m =
     (\<lambda>s. case m (s, False) of
        (Inl e, _) \<Rightarrow> (Inl e, s)
      | (Inr _, (s', aborted)) \<Rightarrow> if aborted then (Inl txn_aborted, s) else (Inr (), s'))"

lemma run_transaction_atomic:
  "snd (run_transaction m s) = s \<or> (\<exists>s'. m (s, False) = (Inr (), (s', False)) \<and> run_transaction m s = (Inr (), s'))"
  by (auto simp: run_transaction_def split: prod.splits sum.splits if_splits)

lemma sess_op_ok: "sess_op m (s, False) = (Inr a, t) \<longleftrightarrow> (\<exists>s'. m s = (Inr a, s') \<and> t = (s', False))"
  by (auto simp: sess_op_def split: prod.splits sum.splits)

lemma sess_op_aborted [simp]: "sess_op m (s, True) = (Inl txn_aborted, (s, True))"
  by (simp add: sess_op_def)

lemma keeps_sess_op: "keeps P m \<Longrightarrow> keeps (\<lambda>s. P (fst s)) (sess_op m)"
  by (fastforce simp: keeps_def sess_op_def split: prod.splits sum.splits)

lemma keeps_run_transaction:
  assumes "keeps (\<lambda>s. P (fst s)) m"
  shows "keeps P (run_transaction m)"
proof
  fix s assume "P s"
  with assms have "P (fst (snd (m (s, False))))" by (auto simp: keeps_def)
  then show "P (snd (run_transaction m s))"
    using \<open>P s\<close> by (auto simp: run_transaction_def split: prod.splits sum.splits)
qed

section \<open>A driver with this behaviour\<close>

definition mem_coll :: "('d \<Rightarrow> 'd \<Rightarrow> bool) \<Rightarrow> 'd coll" where
  "mem_coll sk =
     \<lparr>FindOne = (\<lambda>p srt ds. case srt (filter p ds) of [] \<Rightarrow> Inl ErrNoDocuments | d # _ \<Rightarrow> Inr d),
      Find = find_page,
      CountDocuments = (\<lambda>p ds. Inr (length (filter p ds))),
      InsertOne = insert_doc sk,
      InsertMany = forA (insert_doc sk),
      UpdateOne = update_one sk,
      UpdateOneWith = update_one_with sk,
      UpsertOne = upsert_one sk,
      UpdateMany = update_many sk,
      DeleteOne = (\<lambda>p ds. (Inr (min 1 (length (filter p ds))), del1 p ds)),
      DeleteMany = (\<lambda>p ds. (Inr (length (filter p ds)), filter (\<lambda>d. \<not> p d) ds))\<rparr>"

interpretation mem: mongo_collection "mem_coll sk" sk for sk
  by unfold_locales (simp_all add: mem_coll_def)

lemma mem_coll_lawful: "mongo_collection (mem_coll sk) sk"
  by (rule mem.mongo_collection_axioms)

text \<open>The key of a unique index, and a list in which every key occurs once.\<close>

definition same_by :: "('d \<Rightarrow> 'k) \<Rightarrow> 'd \<Rightarrow> 'd \<Rightarrow> bool" where
  "same_by key x y = (key x = key y)"

lemma taken_same_by [simp]: "taken (same_by key) d ds \<longleftrightarrow> key d \<in> key ` set ds"
  unfolding taken_def same_by_def by (metis image_iff)

lemma distinct_insert_doc:
  "distinct (map key ds) \<Longrightarrow> distinct (map key (snd (insert_doc (same_by key) d ds)))"
  by (auto simp: insert_doc_def)

lemma del1_split:
  "List.find p ds = Some d \<Longrightarrow> \<exists>as bs. ds = as @ d # bs \<and> (\<forall>a\<in>set as. \<not> p a) \<and> p d \<and> del1 p ds = as @ bs
     \<and> upd1 p f ds = as @ f d # bs"
proof (induction ds)
  case Nil
  then show ?case by simp
next
  case (Cons x xs)
  show ?case
  proof (cases "p x")
    case True
    with Cons.prems show ?thesis by (intro exI [of _ "[]"] exI [of _ xs]) auto
  next
    case False
    with Cons obtain as bs where "xs = as @ d # bs" "\<forall>a\<in>set as. \<not> p a" "p d" "del1 p xs = as @ bs"
      "upd1 p f xs = as @ f d # bs" by auto
    with False show ?thesis by (intro exI [of _ "x # as"] exI [of _ bs]) auto
  qed
qed

lemma distinct_update_one:
  assumes "distinct (map key ds)"
  shows "distinct (map key (snd (update_one (same_by key) p f ds)))"
proof (cases "List.find p ds")
  case None
  with assms show ?thesis by (simp add: update_one_def)
next
  case (Some d)
  from del1_split [OF Some, of f] obtain as bs where
    "ds = as @ d # bs" "del1 p ds = as @ bs" "upd1 p f ds = as @ f d # bs" by blast
  with assms Some show ?thesis
    by (auto simp: update_one_def same_by_def image_iff)
qed

lemma distinct_update_one_with:
  "distinct (map key ds) \<Longrightarrow> distinct (map key (snd (update_one_with (same_by key) p g ds)))"
  by (auto simp: update_one_with_def distinct_update_one split: option.splits sum.splits)

lemma distinct_upsert_one:
  "distinct (map key ds) \<Longrightarrow> distinct (map key (snd (upsert_one (same_by key) p f new ds)))"
  by (auto simp: upsert_one_def distinct_update_one)

lemma distinct_update_many_from:
  assumes "distinct (map key (done @ ds))"
  shows "distinct (map key (snd (update_many_from (same_by key) p f done n ds)))"
  using assms
proof (induction ds arbitrary: "done" n)
  case Nil
  then show ?case by simp
next
  case (Cons d ds)
  let ?clash = "key d \<noteq> key (f d) \<and> key (f d) \<in> key ` set (done @ ds)"
  show ?case
  proof (cases "p d \<and> \<not> ?clash")
    case True
    with Cons.prems have "distinct (map key ((done @ [f d]) @ ds))"
      by (cases "key d = key (f d)") auto
    from Cons.IH [OF this] True show ?thesis by (auto simp: same_by_def [of key d])
  next
    case False
    with Cons.prems Cons.IH [of "done @ [d]"] show ?thesis by (auto simp: same_by_def [of key d])
  qed
qed

lemma distinct_update_many:
  "distinct (map key ds) \<Longrightarrow> distinct (map key (snd (update_many (same_by key) p f ds)))"
  using distinct_update_many_from [of key "[]" ds p f 0]
  by (auto simp: update_many_def split: prod.splits sum.splits)

lemma distinct_map_filter': "distinct (map key ds) \<Longrightarrow> distinct (map key (filter p ds))"
  by (rule distinct_map_filter)

lemma distinct_del1: "distinct (map key ds) \<Longrightarrow> distinct (map key (del1 p ds))"
proof (induction ds)
  case (Cons d ds)
  have "set (del1 p ds) \<subseteq> set ds" by (induction ds) auto
  with Cons show ?case by auto
qed simp

end
