(* ===== verification/StoreDb.thy ===== *)
theory StoreDb
  imports Utils Mongo
begin

text \<open>
  The \<open>MongodbIndexerStore\<close> of \<open>store.go\<close>: its collections (each a parameter of the interface
  of \<open>Mongo\<close>), the database they keep, what the BSON encoding of a document drops, and the
  interface \<open>mongo_store\<close> that collects the laws of the collections with their unique indexes
  (\<open>scripts/init_mongodb.js\<close>). The invariant of the database is that every unique key occurs
  once.
\<close>

section \<open>The database and the store\<close>

record db =
  db_tokens :: "Token list"
  db_assets :: "AssetDoc list"
  db_identities :: "AccountIdentity list"
  db_ffIdentities :: "AccountIdentity list"
  db_accounts :: "Account list"
  db_accountTokens :: "AccountToken list"
  db_collections :: "Collection list"
  db_collectionAssets :: "CollectionAsset list"
  db_sales :: "SaleDoc list"
  db_rates :: "ExchangeRate list"
  db_previews :: "StaticPreview list"

record store =
  st_environment :: string
  tokenCollection :: "Token coll"
  assetCollection :: "AssetDoc coll"
  identityCollection :: "AccountIdentity coll"
  ffIdentityCollection :: "AccountIdentity coll"
  accountCollection :: "Account coll"
  accountTokenCollection :: "AccountToken coll"
  collectionsCollection :: "Collection coll"
  collectionAssetsCollection :: "CollectionAsset coll"
  salesTimeSeriesCollection :: "SaleDoc coll"
  historicalExchangeRatesCollection :: "ExchangeRate coll"
  sess_update :: "(db, upd_result) act \<Rightarrow> (db \<times> bool, upd_result) act"
  sess_delete :: "(db, nat) act \<Rightarrow> (db \<times> bool, nat) act"
  WithTransaction :: "(db \<times> bool, unit) act \<Rightarrow> (db, unit) act"

text \<open>The keys of the unique indexes over two fields.\<close>

definition at_key :: "AccountToken \<Rightarrow> string \<times> string" where
  "at_key a = (at_IndexID a, at_OwnerAccount a)"

definition er_key :: "ExchangeRate \<Rightarrow> gotime \<times> string" where
  "er_key r = (er_Timestamp r, er_CurrencyPair r)"

abbreviation no_unique :: "'d \<Rightarrow> 'd \<Rightarrow> bool" where
  "no_unique \<equiv> \<lambda>_ _. False"

locale mongo_store =
  fixes st :: store
  assumes tokens_law: "mongo_collection (tokenCollection st) (same_by tok_IndexID)"
    and assets_law: "mongo_collection (assetCollection st) (same_by asset_IndexID)"
    and identities_law: "mongo_collection (identityCollection st) (same_by ident_AccountNumber)"
    and ffIdentities_law: "mongo_collection (ffIdentityCollection st) (same_by ident_AccountNumber)"
    and accounts_law: "mongo_collection (accountCollection st) (same_by acc_Account)"
    and accountTokens_law: "mongo_collection (accountTokenCollection st) (same_by at_key)"
    and collections_law: "mongo_collection (collectionsCollection st) no_unique"
    and collectionAssets_law: "mongo_collection (collectionAssetsCollection st) no_unique"
    and sales_law: "mongo_collection (salesTimeSeriesCollection st) no_unique"
    and rates_law: "mongo_collection (historicalExchangeRatesCollection st) (same_by er_key)"
    and sess_update_law: "sess_update st m = sess_op m"
    and sess_delete_law: "sess_delete st n = sess_op n"
    and WithTransaction_law: "WithTransaction st c = run_transaction c"

sublocale mongo_store \<subseteq> tokens: mongo_collection "tokenCollection st" "same_by tok_IndexID"
  by (rule tokens_law)

sublocale mongo_store \<subseteq> assets: mongo_collection "assetCollection st" "same_by asset_IndexID"
  by (rule assets_law)

sublocale mongo_store \<subseteq> identities: mongo_collection "identityCollection st" "same_by ident_AccountNumber"
  by (rule identities_law)

sublocale mongo_store \<subseteq> ffIdentities: mongo_collection "ffIdentityCollection st" "same_by ident_AccountNumber"
  by (rule ffIdentities_law)

sublocale mongo_store \<subseteq> accounts: mongo_collection "accountCollection st" "same_by acc_Account"
  by (rule accounts_law)

sublocale mongo_store \<subseteq> accountTokens: mongo_collection "accountTokenCollection st" "same_by at_key"
  by (rule accountTokens_law)

sublocale mongo_store \<subseteq> collections: mongo_collection "collectionsCollection st" no_unique
  by (rule collections_law)

sublocale mongo_store \<subseteq> collectionAssets: mongo_collection "collectionAssetsCollection st" no_unique
  by (rule collectionAssets_law)

sublocale mongo_store \<subseteq> sales: mongo_collection "salesTimeSeriesCollection st" no_unique
  by (rule sales_law)

sublocale mongo_store \<subseteq> rates: mongo_collection "historicalExchangeRatesCollection st" "same_by er_key"
  by (rule rates_law)

text \<open>The store over the collections of \<open>mem_coll\<close>.\<close>

definition mem_store :: "string \<Rightarrow> store" where
  "mem_store env =
     \<lparr>st_environment = env,
      tokenCollection = mem_coll (same_by tok_IndexID),
      assetCollection = mem_coll (same_by asset_IndexID),
      identityCollection = mem_coll (same_by ident_AccountNumber),
      ffIdentityCollection = mem_coll (same_by ident_AccountNumber),
      accountCollection = mem_coll (same_by acc_Account),
      accountTokenCollection = mem_coll (same_by at_key),
      collectionsCollection = mem_coll no_unique,
      collectionAssetsCollection = mem_coll no_unique,
      salesTimeSeriesCollection = mem_coll no_unique,
      historicalExchangeRatesCollection = mem_coll (same_by er_key),
      sess_update = sess_op, sess_delete = sess_op, WithTransaction = run_transaction\<rparr>"

interpretation mem_st: mongo_store "mem_store env" for env
  by (rule mongo_store.intro) (simp_all add: mem_store_def mem_coll_lawful)

lemma mem_store_lawful: "mongo_store (mem_store env)"
  by (rule mem_st.mongo_store_axioms)

section \<open>Running an operation on one collection\<close>

definition on_tokens :: "(Token list, 'a) act \<Rightarrow> (db, 'a) act" where
  "on_tokens m = zoomA db_tokens (\<lambda>t s. s\<lparr>db_tokens := t\<rparr>) m"

definition on_assets :: "(AssetDoc list, 'a) act \<Rightarrow> (db, 'a) act" where
  "on_assets m = zoomA db_assets (\<lambda>t s. s\<lparr>db_assets := t\<rparr>) m"

definition on_identities :: "(AccountIdentity list, 'a) act \<Rightarrow> (db, 'a) act" where
  "on_identities m = zoomA db_identities (\<lambda>t s. s\<lparr>db_identities := t\<rparr>) m"

definition on_accounts :: "(Account list, 'a) act \<Rightarrow> (db, 'a) act" where
  "on_accounts m = zoomA db_accounts (\<lambda>t s. s\<lparr>db_accounts := t\<rparr>) m"

definition on_accountTokens :: "(AccountToken list, 'a) act \<Rightarrow> (db, 'a) act" where
  "on_accountTokens m = zoomA db_accountTokens (\<lambda>t s. s\<lparr>db_accountTokens := t\<rparr>) m"

definition on_collections :: "(Collection list, 'a) act \<Rightarrow> (db, 'a) act" where
  "on_collections m = zoomA db_collections (\<lambda>t s. s\<lparr>db_collections := t\<rparr>) m"

definition on_collectionAssets :: "(CollectionAsset list, 'a) act \<Rightarrow> (db, 'a) act" where
  "on_collectionAssets m = zoomA db_collectionAssets (\<lambda>t s. s\<lparr>db_collectionAssets := t\<rparr>) m"

definition on_sales :: "(SaleDoc list, 'a) act \<Rightarrow> (db, 'a) act" where
  "on_sales m = zoomA db_sales (\<lambda>t s. s\<lparr>db_sales := t\<rparr>) m"

definition on_rates :: "(ExchangeRate list, 'a) act \<Rightarrow> (db, 'a) act" where
  "on_rates m = zoomA db_rates (\<lambda>t s. s\<lparr>db_rates := t\<rparr>) m"

lemmas on_coll_defs = on_tokens_def on_assets_def on_identities_def on_accounts_def
  on_accountTokens_def on_collections_def on_collectionAssets_def on_sales_def on_rates_def

lemmas run_db = act_simps on_coll_defs

section \<open>The unique indexes as an invariant\<close>

definition db_inv :: "db \<Rightarrow> bool" where
  "db_inv s \<longleftrightarrow>
     distinct (map tok_IndexID (db_tokens s)) \<and>
     distinct (map asset_IndexID (db_assets s)) \<and>
     distinct (map ident_AccountNumber (db_identities s)) \<and>
     distinct (map acc_Account (db_accounts s)) \<and>
     distinct (map at_key (db_accountTokens s)) \<and>
     distinct (map er_key (db_rates s))"

lemma keeps_on_tokens:
  "keeps (\<lambda>ds. distinct (map tok_IndexID ds)) m \<Longrightarrow> keeps db_inv (on_tokens m)"
  by (fastforce simp: keeps_def db_inv_def on_tokens_def zoomA_def split: prod.splits)

lemma keeps_on_assets:
  "keeps (\<lambda>ds. distinct (map asset_IndexID ds)) m \<Longrightarrow> keeps db_inv (on_assets m)"
  by (fastforce simp: keeps_def db_inv_def on_assets_def zoomA_def split: prod.splits)

lemma keeps_on_identities:
  "keeps (\<lambda>ds. distinct (map ident_AccountNumber ds)) m \<Longrightarrow> keeps db_inv (on_identities m)"
  by (fastforce simp: keeps_def db_inv_def on_identities_def zoomA_def split: prod.splits)

lemma keeps_on_accounts:
  "keeps (\<lambda>ds. distinct (map acc_Account ds)) m \<Longrightarrow> keeps db_inv (on_accounts m)"
  by (fastforce simp: keeps_def db_inv_def on_accounts_def zoomA_def split: prod.splits)

lemma keeps_on_accountTokens:
  "keeps (\<lambda>ds. distinct (map at_key ds)) m \<Longrightarrow> keeps db_inv (on_accountTokens m)"
  by (fastforce simp: keeps_def db_inv_def on_accountTokens_def zoomA_def split: prod.splits)

lemma keeps_on_rates:
  "keeps (\<lambda>ds. distinct (map er_key ds)) m \<Longrightarrow> keeps db_inv (on_rates m)"
  by (fastforce simp: keeps_def db_inv_def on_rates_def zoomA_def split: prod.splits)

lemma keeps_on_collections: "keeps db_inv (on_collections m)"
  by (auto simp: keeps_def db_inv_def on_collections_def zoomA_def split: prod.splits)

lemma keeps_on_collectionAssets: "keeps db_inv (on_collectionAssets m)"
  by (auto simp: keeps_def db_inv_def on_collectionAssets_def zoomA_def split: prod.splits)

lemma keeps_on_sales: "keeps db_inv (on_sales m)"
  by (auto simp: keeps_def db_inv_def on_sales_def zoomA_def split: prod.splits)

lemmas keeps_on = keeps_on_tokens keeps_on_assets keeps_on_identities keeps_on_accounts
  keeps_on_accountTokens keeps_on_rates keeps_on_collections keeps_on_collectionAssets keeps_on_sales

text \<open>A property of the token collection alone.\<close>

lemma keeps_tokens_only:
  "keeps R m \<Longrightarrow> keeps (\<lambda>s. R (db_tokens s)) (on_tokens m)"
  "keeps (\<lambda>s. R (db_tokens s)) (on_assets m1)"
  "keeps (\<lambda>s. R (db_tokens s)) (on_collectionAssets m2)"
  "keeps (\<lambda>s. R (db_tokens s)) (on_accountTokens m3)"
  by (fastforce simp: keeps_def on_coll_defs zoomA_def split: prod.splits)+

text \<open>Every operation of a collection with a unique index keeps its keys distinct.\<close>

lemma keeps_forA_insert:
  "keeps (\<lambda>ds. distinct (map key ds)) (forA (insert_doc (same_by key)) docs)"
  by (intro keeps_forA keepsI distinct_insert_doc)

locale keyed_collection =
  fixes C :: "'d coll" and key :: "'d \<Rightarrow> 'k"
  assumes law: "mongo_collection C (same_by key)"
begin

abbreviation "uniq \<equiv> \<lambda>ds. distinct (map key ds)"

lemma keeps_InsertOne: "keeps uniq (InsertOne C d)"
  by (rule keepsI) (simp add: mongo_collection.InsertOne_law [OF law] distinct_insert_doc)

lemma keeps_UpdateOne: "keeps uniq (UpdateOne C p f)"
  by (rule keepsI) (simp add: mongo_collection.UpdateOne_law [OF law] distinct_update_one)

lemma keeps_UpdateOneWith: "keeps uniq (UpdateOneWith C p g)"
  by (rule keepsI) (simp add: mongo_collection.UpdateOneWith_law [OF law] distinct_update_one_with)

lemma keeps_UpsertOne: "keeps uniq (UpsertOne C p f new)"
  by (rule keepsI) (simp add: mongo_collection.UpsertOne_law [OF law] distinct_upsert_one)

lemma keeps_UpdateMany: "keeps uniq (UpdateMany C p f)"
  by (rule keepsI) (simp add: mongo_collection.UpdateMany_law [OF law] distinct_update_many)

lemma keeps_DeleteOne: "keeps uniq (DeleteOne C p)"
  by (rule keepsI) (simp add: mongo_collection.DeleteOne_law [OF law] distinct_del1)

lemma keeps_DeleteMany: "keeps uniq (DeleteMany C p)"
  by (rule keepsI) (simp add: mongo_collection.DeleteMany_law [OF law] distinct_map_filter)

text \<open>An upsert by key replaces the document with this key, or appends the new one.\<close>

lemma upsert_by_key:
  assumes "\<And>d. key d = k \<Longrightarrow> key (f d) = k" and "key new = k"
  shows "UpsertOne C (\<lambda>d. key d = k) f new ds =
    (Inr (case List.find (\<lambda>d. key d = k) ds of
            None \<Rightarrow> \<lparr>MatchedCount = 0, ModifiedCount = 0, UpsertedCount = 1\<rparr>
          | Some d \<Rightarrow> upd_res d (f d)),
     if \<exists>d\<in>set ds. key d = k then upd1 (\<lambda>d. key d = k) f ds else ds @ [new])"
proof (cases "List.find (\<lambda>d. key d = k) ds")
  case None
  then have none: "\<forall>d\<in>set ds. key d \<noteq> k" by (simp add: find_None)
  then have "\<not> (\<exists>d\<in>set ds. key d = k)" "k \<notin> key ` set ds" by auto
  with None assms(2) show ?thesis
    by (simp add: mongo_collection.UpsertOne_law [OF law] upsert_one_def)
next
  case (Some d)
  then have ex: "\<exists>d\<in>set ds. key d = k" and k: "key d = k" using find_Some_set [OF Some] by auto
  from assms(1) [OF k] k have "same_by key d (f d)" by (simp add: same_by_def)
  with Some ex show ?thesis
    by (simp add: mongo_collection.UpsertOne_law [OF law] upsert_one_def update_one_def)
qed

lemmas keeps_ops = keeps_InsertOne keeps_UpdateOne keeps_UpdateOneWith keeps_UpsertOne
  keeps_UpdateMany keeps_DeleteOne keeps_DeleteMany

end

sublocale mongo_store \<subseteq> ktokens: keyed_collection "tokenCollection st" tok_IndexID
  by (rule keyed_collection.intro) (rule tokens_law)

sublocale mongo_store \<subseteq> kassets: keyed_collection "assetCollection st" asset_IndexID
  by (rule keyed_collection.intro) (rule assets_law)

sublocale mongo_store \<subseteq> kidentities: keyed_collection "identityCollection st" ident_AccountNumber
  by (rule keyed_collection.intro) (rule identities_law)

sublocale mongo_store \<subseteq> kaccounts: keyed_collection "accountCollection st" acc_Account
  by (rule keyed_collection.intro) (rule accounts_law)

sublocale mongo_store \<subseteq> kaccountTokens: keyed_collection "accountTokenCollection st" at_key
  by (rule keyed_collection.intro) (rule accountTokens_law)

sublocale mongo_store \<subseteq> krates: keyed_collection "historicalExchangeRatesCollection st" er_key
  by (rule keyed_collection.intro) (rule rates_law)

interpretation mem_keyed: keyed_collection "mem_coll (same_by key)" key for key
  by (rule keyed_collection.intro) (rule mem_coll_lawful)

context mongo_store
begin

lemma sess_run:
  "sess_update st m = sess_op m" "sess_delete st n = sess_op n" "WithTransaction st c = run_transaction c"
  by (rule sess_update_law, rule sess_delete_law, rule WithTransaction_law)

text \<open>The operations on the collections keep the unique indexes of the database.\<close>

lemmas store_keeps =
  keeps_on_tokens [OF ktokens.keeps_InsertOne] keeps_on_tokens [OF ktokens.keeps_UpdateOne]
  keeps_on_tokens [OF ktokens.keeps_UpdateOneWith] keeps_on_tokens [OF ktokens.keeps_UpsertOne]
  keeps_on_tokens [OF ktokens.keeps_UpdateMany] keeps_on_tokens [OF ktokens.keeps_DeleteMany]
  keeps_on_assets [OF kassets.keeps_InsertOne] keeps_on_assets [OF kassets.keeps_UpdateOne]
  keeps_on_assets [OF kassets.keeps_UpdateMany]
  keeps_on_identities [OF kidentities.keeps_UpsertOne]
  keeps_on_accounts [OF kaccounts.keeps_UpsertOne]
  keeps_on_accountTokens [OF kaccountTokens.keeps_UpsertOne]
  keeps_on_accountTokens [OF kaccountTokens.keeps_UpdateMany]
  keeps_on_accountTokens [OF kaccountTokens.keeps_DeleteMany]
  keeps_on_rates [OF krates.keeps_UpsertOne]
  keeps_on_collections keeps_on_collectionAssets keeps_on_sales

end

section \<open>What the encoding of a document drops\<close>

text \<open>Fields with the tag \<open>bson:"-"\<close> are not stored, and read back as zero values.\<close>

definition bson_Provenance :: "Provenance \<Rightarrow> Provenance" where
  "bson_Provenance p = p\<lparr>prov_FormerOwner := None\<rparr>"

definition bson_Token :: "Token \<Rightarrow> Token" where
  "bson_Token t = t\<lparr>tok_Balance := 0, tok_Provenances := map_option (map bson_Provenance) (tok_Provenances t)\<rparr>"

definition bson_ProjectMetadata :: "ProjectMetadata \<Rightarrow> ProjectMetadata" where
  "bson_ProjectMetadata pm = pm\<lparr>pm_OriginalFileURL := []\<rparr>"

lemma bson_Token_simps [simp]:
  "tok_IndexID (bson_Token t) = tok_IndexID t" "tok_Burned (bson_Token t) = tok_Burned t"
  "tok_Base (bson_Token t) = tok_Base t" "tok_Source (bson_Token t) = tok_Source t"
  "tok_OwnersArray (bson_Token t) = tok_OwnersArray t" "tok_IsDemo (bson_Token t) = tok_IsDemo t"
  "tok_LastActivityTime (bson_Token t) = tok_LastActivityTime t"
  "tok_Owners (bson_Token t) = tok_Owners t"
  by (simp_all add: bson_Token_def)

text \<open>The provenance and the owners of a token, the missing ones as empty.\<close>

definition provs :: "Token \<Rightarrow> Provenance list" where
  "provs t = (case tok_Provenances t of None \<Rightarrow> [] | Some ps \<Rightarrow> ps)"

definition get_token :: "string \<Rightarrow> db \<Rightarrow> Token option" where
  "get_token i s = List.find (\<lambda>t. tok_IndexID t = i) (db_tokens s)"

definition empty_db :: db where
  "empty_db = \<lparr>db_tokens = [], db_assets = [], db_identities = [], db_ffIdentities = [],
     db_accounts = [], db_accountTokens = [], db_collections = [], db_collectionAssets = [],
     db_sales = [], db_rates = [], db_previews = []\<rparr>"

lemma db_inv_empty [simp]: "db_inv empty_db"
  by (simp add: db_inv_def empty_db_def)

end
