(* ===== verification/StoreTokens.thy ===== *)
theory StoreTokens
  imports StoreDb
begin

text \<open>
  The operations of the store on assets and tokens (\<open>store.go\<close>): indexing an asset with its
  tokens, swapping a token, updates of owners and of provenance (two of them under the
  optimistic lock \<open>lastRefreshedTime\<close>), demo tokens, and the reads over the token collection.
  A document filter is the predicate it denotes and an update document the function it denotes.
\<close>

section \<open>Reads\<close>

definition find_token :: "store \<Rightarrow> (Token \<Rightarrow> bool) \<Rightarrow> (db, Token) act" where
  "find_token st p = readA db_tokens (FindOne (tokenCollection st) p (\<lambda>ds. ds))"

definition find_tokens :: "store \<Rightarrow> (Token \<Rightarrow> bool) \<Rightarrow> (db, Token list) act" where
  "find_tokens st p = readA db_tokens (Find (tokenCollection st) p (\<lambda>ds. ds) 0 0)"

definition FilterTokenIDsWithInconsistentProvenanceForOwner ::
    "store \<Rightarrow> string list \<Rightarrow> string \<Rightarrow> (db, string list) act" where
  "FilterTokenIDsWithInconsistentProvenanceForOwner st indexIDs owner =
     bindA (find_tokens st (\<lambda>t. tok_IndexID t \<in> set indexIDs \<and> \<not> tok_Fungible t \<and>
         (case provs t of [] \<Rightarrow> True | p # _ \<Rightarrow> prov_Owner p \<noteq> owner)))
       (\<lambda>ts. retA (map tok_IndexID ts))"

definition GetTokensByIndexIDs :: "store \<Rightarrow> string list \<Rightarrow> (db, Token list) act" where
  "GetTokensByIndexIDs st ids = find_tokens st (\<lambda>t. tok_IndexID t \<in> set ids)"

definition GetTokenByIndexID :: "store \<Rightarrow> string \<Rightarrow> (db, Token option) act" where
  "GetTokenByIndexID st indexID =
     bindA (GetTokensByIndexIDs st [indexID])
       (\<lambda>tokens. retA (case tokens of [] \<Rightarrow> None | t # _ \<Rightarrow> Some t))"

definition FilterBurnedIndexIDs :: "store \<Rightarrow> string list \<Rightarrow> (db, string list) act" where
  "FilterBurnedIndexIDs st indexIDs =
     bindA (find_tokens st (\<lambda>t. tok_IndexID t \<in> set indexIDs \<and> tok_Burned t))
       (\<lambda>ts. let burnedTokens = set (map tok_IndexID ts)
             in retA (filter (\<lambda>i. i \<notin> burnedTokens) indexIDs))"

definition GetNullProvenanceTokensByIndexIDs :: "store \<Rightarrow> string list \<Rightarrow> (db, string list) act" where
  "GetNullProvenanceTokensByIndexIDs st indexIDs =
     bindA (find_tokens st (\<lambda>t. tok_IndexID t \<in> set indexIDs \<and> \<not> tok_Fungible t \<and>
         tok_Provenances t = None))
       (\<lambda>ts. retA (map tok_IndexID ts))"

section \<open>Indexing an asset and its tokens\<close>

record TokenUpdateSet =
  tus_Source :: string
  tus_AssetID :: string
  tus_Fungible :: bool
  tus_Edition :: int
  tus_EditionName :: string
  tus_ContractAddress :: string
  tus_MintedAt :: gotime
  tus_LastRefreshedTime :: gotime
  tus_LastActivityTime :: gotime

text \<open>
  \<open>$set\<close> of \<open>structs.Map(tokenUpdateSet)\<close>: a field with \<open>omitempty\<close> and the zero value is not
  in the map.
\<close>

definition set_TokenUpdateSet :: "TokenUpdateSet \<Rightarrow> Token \<Rightarrow> Token" where
  "set_TokenUpdateSet u t =
     t\<lparr>tok_Source := (if tus_Source u = [] then tok_Source t else tus_Source u),
       tok_AssetID := (if tus_AssetID u = [] then tok_AssetID t else tus_AssetID u),
       tok_Base := (tok_Base t)
         \<lparr>base_Fungible := (if tus_Fungible u then True else tok_Fungible t),
          base_ContractAddress := (if tus_ContractAddress u = [] then tok_ContractAddress t
                                   else tus_ContractAddress u)\<rparr>,
       tok_Edition := (if tus_Edition u = 0 then tok_Edition t else tus_Edition u),
       tok_EditionName := (if tus_EditionName u = [] then tok_EditionName t else tus_EditionName u),
       tok_MintedAt := (if tus_MintedAt u = 0 then tok_MintedAt t else tus_MintedAt u),
       tok_LastRefreshedTime := tus_LastRefreshedTime u,
       tok_LastActivityTime := (if tus_LastActivityTime u = 0 then tok_LastActivityTime t
                                else tus_LastActivityTime u)\<rparr>"

definition checkIfTokenNeedToUpdate :: "string \<Rightarrow> Token \<Rightarrow> bool" where
  "checkIfTokenNeedToUpdate assetSource currentToken =
     (if assetSource = SourceFeralFile then True
      else if tok_Swapped currentToken \<or> tok_Burned currentToken then False
      else if tok_Source currentToken \<noteq> SourceFeralFile then True
      else False)"

definition asset_index_id :: "string \<Rightarrow> string \<Rightarrow> string" where
  "asset_index_id source assetID = to_lower source @ ''-'' @ assetID"

text \<open>
  An insertion goes through \<open>structs.Map\<close>, which names the fields of the attributes as Go does (\<open>BackgroundColor\<close>), since they have no
  tag for it. A document is read by the names of the tags, or these in lower case, so the fields whose name has two words
  are not found again.
\<close>

definition structs_AssetAttributes :: "AssetAttributes \<Rightarrow> AssetAttributes" where
  "structs_AssetAttributes attributes = attributes\<lparr>attr_Configuration :=
     map_option (\<lambda>c. c\<lparr>cfg_BackgroundColor := [], cfg_MarginLeft := 0, cfg_MarginRight := 0, cfg_MarginTop := 0,
       cfg_MarginBottom := 0, cfg_AutoPlay := False\<rparr>) (attr_Configuration attributes)\<rparr>"

definition structs_ProjectMetadata :: "ProjectMetadata \<Rightarrow> ProjectMetadata" where
  "structs_ProjectMetadata pm =
     (bson_ProjectMetadata pm)\<lparr>pm_Attributes := map_option structs_AssetAttributes (pm_Attributes pm)\<rparr>"

definition AssetUpdateSet :: "gotime \<Rightarrow> string \<Rightarrow> AssetUpdates \<Rightarrow> AssetDoc" where
  "AssetUpdateSet indexTime assetID au =
     \<lparr>asset_ID = assetID, asset_IndexID = asset_index_id (au_Source au) assetID,
      asset_Source = au_Source au, asset_BlockchainMetadata = au_BlockchainMetadata au,
      asset_ProjectMetadata =
        \<lparr>vpm_Origin = structs_ProjectMetadata (au_ProjectMetadata au),
         vpm_Latest = structs_ProjectMetadata (au_ProjectMetadata au)\<rparr>,
      asset_LastRefreshedTime = indexTime, asset_ThumbnailID = None, asset_IPFSPinned = False,
      asset_Attributes = None\<rparr>"

definition set_latest_metadata :: "gotime \<Rightarrow> ProjectMetadata \<Rightarrow> bool \<Rightarrow> AssetDoc \<Rightarrow> AssetDoc" where
  "set_latest_metadata indexTime pm unset_thumbnail a =
     a\<lparr>asset_ProjectMetadata := (asset_ProjectMetadata a)\<lparr>vpm_Latest := bson_ProjectMetadata pm\<rparr>,
       asset_LastRefreshedTime := indexTime,
       asset_ThumbnailID := (if unset_thumbnail then None else asset_ThumbnailID a)\<rparr>"

text \<open>The first half of \<open>IndexAsset\<close>: insert or update the asset.\<close>

definition index_asset_doc :: "store \<Rightarrow> gotime \<Rightarrow> string \<Rightarrow> AssetUpdates \<Rightarrow> (db, unit) act" where
  "index_asset_doc st indexTime assetID au =
     (let assetIndexID = asset_index_id (au_Source au) assetID;
          p = (\<lambda>a. asset_IndexID a = assetIndexID)
      in bindA (tryA (readA db_assets (FindOne (assetCollection st) p (\<lambda>ds. ds)))) (\<lambda>assetResult.
           case assetResult of
             Inl e \<Rightarrow>
               if e = ErrNoDocuments
               then on_assets (InsertOne (assetCollection st) (AssetUpdateSet indexTime assetID au))
               else throwA e
           | Inr currentAsset \<Rightarrow>
               if au_Source au = SourceFeralFile \<or> asset_Source currentAsset \<noteq> SourceFeralFile then
                 let pm = au_ProjectMetadata au;
                     unset = (pm_ThumbnailURL (vpm_Latest (asset_ProjectMetadata currentAsset))
                                \<noteq> pm_ThumbnailURL pm)
                 in bindA (on_assets (UpdateOne (assetCollection st) p (set_latest_metadata indexTime pm unset)))
                      (\<lambda>_. retA ())
               else retA ()))"

text \<open>
  The second half, once per token: the edition and the activity time the branch leaves in the
  local variables are its result, and go to the collection assets of the token.
\<close>

definition insert_new_token :: "store \<Rightarrow> Token \<Rightarrow> (db, int \<times> gotime) act" where
  "insert_new_token st token0 =
     (let edition = tok_Edition token0;
          token = (if time_IsZero (tok_LastActivityTime token0)
                   then token0\<lparr>tok_LastActivityTime := tok_MintedAt token0\<rparr> else token0);
          lastActivityTime = (if time_IsZero (tok_LastActivityTime token0) then tok_MintedAt token0
                              else tok_LastActivityTime token0);
          token = (if tok_Owner token \<noteq> []
                   then token\<lparr>tok_OwnersArray := Some [tok_Owner token],
                              tok_Owners := Some [tok_Owner token \<mapsto> 1]\<rparr> else token)
      in bindA (on_tokens (InsertOne (tokenCollection st) (bson_Token token)))
           (\<lambda>_. retA (edition, lastActivityTime)))"

definition token_update_set :: "gotime \<Rightarrow> string \<Rightarrow> Token \<Rightarrow> Token \<Rightarrow> TokenUpdateSet" where
  "token_update_set indexTime assetID token currentToken =
     \<lparr>tus_Source = tok_Source token, tus_AssetID = assetID, tus_Fungible = tok_Fungible token,
      tus_Edition = tok_Edition token, tus_EditionName = tok_EditionName token,
      tus_ContractAddress = tok_ContractAddress token,
      tus_MintedAt = (if time_IsZero (tok_MintedAt currentToken) \<and> \<not> time_IsZero (tok_MintedAt token)
                      then tok_MintedAt token else 0),
      tus_LastRefreshedTime = indexTime,
      tus_LastActivityTime = (if \<not> time_IsZero (tok_LastActivityTime token)
                              then tok_LastActivityTime token else 0)\<rparr>"

definition update_current_token ::
    "store \<Rightarrow> gotime \<Rightarrow> string \<Rightarrow> string \<Rightarrow> Token \<Rightarrow> Token \<Rightarrow> (db, int \<times> gotime) act" where
  "update_current_token st indexTime assetID assetSource token currentToken =
     (let edition = tok_Edition currentToken;
          lastActivityTime = tok_LastActivityTime currentToken
      in if checkIfTokenNeedToUpdate assetSource currentToken then
           let u = token_update_set indexTime assetID token currentToken;
               edition = tus_Edition u;
               lastActivityTime = (if \<not> time_IsZero (tus_LastActivityTime u)
                                   then tus_LastActivityTime u else lastActivityTime)
           in bindA (on_tokens (UpdateOne (tokenCollection st)
                       (\<lambda>t. tok_IndexID t = tok_IndexID token) (set_TokenUpdateSet u)))
                (\<lambda>_. retA (edition, lastActivityTime))
         else retA (edition, lastActivityTime))"

definition prepare_token :: "ext \<Rightarrow> string \<Rightarrow> string \<Rightarrow> Token \<Rightarrow> Token" where
  "prepare_token X assetID assetSource token0 =
     (let token = token0\<lparr>tok_AssetID := assetID\<rparr>;
          token = (if tok_IndexID token = []
                   then token\<lparr>tok_IndexID := TokenIndexID X (tok_Blockchain token)
                                (tok_ContractAddress token) (tok_ID token)\<rparr> else token)
      in if assetSource = SourceFeralFile then token\<lparr>tok_Source := SourceFeralFile\<rparr> else token)"

definition set_collection_asset :: "int \<times> gotime \<Rightarrow> CollectionAsset \<Rightarrow> CollectionAsset" where
  "set_collection_asset v c = c\<lparr>cas_Edition := fst v, cas_LastActivityTime := snd v\<rparr>"

definition index_asset_token ::
    "ext \<Rightarrow> store \<Rightarrow> gotime \<Rightarrow> string \<Rightarrow> string \<Rightarrow> Token \<Rightarrow> (db, unit) act" where
  "index_asset_token X st indexTime assetID assetSource token0 =
     (let token = prepare_token X assetID assetSource token0
      in bindA (tryA (find_token st (\<lambda>t. tok_IndexID t = tok_IndexID token))) (\<lambda>tokenResult.
           bindA (case tokenResult of
                    Inl e \<Rightarrow> if e = ErrNoDocuments then insert_new_token st token else throwA e
                  | Inr currentToken \<Rightarrow>
                      update_current_token st indexTime assetID assetSource token currentToken)
             (\<lambda>v. bindA (on_collectionAssets (UpdateOne (collectionAssetsCollection st)
                            (\<lambda>c. cas_TokenIndexID c = tok_IndexID token) (set_collection_asset v)))
                     (\<lambda>_. retA ()))))"

definition IndexAsset :: "ext \<Rightarrow> store \<Rightarrow> gotime \<Rightarrow> string \<Rightarrow> AssetUpdates \<Rightarrow> (db, unit) act" where
  "IndexAsset X st indexTime assetID assetUpdates =
     (let pm = au_ProjectMetadata assetUpdates;
          au = (if time_IsZero (pm_LastUpdatedAt pm)
                then assetUpdates\<lparr>au_ProjectMetadata := pm\<lparr>pm_LastUpdatedAt := indexTime\<rparr>\<rparr>
                else assetUpdates)
      in bindA (index_asset_doc st indexTime assetID au) (\<lambda>_.
           forA (index_asset_token X st indexTime assetID (au_Source au)) (au_Tokens au)))"

section \<open>Swapping a token\<close>

definition swapped_token :: "SwapUpdate \<Rightarrow> string \<Rightarrow> string \<Rightarrow> Token \<Rightarrow> Token" where
  "swapped_token swap originalTokenIndexID newTokenIndexID originalToken =
     originalToken
       \<lparr>tok_Base := (tok_Base originalToken)
          \<lparr>base_ID := swap_NewTokenID swap, base_Blockchain := swap_NewBlockchain swap,
           base_ContractAddress := swap_NewContractAddress swap,
           base_ContractType := swap_NewContractType swap\<rparr>,
        tok_IndexID := newTokenIndexID,
        tok_Swapped := True, tok_Burned := False, tok_SwappedTo := None,
        tok_SwappedFrom := Some originalTokenIndexID,
        tok_OriginTokenInfo := tok_Base originalToken # tok_OriginTokenInfo originalToken\<rparr>"

definition mark_swapped :: "string \<Rightarrow> Token \<Rightarrow> Token" where
  "mark_swapped newTokenIndexID t = t\<lparr>tok_Burned := True, tok_SwappedTo := Some newTokenIndexID\<rparr>"

text \<open>\<open>$set: newToken\<close>: the empty \<open>swappedTo\<close> is omitted, so it stays what it was.\<close>

definition set_token :: "Token \<Rightarrow> Token \<Rightarrow> Token" where
  "set_token newToken d = (bson_Token newToken)
     \<lparr>tok_SwappedTo := (case tok_SwappedTo newToken of None \<Rightarrow> tok_SwappedTo d | Some v \<Rightarrow> Some v),
      tok_SwappedFrom := (case tok_SwappedFrom newToken of None \<Rightarrow> tok_SwappedFrom d | Some v \<Rightarrow> Some v)\<rparr>"

definition move_account_token :: "string \<Rightarrow> gotime \<Rightarrow> gotime \<Rightarrow> AccountToken \<Rightarrow> AccountToken" where
  "move_account_token newTokenIndexID now1 now2 a =
     a\<lparr>at_IndexID := newTokenIndexID, at_LastRefreshedTime := now1, at_LastActivityTime := now2\<rparr>"

definition swap_transaction ::
    "store \<Rightarrow> gotime \<Rightarrow> gotime \<Rightarrow> string \<Rightarrow> string \<Rightarrow> Token \<Rightarrow> (db \<times> bool, unit) act" where
  "swap_transaction st now1 now2 originalTokenIndexID newTokenIndexID newToken =
     bindA (sess_update st (on_tokens (UpdateOne (tokenCollection st)
              (\<lambda>t. tok_IndexID t = originalTokenIndexID) (mark_swapped newTokenIndexID)))) (\<lambda>_.
     bindA (sess_update st (on_tokens (UpsertOne (tokenCollection st)
              (\<lambda>t. tok_IndexID t = newTokenIndexID) (set_token newToken) (bson_Token newToken)))) (\<lambda>r.
     if MatchedCount r = 0 \<and> UpsertedCount r = 0 then throwA ErrNoRecordUpdated
     else
     bindA (tryA (sess_update st (on_accountTokens (UpdateMany (accountTokenCollection st)
              (\<lambda>a. at_IndexID a = originalTokenIndexID) (move_account_token newTokenIndexID now1 now2))))) (\<lambda>res.
     case (case res of Inl e \<Rightarrow> if e \<noteq> ErrDuplicateKey then Some e else None | Inr _ \<Rightarrow> None) of
       Some e \<Rightarrow> throwA e
     | None \<Rightarrow>
         bindA (sess_delete st (on_accountTokens (DeleteMany (accountTokenCollection st)
                  (\<lambda>a. at_IndexID a = originalTokenIndexID)))) (\<lambda>_. retA ()))))"

definition SwapToken :: "ext \<Rightarrow> store \<Rightarrow> gotime \<Rightarrow> gotime \<Rightarrow> SwapUpdate \<Rightarrow> (db, string) act" where
  "SwapToken X st now1 now2 swap =
     (let originalTokenIndexID = TokenIndexID X (swap_OriginalBlockchain swap)
            (swap_OriginalContractAddress swap) (swap_OriginalTokenID swap)
      in if swap_NewBlockchain swap \<noteq> x_EthereumBlockchain X \<and> swap_NewBlockchain swap \<noteq> x_TezosBlockchain X
         then throwA (Errorf ''blockchain is not supported'')
         else
           let newTokenIndexID = TokenIndexID X (swap_NewBlockchain swap)
                 (swap_NewContractAddress swap) (swap_NewTokenID swap)
           in bindA (find_token st (\<lambda>t. tok_IndexID t = originalTokenIndexID)) (\<lambda>originalToken.
                if tok_Burned originalToken \<and>
                   (case tok_SwappedTo originalToken of None \<Rightarrow> False | Some v \<Rightarrow> v \<noteq> newTokenIndexID)
                then throwA (Errorf ''token has burned into different id'')
                else
                  bindA (WithTransaction st (swap_transaction st now1 now2 originalTokenIndexID newTokenIndexID
                           (swapped_token swap originalTokenIndexID newTokenIndexID originalToken)))
                    (\<lambda>_. retA newTokenIndexID)))"

section \<open>Owners and provenance\<close>

definition set_single_owner :: "string \<Rightarrow> gotime \<Rightarrow> gotime \<Rightarrow> Token \<Rightarrow> Token" where
  "set_single_owner owner activity now t =
     t\<lparr>tok_Owner := owner, tok_Owners := Some [owner \<mapsto> 1], tok_OwnersArray := Some [owner],
       tok_LastActivityTime := activity, tok_LastRefreshedTime := now\<rparr>"

definition UpdateOwner :: "store \<Rightarrow> gotime \<Rightarrow> string \<Rightarrow> string \<Rightarrow> gotime \<Rightarrow> (db, unit) act" where
  "UpdateOwner st now indexID owner updatedAt =
     (if owner = [] then retA ()
      else
        let burned = IsBurnAddress owner (st_environment st)
        in bindA (on_tokens (UpdateOne (tokenCollection st)
               (\<lambda>t. tok_IndexID t = indexID \<and> \<not> tok_Fungible t \<and> tok_LastActivityTime t < updatedAt)
               (\<lambda>t. (set_single_owner owner updatedAt now t)\<lparr>tok_Burned := burned\<rparr>)))
             (\<lambda>_. retA ()))"

definition set_provenance :: "gotime \<Rightarrow> Provenance list \<Rightarrow> Token \<Rightarrow> Token" where
  "set_provenance now provenances t =
     (let p0 = hd provenances;
          lastProvenance = provenances ! (length provenances - 1);
          t' = (set_single_owner (prov_Owner p0) (prov_Timestamp p0) now t)
                 \<lparr>tok_Provenances := Some (map bson_Provenance provenances)\<rparr>
      in if prov_Type lastProvenance = ''mint'' \<or> prov_Type lastProvenance = ''issue''
         then t'\<lparr>tok_MintedAt := prov_Timestamp lastProvenance\<rparr> else t')"

definition UpdateTokenProvenance :: "store \<Rightarrow> gotime \<Rightarrow> string \<Rightarrow> Provenance list \<Rightarrow> (db, unit) act" where
  "UpdateTokenProvenance st now indexID provenances =
     (if length provenances = 0 then retA ()
      else bindA (on_tokens (UpdateOne (tokenCollection st)
               (\<lambda>t. tok_IndexID t = indexID) (set_provenance now provenances)))
             (\<lambda>_. retA ()))"

record OwnerBalance =
  ob_Address :: string
  ob_Balance :: int
  ob_LastTime :: gotime

text \<open>The loop that builds the owners: a later balance of the same address replaces the earlier.\<close>

definition owners_of :: "OwnerBalance list \<Rightarrow> (string \<rightharpoonup> int)" where
  "owners_of obs = fold (\<lambda>ob m. m(ob_Address ob \<mapsto> ob_Balance ob)) obs Map.empty"

definition set_owners :: "gotime \<Rightarrow> gotime \<Rightarrow> OwnerBalance list \<Rightarrow> Token \<Rightarrow> Token" where
  "set_owners now lastActivityTime ownerBalances t =
     t\<lparr>tok_Owners := Some (owners_of ownerBalances),
       tok_OwnersArray := Some (map ob_Address ownerBalances),
       tok_Provenances := None, tok_LastRefreshedTime := now,
       tok_LastActivityTime := (if time_IsZero lastActivityTime then tok_LastActivityTime t
                                else lastActivityTime)\<rparr>"

definition UpdateTokenOwners ::
    "store \<Rightarrow> gotime \<Rightarrow> string \<Rightarrow> gotime \<Rightarrow> OwnerBalance list \<Rightarrow> (db, unit) act" where
  "UpdateTokenOwners st now indexID lastActivityTime ownerBalances =
     (if length ownerBalances = 0 then retA ()
      else bindA (on_tokens (UpdateOne (tokenCollection st)
               (\<lambda>t. tok_IndexID t = indexID) (set_owners now lastActivityTime ownerBalances)))
             (\<lambda>_. retA ()))"

definition not_array :: goerr where
  "not_array = ErrDB ''the field must be an array''"

definition push_provenance :: "gotime \<Rightarrow> Provenance \<Rightarrow> Token \<Rightarrow> Token res" where
  "push_provenance now provenance t =
     (case tok_Provenances t of
        None \<Rightarrow> Inl not_array
      | Some ps \<Rightarrow>
          Inr ((set_single_owner (prov_Owner provenance) (prov_Timestamp provenance) now t)
                 \<lparr>tok_Provenances := Some (bson_Provenance provenance # ps)\<rparr>))"

definition PushProvenance :: "store \<Rightarrow> gotime \<Rightarrow> string \<Rightarrow> gotime \<Rightarrow> Provenance \<Rightarrow> (db, unit) act" where
  "PushProvenance st now indexID lockedTime provenance =
     (case prov_FormerOwner provenance of
        None \<Rightarrow> throwA (Errorf ''invalid former owner'')
      | Some _ \<Rightarrow>
          bindA (on_tokens (UpdateOneWith (tokenCollection st)
              (\<lambda>t. tok_IndexID t = indexID \<and> tok_LastRefreshedTime t = lockedTime \<and>
                   tok_LastActivityTime t < prov_Timestamp provenance)
              (push_provenance now provenance)))
            (\<lambda>u. if ModifiedCount u = 0 then throwA ErrNoRecordUpdated else retA ()))"

definition add_owner :: "string \<Rightarrow> int \<Rightarrow> Token \<Rightarrow> Token res" where
  "add_owner owner amount t =
     (case (tok_OwnersArray t, tok_Owners t) of
        (Some os, Some m) \<Rightarrow>
          Inr (t\<lparr>tok_OwnersArray := Some (if owner \<in> set os then os else os @ [owner]),
                 tok_Owners := Some (m(owner \<mapsto> amount))\<rparr>)
      | _ \<Rightarrow> Inl not_array)"

definition UpdateOwnerForFungibleToken ::
    "store \<Rightarrow> string \<Rightarrow> gotime \<Rightarrow> string \<Rightarrow> int \<Rightarrow> (db, unit) act" where
  "UpdateOwnerForFungibleToken st indexID lockedTime owner amount =
     bindA (on_tokens (UpdateOneWith (tokenCollection st)
              (\<lambda>t. tok_IndexID t = indexID \<and> tok_LastRefreshedTime t = lockedTime)
              (add_owner owner amount)))
       (\<lambda>r. if MatchedCount r = 0 then throwA ErrNoRecordUpdated else retA ())"

section \<open>Demo tokens\<close>

definition remove_owner :: "string \<Rightarrow> Token \<Rightarrow> Token" where
  "remove_owner owner t =
     t\<lparr>tok_OwnersArray := map_option (filter (\<lambda>o1. o1 \<noteq> owner)) (tok_OwnersArray t),
       tok_Owners := map_option (\<lambda>m. m(owner := None)) (tok_Owners t)\<rparr>"

definition is_demo :: "Token \<Rightarrow> bool" where
  "is_demo t = (tok_IsDemo t \<and> has_prefix ''demo'' (tok_IndexID t))"

definition has_owner :: "string \<Rightarrow> Token \<Rightarrow> bool" where
  "has_owner owner t = (case tok_OwnersArray t of None \<Rightarrow> False | Some os \<Rightarrow> owner \<in> set os)"

definition DeleteDemoTokens :: "store \<Rightarrow> string \<Rightarrow> (db, unit) act" where
  "DeleteDemoTokens st owner =
     bindA (on_tokens (DeleteMany (tokenCollection st)
              (\<lambda>t. is_demo t \<and> tok_OwnersArray t = Some [owner]))) (\<lambda>_.
     bindA (on_tokens (UpdateMany (tokenCollection st)
              (\<lambda>t. is_demo t \<and> has_owner owner t) (remove_owner owner))) (\<lambda>_. retA ()))"

definition push_demo_owner :: "string \<Rightarrow> Token \<Rightarrow> Token res" where
  "push_demo_owner owner t =
     (case (tok_OwnersArray t, tok_Owners t) of
        (Some os, Some m) \<Rightarrow>
          Inr (t\<lparr>tok_OwnersArray := Some (os @ [owner]), tok_Owners := Some (m(owner \<mapsto> 1))\<rparr>)
      | _ \<Rightarrow> Inl not_array)"

text \<open>Storing into the nil map of a token without owners panics.\<close>

definition index_demo_token :: "store \<Rightarrow> string \<Rightarrow> string \<Rightarrow> (db, unit) act" where
  "index_demo_token st owner indexID =
     (let demoIndexID = DemoTokenPrefix indexID
      in bindA (tryA (find_token st (\<lambda>t. tok_IsDemo t \<and> tok_IndexID t = demoIndexID))) (\<lambda>r.
           case r of
             Inl e \<Rightarrow>
               if e = ErrNoDocuments then
                 bindA (find_token st (\<lambda>t. tok_IndexID t = indexID)) (\<lambda>token.
                   case tok_Owners token of
                     None \<Rightarrow> throwA (GoPanic ''assignment to entry in nil map'')
                   | Some owners \<Rightarrow>
                       on_tokens (InsertOne (tokenCollection st) (bson_Token
                         (token\<lparr>tok_IndexID := demoIndexID, tok_IsDemo := True,
                                tok_OwnersArray := Some [owner],
                                tok_Owners := Some (owners(owner \<mapsto> 1))\<rparr>))))
               else throwA e
           | Inr _ \<Rightarrow>
               bindA (on_tokens (UpdateOneWith (tokenCollection st)
                        (\<lambda>t. tok_IsDemo t \<and> tok_IndexID t = demoIndexID \<and> \<not> has_owner owner t)
                        (push_demo_owner owner))) (\<lambda>_. retA ())))"

definition IndexDemoTokens :: "store \<Rightarrow> string \<Rightarrow> string list \<Rightarrow> (db, unit) act" where
  "IndexDemoTokens st owner indexIDs =
     bindA (DeleteDemoTokens st owner) (\<lambda>_. forA (index_demo_token st owner) indexIDs)"

section \<open>The unique indexes are kept\<close>

lemma keeps_find_token: "keeps P (find_token st p)" and keeps_find_tokens: "keeps P (find_tokens st p)"
  by (simp_all add: find_token_def find_tokens_def keeps_readA)

context mongo_store
begin

lemmas step_keeps = keeps_rules keeps_find_token keeps_find_tokens store_keeps

lemma keeps_index_asset_doc: "keeps db_inv (index_asset_doc st now i au)"
  unfolding index_asset_doc_def Let_def by (intro step_keeps)

lemma keeps_index_asset_token: "keeps db_inv (index_asset_token X st now i src tk)"
  unfolding index_asset_token_def insert_new_token_def update_current_token_def Let_def
  by (intro step_keeps)

lemma keeps_IndexAsset: "keeps db_inv (IndexAsset X st now i au)"
  unfolding IndexAsset_def Let_def
  by (intro step_keeps keeps_index_asset_doc keeps_index_asset_token)

lemma keeps_SwapToken: "keeps db_inv (SwapToken X st now1 now2 sw)"
  unfolding SwapToken_def swap_transaction_def Let_def sess_run
  by (intro step_keeps keeps_run_transaction keeps_sess_op)

lemma keeps_UpdateOwner: "keeps db_inv (UpdateOwner st now i owner t)"
  unfolding UpdateOwner_def Let_def by (intro step_keeps)

lemma keeps_UpdateTokenProvenance: "keeps db_inv (UpdateTokenProvenance st now i ps)"
  unfolding UpdateTokenProvenance_def Let_def by (intro step_keeps)

lemma keeps_UpdateTokenOwners: "keeps db_inv (UpdateTokenOwners st now i t obs)"
  unfolding UpdateTokenOwners_def Let_def by (intro step_keeps)

lemma keeps_PushProvenance: "keeps db_inv (PushProvenance st now i lock p)"
  unfolding PushProvenance_def Let_def by (intro step_keeps)

lemma keeps_UpdateOwnerForFungibleToken: "keeps db_inv (UpdateOwnerForFungibleToken st i lock owner n)"
  unfolding UpdateOwnerForFungibleToken_def by (intro step_keeps)

lemma keeps_DeleteDemoTokens: "keeps db_inv (DeleteDemoTokens st owner)"
  unfolding DeleteDemoTokens_def by (intro step_keeps)

lemma keeps_IndexDemoTokens: "keeps db_inv (IndexDemoTokens st owner ids)"
  unfolding IndexDemoTokens_def index_demo_token_def Let_def
  by (intro step_keeps keeps_DeleteDemoTokens)

end

section \<open>What the single operations do\<close>

lemma bindA_bindA: "bindA (bindA m k) l = bindA m (\<lambda>a. bindA (k a) l)"
  by (auto simp: bindA_def fun_eq_iff split: prod.splits sum.splits)

lemma bindA_retA [simp]: "bindA (retA a) k = k a"
  by (simp add: bindA_def retA_def fun_eq_iff)

context mongo_store
begin

lemma find_token_run:
  "find_token st p s =
     (case List.find p (db_tokens s) of None \<Rightarrow> Inl ErrNoDocuments | Some t \<Rightarrow> Inr t, s)"
  using tokens.find_one_natural [of p "db_tokens s"] by (simp add: find_token_def readA_run id_def)

lemma find_tokens_run: "find_tokens st p s = (Inr (filter p (db_tokens s)), s)"
  using tokens.find_all [of p "db_tokens s"] by (simp add: find_tokens_def readA_run id_def)

lemma GetTokenByIndexID_run: "GetTokenByIndexID st i s = (Inr (get_token i s), s)"
proof -
  have "(case filter (\<lambda>t. tok_IndexID t = i) ts of [] \<Rightarrow> None | t # _ \<Rightarrow> Some t) =
      List.find (\<lambda>t. tok_IndexID t = i) ts" for ts
    by (induction ts) auto
  then show ?thesis
    by (simp add: GetTokenByIndexID_def GetTokensByIndexIDs_def act_simps find_tokens_run get_token_def)
qed

lemma set_token_run:
  assumes "\<And>d. tok_IndexID (f d) = tok_IndexID d"
  shows "bindA (on_tokens (UpdateOne (tokenCollection st) p f)) (\<lambda>_. k) s
    = k (s\<lparr>db_tokens := upd1 p f (db_tokens s)\<rparr>)"
  using assms by (simp add: run_db tokens.update_one_keeping same_by_def)

lemma set_collection_assets_run:
  "bindA (on_collectionAssets (UpdateOne (collectionAssetsCollection st) p f)) (\<lambda>_. retA ()) s
    = (Inr (), s\<lparr>db_collectionAssets := upd1 p f (db_collectionAssets s)\<rparr>)"
proof (cases "List.find p (db_collectionAssets s)")
  case None
  then have "upd1 p f (db_collectionAssets s) = db_collectionAssets s"
    by (intro upd1_none) (simp add: find_None)
  with None show ?thesis
    by (simp add: run_db collectionAssets.UpdateOne_law update_one_def)
next
  case (Some c)
  then show ?thesis
    by (simp add: run_db collectionAssets.UpdateOne_law update_one_def taken_def)
qed

lemma UpdateOwner_run:
  "UpdateOwner st now i owner at s = (Inr (),
     if owner = [] then s
     else s\<lparr>db_tokens := upd1 (\<lambda>t. tok_IndexID t = i \<and> \<not> tok_Fungible t \<and> tok_LastActivityTime t < at)
            (\<lambda>t. (set_single_owner owner at now t)\<lparr>tok_Burned := IsBurnAddress owner (st_environment st)\<rparr>)
            (db_tokens s)\<rparr>)"
  by (simp add: UpdateOwner_def Let_def set_token_run set_single_owner_def retA_run)

lemma UpdateTokenProvenance_run:
  "UpdateTokenProvenance st now i ps s = (Inr (),
     if ps = [] then s
     else s\<lparr>db_tokens := upd1 (\<lambda>t. tok_IndexID t = i) (set_provenance now ps) (db_tokens s)\<rparr>)"
  by (simp add: UpdateTokenProvenance_def set_token_run set_provenance_def set_single_owner_def
      Let_def retA_run)

lemma UpdateTokenOwners_run:
  "UpdateTokenOwners st now i at obs s = (Inr (),
     if obs = [] then s
     else s\<lparr>db_tokens := upd1 (\<lambda>t. tok_IndexID t = i) (set_owners now at obs) (db_tokens s)\<rparr>)"
  by (simp add: UpdateTokenOwners_def set_token_run set_owners_def retA_run)

text \<open>An update under a filter whose operators may be refused.\<close>

lemma update_with_run:
  assumes "\<And>d d'. g d = Inr d' \<Longrightarrow> tok_IndexID d' = tok_IndexID d"
  shows "on_tokens (UpdateOneWith (tokenCollection st) p g) s =
    (case List.find p (db_tokens s) of
       None \<Rightarrow> (Inr \<lparr>MatchedCount = 0, ModifiedCount = 0, UpsertedCount = 0\<rparr>, s)
     | Some d \<Rightarrow> (case g d of
           Inl e \<Rightarrow> (Inl e, s)
         | Inr d' \<Rightarrow> (Inr (upd_res d d'), s\<lparr>db_tokens := upd1 p (\<lambda>_. d') (db_tokens s)\<rparr>)))"
  using assms
  by (auto simp: run_db tokens.UpdateOneWith_law update_one_with_def update_one_def same_by_def
      split: option.splits sum.splits)

lemma PushProvenance_run:
  assumes "prov_FormerOwner p = Some fo"
  shows "PushProvenance st now i lock p s =
    (case List.find (\<lambda>t. tok_IndexID t = i \<and> tok_LastRefreshedTime t = lock \<and>
                         tok_LastActivityTime t < prov_Timestamp p) (db_tokens s) of
       None \<Rightarrow> (Inl ErrNoRecordUpdated, s)
     | Some t \<Rightarrow> (case push_provenance now p t of
           Inl e \<Rightarrow> (Inl e, s)
         | Inr t' \<Rightarrow> (Inr (), s\<lparr>db_tokens := upd1 (\<lambda>t. tok_IndexID t = i \<and> tok_LastRefreshedTime t = lock \<and>
              tok_LastActivityTime t < prov_Timestamp p) (\<lambda>_. t') (db_tokens s)\<rparr>)))"
proof -
  have keep: "tok_IndexID d' = tok_IndexID d" if "push_provenance now p d = Inr d'" for d d'
    using that by (auto simp: push_provenance_def set_single_owner_def split: option.splits)
  have changed: "d' \<noteq> d" if g: "push_provenance now p d = Inr d'" for d d'
  proof
    assume "d' = d"
    from g obtain ps where "tok_Provenances d = Some ps" "tok_Provenances d' = Some (bson_Provenance p # ps)"
      by (auto simp: push_provenance_def split: option.splits)
    with \<open>d' = d\<close> show False by simp
  qed
  show ?thesis
    using assms changed
    by (auto simp: PushProvenance_def bindA_run update_with_run [OF keep] upd_res_def throwA_run retA_run
        split: option.splits sum.splits)
qed

lemma UpdateOwnerForFungibleToken_run:
  "UpdateOwnerForFungibleToken st i lock owner n s =
    (case List.find (\<lambda>t. tok_IndexID t = i \<and> tok_LastRefreshedTime t = lock) (db_tokens s) of
       None \<Rightarrow> (Inl ErrNoRecordUpdated, s)
     | Some t \<Rightarrow> (case add_owner owner n t of
           Inl e \<Rightarrow> (Inl e, s)
         | Inr t' \<Rightarrow> (Inr (), s\<lparr>db_tokens := upd1 (\<lambda>t. tok_IndexID t = i \<and> tok_LastRefreshedTime t = lock)
              (\<lambda>_. t') (db_tokens s)\<rparr>)))"
proof -
  have keep: "tok_IndexID d' = tok_IndexID d" if "add_owner owner n d = Inr d'" for d d'
    using that by (auto simp: add_owner_def split: option.splits)
  show ?thesis
    by (auto simp: UpdateOwnerForFungibleToken_def bindA_run update_with_run [OF keep] upd_res_def
        throwA_run retA_run split: option.splits sum.splits)
qed

lemma DeleteDemoTokens_run:
  "DeleteDemoTokens st owner s = (Inr (), s\<lparr>db_tokens :=
     map (\<lambda>t. if is_demo t \<and> has_owner owner t then remove_owner owner t else t)
       (filter (\<lambda>t. \<not> (is_demo t \<and> tok_OwnersArray t = Some [owner])) (db_tokens s))\<rparr>)"
proof -
  have keep: "same_by tok_IndexID d (remove_owner owner d)" for d
    by (simp add: same_by_def remove_owner_def)
  show ?thesis
    using tokens.update_many_keeping [OF keep, of "\<lambda>t. is_demo t \<and> has_owner owner t"
        "filter (\<lambda>t. \<not> (is_demo t \<and> tok_OwnersArray t = Some [owner])) (db_tokens s)"]
    by (auto simp: DeleteDemoTokens_def run_db tokens.DeleteMany_law)
qed

end

section \<open>Indexing leaves protected records alone\<close>

lemma get_token_upd1_other:
  assumes "\<And>d. p d \<Longrightarrow> tok_IndexID d \<noteq> i" and "\<And>d. tok_IndexID (f d) = tok_IndexID d"
  shows "get_token i (s\<lparr>db_tokens := upd1 p f (db_tokens s)\<rparr>) = get_token i s"
  using find_upd1_other [of p "\<lambda>t. tok_IndexID t = i" f "db_tokens s"] assms by (simp add: get_token_def)

lemma get_token_upd1_same:
  assumes "\<And>d. p d \<Longrightarrow> tok_IndexID d = i" and "\<And>d. tok_IndexID (f d) = tok_IndexID d"
  shows "get_token i (s\<lparr>db_tokens := upd1 p f (db_tokens s)\<rparr>) =
    map_option (\<lambda>t. if p t then f t else t) (get_token i s)"
proof -
  have "List.find (\<lambda>t. tok_IndexID t = i) (upd1 p f (db_tokens s)) =
      (case List.find (\<lambda>t. tok_IndexID t = i) (db_tokens s) of None \<Rightarrow> None
       | Some d \<Rightarrow> Some (if p d then f d else d))"
    using assms by (intro find_upd1) auto
  then show ?thesis by (simp add: get_token_def split: option.splits)
qed

lemma get_token_other_db [simp]:
  "get_token i (s\<lparr>db_assets := v1\<rparr>) = get_token i s"
  "get_token i (s\<lparr>db_collectionAssets := v2\<rparr>) = get_token i s"
  "get_token i (s\<lparr>db_accountTokens := v3\<rparr>) = get_token i s"
  by (simp_all add: get_token_def)

lemma get_token_index: "get_token i s = Some t \<Longrightarrow> tok_IndexID t = i \<and> t \<in> set (db_tokens s)"
  by (auto simp: get_token_def dest: find_Some_set)

lemma set_TokenUpdateSet_index [simp]: "tok_IndexID (set_TokenUpdateSet u t) = tok_IndexID t"
  by (simp add: set_TokenUpdateSet_def)

lemma prepare_token_burned [simp]: "tok_IsDemo (prepare_token X aid src tk) = tok_IsDemo tk"
  by (simp add: prepare_token_def Let_def)

definition new_token :: "Token \<Rightarrow> Token" where
  "new_token tk =
     (let token = (if time_IsZero (tok_LastActivityTime tk)
                   then tk\<lparr>tok_LastActivityTime := tok_MintedAt tk\<rparr> else tk)
      in bson_Token (if tok_Owner token \<noteq> []
                     then token\<lparr>tok_OwnersArray := Some [tok_Owner token],
                                tok_Owners := Some [tok_Owner token \<mapsto> 1]\<rparr> else token))"

lemma new_token_index [simp]: "tok_IndexID (new_token tk) = tok_IndexID tk"
  by (simp add: new_token_def Let_def)

context mongo_store
begin

text \<open>One token of \<open>IndexAsset\<close>: the three branches, seen from the token collection.\<close>

lemma index_asset_token_run:
  "\<exists>cs. index_asset_token X st now aid src tk0 s =
     (let tk = prepare_token X aid src tk0 in
      case get_token (tok_IndexID tk) s of
        None \<Rightarrow> (Inr (), s\<lparr>db_tokens := db_tokens s @ [new_token tk], db_collectionAssets := cs\<rparr>)
      | Some cur \<Rightarrow>
          (Inr (), s\<lparr>db_tokens := (if checkIfTokenNeedToUpdate src cur
               then upd1 (\<lambda>t. tok_IndexID t = tok_IndexID tk)
                      (set_TokenUpdateSet (token_update_set now aid tk cur)) (db_tokens s)
               else db_tokens s), db_collectionAssets := cs\<rparr>))"
proof -
  define tk where "tk = prepare_token X aid src tk0"
  have store: "\<exists>cs. bindA (on_collectionAssets (UpdateOne (collectionAssetsCollection st) p f)) (\<lambda>_. retA ()) s'
      = (Inr (), s'\<lparr>db_collectionAssets := cs\<rparr>)" for p f s'
    by (auto simp: set_collection_assets_run)
  show ?thesis
  proof (cases "get_token (tok_IndexID tk) s")
    case None
    have "\<not> taken (same_by tok_IndexID) (new_token tk) (db_tokens s)"
      using None by (auto simp: get_token_def find_None)
    then have "insert_new_token st tk s =
        (Inr (tok_Edition tk, if time_IsZero (tok_LastActivityTime tk) then tok_MintedAt tk
              else tok_LastActivityTime tk), s\<lparr>db_tokens := db_tokens s @ [new_token tk]\<rparr>)"
      by (simp add: insert_new_token_def new_token_def Let_def run_db tokens.InsertOne_law insert_doc_def)
    with None store show ?thesis
      by (simp add: index_asset_token_def Let_def tk_def [symmetric] bindA_run tryA_run
          find_token_run get_token_def [symmetric])
  next
    case (Some cur)
    obtain v where "update_current_token st now aid src tk cur s =
        (Inr v, s\<lparr>db_tokens := (if checkIfTokenNeedToUpdate src cur
               then upd1 (\<lambda>t. tok_IndexID t = tok_IndexID tk)
                      (set_TokenUpdateSet (token_update_set now aid tk cur)) (db_tokens s)
               else db_tokens s)\<rparr>)"
      by (cases "checkIfTokenNeedToUpdate src cur")
        (simp_all add: update_current_token_def Let_def set_token_run retA_run)
    with Some store show ?thesis
      by (simp add: index_asset_token_def Let_def tk_def [symmetric] bindA_run tryA_run
          find_token_run get_token_def [symmetric])
  qed
qed

lemma index_asset_token_ok: "fst (index_asset_token X st now aid src tk0 s) = Inr ()"
  using index_asset_token_run [of X now aid src tk0 s] by (auto simp: Let_def split: option.splits)

lemma index_asset_token_protects:
  assumes "get_token i s = Some t" and "\<not> checkIfTokenNeedToUpdate src t"
  shows "get_token i (snd (index_asset_token X st now aid src tk0 s)) = Some t"
proof -
  define tk where "tk = prepare_token X aid src tk0"
  obtain cs where run: "index_asset_token X st now aid src tk0 s =
     (case get_token (tok_IndexID tk) s of
        None \<Rightarrow> (Inr (), s\<lparr>db_tokens := db_tokens s @ [new_token tk], db_collectionAssets := cs\<rparr>)
      | Some cur \<Rightarrow>
          (Inr (), s\<lparr>db_tokens := (if checkIfTokenNeedToUpdate src cur
               then upd1 (\<lambda>t. tok_IndexID t = tok_IndexID tk)
                      (set_TokenUpdateSet (token_update_set now aid tk cur)) (db_tokens s)
               else db_tokens s), db_collectionAssets := cs\<rparr>))"
    using index_asset_token_run [of X now aid src tk0 s] unfolding Let_def tk_def by blast
  show ?thesis
  proof (cases "tok_IndexID tk = i")
    case True
    with run assms show ?thesis by (simp add: get_token_def)
  next
    case False
    then show ?thesis
      using assms(1)
      by (auto simp: run get_token_def find_append find_upd1_other split: option.splits)
  qed
qed

lemma index_asset_token_keeps_index:
  assumes "get_token i s \<noteq> None"
  shows "get_token i (snd (index_asset_token X st now aid src tk0 s)) \<noteq> None"
proof -
  from index_asset_token_run [of X now aid src tk0 s] obtain tk cs where
    run: "index_asset_token X st now aid src tk0 s =
     (case get_token (tok_IndexID tk) s of
        None \<Rightarrow> (Inr (), s\<lparr>db_tokens := db_tokens s @ [new_token tk], db_collectionAssets := cs\<rparr>)
      | Some cur \<Rightarrow>
          (Inr (), s\<lparr>db_tokens := (if checkIfTokenNeedToUpdate src cur
               then upd1 (\<lambda>t. tok_IndexID t = tok_IndexID tk)
                      (set_TokenUpdateSet (token_update_set now aid tk cur)) (db_tokens s)
               else db_tokens s), db_collectionAssets := cs\<rparr>))"
    unfolding Let_def by blast
  have "map tok_IndexID (upd1 p (set_TokenUpdateSet u) ds) = map tok_IndexID ds" for p u ds
    by (rule map_upd1_inv) simp
  then have "i \<in> tok_IndexID ` set (upd1 p (set_TokenUpdateSet u) ds) \<longleftrightarrow> i \<in> tok_IndexID ` set ds" for p u ds
    by (metis list.set_map)
  moreover have "get_token j s' \<noteq> None \<longleftrightarrow> j \<in> tok_IndexID ` set (db_tokens s')" for j s'
    by (auto simp: get_token_def find_None simp flip: not_None_eq)
  ultimately show ?thesis
    using assms by (auto simp: run split: option.splits)
qed

lemma index_asset_token_present:
  "get_token (tok_IndexID (prepare_token X aid src tk0)) (snd (index_asset_token X st now aid src tk0 s)) \<noteq> None"
proof (cases "get_token (tok_IndexID (prepare_token X aid src tk0)) s")
  case None
  with index_asset_token_run [of X now aid src tk0 s] show ?thesis
    by (auto simp: Let_def get_token_def find_None find_append split: option.splits)
next
  case (Some t)
  with index_asset_token_keeps_index show ?thesis by simp
qed

end

section \<open>The assets under indexing\<close>

text \<open>What never changes of an asset once it is stored.\<close>

definition asset_identity :: "AssetDoc \<Rightarrow> string \<times> string \<times> string \<times> json \<times> ProjectMetadata" where
  "asset_identity a = (asset_IndexID a, asset_ID a, asset_Source a, asset_BlockchainMetadata a,
     vpm_Origin (asset_ProjectMetadata a))"

lemma set_latest_metadata_identity [simp]:
  "asset_identity (set_latest_metadata now pm u a) = asset_identity a"
  by (simp add: set_latest_metadata_def asset_identity_def)

lemma set_latest_metadata_index [simp]:
  "asset_IndexID (set_latest_metadata now pm u a) = asset_IndexID a"
  by (simp add: set_latest_metadata_def)

definition stamp_metadata :: "gotime \<Rightarrow> AssetUpdates \<Rightarrow> AssetUpdates" where
  "stamp_metadata now au =
     (if time_IsZero (pm_LastUpdatedAt (au_ProjectMetadata au))
      then au\<lparr>au_ProjectMetadata := (au_ProjectMetadata au)\<lparr>pm_LastUpdatedAt := now\<rparr>\<rparr> else au)"

lemma stamp_metadata_simps [simp]:
  "au_Source (stamp_metadata now au) = au_Source au" "au_Tokens (stamp_metadata now au) = au_Tokens au"
  by (simp_all add: stamp_metadata_def)

context mongo_store
begin

lemma index_asset_doc_run:
  "index_asset_doc st now aid au s =
     (let p = (\<lambda>a. asset_IndexID a = asset_index_id (au_Source au) aid) in
      (Inr (), s\<lparr>db_assets :=
        (case List.find p (db_assets s) of
           None \<Rightarrow> db_assets s @ [AssetUpdateSet now aid au]
         | Some cur \<Rightarrow>
             if au_Source au = SourceFeralFile \<or> asset_Source cur \<noteq> SourceFeralFile
             then upd1 p (set_latest_metadata now (au_ProjectMetadata au)
                    (pm_ThumbnailURL (vpm_Latest (asset_ProjectMetadata cur))
                       \<noteq> pm_ThumbnailURL (au_ProjectMetadata au))) (db_assets s)
             else db_assets s)\<rparr>))"
proof -
  define p :: "AssetDoc \<Rightarrow> bool" where "p = (\<lambda>a. asset_IndexID a = asset_index_id (au_Source au) aid)"
  have found: "FindOne (assetCollection st) p (\<lambda>ds. ds) ds =
      (case List.find p ds of None \<Rightarrow> Inl ErrNoDocuments | Some d \<Rightarrow> Inr d)" for ds
    using assets.find_one_natural [of p ds] by (simp add: id_def)
  have upd: "UpdateOne (assetCollection st) p (set_latest_metadata now pm u) ds =
      (Inr (case List.find p ds of
            None \<Rightarrow> \<lparr>MatchedCount = 0, ModifiedCount = 0, UpsertedCount = 0\<rparr>
          | Some d \<Rightarrow> upd_res d (set_latest_metadata now pm u d)), upd1 p (set_latest_metadata now pm u) ds)"
    for pm u ds
    by (rule assets.update_one_keeping) (simp add: same_by_def)
  show ?thesis
  proof (cases "List.find p (db_assets s)")
    case None
    then have "\<not> taken (same_by asset_IndexID) (AssetUpdateSet now aid au) (db_assets s)"
      by (auto simp: p_def find_None AssetUpdateSet_def)
    with None show ?thesis
      by (simp add: index_asset_doc_def Let_def p_def [symmetric] run_db found assets.InsertOne_law insert_doc_def)
  next
    case (Some cur)
    then show ?thesis
      by (simp add: index_asset_doc_def Let_def p_def [symmetric] run_db found upd)
  qed
qed

lemma IndexAsset_split:
  "IndexAsset X st now aid au = bindA (index_asset_doc st now aid (stamp_metadata now au))
     (\<lambda>_. forA (index_asset_token X st now aid (au_Source au)) (au_Tokens au))"
  by (simp add: IndexAsset_def stamp_metadata_def Let_def)

lemma index_asset_tokens_ok:
  "fst (forA (index_asset_token X st now aid src) tks s) = Inr ()"
proof (induction tks arbitrary: s)
  case Nil
  then show ?case by (simp add: retA_run)
next
  case (Cons tk tks)
  obtain s' where "index_asset_token X st now aid src tk s = (Inr (), s')"
    using index_asset_token_ok [of X now aid src tk s] by (metis prod.collapse)
  with Cons show ?case by (simp add: bindA_run)
qed

lemma forA_step:
  assumes "fst (body x s) = Inr ()"
  shows "forA body (x # xs) s = forA body xs (snd (body x s))"
  using assms by (cases "body x s") (simp add: bindA_run)

lemma index_tokens_step:
  "forA (index_asset_token X st now aid src) (tk # tks) s =
     forA (index_asset_token X st now aid src) tks (snd (index_asset_token X st now aid src tk s))"
  by (rule forA_step) (rule index_asset_token_ok)

lemma index_asset_tokens_protect:
  assumes "get_token i s = Some t" and "\<not> checkIfTokenNeedToUpdate src t"
  shows "get_token i (snd (forA (index_asset_token X st now aid src) tks s)) = Some t"
  using assms(1)
proof (induction tks arbitrary: s)
  case Nil
  then show ?case by (simp add: retA_run)
next
  case (Cons tk tks)
  from Cons.IH [OF index_asset_token_protects [OF Cons.prems assms(2)]] show ?case
    by (simp add: index_tokens_step del: forA.simps)
qed

lemma index_asset_tokens_keep_index:
  "get_token i s \<noteq> None \<Longrightarrow> get_token i (snd (forA (index_asset_token X st now aid src) tks s)) \<noteq> None"
proof (induction tks arbitrary: s)
  case Nil
  then show ?case by (simp add: retA_run)
next
  case (Cons tk tks)
  from Cons.IH [OF index_asset_token_keeps_index [OF Cons.prems]] show ?case
    by (simp add: index_tokens_step del: forA.simps)
qed

lemma index_asset_tokens_present:
  "tk \<in> set tks \<Longrightarrow> get_token (tok_IndexID (prepare_token X aid src tk))
     (snd (forA (index_asset_token X st now aid src) tks s)) \<noteq> None"
proof (induction tks arbitrary: s)
  case Nil
  then show ?case by simp
next
  case (Cons tk' tks)
  show ?case
  proof (cases "tk = tk'")
    case True
    from index_asset_tokens_keep_index [OF index_asset_token_present] True show ?thesis
      by (simp add: index_tokens_step del: forA.simps)
  next
    case False
    with Cons show ?thesis
      by (simp add: index_tokens_step del: forA.simps)
  qed
qed

lemma index_asset_tokens_assets:
  "db_assets (snd (forA (index_asset_token X st now aid src) tks s)) = db_assets s"
proof (induction tks arbitrary: s)
  case Nil
  then show ?case by (simp add: retA_run)
next
  case (Cons tk tks)
  have "db_assets (snd (index_asset_token X st now aid src tk s)) = db_assets s"
    using index_asset_token_run [of X now aid src tk s] by (auto simp: Let_def split: option.splits)
  with Cons show ?case
    by (simp add: index_tokens_step del: forA.simps)
qed

lemma IndexAsset_run:
  "IndexAsset X st now aid au s =
     (Inr (), snd (forA (index_asset_token X st now aid (au_Source au)) (au_Tokens au)
                    (snd (index_asset_doc st now aid (stamp_metadata now au) s))))"
proof -
  obtain s' where doc: "index_asset_doc st now aid (stamp_metadata now au) s = (Inr (), s')"
    by (simp add: index_asset_doc_run Let_def)
  have "forA (index_asset_token X st now aid (au_Source au)) (au_Tokens au) s' =
      (Inr (), snd (forA (index_asset_token X st now aid (au_Source au)) (au_Tokens au) s'))"
    using index_asset_tokens_ok [of X now aid "au_Source au" "au_Tokens au" s'] by (metis prod.collapse)
  with doc show ?thesis by (simp add: IndexAsset_split bindA_run)
qed

lemma index_asset_doc_token [simp]:
  "get_token i (snd (index_asset_doc st now aid au s)) = get_token i s"
  by (simp add: index_asset_doc_run Let_def)

lemma index_asset_doc_identity:
  assumes "a \<in> set (db_assets s)"
  shows "asset_identity a \<in> asset_identity ` set (db_assets (snd (index_asset_doc st now aid au s)))"
proof -
  have "map asset_identity (upd1 p (set_latest_metadata now pm u) ds) = map asset_identity ds" for p pm u ds
    by (rule map_upd1_inv) simp
  then have "asset_identity ` set (upd1 p (set_latest_metadata now pm u) ds) = asset_identity ` set ds" for p pm u ds
    by (metis list.set_map)
  with assms show ?thesis
    by (auto simp: index_asset_doc_run Let_def split: option.splits)
qed

lemma index_asset_doc_foreign:
  assumes "distinct (map asset_IndexID (db_assets s))" and "a \<in> set (db_assets s)"
    and "asset_Source a = SourceFeralFile" and "au_Source au \<noteq> SourceFeralFile"
  shows "a \<in> set (db_assets (snd (index_asset_doc st now aid au s)))"
proof (cases "asset_IndexID a = asset_index_id (au_Source au) aid")
  case True
  have "List.find (\<lambda>b. asset_IndexID b = asset_index_id (au_Source au) aid) (db_assets s) = Some a"
    using find_key [OF assms(1,2)] True by simp
  with assms show ?thesis by (simp add: index_asset_doc_run Let_def)
next
  case False
  have "a \<in> set ds \<Longrightarrow> \<not> p a \<Longrightarrow> a \<in> set (upd1 p f ds)" for p f ds
    by (induction ds) auto
  with False assms(2) show ?thesis
    by (auto simp: index_asset_doc_run Let_def split: option.splits)
qed

end

section \<open>Swapping\<close>

lemma find_upd1_key:
  assumes "\<And>d. key (f d) = key d"
  shows "List.find (\<lambda>d. key d = i) (upd1 (\<lambda>d. key d = j) f ds) =
    (if i = j then map_option f (List.find (\<lambda>d. key d = i) ds) else List.find (\<lambda>d. key d = i) ds)"
  by (induction ds) (auto simp: assms)

lemma mark_swapped_index [simp]: "tok_IndexID (mark_swapped n t) = tok_IndexID t"
  by (simp add: mark_swapped_def)

lemma set_token_index [simp]: "tok_IndexID (set_token n t) = tok_IndexID n"
  by (simp add: set_token_def)

text \<open>The state after a successful swap.\<close>

definition swap_tokens :: "string \<Rightarrow> string \<Rightarrow> Token \<Rightarrow> Token list \<Rightarrow> Token list" where
  "swap_tokens orig nw newToken ts =
     (let ts1 = upd1 (\<lambda>t. tok_IndexID t = orig) (mark_swapped nw) ts
      in if \<exists>t\<in>set ts1. tok_IndexID t = nw then upd1 (\<lambda>t. tok_IndexID t = nw) (set_token newToken) ts1
         else ts1 @ [bson_Token newToken])"

definition swap_accounts :: "gotime \<Rightarrow> gotime \<Rightarrow> string \<Rightarrow> string \<Rightarrow> AccountToken list \<Rightarrow> AccountToken list" where
  "swap_accounts now1 now2 orig nw ats =
     filter (\<lambda>a. at_IndexID a \<noteq> orig)
       (map (\<lambda>a. if at_IndexID a = orig then move_account_token nw now1 now2 a else a) ats)"

context mongo_store
begin

lemma swap_transaction_run:
  assumes "tok_IndexID newToken = nw"
    and upd_def: "upd = update_many (same_by at_key) (\<lambda>a. at_IndexID a = orig)
      (move_account_token nw now1 now2) (db_accountTokens s)"
  shows "run_transaction (swap_transaction st now1 now2 orig nw newToken) s =
    (case fst upd of
       Inl e \<Rightarrow> (Inl txn_aborted, s)
     | Inr _ \<Rightarrow> (Inr (), s\<lparr>db_tokens := swap_tokens orig nw newToken (db_tokens s),
                       db_accountTokens := swap_accounts now1 now2 orig nw (db_accountTokens s)\<rparr>))"
proof -
  define ts1 where "ts1 = upd1 (\<lambda>t. tok_IndexID t = orig) (mark_swapped nw) (db_tokens s)"
  define ts2 where "ts2 = swap_tokens orig nw newToken (db_tokens s)"
  obtain r1 where m1: "on_tokens (UpdateOne (tokenCollection st) (\<lambda>t. tok_IndexID t = orig) (mark_swapped nw)) s
      = (Inr r1, s\<lparr>db_tokens := ts1\<rparr>)"
    by (simp add: run_db tokens.update_one_keeping same_by_def ts1_def)
  obtain r2 where m2: "on_tokens (UpsertOne (tokenCollection st) (\<lambda>t. tok_IndexID t = nw) (set_token newToken)
        (bson_Token newToken)) (s\<lparr>db_tokens := ts1\<rparr>) = (Inr r2, s\<lparr>db_tokens := ts2\<rparr>)"
    and r2: "\<not> (MatchedCount r2 = 0 \<and> UpsertedCount r2 = 0)"
    using assms(1)
    by (simp add: run_db ktokens.upsert_by_key ts2_def swap_tokens_def Let_def ts1_def [symmetric]
        upd_res_def split: option.splits)
  show ?thesis
  proof (cases upd)
    case (Pair r ats)
    have m3: "on_accountTokens (UpdateMany (accountTokenCollection st) (\<lambda>a. at_IndexID a = orig)
        (move_account_token nw now1 now2)) (s\<lparr>db_tokens := ts2\<rparr>)
        = (r, s\<lparr>db_tokens := ts2, db_accountTokens := ats\<rparr>)"
      using Pair by (simp add: run_db accountTokens.UpdateMany_law upd_def)
    show ?thesis
    proof (cases r)
      case (Inl e)
      with Pair update_many_error [of "same_by at_key" _ _ _ e] have "e = ErrDuplicateKey"
        unfolding upd_def by (metis fst_conv)
      with Pair Inl show ?thesis
        by (simp add: run_transaction_def swap_transaction_def sess_run bindA_run tryA_run
            sess_op_def m1 m2 m3 if_not_P [OF r2])
    next
      case (Inr u)
      have ats: "ats = map (\<lambda>a. if at_IndexID a = orig then move_account_token nw now1 now2 a else a)
          (db_accountTokens s)"
        using Pair Inr unfolding upd_def by (auto dest: update_many_ok)
      obtain n where m4: "on_accountTokens (DeleteMany (accountTokenCollection st) (\<lambda>a. at_IndexID a = orig))
          (s\<lparr>db_tokens := ts2, db_accountTokens := ats\<rparr>)
          = (Inr n, s\<lparr>db_tokens := ts2, db_accountTokens := swap_accounts now1 now2 orig nw (db_accountTokens s)\<rparr>)"
        by (simp add: run_db accountTokens.DeleteMany_law swap_accounts_def ats)
      from Pair Inr show ?thesis
        by (simp add: run_transaction_def swap_transaction_def sess_run bindA_run tryA_run retA_run
            sess_op_def m1 m2 m3 m4 if_not_P [OF r2]
            ts2_def [symmetric])
    qed
  qed
qed

lemma SwapToken_run:
  assumes "get_token orig s = t0"
    and "orig = TokenIndexID X (swap_OriginalBlockchain sw) (swap_OriginalContractAddress sw) (swap_OriginalTokenID sw)"
    and "nw = TokenIndexID X (swap_NewBlockchain sw) (swap_NewContractAddress sw) (swap_NewTokenID sw)"
  shows "SwapToken X st now1 now2 sw s =
    (if swap_NewBlockchain sw \<noteq> x_EthereumBlockchain X \<and> swap_NewBlockchain sw \<noteq> x_TezosBlockchain X
     then (Inl (Errorf ''blockchain is not supported''), s)
     else case t0 of
       None \<Rightarrow> (Inl ErrNoDocuments, s)
     | Some t \<Rightarrow>
         if tok_Burned t \<and> (case tok_SwappedTo t of None \<Rightarrow> False | Some v \<Rightarrow> v \<noteq> nw)
         then (Inl (Errorf ''token has burned into different id''), s)
         else case run_transaction (swap_transaction st now1 now2 orig nw (swapped_token sw orig nw t)) s of
             (Inl e, s') \<Rightarrow> (Inl e, s')
           | (Inr _, s') \<Rightarrow> (Inr nw, s'))"
proof -
  have found: "List.find (\<lambda>t. tok_IndexID t = orig) (db_tokens s) = t0"
    using assms(1) by (simp only: get_token_def)
  show ?thesis
    unfolding SwapToken_def Let_def assms(2,3) [symmetric]
    by (cases t0) (simp_all add: bindA_run throwA_run retA_run find_token_run found WithTransaction_law
        split: sum.split prod.split)
qed

end

section \<open>Owners and the list of owners agree\<close>

text \<open>
  The list \<open>ownersArray\<close> names owners of the map \<open>owners\<close>, and all of them unless the token is a
  demo token (whose map keeps the owners of the token it was copied from).
\<close>

definition owners_consistent :: "Token \<Rightarrow> bool" where
  "owners_consistent t =
     (case (tok_OwnersArray t, tok_Owners t) of
        (None, None) \<Rightarrow> True
      | (Some os, Some m) \<Rightarrow> set os \<subseteq> dom m \<and> (\<not> tok_IsDemo t \<longrightarrow> dom m \<subseteq> set os)
      | _ \<Rightarrow> False)"

lemma dom_owners_of: "dom (owners_of obs) = ob_Address ` set obs"
proof -
  have "dom (fold (\<lambda>ob m. m(ob_Address ob \<mapsto> ob_Balance ob)) obs m) = dom m \<union> ob_Address ` set obs" for m
    by (induction obs arbitrary: m) auto
  then show ?thesis by (simp add: owners_of_def)
qed

lemma owners_consistent_single [simp]: "owners_consistent (set_single_owner owner a now t)"
  by (simp add: owners_consistent_def set_single_owner_def)

lemma owners_consistent_cong:
  "tok_OwnersArray t' = tok_OwnersArray t \<Longrightarrow> tok_Owners t' = tok_Owners t \<Longrightarrow>
   tok_IsDemo t' = tok_IsDemo t \<Longrightarrow> owners_consistent t' = owners_consistent t"
  unfolding owners_consistent_def by (simp split: option.split)

lemma owners_consistent_burned [simp]:
  "owners_consistent (t\<lparr>tok_Burned := b\<rparr>) = owners_consistent t"
  "owners_consistent (t\<lparr>tok_Provenances := ps\<rparr>) = owners_consistent t"
  "owners_consistent (t\<lparr>tok_MintedAt := m\<rparr>) = owners_consistent t"
  "owners_consistent (set_TokenUpdateSet u t) = owners_consistent t"
  "owners_consistent (bson_Token t) = owners_consistent t"
  "owners_consistent (mark_swapped nw t) = owners_consistent t"
  "owners_consistent (swapped_token sw orig nw t) = owners_consistent t"
  "owners_consistent (set_token new t) = owners_consistent new"
  by (rule owners_consistent_cong; simp add: set_TokenUpdateSet_def bson_Token_def mark_swapped_def
      swapped_token_def set_token_def)+

lemma owners_consistent_provenance [simp]: "owners_consistent (set_provenance now ps t)"
  by (simp add: set_provenance_def Let_def)

lemma owners_consistent_owners [simp]: "owners_consistent (set_owners now a obs t)"
  by (simp add: owners_consistent_def set_owners_def dom_owners_of)

lemma owners_consistent_push: "push_provenance now p t = Inr t' \<Longrightarrow> owners_consistent t'"
  by (auto simp: push_provenance_def split: option.splits)

lemma owners_consistent_add: "owners_consistent t \<Longrightarrow> add_owner owner n t = Inr t' \<Longrightarrow> owners_consistent t'"
  by (clarsimp simp: owners_consistent_def add_owner_def split: option.splits if_splits; blast)

lemma owners_consistent_remove: "owners_consistent t \<Longrightarrow> owners_consistent (remove_owner owner t)"
  by (auto simp: owners_consistent_def remove_owner_def split: option.splits)

lemma owners_consistent_demo:
  "owners_consistent t \<Longrightarrow> tok_IsDemo t \<Longrightarrow> push_demo_owner owner t = Inr t' \<Longrightarrow> owners_consistent t'"
  by (clarsimp simp: owners_consistent_def push_demo_owner_def split: option.splits; blast)

lemma owners_consistent_prepare [simp]:
  "owners_consistent (prepare_token X aid src t) = owners_consistent t"
  by (rule owners_consistent_cong) (simp_all add: prepare_token_def Let_def)

lemma owners_consistent_new: "owners_consistent t \<Longrightarrow> owners_consistent (new_token t)"
  by (auto simp: new_token_def Let_def owners_consistent_def bson_Token_def split: option.splits)

abbreviation db_owners :: "db \<Rightarrow> bool" where
  "db_owners s \<equiv> each owners_consistent (db_tokens s)"

context mongo_store
begin

lemmas owner_steps = keeps_rules keeps_find_token keeps_find_tokens
  keeps_tokens_only(2-4) [where R = "each owners_consistent"]

lemma found_consistent:
  "db_owners s \<Longrightarrow> find_token st p s = (Inr t, s') \<Longrightarrow> owners_consistent t"
  by (auto simp: find_token_run dest: find_Some_set split: option.splits)

lemma owners_index_asset_token:
  assumes "owners_consistent tk"
  shows "keeps db_owners (index_asset_token X st now aid src tk)"
proof
  fix s assume s: "db_owners s"
  have "db_tokens (snd (index_asset_token X st now aid src tk s)) =
     (case get_token (tok_IndexID (prepare_token X aid src tk)) s of
        None \<Rightarrow> db_tokens s @ [new_token (prepare_token X aid src tk)]
      | Some cur \<Rightarrow> (if checkIfTokenNeedToUpdate src cur
               then upd1 (\<lambda>t. tok_IndexID t = tok_IndexID (prepare_token X aid src tk))
                      (set_TokenUpdateSet (token_update_set now aid (prepare_token X aid src tk) cur)) (db_tokens s)
               else db_tokens s))"
    using index_asset_token_run [of X now aid src tk s] by (auto simp: Let_def split: option.splits)
  with s assms show "db_owners (snd (index_asset_token X st now aid src tk s))"
    by (auto intro: owners_consistent_new dest: set_upd1 split: option.splits if_splits)
qed

lemma owners_index_asset_doc: "keeps db_owners (index_asset_doc st now aid au)"
  by (rule keepsI) (simp add: index_asset_doc_run Let_def)

lemma owners_IndexAsset:
  assumes "each owners_consistent (au_Tokens au)"
  shows "keeps db_owners (IndexAsset X st now aid au)"
  unfolding IndexAsset_split
  using assms by (intro keeps_bindA owners_index_asset_doc keeps_forA_in owners_index_asset_token) auto

lemma bind_found:
  "(\<And>t. owners_consistent t \<Longrightarrow> keeps db_owners (k t)) \<Longrightarrow> keeps db_owners (bindA (find_token st p) k)"
  by (rule keeps_bindA_post [OF keeps_find_token found_consistent])

lemmas sess_owner_steps = keeps_sess_op [where P = db_owners]
  keeps_tokens_only [where R = "each owners_consistent"]

lemma owners_swap_transaction:
  assumes "owners_consistent newToken"
  shows "keeps (\<lambda>s. db_owners (fst s)) (swap_transaction st now1 now2 orig nw newToken)"
  unfolding swap_transaction_def sess_run
  by (intro keeps_rules sess_owner_steps tokens.all_UpdateOne tokens.all_UpsertOne) (simp_all add: assms)

lemma owners_SwapToken: "keeps db_owners (SwapToken X st now1 now2 sw)"
proof -
  have run: "keeps db_owners (bindA (WithTransaction st (swap_transaction st now1 now2 orig nw
      (swapped_token sw orig nw t))) (\<lambda>_. retA nw))" if "owners_consistent t" for t orig nw
    unfolding sess_run using that
    by (intro keeps_bindA keeps_retA keeps_run_transaction owners_swap_transaction) simp
  show ?thesis
    unfolding SwapToken_def Let_def by (intro keeps_if keeps_throwA bind_found run)
qed

lemma owners_UpdateOwner: "keeps db_owners (UpdateOwner st now i owner a)"
  unfolding UpdateOwner_def Let_def
  by (intro owner_steps keeps_tokens_only tokens.all_UpdateOne) simp

lemma owners_UpdateTokenProvenance: "keeps db_owners (UpdateTokenProvenance st now i ps)"
  unfolding UpdateTokenProvenance_def
  by (intro owner_steps keeps_tokens_only tokens.all_UpdateOne) simp

lemma owners_UpdateTokenOwners: "keeps db_owners (UpdateTokenOwners st now i a obs)"
  unfolding UpdateTokenOwners_def
  by (intro owner_steps keeps_tokens_only tokens.all_UpdateOne) simp

lemma owners_PushProvenance: "keeps db_owners (PushProvenance st now i lock p)"
  unfolding PushProvenance_def
  by (intro owner_steps keeps_tokens_only tokens.all_UpdateOneWith) (rule owners_consistent_push)

lemma owners_UpdateOwnerForFungibleToken: "keeps db_owners (UpdateOwnerForFungibleToken st i lock owner n)"
  unfolding UpdateOwnerForFungibleToken_def
  by (intro owner_steps keeps_tokens_only tokens.all_UpdateOneWith) (rule owners_consistent_add)

lemma owners_DeleteDemoTokens: "keeps db_owners (DeleteDemoTokens st owner)"
  unfolding DeleteDemoTokens_def
  by (intro owner_steps keeps_tokens_only tokens.all_DeleteMany tokens.all_UpdateMany)
    (rule owners_consistent_remove)

lemma owners_index_demo_token: "keeps db_owners (index_demo_token st owner i)"
proof -
  have insert: "keeps db_owners (case tok_Owners token of
       None \<Rightarrow> throwA (GoPanic ''assignment to entry in nil map'')
     | Some owners \<Rightarrow> on_tokens (InsertOne (tokenCollection st) (bson_Token
         (token\<lparr>tok_IndexID := d, tok_IsDemo := True, tok_OwnersArray := Some [owner],
                tok_Owners := Some (owners(owner \<mapsto> 1))\<rparr>))))" for token d
    by (intro keeps_case_option keeps_throwA keeps_tokens_only tokens.all_InsertOne)
      (auto simp: owners_consistent_def)
  have push: "keeps db_owners (on_tokens (UpdateOneWith (tokenCollection st)
      (\<lambda>t. tok_IsDemo t \<and> tok_IndexID t = d \<and> \<not> has_owner owner t) (push_demo_owner owner)))" for d
    by (intro keeps_tokens_only tokens.all_UpdateOneWith) (auto intro: owners_consistent_demo)
  show ?thesis
    unfolding index_demo_token_def Let_def by (intro owner_steps insert push)
qed

lemma owners_IndexDemoTokens: "keeps db_owners (IndexDemoTokens st owner ids)"
  unfolding IndexDemoTokens_def
  by (intro keeps_bindA keeps_forA owners_DeleteDemoTokens owners_index_demo_token)

end

section \<open>Bundles for the properties\<close>

context mongo_store
begin

lemma index_asset_doc_present:
  "asset_index_id (au_Source au) aid \<in> asset_IndexID ` set (db_assets (snd (index_asset_doc st now aid au s)))"
proof -
  have keep: "asset_IndexID ` set (upd1 p (set_latest_metadata now pm u) ds) = asset_IndexID ` set ds" for p pm u ds
    by (metis list.set_map map_upd1_inv set_latest_metadata_index)
  show ?thesis
    by (auto simp: index_asset_doc_run Let_def keep AssetUpdateSet_def intro: rev_image_eqI
        dest!: find_Some_set split: option.splits)
qed

lemma IndexAsset_post:
  assumes "IndexAsset X st now aid au s = (r, s')"
  shows "r = Inr ()"
    and "tk \<in> set (au_Tokens au) \<Longrightarrow>
      get_token (tok_IndexID (prepare_token X aid (au_Source au) tk)) s' \<noteq> None"
    and "\<exists>a\<in>set (db_assets s'). asset_IndexID a = asset_index_id (au_Source au) aid"
    and "get_token i s = Some t \<Longrightarrow> \<not> checkIfTokenNeedToUpdate (au_Source au) t \<Longrightarrow> get_token i s' = Some t"
proof -
  define s1 where "s1 = snd (index_asset_doc st now aid (stamp_metadata now au) s)"
  have s': "s' = snd (forA (index_asset_token X st now aid (au_Source au)) (au_Tokens au) s1)"
    and r: "r = Inr ()"
    using assms by (simp_all add: IndexAsset_run s1_def)
  show "r = Inr ()" by (rule r)
  show "get_token (tok_IndexID (prepare_token X aid (au_Source au) tk)) s' \<noteq> None"
    if "tk \<in> set (au_Tokens au)"
    unfolding s' using that by (rule index_asset_tokens_present)
  show "\<exists>a\<in>set (db_assets s'). asset_IndexID a = asset_index_id (au_Source au) aid"
    using index_asset_doc_present [of "stamp_metadata now au" aid now s]
    by (auto simp: s' s1_def index_asset_tokens_assets)
  show "get_token i s' = Some t"
    if "get_token i s = Some t" "\<not> checkIfTokenNeedToUpdate (au_Source au) t"
    unfolding s' by (rule index_asset_tokens_protect) (use that in \<open>simp_all add: s1_def\<close>)
qed

lemma IndexAsset_assets:
  "db_assets (snd (IndexAsset X st now aid au s)) =
     db_assets (snd (index_asset_doc st now aid (stamp_metadata now au) s))"
  by (simp add: IndexAsset_run index_asset_tokens_assets)

lemma IndexAsset_identity:
  assumes "a \<in> set (db_assets s)"
  shows "\<exists>a'\<in>set (db_assets (snd (IndexAsset X st now aid au s))). asset_identity a' = asset_identity a"
proof -
  from index_asset_doc_identity [OF assms, of now aid "stamp_metadata now au"]
  obtain a' where "a' \<in> set (db_assets (snd (index_asset_doc st now aid (stamp_metadata now au) s)))"
    "asset_identity a = asset_identity a'" by (rule imageE)
  then show ?thesis by (intro bexI [of _ a']) (simp_all add: IndexAsset_assets)
qed

lemma IndexAsset_foreign:
  assumes "db_inv s" and "a \<in> set (db_assets s)"
    and "asset_Source a = SourceFeralFile" and "au_Source au \<noteq> SourceFeralFile"
  shows "a \<in> set (db_assets (snd (IndexAsset X st now aid au s)))"
  unfolding IndexAsset_assets
  by (rule index_asset_doc_foreign) (use assms in \<open>simp_all add: db_inv_def\<close>)

lemma update_accounts_conflict:
  assumes "distinct (map at_key ats)" and "a \<in> set ats" and "b \<in> set ats"
    and "at_IndexID a = orig" and "at_IndexID b = nw" and "at_OwnerAccount a = at_OwnerAccount b" and "orig \<noteq> nw"
  shows "\<exists>e. fst (update_many (same_by at_key) (\<lambda>a. at_IndexID a = orig) (move_account_token nw n1 n2) ats) = Inl e"
proof (cases "update_many (same_by at_key) (\<lambda>a. at_IndexID a = orig) (move_account_token nw n1 n2) ats")
  case (Pair r ats')
  show ?thesis
  proof (cases r)
    case (Inr u)
    let ?f = "\<lambda>a. if at_IndexID a = orig then move_account_token nw n1 n2 a else a"
    from Pair Inr have ats': "ats' = map ?f ats" by (auto dest: update_many_ok)
    have "distinct (map at_key ats')"
      using distinct_update_many [OF assms(1), of "\<lambda>a. at_IndexID a = orig" "move_account_token nw n1 n2"] Pair by simp
    then have "inj_on (\<lambda>a. at_key (?f a)) (set ats)"
      by (simp add: ats' distinct_map comp_def)
    moreover have "at_key (?f a) = at_key (?f b)"
      using assms by (simp add: move_account_token_def at_key_def)
    ultimately have "a = b" using assms(2,3) by (auto dest: inj_onD)
    with assms show ?thesis by simp
  qed (use Pair in simp)
qed

lemma swap_accounts_moved:
  assumes "orig \<noteq> nw"
  shows "\<forall>a\<in>set (swap_accounts n1 n2 orig nw ats). at_IndexID a \<noteq> orig"
    and "a \<in> set ats \<Longrightarrow> at_IndexID a = orig \<Longrightarrow> \<exists>b\<in>set (swap_accounts n1 n2 orig nw ats).
      at_IndexID b = nw \<and> at_OwnerAccount b = at_OwnerAccount a \<and> at_Balance b = at_Balance a"
    and "a \<in> set ats \<Longrightarrow> at_IndexID a \<noteq> orig \<Longrightarrow> a \<in> set (swap_accounts n1 n2 orig nw ats)"
  using assms by (auto simp: swap_accounts_def move_account_token_def image_iff split: if_splits)

lemma swap_tokens_result:
  assumes "List.find (\<lambda>t. tok_IndexID t = orig) ts = Some t" and "orig \<noteq> nw"
    and n: "tok_IndexID n = nw" "tok_Swapped n" "\<not> tok_Burned n" "tok_SwappedFrom n = Some orig"
  shows "List.find (\<lambda>t. tok_IndexID t = orig) (swap_tokens orig nw n ts) = Some (mark_swapped nw t)"
    and "\<exists>d. List.find (\<lambda>t. tok_IndexID t = nw) (swap_tokens orig nw n ts) = Some d \<and>
      tok_Swapped d \<and> \<not> tok_Burned d \<and> tok_SwappedFrom d = Some orig \<and> tok_Base d = tok_Base n \<and>
      tok_OriginTokenInfo d = tok_OriginTokenInfo n \<and> tok_Owners d = tok_Owners n"
proof -
  define ts1 where "ts1 = upd1 (\<lambda>t. tok_IndexID t = orig) (mark_swapped nw) ts"
  have f1: "List.find (\<lambda>t. tok_IndexID t = orig) ts1 = Some (mark_swapped nw t)"
    using find_upd1_key [of tok_IndexID "mark_swapped nw" orig orig ts] assms(1) by (simp add: ts1_def)
  have other: "List.find (\<lambda>t. tok_IndexID t = orig) (upd1 (\<lambda>t. tok_IndexID t = nw) (set_token n) ts1)
      = List.find (\<lambda>t. tok_IndexID t = orig) ts1"
    by (rule find_upd1_other) (use assms(2) n(1) in auto)
  show "List.find (\<lambda>t. tok_IndexID t = orig) (swap_tokens orig nw n ts) = Some (mark_swapped nw t)"
    using f1 other by (simp add: swap_tokens_def ts1_def [symmetric] find_append)
  have same: "List.find (\<lambda>t. tok_IndexID t = nw) (upd1 (\<lambda>t. tok_IndexID t = nw) (set_token n) ts1)
      = (case List.find (\<lambda>t. tok_IndexID t = nw) ts1 of None \<Rightarrow> None
         | Some d \<Rightarrow> Some (if tok_IndexID d = nw then set_token n d else d))"
    by (rule find_upd1) (use n(1) in auto)
  show "\<exists>d. List.find (\<lambda>t. tok_IndexID t = nw) (swap_tokens orig nw n ts) = Some d \<and>
      tok_Swapped d \<and> \<not> tok_Burned d \<and> tok_SwappedFrom d = Some orig \<and> tok_Base d = tok_Base n \<and>
      tok_OriginTokenInfo d = tok_OriginTokenInfo n \<and> tok_Owners d = tok_Owners n"
  proof (cases "List.find (\<lambda>t. tok_IndexID t = nw) ts1")
    case None
    then have "\<not> (\<exists>t\<in>set ts1. tok_IndexID t = nw)" by (simp add: find_None)
    with None n show ?thesis
      by (simp add: swap_tokens_def ts1_def [symmetric] find_append bson_Token_def)
  next
    case (Some d)
    then have "\<exists>t\<in>set ts1. tok_IndexID t = nw" "tok_IndexID d = nw" using find_Some_set [OF Some] by auto
    with Some n same show ?thesis
      by (simp add: swap_tokens_def ts1_def [symmetric] set_token_def bson_Token_def)
  qed
qed

end

section \<open>Properties\<close>

text \<open>
  C5: The list of owners and the owner balances of a token stay consistent: every operation
  keeps the two fields of all tokens in agreement, \<open>IndexAsset\<close> as long as the tokens it is
  given are consistent.
\<close>

theorem token_operations_keep_owners_consistent:
  assumes "mongo_store st" and "each owners_consistent (au_Tokens au)"
  shows "keeps db_owners (IndexAsset X st now aid au) \<and>
    keeps db_owners (SwapToken X st now now' sw) \<and>
    keeps db_owners (UpdateOwner st now i owner at) \<and>
    keeps db_owners (UpdateTokenProvenance st now i ps) \<and>
    keeps db_owners (UpdateTokenOwners st now i at obs) \<and>
    keeps db_owners (PushProvenance st now i lock p) \<and>
    keeps db_owners (UpdateOwnerForFungibleToken st i lock owner n) \<and>
    keeps db_owners (IndexDemoTokens st owner ids) \<and>
    keeps db_owners (DeleteDemoTokens st owner)"
  using assms
  by (intro conjI mongo_store.owners_IndexAsset mongo_store.owners_SwapToken mongo_store.owners_UpdateOwner
      mongo_store.owners_UpdateTokenProvenance mongo_store.owners_UpdateTokenOwners
      mongo_store.owners_PushProvenance mongo_store.owners_UpdateOwnerForFungibleToken
      mongo_store.owners_IndexDemoTokens mongo_store.owners_DeleteDemoTokens)

definition sample_token :: Token where
  "sample_token = zero_Token\<lparr>tok_IndexID := ''eth-c-1'', tok_Owner := ''alice'',
     tok_Owners := Some [''alice'' \<mapsto> 1], tok_OwnersArray := Some [''alice''],
     tok_LastRefreshedTime := 5, tok_LastActivityTime := 3, tok_Provenances := Some []\<rparr>"

definition sample_db :: db where
  "sample_db = empty_db\<lparr>db_tokens := [sample_token]\<rparr>"

definition sample_updates :: AssetUpdates where
  "sample_updates = \<lparr>au_ID = ''a'', au_Source = ''opensea'', au_ProjectMetadata = zero_ProjectMetadata,
     au_BlockchainMetadata = JNull, au_Tokens = [sample_token\<lparr>tok_Owner := ''carol''\<rparr>]\<rparr>"

lemma sample_token_consistent: "owners_consistent sample_token"
  by (simp add: sample_token_def owners_consistent_def)

lemma sample_updates_consistent: "each owners_consistent (au_Tokens sample_updates)"
  by (simp add: sample_updates_def sample_token_def owners_consistent_def)

theorem token_operations_keep_owners_consistent_witness:
  "list_all owners_consistent (db_tokens (snd (UpdateOwner (mem_store []) 9 ''eth-c-1'' ''bob'' 7 sample_db)))"
proof -
  have "keeps db_owners (UpdateOwner (mem_store []) 9 ''eth-c-1'' ''bob'' 7)"
    using token_operations_keep_owners_consistent [OF mem_store_lawful sample_updates_consistent] by blast
  from keepsD [OF this, of sample_db] show ?thesis
    by (simp add: sample_db_def sample_token_consistent list_all_iff)
qed

text \<open>
  C1: \<open>IndexAsset\<close> succeeds; after it the asset and every token it was given are stored; and it
  leaves protected tokens alone: an update that does not come from Feral File does not touch a
  token that is swapped, burned or whose source is Feral File.
\<close>

theorem IndexAsset_indexes_and_protects:
  assumes "mongo_store st" and "IndexAsset X st now aid au s = (r, s')"
  shows "r = Inr () \<and>
    (\<forall>tk\<in>set (au_Tokens au).
       get_token (tok_IndexID (prepare_token X aid (au_Source au) tk)) s' \<noteq> None) \<and>
    (\<exists>a\<in>set (db_assets s'). asset_IndexID a = asset_index_id (au_Source au) aid) \<and>
    (\<forall>i t. get_token i s = Some t \<longrightarrow> au_Source au \<noteq> SourceFeralFile \<longrightarrow>
       tok_Swapped t \<or> tok_Burned t \<or> tok_Source t = SourceFeralFile \<longrightarrow> get_token i s' = Some t)"
  using mongo_store.IndexAsset_post [OF assms] by (simp add: checkIfTokenNeedToUpdate_def)

theorem IndexAsset_indexes_and_protects_witness:
  "fst (IndexAsset sample_ext (mem_store []) 9 ''a'' sample_updates sample_db) = Inr ()"
  using IndexAsset_indexes_and_protects [OF mem_store_lawful surjective_pairing] by blast

text \<open>
  C18: What \<open>IndexAsset\<close> may change of a stored asset: its index id, id, source, blockchain
  metadata and original project metadata never change, and an asset of Feral File is not changed
  at all by an update from another source.
\<close>

theorem IndexAsset_keeps_asset_identity:
  assumes "mongo_store st" and "db_inv s" and "a \<in> set (db_assets s)"
  shows "(\<exists>a'\<in>set (db_assets (snd (IndexAsset X st now aid au s))). asset_identity a' = asset_identity a) \<and>
    (asset_Source a = SourceFeralFile \<longrightarrow> au_Source au \<noteq> SourceFeralFile \<longrightarrow>
      a \<in> set (db_assets (snd (IndexAsset X st now aid au s))))"
  using mongo_store.IndexAsset_identity [OF assms(1,3)] mongo_store.IndexAsset_foreign [OF assms]
  by blast

definition sample_asset :: AssetDoc where
  "sample_asset = AssetUpdateSet 1 ''a'' (sample_updates\<lparr>au_Source := SourceFeralFile\<rparr>)"

theorem IndexAsset_keeps_asset_identity_witness:
  "sample_asset \<in> set (db_assets (snd (IndexAsset sample_ext (mem_store []) 9 ''a'' sample_updates
     (empty_db\<lparr>db_assets := [sample_asset]\<rparr>))))"
proof -
  have "db_inv (empty_db\<lparr>db_assets := [sample_asset]\<rparr>)" by (simp add: db_inv_def empty_db_def)
  moreover have "sample_asset \<in> set (db_assets (empty_db\<lparr>db_assets := [sample_asset]\<rparr>))" by simp
  moreover have "asset_Source sample_asset = SourceFeralFile" "au_Source sample_updates \<noteq> SourceFeralFile"
    by (simp_all add: sample_asset_def AssetUpdateSet_def sample_updates_def)
  ultimately show ?thesis
    using IndexAsset_keeps_asset_identity [OF mem_store_lawful] by blast
qed

text \<open>
  C2: A swap that succeeds marks the original token burned and points it to the new one, leaves
  the new token unburned, swapped and pointing back, with the chain of origins extended, and
  moves every account token of the original to the new id with its owner and balance.
\<close>

theorem SwapToken_swaps:
  assumes "mongo_store st"
    and "orig = TokenIndexID X (swap_OriginalBlockchain sw) (swap_OriginalContractAddress sw) (swap_OriginalTokenID sw)"
    and "SwapToken X st now1 now2 sw s = (Inr nw, s')" and "orig \<noteq> nw"
  shows "\<exists>t. get_token orig s = Some t \<and>
    get_token orig s' = Some (t\<lparr>tok_Burned := True, tok_SwappedTo := Some nw\<rparr>) \<and>
    (\<exists>n. get_token nw s' = Some n \<and> tok_Swapped n \<and> \<not> tok_Burned n \<and>
       tok_SwappedFrom n = Some orig \<and> tok_OriginTokenInfo n = tok_Base t # tok_OriginTokenInfo t \<and>
       tok_ID n = swap_NewTokenID sw \<and> tok_Owners n = tok_Owners t) \<and>
    (\<forall>a\<in>set (db_accountTokens s'). at_IndexID a \<noteq> orig) \<and>
    (\<forall>a\<in>set (db_accountTokens s). at_IndexID a = orig \<longrightarrow> (\<exists>b\<in>set (db_accountTokens s').
       at_IndexID b = nw \<and> at_OwnerAccount b = at_OwnerAccount a \<and> at_Balance b = at_Balance a))"
proof -
  define nw' where "nw' = TokenIndexID X (swap_NewBlockchain sw) (swap_NewContractAddress sw) (swap_NewTokenID sw)"
  note run = mongo_store.SwapToken_run [OF assms(1) refl assms(2) nw'_def, of now1 now2 s]
  from assms(3) run obtain t where t: "get_token orig s = Some t"
    by (auto split: option.splits if_splits)
  define n where "n = swapped_token sw orig nw' t"
  have n: "tok_IndexID n = nw'" "tok_Swapped n" "\<not> tok_Burned n" "tok_SwappedFrom n = Some orig"
    "tok_OriginTokenInfo n = tok_Base t # tok_OriginTokenInfo t" "tok_ID n = swap_NewTokenID sw"
    "tok_Owners n = tok_Owners t"
    by (simp_all add: n_def swapped_token_def)
  note trun = mongo_store.swap_transaction_run [OF assms(1) n(1) refl, of now1 now2 orig s]
  from assms(3) run t trun have nw: "nw = nw'" and s': "s' = s\<lparr>db_tokens := swap_tokens orig nw n (db_tokens s),
      db_accountTokens := swap_accounts now1 now2 orig nw (db_accountTokens s)\<rparr>"
    by (auto simp: n_def split: if_splits sum.splits prod.splits)
  have found: "List.find (\<lambda>t. tok_IndexID t = orig) (db_tokens s) = Some t"
    using t by (simp only: get_token_def)
  from mongo_store.swap_tokens_result [OF assms(1) found, of nw n] n nw assms(4)
    mongo_store.swap_accounts_moved [OF assms(1,4)]
  show ?thesis
    by (intro exI [of _ t]) (auto simp: found s' get_token_def mark_swapped_def)
qed

definition sample_swap :: SwapUpdate where
  "sample_swap = \<lparr>swap_OriginalTokenID = ''1'', swap_OriginalBlockchain = ''tezos'',
     swap_OriginalContractAddress = ''c'', swap_NewTokenID = ''2'', swap_NewBlockchain = ''tezos'',
     swap_NewContractAddress = ''d'', swap_NewContractType = ''fa2'',
     swap_ProjectMetadata = zero_ProjectMetadata, swap_BlockchainMetadata = JNull\<rparr>"

definition swap_db :: db where
  "swap_db = empty_db\<lparr>db_tokens := [sample_token\<lparr>tok_IndexID := ''tez-c-1''\<rparr>],
     db_accountTokens := [zero_AccountToken\<lparr>at_IndexID := ''tez-c-1'', at_OwnerAccount := ''alice'',
        at_Balance := 1\<rparr>]\<rparr>"

lemma sample_swap_ids:
  "TokenIndexID sample_ext ''tezos'' ''c'' ''1'' = ''tez-c-1''"
  "TokenIndexID sample_ext ''tezos'' ''d'' ''2'' = ''tez-d-2''"
  by (simp_all add: TokenIndexID_def BlockchainAlias_def sample_ext_def)

lemma sample_swap_run:
  "\<exists>s'. SwapToken sample_ext (mem_store []) 8 9 sample_swap swap_db = (Inr ''tez-d-2'', s')"
proof -
  let ?t = "sample_token\<lparr>tok_IndexID := ''tez-c-1''\<rparr>"
  have orig: "''tez-c-1'' = TokenIndexID sample_ext (swap_OriginalBlockchain sample_swap)
      (swap_OriginalContractAddress sample_swap) (swap_OriginalTokenID sample_swap)"
    and nw: "''tez-d-2'' = TokenIndexID sample_ext (swap_NewBlockchain sample_swap)
      (swap_NewContractAddress sample_swap) (swap_NewTokenID sample_swap)"
    by (simp_all add: sample_swap_def sample_swap_ids)
  have found: "get_token ''tez-c-1'' swap_db = Some ?t"
    by (simp add: get_token_def swap_db_def)
  have index: "tok_IndexID (swapped_token sample_swap ''tez-c-1'' ''tez-d-2'' ?t) = ''tez-d-2''"
    by (simp add: swapped_token_def)
  have accounts: "\<exists>u. fst (update_many (same_by at_key) (\<lambda>a. at_IndexID a = ''tez-c-1'')
      (move_account_token ''tez-d-2'' 8 9) (db_accountTokens swap_db)) = Inr u"
    by (simp add: swap_db_def update_many_def)
  have "\<not> tok_Burned ?t" by (simp add: sample_token_def zero_Token_def)
  moreover have "swap_NewBlockchain sample_swap = x_TezosBlockchain sample_ext"
    by (simp add: sample_swap_def sample_ext_def)
  ultimately show ?thesis
    using mem_st.SwapToken_run [OF found orig nw, of "[]" 8 9] accounts
    by (auto simp: mem_st.swap_transaction_run [OF index refl])
qed

theorem SwapToken_swaps_witness:
  "\<exists>s' n. SwapToken sample_ext (mem_store []) 8 9 sample_swap swap_db = (Inr ''tez-d-2'', s') \<and>
     get_token ''tez-d-2'' s' = Some n \<and> tok_SwappedFrom n = Some ''tez-c-1''"
proof -
  obtain s' where run: "SwapToken sample_ext (mem_store []) 8 9 sample_swap swap_db = (Inr ''tez-d-2'', s')"
    using sample_swap_run by blast
  have orig: "''tez-c-1'' = TokenIndexID sample_ext (swap_OriginalBlockchain sample_swap)
      (swap_OriginalContractAddress sample_swap) (swap_OriginalTokenID sample_swap)"
    by (simp add: sample_swap_def sample_swap_ids)
  have "''tez-c-1'' \<noteq> ''tez-d-2''" by simp
  from SwapToken_swaps [OF mem_store_lawful orig run this] run show ?thesis by blast
qed

text \<open>
  C8: A swap is all or nothing: when it returns an error the database is as before. In
  particular it always fails when one owner has account tokens of both the original and the new
  token: the duplicate key error of the move aborts the transaction, although the code means to
  go on after it and clean up.
\<close>

theorem SwapToken_atomic:
  assumes "mongo_store st"
    and "orig = TokenIndexID X (swap_OriginalBlockchain sw) (swap_OriginalContractAddress sw) (swap_OriginalTokenID sw)"
    and "nw = TokenIndexID X (swap_NewBlockchain sw) (swap_NewContractAddress sw) (swap_NewTokenID sw)"
    and "SwapToken X st now1 now2 sw s = (r, s')"
  shows "(\<forall>e. r = Inl e \<longrightarrow> s' = s) \<and>
    (db_inv s \<and> orig \<noteq> nw \<and> (\<exists>a\<in>set (db_accountTokens s). \<exists>b\<in>set (db_accountTokens s).
        at_IndexID a = orig \<and> at_IndexID b = nw \<and> at_OwnerAccount a = at_OwnerAccount b) \<longrightarrow>
      (\<exists>e. r = Inl e))"
proof -
  note run = mongo_store.SwapToken_run [OF assms(1) refl assms(2,3), of now1 now2 s]
  have index: "tok_IndexID (swapped_token sw orig nw t) = nw" for t by (simp add: swapped_token_def)
  note trun = mongo_store.swap_transaction_run [OF assms(1) index refl]
  have same: "s' = s" if "r = Inl e" for e
    using assms(4) run trun that
    by (auto split: option.splits if_splits sum.splits prod.splits)
  have fails: "\<exists>e. r = Inl e" if "db_inv s" "orig \<noteq> nw" "a \<in> set (db_accountTokens s)" "b \<in> set (db_accountTokens s)"
    "at_IndexID a = orig" "at_IndexID b = nw" "at_OwnerAccount a = at_OwnerAccount b" for a b
  proof -
    from that(1) have "distinct (map at_key (db_accountTokens s))" by (simp add: db_inv_def)
    from mongo_store.update_accounts_conflict [OF assms(1) this that(3-7,2), of now1 now2]
    obtain e where "fst (update_many (same_by at_key) (\<lambda>a. at_IndexID a = orig)
        (move_account_token nw now1 now2) (db_accountTokens s)) = Inl e" by blast
    with assms(4) run trun show ?thesis
      by (auto split: option.splits if_splits)
  qed
  from same fails show ?thesis by blast
qed

theorem SwapToken_atomic_witness:
  "\<exists>e. fst (SwapToken sample_ext (mem_store []) 8 9 sample_swap
     (swap_db\<lparr>db_accountTokens := db_accountTokens swap_db @
        [zero_AccountToken\<lparr>at_IndexID := ''tez-d-2'', at_OwnerAccount := ''alice''\<rparr>]\<rparr>)) = Inl e"
proof -
  let ?s = "swap_db\<lparr>db_accountTokens := db_accountTokens swap_db @
        [zero_AccountToken\<lparr>at_IndexID := ''tez-d-2'', at_OwnerAccount := ''alice''\<rparr>]\<rparr>"
  have orig: "''tez-c-1'' = TokenIndexID sample_ext (swap_OriginalBlockchain sample_swap)
      (swap_OriginalContractAddress sample_swap) (swap_OriginalTokenID sample_swap)"
    and nw: "''tez-d-2'' = TokenIndexID sample_ext (swap_NewBlockchain sample_swap)
      (swap_NewContractAddress sample_swap) (swap_NewTokenID sample_swap)"
    by (simp_all add: sample_swap_def sample_swap_ids)
  have "db_inv ?s" by (simp add: db_inv_def swap_db_def empty_db_def at_key_def)
  moreover have "\<exists>a\<in>set (db_accountTokens ?s). \<exists>b\<in>set (db_accountTokens ?s).
        at_IndexID a = ''tez-c-1'' \<and> at_IndexID b = ''tez-d-2'' \<and> at_OwnerAccount a = at_OwnerAccount b"
    by (simp add: swap_db_def)
  moreover have "''tez-c-1'' \<noteq> ''tez-d-2''" by simp
  ultimately show ?thesis
    using SwapToken_atomic [OF mem_store_lawful orig nw surjective_pairing] by blast
qed

text \<open>
  C3: \<open>PushProvenance\<close> is an optimistic update: it succeeds only on the token that was refreshed
  last at the locked time and whose last activity is older than the event, then puts the event
  in front of the provenance and makes its owner the sole owner, touches no other token, and a
  second push with the same locked time is refused.
\<close>

theorem PushProvenance_optimistic_lock:
  assumes "mongo_store st" and "db_inv s"
    and "PushProvenance st now i lock p s = (Inr (), s')" and "now \<noteq> lock"
    and "prov_FormerOwner p2 = Some fo"
  shows "\<exists>t ps. get_token i s = Some t \<and> tok_LastRefreshedTime t = lock \<and>
    tok_LastActivityTime t < prov_Timestamp p \<and> tok_Provenances t = Some ps \<and>
    get_token i s' = Some (t\<lparr>tok_Owner := prov_Owner p, tok_Owners := Some [prov_Owner p \<mapsto> 1],
      tok_OwnersArray := Some [prov_Owner p], tok_LastActivityTime := prov_Timestamp p,
      tok_LastRefreshedTime := now, tok_Provenances := Some (p\<lparr>prov_FormerOwner := None\<rparr> # ps)\<rparr>) \<and>
    (\<forall>j. j \<noteq> i \<longrightarrow> get_token j s' = get_token j s) \<and>
    PushProvenance st now2 i lock p2 s' = (Inl ErrNoRecordUpdated, s')"
proof -
  let ?q = "\<lambda>p t. tok_IndexID t = i \<and> tok_LastRefreshedTime t = lock \<and> tok_LastActivityTime t < prov_Timestamp p"
  from assms(3) obtain fo' where fo': "prov_FormerOwner p = Some fo'"
    by (cases "prov_FormerOwner p") (auto simp: PushProvenance_def throwA_run)
  from assms(3) obtain t t' where t: "List.find (?q p) (db_tokens s) = Some t" and t': "push_provenance now p t = Inr t'"
    and s': "s' = s\<lparr>db_tokens := upd1 (?q p) (\<lambda>_. t') (db_tokens s)\<rparr>"
    by (auto simp: mongo_store.PushProvenance_run [OF assms(1) fo'] split: option.splits sum.splits)
  from t' obtain ps where ps: "tok_Provenances t = Some ps"
    and t'_eq: "t' = (set_single_owner (prov_Owner p) (prov_Timestamp p) now t)\<lparr>tok_Provenances := Some (bson_Provenance p # ps)\<rparr>"
    by (auto simp: push_provenance_def split: option.splits)
  from find_Some_set [OF t] have q: "?q p t" and mem: "t \<in> set (db_tokens s)" by auto
  have dist: "distinct (map tok_IndexID (db_tokens s))" using assms(2) by (simp add: db_inv_def)
  from find_key [OF dist mem] q have get: "get_token i s = Some t" by (simp add: get_token_def)
  have index: "tok_IndexID t' = i" using q by (simp add: t'_eq set_single_owner_def)
  have "List.find (\<lambda>d. tok_IndexID d = i) (upd1 (?q p) (\<lambda>_. t') (db_tokens s)) =
    (case List.find (\<lambda>d. tok_IndexID d = i) (db_tokens s) of None \<Rightarrow> None
     | Some d \<Rightarrow> Some (if ?q p d then t' else d))"
    by (rule find_upd1) (use index in auto)
  then have get': "get_token i s' = Some t'" using get q by (simp add: get_token_def s')
  have other: "get_token j s' = get_token j s" if "j \<noteq> i" for j
    unfolding s' get_token_def by (simp, rule find_upd1_other) (use that index in auto)
  have dist': "distinct (map tok_IndexID (db_tokens s'))"
    using keepsD [OF mongo_store.keeps_PushProvenance [OF assms(1)] assms(2), of now i lock p] assms(3)
    by (simp add: db_inv_def)
  have "List.find (?q p2) (db_tokens s') = None"
  proof (rule ccontr)
    assume "List.find (?q p2) (db_tokens s') \<noteq> None"
    then obtain d where "List.find (?q p2) (db_tokens s') = Some d" by blast
    from find_Some_set [OF this] have d: "d \<in> set (db_tokens s')" "?q p2 d" by auto
    from find_key [OF dist' d(1)] d(2) get' have "d = t'" by (simp add: get_token_def)
    with d(2) assms(4) show False by (simp add: t'_eq set_single_owner_def)
  qed
  then have "PushProvenance st now2 i lock p2 s' = (Inl ErrNoRecordUpdated, s')"
    by (simp add: mongo_store.PushProvenance_run [OF assms(1,5)])
  with get get' other q ps show ?thesis
    by (intro exI [of _ t] exI [of _ ps]) (simp add: t'_eq set_single_owner_def bson_Provenance_def)
qed

definition sample_provenance :: Provenance where
  "sample_provenance = \<lparr>prov_FormerOwner = Some ''alice'', prov_Type = ''transfer'', prov_Owner = ''bob'',
     prov_Blockchain = ''ethereum'', prov_BlockNumber = Some 1, prov_Timestamp = 7, prov_TxID = ''0x1'',
     prov_TxURL = []\<rparr>"

theorem PushProvenance_optimistic_lock_witness:
  "\<exists>t. get_token ''eth-c-1'' (snd (PushProvenance (mem_store []) 9 ''eth-c-1'' 5 sample_provenance sample_db)) = Some t
     \<and> tok_Owner t = ''bob''"
proof -
  have run: "\<exists>s'. PushProvenance (mem_store []) 9 ''eth-c-1'' 5 sample_provenance sample_db = (Inr (), s')"
    by (simp add: mem_st.PushProvenance_run sample_provenance_def sample_db_def sample_token_def
        push_provenance_def)
  then obtain s' where s': "PushProvenance (mem_store []) 9 ''eth-c-1'' 5 sample_provenance sample_db = (Inr (), s')"
    by blast
  have "db_inv sample_db" by (simp add: sample_db_def db_inv_def empty_db_def)
  from PushProvenance_optimistic_lock [OF mem_store_lawful this s', of sample_provenance "''alice''" 0]
  have "\<exists>t. get_token ''eth-c-1'' s' = Some t \<and> tok_Owner t = prov_Owner sample_provenance"
    by (auto simp: sample_provenance_def)
  with s' show ?thesis by (simp add: sample_provenance_def)
qed

text \<open>
  \<open>UpdateOwner\<close> changes only the token it names, only when the owner is not empty, the token
  is not fungible and its last activity is older than the update; then the owner becomes the
  sole owner and the token is burned exactly when the owner is a burn address. So its activity
  time never goes back.
\<close>

theorem UpdateOwner_guarded:
  assumes "mongo_store st"
  shows "fst (UpdateOwner st now i owner at s) = Inr () \<and>
    get_token j (snd (UpdateOwner st now i owner at s)) =
      (if j = i \<and> owner \<noteq> [] then
         map_option (\<lambda>t. if \<not> tok_Fungible t \<and> tok_LastActivityTime t < at
           then t\<lparr>tok_Owner := owner, tok_Owners := Some [owner \<mapsto> 1], tok_OwnersArray := Some [owner],
                  tok_LastActivityTime := at, tok_LastRefreshedTime := now,
                  tok_Burned := IsBurnAddress owner (st_environment st)\<rparr>
           else t) (get_token i s)
       else get_token j s)"
proof -
  let ?p = "\<lambda>t. tok_IndexID t = i \<and> \<not> tok_Fungible t \<and> tok_LastActivityTime t < at"
  let ?f = "\<lambda>t. (set_single_owner owner at now t)\<lparr>tok_Burned := IsBurnAddress owner (st_environment st)\<rparr>"
  have index: "tok_IndexID (?f t) = tok_IndexID t" for t by (simp add: set_single_owner_def)
  have same: "get_token i (s\<lparr>db_tokens := upd1 ?p ?f (db_tokens s)\<rparr>) =
      map_option (\<lambda>t. if ?p t then ?f t else t) (get_token i s)"
    by (rule get_token_upd1_same) (use index in simp_all)
  have other: "get_token j (s\<lparr>db_tokens := upd1 ?p ?f (db_tokens s)\<rparr>) = get_token j s" if "j \<noteq> i"
    by (rule get_token_upd1_other) (use index that in auto)
  have "map_option (\<lambda>t. if ?p t then ?f t else t) (get_token i s) =
      map_option (\<lambda>t. if \<not> tok_Fungible t \<and> tok_LastActivityTime t < at then ?f t else t) (get_token i s)"
    by (cases "get_token i s") (auto dest: get_token_index)
  with same other show ?thesis
    by (auto simp: mongo_store.UpdateOwner_run [OF assms] set_single_owner_def cong: if_cong)
qed

theorem UpdateOwner_guarded_witness:
  "\<exists>t. get_token ''eth-c-1'' (snd (UpdateOwner (mem_store []) 9 ''eth-c-1'' EthereumZeroAddress 7 sample_db)) = Some t
    \<and> tok_Burned t"
proof -
  have "get_token ''eth-c-1'' sample_db = Some sample_token"
    by (simp add: get_token_def sample_db_def sample_token_def)
  with UpdateOwner_guarded [OF mem_store_lawful, of "[]" 9 "''eth-c-1''" EthereumZeroAddress 7 sample_db "''eth-c-1''"]
  show ?thesis
    by (simp add: sample_token_def zero_Token_def zero_BaseTokenInfo_def IsBurnAddress_def)
qed

text \<open>
  \<open>DeleteDemoTokens\<close> succeeds, after it no demo token lists the owner any more, and the
  tokens that are not demo tokens are the ones there were.
\<close>

theorem DeleteDemoTokens_forgets_owner:
  assumes "mongo_store st" and "DeleteDemoTokens st owner s = (r, s')"
  shows "r = Inr () \<and> (\<forall>t\<in>set (db_tokens s'). is_demo t \<longrightarrow> \<not> has_owner owner t) \<and>
    filter (\<lambda>t. \<not> is_demo t) (db_tokens s') = filter (\<lambda>t. \<not> is_demo t) (db_tokens s)"
proof -
  define f where "f t = (if is_demo t \<and> has_owner owner t then remove_owner owner t else t)" for t
  have demo: "is_demo (f t) = is_demo t" for t
    by (simp add: f_def is_demo_def remove_owner_def)
  have gone: "\<not> has_owner owner (f t)" if "is_demo t" for t
    using that by (auto simp: f_def has_owner_def remove_owner_def split: option.splits)
  have same: "f t = t" if "\<not> is_demo t" for t
    using that by (simp add: f_def)
  have "filter (\<lambda>t. \<not> is_demo t) (map f (filter q ts)) = filter (\<lambda>t. \<not> is_demo t) ts"
    if "\<And>t. \<not> is_demo t \<Longrightarrow> q t" for q ts
    using that by (induction ts) (auto simp: demo same)
  then have "filter (\<lambda>t. \<not> is_demo t) (map f (filter (\<lambda>t. \<not> (is_demo t \<and> tok_OwnersArray t = Some [owner]))
      (db_tokens s))) = filter (\<lambda>t. \<not> is_demo t) (db_tokens s)" by simp
  with assms(2) show ?thesis
    by (auto simp: mongo_store.DeleteDemoTokens_run [OF assms(1)] f_def [symmetric] demo gone)
qed

theorem DeleteDemoTokens_forgets_owner_witness:
  "filter (\<lambda>t. \<not> is_demo t) (db_tokens (snd (DeleteDemoTokens (mem_store []) ''alice'' sample_db))) = [sample_token]"
  using DeleteDemoTokens_forgets_owner [OF mem_store_lawful surjective_pairing, of "[]" "''alice''" sample_db]
  by (simp add: sample_db_def sample_token_def is_demo_def zero_Token_def)

end
