(* ===== verification/StoreAccounts.thy ===== *)
theory StoreAccounts
  imports StoreTokens
begin

text \<open>
  The operations of the store on identities, accounts and account tokens (\<open>store.go\<close>). An
  account token is the balance of one owner of one token; the collection has a unique index on
  the pair. An aggregation is the function its stages compose to, on the documents it reads.
\<close>

section \<open>Identities and accounts\<close>

definition GetIdentity :: "store \<Rightarrow> string \<Rightarrow> (db, AccountIdentity) act" where
  "GetIdentity st accountNumber =
     bindA (tryA (readA db_identities (FindOne (identityCollection st)
              (\<lambda>d. ident_AccountNumber d = accountNumber) (\<lambda>ds. ds)))) (\<lambda>r.
     bindA (case r of
              Inl e \<Rightarrow> if e \<noteq> ErrNoDocuments then throwA e else retA zero_AccountIdentity
            | Inr d \<Rightarrow> retA d) (\<lambda>identity.
     if ident_Name identity = [] then
       bindA (tryA (readA db_ffIdentities (FindOne (ffIdentityCollection st)
                (\<lambda>d. ident_AccountNumber d = accountNumber) (\<lambda>ds. ds)))) (\<lambda>r.
       case r of Inl e \<Rightarrow> retA identity | Inr d \<Rightarrow> retA d)
     else retA identity))"

text \<open>The map of \<open>GetIdentities\<close>, filled by the two loops.\<close>

definition put_identity :: "AccountIdentity \<Rightarrow> (string \<rightharpoonup> AccountIdentity) \<Rightarrow> (string \<rightharpoonup> AccountIdentity)" where
  "put_identity d m = m(ident_AccountNumber d \<mapsto> d)"

definition put_ff_identity :: "AccountIdentity \<Rightarrow> (string \<rightharpoonup> AccountIdentity) \<Rightarrow> (string \<rightharpoonup> AccountIdentity)" where
  "put_ff_identity d m =
     (case m (ident_AccountNumber d) of
        None \<Rightarrow> m(ident_AccountNumber d \<mapsto> d)
      | Some i \<Rightarrow> if ident_Name i = [] then m(ident_AccountNumber d \<mapsto> d) else m)"

definition GetIdentities :: "store \<Rightarrow> string list \<Rightarrow> (db, string \<rightharpoonup> AccountIdentity) act" where
  "GetIdentities st accountNumbers =
     bindA (readA db_identities (Find (identityCollection st)
              (\<lambda>d. ident_AccountNumber d \<in> set accountNumbers) (\<lambda>ds. ds) 0 0)) (\<lambda>ids.
     bindA (readA db_ffIdentities (Find (ffIdentityCollection st)
              (\<lambda>d. ident_AccountNumber d \<in> set accountNumbers) (\<lambda>ds. ds) 0 0)) (\<lambda>ffs.
     retA (fold put_ff_identity ffs (fold put_identity ids Map.empty))))"

definition IndexIdentity :: "store \<Rightarrow> gotime \<Rightarrow> AccountIdentity \<Rightarrow> (db, unit) act" where
  "IndexIdentity st now identity0 =
     (let identity = identity0\<lparr>ident_LastUpdatedTime := now\<rparr>
      in bindA (on_identities (UpsertOne (identityCollection st)
             (\<lambda>d. ident_AccountNumber d = ident_AccountNumber identity) (\<lambda>_. identity) identity))
           (\<lambda>_. retA ()))"

definition IndexAccount :: "store \<Rightarrow> gotime \<Rightarrow> Account \<Rightarrow> (db, unit) act" where
  "IndexAccount st now account0 =
     (let account = (if time_IsZero (acc_LastUpdatedTime account0)
                     then account0\<lparr>acc_LastUpdatedTime := now\<rparr> else account0)
      in bindA (on_accounts (UpsertOne (accountCollection st)
             (\<lambda>d. acc_Account d = acc_Account account) (\<lambda>_. account) account))
           (\<lambda>_. retA ()))"

definition GetAccount :: "store \<Rightarrow> string \<Rightarrow> (db, Account) act" where
  "GetAccount st owner =
     bindA (tryA (readA db_accounts (FindOne (accountCollection st)
              (\<lambda>d. acc_Account d = owner) (\<lambda>ds. ds)))) (\<lambda>r.
     case r of
       Inl e \<Rightarrow> if e = ErrNoDocuments then retA zero_Account else throwA e
     | Inr d \<Rightarrow> retA d)"

section \<open>Writing account tokens\<close>

definition find_accountTokens :: "store \<Rightarrow> (AccountToken \<Rightarrow> bool) \<Rightarrow> (db, AccountToken list) act" where
  "find_accountTokens st p = readA db_accountTokens (Find (accountTokenCollection st) p (\<lambda>ds. ds) 0 0)"

text \<open>\<open>$set: accountToken\<close>: empty pending lists are omitted, so they stay what they were.\<close>

definition set_account_token :: "AccountToken \<Rightarrow> AccountToken \<Rightarrow> AccountToken" where
  "set_account_token a d =
     a\<lparr>at_LastPendingTime := (if at_LastPendingTime a = [] then at_LastPendingTime d else at_LastPendingTime a),
       at_PendingTxs := (if at_PendingTxs a = [] then at_PendingTxs d else at_PendingTxs a)\<rparr>"

definition index_margin :: int where
  "index_margin = 15 * 1000"

definition index_account_token :: "store \<Rightarrow> string \<Rightarrow> AccountToken \<Rightarrow> (db, unit) act" where
  "index_account_token st owner accountToken =
     bindA (tryA (on_accountTokens (UpsertOne (accountTokenCollection st)
              (\<lambda>d. at_IndexID d = at_IndexID accountToken \<and> at_OwnerAccount d = owner \<and>
                   at_LastActivityTime d < at_LastActivityTime accountToken - index_margin)
              (set_account_token accountToken) accountToken))) (\<lambda>r.
     case r of
       Inl e \<Rightarrow> if e = ErrDuplicateKey then retA () else throwA e
     | Inr _ \<Rightarrow> retA ())"

definition IndexAccountTokens :: "store \<Rightarrow> string \<Rightarrow> AccountToken list \<Rightarrow> (db, unit) act" where
  "IndexAccountTokens st owner accountTokens = forA (index_account_token st owner) accountTokens"

definition account_token_update :: "gotime \<Rightarrow> Token \<Rightarrow> string \<Rightarrow> OwnerBalance \<Rightarrow> AccountToken" where
  "account_token_update now token indexID ob =
     \<lparr>at_Base = tok_Base token, at_IndexID = indexID, at_OwnerAccount = ob_Address ob,
      at_Balance = ob_Balance ob, at_LastActivityTime = ob_LastTime ob, at_LastRefreshedTime = now,
      at_LastPendingTime = [], at_PendingTxs = []\<rparr>"

text \<open>The loop over the balances: the owners whose update did not fail, in order.\<close>

fun update_balances ::
    "store \<Rightarrow> gotime \<Rightarrow> Token \<Rightarrow> string \<Rightarrow> OwnerBalance list \<Rightarrow> string list \<Rightarrow> (db, string list) act" where
  "update_balances st now token indexID [] ownerList = retA ownerList"
| "update_balances st now token indexID (ob # obs) ownerList =
     (let tokenUpdate = account_token_update now token indexID ob
      in bindA (tryA (on_accountTokens (UpsertOne (accountTokenCollection st)
             (\<lambda>d. at_IndexID d = indexID \<and> at_OwnerAccount d = ob_Address ob)
             (set_account_token tokenUpdate) tokenUpdate))) (\<lambda>r.
         case r of
           Inl _ \<Rightarrow> update_balances st now token indexID obs ownerList
         | Inr _ \<Rightarrow> update_balances st now token indexID obs (ownerList @ [ob_Address ob])))"

definition UpdateAccountTokenOwners ::
    "store \<Rightarrow> gotime \<Rightarrow> string \<Rightarrow> OwnerBalance list \<Rightarrow> (db, unit) act" where
  "UpdateAccountTokenOwners st now indexID ownerBalances =
     bindA (find_token st (\<lambda>t. tok_IndexID t = indexID)) (\<lambda>token.
     bindA (update_balances st now token indexID ownerBalances []) (\<lambda>ownerList.
     bindA (on_accountTokens (UpdateMany (accountTokenCollection st)
              (\<lambda>d. at_IndexID d = indexID \<and> at_OwnerAccount d \<notin> set ownerList)
              (\<lambda>d. d\<lparr>at_Balance := 0, at_LastRefreshedTime := now\<rparr>)))
       (\<lambda>_. retA ())))"

definition MarkAccountTokenChanged :: "store \<Rightarrow> gotime \<Rightarrow> string list \<Rightarrow> (db, unit) act" where
  "MarkAccountTokenChanged st now indexIDs =
     bindA (on_accountTokens (UpdateMany (accountTokenCollection st)
              (\<lambda>d. at_IndexID d \<in> set indexIDs) (\<lambda>d. d\<lparr>at_LastRefreshedTime := now\<rparr>)))
       (\<lambda>_. retA ())"

section \<open>Reading account tokens\<close>

definition GetOwnedTokenIDsByOwner :: "store \<Rightarrow> string \<Rightarrow> (db, string list) act" where
  "GetOwnedTokenIDsByOwner st owner =
     bindA (find_accountTokens st (\<lambda>a. at_OwnerAccount a = owner \<and> at_Balance a > 0))
       (\<lambda>ats. retA (map at_IndexID ats))"

definition CountDetailedAccountTokensByOwner :: "store \<Rightarrow> string \<Rightarrow> (db, nat) act" where
  "CountDetailedAccountTokensByOwner st owner =
     readA db_accountTokens (CountDocuments (accountTokenCollection st)
       (\<lambda>a. at_OwnerAccount a = owner \<and> at_Balance a > 0))"

definition GetOwnerAccountsByIndexIDs :: "store \<Rightarrow> string list \<Rightarrow> (db, string list) act" where
  "GetOwnerAccountsByIndexIDs st indexIDs =
     bindA (find_accountTokens st (\<lambda>a. at_IndexID a \<in> set indexIDs))
       (\<lambda>ats. retA (map at_OwnerAccount ats))"

text \<open>Match, sort by activity, group by index id with the last of each group.\<close>

definition GetLatestActivityTimeByIndexIDs :: "string list \<Rightarrow> (db, string \<rightharpoonup> gotime) act" where
  "GetLatestActivityTimeByIndexIDs indexIDs =
     readA db_accountTokens (\<lambda>ats. Inr (fold (\<lambda>a m. m(at_IndexID a \<mapsto> at_LastActivityTime a))
       (sort_key at_LastActivityTime (filter (\<lambda>a. at_IndexID a \<in> set indexIDs) ats)) Map.empty))"

text \<open>A sum that does not fit into 64 bits comes back as a double, which does not decode.\<close>

definition GetTotalBalanceOfOwnerAccounts :: "string list \<Rightarrow> (db, int) act" where
  "GetTotalBalanceOfOwnerAccounts addresses =
     readA db_accountTokens (\<lambda>ats.
       let total_balance = sum_list (map at_Balance (filter (\<lambda>a. at_OwnerAccount a \<in> set addresses) ats))
       in if - (2 ^ 63) \<le> total_balance \<and> total_balance < 2 ^ 63 then Inr total_balance
          else Inl (ErrDB ''overflow''))"

definition checkAddressOwnTokenHasIndexID :: "store \<Rightarrow> string \<Rightarrow> string \<Rightarrow> (db, bool) act" where
  "checkAddressOwnTokenHasIndexID st address indexID =
     bindA (tryA (readA db_accountTokens (FindOne (accountTokenCollection st)
              (\<lambda>a. at_OwnerAccount a = address \<and> at_IndexID a = indexID \<and> at_Balance a > 0) (\<lambda>ds. ds)))) (\<lambda>r.
     case r of
       Inl e \<Rightarrow> if e = ErrNoDocuments then retA False else throwA e
     | Inr _ \<Rightarrow> retA True)"

fun any_token_in_source :: "store \<Rightarrow> string \<Rightarrow> string list \<Rightarrow> (nat \<times> nat) list \<Rightarrow> (db, bool) act" where
  "any_token_in_source st source indexIDs [] = retA False"
| "any_token_in_source st source indexIDs ((lo, hi) # ranges) =
     bindA (tryA (find_token st (\<lambda>t. tok_IndexID t \<in> set (slice lo hi indexIDs) \<and> tok_Source t = source))) (\<lambda>r.
     case r of
       Inl e \<Rightarrow> if e = ErrNoDocuments then any_token_in_source st source indexIDs ranges else throwA e
     | Inr _ \<Rightarrow> retA True)"

definition checkAddressOwnTokenInSource :: "ext \<Rightarrow> store \<Rightarrow> string \<Rightarrow> string \<Rightarrow> (db, bool) act" where
  "checkAddressOwnTokenInSource X st address source =
     bindA (find_accountTokens st (\<lambda>a. at_OwnerAccount a = address \<and> at_Balance a > 0)) (\<lambda>ats.
       let indexIDs = map at_IndexID ats
       in if indexIDs = [] then retA False
          else any_token_in_source st source indexIDs (x_Partition X (length indexIDs) 25))"

record Criteria =
  crit_IndexID :: string
  crit_Source :: string

definition CheckAddressOwnTokenByCriteria :: "ext \<Rightarrow> store \<Rightarrow> string \<Rightarrow> Criteria \<Rightarrow> (db, bool) act" where
  "CheckAddressOwnTokenByCriteria X st address criteria =
     (if crit_IndexID criteria \<noteq> [] then checkAddressOwnTokenHasIndexID st address (crit_IndexID criteria)
      else if crit_Source criteria \<noteq> [] then checkAddressOwnTokenInSource X st address (crit_Source criteria)
      else retA False)"

text \<open>The owners in the order of their first account token; an empty \<open>$or\<close> is refused.\<close>

fun first_occurrences :: "string set \<Rightarrow> string list \<Rightarrow> string list" where
  "first_occurrences seen [] = []"
| "first_occurrences seen (x # xs) =
     (if x \<in> seen then first_occurrences seen xs else x # first_occurrences (insert x seen) xs)"

definition GetOwnersByBlockchainContracts :: "store \<Rightarrow> (string \<times> string list) list \<Rightarrow> (db, string list) act" where
  "GetOwnersByBlockchainContracts st blockchainContracts =
     (if blockchainContracts = [] then throwA (ErrDB ''$or must be an array'')
      else bindA (find_accountTokens st (\<lambda>a. \<exists>(k, v)\<in>set blockchainContracts.
               base_Blockchain (at_Base a) = k \<and> base_ContractAddress (at_Base a) \<in> set v))
             (\<lambda>ats. retA (first_occurrences {} (map at_OwnerAccount ats))))"

section \<open>Account tokens by their key\<close>

definition get_at :: "string \<times> string \<Rightarrow> db \<Rightarrow> AccountToken option" where
  "get_at k s = List.find (\<lambda>d. at_key d = k) (db_accountTokens s)"

lemma set_account_token_key [simp]: "at_key (set_account_token a d) = at_key a"
  by (simp add: set_account_token_def at_key_def)

lemma set_account_token_simps [simp]:
  "at_LastActivityTime (set_account_token a d) = at_LastActivityTime a"
  "at_IndexID (set_account_token a d) = at_IndexID a"
  "at_OwnerAccount (set_account_token a d) = at_OwnerAccount a"
  "at_Balance (set_account_token a d) = at_Balance a"
  by (simp_all add: set_account_token_def)

lemma key_filter: "(\<lambda>d. at_IndexID d = i \<and> at_OwnerAccount d = ow) = (\<lambda>d. at_key d = (i, ow))"
  by (auto simp: at_key_def)

context mongo_store
begin

lemma find_accountTokens_run: "find_accountTokens st p s = (Inr (filter p (db_accountTokens s)), s)"
  using accountTokens.find_all [of p "db_accountTokens s"]
  by (simp add: find_accountTokens_def readA_run id_def)

lemma keeps_index_account_token: "keeps db_inv (index_account_token st owner a)"
  unfolding index_account_token_def by (intro step_keeps)

lemma keeps_IndexAccountTokens: "keeps db_inv (IndexAccountTokens st owner ats)"
  unfolding IndexAccountTokens_def by (intro keeps_forA keeps_index_account_token)

lemma keeps_update_balances: "keeps db_inv (update_balances st now token i obs os)"
  by (induction obs arbitrary: os) (auto simp: Let_def intro!: step_keeps split: sum.split)

lemma keeps_UpdateAccountTokenOwners: "keeps db_inv (UpdateAccountTokenOwners st now i obs)"
  unfolding UpdateAccountTokenOwners_def by (intro step_keeps keeps_update_balances)

lemma keeps_MarkAccountTokenChanged: "keeps db_inv (MarkAccountTokenChanged st now ids)"
  unfolding MarkAccountTokenChanged_def by (intro step_keeps)

lemma keeps_IndexIdentity: "keeps db_inv (IndexIdentity st now ident)"
  unfolding IndexIdentity_def Let_def by (intro step_keeps)

lemma keeps_IndexAccount: "keeps db_inv (IndexAccount st now acc)"
  unfolding IndexAccount_def Let_def by (intro step_keeps)

text \<open>
  One account token of \<open>IndexAccountTokens\<close>: inserted if there is none with its key, stored over
  one that is older by more than the margin, and otherwise dropped without an error, because the
  insertion the upsert falls back to violates the unique index.
\<close>

lemma index_account_token_run:
  assumes "db_inv s" and "at_OwnerAccount a = owner"
  shows "index_account_token st owner a s = (Inr (),
    case get_at (at_key a) s of
      None \<Rightarrow> s\<lparr>db_accountTokens := db_accountTokens s @ [a]\<rparr>
    | Some d \<Rightarrow>
        if at_LastActivityTime d < at_LastActivityTime a - index_margin
        then s\<lparr>db_accountTokens := upd1 (\<lambda>d. at_key d = at_key a) (set_account_token a) (db_accountTokens s)\<rparr>
        else s)"
proof -
  let ?p = "\<lambda>d. at_IndexID d = at_IndexID a \<and> at_OwnerAccount d = owner \<and>
                at_LastActivityTime d < at_LastActivityTime a - index_margin"
  let ?k = "\<lambda>d. at_key d = at_key a"
  have p_key: "?p d \<longleftrightarrow> ?k d \<and> at_LastActivityTime d < at_LastActivityTime a - index_margin" for d
    using assms(2) by (auto simp: at_key_def)
  have dist: "distinct (map at_key (db_accountTokens s))" using assms(1) by (simp add: db_inv_def)
  show ?thesis
  proof (cases "get_at (at_key a) s")
    case None
    then have "\<forall>d\<in>set (db_accountTokens s). \<not> ?k d" by (simp add: get_at_def find_None)
    then have "\<forall>d\<in>set (db_accountTokens s). \<not> ?p d" "\<not> taken (same_by at_key) a (db_accountTokens s)"
      using p_key by auto
    from accountTokens.upsert_new [OF this, of "set_account_token a"] None show ?thesis
      by (auto simp: index_account_token_def run_db)
  next
    case (Some d)
    then have d: "d \<in> set (db_accountTokens s)" "?k d" by (auto simp: get_at_def dest: find_Some_set)
    have only: "e = d" if "e \<in> set (db_accountTokens s)" "?k e" for e
      using that d dist by (auto simp: distinct_map inj_on_def)
    show ?thesis
    proof (cases "?p d")
      case True
      have mem: "?p e = ?k e" if "e \<in> set (db_accountTokens s)" for e
        using only [OF that] True p_key [of e] p_key [of d] by auto
      have same: "upd1 ?p f (db_accountTokens s) = upd1 ?k f (db_accountTokens s)" for f
        by (rule upd1_cong) (rule mem)
      have "List.find ?p (db_accountTokens s) = List.find ?k (db_accountTokens s)"
        by (rule find_cong [OF refl]) (rule mem)
      with Some have find: "List.find ?p (db_accountTokens s) = Some d" by (simp add: get_at_def)
      have "\<exists>d\<in>set (db_accountTokens s). ?p d" using d(1) True by blast
      moreover have "same_by at_key d (set_account_token a d)" using d(2) by (simp add: same_by_def)
      ultimately have "UpsertOne (accountTokenCollection st) ?p (set_account_token a) a (db_accountTokens s)
          = (Inr (upd_res d (set_account_token a d)), upd1 ?p (set_account_token a) (db_accountTokens s))"
        by (simp only: accountTokens.UpsertOne_law upsert_one_def if_True update_one_def find
            option.case not_True_eq_False simp_thms if_False)
      with Some True show ?thesis
        by (simp add: index_account_token_def run_db same)
    next
      case False
      then have none: "\<forall>e\<in>set (db_accountTokens s). \<not> ?p e" using only p_key by blast
      have tk: "taken (same_by at_key) a (db_accountTokens s)" using d by (auto intro: rev_image_eqI)
      from accountTokens.upsert_duplicate [OF none tk, of "set_account_token a"] Some False d(2) assms(2)
      show ?thesis by (simp add: index_account_token_def run_db p_key)
    qed
  qed
qed

lemma index_account_token_post:
  assumes "db_inv s" and "at_OwnerAccount a = owner"
  shows "\<exists>s'. index_account_token st owner a s = (Inr (), s') \<and> db_inv s' \<and>
    (\<exists>d. get_at (at_key a) s' = Some d \<and> at_LastActivityTime a - index_margin \<le> at_LastActivityTime d) \<and>
    (\<forall>k d. get_at k s = Some d \<longrightarrow> (\<exists>d'. get_at k s' = Some d' \<and> at_LastActivityTime d \<le> at_LastActivityTime d'))"
proof -
  define s' where "s' = snd (index_account_token st owner a s)"
  note run = index_account_token_run [OF assms]
  have inv: "db_inv s'" unfolding s'_def by (rule keepsD [OF keeps_index_account_token assms(1)])
  have upd: "get_at k (s\<lparr>db_accountTokens := upd1 (\<lambda>d. at_key d = at_key a) (set_account_token a) (db_accountTokens s)\<rparr>)
      = (if k = at_key a then map_option (set_account_token a) (get_at k s) else get_at k s)" for k
  proof (cases "k = at_key a")
    case True
    have "List.find (\<lambda>d. at_key d = k) (upd1 (\<lambda>d. at_key d = at_key a) (set_account_token a) (db_accountTokens s))
      = (case List.find (\<lambda>d. at_key d = k) (db_accountTokens s) of None \<Rightarrow> None
         | Some d \<Rightarrow> Some (if at_key d = at_key a then set_account_token a d else d))"
      by (rule find_upd1) (use True in auto)
    with True show ?thesis by (auto simp: get_at_def dest: find_Some_set split: option.splits)
  next
    case False
    then show ?thesis by (auto simp: get_at_def intro!: find_upd1_other)
  qed
  have app: "get_at k (s\<lparr>db_accountTokens := db_accountTokens s @ [a]\<rparr>)
      = (case get_at k s of None \<Rightarrow> if at_key a = k then Some a else None | Some d \<Rightarrow> Some d)" for k
    by (simp add: get_at_def find_append split: option.split)
  have "0 \<le> index_margin" by (simp add: index_margin_def)
  with inv show ?thesis
    by (intro exI [of _ s']) (auto simp: run s'_def upd app split: option.splits)
qed

lemma IndexAccountTokens_post:
  assumes "db_inv s" and "\<forall>a\<in>set ats. at_OwnerAccount a = owner"
  shows "\<exists>s'. IndexAccountTokens st owner ats s = (Inr (), s') \<and>
    (\<forall>a\<in>set ats. \<exists>d. get_at (at_key a) s' = Some d \<and> at_LastActivityTime a - index_margin \<le> at_LastActivityTime d) \<and>
    (\<forall>k d. get_at k s = Some d \<longrightarrow> (\<exists>d'. get_at k s' = Some d' \<and> at_LastActivityTime d \<le> at_LastActivityTime d'))"
  using assms
proof (induction ats arbitrary: s)
  case Nil
  then show ?case by (simp add: IndexAccountTokens_def retA_run)
next
  case (Cons a ats)
  from index_account_token_post [of s a owner] Cons.prems obtain s1 where
    s1: "index_account_token st owner a s = (Inr (), s1)" "db_inv s1"
      "\<exists>d. get_at (at_key a) s1 = Some d \<and> at_LastActivityTime a - index_margin \<le> at_LastActivityTime d"
      "\<And>k d. get_at k s = Some d \<Longrightarrow> \<exists>d'. get_at k s1 = Some d' \<and> at_LastActivityTime d \<le> at_LastActivityTime d'"
    by auto
  from Cons.IH [OF s1(2)] Cons.prems(2) obtain s' where
    s': "IndexAccountTokens st owner ats s1 = (Inr (), s')"
      "\<And>b. b \<in> set ats \<Longrightarrow> \<exists>d. get_at (at_key b) s' = Some d \<and> at_LastActivityTime b - index_margin \<le> at_LastActivityTime d"
      "\<And>k d. get_at k s1 = Some d \<Longrightarrow> \<exists>d'. get_at k s' = Some d' \<and> at_LastActivityTime d \<le> at_LastActivityTime d'"
    by auto
  have "IndexAccountTokens st owner (a # ats) s = (Inr (), s')"
    using s1(1) s'(1) by (simp add: IndexAccountTokens_def bindA_run)
  moreover have "\<exists>d. get_at (at_key a) s' = Some d \<and> at_LastActivityTime a - index_margin \<le> at_LastActivityTime d"
    using s1(3) s'(3) by (meson order_trans)
  moreover have "\<exists>d'. get_at k s' = Some d' \<and> at_LastActivityTime d \<le> at_LastActivityTime d'"
    if "get_at k s = Some d" for k d
    using s1(4) [OF that] s'(3) by (meson order_trans)
  ultimately show ?case using s'(2) by auto
qed

end

section \<open>Balances of a token\<close>

definition put_at :: "AccountToken \<Rightarrow> AccountToken list \<Rightarrow> AccountToken list" where
  "put_at a ats =
     (if \<exists>d\<in>set ats. at_key d = at_key a then upd1 (\<lambda>d. at_key d = at_key a) (set_account_token a) ats
      else ats @ [a])"

definition at_lookup :: "AccountToken list \<Rightarrow> string \<times> string \<Rightarrow> AccountToken option" where
  "at_lookup ats k = List.find (\<lambda>d. at_key d = k) ats"

lemma get_at_lookup: "get_at k s = at_lookup (db_accountTokens s) k"
  by (simp add: get_at_def at_lookup_def)

lemma at_lookup_key: "at_lookup ats k = Some d \<Longrightarrow> at_key d = k"
  by (auto simp: at_lookup_def dest: find_Some_set)

lemma at_lookup_put:
  "at_lookup (put_at a ats) k =
    (if k = at_key a then Some (case at_lookup ats k of None \<Rightarrow> a | Some d \<Rightarrow> set_account_token a d)
     else at_lookup ats k)"
proof (cases "\<exists>d\<in>set ats. at_key d = at_key a")
  case True
  then obtain d where d: "at_lookup ats (at_key a) = Some d"
    by (cases "at_lookup ats (at_key a)") (auto simp: at_lookup_def find_None)
  have same: "at_lookup (upd1 (\<lambda>d. at_key d = at_key a) (set_account_token a) ats) (at_key a) =
      Some (set_account_token a d)"
  proof -
    have "List.find (\<lambda>d. at_key d = at_key a) (upd1 (\<lambda>d. at_key d = at_key a) (set_account_token a) ats)
      = (case List.find (\<lambda>d. at_key d = at_key a) ats of None \<Rightarrow> None
         | Some d \<Rightarrow> Some (if at_key d = at_key a then set_account_token a d else d))"
      by (rule find_upd1) auto
    with d show ?thesis by (auto simp: at_lookup_def dest: find_Some_set)
  qed
  have other: "k \<noteq> at_key a \<Longrightarrow> at_lookup (upd1 (\<lambda>d. at_key d = at_key a) (set_account_token a) ats) k = at_lookup ats k"
    unfolding at_lookup_def by (rule find_upd1_other) auto
  from True d same other show ?thesis by (simp add: put_at_def)
next
  case False
  then have "at_lookup ats (at_key a) = None" by (simp add: at_lookup_def find_None)
  with False show ?thesis
    by (auto simp: put_at_def at_lookup_def find_append split: option.split)
qed

definition put_balances :: "gotime \<Rightarrow> Token \<Rightarrow> string \<Rightarrow> OwnerBalance list \<Rightarrow> AccountToken list \<Rightarrow> AccountToken list" where
  "put_balances now token i obs ats = fold (\<lambda>ob ats. put_at (account_token_update now token i ob) ats) obs ats"

lemma account_token_update_simps [simp]:
  "at_key (account_token_update now token i ob) = (i, ob_Address ob)"
  "at_Balance (account_token_update now token i ob) = ob_Balance ob"
  by (simp_all add: account_token_update_def at_key_def)

lemma put_balances_other: "j \<noteq> i \<Longrightarrow> at_lookup (put_balances now token i obs ats) (j, ow) = at_lookup ats (j, ow)"
  by (induction obs arbitrary: ats) (simp_all add: put_balances_def at_lookup_put)

lemma put_balances_balance:
  "map_option at_Balance (at_lookup (put_balances now token i obs ats) (i, ow)) =
     fold (\<lambda>ob m. m(ob_Address ob \<mapsto> ob_Balance ob)) obs (\<lambda>ow. map_option at_Balance (at_lookup ats (i, ow))) ow"
proof (induction obs arbitrary: ats)
  case Nil
  then show ?case by (simp add: put_balances_def)
next
  case (Cons ob obs)
  let ?u = "account_token_update now token i ob"
  have "(\<lambda>ow. map_option at_Balance (at_lookup (put_at ?u ats) (i, ow))) =
      (\<lambda>ow. map_option at_Balance (at_lookup ats (i, ow)))(ob_Address ob \<mapsto> ob_Balance ob)"
    by (auto simp: fun_eq_iff at_lookup_put split: option.split)
  with Cons.IH [of "put_at ?u ats"] show ?case by (simp add: put_balances_def fun_upd_def)
qed

lemma fold_map_upd:
  "fold (\<lambda>ob m. m(ob_Address ob \<mapsto> ob_Balance ob)) obs m0 ow =
     (case owners_of obs ow of None \<Rightarrow> m0 ow | Some b \<Rightarrow> Some b)"
proof -
  have "fold (\<lambda>ob m. m(ob_Address ob \<mapsto> ob_Balance ob)) obs (m0 ++ m1) =
      m0 ++ fold (\<lambda>ob m. m(ob_Address ob \<mapsto> ob_Balance ob)) obs m1" for m1
    by (induction obs arbitrary: m1) (simp_all add: map_add_upd [symmetric] del: map_add_upd)
  from this [of Map.empty] show ?thesis by (simp add: owners_of_def map_add_def)
qed

lemma at_lookup_map:
  assumes "\<And>d. at_key (f d) = at_key d"
  shows "at_lookup (map f ats) k = map_option f (at_lookup ats k)"
  by (induction ats) (simp_all add: at_lookup_def assms)

context mongo_store
begin

lemma update_balances_run:
  "update_balances st now token i obs os s =
    (Inr (os @ map ob_Address obs), s\<lparr>db_accountTokens := put_balances now token i obs (db_accountTokens s)\<rparr>)"
proof (induction obs arbitrary: os s)
  case Nil
  then show ?case by (simp add: retA_run put_balances_def)
next
  case (Cons ob obs)
  let ?u = "account_token_update now token i ob"
  obtain r where "on_accountTokens (UpsertOne (accountTokenCollection st) (\<lambda>d. at_key d = (i, ob_Address ob))
      (set_account_token ?u) ?u) s = (Inr r, s\<lparr>db_accountTokens := put_at ?u (db_accountTokens s)\<rparr>)"
    by (simp add: run_db kaccountTokens.upsert_by_key put_at_def)
  with Cons show ?case
    by (simp add: Let_def key_filter bindA_run tryA_run put_balances_def)
qed

lemma UpdateAccountTokenOwners_run:
  assumes "get_token i s = Some token"
  shows "UpdateAccountTokenOwners st now i obs s = (Inr (), s\<lparr>db_accountTokens :=
     map (\<lambda>d. if at_IndexID d = i \<and> at_OwnerAccount d \<notin> ob_Address ` set obs
              then d\<lparr>at_Balance := 0, at_LastRefreshedTime := now\<rparr> else d)
       (put_balances now token i obs (db_accountTokens s))\<rparr>)"
proof -
  have key: "same_by at_key d (d\<lparr>at_Balance := 0, at_LastRefreshedTime := now\<rparr>)" for d
    by (simp add: same_by_def at_key_def)
  have found: "List.find (\<lambda>t. tok_IndexID t = i) (db_tokens s) = Some token"
    using assms by (simp only: get_token_def)
  from accountTokens.update_many_keeping [OF key, of
      "\<lambda>d. at_IndexID d = i \<and> at_OwnerAccount d \<notin> set (map ob_Address obs)"
      "put_balances now token i obs (db_accountTokens s)"]
  show ?thesis
    by (auto simp: UpdateAccountTokenOwners_def bindA_run find_token_run found update_balances_run run_db)
qed

lemma UpdateAccountTokenOwners_balances:
  assumes "get_token i s = Some token" and "UpdateAccountTokenOwners st now i obs s = (r, s')"
  shows "map_option at_Balance (get_at (j, ow) s') =
    (if j \<noteq> i then map_option at_Balance (get_at (j, ow) s)
     else case owners_of obs ow of
        Some b \<Rightarrow> Some b
      | None \<Rightarrow> map_option (\<lambda>_. 0) (get_at (i, ow) s))"
proof -
  let ?f = "\<lambda>d. if at_IndexID d = i \<and> at_OwnerAccount d \<notin> ob_Address ` set obs
              then d\<lparr>at_Balance := 0, at_LastRefreshedTime := now\<rparr> else d"
  have key: "at_key (?f d) = at_key d" for d by (simp add: at_key_def)
  have s': "get_at k s' = map_option ?f (at_lookup (put_balances now token i obs (db_accountTokens s)) k)" for k
  proof -
    have "db_accountTokens s' = map ?f (put_balances now token i obs (db_accountTokens s))"
      using assms(2) by (auto simp: UpdateAccountTokenOwners_run [OF assms(1)])
    then show ?thesis by (simp only: get_at_lookup at_lookup_map [of ?f, OF key])
  qed
  show ?thesis
  proof (cases "j = i")
    case False
    have "map_option ?f (at_lookup (db_accountTokens s) (j, ow)) = at_lookup (db_accountTokens s) (j, ow)"
      using False by (auto simp: at_lookup_def at_key_def dest!: find_Some_set simp: map_option_case split: option.split)
    with False show ?thesis
      unfolding s' by (simp add: put_balances_other [OF False] get_at_lookup)
  next
    case True
    note bal = put_balances_balance [of now token i obs "db_accountTokens s" ow, unfolded fold_map_upd]
    show ?thesis
    proof (cases "owners_of obs ow")
      case None
      then have out: "ow \<notin> ob_Address ` set obs"
        using dom_owners_of [of obs] by (auto simp: domIff)
      show ?thesis
      proof (cases "at_lookup (put_balances now token i obs (db_accountTokens s)) (i, ow)")
        case None1: None
        with bal None True s' [of "(i, ow)"] show ?thesis by (simp add: get_at_lookup)
      next
        case Some1: (Some d)
        from at_lookup_key [OF Some1] have "at_IndexID d = i" "at_OwnerAccount d = ow"
          by (simp_all add: at_key_def)
        with bal None True out Some1 s' [of "(i, ow)"] show ?thesis
          by (cases "at_lookup (db_accountTokens s) (i, ow)") (simp_all add: get_at_lookup)
      qed
    next
      case (Some b)
      then have "ow \<in> ob_Address ` set obs" using dom_owners_of [of obs] by auto
      then have keep: "?f d = d" if "at_OwnerAccount d = ow" for d using that by simp
      obtain d where d: "at_lookup (put_balances now token i obs (db_accountTokens s)) (i, ow) = Some d"
        "at_Balance d = b" using bal Some by auto
      from at_lookup_key [OF d(1)] have "at_OwnerAccount d = ow" by (simp add: at_key_def)
      from keep [OF this] d Some True show ?thesis by (simp add: s')
    qed
  qed
qed

end

section \<open>Reads as specifications\<close>

lemma fold_latest:
  assumes "sorted (map t xs)"
  shows "fold (\<lambda>a m. m(k a \<mapsto> t a)) xs Map.empty i =
    (if \<exists>a\<in>set xs. k a = i then Some (Max (t ` {a \<in> set xs. k a = i})) else (None :: int option))"
  using assms
proof (induction xs rule: rev_induct)
  case Nil
  then show ?case by simp
next
  case (snoc x xs)
  from snoc.prems have top: "\<And>a. a \<in> set xs \<Longrightarrow> t a \<le> t x" and srt: "sorted (map t xs)"
    by (auto simp: sorted_append)
  show ?case
  proof (cases "k x = i")
    case True
    have "Max (t ` {a \<in> set (xs @ [x]). k a = i}) = t x"
      by (rule Max_eqI) (use top True in auto)
    with True show ?thesis by simp
  next
    case False
    then have "{a \<in> set (xs @ [x]). k a = i} = {a \<in> set xs. k a = i}" by auto
    with False snoc.IH [OF srt] show ?thesis by auto
  qed
qed

context mongo_store
begin

lemma any_token_in_source_run:
  "any_token_in_source st source ids ranges s =
     (Inr (\<exists>t\<in>set (db_tokens s). tok_Source t = source \<and>
        tok_IndexID t \<in> set (concat (map (\<lambda>(lo, hi). slice lo hi ids) ranges))), s)"
proof (induction ranges)
  case Nil
  then show ?case by (simp add: retA_run)
next
  case (Cons r ranges)
  obtain lo hi where r: "r = (lo, hi)" by (cases r)
  let ?q = "\<lambda>t. tok_IndexID t \<in> set (slice lo hi ids) \<and> tok_Source t = source"
  show ?case
  proof (cases "List.find ?q (db_tokens s)")
    case None
    then have "\<forall>t\<in>set (db_tokens s). \<not> ?q t" by (simp add: find_None)
    with None Cons r show ?thesis by (auto simp: bindA_run tryA_run find_token_run)
  next
    case (Some t)
    from find_Some_set [OF Some] Some r show ?thesis
      by (auto simp: bindA_run tryA_run find_token_run retA_run)
  qed
qed

lemma checkAddressOwnTokenInSource_run:
  assumes "external X"
  shows "checkAddressOwnTokenInSource X st address source s =
    (Inr (\<exists>a\<in>set (db_accountTokens s). at_OwnerAccount a = address \<and> 0 < at_Balance a \<and>
        (\<exists>t\<in>set (db_tokens s). tok_IndexID t = at_IndexID a \<and> tok_Source t = source)), s)"
proof -
  define ids where "ids = map at_IndexID (filter (\<lambda>a. at_OwnerAccount a = address \<and> 0 < at_Balance a) (db_accountTokens s))"
  have cover: "concat (map (\<lambda>(lo, hi). slice lo hi ids) (x_Partition X (length ids) 25)) = ids"
    by (rule external.partition_cover [OF assms]) simp
  have "checkAddressOwnTokenInSource X st address source s =
      (if ids = [] then (Inr False, s) else any_token_in_source st source ids (x_Partition X (length ids) 25) s)"
    unfolding checkAddressOwnTokenInSource_def bindA_run find_accountTokens_run prod.case sum.case
      Let_def ids_def [symmetric] by (simp add: retA_run)
  also have "\<dots> = (Inr (\<exists>t\<in>set (db_tokens s). tok_Source t = source \<and> tok_IndexID t \<in> set ids), s)"
    by (simp add: any_token_in_source_run cover)
  finally show ?thesis by (auto simp: ids_def)
qed

lemma checkAddressOwnTokenHasIndexID_run:
  "checkAddressOwnTokenHasIndexID st address i s =
    (Inr (\<exists>a\<in>set (db_accountTokens s). at_OwnerAccount a = address \<and> at_IndexID a = i \<and> 0 < at_Balance a), s)"
proof -
  let ?p = "\<lambda>a. at_OwnerAccount a = address \<and> at_IndexID a = i \<and> at_Balance a > 0"
  have found: "FindOne (accountTokenCollection st) ?p (\<lambda>ds. ds) ds =
      (case List.find ?p ds of None \<Rightarrow> Inl ErrNoDocuments | Some d \<Rightarrow> Inr d)" for ds
    using accountTokens.find_one_natural [of ?p ds] by (simp add: id_def)
  show ?thesis
  proof (cases "List.find ?p (db_accountTokens s)")
    case None
    then have "\<forall>a\<in>set (db_accountTokens s). \<not> ?p a" by (simp add: find_None)
    with None show ?thesis
      by (auto simp: checkAddressOwnTokenHasIndexID_def bindA_run tryA_run readA_run found retA_run)
  next
    case (Some a)
    from find_Some_set [OF Some] Some show ?thesis
      by (auto simp: checkAddressOwnTokenHasIndexID_def bindA_run tryA_run readA_run found retA_run)
  qed
qed

end

section \<open>Properties\<close>

text \<open>
  C12: \<open>IndexAccountTokens\<close> always succeeds on account tokens of the given owner: afterwards every
  one of them is stored with an activity time at most the margin of 15 seconds behind its own,
  and the activity time of no stored account token has gone back. An event that is older than
  the stored state is dropped by way of the duplicate key error.
\<close>

theorem IndexAccountTokens_never_goes_back:
  assumes "mongo_store st" and "db_inv s" and "\<forall>a\<in>set ats. at_OwnerAccount a = owner"
    and "IndexAccountTokens st owner ats s = (r, s')"
  shows "r = Inr () \<and>
    (\<forall>a\<in>set ats. \<exists>d. get_at (at_key a) s' = Some d \<and> at_LastActivityTime a - 15000 \<le> at_LastActivityTime d) \<and>
    (\<forall>k d. get_at k s = Some d \<longrightarrow> (\<exists>d'. get_at k s' = Some d' \<and> at_LastActivityTime d \<le> at_LastActivityTime d'))"
  using mongo_store.IndexAccountTokens_post [OF assms(1-3)] assms(4) by (auto simp: index_margin_def)

definition sample_account_token :: AccountToken where
  "sample_account_token = zero_AccountToken\<lparr>at_IndexID := ''eth-c-1'', at_OwnerAccount := ''alice'',
     at_Balance := 3, at_LastActivityTime := 50000\<rparr>"

definition account_db :: db where
  "account_db = sample_db\<lparr>db_accountTokens := [sample_account_token]\<rparr>"

lemma account_db_inv: "db_inv account_db"
  by (simp add: account_db_def sample_db_def db_inv_def empty_db_def)

theorem IndexAccountTokens_never_goes_back_witness:
  "\<exists>d. get_at (''eth-c-1'', ''alice'') (snd (IndexAccountTokens (mem_store []) ''alice''
      [sample_account_token\<lparr>at_LastActivityTime := 60000\<rparr>] account_db)) = Some d \<and> 50000 \<le> at_LastActivityTime d"
proof -
  have k: "get_at (''eth-c-1'', ''alice'') account_db = Some sample_account_token"
    by (simp add: get_at_def account_db_def at_key_def sample_account_token_def)
  have o: "\<forall>a\<in>set [sample_account_token\<lparr>at_LastActivityTime := 60000\<rparr>]. at_OwnerAccount a = ''alice''"
    by (simp add: sample_account_token_def)
  from IndexAccountTokens_never_goes_back [OF mem_store_lawful account_db_inv o surjective_pairing, of "[]"] k
  show ?thesis by (fastforce simp: sample_account_token_def)
qed

text \<open>
  C14: After \<open>UpdateAccountTokenOwners\<close> the balances of the account tokens of the token are the
  given ones (the last one of an owner counts), every other owner of the token has balance 0,
  and the account tokens of other tokens are as before.
\<close>

theorem UpdateAccountTokenOwners_sets_balances:
  assumes "mongo_store st" and "get_token i s = Some token"
    and "UpdateAccountTokenOwners st now i obs s = (r, s')"
  shows "r = Inr () \<and> map_option at_Balance (get_at (j, ow) s') =
    (if j \<noteq> i then map_option at_Balance (get_at (j, ow) s)
     else case owners_of obs ow of
        Some b \<Rightarrow> Some b
      | None \<Rightarrow> map_option (\<lambda>_. 0) (get_at (i, ow) s))"
  using mongo_store.UpdateAccountTokenOwners_balances [OF assms]
    mongo_store.UpdateAccountTokenOwners_run [OF assms(1,2), of now obs] assms(3) by simp

theorem UpdateAccountTokenOwners_sets_balances_witness:
  "map_option at_Balance (get_at (''eth-c-1'', ''alice'') (snd (UpdateAccountTokenOwners (mem_store []) 9 ''eth-c-1''
     [\<lparr>ob_Address = ''bob'', ob_Balance = 2, ob_LastTime = 8\<rparr>] account_db))) = Some 0"
proof -
  have t: "get_token ''eth-c-1'' account_db = Some sample_token"
    by (simp add: get_token_def account_db_def sample_db_def sample_token_def)
  from UpdateAccountTokenOwners_sets_balances [OF mem_store_lawful t surjective_pairing, of "[]" 9
      "[\<lparr>ob_Address = ''bob'', ob_Balance = 2, ob_LastTime = 8\<rparr>]" "''eth-c-1''" "''alice''"]
  show ?thesis
    by (simp add: owners_of_def get_at_def account_db_def at_key_def sample_account_token_def)
qed

text \<open>
  \<open>CheckAddressOwnTokenByCriteria\<close> answers whether the address has a positive balance of the
  token with the given index id, or, if only a source is given, of any token of that source,
  however many tokens the address has: the pages of 25 ids leave no token out.
\<close>

theorem CheckAddressOwnTokenByCriteria_correct:
  assumes "mongo_store st" and "external X"
  shows "CheckAddressOwnTokenByCriteria X st address c s =
    (Inr (\<exists>a\<in>set (db_accountTokens s). at_OwnerAccount a = address \<and> 0 < at_Balance a \<and>
        (if crit_IndexID c \<noteq> [] then at_IndexID a = crit_IndexID c
         else crit_Source c \<noteq> [] \<and>
           (\<exists>t\<in>set (db_tokens s). tok_IndexID t = at_IndexID a \<and> tok_Source t = crit_Source c))), s)"
  using mongo_store.checkAddressOwnTokenInSource_run [OF assms]
    mongo_store.checkAddressOwnTokenHasIndexID_run [OF assms(1)]
  by (auto simp: CheckAddressOwnTokenByCriteria_def retA_run)

theorem CheckAddressOwnTokenByCriteria_correct_witness:
  "fst (CheckAddressOwnTokenByCriteria sample_ext (mem_store []) ''alice''
     \<lparr>crit_IndexID = ''eth-c-1'', crit_Source = []\<rparr> account_db) = Inr True"
  using CheckAddressOwnTokenByCriteria_correct [OF mem_store_lawful sample.external_axioms, of "[]" "''alice''"
      "\<lparr>crit_IndexID = ''eth-c-1'', crit_Source = []\<rparr>" account_db]
  by (simp add: account_db_def sample_account_token_def)

text \<open>
  \<open>GetLatestActivityTimeByIndexIDs\<close> maps exactly the requested ids that have account tokens,
  each to the greatest activity time among them.
\<close>

theorem GetLatestActivityTimeByIndexIDs_max:
  "GetLatestActivityTimeByIndexIDs ids s = (Inr (\<lambda>i.
     if i \<in> set ids \<and> (\<exists>a\<in>set (db_accountTokens s). at_IndexID a = i)
     then Some (Max (at_LastActivityTime ` {a \<in> set (db_accountTokens s). at_IndexID a = i})) else None), s)"
proof -
  let ?xs = "sort_key at_LastActivityTime (filter (\<lambda>a. at_IndexID a \<in> set ids) (db_accountTokens s))"
  have "fold (\<lambda>a m. m(at_IndexID a \<mapsto> at_LastActivityTime a)) ?xs Map.empty i =
      (if i \<in> set ids \<and> (\<exists>a\<in>set (db_accountTokens s). at_IndexID a = i)
       then Some (Max (at_LastActivityTime ` {a \<in> set (db_accountTokens s). at_IndexID a = i})) else None)" for i
  proof -
    have "{a \<in> set ?xs. at_IndexID a = i} = (if i \<in> set ids then {a \<in> set (db_accountTokens s). at_IndexID a = i} else {})"
      by auto
    then show ?thesis
      by (subst fold_latest) auto
  qed
  then show ?thesis by (simp add: GetLatestActivityTimeByIndexIDs_def readA_run fun_eq_iff)
qed

end
