(* ===== verification/StoreQueries.thy ===== *)
theory StoreQueries
  imports StoreAccounts "HOL-Library.Multiset"
begin

text \<open>
  The reads of \<open>store.go\<close> that join tokens with their assets, page by page. An aggregation
  pipeline is the function its stages compose to; the view \<open>token_assets\<close> is the pipeline of
  \<open>scripts/init_mongodb.js\<close>. The loop of \<open>GetDetailedAccountTokensByOwners\<close> is a function with
  fuel, and the properties show how much fuel is enough.
\<close>

section \<open>Rows of the joins\<close>

record FilterParameter =
  fp_Source :: string
  fp_IDs :: "string list option"
  fp_BurnedIncluded :: bool

definition fp_ids :: "FilterParameter \<Rightarrow> string list" where
  "fp_ids fp = (case fp_IDs fp of None \<Rightarrow> [] | Some ids \<Rightarrow> ids)"

text \<open>Sort by a time, then by \<open>_id\<close>, both descending: the newest document comes first.\<close>

definition sort_newest :: "('d \<Rightarrow> int) \<Rightarrow> 'd list \<Rightarrow> 'd list" where
  "sort_newest key ds = sort_key (\<lambda>d. - key d) (rev ds)"

text \<open>The \<open>$lookup\<close> of the assets with the id of the token and the \<open>$unwind\<close> of the result.\<close>

definition token_asset_rows :: "Token list \<Rightarrow> AssetDoc list \<Rightarrow> (Token \<times> AssetDoc) list" where
  "token_asset_rows tokens assets =
     concat (map (\<lambda>t. map (Pair t) (filter (\<lambda>a. asset_ID a = tok_AssetID t) assets)) tokens)"

text \<open>\<open>$mergeObjects\<close> of the token and its asset, decoded as a \<open>DetailedToken\<close>.\<close>

definition detailed_of :: "Token \<times> AssetDoc \<Rightarrow> DetailedToken" where
  "detailed_of r = (case r of (t, a) \<Rightarrow>
     \<lparr>dt_Token = t\<lparr>tok_Source := (if asset_Source a = [] then tok_Source t else asset_Source a)\<rparr>,
      dt_ThumbnailID = (case asset_ThumbnailID a of None \<Rightarrow> [] | Some v \<Rightarrow> v),
      dt_IPFSPinned = asset_IPFSPinned a, dt_Attributes = asset_Attributes a,
      dt_ProjectMetadata = asset_ProjectMetadata a\<rparr>)"

definition unburned :: "FilterParameter \<Rightarrow> Token \<Rightarrow> bool" where
  "unburned fp t = (fp_BurnedIncluded fp \<or> \<not> tok_Burned t)"

definition getTokensByAggregation :: "FilterParameter \<Rightarrow> int \<Rightarrow> int \<Rightarrow> (db, DetailedToken list) act" where
  "getTokensByAggregation fp offset sz =
     (\<lambda>s.
       let with_ids = (fp_ids fp \<noteq> []);
           match = (\<lambda>t. with_ids \<longrightarrow> tok_IndexID t \<in> set (fp_ids fp) \<and> unburned fp t);
           sorted_tokens = sort_newest tok_LastActivityTime (filter match (db_tokens s));
           rows = map detailed_of (token_asset_rows sorted_tokens (db_assets s));
           rows = (if fp_Source fp \<noteq> [] then filter (\<lambda>d. tok_Source (dt_Token d) = fp_Source fp) rows else rows);
           sz' = (if sz = 0 \<or> sz > 100 then 100 else sz)
       in (if with_ids then Inr rows else agg_page offset sz' rows, s))"

definition getPageCounts :: "nat \<Rightarrow> nat \<Rightarrow> nat" where
  "getPageCounts itemLength pageSize =
     (let pageCounts = itemLength div pageSize
      in if itemLength mod pageSize \<noteq> 0 then pageCounts + 1 else pageCounts)"

definition QueryPageSize :: nat where
  "QueryPageSize = 25"

text \<open>The loop \<open>for i := 0; i < getPageCounts(length, QueryPageSize); i++\<close> over the ids of a page.\<close>

fun query_pages :: "(string list \<Rightarrow> (db, 'r list) act) \<Rightarrow> string list \<Rightarrow> nat list \<Rightarrow> 'r list \<Rightarrow> (db, 'r list) act" where
  "query_pages query ids [] tokens = retA tokens"
| "query_pages query ids (i # is) tokens =
     (let start = i * QueryPageSize;
          stop = (i + 1) * QueryPageSize;
          stop = (if stop > length ids then length ids else stop)
      in bindA (query (slice start stop ids)) (\<lambda>pagedTokens.
           query_pages query ids is (tokens @ pagedTokens)))"

definition GetDetailedTokens :: "FilterParameter \<Rightarrow> int \<Rightarrow> int \<Rightarrow> (db, DetailedToken list) act" where
  "GetDetailedTokens fp offset sz =
     (let ids = fp_ids fp
      in if length ids > 0 then
           query_pages (\<lambda>page. getTokensByAggregation (fp\<lparr>fp_IDs := Some page\<rparr>) offset sz) ids
             [0..<getPageCounts (length ids) QueryPageSize] []
         else getTokensByAggregation fp offset sz)"

definition GetDetailedToken :: "string \<Rightarrow> bool \<Rightarrow> (db, DetailedToken) act" where
  "GetDetailedToken indexID burnedIncluded =
     bindA (GetDetailedTokens \<lparr>fp_Source = [], fp_IDs = Some [indexID], fp_BurnedIncluded = burnedIncluded\<rparr> 0 1)
       (\<lambda>detailedTokens. case detailedTokens of
           [] \<Rightarrow> throwA (Errorf ''token not found'')
         | d # _ \<Rightarrow> retA d)"

text \<open>
  The search in the metadata of the assets of one source: \<open>regex\<close> is the server's matching of a
  pattern that ignores case, which refuses a malformed pattern. The assets are grouped into their ids
  and the map of their metadata, where the last document of an id counts. The exhibition title the
  query also looks at is a field that no document has.
\<close>

definition GetTokensByTextSearch ::
    "(string \<Rightarrow> (string \<Rightarrow> bool) option) \<Rightarrow> store \<Rightarrow> string \<Rightarrow> int \<Rightarrow> int \<Rightarrow> (db, DetailedToken list) act" where
  "GetTokensByTextSearch regex st searchText offset sz =
     (case regex searchText of
        None \<Rightarrow> throwA (ErrDB ''invalid regex'')
      | Some matches \<Rightarrow>
          bindA (readA db_assets (\<lambda>as. Inr (filter (\<lambda>a.
            let latest = vpm_Latest (asset_ProjectMetadata a)
            in pm_Source latest = SourceFeralFile \<and>
               (matches (pm_ArtistName latest) \<or> matches (pm_Title latest))) as)))
          (\<lambda>found.
            let ids = map asset_ID found;
                metadata = fold (\<lambda>a m. m(asset_ID a \<mapsto> vpm_Latest (asset_ProjectMetadata a))) found Map.empty
            in if ids = [] then retA []
               else bindA (readA db_tokens (Find (tokenCollection st) (\<lambda>t. tok_AssetID t \<in> set ids) (\<lambda>ts. ts) offset sz))
                 (\<lambda>tokens. retA (map (\<lambda>t.
                   \<lparr>dt_Token = t, dt_ThumbnailID = [], dt_IPFSPinned = False, dt_Attributes = None,
                    dt_ProjectMetadata = \<lparr>vpm_Origin = zero_ProjectMetadata,
                      vpm_Latest = (case metadata (tok_AssetID t) of None \<Rightarrow> zero_ProjectMetadata | Some m \<Rightarrow> m)\<rparr>\<rparr>) tokens))))"

section \<open>The view of tokens with their assets\<close>

definition view_rows :: "db \<Rightarrow> (Token \<times> AssetDoc \<times> StaticPreview option) list" where
  "view_rows s =
     concat (map (\<lambda>(t, a).
       case filter (\<lambda>p. sp_AssetID p = tok_AssetID t) (db_previews s) of
         [] \<Rightarrow> [(t, a, None)]
       | ps \<Rightarrow> map (\<lambda>p. (t, a, Some p)) ps)
       (token_asset_rows (db_tokens s) (db_assets s)))"

definition detailed_v2_of :: "Token \<times> AssetDoc \<times> StaticPreview option \<Rightarrow> DetailedTokenV2" where
  "detailed_v2_of r = (case r of (t, a, pv) \<Rightarrow>
     \<lparr>dt2_Token = t\<lparr>tok_OwnersArray := None\<rparr>, dt2_IPFSPinned = False,
      dt2_Asset = \<lparr>av2_IndexID = asset_IndexID a,
        av2_ThumbnailID = (case asset_ThumbnailID a of None \<Rightarrow> [] | Some v \<Rightarrow> v),
        av2_LastRefreshedTime = asset_LastRefreshedTime a, av2_Attributes = asset_Attributes a,
        av2_ProjectMetadata = asset_ProjectMetadata a,
        av2_StaticPreviewURLLandscape = Option.bind pv sp_LandscapeURL,
        av2_StaticPreviewURLPortrait = Option.bind pv sp_PortraitURL\<rparr>\<rparr>)"

text \<open>\<open>$indexOfArray\<close>: the position of the first occurrence.\<close>

fun index_of :: "string list \<Rightarrow> string \<Rightarrow> nat" where
  "index_of [] x = 0"
| "index_of (y # ys) x = (if x = y then 0 else Suc (index_of ys x))"

text \<open>The list of ids that is nil is encoded as null, which \<open>$in\<close> refuses.\<close>

definition getDetailedTokensV2InView :: "FilterParameter \<Rightarrow> int \<Rightarrow> int \<Rightarrow> (db, DetailedTokenV2 list) act" where
  "getDetailedTokensV2InView fp offset sz =
     (\<lambda>s. case fp_IDs fp of
        None \<Rightarrow> (Inl (ErrDB ''$in needs an array''), s)
      | Some ids \<Rightarrow>
          let rows = filter (\<lambda>(t, a, pv). tok_IndexID t \<in> set ids \<and> unburned fp t) (view_rows s);
              rows = sort_key (\<lambda>(t, a, pv). index_of ids (tok_IndexID t)) rows;
              rows = (if fp_Source fp \<noteq> [] then filter (\<lambda>(t, a, pv). asset_Source a = fp_Source fp) rows else rows)
          in (bindR (agg_page offset sz rows) (\<lambda>rs. Inr (map detailed_v2_of rs)), s))"

definition GetDetailedTokensV2 :: "FilterParameter \<Rightarrow> int \<Rightarrow> int \<Rightarrow> (db, DetailedTokenV2 list) act" where
  "GetDetailedTokensV2 fp offset sz =
     (let ids = fp_ids fp
      in if length ids > 0 then
           let queryIDsEnd = i64 (offset + sz);
               queryIDsEnd = (if queryIDsEnd > int (length ids) then int (length ids) else queryIDsEnd)
           in if offset < 0 \<or> queryIDsEnd < offset then throwA (GoPanic ''slice bounds out of range'')
              else
                let queryIDs = slice (nat offset) (nat queryIDsEnd) ids
                in query_pages (\<lambda>page. getDetailedTokensV2InView (fp\<lparr>fp_IDs := Some page\<rparr>) 0 (int (length page)))
                     queryIDs [0..<getPageCounts (length queryIDs) QueryPageSize] []
         else getDetailedTokensV2InView fp offset sz)"

section \<open>The tokens of the accounts of an owner\<close>

definition account_filter :: "string list \<Rightarrow> gotime \<Rightarrow> AccountToken \<Rightarrow> bool" where
  "account_filter owners lastUpdatedAt a = (at_OwnerAccount a \<in> set owners \<and> lastUpdatedAt \<le> at_LastRefreshedTime a)"

definition account_sort :: "string \<Rightarrow> AccountToken list \<Rightarrow> AccountToken list" where
  "account_sort sortBy = sort_newest (if sortBy = ''lastActivityTime'' then at_LastActivityTime else at_LastRefreshedTime)"

text \<open>
  The loop over the pages: it ends on an empty page or when enough tokens are found; the result
  is the account tokens and the detailed tokens gathered so far, or nothing when the fuel ends. Offsets and sizes are
  64-bit integers whose sums wrap around.
\<close>

fun account_pages ::
    "store \<Rightarrow> nat \<Rightarrow> string list \<Rightarrow> FilterParameter \<Rightarrow> gotime \<Rightarrow> string \<Rightarrow> int \<Rightarrow> int \<Rightarrow> nat \<Rightarrow>
     AccountToken list \<Rightarrow> DetailedTokenV2 list \<Rightarrow> (db, (AccountToken list \<times> DetailedTokenV2 list) option) act" where
  "account_pages st 0 owners fp lastUpdatedAt sortBy offset sz pg accountTokens detailTokens = retA None"
| "account_pages st (Suc fuel) owners fp lastUpdatedAt sortBy offset sz pg accountTokens detailTokens =
     (let queryOffset = i64 (int (pg * QueryPageSize));
          queryOffset' = (if fp_Source fp = [] then i64 (offset + queryOffset) else queryOffset);
          expectedSize = (if fp_Source fp = [] then sz else i64 (offset + sz))
      in bindA (readA db_accountTokens (Find (accountTokenCollection st) (account_filter owners lastUpdatedAt)
                  (account_sort sortBy) queryOffset' (int QueryPageSize))) (\<lambda>pageTokens.
         let indexIDs = map at_IndexID pageTokens;
             accountTokens' = accountTokens @ pageTokens
         in if indexIDs = [] then retA (Some (accountTokens', detailTokens))
            else bindA (GetDetailedTokensV2 (fp\<lparr>fp_IDs := Some indexIDs\<rparr>) 0 (int (length indexIDs))) (\<lambda>tokens.
              let detailTokens' = detailTokens @ tokens
              in if int (length detailTokens') \<ge> expectedSize then retA (Some (accountTokens', detailTokens'))
                 else account_pages st fuel owners fp lastUpdatedAt sortBy offset sz (pg + 1)
                        accountTokens' detailTokens')))"

definition with_account :: "AccountToken \<Rightarrow> DetailedTokenV2 \<Rightarrow> DetailedTokenV2" where
  "with_account a d =
     (let t = (dt2_Token d)\<lparr>tok_Balance := at_Balance a, tok_Owner := at_OwnerAccount a,
            tok_LastRefreshedTime := at_LastRefreshedTime a\<rparr>;
          t = (if \<not> time_IsZero (at_LastActivityTime a)
               then t\<lparr>tok_LastActivityTime := at_LastActivityTime a\<rparr> else t)
      in d\<lparr>dt2_Token := t\<rparr>)"

definition detailed_map :: "DetailedTokenV2 list \<Rightarrow> (string \<rightharpoonup> DetailedTokenV2)" where
  "detailed_map ds = fold (\<lambda>d m. m(tok_IndexID (dt2_Token d) \<mapsto> d)) ds Map.empty"

fun collect_results ::
    "(string \<rightharpoonup> DetailedTokenV2) \<Rightarrow> bool \<Rightarrow> int \<Rightarrow> int \<Rightarrow> int \<Rightarrow> DetailedTokenV2 list \<Rightarrow> AccountToken list \<Rightarrow>
     DetailedTokenV2 list" where
  "collect_results m with_source offset sz skipped results [] = results"
| "collect_results m with_source offset sz skipped results (a # as) =
     (case m (at_IndexID a) of
        None \<Rightarrow> collect_results m with_source offset sz skipped results as
      | Some token \<Rightarrow>
          if with_source \<and> skipped < offset
          then collect_results m with_source offset sz (skipped + 1) results as
          else
            let results' = results @ [with_account a token]
            in if int (length results') = sz then results'
               else collect_results m with_source offset sz skipped results' as)"

definition GetDetailedAccountTokensByOwners ::
    "store \<Rightarrow> nat \<Rightarrow> string list \<Rightarrow> FilterParameter \<Rightarrow> gotime \<Rightarrow> string \<Rightarrow> int \<Rightarrow> int \<Rightarrow>
     (db, DetailedTokenV2 list option) act" where
  "GetDetailedAccountTokensByOwners st fuel owners fp lastUpdatedAt sortBy offset sz =
     bindA (account_pages st fuel owners fp lastUpdatedAt sortBy offset sz 0 [] []) (\<lambda>r.
     case r of
       None \<Rightarrow> retA None
     | Some (accountTokens, detailTokens) \<Rightarrow>
         retA (Some (collect_results (detailed_map detailTokens) (fp_Source fp \<noteq> []) offset sz 0 [] accountTokens)))"

section \<open>The deprecated queries by owner\<close>

definition has_asset_source :: "FilterParameter \<Rightarrow> AssetDoc list \<Rightarrow> Token \<Rightarrow> bool" where
  "has_asset_source fp assets t =
     (fp_Source fp \<noteq> [] \<longrightarrow> (\<exists>a\<in>set assets. asset_ID a = tok_AssetID t \<and> asset_Source a = fp_Source fp))"

definition getTokensByAggregationForOwner ::
    "string \<Rightarrow> FilterParameter \<Rightarrow> int \<Rightarrow> int \<Rightarrow> (db, Token list) act" where
  "getTokensByAggregationForOwner owner fp offset sz =
     (\<lambda>s.
       let holds = (\<lambda>t. case tok_Owners t of None \<Rightarrow> False
                         | Some m \<Rightarrow> (case m owner of None \<Rightarrow> False | Some b \<Rightarrow> 1 \<le> b));
           rows = sort_newest tok_LastActivityTime
             (filter (\<lambda>t. holds t \<and> has_owner owner t \<and> unburned fp t) (db_tokens s));
           rows = map (\<lambda>t. t\<lparr>tok_Balance := 0\<rparr>) rows;
           rows = filter (has_asset_source fp (db_assets s)) rows
       in (agg_page offset sz rows, s))"

text \<open>Here the assets are unwound: a token without an asset has no row.\<close>

definition getTokensByAggregationByOwners ::
    "string list \<Rightarrow> FilterParameter \<Rightarrow> int \<Rightarrow> int \<Rightarrow> (db, Token list) act" where
  "getTokensByAggregationByOwners owners fp offset sz =
     (\<lambda>s.
       let rows = sort_newest tok_LastActivityTime
             (filter (\<lambda>t. tok_Owner t \<in> set owners \<and> unburned fp t) (db_tokens s));
           rows = token_asset_rows rows (db_assets s);
           rows = (if fp_Source fp \<noteq> [] then filter (\<lambda>(t, a). asset_Source a = fp_Source fp) rows else rows)
       in (agg_page offset sz (map fst rows), s))"

definition detail_with_asset :: "Token \<Rightarrow> AssetDoc \<Rightarrow> DetailedToken" where
  "detail_with_asset t a =
     \<lparr>dt_Token = t, dt_ThumbnailID = (case asset_ThumbnailID a of None \<Rightarrow> [] | Some v \<Rightarrow> v),
      dt_IPFSPinned = asset_IPFSPinned a, dt_Attributes = asset_Attributes a,
      dt_ProjectMetadata = asset_ProjectMetadata a\<rparr>"

text \<open>The loop over the tokens with its cache of assets.\<close>

fun attach_assets ::
    "store \<Rightarrow> (string \<rightharpoonup> AssetDoc) \<Rightarrow> Token list \<Rightarrow> DetailedToken list \<Rightarrow> (db, DetailedToken list) act" where
  "attach_assets st cache [] tokens = retA tokens"
| "attach_assets st cache (t # ts) tokens =
     bindA (case cache (tok_AssetID t) of
              Some a \<Rightarrow> retA a
            | None \<Rightarrow> readA db_assets (FindOne (assetCollection st) (\<lambda>a. asset_ID a = tok_AssetID t) (\<lambda>ds. ds)))
       (\<lambda>a. attach_assets st (cache(tok_AssetID t \<mapsto> a)) ts (tokens @ [detail_with_asset t a]))"

definition GetDetailedTokensByOwners ::
    "store \<Rightarrow> string list \<Rightarrow> FilterParameter \<Rightarrow> int \<Rightarrow> int \<Rightarrow> (db, DetailedToken list) act" where
  "GetDetailedTokensByOwners st owners fp offset sz =
     bindA (case owners of
              [owner] \<Rightarrow> getTokensByAggregationForOwner owner fp offset sz
            | _ \<Rightarrow> getTokensByAggregationByOwners owners fp offset sz)
       (\<lambda>ts. attach_assets st Map.empty ts [])"

section \<open>Assets\<close>

text \<open>The fields of a configuration as JSON values; a float is printed by the JSON encoder.\<close>

definition set_configuration :: "AssetConfiguration \<Rightarrow> AssetDoc \<Rightarrow> AssetDoc" where
  "set_configuration c a = a\<lparr>asset_Attributes := Some \<lparr>attr_Configuration = Some c\<rparr>\<rparr>"

text \<open>
  Every field of the configuration has a JSON tag without \<open>omitempty\<close>, so \<open>flattenMap\<close> yields all
  ten paths below \<open>attributes.configuration\<close> and \<open>$set\<close> writes each of them.
\<close>

definition UpdateAssetsConfiguration ::
    "store \<Rightarrow> string list \<Rightarrow> AssetConfiguration option \<Rightarrow> (db, nat) act" where
  "UpdateAssetsConfiguration st ids configuration =
     (case configuration of
        None \<Rightarrow> throwA (Errorf ''configuration is nil'')
      | Some c \<Rightarrow>
          bindA (on_assets (UpdateMany (assetCollection st) (\<lambda>a. asset_ID a \<in> set ids) (set_configuration c)))
            (\<lambda>r. retA (MatchedCount r)))"

definition CheckAssetCreator :: "store \<Rightarrow> string list \<Rightarrow> string list \<Rightarrow> (db, bool) act" where
  "CheckAssetCreator st ids creatorAddresses =
     bindA (readA db_assets (CountDocuments (assetCollection st)
              (\<lambda>a. asset_ID a \<in> set ids \<and>
                   pm_ArtistID (vpm_Latest (asset_ProjectMetadata a)) \<in> set creatorAddresses)))
       (\<lambda>count. retA (count = length ids))"

section \<open>Pages\<close>

lemma getPageCounts_0 [simp]: "getPageCounts 0 k = 0"
  by (simp add: getPageCounts_def Let_def)

lemma getPageCounts_step: "0 < k \<Longrightarrow> 0 < n \<Longrightarrow> getPageCounts n k = Suc (getPageCounts (n - k) k)"
proof -
  assume k: "0 < k" and n: "0 < n"
  show ?thesis
  proof (cases "n < k")
    case True
    with n show ?thesis by (simp add: getPageCounts_def Let_def)
  next
    case False
    with k show ?thesis
      by (simp add: getPageCounts_def Let_def le_div_geq le_mod_geq)
  qed
qed

lemma page_slice:
  "slice (i * k) (if (i + 1) * k > length xs then length xs else (i + 1) * k) xs = take k (drop (i * k) xs)"
  by (auto simp: slice_def algebra_simps)

lemma pages_chunks:
  "0 < k \<Longrightarrow> map (\<lambda>i. take k (drop (i * k) xs)) [0..<getPageCounts (length xs) k] = chunks k xs"
proof (induction k xs rule: chunks.induct)
  case (1 k xs)
  show ?case
  proof (cases "xs = []")
    case True
    then show ?thesis by simp
  next
    case False
    with "1.prems" have g: "getPageCounts (length xs) k = Suc (getPageCounts (length (drop k xs)) k)"
      by (simp add: getPageCounts_step)
    have "map (\<lambda>i. take k (drop (i * k) xs)) [0..<getPageCounts (length xs) k] =
        take k xs # map (\<lambda>i. take k (drop (i * k) (drop k xs))) [0..<getPageCounts (length (drop k xs)) k]"
      unfolding g by (simp add: upt_conv_Cons map_Suc_upt [symmetric] comp_def add.commute del: upt_Suc)
    also have "\<dots> = take k xs # chunks k (drop k xs)" using 1 False by simp
    finally show ?thesis using False "1.prems" by (subst chunks.simps) simp
  qed
qed

lemma query_pages_step:
  "query_pages query ids (i # is) tokens =
    bindA (query (take QueryPageSize (drop (i * QueryPageSize) ids))) (\<lambda>p. query_pages query ids is (tokens @ p))"
  unfolding query_pages.simps Let_def page_slice ..

lemma query_pages_run:
  assumes "\<And>page. query page s = (Inr (f page), s)"
  shows "query_pages query ids is tokens s =
    (Inr (tokens @ concat (map (\<lambda>i. f (take QueryPageSize (drop (i * QueryPageSize) ids))) is)), s)"
proof (induction "is" arbitrary: tokens)
  case Nil
  then show ?case by (simp add: retA_run)
next
  case (Cons i "is")
  then show ?case by (simp add: query_pages_step bindA_run assms del: query_pages.simps)
qed

lemma query_all_pages:
  assumes "\<And>page. query page s = (Inr (f page), s)"
  shows "query_pages query ids [0..<getPageCounts (length ids) QueryPageSize] [] s =
    (Inr (concat (map f (chunks QueryPageSize ids))), s)"
proof -
  have "map (\<lambda>i. f (take QueryPageSize (drop (i * QueryPageSize) ids))) [0..<getPageCounts (length ids) QueryPageSize]
      = map f (chunks QueryPageSize ids)"
    by (subst pages_chunks [symmetric]) (simp_all add: QueryPageSize_def)
  then show ?thesis by (simp add: query_pages_run [of query s f, OF assms])
qed

text \<open>When the queries succeed only on pages that are not empty.\<close>

lemma query_pages_cong:
  assumes "\<And>i. i \<in> set is \<Longrightarrow> query (take QueryPageSize (drop (i * QueryPageSize) ids)) =
      query' (take QueryPageSize (drop (i * QueryPageSize) ids))"
  shows "query_pages query ids is tokens = query_pages query' ids is tokens"
  using assms
proof (induction "is" arbitrary: tokens)
  case (Cons i "is")
  then show ?case by (simp add: query_pages_step del: query_pages.simps)
qed simp

section \<open>The rows of a token\<close>

definition source_ok :: "FilterParameter \<Rightarrow> DetailedToken \<Rightarrow> bool" where
  "source_ok fp d = (fp_Source fp = [] \<or> tok_Source (dt_Token d) = fp_Source fp)"

definition rows_of :: "FilterParameter \<Rightarrow> AssetDoc list \<Rightarrow> Token list \<Rightarrow> DetailedToken list" where
  "rows_of fp assets ts = filter (source_ok fp) (map detailed_of (token_asset_rows ts assets))"

lemma rows_of_Nil [simp]: "rows_of fp assets [] = []"
  by (simp add: rows_of_def token_asset_rows_def)

lemma rows_of_Cons: "rows_of fp assets (t # ts) = rows_of fp assets [t] @ rows_of fp assets ts"
  by (simp add: rows_of_def token_asset_rows_def)

lemma mset_rows_of: "mset (rows_of fp assets ts) = (\<Sum>t\<in>#mset ts. mset (rows_of fp assets [t]))"
proof (induction ts)
  case (Cons t ts)
  then show ?case by (subst rows_of_Cons) simp
qed simp

lemma mset_sort_newest [simp]: "mset (sort_newest key ds) = mset ds"
  by (simp add: sort_newest_def)

lemma source_filter:
  "(if fp_Source fp \<noteq> [] then filter (\<lambda>d. tok_Source (dt_Token d) = fp_Source fp) rows else rows)
    = filter (source_ok fp) rows"
  by (auto simp: source_ok_def intro!: filter_cong)

lemma getTokensByAggregation_ids:
  assumes "ids \<noteq> []"
  shows "getTokensByAggregation (fp\<lparr>fp_IDs := Some ids\<rparr>) offset sz s =
    (Inr (rows_of fp (db_assets s) (sort_newest tok_LastActivityTime
       (filter (\<lambda>t. tok_IndexID t \<in> set ids \<and> unburned fp t) (db_tokens s)))), s)"
  using assms source_filter [of fp]
  by (simp add: getTokensByAggregation_def Let_def fp_ids_def rows_of_def unburned_def source_ok_def [abs_def])

lemma mset_filter_pages:
  assumes "distinct (concat css)"
  shows "(\<Sum>ids\<leftarrow>css. filter_mset (\<lambda>t. tok_IndexID t \<in> set ids \<and> q t) M)
    = filter_mset (\<lambda>t. tok_IndexID t \<in> set (concat css) \<and> q t) M"
  using assms
proof (induction css)
  case (Cons ids css)
  then have "set ids \<inter> set (concat css) = {}" by auto
  then have "filter_mset (\<lambda>t. tok_IndexID t \<in> set ids \<and> q t) M
      + filter_mset (\<lambda>t. tok_IndexID t \<in> set (concat css) \<and> q t) M
      = filter_mset (\<lambda>t. (tok_IndexID t \<in> set ids \<or> tok_IndexID t \<in> set (concat css)) \<and> q t) M"
    by (induction M) auto
  with Cons show ?case by simp
qed simp

lemma mset_pages_rows:
  assumes "distinct (concat css)"
  shows "mset (concat (map (\<lambda>ids. rows_of fp assets (sort_newest key
       (filter (\<lambda>t. tok_IndexID t \<in> set ids \<and> q t) ts))) css))
    = mset (rows_of fp assets (filter (\<lambda>t. tok_IndexID t \<in> set (concat css) \<and> q t) ts))"
proof -
  have one: "mset (rows_of fp assets (sort_newest key (filter p ts)))
      = (\<Sum>t\<in>#filter_mset p (mset ts). mset (rows_of fp assets [t]))" for p
    by (subst mset_rows_of) simp
  have "mset (concat (map (\<lambda>ids. rows_of fp assets (sort_newest key
       (filter (\<lambda>t. tok_IndexID t \<in> set ids \<and> q t) ts))) css))
     = (\<Sum>t\<in>#(\<Sum>ids\<leftarrow>css. filter_mset (\<lambda>t. tok_IndexID t \<in> set ids \<and> q t) (mset ts)). mset (rows_of fp assets [t]))"
    by (induction css) (simp_all add: one)
  also have "\<dots> = mset (rows_of fp assets (filter (\<lambda>t. tok_IndexID t \<in> set (concat css) \<and> q t) ts))"
    unfolding mset_filter_pages [OF assms] by (subst (2) mset_rows_of) simp
  finally show ?thesis .
qed

lemma chunks_not_Nil: "ids \<in> set (chunks k xs) \<Longrightarrow> ids \<noteq> []"
  using chunks_bound by blast

lemma GetDetailedTokens_run:
  assumes "fp_IDs fp = Some ids" and "ids \<noteq> []"
  shows "GetDetailedTokens fp offset sz s =
    (Inr (concat (map (\<lambda>ids. rows_of fp (db_assets s) (sort_newest tok_LastActivityTime
       (filter (\<lambda>t. tok_IndexID t \<in> set ids \<and> unburned fp t) (db_tokens s)))) (chunks QueryPageSize ids))), s)"
proof -
  define f where "f page = rows_of fp (db_assets s) (sort_newest tok_LastActivityTime
       (filter (\<lambda>t. tok_IndexID t \<in> set page \<and> unburned fp t) (db_tokens s)))" for page
  define query where "query page = (if page = [] then (\<lambda>s'. (Inr (f page), s))
      else getTokensByAggregation (fp\<lparr>fp_IDs := Some page\<rparr>) offset sz)" for page
  have run: "query page s = (Inr (f page), s)" for page
    by (simp add: query_def getTokensByAggregation_ids f_def)
  have page: "take QueryPageSize (drop (i * QueryPageSize) ids) \<noteq> []"
    if "i \<in> set [0..<getPageCounts (length ids) QueryPageSize]" for i
  proof -
    have "take QueryPageSize (drop (i * QueryPageSize) ids) \<in> set (chunks QueryPageSize ids)"
      using that by (subst pages_chunks [symmetric]) (auto simp: QueryPageSize_def)
    then show ?thesis by (rule chunks_not_Nil)
  qed
  have "query_pages (\<lambda>page. getTokensByAggregation (fp\<lparr>fp_IDs := Some page\<rparr>) offset sz) ids
      [0..<getPageCounts (length ids) QueryPageSize] []
    = query_pages query ids [0..<getPageCounts (length ids) QueryPageSize] []"
    by (rule query_pages_cong) (simp only: query_def if_not_P [OF page])
  then show ?thesis
    using assms query_all_pages [of query s f, OF run]
    by (simp add: GetDetailedTokens_def Let_def fp_ids_def f_def [abs_def])
qed

section \<open>The view by id\<close>

type_synonym view_row = "Token \<times> AssetDoc \<times> StaticPreview option"

definition row_id :: "view_row \<Rightarrow> string" where
  "row_id r = tok_IndexID (fst r)"

definition row_wanted :: "FilterParameter \<Rightarrow> view_row \<Rightarrow> bool" where
  "row_wanted fp r = (unburned fp (fst r) \<and> (fp_Source fp = [] \<or> asset_Source (fst (snd r)) = fp_Source fp))"

text \<open>The detailed token of an id, when the view has a row of it that the filter wants.\<close>

definition row_of :: "db \<Rightarrow> FilterParameter \<Rightarrow> string \<Rightarrow> DetailedTokenV2 option" where
  "row_of s fp i =
     (case List.find (\<lambda>r. row_id r = i) (view_rows s) of
        None \<Rightarrow> None
      | Some r \<Rightarrow> if row_wanted fp r then Some (detailed_v2_of r) else None)"

abbreviation unique_rows :: "db \<Rightarrow> bool" where
  "unique_rows s \<equiv> distinct (map row_id (view_rows s))"

lemma first_occurrences_set: "set (first_occurrences S ids) = set ids - S"
  by (induction S ids rule: first_occurrences.induct) auto

lemma first_occurrences_distinct: "distinct (first_occurrences S ids)"
  by (induction S ids rule: first_occurrences.induct) (auto simp: first_occurrences_set)

lemma first_occurrences_id: "distinct ids \<Longrightarrow> set ids \<inter> S = {} \<Longrightarrow> first_occurrences S ids = ids"
  by (induction S ids rule: first_occurrences.induct) auto

lemma length_first_occurrences: "length (first_occurrences S ids) \<le> length ids"
  by (induction S ids rule: first_occurrences.induct) auto

lemma first_occurrences_order: "sorted_wrt (<) (map (index_of ids) (first_occurrences S ids))"
proof (induction ids arbitrary: S)
  case Nil
  then show ?case by simp
next
  case (Cons y ys)
  have shift: "map (index_of (y # ys)) xs = map (\<lambda>x. Suc (index_of ys x)) xs" if "y \<notin> set xs" for xs
    using that by (induction xs) auto
  have suc: "sorted_wrt (<) (map (\<lambda>x. Suc (f x)) xs) = sorted_wrt (<) (map f xs)" for f :: "string \<Rightarrow> nat" and xs
    by (induction xs) auto
  show ?case
  proof (cases "y \<in> S")
    case True
    then have "y \<notin> set (first_occurrences S ys)" by (simp add: first_occurrences_set)
    with True Cons.IH [of S] show ?thesis by (simp add: shift suc del: index_of.simps)
  next
    case False
    have "y \<notin> set (first_occurrences (insert y S) ys)" by (simp add: first_occurrences_set)
    moreover have "index_of (y # ys) y = 0" by simp
    ultimately show ?thesis
      using False Cons.IH [of "insert y S"] by (auto simp: shift suc simp del: index_of.simps)
  qed
qed

lemma index_of_inj: "x \<in> set ids \<Longrightarrow> y \<in> set ids \<Longrightarrow> index_of ids x = index_of ids y \<Longrightarrow> x = y"
  by (induction ids) (auto split: if_splits)

lemma find_row: "unique_rows s \<Longrightarrow> r \<in> set (view_rows s) \<Longrightarrow> List.find (\<lambda>q. row_id q = row_id r) (view_rows s) = Some r"
  by (rule find_key)

definition wanted_row :: "db \<Rightarrow> FilterParameter \<Rightarrow> string \<Rightarrow> view_row option" where
  "wanted_row s fp i =
     (case List.find (\<lambda>r. row_id r = i) (view_rows s) of
        None \<Rightarrow> None
      | Some r \<Rightarrow> if row_wanted fp r then Some r else None)"

lemma row_of_wanted: "row_of s fp i = map_option detailed_v2_of (wanted_row s fp i)"
  by (simp add: row_of_def wanted_row_def split: option.split)

lemma wanted_row_Some:
  assumes "unique_rows s"
  shows "wanted_row s fp i = Some r \<longleftrightarrow> r \<in> set (view_rows s) \<and> row_id r = i \<and> row_wanted fp r"
  using find_row [OF assms, of r]
  by (auto simp: wanted_row_def dest: find_Some_set split: option.splits if_splits)

lemma set_of_map_filter: "set (List.map_filter f xs) = {y. \<exists>x\<in>set xs. f x = Some y}"
  by (force simp: List.map_filter_def)

text \<open>One page of the view: the wanted rows in the order in which the ids were asked for.\<close>

lemma view_page_rows:
  assumes "unique_rows s"
  shows "sort_key (\<lambda>r. index_of ids (row_id r)) (filter (\<lambda>r. row_id r \<in> set ids \<and> row_wanted fp r) (view_rows s))
    = List.map_filter (wanted_row s fp) (first_occurrences {} ids)" (is "?l = ?r")
proof -
  let ?k = "\<lambda>r. index_of ids (row_id r)"
  have ids_of: "row_id (the (wanted_row s fp i)) = i" if "wanted_row s fp i \<noteq> None" for i
  proof -
    from that obtain r where "wanted_row s fp i = Some r" by blast
    with wanted_row_Some [OF assms, of fp i r] show ?thesis by simp
  qed
  have map_r: "map ?k ?r = map (index_of ids) (filter (\<lambda>i. wanted_row s fp i \<noteq> None) (first_occurrences {} ids))"
    by (auto simp: List.map_filter_def ids_of)
  have "sorted_wrt (<) (map (index_of ids) (filter p (first_occurrences {} ids)))" for p
    using first_occurrences_order [of ids "{}"]
    by (simp add: sorted_wrt_map sorted_wrt_filter)
  with map_r have strict: "sorted_wrt (<) (map ?k ?r)" by simp
  have set_r: "set ?r = {r \<in> set (view_rows s). row_id r \<in> set ids \<and> row_wanted fp r}"
    using wanted_row_Some [OF assms] by (auto simp: set_of_map_filter first_occurrences_set)
  have sub: "row_id ` set ?l \<subseteq> set ids" by auto
  have dist: "distinct (map row_id (filter p (view_rows s)))" for p
    by (rule distinct_map_filter [OF assms])
  have inj: "inj_on ?k (set ?l)"
  proof (rule inj_onI)
    fix q r assume q: "q \<in> set ?l" and r: "r \<in> set ?l" and eq: "?k q = ?k r"
    from q r have "row_id q \<in> set ids" "row_id r \<in> set ids" and mem: "q \<in> set (view_rows s)" "r \<in> set (view_rows s)"
      by simp_all
    with eq have "row_id q = row_id r" by (intro index_of_inj)
    moreover have "inj_on row_id (set (view_rows s))" using assms by (simp add: distinct_map)
    ultimately show "q = r" using mem by (simp add: inj_on_eq_iff)
  qed
  have "distinct (map ?k ?l)"
    using inj dist [of "\<lambda>r. row_id r \<in> set ids \<and> row_wanted fp r"] by (auto simp: distinct_map)
  moreover have "sorted (map ?k ?l)" by simp
  moreover from strict have "sorted (map ?k ?r)" "distinct (map ?k ?r)"
    by (simp_all add: strict_sorted_iff)
  moreover have "set ?l = set ?r" using set_r by auto
  ultimately show ?thesis
    using inj by (intro map_sorted_distinct_set_unique [of ?k]) auto
qed

lemma map_map_filter: "map g (List.map_filter f xs) = List.map_filter (\<lambda>x. map_option g (f x)) xs"
  by (induction xs) (auto simp: map_filter_simps split: option.split)

lemma view_rows_eta:
  "filter (\<lambda>(t, a, pv). tok_IndexID t \<in> S \<and> unburned fp t) rows = filter (\<lambda>r. row_id r \<in> S \<and> unburned fp (fst r)) rows"
  "filter (\<lambda>(t, ab). tok_IndexID t \<in> S \<and> unburned fp t) rows = filter (\<lambda>r. row_id r \<in> S \<and> unburned fp (fst r)) rows"
  by (rule filter_cong; auto simp: row_id_def)+

lemma length_map_filter: "length (List.map_filter f xs) \<le> length xs"
  by (simp add: List.map_filter_def)

lemma getDetailedTokensV2InView_run:
  assumes "unique_rows s" and "ids \<noteq> []"
  shows "getDetailedTokensV2InView (fp\<lparr>fp_IDs := Some ids\<rparr>) 0 (int (length ids)) s =
    (Inr (List.map_filter (row_of s fp) (first_occurrences {} ids)), s)"
proof -
  let ?rows = "sort_key (\<lambda>r. index_of ids (row_id r)) (filter (\<lambda>r. row_id r \<in> set ids \<and> row_wanted fp r) (view_rows s))"
  have key: "(\<lambda>(t, a, pv). index_of ids (tok_IndexID t)) = (\<lambda>r :: view_row. index_of ids (row_id r))"
    by (auto simp: row_id_def)
  have rows: "(if fp_Source fp \<noteq> []
      then filter (\<lambda>(t, a, pv). asset_Source a = fp_Source fp)
        (sort_key (\<lambda>r. index_of ids (row_id r)) (filter (\<lambda>r. row_id r \<in> set ids \<and> unburned fp (fst r)) (view_rows s)))
      else sort_key (\<lambda>r. index_of ids (row_id r)) (filter (\<lambda>r. row_id r \<in> set ids \<and> unburned fp (fst r)) (view_rows s)))
      = ?rows"
  proof (cases "fp_Source fp = []")
    case True
    then have "(\<lambda>r. row_id r \<in> set ids \<and> row_wanted fp r) = (\<lambda>r. row_id r \<in> set ids \<and> unburned fp (fst r))"
      by (simp add: row_wanted_def)
    with True show ?thesis by simp
  next
    case False
    have "filter (\<lambda>(t, a, pv). asset_Source a = fp_Source fp) (filter (\<lambda>r. row_id r \<in> set ids \<and> unburned fp (fst r)) (view_rows s))
        = filter (\<lambda>r. row_id r \<in> set ids \<and> row_wanted fp r) (view_rows s)"
      using False by (auto simp: row_wanted_def intro!: filter_cong)
    with False show ?thesis by (simp add: filter_sort)
  qed
  have len: "length ?rows \<le> length ids"
    unfolding view_page_rows [OF assms(1)]
    using length_map_filter [of "wanted_row s fp" "first_occurrences {} ids"] length_first_occurrences [of "{}" ids]
    by linarith
  have burned: "unburned (fp\<lparr>fp_IDs := Some ids\<rparr>) = unburned fp"
    by (simp add: unburned_def [abs_def])
  have "getDetailedTokensV2InView (fp\<lparr>fp_IDs := Some ids\<rparr>) 0 (int (length ids)) s = (Inr (map detailed_v2_of ?rows), s)"
  proof (cases "fp_Source fp = []")
    case True
    with rows have "sort_key (\<lambda>r. index_of ids (row_id r))
        (filter (\<lambda>r. row_id r \<in> set ids \<and> unburned fp (fst r)) (view_rows s)) = ?rows" by simp
    with True len assms(2) show ?thesis
      by (simp add: getDetailedTokensV2InView_def Let_def key view_rows_eta burned agg_page_def)
  next
    case False
    with rows have "filter (\<lambda>(t, a, pv). asset_Source a = fp_Source fp) (sort_key (\<lambda>r. index_of ids (row_id r))
        (filter (\<lambda>r. row_id r \<in> set ids \<and> unburned fp (fst r)) (view_rows s))) = ?rows" by simp
    with False len assms(2) show ?thesis
      by (simp add: getDetailedTokensV2InView_def Let_def key view_rows_eta burned agg_page_def)
  qed
  then show ?thesis
    by (simp add: view_page_rows [OF assms(1)] map_map_filter row_of_wanted [abs_def])
qed

lemma map_filter_append: "List.map_filter f (xs @ ys) = List.map_filter f xs @ List.map_filter f ys"
  by (simp add: List.map_filter_def)

lemma concat_map_filter_chunks:
  "0 < k \<Longrightarrow> concat (map (\<lambda>c. List.map_filter f c) (chunks k xs)) = List.map_filter f xs"
proof -
  assume k: "0 < k"
  have "concat (map (\<lambda>c. List.map_filter f c) css) = List.map_filter f (concat css)" for css
    by (induction css) (simp_all add: map_filter_append map_filter_simps)
  then show ?thesis by (simp add: concat_chunks [OF k])
qed

lemma V2_pages_run:
  assumes "unique_rows s"
  shows "query_pages (\<lambda>page. getDetailedTokensV2InView (fp\<lparr>fp_IDs := Some page\<rparr>) 0 (int (length page))) ids
      [0..<getPageCounts (length ids) QueryPageSize] [] s =
    (Inr (concat (map (\<lambda>c. List.map_filter (row_of s fp) (first_occurrences {} c)) (chunks QueryPageSize ids))), s)"
proof -
  define f where "f c = List.map_filter (row_of s fp) (first_occurrences {} c)" for c
  define query where "query page = (if page = [] then (\<lambda>s'. (Inr (f page), s))
      else getDetailedTokensV2InView (fp\<lparr>fp_IDs := Some page\<rparr>) 0 (int (length page)))" for page
  have run: "query page s = (Inr (f page), s)" for page
    by (simp add: query_def getDetailedTokensV2InView_run [OF assms] f_def)
  have page: "take QueryPageSize (drop (i * QueryPageSize) ids) \<noteq> []"
    if "i \<in> set [0..<getPageCounts (length ids) QueryPageSize]" for i
  proof -
    have "take QueryPageSize (drop (i * QueryPageSize) ids) \<in> set (chunks QueryPageSize ids)"
      using that by (subst pages_chunks [symmetric]) (auto simp: QueryPageSize_def)
    then show ?thesis by (rule chunks_not_Nil)
  qed
  have "query_pages (\<lambda>page. getDetailedTokensV2InView (fp\<lparr>fp_IDs := Some page\<rparr>) 0 (int (length page))) ids
      [0..<getPageCounts (length ids) QueryPageSize] []
    = query_pages query ids [0..<getPageCounts (length ids) QueryPageSize] []"
    by (rule query_pages_cong) (simp only: query_def if_not_P [OF page])
  then show ?thesis
    using query_all_pages [of query s f, OF run] by (simp add: f_def [abs_def])
qed

lemma chunks_distinct: "distinct xs \<Longrightarrow> c \<in> set (chunks k xs) \<Longrightarrow> distinct c"
proof (induction k xs rule: chunks.induct)
  case (1 k xs)
  from "1.prems" show ?case
    using "1.IH" by (subst (asm) chunks.simps) (auto split: if_splits)
qed

lemma V2_distinct_run:
  assumes "unique_rows s" and "fp_IDs fp = Some ids" and "ids \<noteq> []" and "distinct ids"
    and "0 \<le> offset" and "offset \<le> int (length ids)" and "0 \<le> sz" and "offset + sz < 2 ^ 63"
  shows "GetDetailedTokensV2 fp offset sz s =
    (Inr (List.map_filter (row_of s fp) (take (nat sz) (drop (nat offset) ids))), s)"
proof -
  have sum: "i64 (offset + sz) = offset + sz" using assms(5,7,8) by (intro i64_id) auto
  define stop where "stop = (if offset + sz > int (length ids) then int (length ids) else offset + sz)"
  have stop: "\<not> (offset < 0 \<or> stop < offset)" using assms(5-7) by (auto simp: stop_def)
  define q where "q = take (nat sz) (drop (nat offset) ids)"
  have cut: "slice (nat offset) (nat stop) ids = q"
    using assms(5-7) by (auto simp: q_def stop_def slice_def nat_diff_distrib nat_add_distrib)
  have q: "distinct q" using assms(4) by (simp add: q_def)
  have "GetDetailedTokensV2 fp offset sz s =
      (Inr (concat (map (\<lambda>c. List.map_filter (row_of s fp) (first_occurrences {} c)) (chunks QueryPageSize q))), s)"
    using assms(2,3) stop V2_pages_run [OF assms(1), of fp q]
    by (simp add: GetDetailedTokensV2_def Let_def fp_ids_def sum stop_def [symmetric] cut)
  also have "map (\<lambda>c. List.map_filter (row_of s fp) (first_occurrences {} c)) (chunks QueryPageSize q)
      = map (List.map_filter (row_of s fp)) (chunks QueryPageSize q)"
    using chunks_distinct [OF q] by (auto simp: first_occurrences_id)
  finally show ?thesis
    using concat_map_filter_chunks [of QueryPageSize "row_of s fp" q]
    by (simp add: QueryPageSize_def q_def)
qed

section \<open>The loop over the account tokens of an owner\<close>

definition accounts_of :: "db \<Rightarrow> string list \<Rightarrow> gotime \<Rightarrow> string \<Rightarrow> AccountToken list" where
  "accounts_of s owners lastUpdatedAt sortBy =
     account_sort sortBy (filter (account_filter owners lastUpdatedAt) (db_accountTokens s))"

definition joined :: "db \<Rightarrow> FilterParameter \<Rightarrow> AccountToken list \<Rightarrow> DetailedTokenV2 list" where
  "joined s fp as = List.map_filter (\<lambda>a. map_option (with_account a) (row_of s fp (at_IndexID a))) as"

lemma joined_append: "joined s fp (xs @ ys) = joined s fp xs @ joined s fp ys"
  by (simp add: joined_def map_filter_append)

lemma row_of_ids [simp]: "row_of s (fp\<lparr>fp_IDs := x\<rparr>) = row_of s fp"
  by (rule ext) (simp add: row_of_def row_wanted_def unburned_def split: option.split)

lemma row_of_index:
  assumes "row_of s fp i = Some d"
  shows "tok_IndexID (dt2_Token d) = i"
proof -
  from assms obtain r where "List.find (\<lambda>r. row_id r = i) (view_rows s) = Some r" and d: "d = detailed_v2_of r"
    by (auto simp: row_of_def split: option.splits if_splits)
  from find_Some_set [OF this(1)] d show ?thesis
    by (cases r) (simp add: row_id_def detailed_v2_of_def)
qed

lemma length_map_filter_first:
  "length (List.map_filter f (first_occurrences S ids)) \<le> length (List.map_filter f ids)"
  by (induction S ids rule: first_occurrences.induct)
    (auto simp: map_filter_simps split: option.split)

lemma length_joined: "length (joined s fp as) = length (List.map_filter (row_of s fp) (map at_IndexID as))"
  by (induction as) (auto simp: joined_def map_filter_simps split: option.split)

lemma chunks_single: "xs \<noteq> [] \<Longrightarrow> length xs \<le> k \<Longrightarrow> chunks k xs = [xs]"
  by (subst chunks.simps) (auto intro: Nat.gr0I)

lemma V2_page_run:
  assumes "unique_rows s" and "ids \<noteq> []" and "length ids \<le> QueryPageSize"
  shows "GetDetailedTokensV2 (fp\<lparr>fp_IDs := Some ids\<rparr>) 0 (int (length ids)) s =
    (Inr (List.map_filter (row_of s fp) (first_occurrences {} ids)), s)"
proof -
  have "length ids \<le> 25" using assms(3) by (simp add: QueryPageSize_def)
  then have "i64 (int (length ids)) = int (length ids)" by (intro i64_id) auto
  with assms V2_pages_run [OF assms(1), of fp ids] show ?thesis
    by (simp add: GetDetailedTokensV2_def Let_def fp_ids_def slice_def chunks_single)
qed

lemma detailed_map_of:
  assumes "\<And>d. d \<in> set ds \<Longrightarrow> row_of s fp (tok_IndexID (dt2_Token d)) = Some d"
  shows "detailed_map ds i = (if \<exists>d\<in>set ds. tok_IndexID (dt2_Token d) = i then row_of s fp i else None)"
  using assms
proof (induction ds rule: rev_induct)
  case Nil
  then show ?case by (simp add: detailed_map_def)
next
  case (snoc d ds)
  have "detailed_map (ds @ [d]) = (detailed_map ds)(tok_IndexID (dt2_Token d) \<mapsto> d)"
    by (simp add: detailed_map_def)
  with snoc show ?case by auto
qed

lemma collect_results_run:
  assumes "0 < sz" and "int (length results) < sz" and "skipped \<le> offset"
  shows "collect_results m ws offset sz skipped results as =
    results @ take (nat sz - length results)
      (drop (if ws then nat (offset - skipped) else 0)
         (List.map_filter (\<lambda>a. map_option (with_account a) (m (at_IndexID a))) as))"
  using assms
proof (induction as arbitrary: skipped results)
  case Nil
  then show ?case by (simp add: map_filter_simps)
next
  case (Cons a as)
  show ?case
  proof (cases "m (at_IndexID a)")
    case None
    with Cons show ?thesis by (simp add: map_filter_simps)
  next
    case (Some t)
    show ?thesis
    proof (cases "ws \<and> skipped < offset")
      case True
      then have "nat (offset - skipped) = Suc (nat (offset - (skipped + 1)))" by linarith
      with True Some Cons.IH [of results "skipped + 1"] Cons.prems show ?thesis
        by (simp add: map_filter_simps)
    next
      case False
      then have skip: "(if ws then nat (offset - skipped) else 0) = 0" using Cons.prems(3) by auto
      show ?thesis
      proof (cases "int (length results) + 1 = sz")
        case True
        then have "nat sz - length results = Suc 0" by linarith
        with True False Some skip show ?thesis by (auto simp: map_filter_simps)
      next
        case full: False
        with Cons.prems have lt: "int (length (results @ [with_account a t])) < sz" by simp
        have "nat sz - length results = Suc (nat sz - Suc (length results))" using Cons.prems(2) by linarith
        with lt full False Some skip Cons.IH [OF Cons.prems(1) lt Cons.prems(3)] show ?thesis
          by (auto simp: map_filter_simps)
      qed
    qed
  qed
qed

lemma bindA_Inr: "p s = (Inr a, s') \<Longrightarrow> bindA p f s = f a s'"
  by (simp add: bindA_run)

context mongo_store
begin

text \<open>
  The loop from a page on: what it has gathered is a prefix of the account tokens and all their
  rows, and it stops at the end of the list or with enough rows.
\<close>

lemma account_pages_run:
  assumes L'_def: "L' = drop (if fp_Source fp = [] then nat offset else 0) (accounts_of s owners lastUpdatedAt sortBy)"
    and expected_def: "expected = (if fp_Source fp = [] then sz else i64 (offset + sz))"
    and "unique_rows s" and "0 \<le> offset" and small: "offset + int (length L') + 25 < 2 ^ 63"
    and "25 * k < length L' + 25" and "0 < fuel" and "length L' \<le> 25 * (k + fuel - 1)"
    and "ats = take (25 * k) L'" and "length ds \<le> length (joined s fp ats)"
    and "\<forall>d\<in>set ds. row_of s fp (tok_IndexID (dt2_Token d)) = Some d"
    and "\<forall>a\<in>set ats. \<forall>d. row_of s fp (at_IndexID a) = Some d \<longrightarrow> d \<in> set ds"
  shows "\<exists>m ds'. account_pages st fuel owners fp lastUpdatedAt sortBy offset sz k ats ds s
      = (Inr (Some (take m L', ds')), s) \<and>
    (take m L' = L' \<or> expected \<le> int (length (joined s fp (take m L')))) \<and>
    (\<forall>d\<in>set ds'. row_of s fp (tok_IndexID (dt2_Token d)) = Some d) \<and>
    (\<forall>a\<in>set (take m L'). \<forall>d. row_of s fp (at_IndexID a) = Some d \<longrightarrow> d \<in> set ds')"
  using assms(6-)
proof (induction fuel arbitrary: k ats ds)
  case 0
  then show ?case by simp
next
  case (Suc fuel)
  define pageTokens where "pageTokens = take 25 (drop (25 * k) L')"
  define ids where "ids = map at_IndexID pageTokens"
  define tokens where "tokens = List.map_filter (row_of s fp) (first_occurrences {} ids)"
  define q where "q = (if fp_Source fp = [] then i64 (offset + i64 (int (k * QueryPageSize))) else i64 (int (k * QueryPageSize)))"
  have "i64 (int (k * QueryPageSize)) = int (k * QueryPageSize)"
    and "i64 (offset + int (k * QueryPageSize)) = offset + int (k * QueryPageSize)"
    using Suc.prems(1) small \<open>0 \<le> offset\<close> by (auto simp: QueryPageSize_def intro!: i64_id)
  then have q: "q = (if fp_Source fp = [] then offset + int (k * QueryPageSize) else int (k * QueryPageSize))"
    by (simp add: q_def)
  have off: "nat (if fp_Source fp = [] then offset + int (k * QueryPageSize) else int (k * QueryPageSize))
      = (if fp_Source fp = [] then nat offset else 0) + 25 * k"
    using \<open>0 \<le> offset\<close> by (auto simp: QueryPageSize_def nat_add_distrib nat_mult_distrib)
  have find: "Find (accountTokenCollection st) (account_filter owners lastUpdatedAt) (account_sort sortBy)
      q (int QueryPageSize) (db_accountTokens s) = Inr pageTokens"
    using \<open>0 \<le> offset\<close> off unfolding q
    by (auto simp: accountTokens.Find_law find_page_def page_def Let_def pageTokens_def L'_def accounts_of_def
        QueryPageSize_def add.commute)
  have ats': "ats @ pageTokens = take (25 * (k + 1)) L'"
    using Suc.prems(4) by (simp add: pageTokens_def take_add [symmetric] algebra_simps)
  have read: "readA db_accountTokens (Find (accountTokenCollection st) (account_filter owners lastUpdatedAt)
      (account_sort sortBy) q (int QueryPageSize)) s = (Inr pageTokens, s)"
    by (simp only: readA_run find)
  note read_then = bindA_Inr [where p = "readA db_accountTokens (Find (accountTokenCollection st)
      (account_filter owners lastUpdatedAt) (account_sort sortBy) q (int QueryPageSize))", OF read]
  show ?case
  proof (cases "pageTokens = []")
    case True
    then have "take (25 * k) L' = L'" by (simp add: pageTokens_def)
    moreover from True have "account_pages st (Suc fuel) owners fp lastUpdatedAt sortBy offset sz k ats ds s
        = (Inr (Some (ats, ds)), s)"
      by (simp only: account_pages.simps Let_def q_def [symmetric] read_then list.map refl if_True append_Nil2 retA_run)
    ultimately show ?thesis using Suc.prems by (intro exI [of _ "25 * k"] exI [of _ ds]) simp
  next
    case False
    then have ids: "ids \<noteq> []" and len: "length ids \<le> QueryPageSize"
      by (simp_all add: ids_def pageTokens_def QueryPageSize_def)
    have v2: "GetDetailedTokensV2 (fp\<lparr>fp_IDs := Some ids\<rparr>) 0 (int (length ids)) s = (Inr tokens, s)"
      using V2_page_run [OF \<open>unique_rows s\<close> ids len] by (simp add: tokens_def)
    have ds_len: "length (ds @ tokens) \<le> length (joined s fp (ats @ pageTokens))"
      using Suc.prems(5) length_map_filter_first [of "row_of s fp" "{}" ids]
      by (simp add: joined_append length_joined tokens_def ids_def)
    have sound: "\<forall>d\<in>set (ds @ tokens). row_of s fp (tok_IndexID (dt2_Token d)) = Some d"
      using Suc.prems(6) by (auto simp: tokens_def set_of_map_filter dest: row_of_index)
    have complete: "\<forall>a\<in>set (ats @ pageTokens). \<forall>d. row_of s fp (at_IndexID a) = Some d \<longrightarrow> d \<in> set (ds @ tokens)"
      using Suc.prems(7) by (force simp: tokens_def set_of_map_filter first_occurrences_set ids_def)
    have step: "account_pages st (Suc fuel) owners fp lastUpdatedAt sortBy offset sz k ats ds s =
      (if int (length (ds @ tokens)) \<ge> expected then (Inr (Some (ats @ pageTokens, ds @ tokens)), s)
       else account_pages st fuel owners fp lastUpdatedAt sortBy offset sz (k + 1) (ats @ pageTokens) (ds @ tokens) s)"
      by (simp only: account_pages.simps Let_def q_def [symmetric] read_then ids_def [symmetric] ids if_False
          bindA_Inr [where p = "GetDetailedTokensV2 (fp\<lparr>fp_IDs := Some ids\<rparr>) 0 (int (length ids))", OF v2] expected_def if_distrib [of "\<lambda>f. f s"] retA_run)
    show ?thesis
    proof (cases "int (length (ds @ tokens)) \<ge> expected")
      case True
      with step ds_len sound complete show ?thesis
        unfolding ats' by (intro exI [of _ "25 * (k + 1)"] exI [of _ "ds @ tokens"]) auto
    next
      case more: False
      from False have "25 * k < length L'" by (simp add: pageTokens_def)
      with Suc.prems(3) have "25 * (k + 1) < length L' + 25" "0 < fuel" "length L' \<le> 25 * (k + 1 + fuel - 1)" by (cases fuel; simp)+
      from Suc.IH [OF this ats' ds_len sound complete] step more show ?thesis by simp
    qed
  qed
qed

lemma take_drop_prefix:
  "xs = L \<or> n + m \<le> length (f xs) \<Longrightarrow> L = xs @ ys \<Longrightarrow> f L = f xs @ zs \<Longrightarrow> take n (drop m (f xs)) = take n (drop m (f L))"
  by auto

lemma GetDetailedAccountTokensByOwners_run:
  assumes "unique_rows s" and "0 \<le> offset" and "0 < sz"
    and "length (accounts_of s owners lastUpdatedAt sortBy) div 25 + 2 \<le> fuel"
    and "offset + int (length (accounts_of s owners lastUpdatedAt sortBy)) + 25 < 2 ^ 63"
    and "fp_Source fp \<noteq> [] \<longrightarrow> offset + sz < 2 ^ 63"
  shows "GetDetailedAccountTokensByOwners st fuel owners fp lastUpdatedAt sortBy offset sz s =
    (Inr (Some (if fp_Source fp = []
       then take (nat sz) (joined s fp (drop (nat offset) (accounts_of s owners lastUpdatedAt sortBy)))
       else take (nat sz) (drop (nat offset) (joined s fp (accounts_of s owners lastUpdatedAt sortBy))))), s)"
proof -
  define L where "L = accounts_of s owners lastUpdatedAt sortBy"
  define L' where "L' = drop (if fp_Source fp = [] then nat offset else 0) L"
  have "length L' \<le> length L" by (simp add: L'_def)
  moreover have "length L < 25 * (length L div 25) + 25"
    using div_mult_mod_eq [of "length L" 25] mod_less_divisor [of 25 "length L"] by linarith
  ultimately have enough: "length L' \<le> 25 * (0 + fuel - 1)" "0 < fuel"
    using assms(4) by (auto simp: L_def [symmetric])
  have Leq: "L' = drop (if fp_Source fp = [] then nat offset else 0) (accounts_of s owners lastUpdatedAt sortBy)"
    by (simp add: L'_def L_def)
  have small: "offset + int (length L') + 25 < 2 ^ 63"
    using assms(5) \<open>length L' \<le> length L\<close> by (simp add: L_def)
  obtain m ds where pages: "account_pages st fuel owners fp lastUpdatedAt sortBy offset sz 0 [] [] s
      = (Inr (Some (take m L', ds)), s)"
    and stop': "take m L' = L' \<or> (if fp_Source fp = [] then sz else i64 (offset + sz)) \<le> int (length (joined s fp (take m L')))"
    and sound: "\<forall>d\<in>set ds. row_of s fp (tok_IndexID (dt2_Token d)) = Some d"
    and complete: "\<forall>a\<in>set (take m L'). \<forall>d. row_of s fp (at_IndexID a) = Some d \<longrightarrow> d \<in> set ds"
    using account_pages_run [OF Leq refl assms(1,2) small _ enough(2,1), of "[]" "[]" sz]
    by (auto simp: joined_def map_filter_simps)
  have "fp_Source fp \<noteq> [] \<Longrightarrow> i64 (offset + sz) = offset + sz"
    using assms(2,3,6) by (intro i64_id) auto
  with stop' have stop: "take m L' = L' \<or> (if fp_Source fp = [] then sz else offset + sz) \<le> int (length (joined s fp (take m L')))"
    by (auto split: if_splits)
  have map: "detailed_map ds (at_IndexID a) = row_of s fp (at_IndexID a)" if "a \<in> set (take m L')" for a
  proof (cases "row_of s fp (at_IndexID a)")
    case None
    have "\<not> (\<exists>d\<in>set ds. tok_IndexID (dt2_Token d) = at_IndexID a)" using sound None by force
    with None sound show ?thesis by (subst detailed_map_of [of ds s fp]) auto
  next
    case (Some d)
    with complete that have "d \<in> set ds" by blast
    moreover have "tok_IndexID (dt2_Token d) = at_IndexID a" by (rule row_of_index [OF Some])
    ultimately show ?thesis using sound by (subst detailed_map_of [of ds s fp]) auto
  qed
  have J: "List.map_filter (\<lambda>a. map_option (with_account a) (detailed_map ds (at_IndexID a))) (take m L')
      = joined s fp (take m L')"
    unfolding joined_def List.map_filter_def using map by (auto intro!: map_cong filter_cong)
  have split: "L' = take m L' @ drop m L'" by simp
  have Jsplit: "joined s fp L' = joined s fp (take m L') @ joined s fp (drop m L')"
    using joined_append [of s fp "take m L'" "drop m L'"] by simp
  have "collect_results (detailed_map ds) (fp_Source fp \<noteq> []) offset sz 0 [] (take m L') =
      take (nat sz) (drop (if fp_Source fp \<noteq> [] then nat offset else 0) (joined s fp (take m L')))"
    using assms(2,3) by (simp add: collect_results_run J)
  also have "\<dots> = take (nat sz) (drop (if fp_Source fp \<noteq> [] then nat offset else 0) (joined s fp L'))"
    by (rule take_drop_prefix [OF _ split Jsplit]) (use stop assms(2,3) in \<open>auto split: if_splits\<close>)
  finally have "collect_results (detailed_map ds) (fp_Source fp \<noteq> []) offset sz 0 [] (take m L') =
      take (nat sz) (drop (if fp_Source fp \<noteq> [] then nat offset else 0) (joined s fp L'))" .
  then show ?thesis
    by (simp add: GetDetailedAccountTokensByOwners_def bindA_run pages retA_run L'_def L_def)
qed

end

section \<open>Properties\<close>


definition query_tokens :: "Token list" where
  "query_tokens = map (\<lambda>i. sample_token\<lparr>tok_IndexID := i, tok_AssetID := ''a''\<rparr>) [''t1'', ''t2'', ''t3'']"

definition query_db :: db where
  "query_db = empty_db\<lparr>db_tokens := query_tokens, db_assets := [sample_asset],
     db_accountTokens := map (\<lambda>i. sample_account_token\<lparr>at_IndexID := i\<rparr>) [''t3'', ''t1'']\<rparr>"

definition query_filter :: FilterParameter where
  "query_filter = \<lparr>fp_Source = SourceFeralFile, fp_IDs = Some [''t3'', ''t4'', ''t1''], fp_BurnedIncluded = False\<rparr>"

lemmas query_defs = query_db_def query_tokens_def query_filter_def sample_asset_def AssetUpdateSet_def
  sample_updates_def empty_db_def token_asset_rows_def view_rows_def row_id_def sample_token_def

lemma query_unique: "unique_rows query_db"
  by (simp add: query_defs)

lemma query_row_of: "row_of query_db query_filter ''t3'' \<noteq> None" "row_of query_db query_filter ''t4'' = None"
  "row_of query_db query_filter ''t1'' \<noteq> None"
  by (simp_all add: row_of_def row_wanted_def unburned_def query_defs zero_Token_def)


text \<open>
  C38: \<open>GetDetailedTokensV2\<close> of distinct ids returns the rows of the view in the order of the ids, for
  the ids from the offset on and as many as the size, however many pages of the view that takes. An
  offset beyond the ids ends in a slice out of bounds instead of an empty answer.
\<close>

theorem GetDetailedTokensV2_in_order:
  assumes "unique_rows s" and "fp_IDs fp = Some ids" and "ids \<noteq> []" and "distinct ids"
    and "0 \<le> offset" and "0 \<le> sz" and "offset + sz < 2 ^ 63"
  shows "fst (GetDetailedTokensV2 fp offset sz s) =
    (if offset \<le> int (length ids) then Inr (List.map_filter (row_of s fp) (take (nat sz) (drop (nat offset) ids)))
     else Inl (GoPanic ''slice bounds out of range''))"
proof (cases "offset \<le> int (length ids)")
  case True
  with V2_distinct_run [OF assms(1-5) True assms(6,7)] show ?thesis by simp
next
  case False
  have "i64 (offset + sz) = offset + sz" using assms(5-7) by (intro i64_id) auto
  with False assms show ?thesis by (simp add: GetDetailedTokensV2_def Let_def fp_ids_def throwA_run)
qed

theorem GetDetailedTokensV2_in_order_witness:
  "\<exists>d. fst (GetDetailedTokensV2 query_filter 1 5 query_db) = Inr [d] \<and> tok_IndexID (dt2_Token d) = ''t1''"
proof -
  obtain d where d: "row_of query_db query_filter ''t1'' = Some d" using query_row_of by blast
  have ids: "fp_IDs query_filter = Some [''t3'', ''t4'', ''t1'']" by (simp add: query_filter_def)
  from GetDetailedTokensV2_in_order [OF query_unique ids, of 1 5] d query_row_of row_of_index [OF d]
  show ?thesis by (simp add: map_filter_simps)
qed



end
