(* ===== verification/StoreCollections.thy ===== *)
theory StoreCollections
  imports StoreQueries
begin

text \<open>
  Collections and the tokens they hold, the last part of \<open>store.go\<close> but for the sales. Neither
  \<open>collections\<close> nor \<open>collection_assets\<close> has a unique index: what is said about them rests on the
  filters of the updates.
\<close>

section \<open>Writes\<close>

definition IndexCollection :: "store \<Rightarrow> gotime \<Rightarrow> Collection \<Rightarrow> (db, unit) act" where
  "IndexCollection st now collection =
     (let collection = (if time_IsZero (col_LastUpdatedTime collection)
                        then collection\<lparr>col_LastUpdatedTime := now\<rparr> else collection)
      in bindA (on_collections (UpsertOne (collectionsCollection st) (\<lambda>c. col_ID c = col_ID collection)
                  (\<lambda>_. collection) collection))
           (\<lambda>_. retA ()))"

definition index_collection_asset :: "store \<Rightarrow> CollectionAsset \<Rightarrow> (db, unit) act" where
  "index_collection_asset st c =
     bindA (tryA (on_collectionAssets (UpsertOne (collectionAssetsCollection st)
              (\<lambda>a. cas_CollectionID a = cas_CollectionID c \<and> cas_TokenIndexID a = cas_TokenIndexID c) (\<lambda>_. c) c)))
       (\<lambda>r. case r of
          Inl e \<Rightarrow> if e = ErrDuplicateKey then retA () else throwA e
        | Inr _ \<Rightarrow> retA ())"

definition IndexCollectionAsset :: "store \<Rightarrow> string \<Rightarrow> CollectionAsset list \<Rightarrow> (db, unit) act" where
  "IndexCollectionAsset st collectionID collectionAssets = forA (index_collection_asset st) collectionAssets"

definition DeleteDeprecatedCollectionAsset :: "store \<Rightarrow> string \<Rightarrow> string \<Rightarrow> (db, unit) act" where
  "DeleteDeprecatedCollectionAsset st collectionID runID =
     bindA (on_collectionAssets (DeleteMany (collectionAssetsCollection st)
              (\<lambda>a. cas_CollectionID a = collectionID \<and> cas_RunID a \<noteq> runID)))
       (\<lambda>_. retA ())"

definition delete_collection_transaction :: "store \<Rightarrow> string \<Rightarrow> (db \<times> bool, unit) act" where
  "delete_collection_transaction st collectionID =
     bindA (sess_delete st (on_collections (DeleteOne (collectionsCollection st) (\<lambda>c. col_ID c = collectionID)))) (\<lambda>_.
     bindA (sess_delete st (on_collectionAssets (DeleteMany (collectionAssetsCollection st)
              (\<lambda>a. cas_CollectionID a = collectionID)))) (\<lambda>_.
     retA ()))"

definition DeleteCollection :: "store \<Rightarrow> string \<Rightarrow> (db, unit) act" where
  "DeleteCollection st collectionID = WithTransaction st (delete_collection_transaction st collectionID)"

definition replace_creator :: "gotime \<Rightarrow> string \<Rightarrow> string \<Rightarrow> Collection \<Rightarrow> Collection" where
  "replace_creator now oldCreator newCreator c =
     c\<lparr>col_Creators := map (\<lambda>x. if x = oldCreator then newCreator else x) (col_Creators c),
       col_LastUpdatedTime := now\<rparr>"

definition ReplaceCollectionCreator :: "store \<Rightarrow> gotime \<Rightarrow> string \<Rightarrow> string \<Rightarrow> (db, unit) act" where
  "ReplaceCollectionCreator st now oldCreator newCreator =
     bindA (on_collections (UpdateMany (collectionsCollection st) (\<lambda>c. oldCreator \<in> set (col_Creators c))
              (replace_creator now oldCreator newCreator)))
       (\<lambda>_. retA ())"

definition UpdateCollectionCreators :: "store \<Rightarrow> gotime \<Rightarrow> string \<Rightarrow> string list \<Rightarrow> (db, unit) act" where
  "UpdateCollectionCreators st now collectionID creators =
     bindA (on_collections (UpdateOne (collectionsCollection st) (\<lambda>c. col_ID c = collectionID)
              (\<lambda>c. c\<lparr>col_Creators := creators, col_LastUpdatedTime := now\<rparr>)))
       (\<lambda>_. retA ())"

section \<open>Reads\<close>

text \<open>A missing document reads as \<open>None\<close>, any other error is returned.\<close>

definition or_missing :: "'a \<Rightarrow> ('d \<Rightarrow> 'a) \<Rightarrow> 'd res \<Rightarrow> 'a res" where
  "or_missing dflt f r =
     (case r of
        Inl e \<Rightarrow> if e = ErrNoDocuments then Inr dflt else Inl e
      | Inr d \<Rightarrow> Inr (f d))"

text \<open>The filter names the field \<open>creator\<close>, which no collection has (it is \<open>creators\<close>): it matches nothing.\<close>

definition GetCollectionLastUpdatedTimeForCreator :: "store \<Rightarrow> string \<Rightarrow> (db, gotime) act" where
  "GetCollectionLastUpdatedTimeForCreator st creator =
     readA db_collections (\<lambda>cs. or_missing 0 col_LastUpdatedTime
       (FindOne (collectionsCollection st) (\<lambda>_. False) (sort_newest col_LastUpdatedTime) cs))"

definition GetCollectionLastUpdatedTime :: "store \<Rightarrow> string \<Rightarrow> (db, gotime) act" where
  "GetCollectionLastUpdatedTime st collectionID =
     readA db_collections (\<lambda>cs. or_missing 0 col_LastUpdatedTime
       (FindOne (collectionsCollection st) (\<lambda>c. col_ID c = collectionID) (\<lambda>ds. ds) cs))"

definition GetCollectionByID :: "store \<Rightarrow> string \<Rightarrow> (db, Collection option) act" where
  "GetCollectionByID st i =
     readA db_collections (\<lambda>cs. or_missing None Some
       (FindOne (collectionsCollection st) (\<lambda>c. col_ID c = i) (\<lambda>ds. ds) cs))"

text \<open>
  The pages of \<open>GetCollectionsByCreators\<close>. No collection has the field \<open>lastActivityTime\<close>, so its
  sort leaves the order to \<open>_id\<close>, the newest first. The last page is the one that would go beyond
  the size; its limit is what is left.
\<close>

fun collection_pages ::
    "store \<Rightarrow> nat \<Rightarrow> string list \<Rightarrow> int \<Rightarrow> int \<Rightarrow> nat \<Rightarrow> Collection list \<Rightarrow> (db, Collection list option) act" where
  "collection_pages st 0 creators offset sz pg collections = retA None"
| "collection_pages st (Suc fuel) creators offset sz pg collections =
     (let queryOffset = i64 (offset + int (pg * QueryPageSize));
          isLastPage = (i64 (queryOffset + int QueryPageSize) > i64 (offset + sz));
          queryLimit = (if isLastPage then i64 (offset + sz - queryOffset) else int QueryPageSize)
      in bindA (readA db_collections (Find (collectionsCollection st)
                  (\<lambda>c. set (col_Creators c) \<inter> set creators \<noteq> {}) (sort_newest (\<lambda>_. 0)) queryOffset queryLimit)) (\<lambda>found.
         let collections' = collections @ found
         in if int (length collections') < queryLimit \<or> isLastPage then retA (Some collections')
            else collection_pages st fuel creators offset sz (pg + 1) collections'))"

definition GetCollectionsByCreators ::
    "store \<Rightarrow> nat \<Rightarrow> string list \<Rightarrow> int \<Rightarrow> int \<Rightarrow> (db, Collection list option) act" where
  "GetCollectionsByCreators st fuel creators offset sz = collection_pages st fuel creators offset sz 0 []"

definition collection_asset_sort :: "string \<Rightarrow> CollectionAsset list \<Rightarrow> CollectionAsset list" where
  "collection_asset_sort sortBy ds =
     (if sortBy = ''lastActivityTime'' then sort_newest cas_LastActivityTime ds
      else sort_key cas_Edition (rev ds))"

definition GetDetailedTokensByCollectionID ::
    "store \<Rightarrow> string \<Rightarrow> string \<Rightarrow> int \<Rightarrow> int \<Rightarrow> (db, DetailedTokenV2 list) act" where
  "GetDetailedTokensByCollectionID st collectionID sortBy offset sz =
     bindA (readA db_collectionAssets (Find (collectionAssetsCollection st) (\<lambda>a. cas_CollectionID a = collectionID)
              (collection_asset_sort sortBy) offset sz)) (\<lambda>tokens.
     let indexIDs = map cas_TokenIndexID tokens
     in if indexIDs = [] then retA []
        else GetDetailedTokensV2 \<lparr>fp_Source = [], fp_IDs = Some indexIDs, fp_BurnedIncluded = False\<rparr>
               0 (int (length indexIDs)))"

section \<open>What the writes do\<close>

definition cas_key :: "CollectionAsset \<Rightarrow> string \<times> string" where
  "cas_key a = (cas_CollectionID a, cas_TokenIndexID a)"

lemma cas_key_eq: "(cas_CollectionID a = cas_CollectionID c \<and> cas_TokenIndexID a = cas_TokenIndexID c) = (cas_key a = cas_key c)"
  by (auto simp: cas_key_def)

text \<open>An upsert without a unique index puts the document in the place of the first match or at the end.\<close>

definition put_first :: "('d \<Rightarrow> bool) \<Rightarrow> 'd \<Rightarrow> 'd list \<Rightarrow> 'd list" where
  "put_first p d ds = (if \<exists>x\<in>set ds. p x then upd1 p (\<lambda>_. d) ds else ds @ [d])"

lemma upsert_no_unique:
  "\<exists>r. upsert_one no_unique p (\<lambda>_. d) d ds = (Inr r, put_first p d ds)"
  by (auto simp: upsert_one_def put_first_def update_one_def taken_def find_None split: option.split)

lemma find_put_first: "p d \<Longrightarrow> List.find p (put_first p d ds) = Some d"
  by (induction ds) (auto simp: put_first_def split: if_splits)

lemma set_put_first:
  assumes "distinct (map key ds)"
  shows "set (put_first (\<lambda>x. key x = key d) d ds) = insert d {x \<in> set ds. key x \<noteq> key d}"
    and "distinct (map key (put_first (\<lambda>x. key x = key d) d ds))"
proof -
  have "set (upd1 (\<lambda>x. key x = key d) (\<lambda>_. d) ds) = (if key d \<in> key ` set ds then insert d else (\<lambda>S. S)) {x \<in> set ds. key x \<noteq> key d}
      \<and> map key (upd1 (\<lambda>x. key x = key d) (\<lambda>_. d) ds) = map key ds"
    using assms
  proof (induction ds)
    case (Cons x xs)
    then show ?case by (cases "key x = key d") (auto simp: image_iff)
  qed simp
  then show "set (put_first (\<lambda>x. key x = key d) d ds) = insert d {x \<in> set ds. key x \<noteq> key d}"
    and "distinct (map key (put_first (\<lambda>x. key x = key d) d ds))"
    using assms by (auto simp: put_first_def image_iff)
qed

context mongo_store
begin

lemma IndexCollection_run:
  "IndexCollection st now c s =
    (let c = (if time_IsZero (col_LastUpdatedTime c) then c\<lparr>col_LastUpdatedTime := now\<rparr> else c)
     in (Inr (), s\<lparr>db_collections := put_first (\<lambda>x. col_ID x = col_ID c) c (db_collections s)\<rparr>))"
proof -
  have "IndexCollection st now c s = (Inr (), s\<lparr>db_collections := put_first (\<lambda>x. col_ID x = col_ID c') c' (db_collections s)\<rparr>)"
    if "c' = (if time_IsZero (col_LastUpdatedTime c) then c\<lparr>col_LastUpdatedTime := now\<rparr> else c)" for c'
    using upsert_no_unique [of "\<lambda>x. col_ID x = col_ID c'" c' "db_collections s"]
    by (auto simp: IndexCollection_def Let_def that [symmetric] run_db collections.UpsertOne_law)
  then show ?thesis by (simp only: Let_def)
qed

lemma index_collection_asset_run:
  "index_collection_asset st c s =
    (Inr (), s\<lparr>db_collectionAssets := put_first (\<lambda>x. cas_key x = cas_key c) c (db_collectionAssets s)\<rparr>)"
  using upsert_no_unique [of "\<lambda>x. cas_key x = cas_key c" c "db_collectionAssets s"]
  by (auto simp: index_collection_asset_def cas_key_eq run_db collectionAssets.UpsertOne_law)

lemma IndexCollectionAsset_run:
  "IndexCollectionAsset st i cs s =
    (Inr (), s\<lparr>db_collectionAssets := fold (\<lambda>c. put_first (\<lambda>x. cas_key x = cas_key c) c) cs (db_collectionAssets s)\<rparr>)"
  unfolding IndexCollectionAsset_def
  by (induction cs arbitrary: s) (simp_all add: run_db index_collection_asset_run)

lemma DeleteDeprecatedCollectionAsset_run:
  "DeleteDeprecatedCollectionAsset st i r s =
    (Inr (), s\<lparr>db_collectionAssets :=
       filter (\<lambda>a. \<not> (cas_CollectionID a = i \<and> cas_RunID a \<noteq> r)) (db_collectionAssets s)\<rparr>)"
  by (simp add: DeleteDeprecatedCollectionAsset_def run_db collectionAssets.DeleteMany_law)

lemma DeleteCollection_run:
  "DeleteCollection st i s =
    (Inr (), s\<lparr>db_collections := del1 (\<lambda>c. col_ID c = i) (db_collections s),
       db_collectionAssets := filter (\<lambda>a. cas_CollectionID a \<noteq> i) (db_collectionAssets s)\<rparr>)"
  by (simp add: DeleteCollection_def delete_collection_transaction_def sess_run run_transaction_def sess_op_def run_db
      collections.DeleteOne_law collectionAssets.DeleteMany_law)

lemma GetCollectionByID_run: "GetCollectionByID st i s = (Inr (List.find (\<lambda>c. col_ID c = i) (db_collections s)), s)"
  by (simp add: GetCollectionByID_def or_missing_def run_db collections.find_one_natural [unfolded id_def] split: option.split)

lemma ReplaceCollectionCreator_run:
  "ReplaceCollectionCreator st now oldc newc s =
    (Inr (), s\<lparr>db_collections := map (\<lambda>c. if oldc \<in> set (col_Creators c) then replace_creator now oldc newc c else c)
       (db_collections s)\<rparr>)"
proof -
  have "\<exists>r. update_many no_unique p f ds = (Inr r, map (\<lambda>d. if p d then f d else d) ds)" for p f and ds :: "Collection list"
  proof -
    have "update_many_from no_unique p f acc n ds = (Inr (n + length (filter p ds)), acc @ map (\<lambda>d. if p d then f d else d) ds)" for acc n
      by (induction ds arbitrary: acc n) (auto simp: taken_def)
    then show ?thesis by (simp add: update_many_def)
  qed
  from this [of "\<lambda>c. oldc \<in> set (col_Creators c)" "replace_creator now oldc newc" "db_collections s"]
  show ?thesis by (auto simp: ReplaceCollectionCreator_def run_db collections.UpdateMany_law)
qed

end

section \<open>Pages and synchronisation\<close>

lemma fold_put_first:
  assumes "distinct (map key ds)" and "distinct (map key cs)"
  shows "set (fold (\<lambda>c. put_first (\<lambda>x. key x = key c) c) cs ds) = set cs \<union> {x \<in> set ds. key x \<notin> key ` set cs}"
    and "distinct (map key (fold (\<lambda>c. put_first (\<lambda>x. key x = key c) c) cs ds))"
proof -
  have "set (fold (\<lambda>c. put_first (\<lambda>x. key x = key c) c) cs ds) = set cs \<union> {x \<in> set ds. key x \<notin> key ` set cs} \<and>
      distinct (map key (fold (\<lambda>c. put_first (\<lambda>x. key x = key c) c) cs ds))"
    using assms
  proof (induction cs arbitrary: ds)
    case (Cons c cs)
    from Cons.prems(2) have new: "key c \<notin> key ` set cs" and cs: "distinct (map key cs)" by auto
    from Cons.IH [OF set_put_first(2) [OF Cons.prems(1)] cs, of c] show ?case
      using new by (auto simp: set_put_first(1) [OF Cons.prems(1)])
  qed simp
  then show "set (fold (\<lambda>c. put_first (\<lambda>x. key x = key c) c) cs ds) = set cs \<union> {x \<in> set ds. key x \<notin> key ` set cs}"
    and "distinct (map key (fold (\<lambda>c. put_first (\<lambda>x. key x = key c) c) cs ds))" by blast+
qed

lemma distinct_fold_put_first:
  "distinct (map key ds) \<Longrightarrow> distinct (map key (fold (\<lambda>c. put_first (\<lambda>x. key x = key c) c) cs ds))"
  by (induction cs arbitrary: ds) (simp_all add: set_put_first(2))

definition by_creators :: "string list \<Rightarrow> db \<Rightarrow> Collection list" where
  "by_creators creators s = rev (filter (\<lambda>c. set (col_Creators c) \<inter> set creators \<noteq> {}) (db_collections s))"

lemma sort_newest_const: "sort_newest (\<lambda>_. c) ds = rev ds"
  by (simp add: sort_newest_def sort_key_const)

context mongo_store
begin

lemma collection_pages_run:
  assumes "0 \<le> offset" and "0 \<le> sz" and "offset + sz + 25 < 2 ^ 63"
    and D: "D = drop (nat offset) (by_creators creators s)"
    and "nat sz div 25 + 1 \<le> fuel + pg" and "25 * pg \<le> nat sz" and "cs = take (25 * pg) D"
  shows "collection_pages st fuel creators offset sz pg cs s =
    (Inr (Some (if 25 dvd sz then D else take (nat sz) D)), s)"
  using assms(5-)
proof (induction fuel arbitrary: pg cs)
  case 0
  then have "nat sz div 25 < pg" by simp
  with 0 show ?case by (simp add: div_less_iff_less_mult)
next
  case (Suc fuel)
  define lst where "lst = (sz < 25 * int pg + 25)"
  define lim where "lim = (if lst then sz - 25 * int pg else 25)"
  define found where "found = page (25 * int pg) lim D"
  from Suc.prems(2) have pg: "25 * int pg \<le> sz" using assms(2) by linarith
  have q1: "i64 (offset + int (pg * QueryPageSize)) = offset + 25 * int pg"
    using assms(1-3) pg by (subst i64_id) (auto simp: QueryPageSize_def)
  have q2: "i64 (offset + 25 * int pg + int QueryPageSize) = offset + 25 * int pg + 25"
    using assms(1-3) pg by (subst i64_id) (auto simp: QueryPageSize_def)
  have q3: "i64 (offset + sz) = offset + sz" and q4: "i64 (offset + sz - (offset + 25 * int pg)) = sz - 25 * int pg"
    using assms(1-3) pg by (auto intro!: i64_id)
  have read: "readA db_collections (Find (collectionsCollection st)
      (\<lambda>c. set (col_Creators c) \<inter> set creators \<noteq> {}) (sort_newest (\<lambda>_. 0)) (offset + 25 * int pg) lim) s = (Inr found, s)"
    using assms(1) by (simp add: readA_run collections.Find_law find_page_def found_def page_def Let_def D
        sort_newest_const by_creators_def nat_add_distrib nat_mult_distrib add.commute)
  note read_then = bindA_Inr [where p = "readA db_collections (Find (collectionsCollection st)
      (\<lambda>c. set (col_Creators c) \<inter> set creators \<noteq> {}) (sort_newest (\<lambda>_. 0)) (offset + 25 * int pg) lim)", OF read]
  have step: "collection_pages st (Suc fuel) creators offset sz pg cs s =
      (if int (length (cs @ found)) < lim \<or> lst then (Inr (Some (cs @ found)), s)
       else collection_pages st fuel creators offset sz (pg + 1) (cs @ found) s)"
  proof -
    have l: "(offset + 25 * int pg + 25 > offset + sz) = lst" by (auto simp: lst_def)
    have m: "(if lst then sz - 25 * int pg else int QueryPageSize) = lim" by (simp add: lim_def QueryPageSize_def)
    show ?thesis
      unfolding collection_pages.simps(2) Let_def q1 q2 q3 q4 l m read_then
      by (simp add: retA_run del: collection_pages.simps)
  qed
  show ?case
  proof (cases lst)
    case True
    then have "(25 * int pg + (sz - 25 * int pg)) mod 25 = sz - 25 * int pg"
      using pg by (simp only: mod_mult_self4) (simp add: lst_def)
    then have "sz mod 25 = sz - 25 * int pg" by simp
    then have dvd: "25 dvd sz \<longleftrightarrow> lim = 0" using True by (simp add: lim_def dvd_eq_mod_eq_0)
    have "cs @ found = (if lim = 0 then D else take (25 * pg + nat lim) D)"
      using pg True Suc.prems(3) by (simp add: found_def page_def Let_def take_add lim_def nat_mult_distrib)
    moreover have "25 * pg + nat lim = nat sz" using pg True by (simp add: lim_def nat_diff_distrib nat_mult_distrib)
    ultimately show ?thesis using step True dvd by (simp del: collection_pages.simps)
  next
    case False
    then have lim: "lim = 25" and sz: "25 * int pg + 25 \<le> sz" by (simp_all add: lim_def lst_def)
    have cs': "cs @ found = take (25 * (pg + 1)) D"
      using Suc.prems(3) lim by (simp add: found_def page_def Let_def nat_mult_distrib take_add [symmetric] algebra_simps)
    show ?thesis
    proof (cases "length (cs @ found) < 25")
      case True
      then have "length D < 25" unfolding cs' by simp
      then have "cs @ found = D" and "take (nat sz) D = D" using sz unfolding cs' by simp_all
      with True step lim False show ?thesis by (simp del: collection_pages.simps)
    next
      case more: False
      with step lim False Suc.IH [OF _ _ cs'] Suc.prems(1) sz show ?thesis by (simp del: collection_pages.simps)
    qed
  qed
qed

end

section \<open>Properties\<close>

definition sample_collection :: Collection where
  "sample_collection = \<lparr>col_ID = ''c1'', col_ExternalID = ''1'', col_Creators = [''alice'', ''bob''], col_Name = ''n'',
     col_Description = [], col_Items = 2, col_ImageURL = [], col_Contracts = \<lparr>ca_Ethereum = \<lparr>eca_ERC721 = [], eca_ERC1155 = []\<rparr>, ca_Tezos = \<lparr>tca_FA2 = []\<rparr>\<rparr>,
     col_Published = True,
     col_Source = ''objkt'', col_ExternalURL = [], col_Metadata = [], col_LastUpdatedTime = 0, col_CreatedAt = 1\<rparr>"

definition sample_cas :: "string \<Rightarrow> string \<Rightarrow> CollectionAsset" where
  "sample_cas i run = \<lparr>cas_CollectionID = ''c1'', cas_TokenIndexID = i, cas_Edition = 1, cas_LastActivityTime = 2, cas_RunID = run\<rparr>"

definition collection_db :: db where
  "collection_db = query_db\<lparr>db_collections := [sample_collection],
     db_collectionAssets := [sample_cas ''t1'' ''r1'', sample_cas ''t3'' ''r1'']\<rparr>"

lemma filter_upd1_other: "(\<And>x. q x \<Longrightarrow> \<not> P x) \<Longrightarrow> \<not> P d \<Longrightarrow> filter P (upd1 q (\<lambda>_. d) ds) = filter P ds"
  by (induction ds) auto

lemma filter_put_first_other:
  assumes "\<And>x. q x \<Longrightarrow> \<not> P x" and "\<not> P d"
  shows "filter P (put_first q d ds) = filter P ds"
  using assms by (simp add: put_first_def filter_upd1_other)

lemma filter_fold_put_first:
  assumes "\<And>c x. c \<in> set cs \<Longrightarrow> key x = key c \<Longrightarrow> \<not> P x"
  shows "filter P (fold (\<lambda>c. put_first (\<lambda>x. key x = key c) c) cs ds) = filter P ds"
  using assms
proof (induction cs arbitrary: ds)
  case (Cons a cs)
  have "\<not> P x" if "c \<in> set cs" "key x = key c" for c x
    using that by (intro Cons.prems [of c x]) simp_all
  note IH = Cons.IH [OF this]
  have "filter P (put_first (\<lambda>x. key x = key a) a ds) = filter P ds"
    by (rule filter_put_first_other) (rule Cons.prems [of a], simp_all)+
  then show ?case by (simp add: IH)
qed simp

lemma collection_refresh_run:
  assumes "mongo_store st" and "distinct (map cas_key (db_collectionAssets s))" and "distinct (map cas_TokenIndexID cs)"
    and "list_all (\<lambda>a. cas_CollectionID a = c \<and> cas_RunID a = run) cs"
    and "list_all (\<lambda>a. cas_CollectionID a = c \<longrightarrow> cas_RunID a \<noteq> run) (db_collectionAssets s)"
  shows "\<exists>as. bindA (IndexCollectionAsset st c cs) (\<lambda>_. DeleteDeprecatedCollectionAsset st c run) s =
      (Inr (), s\<lparr>db_collectionAssets := as\<rparr>) \<and>
    {a \<in> set as. cas_CollectionID a = c} = set cs \<and>
    filter (\<lambda>a. cas_CollectionID a \<noteq> c) as = filter (\<lambda>a. cas_CollectionID a \<noteq> c) (db_collectionAssets s) \<and>
    distinct (map cas_key as)"
proof -
  have of_cs: "cas_CollectionID a = c" "cas_RunID a = run" if "a \<in> set cs" for a
    using assms(4) that by (auto simp: list_all_iff)
  have "inj_on cas_TokenIndexID (set cs)" using assms(3) by (simp add: distinct_map)
  then have "inj_on cas_key (set cs)" by (auto simp: inj_on_def cas_key_def)
  with assms(3) have "distinct (map cas_key cs)" by (simp add: distinct_map)
  note fold = fold_put_first [OF assms(2) this]
  have old: "cas_RunID a \<noteq> run" if "a \<in> set (db_collectionAssets s)" "cas_CollectionID a = c" for a
    using assms(5) that by (auto simp: list_all_iff)
  have key: "cas_CollectionID a \<noteq> c \<Longrightarrow> cas_key a \<notin> cas_key ` set cs" for a
    using of_cs by (auto simp: cas_key_def)
  let ?as = "filter (\<lambda>a. \<not> (cas_CollectionID a = c \<and> cas_RunID a \<noteq> run))
      (fold (\<lambda>c. put_first (\<lambda>x. cas_key x = cas_key c) c) cs (db_collectionAssets s))"
  have "filter (\<lambda>a. cas_CollectionID a \<noteq> c) ?as = filter (\<lambda>a. cas_CollectionID a \<noteq> c)
      (fold (\<lambda>c. put_first (\<lambda>x. cas_key x = cas_key c) c) cs (db_collectionAssets s))"
    unfolding filter_filter by (rule filter_cong) auto
  also have "\<dots> = filter (\<lambda>a. cas_CollectionID a \<noteq> c) (db_collectionAssets s)"
    by (rule filter_fold_put_first) (use of_cs in \<open>auto simp: cas_key_def\<close>)
  finally have "filter (\<lambda>a. cas_CollectionID a \<noteq> c) ?as = filter (\<lambda>a. cas_CollectionID a \<noteq> c) (db_collectionAssets s)" .
  moreover have "{a \<in> set ?as. cas_CollectionID a = c} = set cs" "distinct (map cas_key ?as)"
    by (simp_all add: fold distinct_map_filter) (use of_cs old key in blast)+
  ultimately show ?thesis
    by (intro exI [of _ ?as]) (simp add: bindA_run mongo_store.IndexCollectionAsset_run [OF assms(1)]
        mongo_store.DeleteDeprecatedCollectionAsset_run [OF assms(1)])
qed

text \<open>
  C10: A refresh of a collection, as the workflows run it: the assets of one run are written, then
  those of earlier runs are deleted. When no two documents share a collection and a token, no two assets of the
  run share a token and the id of the run is new, then afterwards the collection holds exactly the assets of the
  run, each once, the documents of the other collections are what and where they were, and nothing
  else in the database has changed.
\<close>

theorem collection_refresh_synchronises:
  assumes "mongo_store st" and "distinct (map cas_key (db_collectionAssets s))" and "distinct (map cas_TokenIndexID cs)"
    and "list_all (\<lambda>a. cas_CollectionID a = c \<and> cas_RunID a = run) cs"
    and "list_all (\<lambda>a. cas_CollectionID a = c \<longrightarrow> cas_RunID a \<noteq> run) (db_collectionAssets s)"
  shows "\<exists>as. bindA (IndexCollectionAsset st c cs) (\<lambda>_. DeleteDeprecatedCollectionAsset st c run) s =
      (Inr (), s\<lparr>db_collectionAssets := as\<rparr>) \<and>
    {a \<in> set as. cas_CollectionID a = c} = set cs \<and>
    filter (\<lambda>a. cas_CollectionID a \<noteq> c) as = filter (\<lambda>a. cas_CollectionID a \<noteq> c) (db_collectionAssets s) \<and>
    distinct (map cas_key as)"
  by (rule collection_refresh_run [OF assms])

theorem collection_refresh_synchronises_witness:
  "\<exists>s'. bindA (IndexCollectionAsset (mem_store []) ''c1'' [sample_cas ''t2'' ''r2''])
      (\<lambda>_. DeleteDeprecatedCollectionAsset (mem_store []) ''c1'' ''r2'') collection_db = (Inr (), s') \<and>
    {a \<in> set (db_collectionAssets s'). cas_CollectionID a = ''c1''} = {sample_cas ''t2'' ''r2''}"
  using collection_refresh_synchronises [OF mem_store_lawful, of collection_db "[sample_cas ''t2'' ''r2'']" "''c1''" "''r2''" "[]"]
  by (fastforce simp: collection_db_def sample_cas_def cas_key_def)

text \<open>
  \<open>DeleteCollection\<close> removes the collection together with all its assets and leaves everything
  else as it was; afterwards \<open>GetCollectionByID\<close> does not find it, if its id was used once.
\<close>

theorem DeleteCollection_complete:
  assumes "mongo_store st" and "distinct (map col_ID (db_collections s))"
  shows "\<exists>s'. DeleteCollection st c s = (Inr (), s') \<and> fst (GetCollectionByID st c s') = Inr None \<and>
    set (db_collections s') = {x \<in> set (db_collections s). col_ID x \<noteq> c} \<and>
    db_collectionAssets s' = filter (\<lambda>a. cas_CollectionID a \<noteq> c) (db_collectionAssets s) \<and>
    db_tokens s' = db_tokens s \<and> db_assets s' = db_assets s"
proof -
  have "set (del1 (\<lambda>x. col_ID x = c) ds) = {x \<in> set ds. col_ID x \<noteq> c}" if "distinct (map col_ID ds)" for ds
    using that by (induction ds) (auto simp: image_iff)
  from this [OF assms(2)] have "set (del1 (\<lambda>x. col_ID x = c) (db_collections s)) = {x \<in> set (db_collections s). col_ID x \<noteq> c}" .
  then show ?thesis
    by (simp add: mongo_store.DeleteCollection_run [OF assms(1)] mongo_store.GetCollectionByID_run [OF assms(1)] find_None)
qed

theorem DeleteCollection_complete_witness:
  "fst (GetCollectionByID (mem_store []) ''c1'' (snd (DeleteCollection (mem_store []) ''c1'' collection_db))) = Inr None"
  using DeleteCollection_complete [OF mem_store_lawful, of collection_db "[]" "''c1''"]
  by (auto simp: collection_db_def)

text \<open>
  C19: \<open>GetCollectionsByCreators\<close> returns after at most \<open>size div 25 + 1\<close> pages. Its answer is the
  collections of the creators, newest first, from the offset on and as many as the size, unless the
  size is a multiple of the page size: then the last page has limit 0, which the server reads as no
  limit, and everything from the offset on is returned.
\<close>

theorem GetCollectionsByCreators_pages:
  assumes "mongo_store st" and "0 \<le> offset" and "0 \<le> sz" and "offset + sz + 25 < 2 ^ 63" and "nat sz div 25 < fuel"
  shows "GetCollectionsByCreators st fuel creators offset sz s =
    (Inr (Some (if 25 dvd sz then drop (nat offset) (by_creators creators s)
                else take (nat sz) (drop (nat offset) (by_creators creators s)))), s)"
  unfolding GetCollectionsByCreators_def
  using assms by (intro mongo_store.collection_pages_run) auto

theorem GetCollectionsByCreators_pages_witness:
  "fst (GetCollectionsByCreators (mem_store []) 2 [''bob''] 0 25
     (empty_db\<lparr>db_collections := replicate 26 sample_collection\<rparr>)) = Inr (Some (replicate 26 sample_collection))"
  using GetCollectionsByCreators_pages [OF mem_store_lawful, of 0 25 2 "[]" "[''bob'']"
      "empty_db\<lparr>db_collections := replicate 26 sample_collection\<rparr>"]
  by (simp add: by_creators_def sample_collection_def filter_replicate)

text \<open>
  \<open>IndexCollection\<close> and \<open>GetCollectionByID\<close> are inverse to each other: what was written is read
  back, with the time of the call where the caller gave none.
\<close>

theorem IndexCollection_roundtrip:
  assumes "mongo_store st"
  shows "fst (GetCollectionByID st (col_ID c) (snd (IndexCollection st now c s))) =
    Inr (Some (if time_IsZero (col_LastUpdatedTime c) then c\<lparr>col_LastUpdatedTime := now\<rparr> else c))"
  by (simp add: mongo_store.IndexCollection_run [OF assms] mongo_store.GetCollectionByID_run [OF assms] Let_def find_put_first)

theorem IndexCollection_roundtrip_witness:
  "fst (GetCollectionByID (mem_store []) ''c1'' (snd (IndexCollection (mem_store []) 7 sample_collection collection_db))) =
    Inr (Some (sample_collection\<lparr>col_LastUpdatedTime := 7\<rparr>))"
  using IndexCollection_roundtrip [OF mem_store_lawful, of "[]" sample_collection 7 collection_db]
  by (simp add: sample_collection_def time_IsZero_def)

text \<open>
  After \<open>ReplaceCollectionCreator\<close> the old creator is gone from every collection, and for a
  new creator who had no collection, the query by creators finds exactly the collections of the old one.
\<close>

theorem ReplaceCollectionCreator_moves_collections:
  assumes "mongo_store st" and "oldc \<noteq> newc" and "by_creators [newc] s = []"
  shows "\<exists>s'. ReplaceCollectionCreator st now oldc newc s = (Inr (), s') \<and> by_creators [oldc] s' = [] \<and>
    map col_ID (by_creators [newc] s') = map col_ID (by_creators [oldc] s)"
proof -
  have none: "newc \<notin> set (col_Creators c)" if "c \<in> set (db_collections s)" for c
    using assms(3) that by (auto simp: by_creators_def filter_empty_conv)
  let ?f = "\<lambda>c. if oldc \<in> set (col_Creators c) then replace_creator now oldc newc c else c"
  have old: "oldc \<notin> set (col_Creators (?f c))" for c using assms(2) by (auto simp: replace_creator_def)
  have new: "newc \<in> set (col_Creators (?f c)) \<longleftrightarrow> oldc \<in> set (col_Creators c)" if "c \<in> set (db_collections s)" for c
    using none [OF that] by (auto simp: replace_creator_def image_iff)
  have ids: "col_ID (?f c) = col_ID c" for c by (simp add: replace_creator_def)
  have "filter (\<lambda>c. newc \<in> set (col_Creators c)) (map ?f cs) = map ?f (filter (\<lambda>c. oldc \<in> set (col_Creators c)) cs)"
    if "set cs \<subseteq> set (db_collections s)" for cs
    using that by (induction cs) (simp_all add: new del: if_split)
  then have "map col_ID (filter (\<lambda>c. newc \<in> set (col_Creators c)) (map ?f (db_collections s)))
      = map col_ID (filter (\<lambda>c. oldc \<in> set (col_Creators c)) (db_collections s))"
    by (simp add: comp_def ids)
  moreover have "filter (\<lambda>c. oldc \<in> set (col_Creators c)) (map ?f (db_collections s)) = []"
    by (simp only: filter_map comp_def old) simp
  ultimately show ?thesis
    by (simp add: mongo_store.ReplaceCollectionCreator_run [OF assms(1)] by_creators_def rev_map [symmetric])
qed

theorem ReplaceCollectionCreator_moves_collections_witness:
  "\<exists>s'. ReplaceCollectionCreator (mem_store []) 9 ''bob'' ''carol'' collection_db = (Inr (), s') \<and> by_creators [''bob''] s' = []"
  using ReplaceCollectionCreator_moves_collections [OF mem_store_lawful, of "''bob''" "''carol''" collection_db "[]" 9]
  by (auto simp: by_creators_def collection_db_def sample_collection_def)

definition collection_filter :: "string list \<Rightarrow> FilterParameter" where
  "collection_filter ids = \<lparr>fp_Source = [], fp_IDs = Some ids, fp_BurnedIncluded = False\<rparr>"

lemma row_of_collection_filter: "row_of s (collection_filter ids) = row_of s (collection_filter [])"
  using row_of_ids [where s = s and fp = "collection_filter []" and x = "Some ids"] by (simp add: collection_filter_def)

lemma distinct_collection_tokens:
  assumes "distinct (map cas_key ds)"
  shows "distinct (map cas_TokenIndexID (collection_asset_sort sortBy (filter (\<lambda>a. cas_CollectionID a = c) ds)))"
proof -
  let ?fs = "filter (\<lambda>a. cas_CollectionID a = c) ds"
  have "distinct (map cas_TokenIndexID ?fs)"
    using assms by (induction ds) (auto simp: cas_key_def image_iff)
  then have inj: "distinct ?fs" "inj_on cas_TokenIndexID (set ?fs)" by (simp_all add: distinct_map)
  have "distinct (collection_asset_sort sortBy ?fs)" "set (collection_asset_sort sortBy ?fs) = set ?fs"
    using inj(1) by (simp_all add: collection_asset_sort_def sort_newest_def)
  with inj(2) show ?thesis by (simp add: distinct_map)
qed

text \<open>
  \<open>GetDetailedTokensByCollectionID\<close> returns the tokens of a page of the collection that are not
  burned, in the order of the collection: by edition or, on request, the latest activity first.
\<close>

theorem GetDetailedTokensByCollectionID_in_order:
  assumes "mongo_store st" and "unique_rows s" and "distinct (map cas_key (db_collectionAssets s))"
    and "0 \<le> offset" and "0 < sz" and "sz < 2 ^ 63"
  shows "GetDetailedTokensByCollectionID st c sortBy offset sz s =
    (Inr (List.map_filter (row_of s (collection_filter [])) (map cas_TokenIndexID
       (take (nat sz) (drop (nat offset) (collection_asset_sort sortBy
          (filter (\<lambda>a. cas_CollectionID a = c) (db_collectionAssets s))))))), s)"
proof -
  define as where "as = take (nat sz) (drop (nat offset) (collection_asset_sort sortBy
      (filter (\<lambda>a. cas_CollectionID a = c) (db_collectionAssets s))))"
  define ids where "ids = map cas_TokenIndexID as"
  have found: "Find (collectionAssetsCollection st) (\<lambda>a. cas_CollectionID a = c) (collection_asset_sort sortBy) offset sz
      (db_collectionAssets s) = Inr as"
    using assms(4,5) mongo_collection.Find_law [OF mongo_store.collectionAssets_law [OF assms(1)]]
    by (simp add: find_page_def page_def Let_def as_def)
  have "distinct ids"
    using distinct_collection_tokens [OF assms(3), of sortBy c]
    by (simp add: ids_def as_def take_map [symmetric] drop_map [symmetric])
  have "length ids \<le> nat sz" by (simp add: ids_def as_def)
  then have len: "int (length ids) < 2 ^ 63" using assms(5,6) by linarith
  show ?thesis
  proof (cases "ids = []")
    case True
    then have "as = []" by (simp add: ids_def)
    with found True show ?thesis
      by (simp add: GetDetailedTokensByCollectionID_def act_simps as_def [symmetric] ids_def [symmetric] map_filter_simps)
  next
    case False
    have "GetDetailedTokensV2 (collection_filter ids) 0 (int (length ids)) s =
        (Inr (List.map_filter (row_of s (collection_filter [])) ids), s)"
      using V2_distinct_run [OF assms(2) _ False \<open>distinct ids\<close>, of "collection_filter ids" 0 "int (length ids)"] len
      by (simp add: collection_filter_def row_of_collection_filter [unfolded collection_filter_def, of s ids])
    moreover have "as \<noteq> []" using False by (simp add: ids_def)
    ultimately show ?thesis using found False
      by (simp add: GetDetailedTokensByCollectionID_def act_simps as_def [symmetric] ids_def [symmetric]
          collection_filter_def [symmetric])
  qed
qed

theorem GetDetailedTokensByCollectionID_in_order_witness:
  "\<exists>d e. fst (GetDetailedTokensByCollectionID (mem_store []) ''c1'' [] 0 10 collection_db) = Inr [d, e] \<and>
     tok_IndexID (dt2_Token d) = ''t3'' \<and> tok_IndexID (dt2_Token e) = ''t1''"
proof -
  have rows: "view_rows collection_db = view_rows query_db" by (simp add: collection_db_def view_rows_def)
  have "row_of collection_db (collection_filter []) ''t3'' \<noteq> None" "row_of collection_db (collection_filter []) ''t1'' \<noteq> None"
    by (simp_all add: row_of_def row_wanted_def unburned_def query_defs collection_db_def zero_Token_def collection_filter_def)
  then obtain d e where "row_of collection_db (collection_filter []) ''t3'' = Some d"
    "row_of collection_db (collection_filter []) ''t1'' = Some e" by blast
  moreover from this have "tok_IndexID (dt2_Token d) = ''t3''" "tok_IndexID (dt2_Token e) = ''t1''"
    by (simp_all add: row_of_index)
  moreover have "unique_rows collection_db" using query_unique by (simp only: rows)
  moreover have "distinct (map cas_key (db_collectionAssets collection_db))"
    by (simp add: collection_db_def cas_key_def sample_cas_def)
  ultimately show ?thesis
    using GetDetailedTokensByCollectionID_in_order [OF mem_store_lawful, of collection_db 0 10 "[]" "''c1''" "[]"]
    by (simp add: collection_db_def sample_cas_def collection_asset_sort_def map_filter_simps)
qed

end
