(* ===== verification/GoTime.thy ===== *)
theory GoTime
  imports GoStrings
begin

text \<open>
  The part of Go's package \<open>time\<close> that the program uses to print and read times:
  \<open>t.UTC().Format(time.RFC3339Nano)\<close> and \<open>time.Parse(time.RFC3339Nano, s)\<close>, down to the
  millisecond the database keeps. Reading is as lenient as the library: one digit will do for the
  hour, a comma for the period before the fraction, any number of digits after it. The section on
  the calendar shows that the two are inverse to each other from year 1 to year 9999.
\<close>

section \<open>The calendar\<close>

definition is_leap :: "int \<Rightarrow> bool" where
  "is_leap y = (4 dvd y \<and> (\<not> 100 dvd y \<or> 400 dvd y))"

definition month_lengths :: "int \<Rightarrow> nat list" where
  "month_lengths y = [31, if is_leap y then 29 else 28, 31, 30, 31, 30, 31, 31, 30, 31, 30, 31]"

text \<open>The days from the first day of year 1 to the first day of the year \<open>y\<close>.\<close>

definition days_before_year :: "int \<Rightarrow> int" where
  "days_before_year y = (let p = y - 1 in 365 * p + p div 4 - p div 100 + p div 400)"

definition days_of_date :: "int \<Rightarrow> nat \<Rightarrow> nat \<Rightarrow> int" where
  "days_of_date y m d = days_before_year y + int (sum_list (take (m - 1) (month_lengths y))) + int d - 1"

text \<open>
  The year of a day and the day in it, by the cycles of 400, 100, 4 years and 1 year as the
  library computes them.
\<close>

definition year_of_days :: "nat \<Rightarrow> nat \<times> nat" where
  "year_of_days n =
     (let a = n div 146097; n = n mod 146097;
          b = min 3 (n div 36524); n = n - 36524 * b;
          c = n div 1461; n = n mod 1461;
          d = min 3 (n div 365); n = n - 365 * d
      in (400 * a + 100 * b + 4 * c + d + 1, n))"

fun month_of_day :: "nat list \<Rightarrow> nat \<Rightarrow> nat \<Rightarrow> nat \<times> nat" where
  "month_of_day [] m d = (m, d + 1)"
| "month_of_day (l # ls) m d = (if d < l then (m, d + 1) else month_of_day ls (m + 1) (d - l))"

definition date_of_days :: "nat \<Rightarrow> nat \<times> nat \<times> nat" where
  "date_of_days n =
     (case year_of_days n of (y, r) \<Rightarrow> case month_of_day (month_lengths (int y)) 1 r of (m, d) \<Rightarrow> (y, m, d))"

section \<open>Printing\<close>

definition pad2 :: "nat \<Rightarrow> string" where
  "pad2 n = [digit_char (n div 10), digit_char (n mod 10)]"

definition pad3 :: "nat \<Rightarrow> string" where
  "pad3 n = digit_char (n div 100) # pad2 (n mod 100)"

definition pad_year :: "nat \<Rightarrow> string" where
  "pad_year n = (if n < 10000 then pad2 (n div 100) @ pad2 (n mod 100) else nat_digits 10 n)"

text \<open>The fraction without its trailing zeros, nothing when it is zero.\<close>

definition format_fraction :: "nat \<Rightarrow> string" where
  "format_fraction ms =
     (if ms = 0 then []
      else CHR ''.'' # (if 100 dvd ms then [digit_char (ms div 100)]
                        else if 10 dvd ms then pad2 (ms div 10) else pad3 ms))"

text \<open>A time from year 1 on, in UTC.\<close>

definition format_RFC3339Nano :: "gotime \<Rightarrow> string" where
  "format_RFC3339Nano t =
     (let ms = nat t;
          (y, mo, d) = date_of_days (ms div 86400000);
          secs = ms mod 86400000 div 1000
      in pad_year y @ ''-'' @ pad2 mo @ ''-'' @ pad2 d @ ''T'' @ pad2 (secs div 3600) @ '':'' @
         pad2 (secs mod 3600 div 60) @ '':'' @ pad2 (secs mod 60) @ format_fraction (ms mod 1000) @ ''Z'')"

section \<open>Reading\<close>

definition digit10 :: "char \<Rightarrow> nat option" where
  "digit10 c = (case digit_val c of None \<Rightarrow> None | Some v \<Rightarrow> if v < 10 then Some v else None)"

fun get2 :: "string \<Rightarrow> (nat \<times> string) option" where
  "get2 (a # b # s) =
     (case (digit10 a, digit10 b) of (Some x, Some y) \<Rightarrow> Some (10 * x + y, s) | _ \<Rightarrow> None)"
| "get2 _ = None"

text \<open>\<open>getnum(value, false)\<close>: the second digit may be missing.\<close>

fun get12 :: "string \<Rightarrow> (nat \<times> string) option" where
  "get12 [] = None"
| "get12 (a # s) =
     (case get2 (a # s) of
        Some r \<Rightarrow> Some r
      | None \<Rightarrow> map_option (\<lambda>x. (x, s)) (digit10 a))"

fun expect :: "char \<Rightarrow> string \<Rightarrow> string option" where
  "expect c [] = None"
| "expect c (x # s) = (if x = c then Some s else None)"

definition is_digit :: "char \<Rightarrow> bool" where
  "is_digit c = (digit10 c \<noteq> None)"

text \<open>The milliseconds of a fraction: its first three digits, filled up with zeros.\<close>

definition ms_of_digits :: "string \<Rightarrow> nat" where
  "ms_of_digits ds =
     (case map (\<lambda>c. case digit10 c of None \<Rightarrow> 0 | Some v \<Rightarrow> v) (take 3 (ds @ ''000'')) of
        [a, b, c] \<Rightarrow> 100 * a + 10 * b + c
      | _ \<Rightarrow> 0)"

fun get_fraction :: "string \<Rightarrow> nat \<times> string" where
  "get_fraction (p # c # s) =
     (if (p = CHR ''.'' \<or> p = CHR '','') \<and> is_digit c
      then (ms_of_digits (takeWhile is_digit (c # s)), dropWhile is_digit (c # s)) else (0, p # c # s))"
| "get_fraction s = (0, s)"

text \<open>The offset of the zone in minutes; nothing may follow it.\<close>

definition get_zone :: "string \<Rightarrow> int option" where
  "get_zone s =
     (if s = ''Z'' then Some 0
      else case s of
        sg # s1 \<Rightarrow>
          Option.bind (get2 s1) (\<lambda>(h, s2).
          Option.bind (expect (CHR '':'') s2) (\<lambda>s3.
          Option.bind (get2 s3) (\<lambda>(m, s4).
            if s4 \<noteq> [] \<or> 24 < h \<or> 60 < m then None
            else if sg = CHR ''+'' then Some (int (60 * h + m))
            else if sg = CHR ''-'' then Some (- int (60 * h + m))
            else None)))
      | [] \<Rightarrow> None)"

definition parse_RFC3339Nano :: "string \<Rightarrow> gotime option" where
  "parse_RFC3339Nano s =
     Option.bind (get2 s) (\<lambda>(y1, s). Option.bind (get2 s) (\<lambda>(y2, s).
     Option.bind (expect (CHR ''-'') s) (\<lambda>s. Option.bind (get2 s) (\<lambda>(mo, s).
     Option.bind (expect (CHR ''-'') s) (\<lambda>s. Option.bind (get2 s) (\<lambda>(d, s).
     Option.bind (expect (CHR ''T'') s) (\<lambda>s. Option.bind (get12 s) (\<lambda>(h, s).
     Option.bind (expect (CHR '':'') s) (\<lambda>s. Option.bind (get2 s) (\<lambda>(mi, s).
     Option.bind (expect (CHR '':'') s) (\<lambda>s. Option.bind (get2 s) (\<lambda>(sec, s).
     let (ms, s) = get_fraction s; y = int (100 * y1 + y2)
     in Option.bind (get_zone s) (\<lambda>z.
          if mo < 1 \<or> 12 < mo \<or> d < 1 \<or> month_lengths y ! (mo - 1) < d \<or> 23 < h \<or> 59 < mi \<or> 59 < sec then None
          else Some (days_of_date y mo d * 86400000 + int (3600000 * h + 60000 * mi + 1000 * sec + ms)
                     - z * 60000))))))))))))))"

section \<open>The calendar is inverted\<close>

lemma days_before_year_parts:
  assumes "b \<le> 3" and "c \<le> 24" and "d \<le> (3 :: nat)"
  shows "days_before_year (int (400 * a + 100 * b + 4 * c + d + 1)) =
    int (146097 * a + 36524 * b + 1461 * c + 365 * d)"
proof -
  define p :: int where "p = 400 * int a + 100 * int b + 4 * int c + int d"
  have "p div 4 = 100 * int a + 25 * int b + int c"
    using assms by (intro int_div_pos_eq [where r = "int d"]) (simp_all add: p_def)
  moreover have "p div 100 = 4 * int a + int b"
    using assms by (intro int_div_pos_eq [where r = "4 * int c + int d"]) (simp_all add: p_def)
  moreover have "p div 400 = int a"
    using assms by (intro int_div_pos_eq [where r = "100 * int b + 4 * int c + int d"]) (simp_all add: p_def)
  moreover have "days_before_year (p + 1) = 365 * p + p div 4 - p div 100 + p div 400"
    by (simp add: days_before_year_def Let_def)
  ultimately have "days_before_year (p + 1) = 146097 * int a + 36524 * int b + 1461 * int c + 365 * int d"
    by (simp add: p_def)
  moreover have y: "int (400 * a + 100 * b + 4 * c + d + 1) = p + 1" by (simp add: p_def)
  ultimately show ?thesis unfolding y by simp
qed

lemma is_leap_parts:
  assumes "b \<le> 3" and "c \<le> 24" and "d \<le> (3 :: nat)"
  shows "is_leap (int (400 * a + 100 * b + 4 * c + d + 1)) \<longleftrightarrow> d = 3 \<and> (c < 24 \<or> b = 3)"
proof -
  define y where "y = 400 * a + 100 * b + 4 * c + d + 1"
  have four: "4 dvd y \<longleftrightarrow> d = 3"
  proof -
    have "y = 4 * (100 * a + 25 * b + c) + (d + 1)" by (simp add: y_def)
    then have "4 dvd y \<longleftrightarrow> 4 dvd d + 1" by (simp only: dvd_add_right_iff dvd_triv_left)
    moreover have "4 dvd d + 1 \<longleftrightarrow> d + 1 = 4" using assms(3) by (auto dest: dvd_imp_le)
    ultimately show ?thesis by simp
  qed
  have hundred: "100 dvd y \<longleftrightarrow> d = 3 \<and> c = 24"
  proof -
    have "y = 100 * (4 * a + b) + (4 * c + d + 1)" by (simp add: y_def)
    then have "100 dvd y \<longleftrightarrow> 100 dvd 4 * c + d + 1" by (simp only: dvd_add_right_iff dvd_triv_left)
    moreover have "0 < 4 * c + d + 1" "4 * c + d + 1 \<le> 100" using assms by simp_all
    ultimately have "100 dvd y \<longleftrightarrow> 4 * c + d + 1 = 100" by (auto dest: dvd_imp_le)
    moreover have "4 * c + d + 1 = 100 \<longleftrightarrow> d = 3 \<and> c = 24" using assms by (intro iffI conjI; linarith)
    ultimately show ?thesis by blast
  qed
  have fourhundred: "400 dvd y \<longleftrightarrow> d = 3 \<and> c = 24 \<and> b = 3"
  proof -
    have "y = 400 * a + (100 * b + 4 * c + d + 1)" by (simp add: y_def)
    then have "400 dvd y \<longleftrightarrow> 400 dvd 100 * b + 4 * c + d + 1" by (simp only: dvd_add_right_iff dvd_triv_left)
    moreover have "0 < 100 * b + 4 * c + d + 1" "100 * b + 4 * c + d + 1 \<le> 400" using assms by simp_all
    ultimately have "400 dvd y \<longleftrightarrow> 100 * b + 4 * c + d + 1 = 400" by (auto dest: dvd_imp_le)
    moreover have "100 * b + 4 * c + d + 1 = 400 \<longleftrightarrow> d = 3 \<and> c = 24 \<and> b = 3" using assms by (intro iffI conjI; linarith)
    ultimately show ?thesis by blast
  qed
  have "k dvd y \<longleftrightarrow> int k dvd int y" for k by (simp only: int_dvd_int_iff)
  from this [of 4] this [of 100] this [of 400] have "is_leap (int y) \<longleftrightarrow> 4 dvd y \<and> (\<not> 100 dvd y \<or> 400 dvd y)"
    by (simp add: is_leap_def)
  with four hundred fourhundred assms(2) show ?thesis unfolding y_def by auto
qed

lemma year_of_days_correct:
  assumes "year_of_days n = (y, r)"
  shows "days_before_year (int y) + int r = int n" and "r < (if is_leap (int y) then 366 else 365)" and "0 < y"
    and "n < 3652059 \<Longrightarrow> y < 10000"
proof -
  define a where "a = n div 146097"
  define n1 where "n1 = n mod 146097"
  define b where "b = min 3 (n1 div 36524)"
  define n2 where "n2 = n1 - 36524 * b"
  define c where "c = n2 div 1461"
  define n3 where "n3 = n2 mod 1461"
  define d where "d = min 3 (n3 div 365)"
  have y: "y = 400 * a + 100 * b + 4 * c + d + 1" and r: "r = n3 - 365 * d"
    using assms by (simp_all add: year_of_days_def Let_def a_def n1_def b_def n2_def c_def n3_def d_def)
  have n: "n = 146097 * a + n1" "n1 < 146097" by (simp_all add: a_def n1_def)
  have b: "b \<le> 3" "36524 * b + n2 = n1" "b < 3 \<Longrightarrow> n2 < 36524" "n2 \<le> 36524"
  proof -
    have q: "n1 div 36524 \<le> 4" "36524 * (n1 div 36524) + n1 mod 36524 = n1" "n1 mod 36524 < 36524"
      using n(2) by (simp_all add: div_le_mono [of n1 146096 36524, simplified])
    show "b \<le> 3" by (simp add: b_def)
    have le: "36524 * b \<le> n1" using q by (auto simp: b_def min_def)
    then show "36524 * b + n2 = n1" by (simp add: n2_def)
    show "b < 3 \<Longrightarrow> n2 < 36524" using q by (auto simp: b_def n2_def min_def split: if_splits)
    show "n2 \<le> 36524" using q n(2) le by (auto simp: b_def n2_def min_def split: if_splits)
  qed
  have c: "1461 * c + n3 = n2" "n3 < 1461" by (simp_all add: c_def n3_def)
  from c b(4) have c24: "c \<le> 24" by linarith
  have d: "d \<le> 3" "365 * d + r = n3" "r \<le> 365" "d < 3 \<Longrightarrow> r < 365" "n3 < 1460 \<Longrightarrow> r < 365"
  proof -
    have q: "n3 div 365 \<le> 4" "365 * (n3 div 365) + n3 mod 365 = n3" "n3 mod 365 < 365"
      using c(2) by (simp_all add: div_le_mono [of n3 1460 365, simplified])
    show "d \<le> 3" by (simp add: d_def)
    have le: "365 * d \<le> n3" using q by (auto simp: d_def min_def)
    then show "365 * d + r = n3" by (simp add: r)
    show "r \<le> 365" using q c(2) le by (auto simp: r d_def min_def split: if_splits)
    show "d < 3 \<Longrightarrow> r < 365" using q by (auto simp: r d_def min_def split: if_splits)
    show "n3 < 1460 \<Longrightarrow> r < 365" using q le by (auto simp: r d_def min_def split: if_splits)
  qed
  show "days_before_year (int y) + int r = int n"
    unfolding y days_before_year_parts [OF b(1) c24 d(1)] using n(1) b(2) c(1) d(2) by simp
  show "0 < y" by (simp add: y)
  show "n < 3652059 \<Longrightarrow> y < 10000" using n(1) b(1,2) c(1) c24 d(1,2) unfolding y by linarith
  show "r < (if is_leap (int y) then 366 else 365)"
  proof (cases "d = 3 \<and> (c < 24 \<or> b = 3)")
    case True
    with d(3) show ?thesis unfolding y is_leap_parts [OF b(1) c24 d(1)] by simp
  next
    case False
    have "r < 365"
    proof (cases "d = 3")
      case True
      with False c24 b(1) have "c = 24" "b < 3" by auto
      with c(1) b(3) have "n3 < 1460" by simp
      then show ?thesis by (rule d(5))
    qed (use d in simp)
    with False show ?thesis unfolding y is_leap_parts [OF b(1) c24 d(1)] by simp
  qed
qed

lemma month_of_day_correct:
  assumes "r < sum_list ls" and "month_of_day ls k r = (m, d)"
  shows "k \<le> m" and "m < k + length ls" and "1 \<le> d" and "d \<le> ls ! (m - k)"
    and "sum_list (take (m - k) ls) + d = r + 1"
proof -
  have "k \<le> m \<and> m < k + length ls \<and> 1 \<le> d \<and> d \<le> ls ! (m - k) \<and> sum_list (take (m - k) ls) + d = r + 1"
    using assms
  proof (induction ls arbitrary: k r)
    case (Cons l ls)
    show ?case
    proof (cases "r < l")
      case True
      with Cons.prems show ?thesis by auto
    next
      case False
      with Cons.prems have "r - l < sum_list ls" "month_of_day ls (k + 1) (r - l) = (m, d)" by auto
      from Cons.IH [OF this] False have "k + 1 \<le> m" "m < k + 1 + length ls" "1 \<le> d" "d \<le> ls ! (m - (k + 1))"
        "sum_list (take (m - (k + 1)) ls) + d = r - l + 1" by auto
      moreover from \<open>k + 1 \<le> m\<close> have "m - k = Suc (m - (k + 1))" by simp
      ultimately show ?thesis using False by simp
    qed
  qed simp
  then show "k \<le> m" and "m < k + length ls" and "1 \<le> d" and "d \<le> ls ! (m - k)"
    and "sum_list (take (m - k) ls) + d = r + 1" by blast+
qed

lemma date_of_days_correct:
  assumes "date_of_days n = (y, m, d)"
  shows "days_of_date (int y) m d = int n" and "1 \<le> m" and "m \<le> 12" and "1 \<le> d"
    and "d \<le> month_lengths (int y) ! (m - 1)" and "0 < y" and "n < 3652059 \<Longrightarrow> y < 10000"
proof -
  obtain r where y: "year_of_days n = (y, r)" and m: "month_of_day (month_lengths (int y)) 1 r = (m, d)"
    using assms by (auto simp: date_of_days_def split: prod.splits)
  have "sum_list (month_lengths (int y)) = (if is_leap (int y) then 366 else 365)"
    by (simp add: month_lengths_def)
  with year_of_days_correct(2) [OF y] have "r < sum_list (month_lengths (int y))" by simp
  note month = month_of_day_correct [OF this m]
  have twelve: "length (month_lengths (int y)) = 12" by (simp add: month_lengths_def)
  show "1 \<le> m" "m \<le> 12" "1 \<le> d" "d \<le> month_lengths (int y) ! (m - 1)" "0 < y"
    using month(1-4) twelve year_of_days_correct(3) [OF y] by simp_all
  show "n < 3652059 \<Longrightarrow> y < 10000" by (rule year_of_days_correct(4) [OF y])
  show "days_of_date (int y) m d = int n"
    using month(5) year_of_days_correct(1) [OF y] by (simp add: days_of_date_def)
qed

section \<open>Reading back what was printed\<close>

lemma digit10_digit_char [simp]: "d < 10 \<Longrightarrow> digit10 (digit_char d) = Some d"
  by (simp add: digit10_def digit_val_digit_char)

lemma get2_pad2 [simp]: "n < 100 \<Longrightarrow> get2 (pad2 n @ s) = Some (n, s)"
  by (simp add: pad2_def)

lemma get12_pad2 [simp]: "n < 100 \<Longrightarrow> get12 (pad2 n @ s) = Some (n, s)"
  using get2_pad2 [of n s] by (simp add: pad2_def del: get2_pad2 get2.simps)

lemma is_digit_digit_char [simp]: "d < 10 \<Longrightarrow> is_digit (digit_char d)"
  by (simp add: is_digit_def)

lemma not_is_digit_Z [simp]: "\<not> is_digit (CHR ''Z'')"
  by (simp add: is_digit_def digit10_def digit_val_def Let_def)

lemma digit10_zero [simp]: "digit10 (CHR ''0'') = Some 0"
  by (simp add: digit10_def digit_val_def Let_def)

lemma get_fraction_format:
  assumes "ms < 1000"
  shows "get_fraction (format_fraction ms @ ''Z'') = (ms, ''Z'')"
proof -
  have bounds: "ms div 100 < 10" "ms mod 100 div 10 < 10" "ms mod 100 mod 10 < 10" "ms div 10 div 10 < 10" "ms div 10 mod 10 < 10"
    using assms by (auto simp: less_mult_imp_div_less)
  have parts: "100 * (ms div 100) + 10 * (ms mod 100 div 10) + ms mod 100 mod 10 = ms"
    using div_mult_mod_eq [of ms 100] div_mult_mod_eq [of "ms mod 100" 10] by linarith
  consider "ms = 0" | "ms \<noteq> 0" "100 dvd ms" | "ms \<noteq> 0" "\<not> 100 dvd ms" "10 dvd ms" | "\<not> 100 dvd ms" "\<not> 10 dvd ms"
    by blast
  then show ?thesis
  proof cases
    case 1
    then show ?thesis by (simp add: format_fraction_def)
  next
    case 2
    then show ?thesis using bounds by (auto simp: format_fraction_def ms_of_digits_def)
  next
    case 3
    then have "10 * (10 * (ms div 10 div 10) + ms div 10 mod 10) = ms"
      by (simp only: mult_div_mod_eq dvd_mult_div_cancel)
    then have "100 * (ms div 10 div 10) + 10 * (ms div 10 mod 10) = ms"
      by (simp only: distrib_left mult.assoc [symmetric])
    with 3 bounds show ?thesis by (simp add: format_fraction_def ms_of_digits_def pad2_def)
  next
    case 4
    then have "ms \<noteq> 0" by (cases "ms = 0") auto
    with 4 bounds parts show ?thesis by (simp add: format_fraction_def ms_of_digits_def pad3_def pad2_def)
  qed
qed

text \<open>What \<open>time.Parse\<close> reads from a printed time is this time, up to the year 9999.\<close>

lemma parse_format_RFC3339Nano:
  assumes "0 \<le> t" and "t < 3652059 * 86400000"
  shows "parse_RFC3339Nano (format_RFC3339Nano t) = Some t"
proof -
  define ms where "ms = nat t"
  define secs where "secs = ms mod 86400000 div 1000"
  obtain y mo d where date: "date_of_days (ms div 86400000) = (y, mo, d)" by (cases "date_of_days (ms div 86400000)") auto
  note c = date_of_days_correct [OF date]
  have "ms div 86400000 < 3652059" using assms by (simp add: ms_def less_mult_imp_div_less)
  then have y: "y < 10000" by (rule c(7))
  have "month_lengths (int y) ! (mo - 1) \<le> 31"
  proof -
    have "\<forall>l\<in>set (month_lengths (int y)). l \<le> 31" by (simp add: month_lengths_def)
    moreover have "mo - 1 < length (month_lengths (int y))" using c(3) by (simp add: month_lengths_def)
    ultimately show ?thesis using nth_mem by blast
  qed
  with c(5) have d: "d < 100" by linarith
  have secs: "secs < 86400" unfolding secs_def by (simp add: less_mult_imp_div_less)
  have bounds: "secs div 3600 < 24" "secs mod 3600 div 60 < 60" "secs mod 60 < 60" "ms mod 1000 < 1000"
    using secs by (simp_all add: less_mult_imp_div_less)
  have "secs mod 3600 mod 60 = secs mod 60" by (simp add: mod_mod_cancel)
  then have hms: "3600 * (secs div 3600) + 60 * (secs mod 3600 div 60) + secs mod 60 = secs"
    using div_mult_mod_eq [of secs 3600] div_mult_mod_eq [of "secs mod 3600" 60] by linarith
  have "ms mod 86400000 mod 1000 = ms mod 1000" by (simp add: mod_mod_cancel)
  then have "1000 * secs + ms mod 1000 = ms mod 86400000"
    using div_mult_mod_eq [of "ms mod 86400000" 1000] by (simp add: secs_def)
  with hms have total: "3600000 * (secs div 3600) + 60000 * (secs mod 3600 div 60) + 1000 * (secs mod 60) + ms mod 1000
      = ms mod 86400000" by linarith
  have "ms = 86400000 * (ms div 86400000) + ms mod 86400000" by simp
  then have "int ms = int (ms div 86400000) * 86400000 + int (ms mod 86400000)" by (metis mult.commute of_nat_add of_nat_mult of_nat_numeral)
  then have t: "days_of_date (int y) mo d * 86400000 + int (3600000 * (secs div 3600) + 60000 * (secs mod 3600 div 60)
      + 1000 * (secs mod 60) + ms mod 1000) = t"
    unfolding total c(1) using assms(1) by (simp add: ms_def)
  have year: "100 * int (y div 100) + int (y mod 100) = int y"
    using div_mult_mod_eq [of y 100] by linarith
  have sec: "secs mod 60 < 100" "\<not> 59 < secs mod 60" using bounds(3) by linarith+
  have fmt: "format_RFC3339Nano t = pad2 (y div 100) @ pad2 (y mod 100) @ ''-'' @ pad2 mo @ ''-'' @ pad2 d @ ''T'' @
      pad2 (secs div 3600) @ '':'' @ pad2 (secs mod 3600 div 60) @ '':'' @ pad2 (secs mod 60) @
      format_fraction (ms mod 1000) @ ''Z''"
    using y by (simp add: format_RFC3339Nano_def Let_def ms_def [symmetric] date secs_def pad_year_def)
  have "y div 100 < 100" "y mod 100 < 100" "mo < 100" using y c(3) by (simp_all add: less_mult_imp_div_less)
  with d bounds show ?thesis
    unfolding fmt parse_RFC3339Nano_def
    using c(2-5) t get_fraction_format [OF bounds(4)]
    by (simp add: year get_zone_def get2_pad2 [OF sec(1)] sec(2))
qed

end
