(* ===== verification/StoreSales.thy ===== *)
theory StoreSales
  imports StoreCollections GoTime "HOL-Library.Char_ord" "HOL-Library.List_Lexorder"
begin

text \<open>
  Sales and exchange rates, the part of \<open>store.go\<close> on \<open>sales_time_series\<close> and
  \<open>historical_exchange_rates\<close>. The map of a record of the caller is an association list; the order
  of its entries is the order of the iteration, which Go leaves open, so that what is proved for
  every list holds for every order. The map of the documents to insert is the list of its entries
  in the order they were added.
\<close>

section \<open>Writing sales\<close>

definition reserved :: "string \<Rightarrow> bool" where
  "reserved k \<longleftrightarrow> k \<in> {''_id'', ''id'', ''metadata'', ''shares'', ''timestamp'', ''values'', ''uniqueID''}"

text \<open>One entry of \<open>bundleTokenInfo\<close>: the id of a token of the bundle.\<close>

definition bundle_token_id :: "(string \<times> json) list \<Rightarrow> json \<Rightarrow> string res" where
  "bundle_token_id metadata info =
     (case as_map info of
        None \<Rightarrow> Inl (Errorf ''wrong format: metadata is not a map'')
      | Some m \<Rightarrow>
          bindR (case jlookup m ''contractAddress'' of
                   JNull \<Rightarrow> Inr []
                 | v \<Rightarrow> (case as_string v of
                           None \<Rightarrow> Inl (Errorf ''wrong format: contractAddress is not a string'')
                         | Some ca \<Rightarrow> Inr ca)) (\<lambda>ca.
          case (as_string (jlookup metadata ''blockchain''), as_string (jlookup m ''tokenID'')) of
            (Some b, Some t) \<Rightarrow> Inr (b @ ''-'' @ ca @ ''-'' @ t)
          | _ \<Rightarrow> Inl (GoPanic ''interface conversion'')))"

text \<open>The loop over the metadata: no reserved names, the ids of the tokens of a bundle.\<close>

fun sale_token_ids :: "(string \<times> json) list \<Rightarrow> (string \<times> json) list \<Rightarrow> string list res" where
  "sale_token_ids metadata [] = Inr []"
| "sale_token_ids metadata ((k, v) # kvs) =
     (if reserved k then Inl (Errorf ''reserved field name: metadata'')
      else bindR (if k = ''bundleTokenInfo''
                  then (case as_slice v of
                          None \<Rightarrow> Inl (Errorf ''wrong format: metadata is not a slice'')
                        | Some interfaces \<Rightarrow> mapR (bundle_token_id metadata) interfaces)
                  else Inr []) (\<lambda>ids.
           bindR (sale_token_ids metadata kvs) (\<lambda>ids'. Inr (ids @ ids'))))"

definition sale_tx_ids :: "(string \<times> json) list \<Rightarrow> string list res" where
  "sale_tx_ids metadata =
     (case as_slice (jlookup metadata ''transactionIDs'') of
        None \<Rightarrow> Inl (Errorf ''wrong format: metadata.transactionIDs is not a slice'')
      | Some txIDs \<Rightarrow> mapR (\<lambda>v. case as_string v of
            None \<Rightarrow> Inl (Errorf ''wrong format: metadata.transactionIDs is not a string'')
          | Some t \<Rightarrow> Inr t) txIDs)"

definition sale_unique_id :: "ext \<Rightarrow> (string \<times> json) list \<Rightarrow> string res" where
  "sale_unique_id X metadata =
     bindR (sale_token_ids metadata metadata) (\<lambda>tokenIDs.
     bindR (sale_tx_ids metadata) (\<lambda>txIDs.
     Inr (x_sha1_hex X (join '','' (sort txIDs) @ ''|'' @ join '','' (sort tokenIDs)))))"

text \<open>The amounts of a record: no reserved names, every value a decimal.\<close>

definition parse_amounts :: "ext \<Rightarrow> (string \<times> string) list \<Rightarrow> (string \<times> decimal128) list res" where
  "parse_amounts X kvs =
     mapR (\<lambda>(k, v).
       if reserved k then Inl (Errorf ''reserved field name'')
       else (case x_ParseDecimal128 X v of
               None \<Rightarrow> Inl (Errorf ''Decimal128 error'')
             | Some d \<Rightarrow> Inr (k, d))) kvs"

definition sale_doc :: "ext \<Rightarrow> gotime \<Rightarrow> string \<Rightarrow> GenericSalesTimeSeries \<Rightarrow> SaleDoc res" where
  "sale_doc X timestamp uniqueID r =
     bindR (parse_amounts X (gst_Values r)) (\<lambda>vs.
     bindR (parse_amounts X (gst_Shares r)) (\<lambda>sv.
     Inr \<lparr>sale_Timestamp = timestamp, sale_Metadata = gst_Metadata r @ [(''uniqueID'', JStr uniqueID)],
          sale_Values = vs, sale_Shares = sv\<rparr>))"

definition sale_uid :: "SaleDoc \<Rightarrow> json" where
  "sale_uid d = jlookup (sale_Metadata d) ''uniqueID''"

text \<open>The loop over the records. \<open>inserts\<close> is \<open>insertsMap\<close>.\<close>

fun prepare_sales ::
    "ext \<Rightarrow> store \<Rightarrow> (string \<times> SaleDoc) list \<Rightarrow> GenericSalesTimeSeries list \<Rightarrow> (db, (string \<times> SaleDoc) list) act" where
  "prepare_sales X st inserts [] = retA inserts"
| "prepare_sales X st inserts (r # rs) =
     (case parse_RFC3339Nano (gst_Timestamp r) of
        None \<Rightarrow> throwA (Errorf ''parsing time'')
      | Some timestamp \<Rightarrow>
          bindA (liftR (sale_unique_id X (gst_Metadata r))) (\<lambda>uniqueID.
          if uniqueID \<in> fst ` set inserts then prepare_sales X st inserts rs
          else bindA (liftR (sale_doc X timestamp uniqueID r)) (\<lambda>doc.
               bindA (on_sales (DeleteMany (salesTimeSeriesCollection st) (\<lambda>d. sale_uid d = JStr uniqueID))) (\<lambda>_.
               prepare_sales X st (inserts @ [(uniqueID, doc)]) rs))))"

definition WriteTimeSeriesData :: "ext \<Rightarrow> store \<Rightarrow> GenericSalesTimeSeries list \<Rightarrow> (db, unit) act" where
  "WriteTimeSeriesData X st records =
     bindA (prepare_sales X st [] records) (\<lambda>insertsMap.
     let inserts = map snd insertsMap
     in if inserts \<noteq> [] then on_sales (InsertMany (salesTimeSeriesCollection st) inserts) else retA ())"

section \<open>Reading sales\<close>

text \<open>A value in a filter matches a field with this value and an array that holds it.\<close>

fun field_matches :: "json \<Rightarrow> string \<Rightarrow> bool" where
  "field_matches (JStr s) v = (s = v)"
| "field_matches (JArr xs) v = (JStr v \<in> set xs)"
| "field_matches _ v = False"

definition SaleTimeSeriesDataExists :: "store \<Rightarrow> string \<Rightarrow> string \<Rightarrow> (db, bool) act" where
  "SaleTimeSeriesDataExists st txID blockchain =
     bindA (readA db_sales (CountDocuments (salesTimeSeriesCollection st) (\<lambda>d.
         field_matches (jlookup (sale_Metadata d) ''transactionIDs'') txID \<and>
         field_matches (jlookup (sale_Metadata d) ''blockchain'') blockchain)))
       (\<lambda>count. retA (0 < count))"

record SalesFilterParameter =
  sf_Addresses :: "string list"
  sf_Marketplace :: string
  sf_From :: "gotime option"
  sf_To :: "gotime option"
  sf_Limit :: int
  sf_Offset :: int
  sf_SortASC :: bool

text \<open>The part of the match both queries share: the marketplace and the time.\<close>

definition sale_in_range :: "SalesFilterParameter \<Rightarrow> SaleDoc \<Rightarrow> bool" where
  "sale_in_range f d \<longleftrightarrow>
     (sf_Marketplace f = [] \<or> field_matches (jlookup (sale_Metadata d) ''marketplace'') (sf_Marketplace f)) \<and>
     (case sf_From f of None \<Rightarrow> True | Some t \<Rightarrow> t \<le> sale_Timestamp d) \<and>
     (case sf_To f of None \<Rightarrow> True | Some t \<Rightarrow> sale_Timestamp d \<le> t)"

definition has_share :: "SalesFilterParameter \<Rightarrow> SaleDoc \<Rightarrow> bool" where
  "has_share f d \<longleftrightarrow> (\<exists>a\<in>set (sf_Addresses f). map_of (sale_Shares d) a \<noteq> None)"

record SaleTimeSeries =
  sts_Timestamp :: gotime
  sts_Metadata :: "(string \<times> json) list"
  sts_Shares :: "(string \<times> json) list"
  sts_NetValue :: decimal128
  sts_PaymentAmount :: decimal128
  sts_PlatformFee :: decimal128
  sts_USDQuote :: decimal128
  sts_Price :: decimal128

definition decode_sale :: "SaleDoc \<Rightarrow> SaleTimeSeries" where
  "decode_sale d =
     (let v = (\<lambda>k. case map_of (sale_Values d) k of None \<Rightarrow> 0 | Some x \<Rightarrow> x)
      in \<lparr>sts_Timestamp = sale_Timestamp d, sts_Metadata = sale_Metadata d, sts_Shares = map (\<lambda>(k, v). (k, JDec v)) (sale_Shares d),
          sts_NetValue = v ''netRevenue'', sts_PaymentAmount = v ''paymentAmount'', sts_PlatformFee = v ''platformFee'',
          sts_USDQuote = v ''exchangeRate'', sts_Price = v ''price''\<rparr>)"

definition GetSaleTimeSeriesData :: "SalesFilterParameter \<Rightarrow> (db, SaleTimeSeries list) act" where
  "GetSaleTimeSeriesData f =
     (\<lambda>s. let found = filter (\<lambda>d. (sf_Addresses f \<noteq> [] \<longrightarrow> has_share f d) \<and> sale_in_range f d) (db_sales s);
              sorted_sales = (if sf_SortASC f then sort_key sale_Timestamp found else sort_newest sale_Timestamp found)
          in (bindR (agg_page (sf_Offset f) (sf_Limit f) sorted_sales) (\<lambda>ds. Inr (map decode_sale ds)), s))"

text \<open>
  The revenue of the addresses in a sale and the sum per currency: the groups of the server are
  the different currencies, in an order it leaves open. A currency that is missing reads as the empty
  string, one that is not a string cannot be decoded. \<open>decimal_0\<close> is the decimal 0.
\<close>

definition decimal_0 :: decimal128 where
  "decimal_0 = word_of_int (12352 * 2 ^ 112)"

definition sale_revenue :: "ext \<Rightarrow> string list \<Rightarrow> SaleDoc \<Rightarrow> decimal128" where
  "sale_revenue X addresses d =
     foldl (x_Decimal128_add X) decimal_0
       (map (\<lambda>a. case map_of (sale_Shares d) a of None \<Rightarrow> decimal_0 | Some v \<Rightarrow> v) addresses)"

definition sale_currency :: "SaleDoc \<Rightarrow> json" where
  "sale_currency d = jlookup (sale_Metadata d) ''revenueCurrency''"

definition group_totals :: "ext \<Rightarrow> string list \<Rightarrow> SaleDoc list \<Rightarrow> (json \<times> decimal128) list" where
  "group_totals X addresses ds =
     map (\<lambda>c. (c, foldl (x_Decimal128_add X) decimal_0
                    (map (sale_revenue X addresses) (filter (\<lambda>d. sale_currency d = c) ds))))
       (remdups (map sale_currency ds))"

fun currency_map :: "(json \<times> decimal128) list \<Rightarrow> (string \<rightharpoonup> decimal128) \<Rightarrow> (string \<rightharpoonup> decimal128) res" where
  "currency_map [] m = Inr m"
| "currency_map ((c, amount) # gs) m =
     (case c of
        JNull \<Rightarrow> currency_map gs (m([] \<mapsto> amount))
      | JStr s \<Rightarrow> currency_map gs (m(s \<mapsto> amount))
      | _ \<Rightarrow> Inl (ErrDB ''error decoding key currency''))"

definition AggregateSaleRevenues :: "ext \<Rightarrow> SalesFilterParameter \<Rightarrow> (db, string \<rightharpoonup> decimal128) act" where
  "AggregateSaleRevenues X f =
     (\<lambda>s. (if sf_Addresses f = [] then Inl (ErrDB ''$or must be a nonempty array'')
           else currency_map (group_totals X (sf_Addresses f)
                  (filter (\<lambda>d. has_share f d \<and> sale_in_range f d) (db_sales s))) Map.empty, s))"

section \<open>Exchange rates\<close>

record HistoricalExchangeRate =
  her_Time :: gotime
  her_Low :: float64
  her_High :: float64
  her_Open :: float64
  her_Close :: float64
  her_CurrencyPair :: string

definition rate_of :: "HistoricalExchangeRate \<Rightarrow> ExchangeRate" where
  "rate_of r = \<lparr>er_Timestamp = her_Time r, er_Price = her_Open r, er_CurrencyPair = her_CurrencyPair r\<rparr>"

text \<open>An ordered bulk of upserts: it stops at the first error.\<close>

definition WriteHistoricalExchangeRate :: "store \<Rightarrow> HistoricalExchangeRate list \<Rightarrow> (db, unit) act" where
  "WriteHistoricalExchangeRate st records =
     forA (\<lambda>r. bindA (on_rates (UpsertOne (historicalExchangeRatesCollection st)
                (\<lambda>d. er_key d = (her_Time r, her_CurrencyPair r)) (\<lambda>_. rate_of r) (rate_of r))) (\<lambda>_. retA ())) records"

definition zero_ExchangeRate :: ExchangeRate where
  "zero_ExchangeRate = \<lparr>er_Timestamp = 0, er_Price = 0, er_CurrencyPair = []\<rparr>"

definition GetHistoricalExchangeRate :: "store \<Rightarrow> string \<Rightarrow> gotime \<Rightarrow> (db, ExchangeRate) act" where
  "GetHistoricalExchangeRate st currencyPair requestingTimestamp =
     bindA (readA db_rates (\<lambda>rs. or_missing zero_ExchangeRate (\<lambda>d. d)
             (FindOne (historicalExchangeRatesCollection st)
                (\<lambda>r. er_CurrencyPair r = currencyPair \<and> er_Timestamp r \<le> requestingTimestamp)
                (sort_key (\<lambda>r. - er_Timestamp r)) rs))) (\<lambda>lower.
     if requestingTimestamp = er_Timestamp lower then retA lower
     else
     bindA (readA db_rates (\<lambda>rs. or_missing zero_ExchangeRate (\<lambda>d. d)
             (FindOne (historicalExchangeRatesCollection st)
                (\<lambda>r. er_CurrencyPair r = currencyPair \<and> requestingTimestamp \<le> er_Timestamp r)
                (sort_key er_Timestamp) rs))) (\<lambda>greater.
     retA (if time_IsZero (er_Timestamp lower) then greater
           else if time_IsZero (er_Timestamp greater) then lower
           else if time_Sub requestingTimestamp (er_Timestamp lower)
                   \<le> time_Sub (er_Timestamp greater) requestingTimestamp then lower
           else greater)))"

definition GetExchangeRateLastTime :: "store \<Rightarrow> (db, gotime) act" where
  "GetExchangeRateLastTime st =
     readA db_rates (\<lambda>rs. or_missing 0 er_Timestamp
       (FindOne (historicalExchangeRatesCollection st) (\<lambda>_. True) (sort_key (\<lambda>r. - er_Timestamp r)) rs))"

section \<open>What a write does\<close>

text \<open>The document of a record, when every check passes.\<close>

definition sale_entry :: "ext \<Rightarrow> GenericSalesTimeSeries \<Rightarrow> (string \<times> SaleDoc) res" where
  "sale_entry X r =
     (case parse_RFC3339Nano (gst_Timestamp r) of
        None \<Rightarrow> Inl (Errorf ''parsing time'')
      | Some timestamp \<Rightarrow>
          bindR (sale_unique_id X (gst_Metadata r)) (\<lambda>u. bindR (sale_doc X timestamp u r) (\<lambda>d. Inr (u, d))))"

text \<open>The entries with an id for the first time.\<close>

fun first_entries :: "string set \<Rightarrow> (string \<times> SaleDoc) list \<Rightarrow> (string \<times> SaleDoc) list" where
  "first_entries S [] = []"
| "first_entries S ((u, d) # es) = (if u \<in> S then first_entries S es else (u, d) # first_entries (insert u S) es)"

lemma first_entries_keys: "fst ` set (first_entries S es) = fst ` set es - S"
  by (induction S es rule: first_entries.induct) auto

lemma first_entries_subset: "set (first_entries S es) \<subseteq> set es"
  by (induction S es rule: first_entries.induct) auto

lemma first_entries_map_of: "map_of (first_entries A es) u = (if u \<in> A then None else map_of es u)"
  by (induction A es rule: first_entries.induct) auto

lemma first_entries_distinct: "distinct (map fst (first_entries S es))"
proof (induction S es rule: first_entries.induct)
  case (2 S u d es)
  have "u \<notin> fst ` set (first_entries (insert u S) es)" by (simp add: first_entries_keys)
  with 2 show ?case by simp
qed simp

lemma sale_token_ids_reserved:
  "sale_token_ids metadata kvs = Inr ids \<Longrightarrow> (k, v) \<in> set kvs \<Longrightarrow> \<not> reserved k"
  by (induction kvs arbitrary: ids) (auto simp: bindR_Inr_iff split: if_splits)

lemma sale_uid_entry:
  assumes "sale_entry X r = Inr (u, d)"
  shows "sale_uid d = JStr u"
proof -
  from assms obtain ids where ids: "sale_token_ids (gst_Metadata r) (gst_Metadata r) = Inr ids"
    and meta: "sale_Metadata d = gst_Metadata r @ [(''uniqueID'', JStr u)]"
    by (auto simp: sale_entry_def sale_unique_id_def sale_doc_def bindR_Inr_iff split: option.splits)
  have "map_of (gst_Metadata r) ''uniqueID'' = None"
    using sale_token_ids_reserved [OF ids, of "''uniqueID''"] by (auto simp: map_of_eq_None_iff reserved_def)
  then show ?thesis by (simp add: sale_uid_def jlookup_def meta map_add_def)
qed

definition without_ids :: "string set \<Rightarrow> SaleDoc list \<Rightarrow> SaleDoc list" where
  "without_ids U = filter (\<lambda>d. sale_uid d \<notin> JStr ` U)"

lemma without_ids_empty [simp]: "without_ids {} ds = ds"
  by (simp add: without_ids_def)

lemma without_ids_twice: "without_ids U (without_ids V ds) = without_ids (U \<union> V) ds"
  by (auto simp: without_ids_def intro: filter_cong)

lemma without_ids_append: "without_ids U (ds @ es) = without_ids U ds @ without_ids U es"
  by (simp add: without_ids_def)

context mongo_store
begin

lemma delete_sales_run:
  "on_sales (DeleteMany (salesTimeSeriesCollection st) (\<lambda>d. sale_uid d = JStr u)) s =
    (Inr (length (filter (\<lambda>d. sale_uid d = JStr u) (db_sales s))), s\<lparr>db_sales := without_ids {u} (db_sales s)\<rparr>)"
  by (simp add: on_sales_def act_simps sales.DeleteMany_law without_ids_def)

lemma prepare_sales_run:
  assumes "mapR (sale_entry X) rs = Inr es"
  shows "prepare_sales X st inserts rs s =
    (Inr (inserts @ first_entries (fst ` set inserts) es),
     s\<lparr>db_sales := without_ids (fst ` set es - fst ` set inserts) (db_sales s)\<rparr>)"
  using assms
proof (induction rs arbitrary: inserts s es)
  case Nil
  then show ?case by (simp add: act_simps)
next
  case (Cons r rs)
  then obtain u d es' where es: "es = (u, d) # es'" and r: "sale_entry X r = Inr (u, d)" and rs: "mapR (sale_entry X) rs = Inr es'"
    by (auto simp: bindR_Inr_iff)
  from r obtain t where t: "parse_RFC3339Nano (gst_Timestamp r) = Some t" "sale_unique_id X (gst_Metadata r) = Inr u"
    "sale_doc X t u r = Inr d"
    by (auto simp: sale_entry_def bindR_Inr_iff split: option.splits)
  show ?case
  proof (cases "u \<in> fst ` set inserts")
    case True
    then have "fst ` set es - fst ` set inserts = fst ` set es' - fst ` set inserts" using es by auto
    with True t Cons.IH [OF rs, of inserts s] show ?thesis by (simp add: es act_simps)
  next
    case False
    have "(fst ` set es' - fst ` set (inserts @ [(u, d)])) \<union> {u} = fst ` set es - fst ` set inserts"
      using False es by auto
    moreover have "prepare_sales X st inserts (r # rs) s =
        prepare_sales X st (inserts @ [(u, d)]) rs (s\<lparr>db_sales := without_ids {u} (db_sales s)\<rparr>)"
      using False t by (simp add: act_simps delete_sales_run)
    ultimately show ?thesis
      using False Cons.IH [OF rs, of "inserts @ [(u, d)]" "s\<lparr>db_sales := without_ids {u} (db_sales s)\<rparr>"]
      by (simp add: es without_ids_twice)
  qed
qed

lemma insert_sales_run:
  "forA (insert_doc no_unique) docs ds = (Inr (), ds @ docs)"
  by (induction docs arbitrary: ds) (simp_all add: act_simps insert_doc_def taken_def)

lemma WriteTimeSeriesData_run:
  assumes "mapR (sale_entry X) records = Inr es"
  shows "WriteTimeSeriesData X st records s =
    (Inr (), s\<lparr>db_sales := without_ids (fst ` set es) (db_sales s) @ map snd (first_entries {} es)\<rparr>)"
  using prepare_sales_run [OF assms, of "[]" s]
  by (auto simp: WriteTimeSeriesData_def Let_def act_simps on_sales_def sales.InsertMany_law insert_sales_run)

text \<open>A record that is refused: the documents of the records before it are gone.\<close>

lemma prepare_sales_append:
  assumes "mapR (sale_entry X) rs = Inr es" and "sale_entry X r = Inl e"
    and "\<And>u. sale_unique_id X (gst_Metadata r) = Inr u \<Longrightarrow> u \<notin> fst ` set es"
  shows "prepare_sales X st [] (rs @ r # rest) s = (Inl e, s\<lparr>db_sales := without_ids (fst ` set es) (db_sales s)\<rparr>)"
proof -
  have app: "prepare_sales X st inserts (rs @ qs) s = bindA (prepare_sales X st inserts rs) (\<lambda>i. prepare_sales X st i qs) s" for inserts qs s
  proof (induction rs arbitrary: inserts s)
    case (Cons r rs)
    then show ?case by (auto simp: act_simps split: option.split sum.split prod.split)
  qed (simp add: act_simps)
  have keys: "fst ` set (first_entries {} es) = fst ` set es" by (simp add: first_entries_keys)
  show ?thesis
    using assms(2,3) unfolding app
    by (auto simp: act_simps prepare_sales_run [OF assms(1)] keys sale_entry_def bindR_def
        split: option.splits sum.splits if_splits)
qed

end

lemma mapR_mem: "mapR f xs = Inr ys \<Longrightarrow> y \<in> set ys \<Longrightarrow> \<exists>x\<in>set xs. f x = Inr y"
  by (induction xs arbitrary: ys) (auto simp: bindR_Inr_iff)

lemma entries_uid:
  assumes "mapR (sale_entry X) records = Inr es" and "(u, d) \<in> set es"
  shows "sale_uid d = JStr u"
  using mapR_mem [OF assms] sale_uid_entry by blast

lemma without_ids_new:
  assumes "mapR (sale_entry X) records = Inr es"
  shows "without_ids (fst ` set es) (map snd (first_entries {} es)) = []"
  using entries_uid [OF assms] first_entries_subset [of "{}" es]
  by (force simp: without_ids_def filter_empty_conv image_iff)

text \<open>The first document in the order of a key.\<close>

lemma sort_key_first:
  assumes "sort_key f (filter p ds) = d # rest"
  shows "d \<in> set ds" and "p d" and "x \<in> set ds \<Longrightarrow> p x \<Longrightarrow> f d \<le> (f x :: int)"
proof -
  have set: "set (d # rest) = {x \<in> set ds. p x}" by (simp add: assms [symmetric])
  then show "d \<in> set ds" "p d" by auto
  have "sorted (map f (d # rest))" by (simp add: assms [symmetric])
  then show "x \<in> set ds \<Longrightarrow> p x \<Longrightarrow> f d \<le> f x" using set by auto
qed

lemma sort_key_empty: "sort_key f (filter p ds) = [] \<Longrightarrow> x \<in> set ds \<Longrightarrow> \<not> p x"
proof
  assume e: "sort_key f (filter p ds) = []" and "x \<in> set ds" "p x"
  then have "x \<in> set (filter p ds)" by simp
  then have "x \<in> set (sort_key f (filter p ds))" unfolding set_sort .
  then show False by (simp only: e list.set empty_iff)
qed

definition rate_below :: "string \<Rightarrow> gotime \<Rightarrow> ExchangeRate list \<Rightarrow> ExchangeRate list" where
  "rate_below c t rs = sort_key (\<lambda>r. - er_Timestamp r) (filter (\<lambda>r. er_CurrencyPair r = c \<and> er_Timestamp r \<le> t) rs)"

definition rate_above :: "string \<Rightarrow> gotime \<Rightarrow> ExchangeRate list \<Rightarrow> ExchangeRate list" where
  "rate_above c t rs = sort_key er_Timestamp (filter (\<lambda>r. er_CurrencyPair r = c \<and> t \<le> er_Timestamp r) rs)"

definition first_rate :: "ExchangeRate list \<Rightarrow> ExchangeRate" where
  "first_rate rs = (case rs of [] \<Rightarrow> zero_ExchangeRate | r # _ \<Rightarrow> r)"

context mongo_store
begin

lemma GetHistoricalExchangeRate_run:
  "GetHistoricalExchangeRate st c t s =
    (let lower = first_rate (rate_below c t (db_rates s)); greater = first_rate (rate_above c t (db_rates s))
     in (Inr (if t = er_Timestamp lower then lower
              else if er_Timestamp lower = 0 then greater
              else if er_Timestamp greater = 0 then lower
              else if time_Sub t (er_Timestamp lower) \<le> time_Sub (er_Timestamp greater) t then lower
              else greater), s))"
proof -
  have "readA db_rates (\<lambda>rs. or_missing zero_ExchangeRate (\<lambda>d. d)
      (FindOne (historicalExchangeRatesCollection st) p srt rs)) s = (Inr (first_rate (srt (filter p (db_rates s)))), s)" for p srt
    by (simp add: readA_run or_missing_def rates.FindOne_law first_rate_def split: list.split)
  then show ?thesis
    by (simp add: GetHistoricalExchangeRate_def bindA_run retA_run Let_def time_IsZero_def rate_below_def rate_above_def
        del: readA_run)
qed

end

lemma time_Sub_exact: "\<bar>a - b\<bar> < 9223372036854 \<Longrightarrow> time_Sub a b = (a - b) * 1000000"
  by (auto simp: time_Sub_def min_def max_def)

section \<open>Properties\<close>

text \<open>
  C39: When every record is valid, \<open>WriteTimeSeriesData\<close> succeeds; the documents with the ids of the
  records are replaced by one document for each id, that of the first record with it, and all other
  documents stay as they were.
\<close>

theorem WriteTimeSeriesData_replaces:
  assumes "mongo_store st" and "mapR (sale_entry X) records = Inr es"
  shows "\<exists>docs. WriteTimeSeriesData X st records s =
      (Inr (), s\<lparr>db_sales := filter (\<lambda>d. sale_uid d \<notin> JStr ` fst ` set es) (db_sales s) @ docs\<rparr>) \<and>
    set docs = ran (map_of es) \<and> distinct (map sale_uid docs) \<and> sale_uid ` set docs = JStr ` fst ` set es"
proof -
  let ?es = "first_entries {} es"
  have uid: "sale_uid (snd e) = JStr (fst e)" if "e \<in> set ?es" for e
    using entries_uid [OF assms(2), of "fst e" "snd e"] first_entries_subset [of "{}" es] that by auto
  have ids: "map sale_uid (map snd ?es) = map JStr (map fst ?es)" using uid by simp
  have "inj_on JStr A" for A by (rule inj_onI) simp
  then have "distinct (map JStr (map fst ?es))"
    using first_entries_distinct [of "{}" es] by (rule distinct_map [THEN iffD2, OF conjI, rotated])
  then have 1: "distinct (map sale_uid (map snd ?es))" by (simp only: ids)
  have "set (map sale_uid (map snd ?es)) = JStr ` fst ` set ?es" by (simp only: ids set_map image_image)
  then have 2: "sale_uid ` set (map snd ?es) = JStr ` fst ` set es" by (simp only: set_map first_entries_keys Diff_empty)
  have "map_of ?es = map_of es" by (rule ext) (simp add: first_entries_map_of)
  then have 3: "set (map snd ?es) = ran (map_of es)"
    using ran_distinct [OF first_entries_distinct [of "{}" es]] by simp
  show ?thesis
    unfolding mongo_store.WriteTimeSeriesData_run [OF assms] without_ids_def
    by (rule exI [of _ "map snd ?es"]) (intro conjI refl 1 2 3)
qed

definition sample_sale :: GenericSalesTimeSeries where
  "sample_sale = \<lparr>gst_Timestamp = ''2024-02-29T12:30:00.5Z'',
     gst_Metadata = [(''blockchain'', JStr ''ethereum''), (''transactionIDs'', JArr [JStr ''0xa'']),
       (''bundleTokenInfo'', JArr [JObj [(''tokenID'', JStr ''7''), (''contractAddress'', JStr ''0xc'')]])],
     gst_Values = [(''price'', ''12'')], gst_Shares = [(''alice'', ''9''), (''bob'', ''3'')]\<rparr>"

definition sample_sale_doc :: SaleDoc where
  "sample_sale_doc = \<lparr>sale_Timestamp = 63844806600500,
     sale_Metadata = gst_Metadata sample_sale @ [(''uniqueID'', JStr ''0xa|ethereum-0xc-7'')],
     sale_Values = [(''price'', 12)], sale_Shares = [(''alice'', 9), (''bob'', 3)]\<rparr>"

lemma sample_sale_entry: "sale_entry sample_ext sample_sale = Inr (''0xa|ethereum-0xc-7'', sample_sale_doc)"
proof -
  have "parse_RFC3339Nano ''2024-02-29T12:30:00.5Z'' = Some 63844806600500"
    by (simp add: parse_RFC3339Nano_def digit10_def digit_val_def Let_def is_digit_def ms_of_digits_def get_zone_def
        month_lengths_def is_leap_def days_of_date_def days_before_year_def)
  moreover have "sale_unique_id sample_ext (gst_Metadata sample_sale) = Inr ''0xa|ethereum-0xc-7''"
    by (simp add: sale_unique_id_def sample_sale_def reserved_def bundle_token_id_def jlookup_def sale_tx_ids_def sample_ext_def)
  moreover have "sale_doc sample_ext 63844806600500 ''0xa|ethereum-0xc-7'' sample_sale = Inr sample_sale_doc"
    by (simp add: sale_doc_def sample_sale_doc_def parse_amounts_def reserved_def sample_sale_def sample_ext_def
        big_SetString_def parse_nat_def digit_val_def Let_def)
  ultimately show ?thesis by (simp add: sale_entry_def sample_sale_def)
qed

lemma sample_sale_uid: "sale_uid (sample_sale_doc\<lparr>sale_Timestamp := t\<rparr>) = JStr ''0xa|ethereum-0xc-7''"
  by (simp add: sale_uid_def jlookup_def sample_sale_doc_def sample_sale_def)

theorem WriteTimeSeriesData_replaces_witness:
  "\<exists>s. WriteTimeSeriesData sample_ext (mem_store []) [sample_sale, sample_sale]
      (empty_db\<lparr>db_sales := [sample_sale_doc\<lparr>sale_Timestamp := 0\<rparr>]\<rparr>) = (Inr (), s) \<and> set (db_sales s) = {sample_sale_doc}"
proof -
  have "mapR (sale_entry sample_ext) [sample_sale, sample_sale] =
      Inr [(''0xa|ethereum-0xc-7'', sample_sale_doc), (''0xa|ethereum-0xc-7'', sample_sale_doc)]"
    by (simp add: sample_sale_entry)
  from WriteTimeSeriesData_replaces [OF mem_store_lawful this, of "[]" "empty_db\<lparr>db_sales := [sample_sale_doc\<lparr>sale_Timestamp := 0\<rparr>]\<rparr>"]
  obtain docs where run: "WriteTimeSeriesData sample_ext (mem_store []) [sample_sale, sample_sale]
      (empty_db\<lparr>db_sales := [sample_sale_doc\<lparr>sale_Timestamp := 0\<rparr>]\<rparr>) = (Inr (), empty_db\<lparr>db_sales := docs\<rparr>)"
    and docs: "set docs = {sample_sale_doc}"
    by (auto simp: sample_sale_uid)
  with run show ?thesis by simp
qed

text \<open>
  \<open>WriteTimeSeriesData\<close> is idempotent: writing valid records again, as a retried activity does,
  leaves the database as the first write left it.
\<close>

theorem WriteTimeSeriesData_idempotent:
  assumes "mongo_store st" and "mapR (sale_entry X) records = Inr es"
  shows "WriteTimeSeriesData X st records (snd (WriteTimeSeriesData X st records s)) = WriteTimeSeriesData X st records s"
  by (simp add: mongo_store.WriteTimeSeriesData_run [OF assms] without_ids_append without_ids_twice
      without_ids_new [OF assms(2)])

theorem WriteTimeSeriesData_idempotent_witness:
  "WriteTimeSeriesData sample_ext (mem_store []) [sample_sale]
     (snd (WriteTimeSeriesData sample_ext (mem_store []) [sample_sale] empty_db))
   = WriteTimeSeriesData sample_ext (mem_store []) [sample_sale] empty_db"
  by (rule WriteTimeSeriesData_idempotent [OF mem_store_lawful]) (simp add: sample_sale_entry)

text \<open>
  A record that is refused ends the write with its error before anything is inserted, but the
  documents with the ids of the valid records before it have been deleted already: they are lost.
\<close>

theorem WriteTimeSeriesData_error_loses_sales:
  assumes "mongo_store st" and "mapR (sale_entry X) rs = Inr es" and "sale_entry X r = Inl e"
    and "\<And>u. sale_unique_id X (gst_Metadata r) = Inr u \<Longrightarrow> u \<notin> fst ` set es"
  shows "WriteTimeSeriesData X st (rs @ r # rest) s =
    (Inl e, s\<lparr>db_sales := filter (\<lambda>d. sale_uid d \<notin> JStr ` fst ` set es) (db_sales s)\<rparr>)"
  by (simp add: WriteTimeSeriesData_def act_simps mongo_store.prepare_sales_append [OF assms] without_ids_def)

definition bad_sale :: GenericSalesTimeSeries where
  "bad_sale = sample_sale\<lparr>gst_Metadata := [(''id'', JNull)]\<rparr>"

theorem WriteTimeSeriesData_error_loses_sales_witness:
  "fst (WriteTimeSeriesData sample_ext (mem_store []) [sample_sale, bad_sale] (empty_db\<lparr>db_sales := [sample_sale_doc]\<rparr>))
     = Inl (Errorf ''reserved field name: metadata'') \<and>
   db_sales (snd (WriteTimeSeriesData sample_ext (mem_store []) [sample_sale, bad_sale]
      (empty_db\<lparr>db_sales := [sample_sale_doc]\<rparr>))) = []"
proof -
  have good: "mapR (sale_entry sample_ext) [sample_sale] = Inr [(''0xa|ethereum-0xc-7'', sample_sale_doc)]"
    by (simp add: sample_sale_entry)
  have uid: "sale_unique_id sample_ext (gst_Metadata bad_sale) = Inl (Errorf ''reserved field name: metadata'')"
    by (simp add: bad_sale_def sale_unique_id_def reserved_def)
  have "parse_RFC3339Nano (gst_Timestamp bad_sale) \<noteq> None"
    using sample_sale_entry by (auto simp: bad_sale_def sale_entry_def split: option.splits)
  with uid have bad: "sale_entry sample_ext bad_sale = Inl (Errorf ''reserved field name: metadata'')"
    by (auto simp: sale_entry_def)
  have "sale_uid sample_sale_doc = JStr ''0xa|ethereum-0xc-7''"
    using sample_sale_uid [of "sale_Timestamp sample_sale_doc"] by simp
  then show ?thesis
    using WriteTimeSeriesData_error_loses_sales [OF mem_store_lawful good bad, of "[]" "[]" "empty_db\<lparr>db_sales := [sample_sale_doc]\<rparr>"] uid
    by simp
qed

text \<open>
  \<open>GetHistoricalExchangeRate\<close> returns a rate of the currency pair whose time is as close to the
  requested one as any, and the zero rate only if the pair has none: for times less than 292 years
  away, beyond which the differences saturate.
\<close>

theorem GetHistoricalExchangeRate_closest:
  assumes "mongo_store st" and "0 < t"
    and "list_all (\<lambda>r. 0 < er_Timestamp r \<and> \<bar>t - er_Timestamp r\<bar> < 9223372036854) (db_rates s)"
  shows "\<exists>r. GetHistoricalExchangeRate st c t s = (Inr r, s) \<and>
    (if \<exists>q\<in>set (db_rates s). er_CurrencyPair q = c
     then r \<in> set (db_rates s) \<and> er_CurrencyPair r = c \<and>
       (\<forall>q\<in>set (db_rates s). er_CurrencyPair q = c \<longrightarrow> \<bar>t - er_Timestamp r\<bar> \<le> \<bar>t - er_Timestamp q\<bar>)
     else r = zero_ExchangeRate)"
proof -
  define R where "R = {q \<in> set (db_rates s). er_CurrencyPair q = c}"
  define lower where "lower = first_rate (rate_below c t (db_rates s))"
  define greater where "greater = first_rate (rate_above c t (db_rates s))"
  have pos: "0 < er_Timestamp q" "\<bar>t - er_Timestamp q\<bar> < 9223372036854" if "q \<in> R" for q
    using assms(3) that by (auto simp: list_all_iff R_def)
  have zero: "er_Timestamp zero_ExchangeRate = 0" by (simp add: zero_ExchangeRate_def)
  have lower: "(lower = zero_ExchangeRate \<and> (\<forall>q\<in>R. t < er_Timestamp q)) \<or>
      (lower \<in> R \<and> er_Timestamp lower \<le> t \<and> (\<forall>q\<in>R. er_Timestamp q \<le> t \<longrightarrow> er_Timestamp q \<le> er_Timestamp lower))"
  proof (cases "rate_below c t (db_rates s)")
    case Nil
    have "t < er_Timestamp q" if "q \<in> R" for q
      using sort_key_empty [OF Nil [unfolded rate_below_def], of q] that by (simp add: R_def)
    moreover have "lower = zero_ExchangeRate" using Nil by (simp add: lower_def first_rate_def)
    ultimately show ?thesis by blast
  next
    case (Cons r rest)
    from sort_key_first [OF Cons [unfolded rate_below_def]] Cons show ?thesis
      by (auto simp: lower_def first_rate_def R_def)
  qed
  have greater: "(greater = zero_ExchangeRate \<and> (\<forall>q\<in>R. er_Timestamp q < t)) \<or>
      (greater \<in> R \<and> t \<le> er_Timestamp greater \<and> (\<forall>q\<in>R. t \<le> er_Timestamp q \<longrightarrow> er_Timestamp greater \<le> er_Timestamp q))"
  proof (cases "rate_above c t (db_rates s)")
    case Nil
    have "er_Timestamp q < t" if "q \<in> R" for q
      using sort_key_empty [OF Nil [unfolded rate_above_def], of q] that by (simp add: R_def)
    moreover have "greater = zero_ExchangeRate" using Nil by (simp add: greater_def first_rate_def)
    ultimately show ?thesis by blast
  next
    case (Cons r rest)
    from sort_key_first [OF Cons [unfolded rate_above_def]] Cons show ?thesis
      by (auto simp: greater_def first_rate_def R_def)
  qed
  define r where "r = (if t = er_Timestamp lower then lower
      else if er_Timestamp lower = 0 then greater
      else if er_Timestamp greater = 0 then lower
      else if time_Sub t (er_Timestamp lower) \<le> time_Sub (er_Timestamp greater) t then lower
      else greater)"
  have run: "GetHistoricalExchangeRate st c t s = (Inr r, s)"
    by (simp add: mongo_store.GetHistoricalExchangeRate_run [OF assms(1)] Let_def r_def lower_def greater_def)
  show ?thesis
  proof (cases "R = {}")
    case True
    with lower greater have "lower = zero_ExchangeRate" "greater = zero_ExchangeRate" by auto
    then have "r = zero_ExchangeRate" by (simp add: r_def)
    moreover have "\<not> (\<exists>q\<in>set (db_rates s). er_CurrencyPair q = c)" using True by (auto simp: R_def)
    ultimately show ?thesis by (simp add: run)
  next
    case False
    have "r \<in> R \<and> (\<forall>q\<in>R. \<bar>t - er_Timestamp r\<bar> \<le> \<bar>t - er_Timestamp q\<bar>)"
    proof (cases "lower \<in> R")
      case lo: True
      from pos [OF lo] have l: "er_Timestamp lower \<noteq> 0" "\<bar>t - er_Timestamp lower\<bar> < 9223372036854" by simp_all
      from lower l zero have l_max: "er_Timestamp lower \<le> t" "q \<in> R \<Longrightarrow> er_Timestamp q \<le> t \<Longrightarrow> er_Timestamp q \<le> er_Timestamp lower" for q
        by auto
      show ?thesis
      proof (cases "greater \<in> R")
        case gr: True
        from pos [OF gr] have g: "er_Timestamp greater \<noteq> 0" "\<bar>er_Timestamp greater - t\<bar> < 9223372036854" by simp_all
        from greater g zero have g_min: "t \<le> er_Timestamp greater" "q \<in> R \<Longrightarrow> t \<le> er_Timestamp q \<Longrightarrow> er_Timestamp greater \<le> er_Timestamp q" for q
          by auto
        have near: "min (t - er_Timestamp lower) (er_Timestamp greater - t) \<le> \<bar>t - er_Timestamp q\<bar>" if "q \<in> R" for q
          using l_max(2) [OF that] g_min(2) [OF that] by linarith
        have "r = (if t - er_Timestamp lower \<le> er_Timestamp greater - t then lower else greater)"
          using l g l_max(1) g_min(1) by (auto simp: r_def time_Sub_exact)
        then show ?thesis using lo gr near l_max(1) g_min(1) by (auto simp: min_def split: if_splits)
      next
        case False
        with greater have none: "greater = zero_ExchangeRate" "\<forall>q\<in>R. er_Timestamp q < t" by auto
        then have "r = lower" using l zero by (auto simp: r_def)
        moreover have "\<bar>t - er_Timestamp lower\<bar> \<le> \<bar>t - er_Timestamp q\<bar>" if "q \<in> R" for q
          using l_max(1) l_max(2) [OF that] bspec [OF none(2) that] by linarith
        ultimately show ?thesis using lo by simp
      qed
    next
      case nolo: False
      with lower have none: "lower = zero_ExchangeRate" "\<forall>q\<in>R. t < er_Timestamp q" by auto
      from False none(2) greater have gr: "greater \<in> R" "t \<le> er_Timestamp greater"
        and min: "\<forall>q\<in>R. t \<le> er_Timestamp q \<longrightarrow> er_Timestamp greater \<le> er_Timestamp q" by fastforce+
      have "r = greater" using none(1) zero assms(2) by (simp add: r_def)
      moreover have "\<bar>t - er_Timestamp greater\<bar> \<le> \<bar>t - er_Timestamp q\<bar>" if "q \<in> R" for q
        using gr(2) bspec [OF min that] bspec [OF none(2) that] by linarith
      ultimately show ?thesis using gr(1) by simp
    qed
    moreover have "\<exists>q\<in>set (db_rates s). er_CurrencyPair q = c" using False by (auto simp: R_def)
    ultimately show ?thesis by (simp add: run) (simp add: R_def)
  qed
qed


definition sample_rates :: "ExchangeRate list" where
  "sample_rates = map (\<lambda>t. \<lparr>er_Timestamp = t, er_Price = 1, er_CurrencyPair = ''ETH-USD''\<rparr>) [60000, 120000]"

theorem GetHistoricalExchangeRate_closest_witness:
  "\<exists>r. fst (GetHistoricalExchangeRate (mem_store []) ''ETH-USD'' 100000 (empty_db\<lparr>db_rates := sample_rates\<rparr>)) = Inr r \<and>
     er_Timestamp r = 120000"
  using GetHistoricalExchangeRate_closest [OF mem_store_lawful, of 100000 "empty_db\<lparr>db_rates := sample_rates\<rparr>" "[]" "''ETH-USD''"]
  by (auto simp: sample_rates_def)

lemma mapR_image: "mapR f xs = Inr ys \<Longrightarrow> x \<in> set xs \<Longrightarrow> \<exists>y\<in>set ys. f x = Inr y"
  by (induction xs arbitrary: ys) (auto simp: bindR_Inr_iff)

lemma jlookup_append_new: "k \<noteq> k' \<Longrightarrow> jlookup (m @ [(k', v)]) k = jlookup m k"
  by (simp add: jlookup_def map_add_def split: option.split)

lemma first_entries_all: "distinct (map fst es) \<Longrightarrow> fst ` set es \<inter> S = {} \<Longrightarrow> first_entries S es = es"
  by (induction S es rule: first_entries.induct) auto

lemma sale_exists_after_write:
  assumes "mongo_store st" and "mapR (sale_entry X) records = Inr es" and "distinct (map fst es)"
    and "r \<in> set records" and "jlookup (gst_Metadata r) ''blockchain'' = JStr b"
    and "jlookup (gst_Metadata r) ''transactionIDs'' = JArr txs" and "JStr tx \<in> set txs"
  shows "fst (SaleTimeSeriesDataExists st tx b (snd (WriteTimeSeriesData X st records s))) = Inr True"
proof -
  from mapR_image [OF assms(2,4)] obtain u d where d: "(u, d) \<in> set es" "sale_entry X r = Inr (u, d)" by auto
  from d(2) have meta: "sale_Metadata d = gst_Metadata r @ [(''uniqueID'', JStr u)]"
    by (auto simp: sale_entry_def sale_doc_def bindR_Inr_iff split: option.splits)
  have "first_entries {} es = es" by (rule first_entries_all [OF assms(3)]) simp
  with d(1) have "d \<in> set (map snd (first_entries {} es))" by force
  then have "filter (\<lambda>d. field_matches (jlookup (sale_Metadata d) ''transactionIDs'') tx \<and>
      field_matches (jlookup (sale_Metadata d) ''blockchain'') b) (map snd (first_entries {} es)) \<noteq> []"
    using assms(5-7) by (force simp: filter_empty_conv meta jlookup_append_new)
  then show ?thesis
    by (simp add: SaleTimeSeriesDataExists_def act_simps mongo_store.WriteTimeSeriesData_run [OF assms(1,2)]
        mongo_collection.CountDocuments_law [OF mongo_store.sales_law [OF assms(1)]] del: length_filter_map)
qed

text \<open>
  After a write of valid records with different ids, \<open>SaleTimeSeriesDataExists\<close> finds every
  transaction of a record on its blockchain: the workflow that asks before it indexes a sale skips it.
\<close>

theorem SaleTimeSeriesDataExists_after_write:
  assumes "mongo_store st" and "mapR (sale_entry X) records = Inr es" and "distinct (map fst es)"
    and "r \<in> set records" and "jlookup (gst_Metadata r) ''blockchain'' = JStr b"
    and "jlookup (gst_Metadata r) ''transactionIDs'' = JArr txs" and "JStr tx \<in> set txs"
  shows "fst (SaleTimeSeriesDataExists st tx b (snd (WriteTimeSeriesData X st records s))) = Inr True"
  by (rule sale_exists_after_write [OF assms])

theorem SaleTimeSeriesDataExists_after_write_witness:
  "fst (SaleTimeSeriesDataExists (mem_store []) ''0xa'' ''ethereum''
     (snd (WriteTimeSeriesData sample_ext (mem_store []) [sample_sale] empty_db))) = Inr True"
proof -
  have "mapR (sale_entry sample_ext) [sample_sale] = Inr [(''0xa|ethereum-0xc-7'', sample_sale_doc)]"
    by (simp add: sample_sale_entry)
  from SaleTimeSeriesDataExists_after_write [OF mem_store_lawful this, of sample_sale "''ethereum''" "[JStr ''0xa'']"]
  show ?thesis by (simp add: sample_sale_def jlookup_def)
qed

end
