(* ===== verification/GrpcMapper.thy ===== *)
theory GrpcMapper
  imports StoreSales
begin

text \<open>
  The mapper between the records of the indexer and the messages of its gRPC interface
  (\<open>sdk/grpc-gateway/mapper.go\<close>, the messages of \<open>protos/gateway.proto\<close>). A time travels as the
  string \<open>GoTime\<close> models. \<open>encoding/json\<close>, \<open>structpb\<close>, \<open>timestamppb\<close> and the text of a decimal are
  the parameter \<open>codec\<close>, with their documented round trips as the laws of the interface
  \<open>message_codec\<close>. The elements of a repeated field of messages are never nil, as protobuf
  requires; a singular message field may be nil.
\<close>

section \<open>The messages\<close>

record pb_BaseTokenInfo =
  gb_ID :: string
  gb_Blockchain :: string
  gb_Fungible :: bool
  gb_ContractType :: string
  gb_ContractAddress :: string

record pb_Provenance =
  gp_FormerOwner :: string
  gp_Type :: string
  gp_Owner :: string
  gp_Blockchain :: string
  gp_BlockNumber :: "int option"
  gp_Timestamp :: string
  gp_TxID :: string
  gp_TxURL :: string

record pb_Token =
  gt_ID :: string
  gt_Blockchain :: string
  gt_Fungible :: bool
  gt_ContractType :: string
  gt_ContractAddress :: string
  gt_Edition :: int
  gt_EditionName :: string
  gt_MintedAt :: string
  gt_Balance :: int
  gt_Owner :: string
  gt_Owners :: "(string \<rightharpoonup> int) option"
  gt_OwnersArray :: "string list option"
  gt_AssetID :: string
  gt_OriginTokenInfo :: "pb_BaseTokenInfo list"
  gt_IsDemo :: bool
  gt_IndexID :: string
  gt_Source :: string
  gt_Swapped :: bool
  gt_SwappedFrom :: string
  gt_SwappedTo :: string
  gt_Burned :: bool
  gt_Provenances :: "pb_Provenance list"
  gt_LastActivityTime :: string
  gt_LastRefreshedTime :: string

record pb_AccountToken =
  ga_ID :: string
  ga_Blockchain :: string
  ga_Fungible :: bool
  ga_ContractType :: string
  ga_ContractAddress :: string
  ga_IndexID :: string
  ga_OwnerAccount :: string
  ga_Balance :: int
  ga_LastActivityTime :: string
  ga_LastRefreshedTime :: string
  ga_LastPendingTime :: "string list"
  ga_LastUpdatedAt :: string
  ga_PendingTxs :: "string list"

record pb_AssetConfiguration =
  gc_Scaling :: string
  gc_BackgroundColor :: string
  gc_MarginLeft :: float64
  gc_MarginRight :: float64
  gc_MarginBottom :: float64
  gc_MarginTop :: float64
  gc_AutoPlay :: bool
  gc_Looping :: bool
  gc_Interactable :: bool
  gc_Overridable :: bool

record pb_AssetAttributes =
  gaa_Configuration :: "pb_AssetConfiguration option"

record pb_Artist =
  gar_ArtistID :: string
  gar_ArtistName :: string
  gar_ArtistURL :: string

record pb_ProjectMetadata =
  gpm_ArtistID :: string
  gpm_ArtistName :: string
  gpm_ArtistURL :: string
  gpm_AssetID :: string
  gpm_Title :: string
  gpm_Description :: string
  gpm_MIMEType :: string
  gpm_Medium :: string
  gpm_MaxEdition :: int
  gpm_BaseCurrency :: string
  gpm_BasePrice :: float64
  gpm_Source :: string
  gpm_SourceURL :: string
  gpm_PreviewURL :: string
  gpm_ThumbnailURL :: string
  gpm_GalleryThumbnailURL :: string
  gpm_AssetData :: string
  gpm_AssetURL :: string
  gpm_Attributes :: "pb_AssetAttributes option"
  gpm_ArtworkMetadata :: string
  gpm_LastUpdatedAt :: string
  gpm_InitialSaleModel :: string
  gpm_OriginalFileURL :: string
  gpm_Artists :: "pb_Artist list"

record pb_VersionedProjectMetadata =
  gv_Origin :: "pb_ProjectMetadata option"
  gv_Latest :: "pb_ProjectMetadata option"

record pb_DetailedToken =
  gd_Token :: "pb_Token option"
  gd_ThumbnailID :: string
  gd_IPFSPinned :: bool
  gd_Attributes :: "pb_AssetAttributes option"
  gd_ProjectMetadata :: "pb_VersionedProjectMetadata option"

text \<open>A \<open>google.protobuf.Struct\<close> and a \<open>google.protobuf.Timestamp\<close>.\<close>

datatype pb_Struct = PbStruct "(string \<times> json) list"

record pb_Timestamp =
  ts_Seconds :: int
  ts_Nanos :: int

record pb_SaleTimeSeriesRecord =
  gsr_Timestamp :: string
  gsr_Metadata :: "pb_Struct option"
  gsr_Values :: "(string \<times> string) list"
  gsr_Shares :: "(string \<times> string) list"

record pb_SaleTimeSeries =
  gs_Timestamp :: "pb_Timestamp option"
  gs_Metadata :: string
  gs_Shares :: string
  gs_NetValue :: string
  gs_PaymentAmount :: string
  gs_PlatformFee :: string
  gs_UsdQuote :: string
  gs_Price :: string

record pb_ExchangeRateResponse =
  ge_Timestamp :: "pb_Timestamp option"
  ge_Price :: float64
  ge_CurrencyPair :: string

section \<open>The codecs\<close>

record codec =
  json_Marshal :: "(string \<times> json) list \<Rightarrow> string option"
  json_Unmarshal :: "string \<Rightarrow> (string \<times> json) list option"
  decimal_String :: "decimal128 \<Rightarrow> string"
  structpb_NewStruct :: "(string \<times> json) list \<Rightarrow> pb_Struct option"
  structpb_AsMap :: "pb_Struct option \<Rightarrow> (string \<times> json) list"
  timestamppb_New :: "gotime \<Rightarrow> pb_Timestamp"
  timestamppb_AsTime :: "pb_Timestamp option \<Rightarrow> gotime"

text \<open>
  The association list of a Go map in the form in which the codecs give it back: its keys in ascending
  order, as \<open>json.Marshal\<close> writes them, and so in every map inside it.
\<close>

fun canonical :: "json \<Rightarrow> bool" where
  "canonical (JArr xs) = list_all canonical xs"
| "canonical (JObj kvs) = (sorted_wrt (<) (map fst kvs) \<and> list_all (\<lambda>(k, v). canonical v) kvs)"
| "canonical _ = True"

text \<open>
  What is read back for a value: a decimal is written as the object \<open>{"$numberDecimal": ...}\<close> and is
  this object for the reader.
\<close>

fun reread :: "(decimal128 \<Rightarrow> string) \<Rightarrow> json \<Rightarrow> json" where
  "reread f (JArr xs) = JArr (map (reread f) xs)"
| "reread f (JObj kvs) = JObj (map (\<lambda>(k, v). (k, reread f v)) kvs)"
| "reread f (JDec d) = JObj [(''$numberDecimal'', JStr (f d))]"
| "reread f v = v"

abbreviation reread_map :: "codec \<Rightarrow> (string \<times> json) list \<Rightarrow> (string \<times> json) list" where
  "reread_map C m \<equiv> map (\<lambda>(k, v). (k, reread (decimal_String C) v)) m"

locale message_codec =
  fixes X :: ext and C :: codec
  assumes json_round: "canonical (JObj m) \<Longrightarrow> json_Marshal C m = Some s \<Longrightarrow>
        json_Unmarshal C s = Some (reread_map C m)"
    and decimal_round: "x_ParseDecimal128 X (decimal_String C d) = Some d"
    and struct_round: "canonical (JObj m) \<Longrightarrow> structpb_NewStruct C m = Some p \<Longrightarrow>
        structpb_AsMap C (Some p) = reread_map C m"
    and struct_nil: "structpb_AsMap C None = []"
    and timestamp_round: "timestamppb_AsTime C (Some (timestamppb_New C t)) = t"

section \<open>Strings and times\<close>

definition DerefString :: "string option \<Rightarrow> string" where
  "DerefString s = (case s of Some v \<Rightarrow> v | None \<Rightarrow> [])"

definition ParseTime :: "string \<Rightarrow> gotime res" where
  "ParseTime timeString =
     (case parse_RFC3339Nano timeString of None \<Rightarrow> Inl (Errorf ''parsing time'') | Some t \<Rightarrow> Inr t)"

definition ConvertTimeStringsToTimes :: "string list \<Rightarrow> gotime list res" where
  "ConvertTimeStringsToTimes timeStrings = mapR ParseTime timeStrings"

definition ConvertTimesToTimeStrings :: "gotime list \<Rightarrow> string list" where
  "ConvertTimesToTimeStrings ts = map format_RFC3339Nano ts"

section \<open>Tokens\<close>

definition MapGRPCTokenInfoToIndexerTokenInfo :: "pb_BaseTokenInfo list \<Rightarrow> BaseTokenInfo list" where
  "MapGRPCTokenInfoToIndexerTokenInfo token =
     map (\<lambda>v. \<lparr>base_ID = gb_ID v, base_Blockchain = gb_Blockchain v, base_Fungible = gb_Fungible v,
               base_ContractType = gb_ContractType v, base_ContractAddress = gb_ContractAddress v\<rparr>) token"

definition MapIndexerTokenInfoToGRPCTokenInfo :: "BaseTokenInfo list \<Rightarrow> pb_BaseTokenInfo list" where
  "MapIndexerTokenInfoToGRPCTokenInfo token =
     map (\<lambda>v. \<lparr>gb_ID = base_ID v, gb_Blockchain = base_Blockchain v, gb_Fungible = base_Fungible v,
               gb_ContractType = base_ContractType v, gb_ContractAddress = base_ContractAddress v\<rparr>) token"

definition MapGRPCProvenancesToIndexerProvenances :: "pb_Provenance list \<Rightarrow> Provenance list res" where
  "MapGRPCProvenancesToIndexerProvenances provenance =
     mapR (\<lambda>v. bindR (ParseTime (gp_Timestamp v)) (\<lambda>timestamp.
       Inr \<lparr>prov_FormerOwner = Some (gp_FormerOwner v), prov_Type = gp_Type v, prov_Owner = gp_Owner v,
            prov_Blockchain = gp_Blockchain v, prov_BlockNumber = gp_BlockNumber v,
            prov_Timestamp = timestamp, prov_TxID = gp_TxID v, prov_TxURL = gp_TxURL v\<rparr>)) provenance"

definition MapIndexerProvenancesToGRPCProvenances :: "Provenance list \<Rightarrow> pb_Provenance list" where
  "MapIndexerProvenancesToGRPCProvenances provenance =
     map (\<lambda>v. \<lparr>gp_FormerOwner = DerefString (prov_FormerOwner v), gp_Type = prov_Type v,
               gp_Owner = prov_Owner v, gp_Blockchain = prov_Blockchain v,
               gp_BlockNumber = prov_BlockNumber v, gp_Timestamp = format_RFC3339Nano (prov_Timestamp v),
               gp_TxID = prov_TxID v, gp_TxURL = prov_TxURL v\<rparr>) provenance"

definition MapGrpcTokenToIndexerToken :: "pb_Token \<Rightarrow> Token res" where
  "MapGrpcTokenToIndexerToken b =
     bindR (ParseTime (gt_MintedAt b)) (\<lambda>mintedAt.
     bindR (ParseTime (gt_LastRefreshedTime b)) (\<lambda>lastActivityTime.
     bindR (ParseTime (gt_LastRefreshedTime b)) (\<lambda>lastRefreshedTime.
     bindR (MapGRPCProvenancesToIndexerProvenances (gt_Provenances b)) (\<lambda>provenances.
     Inr \<lparr>tok_Base = \<lparr>base_ID = gt_ID b, base_Blockchain = gt_Blockchain b,
            base_Fungible = gt_Fungible b, base_ContractType = gt_ContractType b,
            base_ContractAddress = gt_ContractAddress b\<rparr>,
          tok_Edition = gt_Edition b, tok_EditionName = gt_EditionName b, tok_MintedAt = mintedAt,
          tok_Balance = gt_Balance b, tok_Owner = gt_Owner b, tok_Owners = gt_Owners b,
          tok_OwnersArray = gt_OwnersArray b, tok_AssetID = gt_AssetID b,
          tok_OriginTokenInfo = MapGRPCTokenInfoToIndexerTokenInfo (gt_OriginTokenInfo b),
          tok_IsDemo = gt_IsDemo b, tok_IndexID = gt_IndexID b, tok_Source = gt_Source b,
          tok_Swapped = gt_Swapped b, tok_SwappedFrom = Some (gt_SwappedFrom b),
          tok_SwappedTo = Some (gt_SwappedTo b), tok_Burned = gt_Burned b,
          tok_Provenances = Some provenances, tok_LastActivityTime = lastActivityTime,
          tok_LastRefreshedTime = lastRefreshedTime\<rparr>))))"

definition MapIndexerTokenToGrpcToken :: "Token \<Rightarrow> pb_Token" where
  "MapIndexerTokenToGrpcToken t =
     \<lparr>gt_ID = tok_ID t, gt_Blockchain = tok_Blockchain t, gt_Fungible = tok_Fungible t,
      gt_ContractType = base_ContractType (tok_Base t), gt_ContractAddress = tok_ContractAddress t,
      gt_Edition = tok_Edition t, gt_EditionName = tok_EditionName t,
      gt_MintedAt = format_RFC3339Nano (tok_MintedAt t), gt_Balance = tok_Balance t,
      gt_Owner = tok_Owner t, gt_Owners = tok_Owners t, gt_OwnersArray = tok_OwnersArray t,
      gt_AssetID = tok_AssetID t,
      gt_OriginTokenInfo = MapIndexerTokenInfoToGRPCTokenInfo (tok_OriginTokenInfo t),
      gt_IsDemo = tok_IsDemo t, gt_IndexID = tok_IndexID t, gt_Source = tok_Source t,
      gt_Swapped = tok_Swapped t, gt_SwappedFrom = DerefString (tok_SwappedFrom t),
      gt_SwappedTo = DerefString (tok_SwappedTo t), gt_Burned = tok_Burned t,
      gt_Provenances = MapIndexerProvenancesToGRPCProvenances (provs t),
      gt_LastActivityTime = format_RFC3339Nano (tok_LastActivityTime t),
      gt_LastRefreshedTime = format_RFC3339Nano (tok_LastRefreshedTime t)\<rparr>"

section \<open>Account tokens\<close>

definition MapGRPCAccountTokensToIndexerAccountTokens :: "pb_AccountToken list \<Rightarrow> AccountToken list res" where
  "MapGRPCAccountTokensToIndexerAccountTokens accountTokens =
     mapR (\<lambda>v.
       bindR (ParseTime (ga_LastActivityTime v)) (\<lambda>lastActivityTime.
       bindR (ParseTime (ga_LastRefreshedTime v)) (\<lambda>lastRefreshedTime.
       bindR (ConvertTimeStringsToTimes (ga_LastPendingTime v)) (\<lambda>lastPendingTime.
       Inr \<lparr>at_Base = \<lparr>base_ID = ga_ID v, base_Blockchain = ga_Blockchain v,
              base_Fungible = ga_Fungible v, base_ContractType = ga_ContractType v,
              base_ContractAddress = ga_ContractAddress v\<rparr>,
            at_IndexID = ga_IndexID v, at_OwnerAccount = ga_OwnerAccount v, at_Balance = ga_Balance v,
            at_LastActivityTime = lastActivityTime, at_LastRefreshedTime = lastRefreshedTime,
            at_LastPendingTime = lastPendingTime, at_PendingTxs = ga_PendingTxs v\<rparr>)))) accountTokens"

definition MapIndexerAccountTokensToGRPCAccountTokens :: "AccountToken list \<Rightarrow> pb_AccountToken list" where
  "MapIndexerAccountTokensToGRPCAccountTokens accountTokens =
     map (\<lambda>v. \<lparr>ga_ID = base_ID (at_Base v), ga_Blockchain = base_Blockchain (at_Base v),
               ga_Fungible = base_Fungible (at_Base v), ga_ContractType = base_ContractType (at_Base v),
               ga_ContractAddress = base_ContractAddress (at_Base v), ga_IndexID = at_IndexID v,
               ga_OwnerAccount = at_OwnerAccount v, ga_Balance = at_Balance v,
               ga_LastActivityTime = format_RFC3339Nano (at_LastActivityTime v),
               ga_LastRefreshedTime = format_RFC3339Nano (at_LastRefreshedTime v),
               ga_LastPendingTime = ConvertTimesToTimeStrings (at_LastPendingTime v),
               ga_LastUpdatedAt = [], ga_PendingTxs = at_PendingTxs v\<rparr>) accountTokens"

section \<open>Assets\<close>

definition MapGrpcAssetConfigurationToIndexerAssetConfiguration ::
    "pb_AssetConfiguration option \<Rightarrow> AssetConfiguration option" where
  "MapGrpcAssetConfigurationToIndexerAssetConfiguration configuration =
     (case configuration of None \<Rightarrow> None | Some c \<Rightarrow>
        Some \<lparr>cfg_Scaling = gc_Scaling c, cfg_BackgroundColor = gc_BackgroundColor c,
              cfg_MarginLeft = gc_MarginLeft c, cfg_MarginRight = gc_MarginRight c,
              cfg_MarginTop = gc_MarginTop c, cfg_MarginBottom = gc_MarginBottom c,
              cfg_AutoPlay = gc_AutoPlay c, cfg_Looping = gc_Looping c,
              cfg_Interactable = gc_Interactable c, cfg_Overridable = gc_Overridable c\<rparr>)"

definition MapIndexerAssetConfigurationToGrpcAssetConfiguration ::
    "AssetConfiguration option \<Rightarrow> pb_AssetConfiguration option" where
  "MapIndexerAssetConfigurationToGrpcAssetConfiguration configuration =
     (case configuration of None \<Rightarrow> None | Some c \<Rightarrow>
        Some \<lparr>gc_Scaling = cfg_Scaling c, gc_BackgroundColor = cfg_BackgroundColor c,
              gc_MarginLeft = cfg_MarginLeft c, gc_MarginRight = cfg_MarginRight c,
              gc_MarginBottom = cfg_MarginBottom c, gc_MarginTop = cfg_MarginTop c,
              gc_AutoPlay = cfg_AutoPlay c, gc_Looping = cfg_Looping c,
              gc_Interactable = cfg_Interactable c, gc_Overridable = cfg_Overridable c\<rparr>)"

definition MapIndexerAttributesToGRPCAttributes :: "AssetAttributes option \<Rightarrow> pb_AssetAttributes option" where
  "MapIndexerAttributesToGRPCAttributes attributes =
     (case attributes of None \<Rightarrow> None | Some a \<Rightarrow>
        Some \<lparr>gaa_Configuration =
                MapIndexerAssetConfigurationToGrpcAssetConfiguration (attr_Configuration a)\<rparr>)"

definition MapGrpcAttributesToIndexerAttributes :: "pb_AssetAttributes option \<Rightarrow> AssetAttributes option" where
  "MapGrpcAttributesToIndexerAttributes attributes =
     (case attributes of None \<Rightarrow> None | Some a \<Rightarrow>
        Some \<lparr>attr_Configuration =
                MapGrpcAssetConfigurationToIndexerAssetConfiguration (gaa_Configuration a)\<rparr>)"

definition MapIndexerArtworkMetadataToGRPCArtworkMetadata :: "codec \<Rightarrow> (string \<times> json) list \<Rightarrow> string" where
  "MapIndexerArtworkMetadataToGRPCArtworkMetadata C artworkMetadata =
     (case json_Marshal C artworkMetadata of None \<Rightarrow> [] | Some b \<Rightarrow> b)"

definition MapGrpcArtworkMetadataToIndexerArtworkMetadata :: "codec \<Rightarrow> string \<Rightarrow> (string \<times> json) list" where
  "MapGrpcArtworkMetadataToIndexerArtworkMetadata C artworkMetadata =
     (case json_Unmarshal C artworkMetadata of None \<Rightarrow> [] | Some b \<Rightarrow> b)"

definition MapIndexerProjectMetadataToGRPCProjectMetadata :: "codec \<Rightarrow> ProjectMetadata \<Rightarrow> pb_ProjectMetadata" where
  "MapIndexerProjectMetadataToGRPCProjectMetadata C p =
     (let attributes = MapIndexerAttributesToGRPCAttributes (pm_Attributes p);
          artists = map (\<lambda>i. \<lparr>gar_ArtistID = artist_ID i, gar_ArtistName = artist_Name i,
                              gar_ArtistURL = artist_URL i\<rparr>) (pm_Artists p)
      in \<lparr>gpm_ArtistID = pm_ArtistID p, gpm_ArtistName = pm_ArtistName p, gpm_ArtistURL = pm_ArtistURL p,
          gpm_AssetID = pm_AssetID p, gpm_Title = pm_Title p, gpm_Description = pm_Description p,
          gpm_MIMEType = pm_MIMEType p, gpm_Medium = pm_Medium p, gpm_MaxEdition = pm_MaxEdition p,
          gpm_BaseCurrency = pm_BaseCurrency p, gpm_BasePrice = pm_BasePrice p, gpm_Source = pm_Source p,
          gpm_SourceURL = pm_SourceURL p, gpm_PreviewURL = pm_PreviewURL p,
          gpm_ThumbnailURL = pm_ThumbnailURL p, gpm_GalleryThumbnailURL = pm_GalleryThumbnailURL p,
          gpm_AssetData = pm_AssetData p, gpm_AssetURL = pm_AssetURL p, gpm_Attributes = attributes,
          gpm_ArtworkMetadata = MapIndexerArtworkMetadataToGRPCArtworkMetadata C (pm_ArtworkMetadata p),
          gpm_LastUpdatedAt = format_RFC3339Nano (pm_LastUpdatedAt p),
          gpm_InitialSaleModel = pm_InitialSaleModel p, gpm_OriginalFileURL = pm_OriginalFileURL p,
          gpm_Artists = artists\<rparr>)"

definition MapGrpcProjectMetadataToIndexerProjectMetadata :: "codec \<Rightarrow> pb_ProjectMetadata \<Rightarrow> ProjectMetadata res" where
  "MapGrpcProjectMetadataToIndexerProjectMetadata C p =
     (let attributes = MapGrpcAttributesToIndexerAttributes (gpm_Attributes p)
      in bindR (ParseTime (gpm_LastUpdatedAt p)) (\<lambda>lastUpdatedAt.
      let artists = map (\<lambda>a. \<lparr>artist_ID = gar_ArtistID a, artist_Name = gar_ArtistName a,
                              artist_URL = gar_ArtistURL a\<rparr>) (gpm_Artists p)
      in Inr \<lparr>pm_ArtistID = gpm_ArtistID p, pm_ArtistName = gpm_ArtistName p, pm_ArtistURL = gpm_ArtistURL p,
          pm_Artists = artists,
          pm_AssetID = gpm_AssetID p, pm_Title = gpm_Title p, pm_Description = gpm_Description p,
          pm_MIMEType = gpm_MIMEType p, pm_Medium = gpm_Medium p, pm_MaxEdition = gpm_MaxEdition p,
          pm_BaseCurrency = gpm_BaseCurrency p, pm_BasePrice = gpm_BasePrice p, pm_Source = gpm_Source p,
          pm_SourceURL = gpm_SourceURL p, pm_PreviewURL = gpm_PreviewURL p,
          pm_ThumbnailURL = gpm_ThumbnailURL p, pm_GalleryThumbnailURL = gpm_GalleryThumbnailURL p,
          pm_AssetData = gpm_AssetData p, pm_AssetURL = gpm_AssetURL p, pm_Attributes = attributes,
          pm_ArtworkMetadata = MapGrpcArtworkMetadataToIndexerArtworkMetadata C (gpm_ArtworkMetadata p),
          pm_LastUpdatedAt = lastUpdatedAt, pm_InitialSaleModel = gpm_InitialSaleModel p,
          pm_OriginalFileURL = gpm_OriginalFileURL p\<rparr>))"

definition MapIndexerDetailedTokenToGRPCDetailedToken :: "codec \<Rightarrow> DetailedToken \<Rightarrow> pb_DetailedToken" where
  "MapIndexerDetailedTokenToGRPCDetailedToken C token =
     (let origin = MapIndexerProjectMetadataToGRPCProjectMetadata C (vpm_Origin (dt_ProjectMetadata token));
          latest = MapIndexerProjectMetadataToGRPCProjectMetadata C (vpm_Latest (dt_ProjectMetadata token));
          attributes = MapIndexerAttributesToGRPCAttributes (dt_Attributes token)
      in \<lparr>gd_Token = Some (MapIndexerTokenToGrpcToken (dt_Token token)),
          gd_ThumbnailID = dt_ThumbnailID token, gd_IPFSPinned = dt_IPFSPinned token,
          gd_Attributes = attributes,
          gd_ProjectMetadata = Some \<lparr>gv_Origin = Some origin, gv_Latest = Some latest\<rparr>\<rparr>)"

text \<open>The use of a field of a nil message.\<close>

definition nil_panic :: goerr where
  "nil_panic = GoPanic ''invalid memory address or nil pointer dereference''"

definition deref :: "'a option \<Rightarrow> 'a res" where
  "deref p = (case p of None \<Rightarrow> Inl nil_panic | Some a \<Rightarrow> Inr a)"

lemma deref_simps [simp]: "deref (Some a) = Inr a" "deref None = Inl nil_panic"
  by (simp_all add: deref_def)

definition MapGrpcDetailedTokenToIndexerDetailedToken :: "codec \<Rightarrow> pb_DetailedToken \<Rightarrow> DetailedToken res" where
  "MapGrpcDetailedTokenToIndexerDetailedToken C token =
     bindR (bindR (deref (gd_ProjectMetadata token)) (\<lambda>v. deref (gv_Origin v))) (\<lambda>gorigin.
     bindR (MapGrpcProjectMetadataToIndexerProjectMetadata C gorigin) (\<lambda>origin.
     bindR (bindR (deref (gd_ProjectMetadata token)) (\<lambda>v. deref (gv_Latest v))) (\<lambda>glatest.
     bindR (MapGrpcProjectMetadataToIndexerProjectMetadata C glatest) (\<lambda>latest.
     bindR (bindR (deref (gd_Token token)) MapGrpcTokenToIndexerToken) (\<lambda>indexerToken.
     let attributes = MapGrpcAttributesToIndexerAttributes (gd_Attributes token)
     in Inr \<lparr>dt_Token = indexerToken, dt_ThumbnailID = gd_ThumbnailID token,
             dt_IPFSPinned = gd_IPFSPinned token, dt_Attributes = attributes,
             dt_ProjectMetadata = \<lparr>vpm_Origin = origin, vpm_Latest = latest\<rparr>\<rparr>)))))"

section \<open>Sales and exchange rates\<close>

text \<open>The list of messages, nil when one of the metadata maps cannot be a \<open>Struct\<close>.\<close>

definition sale_record :: "codec \<Rightarrow> GenericSalesTimeSeries \<Rightarrow> pb_SaleTimeSeriesRecord res" where
  "sale_record C v =
     (case structpb_NewStruct C (gst_Metadata v) of
        None \<Rightarrow> Inl (Errorf ''invalid value'')
      | Some metadata \<Rightarrow> Inr \<lparr>gsr_Timestamp = gst_Timestamp v, gsr_Metadata = Some metadata,
                              gsr_Values = gst_Values v, gsr_Shares = gst_Shares v\<rparr>)"

definition MapGenericSaleTimeSeries ::
    "codec \<Rightarrow> GenericSalesTimeSeries list option \<Rightarrow> pb_SaleTimeSeriesRecord list option" where
  "MapGenericSaleTimeSeries C s =
     (case s of
        None \<Rightarrow> None
      | Some vs \<Rightarrow> (case mapR (sale_record C) vs of Inl _ \<Rightarrow> None | Inr records \<Rightarrow> Some records))"

definition MapGrpcSaleTimeSeriesRecords ::
    "codec \<Rightarrow> pb_SaleTimeSeriesRecord list option \<Rightarrow> GenericSalesTimeSeries list option" where
  "MapGrpcSaleTimeSeriesRecords C s =
     (case s of
        None \<Rightarrow> None
      | Some vs \<Rightarrow> Some (map (\<lambda>v. \<lparr>gst_Timestamp = gsr_Timestamp v,
            gst_Metadata = structpb_AsMap C (gsr_Metadata v), gst_Values = gsr_Values v,
            gst_Shares = gsr_Shares v\<rparr>) vs))"

definition MapGrpcTimestampToTime :: "codec \<Rightarrow> pb_Timestamp option \<Rightarrow> gotime option" where
  "MapGrpcTimestampToTime C timestamp =
     (case timestamp of None \<Rightarrow> None | Some t \<Rightarrow> Some (timestamppb_AsTime C (Some t)))"

definition MapTimeToGrpcTimestamp :: "codec \<Rightarrow> gotime option \<Rightarrow> pb_Timestamp option" where
  "MapTimeToGrpcTimestamp C t = (case t of None \<Rightarrow> None | Some v \<Rightarrow> Some (timestamppb_New C v))"

definition MapToJson :: "codec \<Rightarrow> (string \<times> json) list \<Rightarrow> string res" where
  "MapToJson C input =
     (case json_Marshal C input of None \<Rightarrow> Inl (Errorf ''json: unsupported value'') | Some b \<Rightarrow> Inr b)"

definition MapToGrpcSaleTimeSeriesListResponse ::
    "codec \<Rightarrow> SaleTimeSeries list \<Rightarrow> pb_SaleTimeSeries list res" where
  "MapToGrpcSaleTimeSeriesListResponse C sales =
     mapR (\<lambda>s.
       bindR (MapToJson C (sts_Metadata s)) (\<lambda>metadata.
       bindR (MapToJson C (sts_Shares s)) (\<lambda>shares.
       Inr \<lparr>gs_Timestamp = MapTimeToGrpcTimestamp C (Some (sts_Timestamp s)), gs_Metadata = metadata,
            gs_Shares = shares, gs_NetValue = decimal_String C (sts_NetValue s),
            gs_PaymentAmount = decimal_String C (sts_PaymentAmount s),
            gs_PlatformFee = decimal_String C (sts_PlatformFee s),
            gs_UsdQuote = decimal_String C (sts_USDQuote s), gs_Price = decimal_String C (sts_Price s)\<rparr>))) sales"

definition MapToGrpcSaleRevenuesResponse :: "codec \<Rightarrow> (string \<rightharpoonup> decimal128) \<Rightarrow> (string \<rightharpoonup> string)" where
  "MapToGrpcSaleRevenuesResponse C revenues = (\<lambda>k. map_option (decimal_String C) (revenues k))"

definition ParseDecimal128 :: "ext \<Rightarrow> string \<Rightarrow> decimal128 res" where
  "ParseDecimal128 X s = (case x_ParseDecimal128 X s of None \<Rightarrow> Inl (Errorf ''cannot parse decimal'') | Some d \<Rightarrow> Inr d)"

definition Unmarshal :: "codec \<Rightarrow> string \<Rightarrow> (string \<times> json) list res" where
  "Unmarshal C s = (case json_Unmarshal C s of None \<Rightarrow> Inl (Errorf ''json: cannot unmarshal'') | Some m \<Rightarrow> Inr m)"

definition MapGrpcSaleTimeSeriesListResponseToIndexerSaleTimeSeries ::
    "ext \<Rightarrow> codec \<Rightarrow> pb_SaleTimeSeries list option \<Rightarrow> SaleTimeSeries list res" where
  "MapGrpcSaleTimeSeriesListResponseToIndexerSaleTimeSeries X C sales =
     (case sales of
        None \<Rightarrow> Inr []
      | Some ss \<Rightarrow> mapR (\<lambda>s.
          bindR (ParseDecimal128 X (gs_NetValue s)) (\<lambda>netValue.
          bindR (ParseDecimal128 X (gs_PaymentAmount s)) (\<lambda>paymentAmount.
          bindR (ParseDecimal128 X (gs_PaymentAmount s)) (\<lambda>platformFee.
          bindR (ParseDecimal128 X (gs_PaymentAmount s)) (\<lambda>usdQuote.
          bindR (ParseDecimal128 X (gs_PaymentAmount s)) (\<lambda>price.
          bindR (Unmarshal C (gs_Metadata s)) (\<lambda>metadata.
          bindR (Unmarshal C (gs_Shares s)) (\<lambda>shares.
          bindR (deref (MapGrpcTimestampToTime C (gs_Timestamp s))) (\<lambda>timestamp.
          Inr \<lparr>sts_Timestamp = timestamp, sts_Metadata = metadata, sts_Shares = shares,
               sts_NetValue = netValue, sts_PaymentAmount = paymentAmount, sts_PlatformFee = platformFee,
               sts_USDQuote = usdQuote, sts_Price = price\<rparr>)))))))) ) ss)"

definition MapToExchangeRateResponse :: "codec \<Rightarrow> ExchangeRate \<Rightarrow> pb_ExchangeRateResponse res" where
  "MapToExchangeRateResponse C exchangeRate =
     Inr \<lparr>ge_Timestamp = Some (timestamppb_New C (er_Timestamp exchangeRate)),
          ge_Price = er_Price exchangeRate, ge_CurrencyPair = er_CurrencyPair exchangeRate\<rparr>"

definition MapGrpcExchangeRateResponseToIndexerExchangeRate :: "codec \<Rightarrow> pb_ExchangeRateResponse \<Rightarrow> ExchangeRate res" where
  "MapGrpcExchangeRateResponseToIndexerExchangeRate C exchangeRate =
     Inr \<lparr>er_Timestamp = timestamppb_AsTime C (ge_Timestamp exchangeRate),
          er_Price = ge_Price exchangeRate, er_CurrencyPair = ge_CurrencyPair exchangeRate\<rparr>"

section \<open>The round trips\<close>

text \<open>A time \<open>time.Format\<close> prints with a year of four digits.\<close>

definition printable :: "gotime \<Rightarrow> bool" where
  "printable t \<longleftrightarrow> 0 \<le> t \<and> t < 3652059 * 86400000"

lemma ParseTime_format [simp]: "printable t \<Longrightarrow> ParseTime (format_RFC3339Nano t) = Inr t"
  by (simp add: printable_def ParseTime_def parse_format_RFC3339Nano)

lemma ConvertTimes_round [simp]:
  "list_all printable ts \<Longrightarrow> ConvertTimeStringsToTimes (ConvertTimesToTimeStrings ts) = Inr ts"
  by (induction ts) (simp_all add: ConvertTimeStringsToTimes_def ConvertTimesToTimeStrings_def)

lemma TokenInfo_round [simp]: "MapGRPCTokenInfoToIndexerTokenInfo (MapIndexerTokenInfoToGRPCTokenInfo bs) = bs"
  by (induction bs) (simp_all add: MapGRPCTokenInfoToIndexerTokenInfo_def MapIndexerTokenInfoToGRPCTokenInfo_def)

text \<open>A provenance after the trip: a missing former owner is the empty string.\<close>

definition sent_Provenance :: "Provenance \<Rightarrow> Provenance" where
  "sent_Provenance p = p\<lparr>prov_FormerOwner := Some (DerefString (prov_FormerOwner p))\<rparr>"

lemma Provenances_round [simp]:
  "list_all (\<lambda>p. printable (prov_Timestamp p)) ps \<Longrightarrow>
    MapGRPCProvenancesToIndexerProvenances (MapIndexerProvenancesToGRPCProvenances ps) = Inr (map sent_Provenance ps)"
  by (induction ps)
     (simp_all add: MapGRPCProvenancesToIndexerProvenances_def MapIndexerProvenancesToGRPCProvenances_def sent_Provenance_def)

lemma Configuration_round [simp]:
  "MapGrpcAssetConfigurationToIndexerAssetConfiguration (MapIndexerAssetConfigurationToGrpcAssetConfiguration c) = c"
  by (simp add: MapGrpcAssetConfigurationToIndexerAssetConfiguration_def
      MapIndexerAssetConfigurationToGrpcAssetConfiguration_def split: option.split)

lemma Attributes_round [simp]: "MapGrpcAttributesToIndexerAttributes (MapIndexerAttributesToGRPCAttributes a) = a"
  by (simp add: MapGrpcAttributesToIndexerAttributes_def MapIndexerAttributesToGRPCAttributes_def split: option.split)

definition printable_token :: "Token \<Rightarrow> bool" where
  "printable_token t \<longleftrightarrow> printable (tok_MintedAt t) \<and> printable (tok_LastRefreshedTime t) \<and>
     list_all (\<lambda>p. printable (prov_Timestamp p)) (provs t)"

text \<open>A token after the trip: the last activity time is the last refreshed time.\<close>

definition sent_Token :: "Token \<Rightarrow> Token" where
  "sent_Token t = t\<lparr>tok_SwappedFrom := Some (DerefString (tok_SwappedFrom t)),
     tok_SwappedTo := Some (DerefString (tok_SwappedTo t)),
     tok_Provenances := Some (map sent_Provenance (provs t)),
     tok_LastActivityTime := tok_LastRefreshedTime t\<rparr>"

lemma Token_round:
  "printable_token t \<Longrightarrow> MapGrpcTokenToIndexerToken (MapIndexerTokenToGrpcToken t) = Inr (sent_Token t)"
  by (simp add: MapGrpcTokenToIndexerToken_def MapIndexerTokenToGrpcToken_def printable_token_def sent_Token_def)

definition printable_account_token :: "AccountToken \<Rightarrow> bool" where
  "printable_account_token a \<longleftrightarrow> printable (at_LastActivityTime a) \<and> printable (at_LastRefreshedTime a) \<and>
     list_all printable (at_LastPendingTime a)"

lemma AccountTokens_round:
  "list_all printable_account_token ats \<Longrightarrow>
    MapGRPCAccountTokensToIndexerAccountTokens (MapIndexerAccountTokensToGRPCAccountTokens ats) = Inr ats"
  by (induction ats)
     (simp_all add: MapGRPCAccountTokensToIndexerAccountTokens_def MapIndexerAccountTokensToGRPCAccountTokens_def
       printable_account_token_def)

lemma map_artists_round:
  "map (\<lambda>a. \<lparr>artist_ID = gar_ArtistID a, artist_Name = gar_ArtistName a, artist_URL = gar_ArtistURL a\<rparr>)
     (map (\<lambda>i. \<lparr>gar_ArtistID = artist_ID i, gar_ArtistName = artist_Name i, gar_ArtistURL = artist_URL i\<rparr>) xs) = xs"
  by (induction xs) simp_all

text \<open>Values that JSON can hold are read back as they are.\<close>

fun plain :: "json \<Rightarrow> bool" where
  "plain (JArr xs) = list_all plain xs"
| "plain (JObj kvs) = list_all (\<lambda>(k, v). plain v) kvs"
| "plain (JDec d) = False"
| "plain _ = True"

lemma reread_plain: "plain v \<Longrightarrow> reread f v = v"
proof (induction v rule: reread.induct)
  case (1 f xs)
  then show ?case by (auto simp: list_all_iff intro: map_idI)
next
  case (2 f kvs)
  then show ?case by (fastforce simp: list_all_iff intro: map_idI)
qed simp_all

lemma reread_map_plain: "plain (JObj m) \<Longrightarrow> map (\<lambda>(k, v). (k, reread f v)) m = m"
  using reread_plain [of "JObj m" f] by simp

text \<open>The artwork metadata that survive: those that can be marshalled, in canonical order.\<close>

definition printable_metadata :: "codec \<Rightarrow> ProjectMetadata \<Rightarrow> bool" where
  "printable_metadata C p \<longleftrightarrow> printable (pm_LastUpdatedAt p) \<and> canonical (JObj (pm_ArtworkMetadata p)) \<and>
     plain (JObj (pm_ArtworkMetadata p)) \<and> json_Marshal C (pm_ArtworkMetadata p) \<noteq> None"

text \<open>A sale after the trip: every amount but the net value is the payment amount.\<close>

definition sent_Sale :: "codec \<Rightarrow> SaleTimeSeries \<Rightarrow> SaleTimeSeries" where
  "sent_Sale C s = s\<lparr>sts_Metadata := reread_map C (sts_Metadata s), sts_Shares := reread_map C (sts_Shares s),
     sts_PlatformFee := sts_PaymentAmount s, sts_USDQuote := sts_PaymentAmount s, sts_Price := sts_PaymentAmount s\<rparr>"

definition sendable_sale :: "codec \<Rightarrow> SaleTimeSeries \<Rightarrow> bool" where
  "sendable_sale C s \<longleftrightarrow> canonical (JObj (sts_Metadata s)) \<and> canonical (JObj (sts_Shares s)) \<and>
     json_Marshal C (sts_Metadata s) \<noteq> None \<and> json_Marshal C (sts_Shares s) \<noteq> None"

context message_codec
begin

lemma ArtworkMetadata_round:
  assumes "printable_metadata C p"
  shows "MapGrpcArtworkMetadataToIndexerArtworkMetadata C
    (MapIndexerArtworkMetadataToGRPCArtworkMetadata C (pm_ArtworkMetadata p)) = pm_ArtworkMetadata p"
  using assms json_round
  by (auto simp: printable_metadata_def MapGrpcArtworkMetadataToIndexerArtworkMetadata_def
      MapIndexerArtworkMetadataToGRPCArtworkMetadata_def reread_map_plain simp del: canonical.simps plain.simps)

lemma ProjectMetadata_round:
  assumes "printable_metadata C p"
  shows "MapGrpcProjectMetadataToIndexerProjectMetadata C (MapIndexerProjectMetadataToGRPCProjectMetadata C p) = Inr p"
proof -
  from assms have "printable (pm_LastUpdatedAt p)" by (simp add: printable_metadata_def)
  with ArtworkMetadata_round [OF assms] show ?thesis
    by (simp add: MapGrpcProjectMetadataToIndexerProjectMetadata_def
        MapIndexerProjectMetadataToGRPCProjectMetadata_def Let_def map_artists_round del: map_map)
qed

lemma DetailedToken_round:
  assumes "printable_token (dt_Token d)" and "printable_metadata C (vpm_Origin (dt_ProjectMetadata d))"
    and "printable_metadata C (vpm_Latest (dt_ProjectMetadata d))"
  shows "MapGrpcDetailedTokenToIndexerDetailedToken C (MapIndexerDetailedTokenToGRPCDetailedToken C d) =
    Inr (d\<lparr>dt_Token := sent_Token (dt_Token d)\<rparr>)"
  using assms
  by (simp add: MapGrpcDetailedTokenToIndexerDetailedToken_def MapIndexerDetailedTokenToGRPCDetailedToken_def
      Let_def ProjectMetadata_round Token_round)

lemma ParseDecimal128_String [simp]: "ParseDecimal128 X (decimal_String C d) = Inr d"
  by (simp add: ParseDecimal128_def decimal_round)

lemma Unmarshal_MapToJson:
  "canonical (JObj m) \<Longrightarrow> MapToJson C m = Inr s \<Longrightarrow> Unmarshal C s = Inr (reread_map C m)"
  using json_round by (auto simp: MapToJson_def Unmarshal_def split: option.splits)

lemma Sales_round:
  assumes "list_all (sendable_sale C) ss"
  shows "bindR (MapToGrpcSaleTimeSeriesListResponse C ss)
      (\<lambda>r. MapGrpcSaleTimeSeriesListResponseToIndexerSaleTimeSeries X C (Some r)) = Inr (map (sent_Sale C) ss)"
  using assms
proof (induction ss)
  case Nil
  then show ?case
    by (simp add: MapToGrpcSaleTimeSeriesListResponse_def MapGrpcSaleTimeSeriesListResponseToIndexerSaleTimeSeries_def)
next
  case (Cons s ss)
  then obtain a b where ab: "json_Marshal C (sts_Metadata s) = Some a" "json_Marshal C (sts_Shares s) = Some b"
    and can: "canonical (JObj (sts_Metadata s))" "canonical (JObj (sts_Shares s))"
    by (auto simp: sendable_sale_def simp del: canonical.simps)
  from ab have j: "MapToJson C (sts_Metadata s) = Inr a" "MapToJson C (sts_Shares s) = Inr b"
    by (simp_all add: MapToJson_def)
  note u = Unmarshal_MapToJson [OF can(1) j(1)] Unmarshal_MapToJson [OF can(2) j(2)]
  from Cons obtain r where r: "MapToGrpcSaleTimeSeriesListResponse C ss = Inr r"
    "MapGrpcSaleTimeSeriesListResponseToIndexerSaleTimeSeries X C (Some r) = Inr (map (sent_Sale C) ss)"
    by (auto simp: bindR_Inr_iff)
  then show ?case
    by (simp add: MapToGrpcSaleTimeSeriesListResponse_def
        MapGrpcSaleTimeSeriesListResponseToIndexerSaleTimeSeries_def j u MapTimeToGrpcTimestamp_def
        MapGrpcTimestampToTime_def timestamp_round sent_Sale_def)
qed

lemma ExchangeRate_round:
  "bindR (MapToExchangeRateResponse C r) (MapGrpcExchangeRateResponseToIndexerExchangeRate C) = Inr r"
  by (simp add: MapToExchangeRateResponse_def MapGrpcExchangeRateResponseToIndexerExchangeRate_def timestamp_round)

lemma Timestamp_round [simp]: "MapGrpcTimestampToTime C (MapTimeToGrpcTimestamp C t) = t"
  by (cases t) (simp_all add: MapGrpcTimestampToTime_def MapTimeToGrpcTimestamp_def timestamp_round)

text \<open>The sales the client sends, as the server gets them.\<close>

lemma sale_records_round:
  assumes "list_all (\<lambda>v. canonical (JObj (gst_Metadata v)) \<and> plain (JObj (gst_Metadata v)) \<and>
             structpb_NewStruct C (gst_Metadata v) \<noteq> None) vs"
  shows "MapGrpcSaleTimeSeriesRecords C (MapGenericSaleTimeSeries C (Some vs)) = Some vs"
  using assms
proof (induction vs)
  case Nil
  then show ?case by (simp add: MapGrpcSaleTimeSeriesRecords_def MapGenericSaleTimeSeries_def)
next
  case (Cons v vs)
  then obtain p where p: "structpb_NewStruct C (gst_Metadata v) = Some p" by auto
  from Cons.prems have "structpb_AsMap C (Some p) = gst_Metadata v"
    using struct_round [OF _ p] by (auto simp: reread_map_plain simp del: canonical.simps plain.simps)
  with Cons p show ?case
    by (auto simp: MapGrpcSaleTimeSeriesRecords_def MapGenericSaleTimeSeries_def sale_record_def
        split: option.splits sum.splits)
qed

end

section \<open>A concrete codec\<close>

text \<open>
  A codec with these properties, on which the witnesses run: JSON objects with strings of printable
  characters (neither quote nor backslash) and decimals.
\<close>

definition safe_text :: "string \<Rightarrow> bool" where
  "safe_text s = list_all (\<lambda>c. c \<noteq> CHR 0x22 \<and> c \<noteq> CHR 0x5C \<and> CHR 0x20 \<le> c \<and> c < CHR 0x7F) s"

definition quoted :: "string \<Rightarrow> string" where
  "quoted s = CHR 0x22 # s @ [CHR 0x22]"

definition decimal_prefix :: string where
  "decimal_prefix = CHR 0x7B # quoted ''$numberDecimal'' @ '':''"

definition decimal_text :: "decimal128 \<Rightarrow> string" where
  "decimal_text d = big_Text 10 (uint d)"

fun sample_value :: "json \<Rightarrow> string option" where
  "sample_value (JStr s) = (if safe_text s then Some (quoted s) else None)"
| "sample_value (JDec d) = (if safe_text (decimal_text d) then Some (decimal_prefix @ quoted (decimal_text d) @ [CHR 0x7D]) else None)"
| "sample_value _ = None"

fun sample_members :: "(string \<times> json) list \<Rightarrow> string option" where
  "sample_members [] = Some [CHR 0x7D]"
| "sample_members ((k, v) # kvs) =
     (case (safe_text k, sample_value v, sample_members kvs) of
        (True, Some t, Some ts) \<Rightarrow> Some (quoted k @ '':'' @ t @ (if kvs = [] then [] else '','') @ ts)
      | _ \<Rightarrow> None)"

definition sample_Marshal :: "(string \<times> json) list \<Rightarrow> string option" where
  "sample_Marshal m = map_option ((#) (CHR 0x7B)) (sample_members m)"

fun read_quoted :: "string \<Rightarrow> (string \<times> string) option" where
  "read_quoted (c # r) =
     (if c = CHR 0x22
      then (case dropWhile (\<lambda>c. c \<noteq> CHR 0x22) r of
              [] \<Rightarrow> None
            | _ # rest \<Rightarrow> Some (takeWhile (\<lambda>c. c \<noteq> CHR 0x22) r, rest))
      else None)"
| "read_quoted [] = None"

definition read_value :: "string \<Rightarrow> (json \<times> string) option" where
  "read_value s =
     (case read_quoted s of
        Some (x, r) \<Rightarrow> Some (JStr x, r)
      | None \<Rightarrow>
          (if has_prefix decimal_prefix s
           then (case read_quoted (drop (length decimal_prefix) s) of
                   Some (x, r) \<Rightarrow> Some (JObj [(''$numberDecimal'', JStr x)], tl r)
                 | None \<Rightarrow> None)
           else None))"

fun read_members :: "nat \<Rightarrow> string \<Rightarrow> (string \<times> json) list option" where
  "read_members 0 s = None"
| "read_members (Suc n) s =
     (if s = [CHR 0x7D] then Some []
      else (case read_quoted s of
              Some (k, r) \<Rightarrow>
                (case read_value (tl r) of
                   Some (v, r') \<Rightarrow>
                     map_option ((#) (k, v)) (read_members n (if has_prefix '','' r' then tl r' else r'))
                 | None \<Rightarrow> None)
            | None \<Rightarrow> None))"

definition sample_Unmarshal :: "string \<Rightarrow> (string \<times> json) list option" where
  "sample_Unmarshal s = (if s = ''null'' then Some [] else read_members (length s) (tl s))"

lemma takeWhile_safe [simp]:
  "safe_text s \<Longrightarrow> takeWhile (\<lambda>c. c \<noteq> CHR 0x22) (s @ CHR 0x22 # r) = s"
  by (induction s) (auto simp: safe_text_def)

lemma dropWhile_safe [simp]:
  "safe_text s \<Longrightarrow> dropWhile (\<lambda>c. c \<noteq> CHR 0x22) (s @ CHR 0x22 # r) = CHR 0x22 # r"
  by (induction s) (auto simp: safe_text_def)

lemma read_quoted_quoted: "safe_text s \<Longrightarrow> read_quoted (quoted s @ r) = Some (s, r)"
  by (simp add: quoted_def)

lemma read_value_sample:
  assumes "sample_value v = Some t"
  shows "read_value (t @ r) = Some (reread decimal_text v, r)"
  using assms
proof (cases v)
  case (JStr s)
  with assms show ?thesis by (auto simp: read_value_def read_quoted_quoted split: if_splits)
next
  case (JDec d)
  with assms have t: "t = decimal_prefix @ quoted (decimal_text d) @ [CHR 0x7D]" and s: "safe_text (decimal_text d)"
    by (auto split: if_splits)
  have n: "read_quoted (decimal_prefix @ x) = None" for x by (simp add: decimal_prefix_def)
  show ?thesis using JDec by (simp add: t read_value_def n read_quoted_quoted s)
qed simp_all

lemma read_members_sample:
  "sample_members m = Some t \<Longrightarrow> length m < n \<Longrightarrow>
    read_members n t = Some (map (\<lambda>(k, v). (k, reread decimal_text v)) m)"
proof (induction m arbitrary: t n)
  case Nil
  then show ?case by (cases n) auto
next
  case (Cons p m)
  obtain k v where p: "p = (k, v)" by (cases p)
  from Cons.prems(1) obtain a b where a: "sample_value v = Some a" and b: "sample_members m = Some b" and k: "safe_text k"
    and t: "t = quoted k @ '':'' @ a @ (if m = [] then [] else '','') @ b"
    by (auto simp: p split: option.splits bool.splits)
  from Cons.prems(2) obtain j where n: "n = Suc j" and j: "length m < j" by (cases n) auto
  have hd: "m = [] \<Longrightarrow> b = [CHR 0x7D]" using b by simp
  have step: "read_members (Suc j) (quoted k @ '':'' @ a @ x) =
      map_option ((#) (k, reread decimal_text v)) (read_members j (if has_prefix '','' x then tl x else x))" for x
  proof -
    have "quoted k @ '':'' @ a @ x \<noteq> [CHR 0x7D]" by (simp add: quoted_def)
    then show ?thesis
      using read_quoted_quoted [OF k, of "'':'' @ a @ x"] read_value_sample [OF a, of x] by simp
  qed
  show ?case
    using Cons.IH [OF b j] hd step unfolding n t by (auto simp: p has_prefix_def)
qed

lemma length_sample_members: "sample_members m = Some t \<Longrightarrow> length m < length t"
  by (induction m arbitrary: t) (fastforce split: option.splits bool.splits)+

lemma sample_json_round:
  assumes "sample_Marshal m = Some s"
  shows "sample_Unmarshal s = Some (map (\<lambda>(k, v). (k, reread decimal_text v)) m)"
proof -
  from assms obtain t where t: "sample_members m = Some t" and s: "s = CHR 0x7B # t" by (auto simp: sample_Marshal_def)
  from length_sample_members [OF t] read_members_sample [OF t, of "length s"] show ?thesis
    by (simp add: sample_Unmarshal_def s)
qed

definition sample_codec :: codec where
  "sample_codec =
     \<lparr>json_Marshal = sample_Marshal, json_Unmarshal = sample_Unmarshal, decimal_String = decimal_text,
      structpb_NewStruct = (\<lambda>m. if list_all (\<lambda>(k, v). case v of JStr s \<Rightarrow> safe_text s | _ \<Rightarrow> False) m then Some (PbStruct m) else None),
      structpb_AsMap = (\<lambda>p. case p of None \<Rightarrow> [] | Some (PbStruct m) \<Rightarrow> m),
      timestamppb_New = (\<lambda>t. \<lparr>ts_Seconds = (t - unix_epoch) div 1000, ts_Nanos = (t - unix_epoch) mod 1000 * 1000000\<rparr>),
      timestamppb_AsTime = (\<lambda>p. case p of None \<Rightarrow> unix_epoch
         | Some ts \<Rightarrow> unix_epoch + ts_Seconds ts * 1000 + ts_Nanos ts div 1000000)\<rparr>"

interpretation sample_messages: message_codec sample_ext sample_codec
proof
  show "json_Unmarshal sample_codec s = Some (reread_map sample_codec m)"
    if "json_Marshal sample_codec m = Some s" for m s
    using sample_json_round [of m s] that by (simp add: sample_codec_def)
  show "x_ParseDecimal128 sample_ext (decimal_String sample_codec d) = Some d" for d
    by (simp add: sample_ext_def sample_codec_def decimal_text_def big_SetString_Text)
  show "structpb_AsMap sample_codec (Some p) = reread_map sample_codec m"
    if "structpb_NewStruct sample_codec m = Some p" for m p
  proof -
    from that have p: "p = PbStruct m" and a: "list_all (\<lambda>(k, v). case v of JStr s \<Rightarrow> safe_text s | _ \<Rightarrow> False) m"
      by (auto simp: sample_codec_def split: if_splits)
    from a have "reread_map sample_codec m = m"
      by (induction m) (auto split: json.splits)
    then show ?thesis by (simp add: p sample_codec_def)
  qed
  show "structpb_AsMap sample_codec None = []"
    by (simp add: sample_codec_def)
  show "timestamppb_AsTime sample_codec (Some (timestamppb_New sample_codec t)) = t" for t
    by (simp add: sample_codec_def)
qed

section \<open>Properties\<close>

text \<open>
  C40: A token that is mapped to a message and back is the token, except that a missing former
  owner or swap partner is the empty string, missing provenances are the empty list, and the
  last activity time is replaced by the last refreshed time: \<open>MapGrpcTokenToIndexerToken\<close> reads
  the wrong field. So the activity time of a token is lost whenever the two times differ.
\<close>

theorem token_message_roundtrip:
  assumes "printable_token t"
  shows "MapGrpcTokenToIndexerToken (MapIndexerTokenToGrpcToken t) =
    Inr (t\<lparr>tok_SwappedFrom := Some (DerefString (tok_SwappedFrom t)),
           tok_SwappedTo := Some (DerefString (tok_SwappedTo t)),
           tok_Provenances := Some (map (\<lambda>p. p\<lparr>prov_FormerOwner := Some (DerefString (prov_FormerOwner p))\<rparr>) (provs t)),
           tok_LastActivityTime := tok_LastRefreshedTime t\<rparr>)"
  using Token_round [OF assms] by (simp add: sent_Token_def sent_Provenance_def [abs_def])

definition traded_token :: Token where
  "traded_token = sample_token\<lparr>tok_Provenances := Some [sample_provenance], tok_LastActivityTime := 7000,
     tok_LastRefreshedTime := 63844806600500\<rparr>"

lemma traded_token_printable: "printable_token traded_token"
  by (simp add: printable_token_def traded_token_def sample_token_def sample_provenance_def printable_def
      provs_def zero_Token_def)

theorem token_message_roundtrip_witness:
  "\<exists>t. MapGrpcTokenToIndexerToken (MapIndexerTokenToGrpcToken traded_token) = Inr t \<and>
     tok_Provenances t = Some [sample_provenance] \<and>
     tok_LastActivityTime traded_token = 7000 \<and> tok_LastActivityTime t = 63844806600500"
  using token_message_roundtrip [OF traded_token_printable]
  by (simp add: traded_token_def provs_def sample_provenance_def DerefString_def)

text \<open>
  A detailed token that is mapped to a message and back keeps the attributes, the thumbnail
  and both versions of the project metadata of its asset, when their artwork metadata are
  plain JSON; its token comes back as
  \<open>sent_Token\<close> says.
\<close>

theorem detailed_token_message_roundtrip:
  assumes "message_codec X C" and "printable_token (dt_Token d)"
    and "printable_metadata C (vpm_Origin (dt_ProjectMetadata d))"
    and "printable_metadata C (vpm_Latest (dt_ProjectMetadata d))"
  shows "MapGrpcDetailedTokenToIndexerDetailedToken C (MapIndexerDetailedTokenToGRPCDetailedToken C d) =
    Inr (d\<lparr>dt_Token := sent_Token (dt_Token d)\<rparr>)"
  using message_codec.DetailedToken_round [OF assms] .

definition sample_metadata :: ProjectMetadata where
  "sample_metadata = zero_ProjectMetadata\<lparr>pm_Title := ''t'', pm_Artists := [\<lparr>artist_ID = ''a'', artist_Name = ''n'', artist_URL = []\<rparr>],
     pm_ArtworkMetadata := [(''city'', JStr ''Taipei''), (''year'', JStr ''2024'')]\<rparr>"

lemma sample_metadata_printable: "printable_metadata sample_codec sample_metadata"
proof -
  have "(''city'' :: string) < ''year''" by (simp add: less_char_def)
  then show ?thesis
    by (simp add: printable_metadata_def sample_metadata_def printable_def zero_ProjectMetadata_def sample_codec_def
        sample_Marshal_def safe_text_def less_char_def less_eq_char_def)
qed

definition sample_detailed :: DetailedToken where
  "sample_detailed = \<lparr>dt_Token = traded_token, dt_ThumbnailID = ''th'', dt_IPFSPinned = True,
     dt_Attributes = Some \<lparr>attr_Configuration = None\<rparr>,
     dt_ProjectMetadata = \<lparr>vpm_Origin = sample_metadata, vpm_Latest = sample_metadata\<lparr>pm_Title := ''u''\<rparr>\<rparr>\<rparr>"

theorem detailed_token_message_roundtrip_witness:
  "\<exists>d. MapGrpcDetailedTokenToIndexerDetailedToken sample_codec
         (MapIndexerDetailedTokenToGRPCDetailedToken sample_codec sample_detailed) = Inr d \<and>
       dt_ProjectMetadata d = dt_ProjectMetadata sample_detailed \<and> dt_IPFSPinned d"
proof -
  have "printable_metadata sample_codec (sample_metadata\<lparr>pm_Title := ''u''\<rparr>)"
    using sample_metadata_printable by (simp add: printable_metadata_def)
  with detailed_token_message_roundtrip [OF sample_messages.message_codec_axioms, of sample_detailed]
    sample_metadata_printable traded_token_printable
  show ?thesis by (simp add: sample_detailed_def)
qed

text \<open>
  The sales the client reads through the gateway have the timestamp, the net value and the
  payment amount of the stored ones, but their platform fee, exchange rate and price are all
  the payment amount: the mapper parses the wrong field three times. The shares come back as
  the JSON objects that decimals are written as.
\<close>

theorem sale_message_roundtrip:
  assumes "message_codec X C" and "list_all (sendable_sale C) ss"
  shows "bindR (MapToGrpcSaleTimeSeriesListResponse C ss)
      (\<lambda>r. MapGrpcSaleTimeSeriesListResponseToIndexerSaleTimeSeries X C (Some r)) =
    Inr (map (\<lambda>s. s\<lparr>sts_Metadata := reread_map C (sts_Metadata s), sts_Shares := reread_map C (sts_Shares s),
                    sts_PlatformFee := sts_PaymentAmount s, sts_USDQuote := sts_PaymentAmount s,
                    sts_Price := sts_PaymentAmount s\<rparr>) ss)"
  using message_codec.Sales_round [OF assms] by (simp add: sent_Sale_def [abs_def])

definition stored_sale :: SaleTimeSeries where
  "stored_sale = \<lparr>sts_Timestamp = 63844806600500, sts_Metadata = [(''blockchain'', JStr ''ethereum'')],
     sts_Shares = [(''alice'', JDec 9)], sts_NetValue = 11, sts_PaymentAmount = 12, sts_PlatformFee = 1,
     sts_USDQuote = 3000, sts_Price = 12\<rparr>"

theorem sale_message_roundtrip_witness:
  "\<exists>s. bindR (MapToGrpcSaleTimeSeriesListResponse sample_codec [stored_sale])
      (\<lambda>r. MapGrpcSaleTimeSeriesListResponseToIndexerSaleTimeSeries sample_ext sample_codec (Some r)) = Inr [s] \<and>
     sts_NetValue s = 11 \<and> sts_PlatformFee s = 12 \<and> sts_USDQuote s = 12 \<and>
     sts_Shares s = [(''alice'', JObj [(''$numberDecimal'', JStr ''9'')])]"
proof -
  have nine: "decimal_text 9 = ''9''" by (simp add: decimal_text_def big_Text_def nat_digits.simps digit_char_def char_of_def bit_0)
  have "sendable_sale sample_codec stored_sale"
    by (simp add: sendable_sale_def stored_sale_def sample_codec_def sample_Marshal_def nine safe_text_def
        less_char_def less_eq_char_def)
  with sale_message_roundtrip [OF sample_messages.message_codec_axioms, of "[stored_sale]"] show ?thesis
    by (simp add: stored_sale_def nine) (simp add: sample_codec_def nine)
qed

text \<open>Account tokens come back from the trip as they were sent.\<close>

theorem account_token_message_roundtrip:
  assumes "list_all printable_account_token ats"
  shows "MapGRPCAccountTokensToIndexerAccountTokens (MapIndexerAccountTokensToGRPCAccountTokens ats) = Inr ats"
  by (rule AccountTokens_round [OF assms])

theorem account_token_message_roundtrip_witness:
  "MapGRPCAccountTokensToIndexerAccountTokens (MapIndexerAccountTokensToGRPCAccountTokens [sample_account_token]) =
    Inr [sample_account_token]"
  by (rule account_token_message_roundtrip)
     (simp add: printable_account_token_def sample_account_token_def zero_AccountToken_def printable_def)

end
