(* ===== verification/Cache.thy ===== *)
theory Cache
  imports Utils Mongo
begin

text \<open>
  The cache of block times: \<open>cache/cache_store.go\<close> (a collection of keys and values, without a unique
  index) and \<open>GetETHBlockTime\<close> of \<open>utils_eth.go\<close>, which falls back to the Ethereum node. The node is
  a parameter: the time of the block with a hash, in seconds, or an error.
\<close>

section \<open>The cache\<close>

text \<open>What the decoder makes of the stored value: a BSON date, or a value of another type.\<close>

datatype cache_value = DateTime gotime | OtherValue json

record cache_entry =
  ce_key :: string
  ce_data :: cache_value

definition Cache_Set :: "cache_entry coll \<Rightarrow> string \<Rightarrow> cache_value \<Rightarrow> (cache_entry list, unit) act" where
  "Cache_Set bc cacheKey v =
     bindA (UpsertOne bc (\<lambda>d. ce_key d = cacheKey) (\<lambda>d. d\<lparr>ce_key := cacheKey, ce_data := v\<rparr>)
              \<lparr>ce_key = cacheKey, ce_data = v\<rparr>)
       (\<lambda>_. retA ())"

definition Cache_Get :: "cache_entry coll \<Rightarrow> string \<Rightarrow> (cache_entry list, cache_value) act" where
  "Cache_Get bc cacheKey =
     bindA (readA (\<lambda>ds. ds) (FindOne bc (\<lambda>d. ce_key d = cacheKey) (\<lambda>ds. ds))) (\<lambda>info. retA (ce_data info))"

section \<open>Block times\<close>

definition GetETHBlockTime ::
    "cache_entry coll \<Rightarrow> (string \<Rightarrow> int res) \<Rightarrow> string \<Rightarrow> (cache_entry list, gotime) act" where
  "GetETHBlockTime bc BlockByHash hash =
     bindA (tryA (Cache_Get bc hash)) (\<lambda>data.
     case data of
       Inr (DateTime t) \<Rightarrow> retA t
     | _ \<Rightarrow>
         bindA (liftR (BlockByHash hash)) (\<lambda>blockUnix.
         let blockTime = time_of_Unix (i64 blockUnix)
         in bindA (tryA (Cache_Set bc hash (DateTime blockTime))) (\<lambda>e.
            case e of Inl err \<Rightarrow> throwA err | Inr _ \<Rightarrow> retA blockTime)))"

abbreviation cache_collection :: "cache_entry coll \<Rightarrow> bool" where
  "cache_collection bc \<equiv> mongo_collection bc (\<lambda>_ _. False)"

section \<open>Reading what was written\<close>

definition cached :: "string \<Rightarrow> cache_entry list \<Rightarrow> cache_value option" where
  "cached k ds = map_option ce_data (List.find (\<lambda>d. ce_key d = k) ds)"

lemma Cache_Get_run:
  assumes "cache_collection bc"
  shows "Cache_Get bc k ds = (case cached k ds of None \<Rightarrow> Inl ErrNoDocuments | Some v \<Rightarrow> Inr v, ds)"
proof (cases "List.find (\<lambda>d. ce_key d = k) ds")
  case None
  then have "filter (\<lambda>d. ce_key d = k) ds = []" by (simp add: find_None filter_empty_conv)
  with None show ?thesis
    by (simp add: Cache_Get_def act_simps mongo_collection.FindOne_law [OF assms] cached_def)
next
  case (Some d)
  from find_hd_filter [OF Some] obtain ds' where "filter (\<lambda>d. ce_key d = k) ds = d # ds'" by blast
  with Some show ?thesis
    by (simp add: Cache_Get_def act_simps mongo_collection.FindOne_law [OF assms] cached_def)
qed

lemma Cache_Set_run:
  assumes "cache_collection bc"
  shows "\<exists>ds'. Cache_Set bc k v ds = (Inr (), ds') \<and> cached k ds' = Some v \<and>
    (\<forall>j. j \<noteq> k \<longrightarrow> cached j ds' = cached j ds)"
proof (cases "\<exists>d\<in>set ds. ce_key d = k")
  case True
  then obtain d where d: "List.find (\<lambda>d. ce_key d = k) ds = Some d"
    by (metis (mono_tags, lifting) find_None not_Some_eq)
  let ?f = "\<lambda>d. d\<lparr>ce_key := k, ce_data := v\<rparr>"
  have up: "cached k (upd1 (\<lambda>d. ce_key d = k) ?f ds) = Some v" using d
    by (induction ds) (auto simp: cached_def split: if_splits)
  have other: "j \<noteq> k \<Longrightarrow> cached j (upd1 (\<lambda>d. ce_key d = k) ?f ds) = cached j ds" for j
    by (induction ds) (auto simp: cached_def)
  show ?thesis using True d up other
    by (simp add: Cache_Set_def act_simps mongo_collection.UpsertOne_law [OF assms] upsert_one_def update_one_def taken_def)
next
  case False
  then have "List.find (\<lambda>d. ce_key d = k) ds = None" by (simp add: find_None)
  with False show ?thesis
    by (auto simp: Cache_Set_def act_simps mongo_collection.UpsertOne_law [OF assms] upsert_one_def taken_def
        cached_def find_append split: option.split)
qed

lemma GetETHBlockTime_hit:
  assumes "cache_collection bc" and "cached h ds = Some (DateTime t)"
  shows "GetETHBlockTime bc rpc h ds = (Inr t, ds)"
  using assms(2) by (simp add: GetETHBlockTime_def act_simps Cache_Get_run [OF assms(1)])

lemma GetETHBlockTime_miss:
  assumes "cache_collection bc" and "\<And>u. cached h ds \<noteq> Some (DateTime u)"
  shows "GetETHBlockTime bc rpc h ds =
    (case rpc h of
       Inl e \<Rightarrow> (Inl e, ds)
     | Inr n \<Rightarrow> (Inr (time_of_Unix (i64 n)), snd (Cache_Set bc h (DateTime (time_of_Unix (i64 n))) ds)))"
proof -
  have set: "fst (Cache_Set bc h v ds) = Inr ()" for v
    using Cache_Set_run [OF assms(1), of h v ds] by auto
  have get: "\<exists>r. Cache_Get bc h ds = (r, ds) \<and> (\<forall>u. r \<noteq> Inr (DateTime u))"
    using assms(2) by (auto simp: Cache_Get_run [OF assms(1)] split: option.split)
  then obtain r where r: "Cache_Get bc h ds = (r, ds)" "\<And>u. r \<noteq> Inr (DateTime u)" by blast
  have "(case r of Inr (DateTime t) \<Rightarrow> f t | _ \<Rightarrow> g) = g" for f and g :: "(cache_entry list, gotime) act"
    using r(2) by (auto split: sum.split cache_value.split)
  then have "GetETHBlockTime bc rpc h ds =
      bindA (liftR (rpc h)) (\<lambda>n. let b = time_of_Unix (i64 n) in bindA (tryA (Cache_Set bc h (DateTime b)))
        (\<lambda>e. case e of Inl err \<Rightarrow> throwA err | Inr _ \<Rightarrow> retA b)) ds"
    unfolding GetETHBlockTime_def by (simp add: bindA_run [of "tryA _"] tryA_run r(1))
  also have "\<dots> = (case rpc h of
       Inl e \<Rightarrow> (Inl e, ds)
     | Inr n \<Rightarrow> (Inr (time_of_Unix (i64 n)), snd (Cache_Set bc h (DateTime (time_of_Unix (i64 n))) ds)))"
  proof (cases "rpc h")
    case (Inr n)
    from set [of "DateTime (time_of_Unix (i64 n))"] obtain x
      where "Cache_Set bc h (DateTime (time_of_Unix (i64 n))) ds = (Inr (), x)" by (cases "Cache_Set bc h (DateTime (time_of_Unix (i64 n))) ds") auto
    with Inr show ?thesis by (simp add: act_simps Let_def)
  qed (simp add: act_simps)
  finally show ?thesis .
qed

section \<open>Properties\<close>

text \<open>
  Once \<open>GetETHBlockTime\<close> has returned the time of a block, every later call returns the
  same time from the cache, whatever the node answers then, and leaves the cache as it is.
\<close>

theorem GetETHBlockTime_cached:
  assumes "cache_collection bc" and "GetETHBlockTime bc rpc h ds = (Inr t, ds')"
  shows "GetETHBlockTime bc rpc' h ds' = (Inr t, ds')"
proof (rule GetETHBlockTime_hit [OF assms(1)])
  show "cached h ds' = Some (DateTime t)"
  proof (cases "\<exists>u. cached h ds = Some (DateTime u)")
    case True
    with assms(2) show ?thesis by (auto simp: GetETHBlockTime_hit [OF assms(1)])
  next
    case False
    then have "GetETHBlockTime bc rpc h ds = (case rpc h of
       Inl e \<Rightarrow> (Inl e, ds)
     | Inr n \<Rightarrow> (Inr (time_of_Unix (i64 n)), snd (Cache_Set bc h (DateTime (time_of_Unix (i64 n))) ds)))"
      using GetETHBlockTime_miss [OF assms(1)] by blast
    with assms(2) obtain n where "t = time_of_Unix (i64 n)" "ds' = snd (Cache_Set bc h (DateTime t) ds)"
      by (auto split: sum.splits)
    with Cache_Set_run [OF assms(1), of h "DateTime t" ds] show ?thesis by auto
  qed
qed

theorem GetETHBlockTime_cached_witness:
  "GetETHBlockTime (mem_coll (\<lambda>_ _. False)) (\<lambda>_. Inl (Errorf ''down'')) ''0xb''
     [\<lparr>ce_key = ''0xb'', ce_data = DateTime (time_of_Unix 1700000000)\<rparr>] =
   (Inr (time_of_Unix 1700000000), [\<lparr>ce_key = ''0xb'', ce_data = DateTime (time_of_Unix 1700000000)\<rparr>])"
proof (rule GetETHBlockTime_cached [OF mem_coll_lawful])
  show "GetETHBlockTime (mem_coll (\<lambda>_ _. False)) (\<lambda>_. Inr 1700000000) ''0xb'' [] =
     (Inr (time_of_Unix 1700000000), [\<lparr>ce_key = ''0xb'', ce_data = DateTime (time_of_Unix 1700000000)\<rparr>])"
    by (simp add: GetETHBlockTime_def Cache_Get_def Cache_Set_def act_simps mem_coll_def upsert_one_def taken_def
        i64_id Let_def)
qed

end
