(* ===== verification/GrpcGateway.thy ===== *)
theory GrpcGateway
  imports GrpcMapper Cache
begin

text \<open>
  The gRPC gateway: the handlers of \<open>services/grpc-gateway/server.go\<close> over the store and the cache, and
  the operations of the client in \<open>sdk/grpc-gateway/client.go\<close>. The generated stub the client calls is
  the parameter \<open>stub\<close>; the interface \<open>grpc_connection\<close> states what gRPC documents of it: a call runs
  the handler of the server on the message, a repeated or map field that is empty arrives as nil,
  a nil message arrives as the empty one, and an error of the handler arrives as a status error.
\<close>

section \<open>The server\<close>

record gateway_state =
  gw_db :: db
  gw_cache :: "cache_entry list"

definition on_db :: "(db, 'a) act \<Rightarrow> (gateway_state, 'a) act" where
  "on_db m = zoomA gw_db (\<lambda>t s. s\<lparr>gw_db := t\<rparr>) m"

definition on_cache :: "(cache_entry list, 'a) act \<Rightarrow> (gateway_state, 'a) act" where
  "on_cache m = zoomA gw_cache (\<lambda>t s. s\<lparr>gw_cache := t\<rparr>) m"

lemma on_db_run [act_simps]: "on_db m s = (case m (gw_db s) of (r, t) \<Rightarrow> (r, s\<lparr>gw_db := t\<rparr>))"
  by (simp add: on_db_def zoomA_run)

lemma on_cache_run [act_simps]: "on_cache m s = (case m (gw_cache s) of (r, t) \<Rightarrow> (r, s\<lparr>gw_cache := t\<rparr>))"
  by (simp add: on_cache_def zoomA_run)

text \<open>
  What a handler uses: the store, the cache, the Ethereum node, the packages of the parameters \<open>ext\<close> and
  \<open>codec\<close>, and the time of the call. \<open>srv_HexToHash\<close> is \<open>common.HexToHash(s).Hex()\<close>.
\<close>

record server =
  indexerStore :: store
  cacheStore :: "cache_entry coll"
  ethClient :: "string \<Rightarrow> int res"
  srv_HexToHash :: "string \<Rightarrow> string"
  srv_ext :: ext
  srv_codec :: codec
  srv_now :: gotime

record pb_SaleTimeSeriesFilter =
  gf_Addresses :: "string list"
  gf_Marketplace :: string
  gf_From :: "pb_Timestamp option"
  gf_To :: "pb_Timestamp option"
  gf_Offset :: "int option"
  gf_Size :: "int option"
  gf_SortASC :: "bool option"

record pb_AccountIdentity =
  gi_AccountNumber :: string
  gi_Blockchain :: string
  gi_Name :: string
  gi_LastUpdatedTime :: string

definition Server_GetTokenByIndexID :: "server \<Rightarrow> string \<Rightarrow> (gateway_state, pb_Token) act" where
  "Server_GetTokenByIndexID i indexID =
     bindA (on_db (GetTokenByIndexID (indexerStore i) indexID)) (\<lambda>token.
     case token of
       None \<Rightarrow> throwA (Errorf ''token does not exist'')
     | Some t \<Rightarrow> retA (MapIndexerTokenToGrpcToken t))"

definition Server_PushProvenance ::
    "server \<Rightarrow> string \<Rightarrow> string \<Rightarrow> pb_Provenance option \<Rightarrow> (gateway_state, unit) act" where
  "Server_PushProvenance i indexID lockedTimeText provenance =
     bindA (liftR (ParseTime lockedTimeText)) (\<lambda>lockedTime.
     bindA (liftR (bindR (deref provenance) (\<lambda>p. MapGRPCProvenancesToIndexerProvenances [p]))) (\<lambda>provenances.
     case provenances of
       [] \<Rightarrow> throwA (Errorf ''invalid provenance'')
     | p # _ \<Rightarrow> on_db (PushProvenance (indexerStore i) (srv_now i) indexID lockedTime p)))"

definition Server_UpdateOwner :: "server \<Rightarrow> string \<Rightarrow> string \<Rightarrow> string \<Rightarrow> (gateway_state, unit) act" where
  "Server_UpdateOwner i indexID owner updatedAtText =
     bindA (liftR (ParseTime updatedAtText)) (\<lambda>updatedAt.
     on_db (UpdateOwner (indexerStore i) (srv_now i) indexID owner updatedAt))"

definition Server_UpdateOwnerForFungibleToken ::
    "server \<Rightarrow> string \<Rightarrow> string \<Rightarrow> string \<Rightarrow> int \<Rightarrow> (gateway_state, unit) act" where
  "Server_UpdateOwnerForFungibleToken i indexID lockedTimeText to amount =
     bindA (liftR (ParseTime lockedTimeText)) (\<lambda>lockedTime.
     on_db (UpdateOwnerForFungibleToken (indexerStore i) indexID lockedTime to amount))"

definition Server_IndexAccountTokens :: "server \<Rightarrow> string \<Rightarrow> pb_AccountToken list \<Rightarrow> (gateway_state, unit) act" where
  "Server_IndexAccountTokens i owner accountTokens =
     bindA (liftR (MapGRPCAccountTokensToIndexerAccountTokens accountTokens)) (\<lambda>ats.
     on_db (IndexAccountTokens (indexerStore i) owner ats))"

definition Server_GetDetailedToken :: "server \<Rightarrow> string \<Rightarrow> bool \<Rightarrow> (gateway_state, pb_DetailedToken) act" where
  "Server_GetDetailedToken i indexID burnedIncluded =
     bindA (on_db (GetDetailedToken indexID burnedIncluded)) (\<lambda>d.
     retA (MapIndexerDetailedTokenToGRPCDetailedToken (srv_codec i) d))"

definition Server_GetTotalBalanceOfOwnerAccounts :: "server \<Rightarrow> string list \<Rightarrow> (gateway_state, int) act" where
  "Server_GetTotalBalanceOfOwnerAccounts i addresses = on_db (GetTotalBalanceOfOwnerAccounts addresses)"

definition Server_GetOwnerAccountsByIndexIDs :: "server \<Rightarrow> string list \<Rightarrow> (gateway_state, string list) act" where
  "Server_GetOwnerAccountsByIndexIDs i indexIDs = on_db (GetOwnerAccountsByIndexIDs (indexerStore i) indexIDs)"

definition Server_CheckAddressOwnTokenByCriteria ::
    "server \<Rightarrow> string \<Rightarrow> (string \<times> string) option \<Rightarrow> (gateway_state, bool) act" where
  "Server_CheckAddressOwnTokenByCriteria i address criteria =
     bindA (liftR (deref criteria)) (\<lambda>(indexID, source).
     on_db (CheckAddressOwnTokenByCriteria (srv_ext i) (indexerStore i) address
              \<lparr>crit_IndexID = indexID, crit_Source = source\<rparr>))"

definition Server_GetOwnersByBlockchainContracts ::
    "server \<Rightarrow> (string \<times> string list) list \<Rightarrow> (gateway_state, string list) act" where
  "Server_GetOwnersByBlockchainContracts i blockchainContracts =
     on_db (GetOwnersByBlockchainContracts (indexerStore i) blockchainContracts)"

definition Server_GetETHBlockTime :: "server \<Rightarrow> string \<Rightarrow> (gateway_state, string) act" where
  "Server_GetETHBlockTime i blockHash =
     bindA (on_cache (GetETHBlockTime (cacheStore i) (ethClient i) (srv_HexToHash i blockHash)))
       (\<lambda>blockTime. retA (format_RFC3339Nano blockTime))"

definition Server_GetIdentity :: "server \<Rightarrow> string \<Rightarrow> (gateway_state, pb_AccountIdentity) act" where
  "Server_GetIdentity i address =
     bindA (on_db (GetIdentity (indexerStore i) address)) (\<lambda>identity.
     retA \<lparr>gi_AccountNumber = ident_AccountNumber identity, gi_Blockchain = ident_Blockchain identity,
           gi_Name = ident_Name identity,
           gi_LastUpdatedTime = format_RFC3339Nano (ident_LastUpdatedTime identity)\<rparr>)"

definition Server_SendTimeSeriesData :: "server \<Rightarrow> pb_SaleTimeSeriesRecord list option \<Rightarrow> (gateway_state, unit) act" where
  "Server_SendTimeSeriesData i req =
     on_db (WriteTimeSeriesData (srv_ext i) (indexerStore i)
       (case MapGrpcSaleTimeSeriesRecords (srv_codec i) req of None \<Rightarrow> [] | Some rs \<Rightarrow> rs))"

definition Server_GetSaleTimeSeries :: "server \<Rightarrow> pb_SaleTimeSeriesFilter \<Rightarrow> (gateway_state, pb_SaleTimeSeries list) act" where
  "Server_GetSaleTimeSeries i f =
     (let offset = (case gf_Offset f of None \<Rightarrow> 0 | Some v \<Rightarrow> v);
          sz = (case gf_Size f of None \<Rightarrow> 50 | Some v \<Rightarrow> v);
          sortASC = (case gf_SortASC f of None \<Rightarrow> False | Some v \<Rightarrow> v)
      in bindA (on_db (GetSaleTimeSeriesData
             \<lparr>sf_Addresses = gf_Addresses f, sf_Marketplace = gf_Marketplace f,
              sf_From = MapGrpcTimestampToTime (srv_codec i) (gf_From f),
              sf_To = MapGrpcTimestampToTime (srv_codec i) (gf_To f),
              sf_Limit = sz, sf_Offset = offset, sf_SortASC = sortASC\<rparr>)) (\<lambda>sales.
         liftR (MapToGrpcSaleTimeSeriesListResponse (srv_codec i) sales)))"

definition Server_GetSaleRevenues :: "server \<Rightarrow> pb_SaleTimeSeriesFilter \<Rightarrow> (gateway_state, string \<rightharpoonup> string) act" where
  "Server_GetSaleRevenues i f =
     bindA (on_db (AggregateSaleRevenues (srv_ext i)
             \<lparr>sf_Addresses = gf_Addresses f, sf_Marketplace = gf_Marketplace f,
              sf_From = MapGrpcTimestampToTime (srv_codec i) (gf_From f),
              sf_To = MapGrpcTimestampToTime (srv_codec i) (gf_To f),
              sf_Limit = 0, sf_Offset = 0, sf_SortASC = False\<rparr>)) (\<lambda>revenues.
     retA (MapToGrpcSaleRevenuesResponse (srv_codec i) revenues))"

definition Server_GetHistoricalExchangeRate ::
    "server \<Rightarrow> string \<Rightarrow> pb_Timestamp option \<Rightarrow> (gateway_state, pb_ExchangeRateResponse) act" where
  "Server_GetHistoricalExchangeRate i currencyPair timestamp =
     bindA (liftR (deref (MapGrpcTimestampToTime (srv_codec i) timestamp))) (\<lambda>t.
     bindA (on_db (GetHistoricalExchangeRate (indexerStore i) currencyPair t)) (\<lambda>result.
     liftR (MapToExchangeRateResponse (srv_codec i) result)))"

definition Server_UpdateAssetsConfiguration ::
    "server \<Rightarrow> string list \<Rightarrow> pb_AssetConfiguration option \<Rightarrow> (gateway_state, unit) act" where
  "Server_UpdateAssetsConfiguration i ids conf =
     (let configuration = MapGrpcAssetConfigurationToIndexerAssetConfiguration conf
      in bindA (on_db (UpdateAssetsConfiguration (indexerStore i) ids configuration)) (\<lambda>matchedCount.
         if matchedCount = 0 then throwA (Errorf ''no asset configuration updated'') else retA ()))"

definition Server_CheckAssetCreator :: "server \<Rightarrow> string list \<Rightarrow> string list \<Rightarrow> (gateway_state, bool) act" where
  "Server_CheckAssetCreator i ids creatorAddresses = on_db (CheckAssetCreator (indexerStore i) ids creatorAddresses)"

section \<open>The client\<close>

record stub =
  rpc_GetTokenByIndexID :: "string \<Rightarrow> (gateway_state, pb_Token) act"
  rpc_PushProvenance :: "string \<Rightarrow> string \<Rightarrow> pb_Provenance option \<Rightarrow> (gateway_state, unit) act"
  rpc_UpdateOwner :: "string \<Rightarrow> string \<Rightarrow> string \<Rightarrow> (gateway_state, unit) act"
  rpc_UpdateOwnerForFungibleToken :: "string \<Rightarrow> string \<Rightarrow> string \<Rightarrow> int \<Rightarrow> (gateway_state, unit) act"
  rpc_IndexAccountTokens :: "string \<Rightarrow> pb_AccountToken list \<Rightarrow> (gateway_state, unit) act"
  rpc_GetDetailedToken :: "string \<Rightarrow> bool \<Rightarrow> (gateway_state, pb_DetailedToken) act"
  rpc_GetTotalBalanceOfOwnerAccounts :: "string list \<Rightarrow> (gateway_state, int) act"
  rpc_GetOwnerAccountsByIndexIDs :: "string list \<Rightarrow> (gateway_state, string list) act"
  rpc_CheckAddressOwnTokenByCriteria :: "string \<Rightarrow> (string \<times> string) option \<Rightarrow> (gateway_state, bool) act"
  rpc_GetOwnersByBlockchainContracts :: "(string \<times> string list) list \<Rightarrow> (gateway_state, string list) act"
  rpc_GetETHBlockTime :: "string \<Rightarrow> (gateway_state, string) act"
  rpc_GetIdentity :: "string \<Rightarrow> (gateway_state, pb_AccountIdentity) act"
  rpc_SendTimeSeriesData :: "pb_SaleTimeSeriesRecord list option \<Rightarrow> (gateway_state, unit) act"
  rpc_GetSaleTimeSeries :: "pb_SaleTimeSeriesFilter \<Rightarrow> (gateway_state, pb_SaleTimeSeries list) act"
  rpc_GetSaleRevenues :: "pb_SaleTimeSeriesFilter \<Rightarrow> (gateway_state, string \<rightharpoonup> string) act"
  rpc_GetHistoricalExchangeRate :: "string \<Rightarrow> pb_Timestamp option \<Rightarrow> (gateway_state, pb_ExchangeRateResponse) act"
  rpc_UpdateAssetsConfiguration :: "string list \<Rightarrow> pb_AssetConfiguration option \<Rightarrow> (gateway_state, unit) act"
  rpc_CheckAssetCreator :: "string list \<Rightarrow> string list \<Rightarrow> (gateway_state, bool) act"

definition Client_GetTokenByIndexID :: "stub \<Rightarrow> string \<Rightarrow> (gateway_state, Token) act" where
  "Client_GetTokenByIndexID cl indexID =
     bindA (rpc_GetTokenByIndexID cl indexID) (\<lambda>token. liftR (MapGrpcTokenToIndexerToken token))"

definition Client_PushProvenance :: "stub \<Rightarrow> string \<Rightarrow> gotime \<Rightarrow> Provenance \<Rightarrow> (gateway_state, unit) act" where
  "Client_PushProvenance cl indexID lockedTime provenance =
     rpc_PushProvenance cl indexID (format_RFC3339Nano lockedTime)
       (Some (hd (MapIndexerProvenancesToGRPCProvenances [provenance])))"

definition Client_UpdateOwner :: "stub \<Rightarrow> string \<Rightarrow> string \<Rightarrow> gotime \<Rightarrow> (gateway_state, unit) act" where
  "Client_UpdateOwner cl indexID owner updatedAt =
     rpc_UpdateOwner cl indexID owner (format_RFC3339Nano updatedAt)"

definition Client_UpdateOwnerForFungibleToken ::
    "stub \<Rightarrow> string \<Rightarrow> gotime \<Rightarrow> string \<Rightarrow> int \<Rightarrow> (gateway_state, unit) act" where
  "Client_UpdateOwnerForFungibleToken cl indexID lockedTime to amount =
     rpc_UpdateOwnerForFungibleToken cl indexID (format_RFC3339Nano lockedTime) to amount"

definition Client_IndexAccountTokens :: "stub \<Rightarrow> string \<Rightarrow> AccountToken list \<Rightarrow> (gateway_state, unit) act" where
  "Client_IndexAccountTokens cl owner accountTokens =
     rpc_IndexAccountTokens cl owner (MapIndexerAccountTokensToGRPCAccountTokens accountTokens)"

definition Client_GetDetailedToken :: "codec \<Rightarrow> stub \<Rightarrow> string \<Rightarrow> bool \<Rightarrow> (gateway_state, DetailedToken) act" where
  "Client_GetDetailedToken C cl indexID burnedIncluded =
     bindA (rpc_GetDetailedToken cl indexID burnedIncluded)
       (\<lambda>d. liftR (MapGrpcDetailedTokenToIndexerDetailedToken C d))"

definition Client_GetTotalBalanceOfOwnerAccounts :: "stub \<Rightarrow> string list \<Rightarrow> (gateway_state, int) act" where
  "Client_GetTotalBalanceOfOwnerAccounts cl addresses = rpc_GetTotalBalanceOfOwnerAccounts cl addresses"

definition Client_GetOwnerAccountsByIndexIDs :: "stub \<Rightarrow> string list \<Rightarrow> (gateway_state, string list) act" where
  "Client_GetOwnerAccountsByIndexIDs cl indexIDs = rpc_GetOwnerAccountsByIndexIDs cl indexIDs"

definition Client_GetOwnersByBlockchainContracts ::
    "stub \<Rightarrow> (string \<times> string list) list \<Rightarrow> (gateway_state, string list) act" where
  "Client_GetOwnersByBlockchainContracts cl blockchainContracts =
     rpc_GetOwnersByBlockchainContracts cl blockchainContracts"

definition Client_CheckAddressOwnTokenByCriteria :: "stub \<Rightarrow> string \<Rightarrow> Criteria \<Rightarrow> (gateway_state, bool) act" where
  "Client_CheckAddressOwnTokenByCriteria cl address criteria =
     rpc_CheckAddressOwnTokenByCriteria cl address (Some (crit_IndexID criteria, crit_Source criteria))"

definition Client_GetETHBlockTime :: "stub \<Rightarrow> string \<Rightarrow> (gateway_state, gotime) act" where
  "Client_GetETHBlockTime cl blockHash =
     bindA (rpc_GetETHBlockTime cl blockHash) (\<lambda>res. liftR (ParseTime res))"

text \<open>A time that does not parse is the zero time.\<close>

definition Client_GetIdentity :: "stub \<Rightarrow> string \<Rightarrow> (gateway_state, AccountIdentity) act" where
  "Client_GetIdentity cl address =
     bindA (rpc_GetIdentity cl address) (\<lambda>identity.
     let lastUpdatedTime = (case ParseTime (gi_LastUpdatedTime identity) of Inl _ \<Rightarrow> 0 | Inr t \<Rightarrow> t)
     in retA \<lparr>ident_AccountNumber = gi_AccountNumber identity, ident_Blockchain = gi_Blockchain identity,
              ident_Name = gi_Name identity, ident_LastUpdatedTime = lastUpdatedTime\<rparr>)"

definition Client_SendTimeSeriesData ::
    "codec \<Rightarrow> stub \<Rightarrow> GenericSalesTimeSeries list option \<Rightarrow> (gateway_state, unit) act" where
  "Client_SendTimeSeriesData C cl req = rpc_SendTimeSeriesData cl (MapGenericSaleTimeSeries C req)"

definition Client_GetTimeSeriesData ::
    "ext \<Rightarrow> codec \<Rightarrow> stub \<Rightarrow> SalesFilterParameter \<Rightarrow> (gateway_state, SaleTimeSeries list) act" where
  "Client_GetTimeSeriesData X C cl f =
     bindA (rpc_GetSaleTimeSeries cl
             \<lparr>gf_Addresses = sf_Addresses f, gf_Marketplace = sf_Marketplace f,
              gf_From = MapTimeToGrpcTimestamp C (sf_From f), gf_To = MapTimeToGrpcTimestamp C (sf_To f),
              gf_Offset = Some (sf_Offset f), gf_Size = Some (sf_Limit f), gf_SortASC = Some (sf_SortASC f)\<rparr>)
       (\<lambda>sales. liftR (MapGrpcSaleTimeSeriesListResponseToIndexerSaleTimeSeries X C (Some sales)))"

definition Client_GetSaleRevenues ::
    "codec \<Rightarrow> stub \<Rightarrow> SalesFilterParameter \<Rightarrow> (gateway_state, string \<rightharpoonup> string) act" where
  "Client_GetSaleRevenues C cl f =
     rpc_GetSaleRevenues cl
       \<lparr>gf_Addresses = sf_Addresses f, gf_Marketplace = sf_Marketplace f,
        gf_From = MapTimeToGrpcTimestamp C (sf_From f), gf_To = MapTimeToGrpcTimestamp C (sf_To f),
        gf_Offset = None, gf_Size = None, gf_SortASC = None\<rparr>"

definition Client_GetExchangeRate :: "codec \<Rightarrow> stub \<Rightarrow> string \<Rightarrow> gotime \<Rightarrow> (gateway_state, ExchangeRate) act" where
  "Client_GetExchangeRate C cl currencyPair t =
     bindA (rpc_GetHistoricalExchangeRate cl currencyPair (MapTimeToGrpcTimestamp C (Some t)))
       (\<lambda>result. liftR (MapGrpcExchangeRateResponseToIndexerExchangeRate C result))"

definition Client_UpdateAssetsConfiguration ::
    "stub \<Rightarrow> string list \<Rightarrow> AssetConfiguration option \<Rightarrow> (gateway_state, unit) act" where
  "Client_UpdateAssetsConfiguration cl ids configuration =
     rpc_UpdateAssetsConfiguration cl ids (MapIndexerAssetConfigurationToGrpcAssetConfiguration configuration)"

definition Client_CheckAssetCreator :: "stub \<Rightarrow> string list \<Rightarrow> string list \<Rightarrow> (gateway_state, bool) act" where
  "Client_CheckAssetCreator cl ids creatorAddresses = rpc_CheckAssetCreator cl ids creatorAddresses"

section \<open>The connection\<close>

text \<open>
  The status error the client gets for an error of the handler has the text of the error as its
  message; a panic ends the server and the client sees the connection break.
\<close>

definition rpc_error :: "goerr \<Rightarrow> goerr" where
  "rpc_error e = Errorf (case e of GoPanic _ \<Rightarrow> ''error reading from server: EOF'' | _ \<Rightarrow> error_text e)"

definition rpc_call :: "('s, 'a) act \<Rightarrow> ('s, 'a) act" where
  "rpc_call m = (\<lambda>s. case m s of (r, s') \<Rightarrow> (case r of Inl e \<Rightarrow> Inl (rpc_error e) | Inr a \<Rightarrow> Inr a, s'))"

lemma rpc_call_run [act_simps]:
  "rpc_call m s = (case m s of (r, s') \<Rightarrow> (case r of Inl e \<Rightarrow> Inl (rpc_error e) | Inr a \<Rightarrow> Inr a, s'))"
  by (simp add: rpc_call_def)

text \<open>An empty map or list of a message is nil after the transport.\<close>

definition wire_Token :: "pb_Token \<Rightarrow> pb_Token" where
  "wire_Token t = t
     \<lparr>gt_Owners := (case gt_Owners t of None \<Rightarrow> None | Some m \<Rightarrow> if dom m = {} then None else Some m),
      gt_OwnersArray := (if gt_OwnersArray t = Some [] then None else gt_OwnersArray t)\<rparr>"

definition wire_DetailedToken :: "pb_DetailedToken \<Rightarrow> pb_DetailedToken" where
  "wire_DetailedToken d = d\<lparr>gd_Token := map_option wire_Token (gd_Token d)\<rparr>"

locale grpc_connection =
  fixes cl :: stub and i :: server
  assumes call_GetTokenByIndexID: "rpc_GetTokenByIndexID cl a = rpc_call (bindA (Server_GetTokenByIndexID i a) (\<lambda>t. retA (wire_Token t)))"
    and call_PushProvenance: "rpc_PushProvenance cl a b p = rpc_call (Server_PushProvenance i a b p)"
    and call_UpdateOwner: "rpc_UpdateOwner cl a b c = rpc_call (Server_UpdateOwner i a b c)"
    and call_UpdateOwnerForFungibleToken: "rpc_UpdateOwnerForFungibleToken cl a b c n = rpc_call (Server_UpdateOwnerForFungibleToken i a b c n)"
    and call_IndexAccountTokens: "rpc_IndexAccountTokens cl a ats = rpc_call (Server_IndexAccountTokens i a ats)"
    and call_GetDetailedToken: "rpc_GetDetailedToken cl a g = rpc_call (bindA (Server_GetDetailedToken i a g) (\<lambda>d. retA (wire_DetailedToken d)))"
    and call_GetTotalBalanceOfOwnerAccounts: "rpc_GetTotalBalanceOfOwnerAccounts cl xs = rpc_call (Server_GetTotalBalanceOfOwnerAccounts i xs)"
    and call_GetOwnerAccountsByIndexIDs: "rpc_GetOwnerAccountsByIndexIDs cl xs = rpc_call (Server_GetOwnerAccountsByIndexIDs i xs)"
    and call_CheckAddressOwnTokenByCriteria: "rpc_CheckAddressOwnTokenByCriteria cl a cr = rpc_call (Server_CheckAddressOwnTokenByCriteria i a cr)"
    and call_GetOwnersByBlockchainContracts: "rpc_GetOwnersByBlockchainContracts cl bc = rpc_call (Server_GetOwnersByBlockchainContracts i bc)"
    and call_GetETHBlockTime: "rpc_GetETHBlockTime cl a = rpc_call (Server_GetETHBlockTime i a)"
    and call_GetIdentity: "rpc_GetIdentity cl a = rpc_call (Server_GetIdentity i a)"
    and call_SendTimeSeriesData: "rpc_SendTimeSeriesData cl req = rpc_call (Server_SendTimeSeriesData i (Some (case req of None \<Rightarrow> [] | Some rs \<Rightarrow> rs)))"
    and call_GetSaleTimeSeries: "rpc_GetSaleTimeSeries cl f = rpc_call (Server_GetSaleTimeSeries i f)"
    and call_GetSaleRevenues: "rpc_GetSaleRevenues cl f = rpc_call (Server_GetSaleRevenues i f)"
    and call_GetHistoricalExchangeRate: "rpc_GetHistoricalExchangeRate cl a tm = rpc_call (Server_GetHistoricalExchangeRate i a tm)"
    and call_UpdateAssetsConfiguration: "rpc_UpdateAssetsConfiguration cl xs cf = rpc_call (Server_UpdateAssetsConfiguration i xs cf)"
    and call_CheckAssetCreator: "rpc_CheckAssetCreator cl xs ys = rpc_call (Server_CheckAssetCreator i xs ys)"

definition connect :: "server \<Rightarrow> stub" where
  "connect i =
     \<lparr>rpc_GetTokenByIndexID = (\<lambda>a. rpc_call (bindA (Server_GetTokenByIndexID i a) (\<lambda>t. retA (wire_Token t)))),
      rpc_PushProvenance = (\<lambda>a b c. rpc_call (Server_PushProvenance i a b c)),
      rpc_UpdateOwner = (\<lambda>a b c. rpc_call (Server_UpdateOwner i a b c)),
      rpc_UpdateOwnerForFungibleToken = (\<lambda>a b c n. rpc_call (Server_UpdateOwnerForFungibleToken i a b c n)),
      rpc_IndexAccountTokens = (\<lambda>a ats. rpc_call (Server_IndexAccountTokens i a ats)),
      rpc_GetDetailedToken = (\<lambda>a g. rpc_call (bindA (Server_GetDetailedToken i a g) (\<lambda>d. retA (wire_DetailedToken d)))),
      rpc_GetTotalBalanceOfOwnerAccounts = (\<lambda>xs. rpc_call (Server_GetTotalBalanceOfOwnerAccounts i xs)),
      rpc_GetOwnerAccountsByIndexIDs = (\<lambda>xs. rpc_call (Server_GetOwnerAccountsByIndexIDs i xs)),
      rpc_CheckAddressOwnTokenByCriteria = (\<lambda>a cr. rpc_call (Server_CheckAddressOwnTokenByCriteria i a cr)),
      rpc_GetOwnersByBlockchainContracts = (\<lambda>bc. rpc_call (Server_GetOwnersByBlockchainContracts i bc)),
      rpc_GetETHBlockTime = (\<lambda>a. rpc_call (Server_GetETHBlockTime i a)),
      rpc_GetIdentity = (\<lambda>a. rpc_call (Server_GetIdentity i a)),
      rpc_SendTimeSeriesData = (\<lambda>req. rpc_call (Server_SendTimeSeriesData i (Some (case req of None \<Rightarrow> [] | Some rs \<Rightarrow> rs)))),
      rpc_GetSaleTimeSeries = (\<lambda>f. rpc_call (Server_GetSaleTimeSeries i f)),
      rpc_GetSaleRevenues = (\<lambda>f. rpc_call (Server_GetSaleRevenues i f)),
      rpc_GetHistoricalExchangeRate = (\<lambda>a tm. rpc_call (Server_GetHistoricalExchangeRate i a tm)),
      rpc_UpdateAssetsConfiguration = (\<lambda>xs cf. rpc_call (Server_UpdateAssetsConfiguration i xs cf)),
      rpc_CheckAssetCreator = (\<lambda>xs ys. rpc_call (Server_CheckAssetCreator i xs ys))\<rparr>"

interpretation direct: grpc_connection "connect i" i for i
  by unfold_locales (simp_all add: connect_def)

lemma connect_lawful: "grpc_connection (connect i) i"
  by (rule direct.grpc_connection_axioms)

section \<open>The client and the store\<close>

lemma rpc_call_on_db: "rpc_call (on_db m) = on_db (rpc_call m)"
  by (rule ext) (simp add: act_simps split: prod.split)

definition wire_tok :: "Token \<Rightarrow> Token" where
  "wire_tok t = t
     \<lparr>tok_Owners := (case tok_Owners t of None \<Rightarrow> None | Some m \<Rightarrow> if dom m = {} then None else Some m),
      tok_OwnersArray := (if tok_OwnersArray t = Some [] then None else tok_OwnersArray t)\<rparr>"

lemma MapGrpcToken_wire:
  "MapGrpcTokenToIndexerToken (wire_Token b) = bindR (MapGrpcTokenToIndexerToken b) (\<lambda>t. Inr (wire_tok t))"
  by (cases "ParseTime (gt_MintedAt b)"; cases "ParseTime (gt_LastRefreshedTime b)";
      cases "MapGRPCProvenancesToIndexerProvenances (gt_Provenances b)")
     (simp_all add: MapGrpcTokenToIndexerToken_def wire_Token_def wire_tok_def)

text \<open>A provenance as the handler hands it to the store.\<close>

context grpc_connection
begin

lemma PushProvenance_through:
  assumes "printable lockedTime" and "printable (prov_Timestamp p)"
  shows "Client_PushProvenance cl indexID lockedTime p =
    on_db (rpc_call (PushProvenance (indexerStore i) (srv_now i) indexID lockedTime (sent_Provenance p)))"
proof -
  have m: "MapIndexerProvenancesToGRPCProvenances [p] = [hd (MapIndexerProvenancesToGRPCProvenances [p])]"
    by (simp add: MapIndexerProvenancesToGRPCProvenances_def)
  have "MapGRPCProvenancesToIndexerProvenances [hd (MapIndexerProvenancesToGRPCProvenances [p])] = Inr [sent_Provenance p]"
    using assms(2) by (simp flip: m)
  with assms(1) show ?thesis
    by (simp add: Client_PushProvenance_def call_PushProvenance Server_PushProvenance_def bindA_def liftR_def
        flip: rpc_call_on_db)
qed

lemma UpdateOwner_through:
  "printable updatedAt \<Longrightarrow> Client_UpdateOwner cl indexID owner updatedAt =
    on_db (rpc_call (UpdateOwner (indexerStore i) (srv_now i) indexID owner updatedAt))"
  by (simp add: Client_UpdateOwner_def call_UpdateOwner Server_UpdateOwner_def bindA_def liftR_def flip: rpc_call_on_db)

lemma UpdateOwnerForFungibleToken_through:
  "printable lockedTime \<Longrightarrow> Client_UpdateOwnerForFungibleToken cl indexID lockedTime to amount =
    on_db (rpc_call (UpdateOwnerForFungibleToken (indexerStore i) indexID lockedTime to amount))"
  by (simp add: Client_UpdateOwnerForFungibleToken_def call_UpdateOwnerForFungibleToken
      Server_UpdateOwnerForFungibleToken_def bindA_def liftR_def flip: rpc_call_on_db)

lemma IndexAccountTokens_through:
  "list_all printable_account_token ats \<Longrightarrow> Client_IndexAccountTokens cl owner ats =
    on_db (rpc_call (IndexAccountTokens (indexerStore i) owner ats))"
  by (simp add: Client_IndexAccountTokens_def call_IndexAccountTokens Server_IndexAccountTokens_def AccountTokens_round
      bindA_def liftR_def flip: rpc_call_on_db)

lemma GetTokenByIndexID_through:
  assumes "\<And>t. t \<in> set (db_tokens (gw_db s)) \<Longrightarrow> printable_token t" and "mongo_store (indexerStore i)"
  shows "Client_GetTokenByIndexID cl indexID s =
    (case get_token indexID (gw_db s) of
       None \<Rightarrow> (Inl (Errorf ''token does not exist''), s)
     | Some t \<Rightarrow> (Inr (wire_tok (sent_Token t)), s))"
proof -
  have g: "GetTokenByIndexID (indexerStore i) indexID (gw_db s) = (Inr (get_token indexID (gw_db s)), gw_db s)"
    using mongo_store.GetTokenByIndexID_run [OF assms(2)] by simp
  show ?thesis
  proof (cases "get_token indexID (gw_db s)")
    case None
    with g show ?thesis
      by (simp add: Client_GetTokenByIndexID_def call_GetTokenByIndexID Server_GetTokenByIndexID_def act_simps rpc_error_def)
  next
    case (Some t)
    then have "printable_token t" using assms(1) by (auto simp: get_token_def dest: find_Some_set)
    with g Some show ?thesis
      by (simp add: Client_GetTokenByIndexID_def call_GetTokenByIndexID Server_GetTokenByIndexID_def act_simps
          MapGrpcToken_wire Token_round)
  qed
qed

end

section \<open>Properties\<close>

text \<open>
  C27: A write through the client is the write of the store, with the status error for any error:
  pushing a provenance, setting the owner of a token or the balance of an owner, indexing account
  tokens. Only the former owner of a provenance differs: a missing one arrives as the empty
  string, so the check of the store for a former owner never fails through the gateway.
\<close>

theorem client_writes_are_store_writes:
  assumes "grpc_connection cl i" and "printable t" and "printable (prov_Timestamp p)"
    and "list_all printable_account_token ats"
  shows "Client_PushProvenance cl j t p =
      on_db (rpc_call (PushProvenance (indexerStore i) (srv_now i) j t
        (p\<lparr>prov_FormerOwner := Some (DerefString (prov_FormerOwner p))\<rparr>))) \<and>
    Client_UpdateOwner cl j owner t = on_db (rpc_call (UpdateOwner (indexerStore i) (srv_now i) j owner t)) \<and>
    Client_UpdateOwnerForFungibleToken cl j t owner n =
      on_db (rpc_call (UpdateOwnerForFungibleToken (indexerStore i) j t owner n)) \<and>
    Client_IndexAccountTokens cl owner ats = on_db (rpc_call (IndexAccountTokens (indexerStore i) owner ats))"
  using grpc_connection.PushProvenance_through [OF assms(1-3)] grpc_connection.UpdateOwner_through [OF assms(1,2)]
    grpc_connection.UpdateOwnerForFungibleToken_through [OF assms(1,2)]
    grpc_connection.IndexAccountTokens_through [OF assms(1,4)]
  by (simp add: sent_Provenance_def)

definition sample_server :: server where
  "sample_server = \<lparr>indexerStore = mem_store [], cacheStore = mem_coll (\<lambda>_ _. False),
     ethClient = (\<lambda>_. Inr 1700000000), srv_HexToHash = (\<lambda>h. h), srv_ext = sample_ext,
     srv_codec = sample_codec, srv_now = 9\<rparr>"

definition sample_state :: gateway_state where
  "sample_state = \<lparr>gw_db = sample_db, gw_cache = []\<rparr>"

theorem client_writes_are_store_writes_witness:
  "fst (Client_PushProvenance (connect sample_server) ''eth-c-1'' 5
      (sample_provenance\<lparr>prov_FormerOwner := None\<rparr>) sample_state) = Inr () \<and>
   fst (PushProvenance (mem_store []) 9 ''eth-c-1'' 5
      (sample_provenance\<lparr>prov_FormerOwner := None\<rparr>) sample_db) = Inl (Errorf ''invalid former owner'')"
proof -
  have "printable 5" "printable (prov_Timestamp (sample_provenance\<lparr>prov_FormerOwner := None\<rparr>))"
    by (simp_all add: printable_def sample_provenance_def)
  note eq = conjunct1 [OF client_writes_are_store_writes [OF connect_lawful this, of "[]" sample_server "''eth-c-1''"]]
  let ?p = "sample_provenance\<lparr>prov_FormerOwner := Some []\<rparr>"
  have "fst (PushProvenance (mem_store []) 9 ''eth-c-1'' 5 ?p sample_db) = Inr ()"
    by (simp add: mem_st.PushProvenance_run sample_provenance_def sample_db_def sample_token_def push_provenance_def)
  then have "fst (on_db (rpc_call (PushProvenance (mem_store []) 9 ''eth-c-1'' 5 ?p)) sample_state) = Inr ()"
    by (auto simp: act_simps sample_state_def split: prod.split)
  moreover have "fst (PushProvenance (mem_store []) 9 ''eth-c-1'' 5 (sample_provenance\<lparr>prov_FormerOwner := None\<rparr>) sample_db) =
      Inl (Errorf ''invalid former owner'')"
    by (simp add: PushProvenance_def act_simps)
  ultimately show ?thesis
    using eq by (simp add: sample_server_def DerefString_def)
qed

text \<open>
  A request without the message the handler needs - a provenance, a criteria, a timestamp -
  makes the handler dereference a nil pointer: it panics, whatever the state, and writes nothing.
\<close>

theorem gateway_nil_messages_panic:
  "Server_PushProvenance i j t None s =
     (case ParseTime t of Inl e \<Rightarrow> (Inl e, s) | Inr _ \<Rightarrow> (Inl nil_panic, s)) \<and>
   Server_CheckAddressOwnTokenByCriteria i a None s = (Inl nil_panic, s) \<and>
   Server_GetHistoricalExchangeRate i c None s = (Inl nil_panic, s)"
  by (simp add: Server_PushProvenance_def Server_CheckAddressOwnTokenByCriteria_def
      Server_GetHistoricalExchangeRate_def MapGrpcTimestampToTime_def act_simps split: sum.split)

text \<open>
  Sales sent by the client are written as \<open>WriteTimeSeriesData\<close> writes them when all their
  metadata fit into a protobuf \<open>Struct\<close>; when the metadata of one of them do not, none is written
  and the client is told that the call succeeded.
\<close>

theorem SendTimeSeriesData_all_or_silently_none:
  assumes "grpc_connection cl i" and "message_codec X (srv_codec i)"
    and "list_all (\<lambda>v. canonical (JObj (gst_Metadata v)) \<and> plain (JObj (gst_Metadata v))) rs"
  shows "Client_SendTimeSeriesData (srv_codec i) cl (Some rs) =
    (if list_all (\<lambda>v. structpb_NewStruct (srv_codec i) (gst_Metadata v) \<noteq> None) rs
     then on_db (rpc_call (WriteTimeSeriesData (srv_ext i) (indexerStore i) rs))
     else retA ())"
proof -
  let ?C = "srv_codec i"
  show ?thesis
  proof (cases "list_all (\<lambda>v. structpb_NewStruct ?C (gst_Metadata v) \<noteq> None) rs")
    case True
    with assms(3) have r: "MapGrpcSaleTimeSeriesRecords ?C (MapGenericSaleTimeSeries ?C (Some rs)) = Some rs"
      by (intro message_codec.sale_records_round [OF assms(2)]) (simp add: list_all_iff)
    then have "MapGenericSaleTimeSeries ?C (Some rs) \<noteq> None"
      by (auto simp: MapGrpcSaleTimeSeriesRecords_def split: option.splits)
    with r True show ?thesis
      by (auto simp: Client_SendTimeSeriesData_def grpc_connection.call_SendTimeSeriesData [OF assms(1)]
          Server_SendTimeSeriesData_def rpc_call_on_db)
  next
    case False
    then have "\<exists>e. mapR (sale_record ?C) rs = Inl e"
      by (induction rs) (auto simp: sale_record_def bindR_def split: option.splits sum.splits)
    then have "MapGenericSaleTimeSeries ?C (Some rs) = None" by (auto simp: MapGenericSaleTimeSeries_def)
    with False show ?thesis
      by (auto simp: Client_SendTimeSeriesData_def grpc_connection.call_SendTimeSeriesData [OF assms(1)]
          Server_SendTimeSeriesData_def MapGrpcSaleTimeSeriesRecords_def WriteTimeSeriesData_def act_simps fun_eq_iff)
  qed
qed

definition unsendable_sale :: GenericSalesTimeSeries where
  "unsendable_sale = sample_sale\<lparr>gst_Metadata := [(''memo'', JStr [CHR 0xFF])]\<rparr>"

theorem SendTimeSeriesData_all_or_silently_none_witness:
  "Client_SendTimeSeriesData (srv_codec sample_server) (connect sample_server) (Some [unsendable_sale]) sample_state =
    (Inr (), sample_state)"
proof -
  have "message_codec sample_ext (srv_codec sample_server)"
    using sample_messages.message_codec_axioms by (simp add: sample_server_def)
  from SendTimeSeriesData_all_or_silently_none [OF connect_lawful this, of "[unsendable_sale]"]
  show ?thesis
    by (simp add: unsendable_sale_def sample_server_def sample_codec_def safe_text_def less_char_def act_simps)
qed

end
