(* ===== verification/EventStore.thy ===== *)
theory EventStore
  imports Prelude "HOL-Library.Char_ord" "HOL-Library.List_Lexorder"
begin

text \<open>
  The event store of the event processor (\<open>services/event-processor/store.go\<close>, \<open>constants.go\<close>): events in
  tables of a Postgres database, archived when they are processed. The database and its driver are the
  parameter \<open>postgres\<close>; the interface \<open>postgres_driver\<close> states what is documented of
  transactions: the writes of an open transaction take effect together at its commit or not at all, a
  failed statement aborts it, \<open>FOR UPDATE SKIP LOCKED\<close> passes over the rows other transactions hold.
  Every statement may fail.
\<close>

section \<open>Stages, types and status values\<close>

datatype Stage =
    StageDone | StageInit | StageFullSync | StageNotification | StageFeed | StageTokenSaleIndexing
  | StageDoubleSync

text \<open>The number of a stage, and the map \<open>NftEventStages\<close> with the empty string for a missing key.\<close>

fun stage_number :: "Stage \<Rightarrow> nat" where
  "stage_number StageDone = 0"
| "stage_number StageInit = 1"
| "stage_number StageFullSync = 2"
| "stage_number StageNotification = 3"
| "stage_number StageFeed = 4"
| "stage_number StageTokenSaleIndexing = 5"
| "stage_number StageDoubleSync = 11"

lemma stage_number_inj: "stage_number a = stage_number b \<longleftrightarrow> a = b"
  by (cases a; cases b) simp_all

text \<open>The stages in the order of their numbers.\<close>

instantiation Stage :: linorder
begin

definition less_eq_Stage :: "Stage \<Rightarrow> Stage \<Rightarrow> bool" where
  "a \<le> b \<longleftrightarrow> stage_number a \<le> stage_number b"

definition less_Stage :: "Stage \<Rightarrow> Stage \<Rightarrow> bool" where
  "a < b \<longleftrightarrow> stage_number a < stage_number b"

instance
proof
  fix a b c :: Stage
  show "a < b \<longleftrightarrow> a \<le> b \<and> \<not> b \<le> a" by (auto simp: less_eq_Stage_def less_Stage_def)
  show "a \<le> a" by (simp add: less_eq_Stage_def)
  show "a \<le> b \<Longrightarrow> b \<le> c \<Longrightarrow> a \<le> c" by (simp add: less_eq_Stage_def)
  show "a \<le> b \<Longrightarrow> b \<le> a \<Longrightarrow> a = b" by (simp add: less_eq_Stage_def flip: stage_number_inj)
  show "a \<le> b \<or> b \<le> a" by (auto simp: less_eq_Stage_def)
qed

end

fun NftEventStages :: "Stage \<Rightarrow> string" where
  "NftEventStages StageInit = ''stage_1_init''"
| "NftEventStages StageFullSync = ''stage_2_full_sync''"
| "NftEventStages StageNotification = ''stage_3_send_notification''"
| "NftEventStages StageFeed = ''stage_4_send_to_feed''"
| "NftEventStages StageTokenSaleIndexing = ''stage_5_index_token_sale''"
| "NftEventStages StageDoubleSync = ''stage_11_double_sync_token''"
| "NftEventStages StageDone = []"

definition SeriesEventStages :: "Stage \<Rightarrow> string" where
  "SeriesEventStages s = (if s = StageInit then ''stage_1_init'' else [])"

lemma NftEventStages_inj: "NftEventStages a = NftEventStages b \<longleftrightarrow> a = b"
  by (cases a; cases b) simp_all

abbreviation NftEventTypeMint :: string where "NftEventTypeMint \<equiv> ''mint''"
abbreviation NftEventTypeBurned :: string where "NftEventTypeBurned \<equiv> ''burned''"
abbreviation NftEventTypeTransfer :: string where "NftEventTypeTransfer \<equiv> ''transfer''"
abbreviation NftEventTypeTokenUpdated :: string where "NftEventTypeTokenUpdated \<equiv> ''token_updated''"

abbreviation StatusCreated :: string where "StatusCreated \<equiv> ''created''"
abbreviation StatusProcessing :: string where "StatusProcessing \<equiv> ''processing''"
abbreviation StatusProcessed :: string where "StatusProcessed \<equiv> ''processed''"
abbreviation StatusFailed :: string where "StatusFailed \<equiv> ''failed''"

section \<open>The tables\<close>

record NFTEvent =
  ev_ID :: string
  ev_Type :: string
  ev_Blockchain :: string
  ev_Contract :: string
  ev_TokenID :: string
  ev_From :: string
  ev_To :: string
  ev_TXID :: string
  ev_EventIndex :: int
  ev_TXTime :: gotime
  ev_Stage :: string
  ev_Status :: string
  ev_CreatedAt :: gotime
  ev_UpdatedAt :: gotime

record ArchivedNFTEvent =
  ar_ID :: string
  ar_Type :: string
  ar_Blockchain :: string
  ar_Contract :: string
  ar_TokenID :: string
  ar_From :: string
  ar_To :: string
  ar_TXID :: string
  ar_EventIndex :: int
  ar_TXTime :: gotime
  ar_Stage :: string
  ar_Status :: string
  ar_CreatedAt :: gotime
  ar_UpdatedAt :: gotime

record SeriesRegistryEvent =
  se_ID :: string
  se_Type :: string
  se_Contract :: string
  se_TxID :: string
  se_EventIndex :: int
  se_TxTime :: gotime
  se_Data :: string
  se_Stage :: string
  se_Status :: string
  se_CreatedAt :: gotime
  se_UpdatedAt :: gotime

record ev_db =
  tb_events :: "NFTEvent list"
  tb_archived :: "ArchivedNFTEvent list"
  tb_series :: "SeriesRegistryEvent list"

text \<open>The server: the committed tables and the ids of the rows that transactions have locked.\<close>

record pg_state =
  pg_db :: ev_db
  pg_locked :: "string list"

section \<open>The driver\<close>

datatype tx_status = TxOpen | TxAborted | TxDone

text \<open>A transaction: its state, the rows it has locked, its pending writes, the statements it ran.\<close>

record tx =
  tx_state :: tx_status
  tx_locks :: "string list"
  tx_pending :: "ev_db \<Rightarrow> ev_db"
  tx_ticks :: nat

type_synonym txs = "tx \<times> pg_state"

record postgres =
  pg_Exec :: "(ev_db \<Rightarrow> ev_db res) \<Rightarrow> (pg_state, unit) act"
  pg_Begin :: "(pg_state, tx) act"
  pg_FirstNft :: "(NFTEvent \<Rightarrow> bool) \<Rightarrow> tx \<Rightarrow> (pg_state, NFTEvent \<times> tx) act"
  pg_FirstSeries :: "(SeriesRegistryEvent \<Rightarrow> bool) \<Rightarrow> tx \<Rightarrow> (pg_state, SeriesRegistryEvent \<times> tx) act"
  pg_TxExec :: "(ev_db \<Rightarrow> ev_db) \<Rightarrow> (tx, unit) act"
  pg_Commit :: "(txs, unit) act"
  pg_Rollback :: "(txs, unit) act"

text \<open>\<open>ORDER BY created_at, id\<close>, the rows another transaction has locked left out.\<close>

definition nft_rows :: "(NFTEvent \<Rightarrow> bool) \<Rightarrow> pg_state \<Rightarrow> NFTEvent list" where
  "nft_rows q s = sort_key ev_CreatedAt (sort_key ev_ID
     (filter (\<lambda>e. q e \<and> ev_ID e \<notin> set (pg_locked s)) (tb_events (pg_db s))))"

definition series_rows :: "(SeriesRegistryEvent \<Rightarrow> bool) \<Rightarrow> pg_state \<Rightarrow> SeriesRegistryEvent list" where
  "series_rows q s = sort_key se_CreatedAt (sort_key se_ID
     (filter (\<lambda>e. q e \<and> se_ID e \<notin> set (pg_locked s)) (tb_series (pg_db s))))"

definition lock_row :: "string \<Rightarrow> pg_state \<Rightarrow> pg_state" where
  "lock_row i s = s\<lparr>pg_locked := i # pg_locked s\<rparr>"

definition unlock_rows :: "tx \<Rightarrow> pg_state \<Rightarrow> pg_state" where
  "unlock_rows t s = s\<lparr>pg_locked := filter (\<lambda>i. i \<notin> set (tx_locks t)) (pg_locked s)\<rparr>"

definition first_row :: "('e \<Rightarrow> string) \<Rightarrow> 'e list \<Rightarrow> tx \<Rightarrow> nat \<Rightarrow> (pg_state, 'e \<times> tx) act" where
  "first_row key rows t n s =
     (case rows of
        [] \<Rightarrow> (Inl ErrRecordNotFound, s)
      | e # _ \<Rightarrow> (Inr (e, t\<lparr>tx_locks := key e # tx_locks t, tx_ticks := n\<rparr>), lock_row (key e) s))"

locale postgres_driver =
  fixes P :: postgres
  assumes Exec_law:
      "pg_Exec P f s = (case f (pg_db s) of Inl e \<Rightarrow> (Inl e, s) | Inr d \<Rightarrow> (Inr (), s\<lparr>pg_db := d\<rparr>)) \<or>
       (\<exists>e. e \<noteq> ErrDuplicateKey \<and> pg_Exec P f s = (Inl e, s))"
    and Begin_law:
      "(\<exists>n. pg_Begin P s = (Inr \<lparr>tx_state = TxOpen, tx_locks = [], tx_pending = id, tx_ticks = n\<rparr>, s)) \<or>
       (\<exists>e. pg_Begin P s = (Inl e, s))"
    and FirstNft_law: "tx_state t = TxOpen \<Longrightarrow>
       (\<exists>n. pg_FirstNft P q t s = first_row ev_ID (nft_rows q s) t n s) \<or>
       (\<exists>e. pg_FirstNft P q t s = (Inl e, s))"
    and FirstSeries_law: "tx_state t = TxOpen \<Longrightarrow>
       (\<exists>n. pg_FirstSeries P p t s = first_row se_ID (series_rows p s) t n s) \<or>
       (\<exists>e. pg_FirstSeries P p t s = (Inl e, s))"
    and TxExec_law:
      "(tx_state t = TxOpen \<and> (\<exists>n. pg_TxExec P g t = (Inr (), t\<lparr>tx_pending := g \<circ> tx_pending t, tx_ticks := n\<rparr>))) \<or>
       (\<exists>e n z. z \<noteq> TxOpen \<and> pg_TxExec P g t = (Inl e, t\<lparr>tx_state := z, tx_ticks := n\<rparr>))"
    and Commit_law:
      "\<exists>r d. pg_Commit P (t, s) = (r, (t\<lparr>tx_state := TxDone\<rparr>, (unlock_rows t s)\<lparr>pg_db := d\<rparr>)) \<and>
         (d = pg_db s \<or> tx_state t = TxOpen \<and> d = tx_pending t (pg_db s))"
    and Rollback_law: "\<exists>r. pg_Rollback P (t, s) = (r, (t\<lparr>tx_state := TxDone\<rparr>, unlock_rows t s))"

text \<open>
  A driver with this behaviour: a statement of a transaction fails when its number is in \<open>bad\<close>.
\<close>

definition mem_postgres :: "(nat \<Rightarrow> bool) \<Rightarrow> postgres" where
  "mem_postgres bad =
     \<lparr>pg_Exec = (\<lambda>f s. case f (pg_db s) of Inl e \<Rightarrow> (Inl e, s) | Inr d \<Rightarrow> (Inr (), s\<lparr>pg_db := d\<rparr>)),
      pg_Begin = (\<lambda>s. (Inr \<lparr>tx_state = TxOpen, tx_locks = [], tx_pending = id, tx_ticks = 0\<rparr>, s)),
      pg_FirstNft = (\<lambda>q t s. first_row ev_ID (nft_rows q s) t (tx_ticks t) s),
      pg_FirstSeries = (\<lambda>q t s. first_row se_ID (series_rows q s) t (tx_ticks t) s),
      pg_TxExec = (\<lambda>g t.
        if tx_state t = TxOpen \<and> \<not> bad (tx_ticks t)
        then (Inr (), t\<lparr>tx_pending := g \<circ> tx_pending t, tx_ticks := Suc (tx_ticks t)\<rparr>)
        else (Inl (ErrDB ''statement failed''),
              t\<lparr>tx_state := (if tx_state t = TxDone then TxDone else TxAborted), tx_ticks := Suc (tx_ticks t)\<rparr>)),
      pg_Commit = (\<lambda>(t, s). (if tx_state t = TxOpen then Inr () else Inl (ErrDB ''transaction aborted''),
        (t\<lparr>tx_state := TxDone\<rparr>, (unlock_rows t s)\<lparr>pg_db := (if tx_state t = TxOpen then tx_pending t (pg_db s) else pg_db s)\<rparr>))),
      pg_Rollback = (\<lambda>(t, s). (Inr (), (t\<lparr>tx_state := TxDone\<rparr>, unlock_rows t s)))\<rparr>"

lemma mem_postgres_simps:
  "pg_Exec (mem_postgres bad) f s = (case f (pg_db s) of Inl e \<Rightarrow> (Inl e, s) | Inr d \<Rightarrow> (Inr (), s\<lparr>pg_db := d\<rparr>))"
  "pg_Begin (mem_postgres bad) s = (Inr \<lparr>tx_state = TxOpen, tx_locks = [], tx_pending = id, tx_ticks = 0\<rparr>, s)"
  "pg_FirstNft (mem_postgres bad) q t s = first_row ev_ID (nft_rows q s) t (tx_ticks t) s"
  "pg_FirstSeries (mem_postgres bad) p t s = first_row se_ID (series_rows p s) t (tx_ticks t) s"
  "pg_Rollback (mem_postgres bad) (t, s) = (Inr (), (t\<lparr>tx_state := TxDone\<rparr>, unlock_rows t s))"
  by (simp_all add: mem_postgres_def)

lemma mem_TxExec:
  "pg_TxExec (mem_postgres bad) g t =
    (if tx_state t = TxOpen \<and> \<not> bad (tx_ticks t)
     then (Inr (), t\<lparr>tx_pending := g \<circ> tx_pending t, tx_ticks := Suc (tx_ticks t)\<rparr>)
     else (Inl (ErrDB ''statement failed''),
           t\<lparr>tx_state := (if tx_state t = TxDone then TxDone else TxAborted), tx_ticks := Suc (tx_ticks t)\<rparr>))"
  by (simp add: mem_postgres_def)

lemma mem_Commit:
  "pg_Commit (mem_postgres bad) (t, s) =
    (if tx_state t = TxOpen then Inr () else Inl (ErrDB ''transaction aborted''),
     (t\<lparr>tx_state := TxDone\<rparr>,
      (unlock_rows t s)\<lparr>pg_db := (if tx_state t = TxOpen then tx_pending t (pg_db s) else pg_db s)\<rparr>))"
  by (simp add: mem_postgres_def)

interpretation mem_pg: postgres_driver "mem_postgres bad" for bad
proof (rule postgres_driver.intro)
  show "(tx_state t = TxOpen \<and> (\<exists>n. pg_TxExec (mem_postgres bad) g t =
          (Inr (), t\<lparr>tx_pending := g \<circ> tx_pending t, tx_ticks := n\<rparr>))) \<or>
        (\<exists>e n z. z \<noteq> TxOpen \<and> pg_TxExec (mem_postgres bad) g t = (Inl e, t\<lparr>tx_state := z, tx_ticks := n\<rparr>))" for g t
  proof (cases "tx_state t = TxOpen \<and> \<not> bad (tx_ticks t)")
    case True
    then show ?thesis unfolding mem_TxExec by (intro disjI1) auto
  next
    case False
    then show ?thesis unfolding mem_TxExec
      by (intro disjI2 exI [of _ "ErrDB ''statement failed''"] exI [of _ "Suc (tx_ticks t)"]
          exI [of _ "if tx_state t = TxDone then TxDone else TxAborted"]) auto
  qed
  show "\<exists>r d. pg_Commit (mem_postgres bad) (t, s) = (r, (t\<lparr>tx_state := TxDone\<rparr>, (unlock_rows t s)\<lparr>pg_db := d\<rparr>)) \<and>
      (d = pg_db s \<or> tx_state t = TxOpen \<and> d = tx_pending t (pg_db s))" for t s
    unfolding mem_Commit by (cases "tx_state t = TxOpen") auto
qed ((rule disjI1)?, (rule exI)?, rule mem_postgres_simps)+

lemma mem_postgres_lawful: "postgres_driver (mem_postgres bad)"
  by (rule mem_pg.postgres_driver_axioms)

section \<open>Adding events\<close>

text \<open>The key of the unique index \<open>idx_event\<close> of the event table.\<close>

definition ev_key :: "NFTEvent \<Rightarrow> string list \<times> int \<times> gotime" where
  "ev_key e = ([ev_Type e, ev_Blockchain e, ev_Contract e, ev_TokenID e, ev_From e, ev_To e, ev_TXID e],
     ev_EventIndex e, ev_TXTime e)"

definition archived_as :: "NFTEvent \<Rightarrow> ArchivedNFTEvent \<Rightarrow> bool" where
  "archived_as e a \<longleftrightarrow> ar_Type a = ev_Type e \<and> ar_Blockchain a = ev_Blockchain e \<and>
     ar_Contract a = ev_Contract e \<and> ar_TokenID a = ev_TokenID e \<and> ar_From a = ev_From e \<and>
     ar_To a = ev_To e \<and> ar_TXID a = ev_TXID e \<and> ar_EventIndex a = ev_EventIndex e"

text \<open>\<open>INSERT ... SELECT ... WHERE NOT EXISTS\<close>, with the default id and times of the table.\<close>

definition insert_nft_event :: "string \<Rightarrow> gotime \<Rightarrow> NFTEvent \<Rightarrow> ev_db \<Rightarrow> ev_db res" where
  "insert_nft_event uuid now e d =
     (if \<exists>a\<in>set (tb_archived d). archived_as e a then Inr d
      else if \<exists>x\<in>set (tb_events d). ev_key x = ev_key e then Inl ErrDuplicateKey
      else Inr (d\<lparr>tb_events := tb_events d @ [e\<lparr>ev_ID := uuid, ev_CreatedAt := now, ev_UpdatedAt := now\<rparr>]\<rparr>))"

definition CreateNftEvent :: "postgres \<Rightarrow> string \<Rightarrow> gotime \<Rightarrow> NFTEvent \<Rightarrow> (pg_state, unit) act" where
  "CreateNftEvent P uuid now event =
     bindA (tryA (pg_Exec P (insert_nft_event uuid now event))) (\<lambda>r.
     case r of Inl e \<Rightarrow> if e = ErrDuplicateKey then retA () else throwA e | Inr _ \<Rightarrow> retA ())"

definition same_series_event :: "SeriesRegistryEvent \<Rightarrow> SeriesRegistryEvent \<Rightarrow> bool" where
  "same_series_event e x \<longleftrightarrow> se_Type x = se_Type e \<and> se_Contract x = se_Contract e \<and>
     se_TxID x = se_TxID e \<and> se_EventIndex x = se_EventIndex e"

definition insert_series_event :: "string \<Rightarrow> gotime \<Rightarrow> SeriesRegistryEvent \<Rightarrow> ev_db \<Rightarrow> ev_db res" where
  "insert_series_event uuid now e d =
     (if \<exists>x\<in>set (tb_series d). same_series_event e x then Inr d
      else Inr (d\<lparr>tb_series := tb_series d @ [e\<lparr>se_ID := uuid, se_CreatedAt := now, se_UpdatedAt := now\<rparr>]\<rparr>))"

definition CreateSeriesRegistryEvent ::
    "postgres \<Rightarrow> string \<Rightarrow> gotime \<Rightarrow> SeriesRegistryEvent \<Rightarrow> (pg_state, unit) act" where
  "CreateSeriesRegistryEvent P uuid now event =
     bindA (tryA (pg_Exec P (insert_series_event uuid now event))) (\<lambda>r.
     case r of Inl e \<Rightarrow> if e = ErrDuplicateKey then retA () else throwA e | Inr _ \<Rightarrow> retA ())"

section \<open>Transactions on one event\<close>

definition query_or_abandon :: "(pg_state, 'e \<times> tx) act \<Rightarrow> (pg_state, unit) act \<Rightarrow> (pg_state, 'e \<times> tx) act" where
  "query_or_abandon query abandon =
     bindA (tryA query) (\<lambda>r. case r of Inl e \<Rightarrow> bindA (tryA abandon) (\<lambda>_. throwA e) | Inr v \<Rightarrow> retA v)"

definition rollback_new :: "postgres \<Rightarrow> tx \<Rightarrow> (pg_state, unit) act" where
  "rollback_new P t = (\<lambda>s. case pg_Rollback P (t, s) of (r, (_, s')) \<Rightarrow> (r, s'))"

definition GetNftEventTransaction :: "postgres \<Rightarrow> (NFTEvent \<Rightarrow> bool) \<Rightarrow> (pg_state, NFTEvent \<times> tx) act" where
  "GetNftEventTransaction P filters =
     bindA (pg_Begin P) (\<lambda>t. query_or_abandon (pg_FirstNft P filters t) (rollback_new P t))"

definition GetSeriesRegistryEventTransaction ::
    "postgres \<Rightarrow> (SeriesRegistryEvent \<Rightarrow> bool) \<Rightarrow> (pg_state, SeriesRegistryEvent \<times> tx) act" where
  "GetSeriesRegistryEventTransaction P filters =
     bindA (pg_Begin P) (\<lambda>t. query_or_abandon (pg_FirstSeries P filters t) (rollback_new P t))"

definition update_row :: "gotime \<Rightarrow> string \<Rightarrow> string \<Rightarrow> string \<Rightarrow> ev_db \<Rightarrow> ev_db" where
  "update_row now i stage status d = d\<lparr>tb_events := map (\<lambda>e. if ev_ID e = i
     then e\<lparr>ev_Stage := (if stage \<noteq> [] then stage else ev_Stage e),
            ev_Status := (if status \<noteq> [] then status else ev_Status e), ev_UpdatedAt := now\<rparr>
     else e) (tb_events d)\<rparr>"

definition UpdateNftEvent :: "postgres \<Rightarrow> gotime \<Rightarrow> NFTEvent \<Rightarrow> string \<Rightarrow> string \<Rightarrow> (tx, unit) act" where
  "UpdateNftEvent P now event stage status =
     (if stage = [] \<and> status = [] then throwA (Errorf ''nothing for update to a nft event'')
      else pg_TxExec P (update_row now (ev_ID event) stage status))"

definition archive_of :: "string \<Rightarrow> gotime \<Rightarrow> NFTEvent \<Rightarrow> ArchivedNFTEvent" where
  "archive_of uuid now e = \<lparr>ar_ID = uuid, ar_Type = ev_Type e, ar_Blockchain = ev_Blockchain e,
     ar_Contract = ev_Contract e, ar_TokenID = ev_TokenID e, ar_From = ev_From e, ar_To = ev_To e,
     ar_TXID = ev_TXID e, ar_EventIndex = 0, ar_TXTime = ev_TXTime e, ar_Stage = [],
     ar_Status = StatusProcessed, ar_CreatedAt = ev_CreatedAt e, ar_UpdatedAt = now\<rparr>"

definition save_archive :: "ArchivedNFTEvent \<Rightarrow> ev_db \<Rightarrow> ev_db" where
  "save_archive a d = d\<lparr>tb_archived := tb_archived d @ [a]\<rparr>"

definition delete_row :: "string \<Rightarrow> ev_db \<Rightarrow> ev_db" where
  "delete_row i d = d\<lparr>tb_events := filter (\<lambda>e. ev_ID e \<noteq> i) (tb_events d)\<rparr>"

definition ArchiveNFTEvent :: "postgres \<Rightarrow> string \<Rightarrow> gotime \<Rightarrow> NFTEvent \<Rightarrow> (tx, unit) act" where
  "ArchiveNFTEvent P uuid now event =
     bindA (pg_TxExec P (save_archive (archive_of uuid now event))) (\<lambda>_.
     pg_TxExec P (delete_row (ev_ID event)))"

definition update_series_row :: "gotime \<Rightarrow> string \<Rightarrow> string \<Rightarrow> string \<Rightarrow> ev_db \<Rightarrow> ev_db" where
  "update_series_row now i stage status d = d\<lparr>tb_series := map (\<lambda>e. if se_ID e = i
     then e\<lparr>se_Stage := (if stage \<noteq> [] then stage else se_Stage e),
            se_Status := (if status \<noteq> [] then status else se_Status e), se_UpdatedAt := now\<rparr>
     else e) (tb_series d)\<rparr>"

definition UpdateSeriesRegistryEvent ::
    "postgres \<Rightarrow> gotime \<Rightarrow> SeriesRegistryEvent \<Rightarrow> string \<Rightarrow> string \<Rightarrow> (tx, unit) act" where
  "UpdateSeriesRegistryEvent P now event stage status =
     (if stage = [] \<and> status = [] then throwA (Errorf ''nothing for update to a nft event'')
      else pg_TxExec P (update_series_row now (se_ID event) stage status))"

section \<open>Removing old events\<close>

definition DeleteNftEvents :: "postgres \<Rightarrow> gotime \<Rightarrow> int \<Rightarrow> (pg_state, unit) act" where
  "DeleteNftEvents P now duration =
     pg_Exec P (\<lambda>d. Inr (d\<lparr>tb_archived := filter (\<lambda>a. \<not> ar_CreatedAt a < now - duration) (tb_archived d)\<rparr>))"

definition DeleteSeriesRegistryEvents :: "postgres \<Rightarrow> gotime \<Rightarrow> int \<Rightarrow> (pg_state, unit) act" where
  "DeleteSeriesRegistryEvents P now duration =
     pg_Exec P (\<lambda>d. Inr (d\<lparr>tb_series := filter (\<lambda>e. \<not> se_CreatedAt e < now - duration) (tb_series d)\<rparr>))"

end
