(* ===== verification/Cadence.thy ===== *)
theory Cadence
  imports Utils
begin

text \<open>
  The workflows the services start (\<open>background/worker/helper.go\<close>, \<open>workflow_id.go\<close>) through the client of
  \<open>cadence/worker.go\<close>. The Cadence service is a parameter: an operation that starts a workflow or
  fails. Its state is the list of the workflows it has accepted, the newest last; the interface
  \<open>cadence_service\<close> states that a start is either accepted or leaves the state as it is.
\<close>

section \<open>Workflows\<close>

datatype workflow_call =
    IndexTokenWorkflow string string string bool bool
  | IndexETHTokenWorkflow string bool
  | IndexTezosTokenWorkflow string bool
  | RefreshTokenProvenanceByOwnerWorkflow string
  | RefreshTokenOwnershipWorkflow "string list" int
  | RefreshTokenProvenanceWorkflow "string list" int
  | IndexEthereumTokenSale string bool
  | IndexTezosTokenSaleFromTzktTxID int
  | CrawlHistoricalExchangeRate "string list" int int

datatype reuse_policy = AllowDuplicateFailedOnly | AllowDuplicate | TerminateIfRunning

text \<open>\<open>client.StartWorkflowOptions\<close> and the call; durations in seconds, the retry policy as its first
  interval and its number of attempts (every policy of the code doubles the interval).\<close>

record workflow =
  wf_ID :: string
  wf_TaskList :: string
  wf_ExecutionStartToCloseTimeout :: int
  wf_WorkflowIDReusePolicy :: reuse_policy
  wf_RetryPolicy :: "(int \<times> nat) option"
  wf_CronSchedule :: string
  wf_call :: workflow_call

abbreviation TaskListName :: string where "TaskListName \<equiv> ''nft-indexer''"
abbreviation ProvenanceTaskListName :: string where "ProvenanceTaskListName \<equiv> ''nft-provenance-indexer''"

record cadence_client =
  StartWorkflow :: "workflow \<Rightarrow> (workflow list, unit) act"
  AlreadyStarted :: "goerr \<Rightarrow> bool"

locale cadence_service =
  fixes cw :: cadence_client
  assumes StartWorkflow_law: "StartWorkflow cw w ws = (Inr (), ws @ [w]) \<or>
      (\<exists>e. StartWorkflow cw w ws = (Inl e, ws))"

section \<open>Workflow ids\<close>

definition WorkflowIDIndexTokenProvenanceByIndexID :: "string \<Rightarrow> string \<Rightarrow> string" where
  "WorkflowIDIndexTokenProvenanceByIndexID caller indexID =
     ''index-token-provenance-by-helper-'' @ caller @ ''-'' @ indexID"

definition WorkflowIDIndexTokenOwnershipByIndexID :: "string \<Rightarrow> string \<Rightarrow> string" where
  "WorkflowIDIndexTokenOwnershipByIndexID caller indexID =
     ''index-token-ownership-by-helper-'' @ caller @ ''-'' @ indexID"

definition WorkflowIDIndexTokenByOwner :: "string \<Rightarrow> string \<Rightarrow> string" where
  "WorkflowIDIndexTokenByOwner caller owner = ''index-tokens-by-owner-'' @ caller @ ''-'' @ owner"

definition WorkflowIDRefreshTokenProvenanceByOwner :: "string \<Rightarrow> string \<Rightarrow> string" where
  "WorkflowIDRefreshTokenProvenanceByOwner caller owner =
     ''refresh-tokens-provenance-by-owner-'' @ caller @ ''-'' @ owner"

definition WorkflowIDIndexCollectionsByOwner :: "string \<Rightarrow> string \<Rightarrow> string" where
  "WorkflowIDIndexCollectionsByOwner caller owner = ''index-tokens-collections-by-owner-'' @ caller @ ''-'' @ owner"

section \<open>Starting workflows\<close>

text \<open>An error of the service is only logged by the functions that return nothing.\<close>

definition log_error :: "('s, unit) act \<Rightarrow> ('s, unit) act" where
  "log_error m = bindA (tryA m) (\<lambda>_. retA ())"

definition index_token_workflow :: "string \<Rightarrow> string \<Rightarrow> string \<Rightarrow> bool \<Rightarrow> bool \<Rightarrow> workflow" where
  "index_token_workflow owner contract tokenID indexProvenance indexPreview =
     \<lparr>wf_ID = ''index-single-nft-'' @ contract @ ''-'' @ tokenID, wf_TaskList = TaskListName,
      wf_ExecutionStartToCloseTimeout = 2 * 3600, wf_WorkflowIDReusePolicy = TerminateIfRunning,
      wf_RetryPolicy = None, wf_CronSchedule = [],
      wf_call = IndexTokenWorkflow owner contract tokenID indexProvenance indexPreview\<rparr>"

definition StartIndexTokenWorkflow ::
    "cadence_client \<Rightarrow> string \<Rightarrow> string \<Rightarrow> string \<Rightarrow> bool \<Rightarrow> bool \<Rightarrow> (workflow list, unit) act" where
  "StartIndexTokenWorkflow cw owner contract tokenID indexProvenance indexPreview =
     log_error (StartWorkflow cw (index_token_workflow owner contract tokenID indexProvenance indexPreview))"

definition ExecuteIndexTokenWorkflow ::
    "cadence_client \<Rightarrow> string \<Rightarrow> string \<Rightarrow> string \<Rightarrow> bool \<Rightarrow> bool \<Rightarrow> (workflow list, workflow) act" where
  "ExecuteIndexTokenWorkflow cw owner contract tokenID indexProvenance indexPreview =
     (let w = index_token_workflow owner contract tokenID indexProvenance indexPreview
      in bindA (StartWorkflow cw w) (\<lambda>_. retA w))"

definition StartIndexETHTokenWorkflow :: "cadence_client \<Rightarrow> string \<Rightarrow> string \<Rightarrow> bool \<Rightarrow> (workflow list, unit) act" where
  "StartIndexETHTokenWorkflow cw caller owner includeHistory =
     log_error (StartWorkflow cw
       \<lparr>wf_ID = WorkflowIDIndexTokenByOwner caller owner, wf_TaskList = TaskListName,
        wf_ExecutionStartToCloseTimeout = 3600, wf_WorkflowIDReusePolicy = AllowDuplicate,
        wf_RetryPolicy = None, wf_CronSchedule = [], wf_call = IndexETHTokenWorkflow owner includeHistory\<rparr>)"

definition StartIndexTezosTokenWorkflow :: "cadence_client \<Rightarrow> string \<Rightarrow> string \<Rightarrow> bool \<Rightarrow> (workflow list, unit) act" where
  "StartIndexTezosTokenWorkflow cw caller owner includeHistory =
     log_error (StartWorkflow cw
       \<lparr>wf_ID = WorkflowIDIndexTokenByOwner caller owner, wf_TaskList = TaskListName,
        wf_ExecutionStartToCloseTimeout = 3600, wf_WorkflowIDReusePolicy = AllowDuplicate,
        wf_RetryPolicy = None, wf_CronSchedule = [], wf_call = IndexTezosTokenWorkflow owner includeHistory\<rparr>)"

definition StartRefreshTokenProvenanceByOwnerWorkflow ::
    "cadence_client \<Rightarrow> string \<Rightarrow> string \<Rightarrow> (workflow list, unit) act" where
  "StartRefreshTokenProvenanceByOwnerWorkflow cw caller owner =
     log_error (StartWorkflow cw
       \<lparr>wf_ID = WorkflowIDRefreshTokenProvenanceByOwner caller owner, wf_TaskList = ProvenanceTaskListName,
        wf_ExecutionStartToCloseTimeout = 3600, wf_WorkflowIDReusePolicy = AllowDuplicate,
        wf_RetryPolicy = None, wf_CronSchedule = [], wf_call = RefreshTokenProvenanceByOwnerWorkflow owner\<rparr>)"

definition StartRefreshTokenOwnershipWorkflow ::
    "cadence_client \<Rightarrow> string \<Rightarrow> string \<Rightarrow> int \<Rightarrow> (workflow list, unit) act" where
  "StartRefreshTokenOwnershipWorkflow cw caller indexID delay =
     log_error (StartWorkflow cw
       \<lparr>wf_ID = WorkflowIDIndexTokenOwnershipByIndexID caller indexID, wf_TaskList = ProvenanceTaskListName,
        wf_ExecutionStartToCloseTimeout = 3600, wf_WorkflowIDReusePolicy = AllowDuplicate,
        wf_RetryPolicy = None, wf_CronSchedule = [], wf_call = RefreshTokenOwnershipWorkflow [indexID] delay\<rparr>)"

definition StartRefreshTokenProvenanceWorkflow ::
    "cadence_client \<Rightarrow> string \<Rightarrow> string \<Rightarrow> int \<Rightarrow> (workflow list, unit) act" where
  "StartRefreshTokenProvenanceWorkflow cw caller indexID delay =
     log_error (StartWorkflow cw
       \<lparr>wf_ID = WorkflowIDIndexTokenProvenanceByIndexID caller indexID, wf_TaskList = ProvenanceTaskListName,
        wf_ExecutionStartToCloseTimeout = 3600, wf_WorkflowIDReusePolicy = AllowDuplicate,
        wf_RetryPolicy = Some (10, 10), wf_CronSchedule = [],
        wf_call = RefreshTokenProvenanceWorkflow [indexID] delay\<rparr>)"

definition sale_workflow :: "string \<Rightarrow> workflow_call \<Rightarrow> workflow" where
  "sale_workflow i c =
     \<lparr>wf_ID = i, wf_TaskList = TaskListName, wf_ExecutionStartToCloseTimeout = 1800,
      wf_WorkflowIDReusePolicy = AllowDuplicate, wf_RetryPolicy = Some (15, 5), wf_CronSchedule = [],
      wf_call = c\<rparr>"

definition StartIndexingTokenSale :: "ext \<Rightarrow> cadence_client \<Rightarrow> string \<Rightarrow> string \<Rightarrow> (workflow list, unit) act" where
  "StartIndexingTokenSale X cw blockchain txID =
     (if blockchain = x_EthereumBlockchain X
      then StartWorkflow cw (sale_workflow (''IndexEthereumTokenSale-'' @ txID) (IndexEthereumTokenSale txID True))
      else if blockchain = x_TezosBlockchain X
      then (case parse_uint64 txID of
              None \<Rightarrow> throwA (Errorf ''strconv.ParseUint'')
            | Some tzktTxID \<Rightarrow>
                StartWorkflow cw (sale_workflow (''IndexTezosTokenSaleFromTzktTxID-'' @ txID)
                  (IndexTezosTokenSaleFromTzktTxID tzktTxID)))
      else throwA (Errorf ''unsupported blockchain''))"

definition StartIndexExchangeRateCronWorkflow :: "cadence_client \<Rightarrow> (workflow list, unit) act" where
  "StartIndexExchangeRateCronWorkflow cw =
     bindA (tryA (StartWorkflow cw
       \<lparr>wf_ID = ''index-exchange-rate-cron'', wf_TaskList = TaskListName,
        wf_ExecutionStartToCloseTimeout = 300, wf_WorkflowIDReusePolicy = AllowDuplicateFailedOnly,
        wf_RetryPolicy = None, wf_CronSchedule = ''*/5 * * * *'',
        wf_call = CrawlHistoricalExchangeRate [''ETH-USD'', ''XTZ-USD''] 0 0\<rparr>)) (\<lambda>r.
     case r of Inl e \<Rightarrow> if AlreadyStarted cw e then retA () else throwA e | Inr _ \<Rightarrow> retA ())"

section \<open>A service that accepts every workflow\<close>

definition mem_cadence :: cadence_client where
  "mem_cadence = \<lparr>StartWorkflow = (\<lambda>w ws. (Inr (), ws @ [w])), AlreadyStarted = (\<lambda>_. False)\<rparr>"

interpretation mem_cadence: cadence_service mem_cadence
  by unfold_locales (simp add: mem_cadence_def)

lemma mem_cadence_lawful: "cadence_service mem_cadence"
  by (rule mem_cadence.cadence_service_axioms)

context cadence_service
begin

lemma log_error_StartWorkflow:
  "\<exists>ws'. log_error (StartWorkflow cw w) ws = (Inr (), ws') \<and> (ws' = ws \<or> ws' = ws @ [w])"
  using StartWorkflow_law [of w ws] by (auto simp: log_error_def act_simps)

end

end
