(* ===== verification/EventProcessor.thy ===== *)
theory EventProcessor
  imports EventStore GrpcGateway Cadence
begin

text \<open>
  The NFT events of the event processor (\<open>services/event-processor\<close>): the gRPC handlers and the queue that
  store an event (\<open>grpc.go\<close>, \<open>queue.go\<close>), the worker loop (\<open>server.go\<close>), the processors of its stages
  (\<open>token_event_processor.go\<close>, \<open>token_update.go\<close>).
\<close>

section \<open>The processor and its surroundings\<close>

record world =
  w_pg :: pg_state
  w_gw :: gateway_state
  w_flows :: "workflow list"

definition on_pg :: "(pg_state, 'a) act \<Rightarrow> (world, 'a) act" where
  "on_pg m = zoomA w_pg (\<lambda>t s. s\<lparr>w_pg := t\<rparr>) m"

definition on_gw :: "(gateway_state, 'a) act \<Rightarrow> (world, 'a) act" where
  "on_gw m = zoomA w_gw (\<lambda>t s. s\<lparr>w_gw := t\<rparr>) m"

definition on_flows :: "(workflow list, 'a) act \<Rightarrow> (world, 'a) act" where
  "on_flows m = zoomA w_flows (\<lambda>t s. s\<lparr>w_flows := t\<rparr>) m"

lemma on_world_run [act_simps]:
  "on_pg m s = (case m (w_pg s) of (r, t) \<Rightarrow> (r, s\<lparr>w_pg := t\<rparr>))"
  "on_gw m2 s = (case m2 (w_gw s) of (r, t) \<Rightarrow> (r, s\<lparr>w_gw := t\<rparr>))"
  "on_flows m3 s = (case m3 (w_flows s) of (r, t) \<Rightarrow> (r, s\<lparr>w_flows := t\<rparr>))"
  by (simp_all add: on_pg_def on_gw_def on_flows_def zoomA_run)

text \<open>The binding of the series registry contract: one call per method the processor uses.\<close>

record series_contract =
  GetSeriesMetadataURI :: "int \<Rightarrow> string res"
  GetSeriesTokenDataURI :: "int \<Rightarrow> string res"
  GetSeriesArtistAddresses :: "int \<Rightarrow> string list res"

text \<open>
  The fields of \<open>EventProcessor\<close> the processors use, the packages of the parameters, and the time of the
  step. \<open>ep_unmarshal_metadata\<close> and \<open>ep_unmarshal_registry\<close> are \<open>json.Unmarshal\<close> into the two structs.
  \<open>ep_WorkflowGet\<close> waits for a workflow, which changes the state meanwhile, and fails when it has failed.
\<close>

record processor =
  ep_environment :: string
  ep_ipfsGateways :: "string list"
  ep_postgres :: postgres
  ep_grpcGateway :: stub
  ep_worker :: cadence_client
  ep_indexerStore :: store
  ep_contract :: "series_contract res"
  ep_http_get :: "string \<Rightarrow> http_response res"
  ep_ext :: ext
  ep_codec :: codec
  ep_unmarshal_metadata :: "string \<Rightarrow> SeriesMetadata res"
  ep_unmarshal_registry :: "string \<Rightarrow> TokenRegistry res"
  ep_WorkflowGet :: "workflow \<Rightarrow> (world, unit) act"
  ep_now :: gotime

section \<open>Receiving events\<close>

text \<open>The messages; a missing timestamp reads as the epoch.\<close>

record NftEventInput =
  ni_Type :: string
  ni_Blockchain :: string
  ni_Contract :: string
  ni_TokenID :: string
  ni_From :: string
  ni_To :: string
  ni_TXID :: string
  ni_EventIndex :: int
  ni_TXTime :: "pb_Timestamp option"

record SeriesRegistryEventInput =
  si_Type :: string
  si_Contract :: string
  si_Data :: "pb_Struct option"
  si_TxID :: string
  si_EventIndex :: int
  si_TxTime :: "pb_Timestamp option"

definition Queue_PushNftEvent :: "postgres \<Rightarrow> string \<Rightarrow> gotime \<Rightarrow> NFTEvent \<Rightarrow> (pg_state, unit) act" where
  "Queue_PushNftEvent P uuid now event = CreateNftEvent P uuid now event"

definition Queue_PushSeriesRegistryEvent ::
    "postgres \<Rightarrow> string \<Rightarrow> gotime \<Rightarrow> SeriesRegistryEvent \<Rightarrow> (pg_state, unit) act" where
  "Queue_PushSeriesRegistryEvent P uuid now event = CreateSeriesRegistryEvent P uuid now event"

definition nft_event_of :: "codec \<Rightarrow> NftEventInput \<Rightarrow> NFTEvent" where
  "nft_event_of C i = \<lparr>ev_ID = [], ev_Type = ni_Type i, ev_Blockchain = ni_Blockchain i,
     ev_Contract = ni_Contract i, ev_TokenID = ni_TokenID i, ev_From = ni_From i, ev_To = ni_To i,
     ev_TXID = ni_TXID i, ev_EventIndex = ni_EventIndex i, ev_TXTime = timestamppb_AsTime C (ni_TXTime i),
     ev_Stage = NftEventStages StageInit, ev_Status = StatusCreated, ev_CreatedAt = 0, ev_UpdatedAt = 0\<rparr>"

definition PushNftEvent :: "codec \<Rightarrow> postgres \<Rightarrow> string \<Rightarrow> gotime \<Rightarrow> NftEventInput \<Rightarrow> (pg_state, string \<times> int) act" where
  "PushNftEvent C P uuid now i =
     bindA (Queue_PushNftEvent P uuid now (nft_event_of C i)) (\<lambda>_. retA (''successfully'', 200))"

definition PushSeriesRegistryEvent ::
    "codec \<Rightarrow> postgres \<Rightarrow> string \<Rightarrow> gotime \<Rightarrow> SeriesRegistryEventInput \<Rightarrow> (pg_state, string \<times> int) act" where
  "PushSeriesRegistryEvent C P uuid now i =
     bindA (case si_Data i of
              None \<Rightarrow> retA []
            | Some d \<Rightarrow> liftR (MapToJson C (structpb_AsMap C (Some d)))) (\<lambda>data.
     bindA (Queue_PushSeriesRegistryEvent P uuid now
       \<lparr>se_ID = [], se_Type = si_Type i, se_Contract = si_Contract i, se_TxID = si_TxID i,
        se_EventIndex = si_EventIndex i, se_TxTime = timestamppb_AsTime C (si_TxTime i), se_Data = data,
        se_Stage = SeriesEventStages StageInit, se_Status = StatusCreated, se_CreatedAt = 0,
        se_UpdatedAt = 0\<rparr>) (\<lambda>_. retA (''successfully'', 200)))"

section \<open>The processors of the stages\<close>

text \<open>The token of an event, nil when the gateway says that there is none.\<close>

definition lookup_token :: "processor \<Rightarrow> string \<Rightarrow> (world, Token option) act" where
  "lookup_token e indexID =
     bindA (tryA (on_gw (Client_GetTokenByIndexID (ep_grpcGateway e) indexID))) (\<lambda>r.
     case r of
       Inl err \<Rightarrow> if err \<noteq> Errorf ''token does not exist'' then throwA err else retA None
     | Inr token \<Rightarrow> retA (Some token))"

definition event_index_id :: "processor \<Rightarrow> NFTEvent \<Rightarrow> string" where
  "event_index_id e event = TokenIndexID (ep_ext e) (ev_Blockchain event) (ev_Contract event) (ev_TokenID event)"

definition event_provenance :: "processor \<Rightarrow> NFTEvent \<Rightarrow> Provenance" where
  "event_provenance e event =
     \<lparr>prov_FormerOwner = Some (ev_From event), prov_Type = ev_Type event, prov_Owner = ev_To event,
      prov_Blockchain = ev_Blockchain event, prov_BlockNumber = None, prov_Timestamp = ev_TXTime event,
      prov_TxID = ev_TXID event,
      prov_TxURL = TxURL (ep_ext e) (ev_Blockchain event) (ep_environment e) (ev_TXID event)\<rparr>"

definition event_account_token :: "processor \<Rightarrow> NFTEvent \<Rightarrow> Token \<Rightarrow> AccountToken" where
  "event_account_token e event token =
     \<lparr>at_Base = tok_Base token, at_IndexID = event_index_id e event, at_OwnerAccount = ev_To event,
      at_Balance = 1, at_LastActivityTime = ev_CreatedAt event, at_LastRefreshedTime = ep_now e,
      at_LastPendingTime = [], at_PendingTxs = []\<rparr>"

definition updateLatestOwner :: "processor \<Rightarrow> NFTEvent \<Rightarrow> (world, unit) act" where
  "updateLatestOwner e event =
     (let indexID = event_index_id e event; gw = ep_grpcGateway e
      in if ev_Type event = NftEventTypeTransfer
         then bindA (lookup_token e indexID) (\<lambda>token.
           case token of
             None \<Rightarrow> retA ()
           | Some t \<Rightarrow>
               if \<not> tok_Fungible t
               then bindA (tryA (on_gw (Client_PushProvenance gw indexID (tok_LastRefreshedTime t)
                              (event_provenance e event)))) (\<lambda>pushed.
                    bindA (case pushed of
                             Inl _ \<Rightarrow> on_gw (Client_UpdateOwner gw indexID (ev_To event) (ev_CreatedAt event))
                           | Inr _ \<Rightarrow> retA ()) (\<lambda>_.
                    on_gw (Client_IndexAccountTokens gw (ev_To event) [event_account_token e event t])))
               else retA ())
         else retA ())"

definition updateOwnerAndProvenance :: "processor \<Rightarrow> NFTEvent \<Rightarrow> (world, unit) act" where
  "updateOwnerAndProvenance e event =
     (let indexID = event_index_id e event
      in bindA (lookup_token e indexID) (\<lambda>token.
         case token of
           None \<Rightarrow> retA ()
         | Some t \<Rightarrow>
             if tok_Fungible t
             then on_flows (StartRefreshTokenOwnershipWorkflow (ep_worker e) ''processor'' indexID 0)
             else bindA (log_error (on_gw (Client_UpdateOwner (ep_grpcGateway e) indexID (ev_To event) (ev_CreatedAt event)))) (\<lambda>_.
                  on_flows (StartRefreshTokenProvenanceWorkflow (ep_worker e) ''processor'' indexID 0))))"

abbreviation TezosOBJKTMarketplaceAddress :: string where
  "TezosOBJKTMarketplaceAddress \<equiv> ''KT1FvqJwEDWb1Gwc55Jd1jjTHRVWbYKUUpyq''"
abbreviation TezosOBJKTMarketplaceAddressV2 :: string where
  "TezosOBJKTMarketplaceAddressV2 \<equiv> ''KT1WvzYHCNBvDSdwafTHv7nJ1dWmZ8GCYuuC''"

definition indexTokenSale :: "processor \<Rightarrow> NFTEvent \<Rightarrow> (world, unit) act" where
  "indexTokenSale e event =
     (if ev_Type event \<noteq> ''transfer'' then retA ()
      else if ev_Blockchain event = x_TezosBlockchain (ep_ext e) \<and>
              ev_Contract event \<noteq> TezosOBJKTMarketplaceAddress \<and>
              ev_Contract event \<noteq> TezosOBJKTMarketplaceAddressV2 then retA ()
      else log_error (on_flows (StartIndexingTokenSale (ep_ext e) (ep_worker e) (ev_Blockchain event) (ev_TXID event))))"

definition refreshTokenData :: "processor \<Rightarrow> NFTEvent \<Rightarrow> (world, unit) act" where
  "refreshTokenData e event =
     bindA (lookup_token e (event_index_id e event)) (\<lambda>token.
     case token of
       None \<Rightarrow> retA ()
     | Some _ \<Rightarrow> on_flows (StartIndexTokenWorkflow (ep_worker e) (ev_To event) (ev_Contract event)
                            (ev_TokenID event) True False))"

section \<open>The worker loop\<close>

record nft_worker =
  nw_currentStage :: Stage
  nw_nextStage :: Stage
  nw_types :: "string list"
  nw_deferSecond :: int

text \<open>The filters of one round; a clock time is in milliseconds.\<close>

definition nft_filters :: "nft_worker \<Rightarrow> gotime \<Rightarrow> NFTEvent \<Rightarrow> bool" where
  "nft_filters w now ev \<longleftrightarrow> ev_Type ev \<in> set (nw_types w) \<and>
     ev_Status ev \<in> {StatusCreated, StatusProcessing} \<and>
     ev_Stage ev = NftEventStages (nw_currentStage w) \<and>
     (nw_deferSecond w > 0 \<longrightarrow> ev_CreatedAt ev < now - nw_deferSecond w * 1000)"

definition on_tx :: "(tx, 'a) act \<Rightarrow> (txs, 'a) act" where
  "on_tx m = zoomA fst (\<lambda>t s. (t, snd s)) m"

text \<open>An error of a statement is logged and the transaction rolled back; the loop goes on.\<close>

definition or_rollback :: "postgres \<Rightarrow> (tx, unit) act \<Rightarrow> (txs, unit) act" where
  "or_rollback P m =
     bindA (tryA (on_tx m)) (\<lambda>r. case r of Inl _ \<Rightarrow> log_error (pg_Rollback P) | Inr _ \<Rightarrow> retA ())"

text \<open>What the loop does with the transaction when the processor has returned \<open>outcome\<close>.\<close>

definition finish_nft_event ::
    "postgres \<Rightarrow> string \<Rightarrow> gotime \<Rightarrow> NFTEvent \<Rightarrow> Stage \<Rightarrow> unit res \<Rightarrow> (txs, unit) act" where
  "finish_nft_event P uuid now event nextStage outcome =
     bindA (case outcome of
              Inl _ \<Rightarrow> or_rollback P (UpdateNftEvent P now event [] StatusFailed)
            | Inr _ \<Rightarrow> retA ()) (\<lambda>_.
     bindA (if nextStage = StageDone then or_rollback P (ArchiveNFTEvent P uuid now event)
            else or_rollback P (UpdateNftEvent P now event (NftEventStages nextStage) [])) (\<lambda>_.
     log_error (pg_Commit P)))"

definition run_tx :: "(txs, unit) act \<Rightarrow> tx \<Rightarrow> (pg_state, unit) act" where
  "run_tx m t = (\<lambda>s. case m (t, s) of (r, (_, s')) \<Rightarrow> (r, s'))"

text \<open>One round of a worker; \<open>False\<close> when there was no event and the worker sleeps.\<close>

definition nft_worker_round ::
    "processor \<Rightarrow> string \<Rightarrow> nft_worker \<Rightarrow> (processor \<Rightarrow> NFTEvent \<Rightarrow> (world, unit) act) \<Rightarrow> (world, bool) act" where
  "nft_worker_round e uuid w handler =
     bindA (tryA (on_pg (GetNftEventTransaction (ep_postgres e) (nft_filters w (ep_now e))))) (\<lambda>r.
     case r of
       Inl _ \<Rightarrow> retA False
     | Inr (event, t) \<Rightarrow>
         bindA (tryA (handler e event)) (\<lambda>outcome.
         bindA (on_pg (run_tx (finish_nft_event (ep_postgres e) uuid (ep_now e) event (nw_nextStage w) outcome) t)) (\<lambda>_.
         retA True)))"

section \<open>The workers of the processor\<close>

definition UpdateLatestOwner_worker :: nft_worker where
  "UpdateLatestOwner_worker = \<lparr>nw_currentStage = StageInit, nw_nextStage = StageFullSync,
     nw_types = [NftEventTypeTransfer, NftEventTypeMint, NftEventTypeBurned], nw_deferSecond = 0\<rparr>"

definition UpdateOwnerAndProvenance_worker :: nft_worker where
  "UpdateOwnerAndProvenance_worker = \<lparr>nw_currentStage = StageFullSync, nw_nextStage = StageTokenSaleIndexing,
     nw_types = [NftEventTypeTransfer, NftEventTypeMint], nw_deferSecond = 0\<rparr>"

definition UpdateOwnerAndProvenanceForBurnedToken_worker :: nft_worker where
  "UpdateOwnerAndProvenanceForBurnedToken_worker = \<lparr>nw_currentStage = StageFullSync, nw_nextStage = StageDone,
     nw_types = [NftEventTypeBurned], nw_deferSecond = 0\<rparr>"

definition IndexTokenSale_worker :: nft_worker where
  "IndexTokenSale_worker = \<lparr>nw_currentStage = StageTokenSaleIndexing, nw_nextStage = StageDone,
     nw_types = [NftEventTypeTransfer], nw_deferSecond = 0\<rparr>"

text \<open>The delay of a token update is a setting.\<close>

definition RefreshTokenData_worker :: "int \<Rightarrow> nft_worker" where
  "RefreshTokenData_worker delay = \<lparr>nw_currentStage = StageInit, nw_nextStage = StageDoubleSync,
     nw_types = [NftEventTypeTokenUpdated], nw_deferSecond = delay\<rparr>"

definition DoubleSyncTokenData_worker :: nft_worker where
  "DoubleSyncTokenData_worker = \<lparr>nw_currentStage = StageDoubleSync, nw_nextStage = StageDone,
     nw_types = [NftEventTypeTokenUpdated], nw_deferSecond = 60\<rparr>"

definition nft_workers :: "int \<Rightarrow> (nft_worker \<times> (processor \<Rightarrow> NFTEvent \<Rightarrow> (world, unit) act)) list" where
  "nft_workers delay =
     [(RefreshTokenData_worker delay, refreshTokenData), (DoubleSyncTokenData_worker, refreshTokenData),
      (UpdateLatestOwner_worker, updateLatestOwner), (UpdateOwnerAndProvenance_worker, updateOwnerAndProvenance),
      (UpdateOwnerAndProvenanceForBurnedToken_worker, updateOwnerAndProvenance),
      (IndexTokenSale_worker, indexTokenSale)]"

text \<open>The daily cron job; its two errors are logged.\<close>

definition prune_events :: "postgres \<Rightarrow> gotime \<Rightarrow> int \<Rightarrow> (pg_state, unit) act" where
  "prune_events P now eventExpiryDuration =
     bindA (log_error (DeleteNftEvents P now eventExpiryDuration)) (\<lambda>_.
     log_error (DeleteSeriesRegistryEvents P now eventExpiryDuration))"

end
