(* ===== verification/EventSteps.thy ===== *)
theory EventSteps
  imports EventProcessor
begin

text \<open>
  What the workers of the event processor do to the store: one round either writes everything it
  means to write or nothing, the step relation \<open>ev_step\<close> of the concurrent workers with its
  invariant, and what becomes of an event.
\<close>

section \<open>The end of a round is atomic\<close>

text \<open>An action that adds the write \<open>g\<close> to an open transaction, or fails and leaves it not open.\<close>

definition tx_writes :: "(tx, unit) act \<Rightarrow> (ev_db \<Rightarrow> ev_db) \<Rightarrow> bool" where
  "tx_writes m g \<longleftrightarrow> (\<forall>t.
     (tx_state t = TxOpen \<and> (\<exists>n. m t = (Inr (), t\<lparr>tx_pending := g \<circ> tx_pending t, tx_ticks := n\<rparr>))) \<or>
     (\<exists>e n z p. z \<noteq> TxOpen \<and> m t = (Inl e, t\<lparr>tx_state := z, tx_pending := p, tx_ticks := n\<rparr>)))"

lemma tx_writesE:
  assumes "tx_writes m g"
  obtains n where "tx_state t = TxOpen" "m t = (Inr (), t\<lparr>tx_pending := g \<circ> tx_pending t, tx_ticks := n\<rparr>)"
  | e n z p where "z \<noteq> TxOpen" "m t = (Inl e, t\<lparr>tx_state := z, tx_pending := p, tx_ticks := n\<rparr>)"
  using assms unfolding tx_writes_def by blast

lemma tx_writes_bind:
  assumes m: "tx_writes m g" and k: "tx_writes k h"
  shows "tx_writes (bindA m (\<lambda>_. k)) (h \<circ> g)"
  unfolding tx_writes_def
proof
  fix t
  show "(tx_state t = TxOpen \<and> (\<exists>n. bindA m (\<lambda>_. k) t = (Inr (), t\<lparr>tx_pending := (h \<circ> g) \<circ> tx_pending t, tx_ticks := n\<rparr>))) \<or>
     (\<exists>e n z p. z \<noteq> TxOpen \<and> bindA m (\<lambda>_. k) t = (Inl e, t\<lparr>tx_state := z, tx_pending := p, tx_ticks := n\<rparr>))"
  proof (cases rule: tx_writesE [OF m, of t])
    case (1 n)
    show ?thesis
    proof (cases rule: tx_writesE [OF k, of "t\<lparr>tx_pending := g \<circ> tx_pending t, tx_ticks := n\<rparr>"])
      case (1 j)
      with \<open>m t = _\<close> \<open>tx_state t = TxOpen\<close> show ?thesis by (auto simp: act_simps comp_assoc)
    next
      case (2 e j z p)
      with \<open>m t = _\<close> show ?thesis by (auto simp: act_simps)
    qed
  next
    case (2 e n z p)
    then show ?thesis by (auto simp: act_simps)
  qed
qed

text \<open>A transaction and a server, after writes that all went well or after a rollback.\<close>

definition tx_done :: "tx \<Rightarrow> pg_state \<Rightarrow> txs \<Rightarrow> bool" where
  "tx_done t s u \<longleftrightarrow> tx_state (fst u) = TxDone \<and> tx_locks (fst u) = tx_locks t \<and> snd u = unlock_rows t s"

lemma unlock_rows_again [simp]:
  "unlock_rows t (unlock_rows t s) = unlock_rows t s" "pg_db (unlock_rows t s) = pg_db s"
  by (simp_all add: unlock_rows_def)

lemma unlock_rows_locks: "tx_locks t' = tx_locks t \<Longrightarrow> unlock_rows t' s = unlock_rows t s"
  by (simp add: unlock_rows_def)

context postgres_driver
begin

lemma tx_writes_exec: "tx_writes (pg_TxExec P g) g"
  unfolding tx_writes_def
proof
  fix t
  show "(tx_state t = TxOpen \<and> (\<exists>n. pg_TxExec P g t = (Inr (), t\<lparr>tx_pending := g \<circ> tx_pending t, tx_ticks := n\<rparr>))) \<or>
     (\<exists>e n z p. z \<noteq> TxOpen \<and> pg_TxExec P g t = (Inl e, t\<lparr>tx_state := z, tx_pending := p, tx_ticks := n\<rparr>))"
    using TxExec_law [of t g]
  proof (elim disjE exE conjE)
    fix e n z assume "z \<noteq> TxOpen" "pg_TxExec P g t = (Inl e, t\<lparr>tx_state := z, tx_ticks := n\<rparr>)"
    then have "z \<noteq> TxOpen \<and> pg_TxExec P g t = (Inl e, t\<lparr>tx_state := z, tx_pending := tx_pending t, tx_ticks := n\<rparr>)"
      by simp
    then show ?thesis by blast
  qed blast
qed

lemma tx_writes_update:
  "\<not> (stage = [] \<and> status = []) \<Longrightarrow> tx_writes (UpdateNftEvent P now ev stage status) (update_row now (ev_ID ev) stage status)"
  by (auto simp: UpdateNftEvent_def tx_writes_exec)

lemma tx_writes_archive:
  "tx_writes (ArchiveNFTEvent P uuid now ev) (delete_row (ev_ID ev) \<circ> save_archive (archive_of uuid now ev))"
  unfolding ArchiveNFTEvent_def by (intro tx_writes_bind tx_writes_exec)

lemma rollback_done:
  assumes "tx_locks t' = tx_locks t" and "s' = s \<or> s' = unlock_rows t s"
  shows "\<exists>u. log_error (pg_Rollback P) (t', s') = (Inr (), u) \<and> tx_done t s u"
proof -
  obtain r where "pg_Rollback P (t', s') = (r, (t'\<lparr>tx_state := TxDone\<rparr>, unlock_rows t' s'))"
    using Rollback_law by blast
  moreover have "unlock_rows t' s' = unlock_rows t s"
    using assms(2) by (auto simp: unlock_rows_locks [OF assms(1)])
  ultimately show ?thesis using assms(1) by (auto simp: log_error_def act_simps tx_done_def)
qed

lemma or_rollback_writes:
  assumes "tx_writes m g" and "tx_state t = TxOpen"
  shows "(\<exists>n. or_rollback P m (t, s) = (Inr (), (t\<lparr>tx_pending := g \<circ> tx_pending t, tx_ticks := n\<rparr>, s))) \<or>
    (\<exists>u. or_rollback P m (t, s) = (Inr (), u) \<and> tx_done t s u)"
proof (cases rule: tx_writesE [OF assms(1), of t])
  case (1 n)
  then show ?thesis by (auto simp: or_rollback_def on_tx_def act_simps)
next
  case (2 e n z p)
  then have "or_rollback P m (t, s) = log_error (pg_Rollback P) (t\<lparr>tx_state := z, tx_pending := p, tx_ticks := n\<rparr>, s)"
    by (simp add: or_rollback_def on_tx_def act_simps)
  moreover have "\<exists>u. log_error (pg_Rollback P) (t\<lparr>tx_state := z, tx_pending := p, tx_ticks := n\<rparr>, s) = (Inr (), u) \<and> tx_done t s u"
    by (rule rollback_done) simp_all
  ultimately show ?thesis by auto
qed

lemma or_rollback_done:
  assumes "tx_writes m g" and "tx_done t s u"
  shows "\<exists>u'. or_rollback P m u = (Inr (), u') \<and> tx_done t s u'"
proof -
  obtain t' where u: "u = (t', unlock_rows t s)" and t': "tx_state t' = TxDone" "tx_locks t' = tx_locks t"
    using assms(2) by (cases u) (auto simp: tx_done_def)
  show ?thesis
  proof (cases rule: tx_writesE [OF assms(1), of t'])
    case (2 e k z q)
    then have "or_rollback P m u = log_error (pg_Rollback P) (t'\<lparr>tx_state := z, tx_pending := q, tx_ticks := k\<rparr>, unlock_rows t s)"
      by (simp add: u or_rollback_def on_tx_def act_simps)
    moreover have "\<exists>v. log_error (pg_Rollback P) (t'\<lparr>tx_state := z, tx_pending := q, tx_ticks := k\<rparr>, unlock_rows t s) = (Inr (), v) \<and> tx_done t s v"
      by (rule rollback_done) (simp_all add: t')
    ultimately show ?thesis by auto
  qed (simp add: t')
qed

lemma commit_done:
  assumes "tx_done t s u"
  shows "\<exists>t'. log_error (pg_Commit P) u = (Inr (), (t', unlock_rows t s))"
proof -
  obtain t' where u: "u = (t', unlock_rows t s)" and t': "tx_state t' = TxDone" "tx_locks t' = tx_locks t"
    using assms by (cases u) (auto simp: tx_done_def)
  have "unlock_rows t' (unlock_rows t s) = unlock_rows t s"
    by (simp add: unlock_rows_locks [OF t'(2)])
  then show ?thesis
    using Commit_law [of t' "unlock_rows t s"] by (auto simp: u t' log_error_def act_simps)
qed

end

text \<open>The change a round means to make to the tables.\<close>

definition round_effect :: "string \<Rightarrow> gotime \<Rightarrow> NFTEvent \<Rightarrow> Stage \<Rightarrow> unit res \<Rightarrow> ev_db \<Rightarrow> ev_db" where
  "round_effect uuid now ev nextStage outcome =
     (if nextStage = StageDone then delete_row (ev_ID ev) \<circ> save_archive (archive_of uuid now ev)
      else update_row now (ev_ID ev) (NftEventStages nextStage) []) \<circ>
     (case outcome of Inl _ \<Rightarrow> update_row now (ev_ID ev) [] StatusFailed | Inr _ \<Rightarrow> id)"

context postgres_driver
begin

lemma finish_nft_event_effect:
  assumes "tx_state t = TxOpen" and "tx_pending t = id"
  shows "\<exists>d. run_tx (finish_nft_event P uuid now ev nextStage outcome) t s =
      (Inr (), (unlock_rows t s)\<lparr>pg_db := d\<rparr>) \<and>
    (d = pg_db s \<or> d = round_effect uuid now ev nextStage outcome (pg_db s))"
proof -
  define second where "second =
    (if nextStage = StageDone then ArchiveNFTEvent P uuid now ev else UpdateNftEvent P now ev (NftEventStages nextStage) [])"
  define g where "g = (if nextStage = StageDone then delete_row (ev_ID ev) \<circ> save_archive (archive_of uuid now ev)
      else update_row now (ev_ID ev) (NftEventStages nextStage) [])"
  define f where "f = (case outcome of Inl _ \<Rightarrow> update_row now (ev_ID ev) [] StatusFailed | Inr _ \<Rightarrow> id)"
  have second: "tx_writes second g"
  proof (cases nextStage)
  qed (auto simp: second_def g_def tx_writes_archive intro: tx_writes_update)
  have fin: "finish_nft_event P uuid now ev nextStage outcome = bindA (case outcome of
       Inl _ \<Rightarrow> or_rollback P (UpdateNftEvent P now ev [] StatusFailed) | Inr _ \<Rightarrow> retA ())
     (\<lambda>_. bindA (or_rollback P second) (\<lambda>_. log_error (pg_Commit P)))"
    by (simp add: finish_nft_event_def second_def if_distrib)
  let ?first = "case outcome of Inl _ \<Rightarrow> or_rollback P (UpdateNftEvent P now ev [] StatusFailed) | Inr _ \<Rightarrow> retA ()"
  have eff: "round_effect uuid now ev nextStage outcome = g \<circ> f"
    by (simp add: round_effect_def g_def f_def)
  have rest: "\<exists>t'. bindA (or_rollback P second) (\<lambda>_. log_error (pg_Commit P)) u = (Inr (), (t', unlock_rows t s))"
    if "tx_done t s u" for u
    using or_rollback_done [OF second that] commit_done by (fastforce simp: act_simps)
  have first: "(\<exists>n. ?first (t, s) = (Inr (), (t\<lparr>tx_pending := f, tx_ticks := n\<rparr>, s))) \<or>
      (\<exists>u. ?first (t, s) = (Inr (), u) \<and> tx_done t s u)"
  proof (cases outcome)
    case (Inl e)
    then show ?thesis
      using or_rollback_writes [OF tx_writes_update assms(1), of "[]" StatusFailed now ev s] by (simp add: f_def assms(2))
  next
    case (Inr a)
    have "t\<lparr>tx_pending := id, tx_ticks := tx_ticks t\<rparr> = t" by (simp flip: assms(2))
    with Inr have "?first (t, s) = (Inr (), (t\<lparr>tx_pending := f, tx_ticks := tx_ticks t\<rparr>, s))"
      by (simp add: f_def act_simps)
    then show ?thesis by blast
  qed
  from first show ?thesis
  proof (elim disjE exE conjE)
    fix u assume "?first (t, s) = (Inr (), u)" "tx_done t s u"
    with rest [of u] show ?thesis
      by (auto simp: fin run_tx_def bindA_run [of ?first] intro!: exI [of _ "pg_db s"])
  next
    fix n assume one: "?first (t, s) = (Inr (), (t\<lparr>tx_pending := f, tx_ticks := n\<rparr>, s))"
    let ?t = "t\<lparr>tx_pending := f, tx_ticks := n\<rparr>"
    have "tx_state ?t = TxOpen" using assms(1) by simp
    from or_rollback_writes [OF second this, of s] show ?thesis
    proof (elim disjE exE conjE)
      fix k assume two: "or_rollback P second (?t, s) = (Inr (), (?t\<lparr>tx_pending := g \<circ> tx_pending ?t, tx_ticks := k\<rparr>, s))"
      let ?u = "?t\<lparr>tx_pending := g \<circ> tx_pending ?t, tx_ticks := k\<rparr>"
      obtain r d where c: "pg_Commit P (?u, s) = (r, (?u\<lparr>tx_state := TxDone\<rparr>, (unlock_rows ?u s)\<lparr>pg_db := d\<rparr>))"
        and d: "d = pg_db s \<or> d = tx_pending ?u (pg_db s)" using Commit_law [of ?u s] by blast
      have "unlock_rows ?u s = unlock_rows t s" by (simp add: unlock_rows_def)
      with c d one two show ?thesis
        by (auto simp: fin run_tx_def act_simps log_error_def eff)
    next
      fix u assume "or_rollback P second (?t, s) = (Inr (), u)" "tx_done ?t s u"
      with commit_done [of ?t s u] one show ?thesis
        by (auto simp: fin run_tx_def act_simps intro!: exI [of _ "pg_db s"]) (simp add: unlock_rows_def)
    qed
  qed
qed

end

end
