(* ===== verification/EventLife.thy ===== *)
theory EventLife
  imports EventSteps
begin

text \<open>
  The life of an NFT event: the step relation of the event store and its concurrent workers,
  the invariant of its reachable states, and what becomes of an event in it. A step of a worker
  is either the opening of a transaction on an event or the end of its round, with any outcome of the
  processor in between.
\<close>

section \<open>Opening a transaction\<close>

context postgres_driver
begin

lemma GetNftEventTransaction_cases:
  obtains (none) e where "GetNftEventTransaction P q s = (Inl e, s)"
  | (row) ev rows n where "nft_rows q s = ev # rows"
      "GetNftEventTransaction P q s = (Inr (ev, \<lparr>tx_state = TxOpen, tx_locks = [ev_ID ev], tx_pending = id, tx_ticks = n\<rparr>),
         lock_row (ev_ID ev) s)"
proof -
  from Begin_law [of s] consider (err) e where "pg_Begin P s = (Inl e, s)"
    | (began) n where "pg_Begin P s = (Inr \<lparr>tx_state = TxOpen, tx_locks = [], tx_pending = id, tx_ticks = n\<rparr>, s)" by blast
  then show thesis
  proof cases
    case err
    then show thesis by (intro none [of e]) (simp add: GetNftEventTransaction_def act_simps)
  next
    case (began n)
    let ?t = "\<lparr>tx_state = TxOpen, tx_locks = [], tx_pending = id, tx_ticks = n\<rparr> :: tx"
    obtain r where roll: "pg_Rollback P (?t, s) = (r, (?t\<lparr>tx_state := TxDone\<rparr>, unlock_rows ?t s))"
      using Rollback_law by blast
    have same: "unlock_rows ?t s = s" by (simp add: unlock_rows_def)
    have failed: "GetNftEventTransaction P q s = (Inl e, s)" if "pg_FirstNft P q ?t s = (Inl e, s)" for e
      using began that roll same
      by (simp add: GetNftEventTransaction_def query_or_abandon_def rollback_new_def act_simps)
    have "tx_state ?t = TxOpen" by simp
    from FirstNft_law [OF this, of q s] consider (first) k where "pg_FirstNft P q ?t s = first_row ev_ID (nft_rows q s) ?t k s"
      | (err) e where "pg_FirstNft P q ?t s = (Inl e, s)" by blast
    then show thesis
    proof cases
      case first
      show thesis
      proof (cases "nft_rows q s")
        case Nil
        with first failed none show thesis by (simp add: first_row_def)
      next
        case (Cons ev rows)
        with first began show thesis
          by (intro row [of ev rows k]) (simp_all add: GetNftEventTransaction_def query_or_abandon_def first_row_def act_simps)
      qed
    qed (use failed none in blast)
  qed
qed

end

lemma nft_rows_mem: "nft_rows q s = ev # rows \<Longrightarrow> ev \<in> set (tb_events (pg_db s)) \<and> q ev \<and> ev_ID ev \<notin> set (pg_locked s)"
proof -
  assume "nft_rows q s = ev # rows"
  then have "ev \<in> set (nft_rows q s)" by simp
  then show ?thesis by (simp add: nft_rows_def)
qed

section \<open>The step relation\<close>

record sys =
  sy_pg :: pg_state
  sy_busy :: "nat \<Rightarrow> (NFTEvent \<times> tx) option"

definition worker_of :: "int \<Rightarrow> nat \<Rightarrow> nft_worker" where
  "worker_of delay k = fst (nft_workers delay ! k)"

definition event_ids :: "sys \<Rightarrow> string set" where
  "event_ids s = ev_ID ` set (tb_events (pg_db (sy_pg s)))"

inductive ev_step :: "codec \<Rightarrow> postgres \<Rightarrow> int \<Rightarrow> sys \<Rightarrow> sys \<Rightarrow> bool" for C P delay where
  receive: "PushNftEvent C P uuid now i (sy_pg s) = (r, p) \<Longrightarrow> uuid \<notin> event_ids s \<Longrightarrow>
    ev_step C P delay s (s\<lparr>sy_pg := p\<rparr>)"
| take: "k < length (nft_workers delay) \<Longrightarrow> sy_busy s k = None \<Longrightarrow>
    GetNftEventTransaction P (nft_filters (worker_of delay k) now) (sy_pg s) = (Inr (ev, t), p) \<Longrightarrow>
    ev_step C P delay s (s\<lparr>sy_pg := p, sy_busy := (sy_busy s)(k \<mapsto> (ev, t))\<rparr>)"
| sleep: "k < length (nft_workers delay) \<Longrightarrow> sy_busy s k = None \<Longrightarrow>
    GetNftEventTransaction P (nft_filters (worker_of delay k) now) (sy_pg s) = (Inl e, p) \<Longrightarrow>
    ev_step C P delay s (s\<lparr>sy_pg := p\<rparr>)"
| finish: "sy_busy s k = Some (ev, t) \<Longrightarrow>
    run_tx (finish_nft_event P uuid now ev (nw_nextStage (worker_of delay k)) outcome) t (sy_pg s) = (r, p) \<Longrightarrow>
    ev_step C P delay s (s\<lparr>sy_pg := p, sy_busy := (sy_busy s)(k := None)\<rparr>)"
| prune: "prune_events P now expiry (sy_pg s) = (r, p) \<Longrightarrow> ev_step C P delay s (s\<lparr>sy_pg := p\<rparr>)"

inductive_cases ev_stepE: "ev_step C P delay s s'"

text \<open>A state in which no worker holds an event, and nothing is locked.\<close>

definition sys_start :: "sys \<Rightarrow> bool" where
  "sys_start s \<longleftrightarrow> tb_events (pg_db (sy_pg s)) = [] \<and> pg_locked (sy_pg s) = [] \<and> (\<forall>k. sy_busy s k = None)"

section \<open>The invariant\<close>

text \<open>The stages an event of a type can be in, and its status there.\<close>

definition stages_of :: "string \<Rightarrow> Stage list" where
  "stages_of ty =
     (if ty = NftEventTypeTransfer \<or> ty = NftEventTypeMint then [StageInit, StageFullSync, StageTokenSaleIndexing]
      else if ty = NftEventTypeBurned then [StageInit, StageFullSync]
      else if ty = NftEventTypeTokenUpdated then [StageInit, StageDoubleSync]
      else [StageInit])"

definition legal_event :: "NFTEvent \<Rightarrow> bool" where
  "legal_event ev \<longleftrightarrow> ev_Stage ev \<in> NftEventStages ` set (stages_of (ev_Type ev)) \<and>
     (ev_Status ev = StatusCreated \<or> ev_Status ev = StatusFailed \<and> ev_Stage ev \<noteq> NftEventStages StageInit)"

text \<open>What is known of the event a worker holds.\<close>

definition holds :: "int \<Rightarrow> nat \<Rightarrow> sys \<Rightarrow> NFTEvent \<Rightarrow> tx \<Rightarrow> bool" where
  "holds delay k s ev t \<longleftrightarrow> k < length (nft_workers delay) \<and> ev \<in> set (tb_events (pg_db (sy_pg s))) \<and>
     ev_Type ev \<in> set (nw_types (worker_of delay k)) \<and>
     ev_Status ev \<in> {StatusCreated, StatusProcessing} \<and>
     ev_Stage ev = NftEventStages (nw_currentStage (worker_of delay k)) \<and>
     tx_state t = TxOpen \<and> tx_pending t = id \<and> tx_locks t = [ev_ID ev] \<and>
     ev_ID ev \<in> set (pg_locked (sy_pg s))"

definition sys_inv :: "int \<Rightarrow> sys \<Rightarrow> bool" where
  "sys_inv delay s \<longleftrightarrow>
     distinct (map ev_ID (tb_events (pg_db (sy_pg s)))) \<and>
     (\<forall>ev\<in>set (tb_events (pg_db (sy_pg s))). legal_event ev) \<and>
     (\<forall>k ev t. sy_busy s k = Some (ev, t) \<longrightarrow> holds delay k s ev t) \<and>
     (\<forall>k j ev t ev' t'. sy_busy s k = Some (ev, t) \<longrightarrow> sy_busy s j = Some (ev', t') \<longrightarrow>
        ev_ID ev = ev_ID ev' \<longrightarrow> k = j)"

lemma workers_cases:
  assumes "k < length (nft_workers delay)"
  obtains "worker_of delay k = RefreshTokenData_worker delay" | "worker_of delay k = DoubleSyncTokenData_worker"
  | "worker_of delay k = UpdateLatestOwner_worker" | "worker_of delay k = UpdateOwnerAndProvenance_worker"
  | "worker_of delay k = UpdateOwnerAndProvenanceForBurnedToken_worker" | "worker_of delay k = IndexTokenSale_worker"
proof -
  have "worker_of delay k \<in> fst ` set (nft_workers delay)"
    unfolding worker_of_def using assms by (intro imageI nth_mem)
  then show thesis using that by (auto simp: nft_workers_def)
qed

lemmas worker_defs = RefreshTokenData_worker_def DoubleSyncTokenData_worker_def UpdateLatestOwner_worker_def
  UpdateOwnerAndProvenance_worker_def UpdateOwnerAndProvenanceForBurnedToken_worker_def IndexTokenSale_worker_def

text \<open>Every worker moves its events to a stage of their type, never back to the first.\<close>

lemma next_stage_legal:
  assumes "k < length (nft_workers delay)" and "ty \<in> set (nw_types (worker_of delay k))"
  shows "nw_nextStage (worker_of delay k) = StageDone \<or>
    nw_nextStage (worker_of delay k) \<in> set (stages_of ty) - {StageInit}"
  using assms(2) by (cases rule: workers_cases [OF assms(1)]) (auto simp: worker_defs stages_of_def)

section \<open>The steps keep the invariant\<close>

lemma round_effect_rows:
  "tb_events (round_effect uuid now ev nextStage outcome d) =
    (if nextStage = StageDone then filter (\<lambda>e. ev_ID e \<noteq> ev_ID ev) (tb_events d)
     else map (\<lambda>e. if ev_ID e = ev_ID ev
       then e\<lparr>ev_Stage := NftEventStages nextStage,
              ev_Status := (case outcome of Inl _ \<Rightarrow> StatusFailed | Inr _ \<Rightarrow> ev_Status e), ev_UpdatedAt := now\<rparr>
       else e) (tb_events d))"
proof -
  have st: "nextStage \<noteq> StageDone \<Longrightarrow> NftEventStages nextStage \<noteq> []" by (cases nextStage) auto
  have fil: "filter (\<lambda>e. ev_ID e \<noteq> i) (map (\<lambda>e. if ev_ID e = i then f e else e) es) = filter (\<lambda>e. ev_ID e \<noteq> i) es"
    if "\<And>e. ev_ID (f e) = ev_ID e" for i es and f :: "NFTEvent \<Rightarrow> NFTEvent"
    using that by (induction es) auto
  show ?thesis
    using st by (auto simp: round_effect_def delete_row_def save_archive_def update_row_def fil comp_def split: sum.split)
qed

lemma round_effect_ids:
  "ev_ID ` set (tb_events (round_effect uuid now ev nextStage outcome d)) \<subseteq> ev_ID ` set (tb_events d)"
  by (auto simp: round_effect_rows) (metis imageI)

lemma round_effect_distinct:
  "distinct (map ev_ID (tb_events d)) \<Longrightarrow> distinct (map ev_ID (tb_events (round_effect uuid now ev nextStage outcome d)))"
proof -
  assume d: "distinct (map ev_ID (tb_events d))"
  have "map ev_ID (map (\<lambda>e. if ev_ID e = ev_ID ev
       then e\<lparr>ev_Stage := a, ev_Status := f e, ev_UpdatedAt := now\<rparr> else e) es) = map ev_ID es" for a f es
    by (induction es) auto
  then have "nextStage \<noteq> StageDone \<Longrightarrow>
      map ev_ID (tb_events (round_effect uuid now ev nextStage outcome d)) = map ev_ID (tb_events d)"
    unfolding round_effect_rows by (simp only: if_False)
  note keep = this
  show ?thesis
  proof (cases "nextStage = StageDone")
    case True
    with d show ?thesis by (simp add: round_effect_rows distinct_map_filter)
  next
    case False
    from keep [OF False] d show ?thesis by (simp only:)
  qed
qed

text \<open>Other events than the one of the round stay as they are.\<close>

lemma round_effect_other:
  "ev_ID e \<noteq> ev_ID ev \<Longrightarrow> e \<in> set (tb_events (round_effect uuid now ev nextStage outcome d)) \<longleftrightarrow> e \<in> set (tb_events d)"
  by (auto simp: round_effect_rows image_iff split: if_splits)

lemma same_id_same_row: "distinct (map ev_ID es) \<Longrightarrow> a \<in> set es \<Longrightarrow> b \<in> set es \<Longrightarrow> ev_ID a = ev_ID b \<Longrightarrow> a = b"
  by (auto simp: distinct_map inj_on_def)

lemma insert_nft_event_rows:
  "insert_nft_event uuid now e d = Inr d' \<Longrightarrow> tb_events d' = tb_events d \<or>
     tb_events d' = tb_events d @ [e\<lparr>ev_ID := uuid, ev_CreatedAt := now, ev_UpdatedAt := now\<rparr>]"
  by (auto simp: insert_nft_event_def split: if_splits)

context postgres_driver
begin

lemma CreateNftEvent_cases:
  "\<exists>r d. CreateNftEvent P uuid now e s = (r, s\<lparr>pg_db := d\<rparr>) \<and>
     (d = pg_db s \<or> insert_nft_event uuid now e (pg_db s) = Inr d)"
  using Exec_law [of "insert_nft_event uuid now e" s]
proof -
  let ?f = "insert_nft_event uuid now e"
  have keep: ?thesis if "CreateNftEvent P uuid now e s = (r, s)" for r
    using that by (intro exI [of _ r] exI [of _ "pg_db s"]) simp
  from Exec_law [of ?f s] show ?thesis
  proof (elim disjE exE conjE)
    assume run: "pg_Exec P ?f s = (case ?f (pg_db s) of Inl e \<Rightarrow> (Inl e, s) | Inr d \<Rightarrow> (Inr (), s\<lparr>pg_db := d\<rparr>))"
    show ?thesis
    proof (cases "?f (pg_db s)")
      case (Inl x)
      with run show ?thesis by (intro keep [of "if x = ErrDuplicateKey then Inr () else Inl x"]) (simp add: CreateNftEvent_def act_simps)
    next
      case (Inr d)
      with run show ?thesis by (intro exI [of _ "Inr ()"] exI [of _ d]) (simp add: CreateNftEvent_def act_simps)
    qed
  next
    fix x assume "x \<noteq> ErrDuplicateKey" "pg_Exec P ?f s = (Inl x, s)"
    then show ?thesis by (intro keep [of "Inl x"]) (simp add: CreateNftEvent_def act_simps)
  qed
qed

lemma PushNftEvent_cases:
  "\<exists>r d. PushNftEvent C P uuid now i s = (r, s\<lparr>pg_db := d\<rparr>) \<and>
     (tb_events d = tb_events (pg_db s) \<or>
      tb_events d = tb_events (pg_db s) @ [(nft_event_of C i)\<lparr>ev_ID := uuid, ev_CreatedAt := now, ev_UpdatedAt := now\<rparr>])"
proof -
  obtain r d where c: "CreateNftEvent P uuid now (nft_event_of C i) s = (r, s\<lparr>pg_db := d\<rparr>)"
    and d: "d = pg_db s \<or> insert_nft_event uuid now (nft_event_of C i) (pg_db s) = Inr d"
    using CreateNftEvent_cases by blast
  then show ?thesis
    using insert_nft_event_rows [of uuid now "nft_event_of C i" "pg_db s" d]
    by (cases r) (auto simp: PushNftEvent_def Queue_PushNftEvent_def act_simps)
qed

lemma prune_events_rows:
  "\<exists>r d. prune_events P now expiry s = (r, s\<lparr>pg_db := d\<rparr>) \<and> tb_events d = tb_events (pg_db s)"
proof -
  have a: "\<exists>d. log_error (DeleteNftEvents P now expiry) u = (Inr (), u\<lparr>pg_db := d\<rparr>) \<and> tb_events d = tb_events (pg_db u)" for u
    using Exec_law [of "\<lambda>d. Inr (d\<lparr>tb_archived := filter (\<lambda>a. \<not> ar_CreatedAt a < now - expiry) (tb_archived d)\<rparr>)" u]
    by (auto simp: DeleteNftEvents_def log_error_def act_simps intro: exI [of _ "pg_db u"])
  have b: "\<exists>d. log_error (DeleteSeriesRegistryEvents P now expiry) u = (Inr (), u\<lparr>pg_db := d\<rparr>) \<and> tb_events d = tb_events (pg_db u)" for u
    using Exec_law [of "\<lambda>d. Inr (d\<lparr>tb_series := filter (\<lambda>a. \<not> se_CreatedAt a < now - expiry) (tb_series d)\<rparr>)" u]
    by (auto simp: DeleteSeriesRegistryEvents_def log_error_def act_simps intro: exI [of _ "pg_db u"])
  obtain d where d: "log_error (DeleteNftEvents P now expiry) s = (Inr (), s\<lparr>pg_db := d\<rparr>)" "tb_events d = tb_events (pg_db s)"
    using a [of s] by blast
  with b [of "s\<lparr>pg_db := d\<rparr>"] show ?thesis by (auto simp: prune_events_def act_simps)
qed

end

text \<open>A step that only changes tables other than the events, or adds a new event at the end.\<close>

lemma holds_more:
  assumes "holds delay k s ev t" and "set (tb_events (pg_db (sy_pg s))) \<subseteq> set (tb_events (pg_db p))"
    and "set (pg_locked (sy_pg s)) \<subseteq> set (pg_locked p)"
  shows "holds delay k (s\<lparr>sy_pg := p, sy_busy := b\<rparr>) ev t" and "holds delay k (s\<lparr>sy_pg := p\<rparr>) ev t"
  using assms by (auto simp: holds_def)

lemma legal_new: "legal_event ((nft_event_of C i)\<lparr>ev_ID := uuid, ev_CreatedAt := now, ev_UpdatedAt := now\<rparr>)"
  by (simp add: legal_event_def nft_event_of_def stages_of_def)

lemma legal_round:
  assumes "holds delay k s ev t" and "\<forall>e\<in>set (tb_events d). legal_event e" and "distinct (map ev_ID (tb_events d))"
    and "d = pg_db (sy_pg s)" and "e \<in> set (tb_events (round_effect uuid now ev (nw_nextStage (worker_of delay k)) outcome d))"
  shows "legal_event e"
proof -
  let ?n = "nw_nextStage (worker_of delay k)"
  from assms(1) have k: "k < length (nft_workers delay)" and ty: "ev_Type ev \<in> set (nw_types (worker_of delay k))"
    and mem: "ev \<in> set (tb_events d)" by (auto simp: holds_def assms(4))
  show ?thesis
  proof (cases "ev_ID e = ev_ID ev")
    case False
    with assms(2,5) round_effect_other [OF False] show ?thesis by blast
  next
    case True
    with assms(5) have n: "?n \<noteq> StageDone" by (auto simp: round_effect_rows)
    with next_stage_legal [OF k ty] have legal: "?n \<in> set (stages_of (ev_Type ev))" and ne: "?n \<noteq> StageInit" by auto
    from True assms(5) n obtain x where x: "x \<in> set (tb_events d)" "ev_ID x = ev_ID ev"
      and e: "e = x\<lparr>ev_Stage := NftEventStages ?n,
              ev_Status := (case outcome of Inl _ \<Rightarrow> StatusFailed | Inr _ \<Rightarrow> ev_Status x), ev_UpdatedAt := now\<rparr>"
      by (auto simp: round_effect_rows split: if_splits)
    have "x = ev" using same_id_same_row [OF assms(3) x(1) mem x(2)] .
    moreover have "legal_event ev" using assms(2) mem by blast
    ultimately show ?thesis
      using legal ne by (auto simp: e legal_event_def NftEventStages_inj [symmetric, of _ StageInit] split: sum.split)
  qed
qed

context postgres_driver
begin

lemma step_inv:
  assumes "ev_step C P delay s s'" and inv: "sys_inv delay s"
  shows "sys_inv delay s'"
  using assms(1)
proof (cases rule: ev_step.cases)
  case (receive uuid now i r p)
  let ?new = "(nft_event_of C i)\<lparr>ev_ID := uuid, ev_CreatedAt := now, ev_UpdatedAt := now\<rparr>"
  from PushNftEvent_cases [of C uuid now i "sy_pg s"] receive(2) obtain d where p: "p = (sy_pg s)\<lparr>pg_db := d\<rparr>"
    and d: "tb_events d = tb_events (pg_db (sy_pg s)) \<or> tb_events d = tb_events (pg_db (sy_pg s)) @ [?new]" by auto
  have sub: "set (tb_events (pg_db (sy_pg s))) \<subseteq> set (tb_events (pg_db p))" using d by (auto simp: p)
  have "distinct (map ev_ID (tb_events d))" using d inv receive(3) by (auto simp: sys_inv_def event_ids_def)
  moreover have "\<forall>ev\<in>set (tb_events d). legal_event ev" using d inv legal_new [where C = C and i = i and uuid = uuid and now = now] by (auto simp: sys_inv_def)
  moreover have "set (pg_locked (sy_pg s)) \<subseteq> set (pg_locked p)" by (simp add: p)
  ultimately show ?thesis
    using inv holds_more(2) [OF _ sub] by (auto simp: receive(1) sys_inv_def p)
next
  case (take k now ev t p)
  from take(4) obtain rows n where rows: "nft_rows (nft_filters (worker_of delay k) now) (sy_pg s) = ev # rows"
    and t: "t = \<lparr>tx_state = TxOpen, tx_locks = [ev_ID ev], tx_pending = id, tx_ticks = n\<rparr>"
    and p: "p = lock_row (ev_ID ev) (sy_pg s)"
    by (cases rule: GetNftEventTransaction_cases [of "nft_filters (worker_of delay k) now" "sy_pg s"]) auto
  from nft_rows_mem [OF rows] have mem: "ev \<in> set (tb_events (pg_db (sy_pg s)))" and free: "ev_ID ev \<notin> set (pg_locked (sy_pg s))"
    and fl: "nft_filters (worker_of delay k) now ev" by auto
  have db: "pg_db p = pg_db (sy_pg s)" and lk: "pg_locked p = ev_ID ev # pg_locked (sy_pg s)" by (simp_all add: p lock_row_def)
  have old: "holds delay j s' e u" if "sy_busy s j = Some (e, u)" for j e u
    using inv that holds_more(1) [of delay j s e u p] by (simp add: sys_inv_def take(1) db lk subset_insertI)
  have new: "holds delay k s' ev t"
    using mem fl take(2) by (auto simp: holds_def nft_filters_def take(1) db lk t)
  have "ev_ID e \<noteq> ev_ID ev" if "sy_busy s j = Some (e, u)" for j e u
  proof -
    have "ev_ID e \<in> set (pg_locked (sy_pg s))" using inv that by (simp add: sys_inv_def holds_def)
    with free show ?thesis by auto
  qed
  then show ?thesis using inv old new
    unfolding sys_inv_def by (simp add: take(1) db) metis
next
  case (sleep k now e p)
  from sleep(4) have "p = sy_pg s"
    by (cases rule: GetNftEventTransaction_cases [of "nft_filters (worker_of delay k) now" "sy_pg s"]) auto
  then show ?thesis using inv by (simp add: sleep(1))
next
  case (finish k ev t uuid now outcome r p)
  from inv finish(2) have h: "holds delay k s ev t" by (simp add: sys_inv_def)
  then have t: "tx_state t = TxOpen" "tx_pending t = id" "tx_locks t = [ev_ID ev]" by (simp_all add: holds_def)
  let ?e = "round_effect uuid now ev (nw_nextStage (worker_of delay k)) outcome (pg_db (sy_pg s))"
  from finish_nft_event_effect [OF t(1,2), of uuid now ev "nw_nextStage (worker_of delay k)" outcome "sy_pg s"] finish(3)
  obtain d where p: "p = (unlock_rows t (sy_pg s))\<lparr>pg_db := d\<rparr>" and d: "d = pg_db (sy_pg s) \<or> d = ?e" by fastforce
  have dist: "distinct (map ev_ID (tb_events (pg_db (sy_pg s))))" and leg: "\<forall>e\<in>set (tb_events (pg_db (sy_pg s))). legal_event e"
    using inv by (simp_all add: sys_inv_def)
  have 1: "distinct (map ev_ID (tb_events d))" using d dist round_effect_distinct by auto
  have 2: "\<forall>e\<in>set (tb_events d). legal_event e" using d leg legal_round [OF h leg dist refl] by blast
  have 3: "holds delay j s' e u" if b: "sy_busy s j = Some (e, u)" and "j \<noteq> k" for j e u
  proof -
    have hj: "holds delay j s e u" using inv b by (simp add: sys_inv_def)
    have ne: "ev_ID e \<noteq> ev_ID ev" using inv b finish(2) that(2) unfolding sys_inv_def by metis
    have "e \<in> set (tb_events d)" using hj d round_effect_other [OF ne] by (auto simp: holds_def)
    with hj ne show ?thesis by (auto simp: holds_def finish(1) p unlock_rows_def t)
  qed
  show ?thesis using 1 2 3 inv unfolding sys_inv_def by (simp add: finish(1) p)
next
  case (prune now expiry r p)
  from prune_events_rows [of now expiry "sy_pg s"] prune(2) obtain d where p: "p = (sy_pg s)\<lparr>pg_db := d\<rparr>"
    and d: "tb_events d = tb_events (pg_db (sy_pg s))" by auto
  have "set (pg_locked (sy_pg s)) \<subseteq> set (pg_locked p)" "set (tb_events (pg_db (sy_pg s))) \<subseteq> set (tb_events (pg_db p))"
    by (simp_all add: p d)
  then show ?thesis using inv holds_more(2) by (auto simp: prune(1) sys_inv_def p d)
qed

lemma start_inv: "sys_start s \<Longrightarrow> sys_inv delay s"
  by (simp add: sys_start_def sys_inv_def)

lemma reachable_inv: "(ev_step C P delay)\<^sup>*\<^sup>* s s' \<Longrightarrow> sys_inv delay s \<Longrightarrow> sys_inv delay s'"
  by (induction rule: rtranclp_induct) (auto dest: step_inv)

end

section \<open>Events nobody takes\<close>

definition stuck :: "NFTEvent \<Rightarrow> bool" where
  "stuck ev \<longleftrightarrow> ev_Status ev = StatusFailed \<or>
     ev_Type ev = NftEventTypeMint \<and> ev_Stage ev = NftEventStages StageTokenSaleIndexing"

lemma stuck_not_held: "stuck ev \<Longrightarrow> \<not> holds delay k s ev t"
proof
  assume "stuck ev" and h: "holds delay k s ev t"
  then have "k < length (nft_workers delay)" "ev_Type ev \<in> set (nw_types (worker_of delay k))"
    "ev_Stage ev = NftEventStages (nw_currentStage (worker_of delay k))" "ev_Type ev = NftEventTypeMint"
    "ev_Stage ev = NftEventStages StageTokenSaleIndexing"
    by (auto simp: holds_def stuck_def)
  then show False by (cases rule: workers_cases [of k delay]) (auto simp: worker_defs)
qed

context postgres_driver
begin

lemma stuck_step:
  assumes "ev_step C P delay s s'" and inv: "sys_inv delay s"
    and mem: "ev \<in> set (tb_events (pg_db (sy_pg s)))" and "stuck ev"
  shows "ev \<in> set (tb_events (pg_db (sy_pg s')))"
  using assms(1)
proof (cases rule: ev_step.cases)
  case (receive uuid now i r p)
  from PushNftEvent_cases [of C uuid now i "sy_pg s"] receive(2) mem show ?thesis by (auto simp: receive(1))
next
  case (take k now e t p)
  then show ?thesis using mem
    by (cases rule: GetNftEventTransaction_cases [of "nft_filters (worker_of delay k) now" "sy_pg s"]) (auto simp: lock_row_def)
next
  case (sleep k now e p)
  then show ?thesis using mem
    by (cases rule: GetNftEventTransaction_cases [of "nft_filters (worker_of delay k) now" "sy_pg s"]) (auto simp: lock_row_def)
next
  case (finish k e t uuid now outcome r p)
  from inv finish(2) have h: "holds delay k s e t" by (simp add: sys_inv_def)
  then have t: "tx_state t = TxOpen" "tx_pending t = id" and e: "e \<in> set (tb_events (pg_db (sy_pg s)))"
    by (simp_all add: holds_def)
  have "ev_ID ev \<noteq> ev_ID e"
  proof
    assume "ev_ID ev = ev_ID e"
    with inv mem e have "ev = e" by (auto simp: sys_inv_def intro: same_id_same_row)
    with h stuck_not_held [OF \<open>stuck ev\<close>] show False by blast
  qed
  note other = round_effect_other [OF this]
  from finish_nft_event_effect [OF t, of uuid now e "nw_nextStage (worker_of delay k)" outcome "sy_pg s"] finish(3)
    mem other
  show ?thesis by (auto simp: finish(1))
next
  case (prune now expiry r p)
  from prune_events_rows [of now expiry "sy_pg s"] prune(2) mem show ?thesis by (auto simp: prune(1))
qed

lemma stuck_steps:
  assumes "(ev_step C P delay)\<^sup>*\<^sup>* s s'" and "sys_inv delay s"
    and "ev \<in> set (tb_events (pg_db (sy_pg s)))" and "stuck ev"
  shows "ev \<in> set (tb_events (pg_db (sy_pg s')))"
  using assms(1)
proof (induction rule: rtranclp_induct)
  case (step u v)
  from reachable_inv [OF step(1) assms(2)] show ?case by (rule stuck_step [OF step(2) _ step(3) assms(4)])
qed (rule assms(3))

end

section \<open>Pushing an event again\<close>

lemma ev_key_stored [simp]: "ev_key (e\<lparr>ev_ID := u, ev_CreatedAt := c, ev_UpdatedAt := n\<rparr>) = ev_key e"
  by (simp add: ev_key_def)

lemma insert_again:
  assumes "insert_nft_event uuid now e d = Inr d'" and "insert_nft_event uuid' now' e d' = Inr d''"
  shows "d'' = d'"
proof (cases "\<exists>a\<in>set (tb_archived d). archived_as e a")
  case True
  with assms show ?thesis by (simp add: insert_nft_event_def)
next
  case False
  with assms(1) have "d' = d\<lparr>tb_events := tb_events d @ [e\<lparr>ev_ID := uuid, ev_CreatedAt := now, ev_UpdatedAt := now\<rparr>]\<rparr>"
    by (simp add: insert_nft_event_def split: if_splits)
  then have "\<exists>x\<in>set (tb_events d'). ev_key x = ev_key e" "tb_archived d' = tb_archived d" by auto
  with False assms(2) show ?thesis by (simp add: insert_nft_event_def)
qed

lemma insert_refused: "insert_nft_event uuid now e d = Inl err \<Longrightarrow> insert_nft_event uuid' now' e d = Inl err"
  by (auto simp: insert_nft_event_def split: if_splits)

lemma archived_as_own: "archived_as e (archive_of uuid now e) \<longleftrightarrow> ev_EventIndex e = 0"
  by (auto simp: archived_as_def archive_of_def)

section \<open>Rounds on a table with one event\<close>

definition pg_one :: "ArchivedNFTEvent list \<Rightarrow> string list \<Rightarrow> NFTEvent \<Rightarrow> pg_state" where
  "pg_one arch locked ev = \<lparr>pg_db = \<lparr>tb_events = [ev], tb_archived = arch, tb_series = []\<rparr>, pg_locked = locked\<rparr>"

definition tx_on :: "NFTEvent \<Rightarrow> tx" where
  "tx_on ev = \<lparr>tx_state = TxOpen, tx_locks = [ev_ID ev], tx_pending = id, tx_ticks = 0\<rparr>"

lemma mem_take:
  "nft_filters w now ev \<Longrightarrow> GetNftEventTransaction (mem_postgres bad) (nft_filters w now) (pg_one arch [] ev) =
    (Inr (ev, tx_on ev), pg_one arch [ev_ID ev] ev)"
  by (simp add: GetNftEventTransaction_def query_or_abandon_def mem_postgres_simps act_simps nft_rows_def pg_one_def
      first_row_def lock_row_def tx_on_def)

lemma mem_finish:
  "run_tx (finish_nft_event (mem_postgres (\<lambda>_. False)) uuid now ev nextStage (Inr ())) (tx_on ev) (pg_one arch [ev_ID ev] ev) =
    (Inr (), \<lparr>pg_db = round_effect uuid now ev nextStage (Inr ()) (pg_db (pg_one arch [] ev)), pg_locked = []\<rparr>)"
proof (cases "nextStage = StageDone")
  case True
  then show ?thesis
    by (simp add: run_tx_def finish_nft_event_def or_rollback_def ArchiveNFTEvent_def on_tx_def act_simps mem_TxExec
        log_error_def mem_Commit unlock_rows_def tx_on_def pg_one_def round_effect_def)
next
  case False
  then have "NftEventStages nextStage \<noteq> []" by (cases nextStage) auto
  with False show ?thesis
    by (simp add: run_tx_def finish_nft_event_def or_rollback_def UpdateNftEvent_def on_tx_def act_simps mem_TxExec
        log_error_def mem_Commit unlock_rows_def tx_on_def pg_one_def round_effect_def)
qed

lemma round_effect_one:
  "round_effect uuid now ev nextStage (Inr ()) (pg_db (pg_one arch locked ev)) =
    (if nextStage = StageDone then \<lparr>tb_events = [], tb_archived = arch @ [archive_of uuid now ev], tb_series = []\<rparr>
     else pg_db (pg_one arch locked (ev\<lparr>ev_Stage := NftEventStages nextStage, ev_UpdatedAt := now\<rparr>)))"
  by (cases nextStage) (simp_all add: round_effect_def pg_one_def delete_row_def save_archive_def update_row_def)

section \<open>Properties\<close>

text \<open>
  C4: In every state the event store and its workers can reach, with statements of the database
  failing at any point, no two events have the same id, every event is in a stage of its type with
  the status created or failed (failed never in the first stage), and no two workers hold the same event.
\<close>

theorem event_store_invariant:
  assumes "postgres_driver P" and "sys_start s" and "(ev_step C P delay)\<^sup>*\<^sup>* s s'"
  shows "distinct (map ev_ID (tb_events (pg_db (sy_pg s')))) \<and>
    list_all legal_event (tb_events (pg_db (sy_pg s'))) \<and>
    inj_on (\<lambda>k. map_option (ev_ID \<circ> fst) (sy_busy s' k)) {k. sy_busy s' k \<noteq> None}"
proof -
  have "sys_inv delay s'"
    by (rule postgres_driver.reachable_inv [OF assms(1,3) postgres_driver.start_inv [OF assms(1,2)]])
  then show ?thesis by (auto simp: sys_inv_def list_all_iff inj_on_def)
qed

definition sample_event :: NFTEvent where
  "sample_event = \<lparr>ev_ID = [], ev_Type = ''transfer'', ev_Blockchain = ''ethereum'',
     ev_Contract = sample_address ''c'', ev_TokenID = ''1'', ev_From = ''alice'', ev_To = ''bob'', ev_TXID = ''0x1'',
     ev_EventIndex = 3, ev_TXTime = 7, ev_Stage = ''stage_1_init'', ev_Status = ''created'',
     ev_CreatedAt = 0, ev_UpdatedAt = 0\<rparr>"

definition sample_input :: NftEventInput where
  "sample_input = \<lparr>ni_Type = ''transfer'', ni_Blockchain = ''ethereum'', ni_Contract = sample_address ''c'',
     ni_TokenID = ''1'', ni_From = ''alice'', ni_To = ''bob'', ni_TXID = ''0x1'', ni_EventIndex = 3,
     ni_TXTime = Some (timestamppb_New sample_codec 7)\<rparr>"

lemma sample_input_event: "nft_event_of sample_codec sample_input = sample_event"
  using sample_messages.timestamp_round [of 7]
  by (simp add: nft_event_of_def sample_input_def sample_event_def)

definition empty_pg :: pg_state where
  "empty_pg = \<lparr>pg_db = \<lparr>tb_events = [], tb_archived = [], tb_series = []\<rparr>, pg_locked = []\<rparr>"

definition stored_event :: NFTEvent where
  "stored_event = sample_event\<lparr>ev_ID := ''u1'', ev_CreatedAt := 9, ev_UpdatedAt := 9\<rparr>"

definition one_event_pg :: pg_state where
  "one_event_pg = empty_pg\<lparr>pg_db := (pg_db empty_pg)\<lparr>tb_events := [stored_event]\<rparr>\<rparr>"

lemma push_sample: "PushNftEvent sample_codec (mem_postgres bad) ''u1'' 9 sample_input empty_pg =
    (Inr (''successfully'', 200), one_event_pg)"
  by (simp add: PushNftEvent_def Queue_PushNftEvent_def sample_input_event CreateNftEvent_def mem_postgres_simps
      act_simps insert_nft_event_def empty_pg_def one_event_pg_def stored_event_def)

theorem event_store_invariant_witness:
  "\<exists>s :: sys. tb_events (pg_db (sy_pg s)) = [stored_event] \<and> list_all legal_event (tb_events (pg_db (sy_pg s)))"
proof -
  let ?s = "\<lparr>sy_pg = empty_pg, sy_busy = \<lambda>_. None\<rparr> :: sys"
  have "ev_step sample_codec (mem_postgres (\<lambda>_. False)) 0 ?s (?s\<lparr>sy_pg := one_event_pg\<rparr>)"
    by (rule ev_step.receive [where uuid = "''u1''" and now = 9 and i = sample_input])
       (simp_all add: push_sample, simp add: event_ids_def empty_pg_def)
  then have "(ev_step sample_codec (mem_postgres (\<lambda>_. False)) 0)\<^sup>*\<^sup>* ?s (?s\<lparr>sy_pg := one_event_pg\<rparr>)" by blast
  moreover have "sys_start ?s" by (simp add: sys_start_def empty_pg_def)
  ultimately have l: "list_all legal_event (tb_events (pg_db (sy_pg (?s\<lparr>sy_pg := one_event_pg\<rparr>))))"
    using event_store_invariant [OF mem_postgres_lawful] by blast
  have "tb_events (pg_db (sy_pg (?s\<lparr>sy_pg := one_event_pg\<rparr>))) = [stored_event]" by (simp add: one_event_pg_def)
  from conjI [OF this l] show ?thesis by (rule exI)
qed

text \<open>
  C6: The end of a round writes everything or nothing, whichever statements fail: the tables are
  the ones before the round, or the event is moved to the next stage (its status failed when
  the processor failed), or archived and deleted when there is no next stage. The lock on the event is
  released in every case.
\<close>

theorem round_all_or_nothing:
  assumes "postgres_driver P" and "tx_state t = TxOpen" and "tx_pending t = id"
    and "run_tx (finish_nft_event P uuid now ev nextStage outcome) t s = (r, s')"
  shows "(pg_db s' = pg_db s \<or> pg_db s' = round_effect uuid now ev nextStage outcome (pg_db s)) \<and>
    set (pg_locked s') = set (pg_locked s) - set (tx_locks t)"
  using postgres_driver.finish_nft_event_effect [OF assms(1-3), of uuid now ev nextStage outcome s] assms(4)
  by (auto simp: unlock_rows_def)

theorem round_all_or_nothing_witness:
  "snd (run_tx (finish_nft_event (mem_postgres (\<lambda>n. n = 1)) ''u2'' 10 stored_event StageDone (Inr ()))
     \<lparr>tx_state = TxOpen, tx_locks = [''u1''], tx_pending = id, tx_ticks = 0\<rparr> (lock_row ''u1'' one_event_pg)) = one_event_pg"
proof -
  let ?t = "\<lparr>tx_state = TxOpen, tx_locks = [''u1''], tx_pending = id, tx_ticks = 0\<rparr> :: tx"
  let ?m = "run_tx (finish_nft_event (mem_postgres (\<lambda>n. n = 1)) ''u2'' 10 stored_event StageDone (Inr ())) ?t (lock_row ''u1'' one_event_pg)"
  have "set (pg_locked (snd ?m)) = set (pg_locked (lock_row ''u1'' one_event_pg)) - set (tx_locks ?t)"
    using round_all_or_nothing [OF mem_postgres_lawful _ _ surjective_pairing, of ?t] by simp
  then have "pg_locked (snd ?m) = []" by (simp add: lock_row_def one_event_pg_def empty_pg_def)
  moreover have "pg_db (snd ?m) = pg_db one_event_pg"
    by (simp add: run_tx_def finish_nft_event_def or_rollback_def ArchiveNFTEvent_def on_tx_def act_simps mem_TxExec
        mem_postgres_simps log_error_def mem_Commit lock_row_def unlock_rows_def)
  ultimately show ?thesis by (cases "snd ?m") (simp add: one_event_pg_def empty_pg_def)
qed

text \<open>
  An event whose processor failed before its last stage, and a mint event in the stage of the
  token sales, stay in the table as they are for ever: no worker takes them, whatever happens.
\<close>

theorem stuck_events_stay:
  assumes "postgres_driver P" and "sys_start s" and "(ev_step C P delay)\<^sup>*\<^sup>* s u"
    and "ev \<in> set (tb_events (pg_db (sy_pg u)))"
    and "ev_Status ev = StatusFailed \<or>
         ev_Type ev = NftEventTypeMint \<and> ev_Stage ev = NftEventStages StageTokenSaleIndexing"
    and "(ev_step C P delay)\<^sup>*\<^sup>* u s'"
  shows "ev \<in> set (tb_events (pg_db (sy_pg s')))"
proof -
  have "sys_inv delay u"
    by (rule postgres_driver.reachable_inv [OF assms(1,3) postgres_driver.start_inv [OF assms(1,2)]])
  moreover have "stuck ev" using assms(5) by (simp add: stuck_def)
  ultimately show ?thesis by (rule postgres_driver.stuck_steps [OF assms(1,6) _ assms(4)])
qed


definition mint_event :: "Stage \<Rightarrow> NFTEvent" where
  "mint_event st = stored_event\<lparr>ev_Type := ''mint'', ev_Stage := NftEventStages st\<rparr>"

definition idle_on :: "NFTEvent \<Rightarrow> sys" where
  "idle_on ev = \<lparr>sy_pg = pg_one [] [] ev, sy_busy = \<lambda>_. None\<rparr>"

text \<open>A round of worker \<open>k\<close> on the only event, as two steps.\<close>

lemma mem_round_steps:
  assumes "k < length (nft_workers 0)" and "nft_filters (worker_of 0 k) 9 ev" and "nw_nextStage (worker_of 0 k) = n"
    and "n \<noteq> StageDone"
  shows "(ev_step C (mem_postgres (\<lambda>_. False)) 0)\<^sup>*\<^sup>* (idle_on ev)
    (idle_on (ev\<lparr>ev_Stage := NftEventStages n, ev_UpdatedAt := 9\<rparr>))"
proof -
  let ?P = "mem_postgres (\<lambda>_. False)"
  let ?u = "(idle_on ev)\<lparr>sy_pg := pg_one [] [ev_ID ev] ev, sy_busy := (sy_busy (idle_on ev))(k \<mapsto> (ev, tx_on ev))\<rparr>"
  have "ev_step C ?P 0 (idle_on ev) ?u"
    by (rule ev_step.take [OF assms(1), where now = 9]) (simp_all add: idle_on_def mem_take [OF assms(2)])
  moreover have idle: "?u\<lparr>sy_pg := p, sy_busy := (sy_busy ?u)(k := None)\<rparr> = \<lparr>sy_pg = p, sy_busy = \<lambda>_. None\<rparr>" for p
    by (auto simp: idle_on_def)
  moreover have "ev_step C ?P 0 ?u (?u\<lparr>sy_pg := pg_one [] [] (ev\<lparr>ev_Stage := NftEventStages n, ev_UpdatedAt := 9\<rparr>), sy_busy := (sy_busy ?u)(k := None)\<rparr>)"
    by (rule ev_step.finish [where ev = ev and t = "tx_on ev" and uuid = "[]" and now = 9 and outcome = "Inr ()" and r = "Inr ()"])
       (simp_all add: assms(3) mem_finish round_effect_one assms(4), simp add: pg_one_def)
  ultimately have "ev_step C ?P 0 ?u (idle_on (ev\<lparr>ev_Stage := NftEventStages n, ev_UpdatedAt := 9\<rparr>))" "ev_step C ?P 0 (idle_on ev) ?u"
    unfolding idle by (simp_all only: idle_on_def)
  then show ?thesis by (meson r_into_rtranclp rtranclp.rtrancl_into_rtrancl)
qed

lemma mint_reaches_sale_stage:
  "\<exists>s. sys_start s \<and> (ev_step sample_codec (mem_postgres (\<lambda>_. False)) 0)\<^sup>*\<^sup>* s (idle_on (mint_event StageTokenSaleIndexing))"
proof -
  let ?step = "ev_step sample_codec (mem_postgres (\<lambda>_. False)) 0"
  let ?s = "\<lparr>sy_pg = empty_pg, sy_busy = \<lambda>_. None\<rparr> :: sys"
  let ?i = "sample_input\<lparr>ni_Type := ''mint''\<rparr>"
  have e: "nft_event_of sample_codec ?i = sample_event\<lparr>ev_Type := ''mint''\<rparr>"
    using sample_input_event by (simp add: nft_event_of_def sample_input_def sample_event_def)
  have p: "PushNftEvent sample_codec (mem_postgres (\<lambda>_. False)) ''u1'' 9 ?i empty_pg =
      (Inr (''successfully'', 200), pg_one [] [] (mint_event StageInit))"
    by (simp add: PushNftEvent_def Queue_PushNftEvent_def e CreateNftEvent_def mem_postgres_simps act_simps
        insert_nft_event_def empty_pg_def pg_one_def mint_event_def stored_event_def sample_event_def)
  have "?step ?s (?s\<lparr>sy_pg := pg_one [] [] (mint_event StageInit)\<rparr>)"
    by (rule ev_step.receive [where uuid = "''u1''" and now = 9 and i = ?i])
       (simp add: p, simp add: event_ids_def empty_pg_def)
  then have 1: "?step\<^sup>*\<^sup>* ?s (idle_on (mint_event StageInit))" by (simp add: idle_on_def r_into_rtranclp)
  have w: "worker_of 0 2 = UpdateLatestOwner_worker" "worker_of 0 3 = UpdateOwnerAndProvenance_worker"
    by (simp_all add: worker_of_def nft_workers_def)
  have upd: "(mint_event a)\<lparr>ev_Stage := NftEventStages b, ev_UpdatedAt := 9\<rparr> = mint_event b" for a b
    by (simp add: mint_event_def stored_event_def)
  have "?step\<^sup>*\<^sup>* (idle_on (mint_event StageInit)) (idle_on (mint_event StageFullSync))"
    by (rule mem_round_steps [of 2 "mint_event StageInit" StageFullSync, unfolded upd])
       (simp_all add: w worker_defs nft_filters_def mint_event_def stored_event_def sample_event_def nft_workers_def)
  moreover have "?step\<^sup>*\<^sup>* (idle_on (mint_event StageFullSync)) (idle_on (mint_event StageTokenSaleIndexing))"
    by (rule mem_round_steps [of 3 "mint_event StageFullSync" StageTokenSaleIndexing, unfolded upd])
       (simp_all add: w worker_defs nft_filters_def mint_event_def stored_event_def sample_event_def nft_workers_def)
  ultimately have "?step\<^sup>*\<^sup>* ?s (idle_on (mint_event StageTokenSaleIndexing))" using 1 by (meson rtranclp_trans)
  moreover have "sys_start ?s" by (simp add: sys_start_def empty_pg_def)
  ultimately show ?thesis by blast
qed

theorem stuck_events_stay_witness:
  "mint_event StageTokenSaleIndexing \<in> set (tb_events (pg_db (snd (PushNftEvent sample_codec
     (mem_postgres (\<lambda>_. False)) ''u2'' 10 sample_input (pg_one [] [] (mint_event StageTokenSaleIndexing))))))"
proof -
  let ?step = "ev_step sample_codec (mem_postgres (\<lambda>_. False)) 0"
  let ?ev = "mint_event StageTokenSaleIndexing"
  let ?p = "snd (PushNftEvent sample_codec (mem_postgres (\<lambda>_. False)) ''u2'' 10 sample_input (pg_one [] [] ?ev))"
  obtain s where s: "sys_start s" "?step\<^sup>*\<^sup>* s (idle_on ?ev)" using mint_reaches_sale_stage by blast
  have "?step (idle_on ?ev) ((idle_on ?ev)\<lparr>sy_pg := ?p\<rparr>)"
    by (rule ev_step.receive [where uuid = "''u2''" and now = 10 and i = sample_input])
       (simp add: idle_on_def prod_eq_iff, simp add: event_ids_def idle_on_def pg_one_def mint_event_def stored_event_def)
  then have "?step\<^sup>*\<^sup>* (idle_on ?ev) ((idle_on ?ev)\<lparr>sy_pg := ?p\<rparr>)" by blast
  from stuck_events_stay [OF mem_postgres_lawful s _ _ this, of ?ev]
  have "?ev \<in> set (tb_events (pg_db (sy_pg ((idle_on ?ev)\<lparr>sy_pg := ?p\<rparr>))))"
    by (simp add: idle_on_def pg_one_def mint_event_def)
  then show ?thesis by simp
qed

text \<open>
  An event in its last stage is archived as processed whether or not its processor failed: the
  failure is overwritten, and the tables are the same in both cases.
\<close>

theorem failed_last_stage_archived_as_processed:
  "round_effect uuid now ev StageDone (Inl err) d = round_effect uuid now ev StageDone (Inr ()) d \<and>
   (\<exists>a\<in>set (tb_archived (round_effect uuid now ev StageDone (Inl err) d)).
      ar_ID a = uuid \<and> ar_TXID a = ev_TXID ev \<and> ar_Status a = StatusProcessed)"
proof -
  have fil: "filter (\<lambda>e. ev_ID e \<noteq> i) (map (\<lambda>e. if ev_ID e = i then f e else e) es) = filter (\<lambda>e. ev_ID e \<noteq> i) es"
    if "\<And>e. ev_ID (f e) = ev_ID e" for i es and f :: "NFTEvent \<Rightarrow> NFTEvent"
    using that by (induction es) auto
  show ?thesis
    by (simp add: round_effect_def delete_row_def save_archive_def update_row_def archive_of_def fil)
qed

text \<open>
  An event that is pushed again is not stored again: a second push of the same input changes
  nothing, and when no statement fails it reports success.
\<close>

theorem PushNftEvent_idempotent:
  assumes "postgres_driver P" and "PushNftEvent C P uuid now i s = (Inr v, s')"
    and "PushNftEvent C P uuid' now' i s' = (r, s'')"
  shows "pg_db s'' = pg_db s'"
proof -
  let ?e = "nft_event_of C i"
  from postgres_driver.CreateNftEvent_cases [OF assms(1), of uuid' now' ?e s']
  obtain q d where c: "CreateNftEvent P uuid' now' ?e s' = (q, s'\<lparr>pg_db := d\<rparr>)"
    and d: "d = pg_db s' \<or> insert_nft_event uuid' now' ?e (pg_db s') = Inr d" by blast
  have s'': "s'' = s'\<lparr>pg_db := d\<rparr>"
    using assms(3) c by (cases q) (auto simp: PushNftEvent_def Queue_PushNftEvent_def act_simps)
  from postgres_driver.Exec_law [OF assms(1), of "insert_nft_event uuid now ?e" s] assms(2)
  have "insert_nft_event uuid now ?e (pg_db s) = Inl ErrDuplicateKey \<and> s' = s \<or>
      insert_nft_event uuid now ?e (pg_db s) = Inr (pg_db s')"
    by (auto simp: PushNftEvent_def Queue_PushNftEvent_def CreateNftEvent_def act_simps split: sum.splits if_splits)
  then have "d = pg_db s'"
    using d insert_again insert_refused [of uuid now ?e "pg_db s" ErrDuplicateKey uuid' now'] by auto
  with s'' show ?thesis by simp
qed

theorem PushNftEvent_idempotent_witness:
  "pg_db (snd (PushNftEvent sample_codec (mem_postgres (\<lambda>_. False)) ''u2'' 10 sample_input one_event_pg)) = pg_db one_event_pg"
  by (rule PushNftEvent_idempotent [OF mem_postgres_lawful push_sample surjective_pairing])

text \<open>
  Once an event has been archived, pushing it again is refused only when its index in the
  transaction is 0: the archive does not keep the index, so the same event with another index is
  stored and processed a second time.
\<close>

theorem archived_event_replayed:
  assumes "ev_key (nft_event_of C i) = ev_key ev" and "d' = round_effect uuid now ev StageDone outcome d"
    and "\<And>x. x \<in> set (tb_events d) \<Longrightarrow> ev_key x = ev_key ev \<Longrightarrow> ev_ID x = ev_ID ev"
    and "\<And>a. a \<in> set (tb_archived d) \<Longrightarrow> \<not> archived_as ev a"
  shows "insert_nft_event uuid' now' (nft_event_of C i) d' =
    (if ni_EventIndex i = 0 then Inr d'
     else Inr (d'\<lparr>tb_events := tb_events d' @ [(nft_event_of C i)\<lparr>ev_ID := uuid', ev_CreatedAt := now', ev_UpdatedAt := now'\<rparr>]\<rparr>))"
proof -
  have same: "archived_as (nft_event_of C i) a = archived_as ev a" for a
    using assms(1) by (auto simp: archived_as_def ev_key_def)
  have ix: "ni_EventIndex i = ev_EventIndex ev" using assms(1) by (simp add: ev_key_def nft_event_of_def)
  have "tb_archived d' = tb_archived d @ [archive_of uuid now ev]"
    by (auto simp: assms(2) round_effect_def delete_row_def save_archive_def update_row_def split: sum.split)
  then have "(\<exists>a\<in>set (tb_archived d'). archived_as (nft_event_of C i) a) \<longleftrightarrow> ev_EventIndex ev = 0"
    using assms(4) by (auto simp: same archived_as_own)
  moreover have "\<not> (\<exists>x\<in>set (tb_events d'). ev_key x = ev_key (nft_event_of C i))"
    using assms(3) by (auto simp: assms(1,2) round_effect_rows)
  ultimately show ?thesis by (simp add: insert_nft_event_def ix)
qed

theorem archived_event_replayed_witness:
  "\<exists>d. insert_nft_event ''u3'' 11 (nft_event_of sample_codec sample_input)
      (round_effect ''a1'' 10 stored_event StageDone (Inr ()) (pg_db one_event_pg)) = Inr d \<and>
    map ev_ID (tb_events d) = [''u3'']"
proof -
  have "ev_key (nft_event_of sample_codec sample_input) = ev_key stored_event"
    by (simp add: sample_input_event ev_key_def stored_event_def)
  from archived_event_replayed [OF this refl, of "pg_db one_event_pg" "''u3''" 11 "''a1''" 10 "Inr ()"]
  show ?thesis
    by (simp add: one_event_pg_def empty_pg_def sample_input_def round_effect_rows)
qed

end
