(* ===== verification/EventFlow.thy ===== *)
theory EventFlow
  imports EventLife
begin

text \<open>
  A whole round of a worker, processor included: the processors touch the gateway and the workflow
  service only, so a round is what the processor does and the one change it means to make to the tables; and what
  the processor of the first stage does to the token and the account tokens of a transfer.
\<close>

section \<open>The processors do not touch the event store\<close>

definition pg_frame :: "(world, 'a) act \<Rightarrow> bool" where
  "pg_frame m \<longleftrightarrow> (\<forall>w p. m (w\<lparr>w_pg := p\<rparr>) = (case m w of (r, w') \<Rightarrow> (r, w'\<lparr>w_pg := p\<rparr>)))"

lemma pg_frame_retA [intro]: "pg_frame (retA a)"
  by (simp add: pg_frame_def act_simps)

lemma pg_frame_throwA [intro]: "pg_frame (throwA e)"
  by (simp add: pg_frame_def act_simps)

lemma pg_frame_on_gw [intro]: "pg_frame (on_gw m)"
  by (simp add: pg_frame_def act_simps split: prod.split)

lemma pg_frame_on_flows [intro]: "pg_frame (on_flows m)"
  by (simp add: pg_frame_def act_simps split: prod.split)

lemma pg_frame_bindA [intro]:
  assumes "pg_frame m" and "\<And>a. pg_frame (k a)"
  shows "pg_frame (bindA m k)"
  unfolding pg_frame_def
proof (intro allI)
  fix w p
  show "bindA m k (w\<lparr>w_pg := p\<rparr>) = (case bindA m k w of (r, w') \<Rightarrow> (r, w'\<lparr>w_pg := p\<rparr>))"
  proof (cases "m w")
    case (Pair r w')
    with assms show ?thesis by (cases r) (simp_all add: pg_frame_def bindA_run)
  qed
qed

lemma pg_frame_tryA [intro]: "pg_frame m \<Longrightarrow> pg_frame (tryA m)"
  by (simp add: pg_frame_def act_simps split: prod.split)

lemma pg_frame_log_error [intro]: "pg_frame m \<Longrightarrow> pg_frame (log_error m)"
  unfolding log_error_def by blast

lemma pg_frame_split [intro]:
  "\<lbrakk>pg_frame m; \<And>a. pg_frame (f a)\<rbrakk> \<Longrightarrow> pg_frame (case x of None \<Rightarrow> m | Some a \<Rightarrow> f a)"
  "\<lbrakk>\<And>a. pg_frame (g a); \<And>b. pg_frame (h b)\<rbrakk> \<Longrightarrow> pg_frame (case y of Inl a \<Rightarrow> g a | Inr b \<Rightarrow> h b)"
  "\<lbrakk>pg_frame m; pg_frame n\<rbrakk> \<Longrightarrow> pg_frame (if b then m else n)"
  by (auto split: option.split sum.split)

lemma pg_frame_lookup: "pg_frame (lookup_token e i)"
  unfolding lookup_token_def by (intro pg_frame_bindA pg_frame_tryA pg_frame_on_gw) (auto split: sum.split)

lemma pg_frame_handlers:
  "pg_frame (updateLatestOwner e ev)" "pg_frame (updateOwnerAndProvenance e ev)"
  "pg_frame (indexTokenSale e ev)" "pg_frame (refreshTokenData e ev)"
  unfolding updateLatestOwner_def updateOwnerAndProvenance_def indexTokenSale_def refreshTokenData_def Let_def
  by (intro pg_frame_split pg_frame_bindA pg_frame_lookup pg_frame_tryA pg_frame_log_error pg_frame_on_gw
      pg_frame_on_flows pg_frame_retA)+

text \<open>A handler that succeeds does so with any state of the event store, and leaves it as it is.\<close>

lemma pg_frame_run:
  assumes "pg_frame m" and "m w = (r, w')"
  shows "m (w\<lparr>w_pg := p\<rparr>) = (r, w'\<lparr>w_pg := p\<rparr>)"
  using assms by (simp add: pg_frame_def)

section \<open>One round\<close>

text \<open>
  A round in which an event was taken runs the processor on it, and leaves the tables as they were or with the one change the
  round means to make, the row unlocked in both cases: for any table, any database and any outcome of the processor.
\<close>

lemma worker_round_taken:
  assumes P: "postgres_driver (ep_postgres e)" and frame: "pg_frame (h e ev)" and run: "h e ev s = (outcome, s')"
    and taken: "GetNftEventTransaction (ep_postgres e) (nft_filters w (ep_now e)) (w_pg s) = (Inr (ev, t), p)"
  shows "\<exists>q rows. nft_worker_round e uuid w h s = (Inr True, s'\<lparr>w_pg := (w_pg s)\<lparr>pg_db := q\<rparr>\<rparr>) \<and>
    nft_rows (nft_filters w (ep_now e)) (w_pg s) = ev # rows \<and>
    (q = pg_db (w_pg s) \<or> q = round_effect uuid (ep_now e) ev (nw_nextStage w) outcome (pg_db (w_pg s)))"
proof -
  let ?q = "nft_filters w (ep_now e)"
  from taken obtain rows n where rows: "nft_rows ?q (w_pg s) = ev # rows"
    and t: "t = \<lparr>tx_state = TxOpen, tx_locks = [ev_ID ev], tx_pending = id, tx_ticks = n\<rparr>"
    and p: "p = lock_row (ev_ID ev) (w_pg s)"
    by (cases rule: postgres_driver.GetNftEventTransaction_cases [OF P, of ?q "w_pg s"]) auto
  have free: "ev_ID ev \<notin> set (pg_locked (w_pg s))" using nft_rows_mem [OF rows] by simp
  then have "filter (\<lambda>i. i \<noteq> ev_ID ev) (pg_locked (w_pg s)) = pg_locked (w_pg s)" by (intro filter_True) auto
  then have unlock: "unlock_rows t p = w_pg s"
    by (simp add: t p unlock_rows_def lock_row_def)
  from postgres_driver.finish_nft_event_effect [OF P, of t uuid "ep_now e" ev "nw_nextStage w" outcome p] obtain q where
    fin: "run_tx (finish_nft_event (ep_postgres e) uuid (ep_now e) ev (nw_nextStage w) outcome) t p = (Inr (), (w_pg s)\<lparr>pg_db := q\<rparr>)"
    and q: "q = pg_db p \<or> q = round_effect uuid (ep_now e) ev (nw_nextStage w) outcome (pg_db p)"
    unfolding unlock by (auto simp: t)
  have h: "h e ev (s\<lparr>w_pg := p\<rparr>) = (outcome, s'\<lparr>w_pg := p\<rparr>)" by (rule pg_frame_run [OF frame run])
  have "nft_worker_round e uuid w h s = (Inr True, s'\<lparr>w_pg := (w_pg s)\<lparr>pg_db := q\<rparr>\<rparr>)"
    by (simp add: nft_worker_round_def act_simps taken h fin)
  with q rows show ?thesis by (auto simp: p lock_row_def)
qed

section \<open>The owner of a transferred token\<close>

lemma find_key_and:
  "distinct (map k ds) \<Longrightarrow> List.find (\<lambda>d. k d = i) ds = Some t \<Longrightarrow> r t \<Longrightarrow> List.find (\<lambda>d. k d = i \<and> r d) ds = Some t"
proof (induction ds)
  case (Cons d ds)
  then show ?case by (cases "k d = i") auto
qed simp

context mongo_store
begin

lemma index_account_token_get:
  assumes "db_inv s" and "at_OwnerAccount a = owner"
  shows "\<exists>ats. index_account_token st owner a s = (Inr (), s\<lparr>db_accountTokens := ats\<rparr>) \<and>
    (\<forall>k. k \<noteq> at_key a \<longrightarrow> get_at k (s\<lparr>db_accountTokens := ats\<rparr>) = get_at k s) \<and>
    get_at (at_key a) (s\<lparr>db_accountTokens := ats\<rparr>) = (case get_at (at_key a) s of
        None \<Rightarrow> Some a
      | Some d \<Rightarrow> Some (if at_LastActivityTime d < at_LastActivityTime a - index_margin then set_account_token a d else d))"
proof -
  let ?k = "\<lambda>d. at_key d = at_key a"
  let ?u = "upd1 ?k (set_account_token a) (db_accountTokens s)"
  have same: "List.find ?k ?u = (case List.find ?k (db_accountTokens s) of None \<Rightarrow> None
      | Some d \<Rightarrow> Some (if ?k d then set_account_token a d else d))"
    by (rule find_upd1) simp
  have other: "List.find (\<lambda>d. at_key d = k) ?u = List.find (\<lambda>d. at_key d = k) (db_accountTokens s)" if "k \<noteq> at_key a" for k
    by (rule find_upd1_other) (use that in auto)
  show ?thesis
  proof (cases "get_at (at_key a) s")
    case None
    then show ?thesis
      by (intro exI [of _ "db_accountTokens s @ [a]"])
         (auto simp: index_account_token_run [OF assms] get_at_def find_append split: option.split)
  next
    case (Some d)
    then have d: "List.find ?k (db_accountTokens s) = Some d" "?k d" by (auto simp: get_at_def dest: find_Some_set)
    show ?thesis
    proof (cases "at_LastActivityTime d < at_LastActivityTime a - index_margin")
      case True
      with Some d same other show ?thesis
        by (intro exI [of _ ?u]) (simp add: index_account_token_run [OF assms] get_at_def)
    next
      case False
      with Some show ?thesis
        by (intro exI [of _ "db_accountTokens s"]) (simp add: index_account_token_run [OF assms] get_at_def)
    qed
  qed
qed

lemma push_known_token:
  assumes "db_inv s" and "get_token j s = Some t" and "tok_Provenances t = Some ps"
    and "tok_LastActivityTime t < prov_Timestamp p" and "prov_FormerOwner p = Some fo"
  shows "\<exists>s'. PushProvenance st now j (tok_LastRefreshedTime t) p s = (Inr (), s') \<and> db_inv s' \<and>
    get_token j s' = Some ((set_single_owner (prov_Owner p) (prov_Timestamp p) now t)\<lparr>tok_Provenances := Some (bson_Provenance p # ps)\<rparr>) \<and>
    (\<forall>i. i \<noteq> j \<longrightarrow> get_token i s' = get_token i s) \<and> db_accountTokens s' = db_accountTokens s"
proof -
  let ?q = "\<lambda>d. tok_IndexID d = j \<and> tok_LastRefreshedTime d = tok_LastRefreshedTime t \<and> tok_LastActivityTime d < prov_Timestamp p"
  let ?t = "(set_single_owner (prov_Owner p) (prov_Timestamp p) now t)\<lparr>tok_Provenances := Some (bson_Provenance p # ps)\<rparr>"
  let ?s = "s\<lparr>db_tokens := upd1 ?q (\<lambda>_. ?t) (db_tokens s)\<rparr>"
  have "distinct (map tok_IndexID (db_tokens s))" using assms(1) by (simp add: db_inv_def)
  then have find: "List.find ?q (db_tokens s) = Some t"
    using assms(2,4) by (intro find_key_and) (simp_all add: get_token_def)
  have pushed: "push_provenance now p t = Inr ?t" by (simp add: push_provenance_def assms(3))
  have j: "tok_IndexID t = j" using get_token_index [OF assms(2)] by simp
  have index: "tok_IndexID ?t = j" using j by (simp add: set_single_owner_def)
  have run: "PushProvenance st now j (tok_LastRefreshedTime t) p s = (Inr (), ?s)"
    by (simp add: PushProvenance_run [OF assms(5)] find pushed)
  have "List.find (\<lambda>d. tok_IndexID d = j) (upd1 ?q (\<lambda>_. ?t) (db_tokens s)) =
      (case List.find (\<lambda>d. tok_IndexID d = j) (db_tokens s) of None \<Rightarrow> None | Some d \<Rightarrow> Some (if ?q d then ?t else d))"
    by (rule find_upd1) (use index in auto)
  then have get: "get_token j ?s = Some ?t" using assms(2,4) j by (simp add: get_token_def)
  have other: "get_token i ?s = get_token i s" if "i \<noteq> j" for i
    unfolding get_token_def by (simp, rule find_upd1_other) (use that index in auto)
  have "db_inv ?s"
    using keepsD [OF keeps_PushProvenance assms(1), of now j "tok_LastRefreshedTime t" p] run by simp
  with run get other show ?thesis by (intro exI [of _ ?s]) simp
qed

end

lemma updateLatestOwner_transfer:
  assumes conn: "grpc_connection (ep_grpcGateway e) i" and st: "mongo_store (indexerStore i)"
    and inv: "db_inv (gw_db (w_gw s))" and pr: "\<And>t. t \<in> set (db_tokens (gw_db (w_gw s))) \<Longrightarrow> printable_token t"
    and ev: "ev_Type ev = NftEventTypeTransfer" "printable (ev_TXTime ev)" "printable (ev_CreatedAt ev)" "printable (ep_now e)"
    and t: "get_token (event_index_id e ev) (gw_db (w_gw s)) = Some t" "\<not> tok_Fungible t" "tok_Provenances t = Some ps"
      "tok_LastActivityTime t < ev_TXTime ev"
  shows "\<exists>d. updateLatestOwner e ev s = (Inr (), s\<lparr>w_gw := (w_gw s)\<lparr>gw_db := d\<rparr>\<rparr>) \<and>
    get_token (event_index_id e ev) d = Some (t\<lparr>tok_Owner := ev_To ev, tok_Owners := Some [ev_To ev \<mapsto> 1],
      tok_OwnersArray := Some [ev_To ev], tok_LastActivityTime := ev_TXTime ev, tok_LastRefreshedTime := srv_now i,
      tok_Provenances := Some (bson_Provenance (event_provenance e ev) # ps)\<rparr>) \<and>
    (\<forall>j. j \<noteq> event_index_id e ev \<longrightarrow> get_token j d = get_token j (gw_db (w_gw s))) \<and>
    (\<forall>k. k \<noteq> (event_index_id e ev, ev_To ev) \<longrightarrow> get_at k d = get_at k (gw_db (w_gw s))) \<and>
    (get_at (event_index_id e ev, ev_To ev) (gw_db (w_gw s)) = None \<longrightarrow>
      get_at (event_index_id e ev, ev_To ev) d = Some (event_account_token e ev t))"
proof -
  let ?j = "event_index_id e ev" and ?db = "gw_db (w_gw s)" and ?p = "event_provenance e ev"
  let ?u = "wire_tok (sent_Token t)"
  have u: "tok_Fungible ?u = tok_Fungible t" "tok_LastRefreshedTime ?u = tok_LastRefreshedTime t" "tok_Base ?u = tok_Base t"
    by (simp_all add: wire_tok_def sent_Token_def)
  have look: "lookup_token e ?j s = (Inr (Some ?u), s)"
    using grpc_connection.GetTokenByIndexID_through [OF conn pr st, where indexID = ?j] t(1)
    by (simp add: lookup_token_def act_simps)
  have "printable_token t" using t(1) pr by (auto simp: get_token_def dest: find_Some_set)
  then have lock: "printable (tok_LastRefreshedTime t)" by (simp add: printable_token_def)
  have sent: "sent_Provenance ?p = ?p" by (simp add: sent_Provenance_def event_provenance_def DerefString_def)
  have pt: "printable (prov_Timestamp ?p)" using ev(2) by (simp add: event_provenance_def)
  have "prov_FormerOwner ?p = Some (ev_From ev)" "tok_LastActivityTime t < prov_Timestamp ?p"
    using t(4) by (simp_all add: event_provenance_def)
  from mongo_store.push_known_token [OF st inv t(1,3) this(2,1), of "srv_now i"] obtain d1 where
    push: "PushProvenance (indexerStore i) (srv_now i) ?j (tok_LastRefreshedTime t) ?p ?db = (Inr (), d1)" "db_inv d1"
    and tok: "get_token ?j d1 = Some ((set_single_owner (prov_Owner ?p) (prov_Timestamp ?p) (srv_now i) t)\<lparr>tok_Provenances := Some (bson_Provenance ?p # ps)\<rparr>)"
    and others: "\<And>i. i \<noteq> ?j \<Longrightarrow> get_token i d1 = get_token i ?db" and ats: "db_accountTokens d1 = db_accountTokens ?db"
    by blast
  let ?a = "event_account_token e ev ?u"
  have a: "?a = event_account_token e ev t" "at_OwnerAccount ?a = ev_To ev" "at_key ?a = (?j, ev_To ev)"
    by (simp_all add: event_account_token_def u at_key_def)
  have pa: "list_all printable_account_token [?a]"
    using ev(3,4) by (simp add: printable_account_token_def event_account_token_def)
  from mongo_store.index_account_token_get [OF st push(2) a(2)] obtain xs where
    idx: "index_account_token (indexerStore i) (ev_To ev) ?a d1 = (Inr (), d1\<lparr>db_accountTokens := xs\<rparr>)"
    and keep: "\<And>k. k \<noteq> (?j, ev_To ev) \<Longrightarrow> get_at k (d1\<lparr>db_accountTokens := xs\<rparr>) = get_at k d1"
    and new: "get_at (?j, ev_To ev) (d1\<lparr>db_accountTokens := xs\<rparr>) = (case get_at (?j, ev_To ev) d1 of
        None \<Rightarrow> Some ?a
      | Some d \<Rightarrow> Some (if at_LastActivityTime d < at_LastActivityTime ?a - index_margin then set_account_token ?a d else d))"
    unfolding a(3) by blast
  have run: "updateLatestOwner e ev s = (Inr (), s\<lparr>w_gw := (w_gw s)\<lparr>gw_db := d1\<lparr>db_accountTokens := xs\<rparr>\<rparr>\<rparr>)"
    using t(2) idx push(1)
    by (simp add: updateLatestOwner_def Let_def ev(1) bindA_run [of "lookup_token e ?j"] look u
        grpc_connection.PushProvenance_through [OF conn lock pt] sent
        grpc_connection.IndexAccountTokens_through [OF conn pa] IndexAccountTokens_def act_simps)
  have "get_at k d1 = get_at k ?db" for k by (simp add: get_at_def ats)
  with run tok others keep new show ?thesis
    by (intro exI [of _ "d1\<lparr>db_accountTokens := xs\<rparr>"])
       (auto simp: set_single_owner_def event_provenance_def a(1) get_token_def)
qed

section \<open>Properties\<close>

definition sample_processor :: processor where
  "sample_processor = \<lparr>ep_environment = ''production'', ep_ipfsGateways = [], ep_postgres = mem_postgres (\<lambda>_. False),
     ep_grpcGateway = connect sample_server, ep_worker = mem_cadence, ep_indexerStore = mem_store [],
     ep_contract = Inl (Errorf ''no contract''), ep_http_get = (\<lambda>_. Inl (Errorf ''no network'')),
     ep_ext = sample_ext, ep_codec = sample_codec, ep_unmarshal_metadata = (\<lambda>_. Inl (Errorf ''json'')),
     ep_unmarshal_registry = (\<lambda>_. Inl (Errorf ''json'')), ep_WorkflowGet = (\<lambda>_. retA ()), ep_now = 100\<rparr>"

definition world_with :: "Token list \<Rightarrow> world" where
  "world_with ts = \<lparr>w_pg = pg_one [] [] stored_event, w_gw = \<lparr>gw_db = empty_db\<lparr>db_tokens := ts\<rparr>, gw_cache = []\<rparr>, w_flows = []\<rparr>"


definition known_token :: Token where
  "known_token = sample_token\<lparr>tok_IndexID := event_index_id sample_processor stored_event\<rparr>"



definition later_event :: NFTEvent where
  "later_event = stored_event\<lparr>ev_ID := ''u2'', ev_TokenID := ''2'', ev_TXID := ''0x2'', ev_CreatedAt := 10\<rparr>"


end
