(* ===== verification/SeriesProcessor.thy ===== *)
theory SeriesProcessor
  imports EventFlow
begin

text \<open>
  The events of the series registry (\<open>series_registry_event_processor.go\<close> and the second worker loop of
  \<open>server.go\<close>): reading the documents of a series, indexing a series as a collection with the tokens
  of its registry, and the rounds of the four workers. The processors write to the document store
  directly, the same that is behind the gateway.
\<close>

section \<open>Documents\<close>

definition on_store :: "(db, 'a) act \<Rightarrow> (world, 'a) act" where
  "on_store m = on_gw (on_db m)"

lemma on_store_run [act_simps]:
  "on_store m s = (case m (gw_db (w_gw s)) of (r, d) \<Rightarrow> (r, s\<lparr>w_gw := (w_gw s)\<lparr>gw_db := d\<rparr>\<rparr>))"
  by (simp add: on_store_def act_simps on_db_def split: prod.split)

definition collectionID :: "string \<Rightarrow> string" where
  "collectionID seriesID = ''series-registry-'' @ seriesID"

definition validDataURI :: "string \<Rightarrow> bool" where
  "validDataURI uri \<longleftrightarrow> IsIPFSURI uri \<or> IsHTTPSURI uri"

text \<open>The gateways one after the other; the error of the last one is wrapped.\<close>

fun read_from_gateways :: "processor \<Rightarrow> string \<Rightarrow> string list \<Rightarrow> string res" where
  "read_from_gateways e uri [] = Inl (Errorf ''failed to read data from all IPFS gateways'')"
| "read_from_gateways e uri (gateway # gateways) =
     (case ReadFromURL (ep_http_get e) (ResolveIPFSURI (ep_ext e) gateway uri) of
        Inr data \<Rightarrow> Inr data
      | Inl _ \<Rightarrow> read_from_gateways e uri gateways)"

definition ReadDataURI :: "processor \<Rightarrow> string \<Rightarrow> string res" where
  "ReadDataURI e uri =
     (if \<not> validDataURI uri then Inl (Errorf ''invalid data URI'')
      else if IsHTTPSURI uri then ReadFromURL (ep_http_get e) uri
      else if ep_ipfsGateways e = [] then Inl (Errorf ''no IPFS gateways configured'')
      else read_from_gateways e uri (ep_ipfsGateways e))"

section \<open>The processors\<close>

text \<open>\<open>data[key].(string)\<close>\<close>

definition string_field :: "(string \<times> json) list \<Rightarrow> string \<Rightarrow> string option" where
  "string_field data k = (case map_of data k of None \<Rightarrow> None | Some v \<Rightarrow> as_string v)"

definition event_string :: "(string \<times> json) list \<Rightarrow> string \<Rightarrow> string res" where
  "event_string data k =
     (case string_field data k of
        None \<Rightarrow> Inl (Errorf (k @ '' cannot be found in event data or is not a string''))
      | Some v \<Rightarrow> Inr v)"

definition big_int :: "string \<Rightarrow> int res" where
  "big_int s = (case big_SetString 10 s of None \<Rightarrow> Inl (Errorf ''cannot convert series_id to big int'') | Some n \<Rightarrow> Inr n)"

record series_data =
  sd_seriesID :: string
  sd_metadata :: SeriesMetadata
  sd_tokenData :: TokenRegistry
  sd_artists :: "string list"

text \<open>What \<open>indexCollection\<close> reads before it writes: the event, the contract and its two documents.\<close>

definition read_series :: "processor \<Rightarrow> SeriesRegistryEvent \<Rightarrow> series_data res" where
  "read_series e event =
     bindR (Unmarshal (ep_codec e) (se_Data event)) (\<lambda>data.
     bindR (event_string data ''series_id'') (\<lambda>seriesID.
     bindR (big_int seriesID) (\<lambda>seriesIDInt.
     bindR (ep_contract e) (\<lambda>contract.
     bindR (GetSeriesMetadataURI contract seriesIDInt) (\<lambda>metadataURI.
     bindR (ReadDataURI e metadataURI) (\<lambda>metadataBytes.
     bindR (ep_unmarshal_metadata e metadataBytes) (\<lambda>metadata.
     bindR (GetSeriesTokenDataURI contract seriesIDInt) (\<lambda>tokenDataURI.
     bindR (ReadDataURI e tokenDataURI) (\<lambda>tokenDataBytes.
     bindR (ep_unmarshal_registry e tokenDataBytes) (\<lambda>tokenData.
     bindR (GetSeriesArtistAddresses contract seriesIDInt) (\<lambda>artists.
     Inr \<lparr>sd_seriesID = seriesID, sd_metadata = metadata, sd_tokenData = tokenData, sd_artists = artists\<rparr>)))))))))))"

definition series_collection :: "SeriesRegistryEvent \<Rightarrow> series_data \<Rightarrow> Collection option \<Rightarrow> Collection" where
  "series_collection event d found =
     (let collection = (case found of
            Some c \<Rightarrow> c
          | None \<Rightarrow> \<lparr>col_ID = collectionID (sd_seriesID d), col_ExternalID = sd_seriesID d, col_Creators = [],
              col_Name = [], col_Description = [], col_Items = 0, col_ImageURL = [],
              col_Contracts = \<lparr>ca_Ethereum = \<lparr>eca_ERC721 = [], eca_ERC1155 = []\<rparr>, ca_Tezos = \<lparr>tca_FA2 = []\<rparr>\<rparr>,
              col_Published = True, col_Source = ''SeriesRegistry'', col_ExternalURL = [], col_Metadata = [],
              col_LastUpdatedTime = 0, col_CreatedAt = se_CreatedAt event\<rparr>)
      in collection\<lparr>col_Creators := sd_artists d, col_Name := sm_Name (sd_metadata d),
           col_Description := sm_Description (sd_metadata d), col_ImageURL := sm_Image (sd_metadata d),
           col_Contracts := AllContractAddresses (sd_tokenData d), col_ExternalURL := sm_ExternalURL (sd_metadata d),
           col_Metadata := sm_Metadata (sd_metadata d), col_Items := TotalSupply (sd_tokenData d),
           col_LastUpdatedTime := se_CreatedAt event\<rparr>)"

text \<open>
  The three loops over the registry: a workflow per token. They pass on the workflows, the index
  ids and the map of the collection assets.
\<close>

record indexing =
  ix_futures :: "workflow list"
  ix_indexIDs :: "string list"
  ix_assets :: "string \<rightharpoonup> CollectionAsset"

definition series_asset :: "string \<Rightarrow> string \<Rightarrow> string \<Rightarrow> CollectionAsset" where
  "series_asset cid runID indexID = \<lparr>cas_CollectionID = cid, cas_TokenIndexID = indexID, cas_Edition = 0,
     cas_LastActivityTime = 0, cas_RunID = runID\<rparr>"

definition index_series_token ::
    "processor \<Rightarrow> string \<Rightarrow> string \<Rightarrow> string \<Rightarrow> string \<times> string \<Rightarrow> indexing \<Rightarrow> (world, indexing) act" where
  "index_series_token e cid runID blockchain token acc =
     (case token of (contract, tokenID) \<Rightarrow>
       bindA (on_flows (ExecuteIndexTokenWorkflow (ep_worker e) [] contract tokenID False False)) (\<lambda>future.
       let indexID = TokenIndexID (ep_ext e) blockchain contract tokenID
       in retA \<lparr>ix_futures = ix_futures acc @ [future], ix_indexIDs = ix_indexIDs acc @ [indexID],
                ix_assets = (ix_assets acc)(indexID \<mapsto> series_asset cid runID indexID)\<rparr>))"

definition index_series_tokens :: "processor \<Rightarrow> string \<Rightarrow> string \<Rightarrow> TokenRegistry \<Rightarrow> (world, indexing) act" where
  "index_series_tokens e cid runID tr =
     (let ethereum = x_EthereumBlockchain (ep_ext e); tezos = x_TezosBlockchain (ep_ext e)
      in bindA (foldA (index_series_token e cid runID ethereum) (registry_pairs (ec_ERC721 (tr_Ethereum tr)))
                 \<lparr>ix_futures = [], ix_indexIDs = [], ix_assets = Map.empty\<rparr>) (\<lambda>acc.
         bindA (foldA (index_series_token e cid runID ethereum) (registry_pairs (ec_ERC1155 (tr_Ethereum tr))) acc) (\<lambda>acc.
         foldA (index_series_token e cid runID tezos) (registry_pairs (tc_FA2 (tr_Tezos tr))) acc)))"

text \<open>A key that the map does not have reads as the zero value.\<close>

definition asset_at :: "indexing \<Rightarrow> string \<Rightarrow> CollectionAsset" where
  "asset_at acc i = (case ix_assets acc i of Some a \<Rightarrow> a | None \<Rightarrow>
     \<lparr>cas_CollectionID = [], cas_TokenIndexID = [], cas_Edition = 0, cas_LastActivityTime = 0, cas_RunID = []\<rparr>)"

definition store_collection_assets ::
    "processor \<Rightarrow> string \<Rightarrow> Collection \<Rightarrow> indexing \<Rightarrow> (db, unit) act" where
  "store_collection_assets e runID collection acc =
     (let st = ep_indexerStore e
      in bindA (FilterBurnedIndexIDs st (ix_indexIDs acc)) (\<lambda>liveTokenIndexIDs.
         bindA (IndexCollectionAsset st (col_ID collection) (map (asset_at acc) liveTokenIndexIDs)) (\<lambda>_.
         bindA (DeleteDeprecatedCollectionAsset st (col_ID collection) runID) (\<lambda>_.
         IndexCollection st (ep_now e) (collection\<lparr>col_Items := int (length liveTokenIndexIDs)\<rparr>)))))"

definition indexCollection :: "processor \<Rightarrow> string \<Rightarrow> SeriesRegistryEvent \<Rightarrow> (world, unit) act" where
  "indexCollection e runID event =
     bindA (liftR (read_series e event)) (\<lambda>d.
     bindA (on_store (GetCollectionByID (ep_indexerStore e) (collectionID (sd_seriesID d)))) (\<lambda>found.
     let collection = series_collection event d found
     in bindA (on_store (IndexCollection (ep_indexerStore e) (ep_now e) collection)) (\<lambda>_.
        bindA (index_series_tokens e (col_ID collection) runID (sd_tokenData d)) (\<lambda>acc.
        bindA (forA (ep_WorkflowGet e) (ix_futures acc)) (\<lambda>_.
        on_store (store_collection_assets e runID collection acc))))))"

definition deleteCollection :: "processor \<Rightarrow> SeriesRegistryEvent \<Rightarrow> (world, unit) act" where
  "deleteCollection e event =
     bindA (liftR (bindR (Unmarshal (ep_codec e) (se_Data event)) (\<lambda>data. event_string data ''series_id''))) (\<lambda>seriesID.
     bindA (on_store (GetCollectionByID (ep_indexerStore e) (collectionID seriesID))) (\<lambda>found.
     case found of
       None \<Rightarrow> retA ()
     | Some collection \<Rightarrow> on_store (DeleteCollection (ep_indexerStore e) (col_ID collection))))"

definition replaceCollectionCreator :: "processor \<Rightarrow> SeriesRegistryEvent \<Rightarrow> (world, unit) act" where
  "replaceCollectionCreator e event =
     bindA (liftR (Unmarshal (ep_codec e) (se_Data event))) (\<lambda>data.
     bindA (liftR (event_string data ''old_address'')) (\<lambda>oldAddress.
     bindA (liftR (event_string data ''new_address'')) (\<lambda>newAddress.
     on_store (ReplaceCollectionCreator (ep_indexerStore e) (ep_now e) oldAddress newAddress))))"

definition updateCollectionCreators :: "processor \<Rightarrow> SeriesRegistryEvent \<Rightarrow> (world, unit) act" where
  "updateCollectionCreators e event =
     bindA (liftR (Unmarshal (ep_codec e) (se_Data event))) (\<lambda>data.
     bindA (liftR (event_string data ''series_id'')) (\<lambda>seriesID.
     bindA (liftR (big_int seriesID)) (\<lambda>seriesIDInt.
     bindA (liftR (ep_contract e)) (\<lambda>contract.
     bindA (liftR (GetSeriesArtistAddresses contract seriesIDInt)) (\<lambda>artists.
     on_store (UpdateCollectionCreators (ep_indexerStore e) (ep_now e) (collectionID seriesID) artists))))))"

section \<open>The worker loop\<close>

record series_worker =
  sw_currentStage :: Stage
  sw_nextStage :: Stage
  sw_types :: "string list"
  sw_deferSecond :: int

definition series_filters :: "series_worker \<Rightarrow> gotime \<Rightarrow> SeriesRegistryEvent \<Rightarrow> bool" where
  "series_filters w now ev \<longleftrightarrow> se_Type ev \<in> set (sw_types w) \<and>
     se_Status ev \<in> {StatusCreated, StatusProcessing} \<and>
     se_Stage ev = SeriesEventStages (sw_currentStage w) \<and>
     (sw_deferSecond w > 0 \<longrightarrow> se_CreatedAt ev < now - sw_deferSecond w * 1000)"

text \<open>
  The end of a round: after an error of the processor the loop goes on without a commit or a rollback, and
  the transaction stays as it is. The next stage is looked up among the stages of the NFT events.
\<close>

definition finish_series_event ::
    "postgres \<Rightarrow> gotime \<Rightarrow> SeriesRegistryEvent \<Rightarrow> Stage \<Rightarrow> unit res \<Rightarrow> (txs, unit) act" where
  "finish_series_event P now event nextStage outcome =
     (case outcome of
        Inl _ \<Rightarrow> or_rollback P (UpdateSeriesRegistryEvent P now event [] StatusFailed)
      | Inr _ \<Rightarrow>
          bindA (if nextStage = StageDone then or_rollback P (UpdateSeriesRegistryEvent P now event [] StatusProcessed)
                 else or_rollback P (UpdateSeriesRegistryEvent P now event (NftEventStages nextStage) [])) (\<lambda>_.
          log_error (pg_Commit P)))"

text \<open>Run the statements of a transaction that stays open; the transaction is handed back.\<close>

definition in_tx :: "(txs, unit) act \<Rightarrow> tx \<Rightarrow> (pg_state, tx) act" where
  "in_tx m t = (\<lambda>s. case m (t, s) of (r, (t', s')) \<Rightarrow> (case r of Inl e \<Rightarrow> Inl e | Inr _ \<Rightarrow> Inr t', s'))"

definition series_worker_round ::
    "processor \<Rightarrow> series_worker \<Rightarrow> (processor \<Rightarrow> SeriesRegistryEvent \<Rightarrow> (world, unit) act) \<Rightarrow> (world, bool) act" where
  "series_worker_round e w handler =
     bindA (tryA (on_pg (GetSeriesRegistryEventTransaction (ep_postgres e) (series_filters w (ep_now e))))) (\<lambda>r.
     case r of
       Inl _ \<Rightarrow> retA False
     | Inr (event, t) \<Rightarrow>
         bindA (on_pg (in_tx (or_rollback (ep_postgres e)
           (UpdateSeriesRegistryEvent (ep_postgres e) (ep_now e) event [] StatusProcessing)) t)) (\<lambda>t.
         bindA (tryA (handler e event)) (\<lambda>outcome.
         bindA (on_pg (run_tx (finish_series_event (ep_postgres e) (ep_now e) event (sw_nextStage w) outcome) t)) (\<lambda>_.
         retA True))))"

definition IndexCollection_worker :: series_worker where
  "IndexCollection_worker = \<lparr>sw_currentStage = StageInit, sw_nextStage = StageDone,
     sw_types = [''register_series'', ''update_series''], sw_deferSecond = 0\<rparr>"

definition DeleteCollection_worker :: series_worker where
  "DeleteCollection_worker = \<lparr>sw_currentStage = StageInit, sw_nextStage = StageDone,
     sw_types = [''delete_series''], sw_deferSecond = 0\<rparr>"

definition ReplaceCollectionCreator_worker :: series_worker where
  "ReplaceCollectionCreator_worker = \<lparr>sw_currentStage = StageInit, sw_nextStage = StageDone,
     sw_types = [''update_artist_address'', ''assign_series''], sw_deferSecond = 0\<rparr>"

definition UpdateCollectionCreators_worker :: series_worker where
  "UpdateCollectionCreators_worker = \<lparr>sw_currentStage = StageInit, sw_nextStage = StageDone,
     sw_types = [''opt_in_collaboration'', ''opt_out_series''], sw_deferSecond = 0\<rparr>"

definition series_workers :: "string \<Rightarrow> (series_worker \<times> (processor \<Rightarrow> SeriesRegistryEvent \<Rightarrow> (world, unit) act)) list" where
  "series_workers runID =
     [(IndexCollection_worker, \<lambda>e. indexCollection e runID), (DeleteCollection_worker, deleteCollection),
      (ReplaceCollectionCreator_worker, replaceCollectionCreator),
      (UpdateCollectionCreators_worker, updateCollectionCreators)]"

section \<open>Reading documents\<close>

definition gateway_read :: "processor \<Rightarrow> string \<Rightarrow> string \<Rightarrow> string res" where
  "gateway_read e uri gateway = ReadFromURL (ep_http_get e) (ResolveIPFSURI (ep_ext e) gateway uri)"

lemma read_from_gateways_find:
  "read_from_gateways e uri gs =
    (case List.find (\<lambda>g. ok (gateway_read e uri g)) gs of
       None \<Rightarrow> Inl (Errorf ''failed to read data from all IPFS gateways'')
     | Some g \<Rightarrow> gateway_read e uri g)"
  by (induction gs) (auto simp: gateway_read_def ok_def split: sum.split)

text \<open>
  A document that \<open>ReadDataURI\<close> returns has at least one byte and at most 10 MiB; it is what the link itself delivers for \<open>https\<close>, and for \<open>ipfs\<close> what the first
  of the configured gateways delivers that delivers a document at all.
\<close>

theorem ReadDataURI_bounds:
  assumes "ReadDataURI e uri = Inr data"
  shows "0 < length data \<and> length data \<le> 10 * 2 ^ 20 \<and>
    (if IsHTTPSURI uri then ReadFromURL (ep_http_get e) uri = Inr data
     else IsIPFSURI uri \<and> (\<exists>g. List.find (\<lambda>g. ok (gateway_read e uri g)) (ep_ipfsGateways e) = Some g \<and>
       gateway_read e uri g = Inr data))"
proof (cases "IsHTTPSURI uri")
  case True
  with assms have "ReadFromURL (ep_http_get e) uri = Inr data" by (simp add: ReadDataURI_def split: if_splits)
  with True show ?thesis using ReadFromURL_bounds [of "ep_http_get e" uri data] by (simp add: maxContentLength_def)
next
  case False
  with assms have ipfs: "IsIPFSURI uri" and "read_from_gateways e uri (ep_ipfsGateways e) = Inr data"
    by (auto simp: ReadDataURI_def validDataURI_def split: if_splits)
  then obtain g where g: "List.find (\<lambda>g. ok (gateway_read e uri g)) (ep_ipfsGateways e) = Some g" "gateway_read e uri g = Inr data"
    by (auto simp: read_from_gateways_find split: option.splits)
  with False ipfs show ?thesis
    using ReadFromURL_bounds [of "ep_http_get e" "ResolveIPFSURI (ep_ext e) g uri" data]
    by (simp add: gateway_read_def maxContentLength_def)
qed

definition gateway_processor :: processor where
  "gateway_processor = sample_processor\<lparr>ep_ipfsGateways := [''down.io'', ''up.io''],
     ep_http_get := (\<lambda>u. if u = ''https://up.io/ipfs/Qm'' then Inr \<lparr>http_StatusCode = 200, http_ContentLength = 2, http_Body = (''{}'', None)\<rparr>
       else Inl (Errorf ''no route''))\<rparr>"

theorem ReadDataURI_bounds_witness:
  "ReadDataURI gateway_processor ''ipfs://Qm'' = Inr ''{}'' \<and> (0::nat) < length ''{}'' \<and>
   (\<exists>g. List.find (\<lambda>g. ok (gateway_read gateway_processor ''ipfs://Qm'' g)) (ep_ipfsGateways gateway_processor) = Some g)"
proof -
  have "ReadDataURI gateway_processor ''ipfs://Qm'' = Inr ''{}''"
    by (simp add: ReadDataURI_def validDataURI_def IsIPFSURI_def IsHTTPSURI_def has_prefix_def gateway_processor_def
        sample_processor_def ReadFromURL_def ResolveIPFSURI_def sample_ext_def trim_left_char_def read_all_limited_def
        maxContentLength_def)
  from ReadDataURI_bounds [OF this] this show ?thesis
    by (auto simp: IsHTTPSURI_def has_prefix_def)
qed

section \<open>Indexing a series\<close>

definition token_id :: "ext \<Rightarrow> string \<Rightarrow> string \<times> string \<Rightarrow> string" where
  "token_id X blockchain = (\<lambda>(contract, tokenID). TokenIndexID X blockchain contract tokenID)"

definition series_index_ids :: "ext \<Rightarrow> TokenRegistry \<Rightarrow> string list" where
  "series_index_ids X tr =
     map (token_id X (x_EthereumBlockchain X)) (registry_pairs (ec_ERC721 (tr_Ethereum tr))) @
     map (token_id X (x_EthereumBlockchain X)) (registry_pairs (ec_ERC1155 (tr_Ethereum tr))) @
     map (token_id X (x_TezosBlockchain X)) (registry_pairs (tc_FA2 (tr_Tezos tr)))"

text \<open>The store has no asset of the run yet, and each asset of a collection once.\<close>

definition fresh_run :: "string \<Rightarrow> string \<Rightarrow> world \<Rightarrow> bool" where
  "fresh_run c run s \<longleftrightarrow> distinct (map cas_key (db_collectionAssets (gw_db (w_gw s)))) \<and>
     list_all (\<lambda>a. cas_CollectionID a = c \<longrightarrow> cas_RunID a \<noteq> run) (db_collectionAssets (gw_db (w_gw s)))"

definition live_ids :: "string list \<Rightarrow> db \<Rightarrow> string list" where
  "live_ids ids s = filter (\<lambda>i. i \<notin> tok_IndexID ` {t \<in> set (db_tokens s). tok_Burned t}) ids"

definition holds_assets :: "string \<Rightarrow> string \<Rightarrow> string list \<Rightarrow> indexing \<Rightarrow> bool" where
  "holds_assets cid run ids acc \<longleftrightarrow> ix_indexIDs acc = ids \<and> (\<forall>i\<in>set ids. ix_assets acc i = Some (series_asset cid run i))"

lemma foldA_index_tokens:
  assumes accepts: "\<And>w ws. StartWorkflow (ep_worker e) w ws = (Inr (), ws @ [w])"
    and "holds_assets cid run ids acc" and "fresh_run cid run s"
  shows "\<exists>acc' s'. foldA (index_series_token e cid run b) toks acc s = (Inr acc', s') \<and>
    holds_assets cid run (ids @ map (token_id (ep_ext e) b) toks) acc' \<and> fresh_run cid run s' \<and> w_gw s' = w_gw s"
  using assms(2,3)
proof (induction toks arbitrary: ids acc s)
  case Nil
  then show ?case by (simp add: act_simps)
next
  case (Cons tok toks)
  obtain c i where tok: "tok = (c, i)" by (cases tok)
  obtain acc1 s1 where one: "index_series_token e cid run b tok acc s = (Inr acc1, s1)"
    "holds_assets cid run (ids @ [token_id (ep_ext e) b tok]) acc1" "fresh_run cid run s1" "w_gw s1 = w_gw s"
    using Cons.prems accepts
    by (auto simp: index_series_token_def tok act_simps ExecuteIndexTokenWorkflow_def Let_def holds_assets_def
        token_id_def fresh_run_def)
  from Cons.IH [OF one(2,3)] one(1,4) show ?case by (auto simp: bindA_run)
qed

lemma index_series_tokens_run:
  assumes "\<And>w ws. StartWorkflow (ep_worker e) w ws = (Inr (), ws @ [w])" and "fresh_run cid run s"
  shows "\<exists>acc s'. index_series_tokens e cid run tr s = (Inr acc, s') \<and>
    holds_assets cid run (series_index_ids (ep_ext e) tr) acc \<and> fresh_run cid run s' \<and> w_gw s' = w_gw s"
proof -
  let ?E = "x_EthereumBlockchain (ep_ext e)" and ?T = "x_TezosBlockchain (ep_ext e)"
  have "holds_assets cid run [] \<lparr>ix_futures = [], ix_indexIDs = [], ix_assets = Map.empty\<rparr>"
    by (simp add: holds_assets_def)
  note one = foldA_index_tokens [OF assms(1) this assms(2), of ?E "registry_pairs (ec_ERC721 (tr_Ethereum tr))"]
  then obtain a1 s1 where 1: "foldA (index_series_token e cid run ?E) (registry_pairs (ec_ERC721 (tr_Ethereum tr)))
      \<lparr>ix_futures = [], ix_indexIDs = [], ix_assets = Map.empty\<rparr> s = (Inr a1, s1)"
    "holds_assets cid run ([] @ map (token_id (ep_ext e) ?E) (registry_pairs (ec_ERC721 (tr_Ethereum tr)))) a1"
    "fresh_run cid run s1" "w_gw s1 = w_gw s" by blast
  obtain a2 s2 where 2: "foldA (index_series_token e cid run ?E) (registry_pairs (ec_ERC1155 (tr_Ethereum tr))) a1 s1 = (Inr a2, s2)"
    "holds_assets cid run (([] @ map (token_id (ep_ext e) ?E) (registry_pairs (ec_ERC721 (tr_Ethereum tr)))) @
       map (token_id (ep_ext e) ?E) (registry_pairs (ec_ERC1155 (tr_Ethereum tr)))) a2"
    "fresh_run cid run s2" "w_gw s2 = w_gw s1"
    using foldA_index_tokens [OF assms(1) 1(2,3)] by blast
  obtain a3 s3 where 3: "foldA (index_series_token e cid run ?T) (registry_pairs (tc_FA2 (tr_Tezos tr))) a2 s2 = (Inr a3, s3)"
    "holds_assets cid run ((([] @ map (token_id (ep_ext e) ?E) (registry_pairs (ec_ERC721 (tr_Ethereum tr)))) @
       map (token_id (ep_ext e) ?E) (registry_pairs (ec_ERC1155 (tr_Ethereum tr)))) @
       map (token_id (ep_ext e) ?T) (registry_pairs (tc_FA2 (tr_Tezos tr)))) a3"
    "fresh_run cid run s3" "w_gw s3 = w_gw s2"
    using foldA_index_tokens [OF assms(1) 2(2,3)] by blast
  from 1 2 3 show ?thesis
    by (intro exI [of _ a3] exI [of _ s3]) (simp add: index_series_tokens_def Let_def bindA_run series_index_ids_def)
qed

lemma wait_all:
  assumes "\<And>w u. fresh_run cid run u \<Longrightarrow> \<exists>u'. get w u = (Inr (), u') \<and> fresh_run cid run u'"
    and "fresh_run cid run s"
  shows "\<exists>s'. forA get fs s = (Inr (), s') \<and> fresh_run cid run s'"
  using assms(2)
proof (induction fs arbitrary: s)
  case (Cons f fs)
  from assms(1) [OF Cons.prems] obtain u where u: "get f s = (Inr (), u)" "fresh_run cid run u" by blast
  from Cons.IH [OF u(2)] u(1) show ?case by (auto simp: bindA_run)
qed (simp add: act_simps)

lemma distinct_series_assets:
  "map cas_TokenIndexID (map (series_asset cid run) ids) = ids"
  by (simp add: series_asset_def comp_def)

lemma store_collection_assets_run:
  assumes "mongo_store (ep_indexerStore e)" and "holds_assets (col_ID c) run ids acc" and "distinct ids"
    and "distinct (map cas_key (db_collectionAssets s))"
    and "list_all (\<lambda>a. cas_CollectionID a = col_ID c \<longrightarrow> cas_RunID a \<noteq> run) (db_collectionAssets s)"
    and "\<not> time_IsZero (col_LastUpdatedTime c)"
  shows "\<exists>s'. store_collection_assets e run c acc s = (Inr (), s') \<and>
    {a \<in> set (db_collectionAssets s'). cas_CollectionID a = col_ID c} = series_asset (col_ID c) run ` set (live_ids ids s') \<and>
    List.find (\<lambda>x. col_ID x = col_ID c) (db_collections s') = Some (c\<lparr>col_Items := int (length (live_ids ids s'))\<rparr>) \<and>
    distinct (map cas_key (db_collectionAssets s')) \<and> db_tokens s' = db_tokens s"
proof -
  let ?st = "ep_indexerStore e" and ?live = "live_ids ids s"
  let ?cs = "map (series_asset (col_ID c) run) ?live"
  let ?c = "c\<lparr>col_Items := int (length ?live)\<rparr>"
  have live: "FilterBurnedIndexIDs ?st ids s = (Inr ?live, s)"
    by (simp add: FilterBurnedIndexIDs_def bindA_run mongo_store.find_tokens_run [OF assms(1)] Let_def act_simps live_ids_def)
      (rule filter_cong [OF refl], auto)
  have "map (asset_at acc) ?live = ?cs"
    using assms(2) by (auto simp: holds_assets_def asset_at_def live_ids_def)
  have dist: "distinct (map cas_TokenIndexID ?cs)"
    unfolding distinct_series_assets using assms(3) by (simp add: live_ids_def)
  have of_run: "list_all (\<lambda>a. cas_CollectionID a = col_ID c \<and> cas_RunID a = run) ?cs"
    by (auto simp: list_all_iff series_asset_def)
  obtain as where as: "bindA (IndexCollectionAsset ?st (col_ID c) ?cs) (\<lambda>_. DeleteDeprecatedCollectionAsset ?st (col_ID c) run) s
      = (Inr (), s\<lparr>db_collectionAssets := as\<rparr>)" "{a \<in> set as. cas_CollectionID a = col_ID c} = set ?cs" "distinct (map cas_key as)"
    using collection_refresh_run [OF assms(1,4) dist of_run assms(5)] by blast
  let ?s = "s\<lparr>db_collectionAssets := as, db_collections := put_first (\<lambda>x. col_ID x = col_ID c) ?c (db_collections s)\<rparr>"
  have assets: "map (asset_at acc) ?live = ?cs" by fact
  have ids: "ix_indexIDs acc = ids" using assms(2) by (simp add: holds_assets_def)
  have "store_collection_assets e run c acc s =
      bindA (IndexCollectionAsset ?st (col_ID c) (map (asset_at acc) ?live)) (\<lambda>_.
        bindA (DeleteDeprecatedCollectionAsset ?st (col_ID c) run) (\<lambda>_. IndexCollection ?st (ep_now e) ?c)) s"
    unfolding store_collection_assets_def Let_def ids by (simp add: bindA_run [of "FilterBurnedIndexIDs ?st ids"] live)
  also have "\<dots> = bindA (bindA (IndexCollectionAsset ?st (col_ID c) ?cs) (\<lambda>_. DeleteDeprecatedCollectionAsset ?st (col_ID c) run))
        (\<lambda>_. IndexCollection ?st (ep_now e) ?c) s"
    unfolding assets bindA_assoc ..
  also have "\<dots> = (Inr (), ?s)"
    using assms(6) by (subst bindA_run) (simp add: as(1) mongo_store.IndexCollection_run [OF assms(1)])
  finally show ?thesis
    using as(2,3) by (intro exI [of _ ?s]) (simp add: live_ids_def find_put_first)
qed

lemma series_collection_id:
  "(\<And>c. found = Some c \<Longrightarrow> col_ID c = collectionID (sd_seriesID d)) \<Longrightarrow>
    col_ID (series_collection event d found) = collectionID (sd_seriesID d)"
  by (simp add: series_collection_def split: option.split)

text \<open>
  C28: A series event whose documents can be read, and whose registry lists no token twice, is indexed when the workflow
  service accepts every workflow and every workflow finishes, whatever the workflows change meanwhile apart from the assets of
  this run. Afterwards the collection of the series holds exactly the tokens of the registry that are not burned, with the run's id
  and the edition and the activity time reset to zero, each once. Its document has the artists of the contract, the name, the
  description, the image, the external link and the metadata of the metadata document, the contracts of the registry,
  the number of its live tokens and the time of the event; the external id, the source, the time of creation and
  whether it is published are those it had before, or those of a new series.
\<close>

theorem indexCollection_synchronises:
  assumes "mongo_store (ep_indexerStore e)" and accepts: "\<And>w ws. StartWorkflow (ep_worker e) w ws = (Inr (), ws @ [w])"
    and read: "read_series e event = Inr d" and "distinct (series_index_ids (ep_ext e) (sd_tokenData d))"
    and fresh: "fresh_run (collectionID (sd_seriesID d)) run s"
    and wait: "\<And>w u. fresh_run (collectionID (sd_seriesID d)) run u \<Longrightarrow>
      \<exists>u'. ep_WorkflowGet e w u = (Inr (), u') \<and> fresh_run (collectionID (sd_seriesID d)) run u'"
    and "\<not> time_IsZero (se_CreatedAt event)"
  shows "\<exists>s' c. indexCollection e run event s = (Inr (), s') \<and>
    {a \<in> set (db_collectionAssets (gw_db (w_gw s'))). cas_CollectionID a = collectionID (sd_seriesID d)} =
      series_asset (collectionID (sd_seriesID d)) run `
        set (live_ids (series_index_ids (ep_ext e) (sd_tokenData d)) (gw_db (w_gw s'))) \<and>
    fst (GetCollectionByID (ep_indexerStore e) (collectionID (sd_seriesID d)) (gw_db (w_gw s'))) = Inr (Some c) \<and>
    distinct (map cas_key (db_collectionAssets (gw_db (w_gw s')))) \<and>
    col_ID c = collectionID (sd_seriesID d) \<and> col_Creators c = sd_artists d \<and> col_Name c = sm_Name (sd_metadata d) \<and>
    col_Description c = sm_Description (sd_metadata d) \<and> col_ImageURL c = sm_Image (sd_metadata d) \<and>
    col_ExternalURL c = sm_ExternalURL (sd_metadata d) \<and> col_Metadata c = sm_Metadata (sd_metadata d) \<and>
    col_Contracts c = AllContractAddresses (sd_tokenData d) \<and> col_LastUpdatedTime c = se_CreatedAt event \<and>
    col_Items c = int (length (live_ids (series_index_ids (ep_ext e) (sd_tokenData d)) (gw_db (w_gw s')))) \<and>
    (case List.find (\<lambda>x. col_ID x = collectionID (sd_seriesID d)) (db_collections (gw_db (w_gw s))) of
       None \<Rightarrow> col_ExternalID c = sd_seriesID d \<and> col_Published c \<and> col_Source c = ''SeriesRegistry'' \<and>
         col_CreatedAt c = se_CreatedAt event
     | Some old \<Rightarrow> col_ExternalID c = col_ExternalID old \<and> col_Published c = col_Published old \<and>
         col_Source c = col_Source old \<and> col_CreatedAt c = col_CreatedAt old)"
proof -
  let ?st = "ep_indexerStore e" and ?cid = "collectionID (sd_seriesID d)" and ?ids = "series_index_ids (ep_ext e) (sd_tokenData d)"
  define found where "found = List.find (\<lambda>c. col_ID c = ?cid) (db_collections (gw_db (w_gw s)))"
  define c where "c = series_collection event d found"
  have id: "col_ID c = ?cid"
    unfolding c_def by (rule series_collection_id) (auto simp: found_def dest: find_Some_set)
  have time: "col_LastUpdatedTime c = se_CreatedAt event" by (simp add: c_def series_collection_def Let_def)
  obtain cs where s1: "on_store (IndexCollection ?st (ep_now e) c) s = (Inr (), s\<lparr>w_gw := (w_gw s)\<lparr>gw_db := (gw_db (w_gw s))\<lparr>db_collections := cs\<rparr>\<rparr>\<rparr>)"
    by (simp add: act_simps mongo_store.IndexCollection_run [OF assms(1)] Let_def)
  let ?s1 = "s\<lparr>w_gw := (w_gw s)\<lparr>gw_db := (gw_db (w_gw s))\<lparr>db_collections := cs\<rparr>\<rparr>\<rparr>"
  have "fresh_run ?cid run ?s1" using fresh by (simp add: fresh_run_def)
  from index_series_tokens_run [OF accepts this, of "sd_tokenData d"] obtain acc s2 where
    s2: "index_series_tokens e ?cid run (sd_tokenData d) ?s1 = (Inr acc, s2)" "holds_assets ?cid run ?ids acc" "fresh_run ?cid run s2"
    by blast
  from wait_all [where get = "ep_WorkflowGet e" and fs = "ix_futures acc", OF wait s2(3)] obtain s3 where
    s3: "forA (ep_WorkflowGet e) (ix_futures acc) s2 = (Inr (), s3)" "fresh_run ?cid run s3" by blast
  have start: "indexCollection e run event s = on_store (store_collection_assets e run c acc) s3"
    using read s1 s2(1) s3(1) id
    by (simp add: indexCollection_def bindA_run liftR_run on_store_run [of "GetCollectionByID ?st ?cid"]
        mongo_store.GetCollectionByID_run [OF assms(1)] found_def [symmetric] c_def [symmetric])
  have "holds_assets (col_ID c) run ?ids acc" using s2(2) id by simp
  moreover have "distinct (map cas_key (db_collectionAssets (gw_db (w_gw s3))))"
    "list_all (\<lambda>a. cas_CollectionID a = col_ID c \<longrightarrow> cas_RunID a \<noteq> run) (db_collectionAssets (gw_db (w_gw s3)))"
    using s3(2) id by (simp_all add: fresh_run_def)
  moreover have "\<not> time_IsZero (col_LastUpdatedTime c)" using time assms(7) by simp
  ultimately obtain d' where d': "store_collection_assets e run c acc (gw_db (w_gw s3)) = (Inr (), d')"
    "{a \<in> set (db_collectionAssets d'). cas_CollectionID a = ?cid} = series_asset ?cid run ` set (live_ids ?ids d')"
    "List.find (\<lambda>x. col_ID x = ?cid) (db_collections d') = Some (c\<lparr>col_Items := int (length (live_ids ?ids d'))\<rparr>)"
    "distinct (map cas_key (db_collectionAssets d'))"
    using store_collection_assets_run [OF assms(1) _ assms(4), where s = "gw_db (w_gw s3)" and c = c and run = run and acc = acc]
    unfolding id by blast
  have c: "col_Creators c = sd_artists d" "col_Name c = sm_Name (sd_metadata d)" "col_Description c = sm_Description (sd_metadata d)"
    "col_ImageURL c = sm_Image (sd_metadata d)" "col_ExternalURL c = sm_ExternalURL (sd_metadata d)"
    "col_Metadata c = sm_Metadata (sd_metadata d)" "col_Contracts c = AllContractAddresses (sd_tokenData d)"
    by (simp_all add: c_def series_collection_def Let_def)
  have kept: "case found of
       None \<Rightarrow> col_ExternalID c = sd_seriesID d \<and> col_Published c \<and> col_Source c = ''SeriesRegistry'' \<and> col_CreatedAt c = se_CreatedAt event
     | Some old \<Rightarrow> col_ExternalID c = col_ExternalID old \<and> col_Published c = col_Published old \<and>
         col_Source c = col_Source old \<and> col_CreatedAt c = col_CreatedAt old"
    by (simp add: c_def series_collection_def Let_def split: option.split)
  let ?s' = "s3\<lparr>w_gw := (w_gw s3)\<lparr>gw_db := d'\<rparr>\<rparr>"
  show ?thesis
    using kept
    by (intro exI [of _ ?s'] exI [of _ "c\<lparr>col_Items := int (length (live_ids ?ids d'))\<rparr>"])
      (cases found; simp add: start on_store_run d' mongo_store.GetCollectionByID_run [OF assms(1)] c id time flip: found_def)
qed

definition series_registry :: TokenRegistry where
  "series_registry = \<lparr>tr_Ethereum = \<lparr>ec_ERC721 = [(''0xc'', [''1'', ''2''])], ec_ERC1155 = []\<rparr>, tr_Tezos = \<lparr>tc_FA2 = [(''KT1'', [''3''])]\<rparr>\<rparr>"

definition series_metadata :: SeriesMetadata where
  "series_metadata = \<lparr>sm_Name = ''Series'', sm_Description = [], sm_Image = [], sm_ExternalURL = [], sm_Metadata = [], sm_MetadataVersion = []\<rparr>"

definition series_processor :: processor where
  "series_processor = sample_processor\<lparr>
     ep_http_get := (\<lambda>_. Inr \<lparr>http_StatusCode = 200, http_ContentLength = 2, http_Body = (''{}'', None)\<rparr>),
     ep_contract := Inr \<lparr>GetSeriesMetadataURI = (\<lambda>_. Inr ''https://m.io''), GetSeriesTokenDataURI = (\<lambda>_. Inr ''https://t.io''),
       GetSeriesArtistAddresses = (\<lambda>_. Inr [''0xA''])\<rparr>,
     ep_unmarshal_metadata := (\<lambda>_. Inr series_metadata), ep_unmarshal_registry := (\<lambda>_. Inr series_registry)\<rparr>"

definition series_event :: SeriesRegistryEvent where
  "series_event = \<lparr>se_ID = ''s1'', se_Type = ''register_series'', se_Contract = ''0xr'', se_TxID = ''0xt'', se_EventIndex = 1,
     se_TxTime = 5, se_Data = the (sample_Marshal [(''series_id'', JStr ''7'')]), se_Stage = ''stage_1_init'',
     se_Status = StatusCreated, se_CreatedAt = 6, se_UpdatedAt = 6\<rparr>"

lemma https_read: "ReadDataURI series_processor (CHR ''h'' # ''ttps://'' @ u) = Inr ''{}''"
  by (simp add: ReadDataURI_def validDataURI_def IsHTTPSURI_def has_prefix_def series_processor_def ReadFromURL_def
      read_all_limited_def maxContentLength_def)

lemma read_series_event:
  "read_series series_processor series_event =
    Inr \<lparr>sd_seriesID = ''7'', sd_metadata = series_metadata, sd_tokenData = series_registry, sd_artists = [''0xA'']\<rparr>"
proof -
  obtain t where t: "sample_Marshal [(''series_id'', JStr ''7'')] = Some t"
    by (cases "sample_Marshal [(''series_id'', JStr ''7'')]") (simp_all add: sample_Marshal_def safe_text_def)
  have data: "Unmarshal (ep_codec series_processor) (se_Data series_event) = Inr [(''series_id'', JStr ''7'')]"
    using sample_json_round [OF t]
    by (simp add: Unmarshal_def series_processor_def sample_processor_def sample_codec_def series_event_def t)
  have "big_int ''7'' = Inr 7"
    by (simp add: big_int_def big_SetString_def parse_nat_def digit_val_def)
  then show ?thesis
    using https_read [of "''m.io''"] https_read [of "''t.io''"]
    by (simp add: read_series_def data event_string_def string_field_def) (simp add: series_processor_def)
qed

theorem indexCollection_synchronises_witness:
  "\<exists>s' c. indexCollection series_processor ''run'' series_event (world_with []) = (Inr (), s') \<and>
     fst (GetCollectionByID (mem_store []) ''series-registry-7'' (gw_db (w_gw s'))) = Inr (Some c) \<and> col_Creators c = [''0xA'']"
proof -
  let ?e = series_processor
  let ?d = "\<lparr>sd_seriesID = ''7'', sd_metadata = series_metadata, sd_tokenData = series_registry, sd_artists = [''0xA'']\<rparr>"
  have st: "mongo_store (ep_indexerStore ?e)" using mem_store_lawful by (simp add: series_processor_def sample_processor_def)
  have accepts: "StartWorkflow (ep_worker ?e) w ws = (Inr (), ws @ [w])" for w ws
    by (simp add: series_processor_def sample_processor_def mem_cadence_def)
  have ids: "distinct (series_index_ids (ep_ext ?e) (sd_tokenData ?d))"
    by (simp add: series_index_ids_def registry_pairs_def series_registry_def series_processor_def sample_processor_def
        token_id_def TokenIndexID_def BlockchainAlias_def sample_ext_def sample_address_def EthereumChecksumAddress_def)
  have fresh: "fresh_run (collectionID (sd_seriesID ?d)) ''run'' (world_with [])"
    by (simp add: fresh_run_def world_with_def empty_db_def)
  have wait: "\<exists>u'. ep_WorkflowGet ?e w u = (Inr (), u') \<and> fresh_run (collectionID (sd_seriesID ?d)) ''run'' u'"
    if "fresh_run (collectionID (sd_seriesID ?d)) ''run'' u" for w u
    using that by (simp add: series_processor_def sample_processor_def act_simps)
  have time: "\<not> time_IsZero (se_CreatedAt series_event)" by (simp add: series_event_def time_IsZero_def)
  from indexCollection_synchronises [OF st accepts read_series_event ids fresh wait time] show ?thesis
    by (auto simp: series_processor_def sample_processor_def collectionID_def)
qed

end
