(* ===== verification/SeriesLife.thy ===== *)
theory SeriesLife
  imports SeriesProcessor
begin

text \<open>
  The rounds of the workers of series registry events: what a round leaves in the event table, for
  every lawful driver, and in detail for a driver whose statements do not fail.
\<close>

section \<open>Transactions that are not committed\<close>

context postgres_driver
begin

lemma or_rollback_keeps_db: "pg_db (snd (snd (or_rollback P m (t, s)))) = pg_db s"
proof (cases "m t")
  case (Pair r t')
  show ?thesis
  proof (cases r)
    case (Inl e)
    obtain r' where "pg_Rollback P (t', s) = (r', (t'\<lparr>tx_state := TxDone\<rparr>, unlock_rows t' s))" using Rollback_law by blast
    with Inl Pair show ?thesis
      by (simp add: or_rollback_def on_tx_def act_simps log_error_def unlock_rows_def)
  qed (use Pair in \<open>simp add: or_rollback_def on_tx_def act_simps\<close>)
qed

lemma GetSeriesRegistryEventTransaction_keeps_db:
  "pg_db (snd (GetSeriesRegistryEventTransaction P q s)) = pg_db s"
proof -
  from Begin_law [of s] consider (err) e where "pg_Begin P s = (Inl e, s)"
    | (began) n where "pg_Begin P s = (Inr \<lparr>tx_state = TxOpen, tx_locks = [], tx_pending = id, tx_ticks = n\<rparr>, s)" by blast
  then show ?thesis
  proof cases
    case err
    then show ?thesis by (simp add: GetSeriesRegistryEventTransaction_def act_simps)
  next
    case (began n)
    let ?t = "\<lparr>tx_state = TxOpen, tx_locks = [], tx_pending = id, tx_ticks = n\<rparr> :: tx"
    obtain r where roll: "pg_Rollback P (?t, s) = (r, (?t\<lparr>tx_state := TxDone\<rparr>, unlock_rows ?t s))"
      using Rollback_law by blast
    have failed: "pg_db (snd (GetSeriesRegistryEventTransaction P q s)) = pg_db s" if "pg_FirstSeries P q ?t s = (Inl e, s)" for e
      using began that roll
      by (simp add: GetSeriesRegistryEventTransaction_def query_or_abandon_def rollback_new_def act_simps unlock_rows_def)
    have "tx_state ?t = TxOpen" by simp
    from FirstSeries_law [OF this, of q s] consider (first) k where "pg_FirstSeries P q ?t s = first_row se_ID (series_rows q s) ?t k s"
      | (err) e where "pg_FirstSeries P q ?t s = (Inl e, s)" by blast
    then show ?thesis
    proof cases
      case first
      show ?thesis
      proof (cases "series_rows q s")
        case Nil
        with first failed show ?thesis by (simp add: first_row_def)
      next
        case (Cons ev rows)
        with first began show ?thesis
          by (simp add: GetSeriesRegistryEventTransaction_def query_or_abandon_def first_row_def act_simps lock_row_def)
      qed
    qed (use failed in blast)
  qed
qed

end

lemma in_tx_run: "in_tx m t s = (case m (t, s) of (r, (t', s')) \<Rightarrow> (case r of Inl e \<Rightarrow> Inl e | Inr _ \<Rightarrow> Inr t', s'))"
  by (simp add: in_tx_def)

lemma run_tx_run: "run_tx m t s = (case m (t, s) of (r, (_, s')) \<Rightarrow> (r, s'))"
  by (simp add: run_tx_def)

section \<open>Rounds with a driver whose statements do not fail\<close>

definition series_tx :: "SeriesRegistryEvent \<Rightarrow> tx" where
  "series_tx ev = \<lparr>tx_state = TxOpen, tx_locks = [se_ID ev], tx_pending = id, tx_ticks = 0\<rparr>"

lemma mem_take_series:
  assumes "series_rows q s = ev # rest"
  shows "GetSeriesRegistryEventTransaction (mem_postgres bad) q s = (Inr (ev, series_tx ev), lock_row (se_ID ev) s)"
  by (simp add: GetSeriesRegistryEventTransaction_def query_or_abandon_def mem_postgres_simps act_simps assms
      first_row_def series_tx_def)

lemma mem_update_series:
  assumes "tx_state t = TxOpen" and "stage \<noteq> [] \<or> status \<noteq> []"
  shows "or_rollback (mem_postgres (\<lambda>_. False)) (UpdateSeriesRegistryEvent (mem_postgres (\<lambda>_. False)) now ev stage status) (t, s) =
    (Inr (), (t\<lparr>tx_pending := update_series_row now (se_ID ev) stage status \<circ> tx_pending t, tx_ticks := Suc (tx_ticks t)\<rparr>, s))"
  using assms by (auto simp: or_rollback_def on_tx_def act_simps UpdateSeriesRegistryEvent_def mem_TxExec)

lemma series_rows_unlocked: "series_rows q s = ev # rest \<Longrightarrow> se_ID ev \<notin> set (pg_locked s)"
proof -
  assume "series_rows q s = ev # rest"
  then have "ev \<in> set (series_rows q s)" by simp
  then show ?thesis by (simp add: series_rows_def)
qed

lemma unlock_lock: "i \<notin> set (pg_locked s) \<Longrightarrow> tx_locks t = [i] \<Longrightarrow> unlock_rows t (lock_row i s) = s"
  by (cases s) (auto simp: unlock_rows_def lock_row_def filter_id_conv)

lemma locked_not_taken: "se_ID ev \<in> set (pg_locked s) \<Longrightarrow> se_ID ev \<notin> se_ID ` set (series_rows q s)"
  by (auto simp: series_rows_def)

definition series_processed :: "gotime \<Rightarrow> SeriesRegistryEvent \<Rightarrow> ev_db \<Rightarrow> ev_db" where
  "series_processed now ev d =
     update_series_row now (se_ID ev) [] StatusProcessed (update_series_row now (se_ID ev) [] StatusProcessing d)"

section \<open>Properties\<close>

text \<open>
  Whatever the driver does, a round in which the processor fails leaves the tables as they were: the
  failure of a series event is never recorded, for the status is set in a transaction that is not committed.
\<close>

theorem failed_series_event_not_recorded:
  assumes "postgres_driver (ep_postgres e)"
    and fails: "\<And>ev u. \<exists>err u'. h e ev u = (Inl err, u') \<and> w_pg u' = w_pg u"
  shows "pg_db (w_pg (snd (series_worker_round e w h s))) = pg_db (w_pg s)"
proof (cases "GetSeriesRegistryEventTransaction (ep_postgres e) (series_filters w (ep_now e)) (w_pg s)")
  case (Pair r p)
  have db: "pg_db p = pg_db (w_pg s)"
    using postgres_driver.GetSeriesRegistryEventTransaction_keeps_db [OF assms(1), of "series_filters w (ep_now e)" "w_pg s"] Pair
    by simp
  show ?thesis
  proof (cases r)
    case (Inl err)
    with Pair db show ?thesis by (simp add: series_worker_round_def act_simps)
  next
    case (Inr et)
    obtain ev t where et: "et = (ev, t)" by (cases et)
    let ?P = "ep_postgres e" and ?up = "\<lambda>st. UpdateSeriesRegistryEvent (ep_postgres e) (ep_now e) ev [] st"
    obtain r1 t1 p1 where one: "or_rollback ?P (?up StatusProcessing) (t, p) = (r1, (t1, p1))"
      by (cases "or_rollback ?P (?up StatusProcessing) (t, p)") auto
    have p1: "pg_db p1 = pg_db p"
      using postgres_driver.or_rollback_keeps_db [OF assms(1), of "?up StatusProcessing" t p] one by simp
    show ?thesis
    proof (cases r1)
      case (Inl err)
      with Pair Inr et one p1 db show ?thesis by (simp add: series_worker_round_def act_simps in_tx_run)
    next
      case r1: (Inr x)
      obtain err u where h: "h e ev (s\<lparr>w_pg := p1\<rparr>) = (Inl err, u)" "w_pg u = p1"
        using fails [of ev "s\<lparr>w_pg := p1\<rparr>"] by auto
      obtain r2 t2 p2 where two: "or_rollback ?P (?up StatusFailed) (t1, p1) = (r2, (t2, p2))"
        by (cases "or_rollback ?P (?up StatusFailed) (t1, p1)") auto
      have "pg_db p2 = pg_db p1"
        using postgres_driver.or_rollback_keeps_db [OF assms(1), of "?up StatusFailed" t1 p1] two by simp
      with Pair Inr et one p1 db r1 h two show ?thesis
        by (cases r2) (simp_all add: series_worker_round_def act_simps in_tx_run run_tx_run finish_series_event_def)
    qed
  qed
qed

lemma updateCollectionCreators_no_contract:
  "\<exists>err. updateCollectionCreators sample_processor ev u = (Inl err, u)"
proof -
  have "ep_contract sample_processor = Inl (Errorf ''no contract'')" by (simp add: sample_processor_def)
  then show ?thesis
    by (cases "Unmarshal (ep_codec sample_processor) (se_Data ev)")
      (auto simp: updateCollectionCreators_def act_simps split: sum.split)
qed

definition opt_in_event :: SeriesRegistryEvent where
  "opt_in_event = series_event\<lparr>se_Type := ''opt_in_collaboration''\<rparr>"

definition opt_in_world :: world where
  "opt_in_world = (world_with [])\<lparr>w_pg := \<lparr>pg_db = \<lparr>tb_events = [], tb_archived = [], tb_series = [opt_in_event]\<rparr>, pg_locked = []\<rparr>\<rparr>"

theorem failed_series_event_not_recorded_witness:
  "pg_db (w_pg (snd (series_worker_round sample_processor UpdateCollectionCreators_worker updateCollectionCreators opt_in_world))) =
    \<lparr>tb_events = [], tb_archived = [], tb_series = [opt_in_event]\<rparr>"
proof -
  have P: "postgres_driver (ep_postgres sample_processor)" using mem_postgres_lawful by (simp add: sample_processor_def)
  have "\<exists>err u'. updateCollectionCreators sample_processor ev u = (Inl err, u') \<and> w_pg u' = w_pg u" for ev u
    using updateCollectionCreators_no_contract by blast
  from failed_series_event_not_recorded [where h = updateCollectionCreators, OF P this] show ?thesis by (simp add: opt_in_world_def)
qed

text \<open>
  When no statement fails, a round of a worker takes the first event that waits for it. If the processor
  succeeds the event gets the status processed; if it fails, the tables stay as they were and the row stays
  locked by a transaction nobody ends, so that no worker ever finds the event again while the process lives.
\<close>

theorem series_round_outcome:
  assumes P: "ep_postgres e = mem_postgres (\<lambda>_. False)" and final: "sw_nextStage w = StageDone"
    and first: "series_rows (series_filters w (ep_now e)) (w_pg s) = ev # rest"
    and run: "h e ev (s\<lparr>w_pg := lock_row (se_ID ev) (w_pg s)\<rparr>) = (outcome, s')"
    and frame: "w_pg s' = lock_row (se_ID ev) (w_pg s)"
  shows "series_worker_round e w h s = (Inr True, s'\<lparr>w_pg := (case outcome of
      Inl _ \<Rightarrow> lock_row (se_ID ev) (w_pg s)
    | Inr _ \<Rightarrow> (w_pg s)\<lparr>pg_db := series_processed (ep_now e) ev (pg_db (w_pg s))\<rparr>)\<rparr>) \<and>
    se_ID ev \<notin> se_ID ` set (series_rows q (lock_row (se_ID ev) (w_pg s)))"
proof -
  have i: "se_ID ev \<notin> set (pg_locked (w_pg s))" by (rule series_rows_unlocked [OF first])
  have "se_ID ev \<notin> se_ID ` set (series_rows q (lock_row (se_ID ev) (w_pg s)))"
    by (rule locked_not_taken) (simp add: lock_row_def)
  moreover have "series_worker_round e w h s = (Inr True, s'\<lparr>w_pg := (case outcome of
      Inl _ \<Rightarrow> lock_row (se_ID ev) (w_pg s)
    | Inr _ \<Rightarrow> (w_pg s)\<lparr>pg_db := series_processed (ep_now e) ev (pg_db (w_pg s))\<rparr>)\<rparr>)"
  proof (cases outcome)
    case (Inl err)
    then show ?thesis
      by (simp add: series_worker_round_def act_simps P mem_take_series [OF first] in_tx_run run_tx_run mem_update_series
          series_tx_def run frame finish_series_event_def)
  next
    case (Inr x)
    have unlock: "unlock_rows t (lock_row (se_ID ev) (w_pg s)) = w_pg s" if "tx_locks t = [se_ID ev]" for t
      by (rule unlock_lock [OF i that])
    have "pg_db (lock_row (se_ID ev) (w_pg s)) = pg_db (w_pg s)" by (simp add: lock_row_def)
    with Inr show ?thesis
      by (simp add: series_worker_round_def act_simps P mem_take_series [OF first] in_tx_run run_tx_run mem_update_series
          series_tx_def run frame finish_series_event_def final log_error_def mem_Commit unlock series_processed_def)
  qed
  ultimately show ?thesis by blast
qed

theorem series_round_outcome_witness:
  "series_worker_round sample_processor UpdateCollectionCreators_worker updateCollectionCreators opt_in_world =
     (Inr True, opt_in_world\<lparr>w_pg := lock_row ''s1'' (w_pg opt_in_world)\<rparr>) \<and>
   ''s1'' \<notin> se_ID ` set (series_rows (\<lambda>_. True) (lock_row ''s1'' (w_pg opt_in_world)))"
proof -
  have P: "ep_postgres sample_processor = mem_postgres (\<lambda>_. False)" by (simp add: sample_processor_def)
  have rows: "series_rows (series_filters UpdateCollectionCreators_worker (ep_now sample_processor)) (w_pg opt_in_world) = opt_in_event # []"
    by (simp add: series_rows_def series_filters_def UpdateCollectionCreators_worker_def opt_in_world_def opt_in_event_def
        series_event_def SeriesEventStages_def)
  have i: "se_ID opt_in_event = ''s1''" by (simp add: opt_in_event_def series_event_def)
  have final: "sw_nextStage UpdateCollectionCreators_worker = StageDone" by (simp add: UpdateCollectionCreators_worker_def)
  obtain err where "updateCollectionCreators sample_processor opt_in_event
      (opt_in_world\<lparr>w_pg := lock_row (se_ID opt_in_event) (w_pg opt_in_world)\<rparr>) =
      (Inl err, opt_in_world\<lparr>w_pg := lock_row (se_ID opt_in_event) (w_pg opt_in_world)\<rparr>)"
    using updateCollectionCreators_no_contract by blast
  from series_round_outcome [where h = updateCollectionCreators, OF P final rows this, of "\<lambda>_. True"] show ?thesis
    by (simp add: i)
qed

end
