(* ===== verification/Emitters.thy ===== *)
theory Emitters
  imports EventLife
begin

text \<open>
  The event emitters: \<open>emitter/emitter.go\<close>, \<open>services/ethereum-event-emitter/service.go\<close> and
  \<open>services/tezos-event-emitter/service.go\<close>. They turn what the blockchains report into events for the event
  processor and keep in a parameter store the number of the block to start from after a restart.
  The Ethereum node, the contract binding, the TzKT client and the parameter store are parameters. A
  log line is not modelled: an error that is only logged ends the handler with \<open>retA ()\<close>, and the only error
  a handler returns is a panic.
\<close>

section \<open>Pushing events\<close>

text \<open>
  The client of the event processor; \<open>event_connection\<close> states that a call runs the handler or fails, and that the handler may
  have run all the same when only its answer is lost.
\<close>

record event_client =
  ec_PushNftEvent :: "NftEventInput \<Rightarrow> (pg_state, string \<times> int) act"
  ec_PushSeriesRegistryEvent :: "SeriesRegistryEventInput \<Rightarrow> (pg_state, string \<times> int) act"

locale event_connection =
  fixes ec :: event_client and C :: codec and P :: postgres
  assumes PushNftEvent_law: "(\<exists>uuid now. ec_PushNftEvent ec i s = rpc_call (PushNftEvent C P uuid now i) s) \<or>
      (\<exists>e. ec_PushNftEvent ec i s = (Inl e, s)) \<or>
      (\<exists>e uuid now. ec_PushNftEvent ec i s = (Inl e, snd (PushNftEvent C P uuid now i s)))"
    and PushSeriesRegistryEvent_law:
      "(\<exists>uuid now. ec_PushSeriesRegistryEvent ec i' s = rpc_call (PushSeriesRegistryEvent C P uuid now i') s) \<or>
       (\<exists>e. ec_PushSeriesRegistryEvent ec i' s = (Inl e, s)) \<or>
       (\<exists>e uuid now. ec_PushSeriesRegistryEvent ec i' s = (Inl e, snd (PushSeriesRegistryEvent C P uuid now i' s)))"

definition check_status :: "string \<times> int \<Rightarrow> ('s, unit) act" where
  "check_status r = (if snd r \<noteq> 200 then throwA (Errorf ''gRPC response status not 200'') else retA ())"

definition Emitter_PushNftEvent ::
    "event_client \<Rightarrow> codec \<Rightarrow> string \<Rightarrow> string \<Rightarrow> string \<Rightarrow> string \<Rightarrow> string \<Rightarrow> string \<Rightarrow> string \<Rightarrow> int \<Rightarrow> gotime \<Rightarrow> (pg_state, unit) act" where
  "Emitter_PushNftEvent ec C eventType fromAddress toAddress contractAddress blockchain tokenID txID eventIndex txTime =
     bindA (ec_PushNftEvent ec \<lparr>ni_Type = eventType, ni_Blockchain = blockchain, ni_Contract = contractAddress,
              ni_TokenID = tokenID, ni_From = fromAddress, ni_To = toAddress, ni_TXID = txID,
              ni_EventIndex = eventIndex, ni_TXTime = Some (timestamppb_New C txTime)\<rparr>) check_status"

text \<open>\<open>data\<close> is nil or the fields of the event.\<close>

definition Emitter_PushSeriesRegistryEvent ::
    "event_client \<Rightarrow> codec \<Rightarrow> string \<Rightarrow> string \<Rightarrow> string \<Rightarrow> (string \<times> json) list option \<Rightarrow> int \<Rightarrow> gotime \<Rightarrow> (pg_state, unit) act" where
  "Emitter_PushSeriesRegistryEvent ec C eventType contractAddress txID data eventIndex txTime =
     bindA (case data of
              None \<Rightarrow> retA None
            | Some d \<Rightarrow> (case structpb_NewStruct C d of
                None \<Rightarrow> throwA (Errorf ''structpb.NewStruct'')
              | Some nd \<Rightarrow> retA (Some nd))) (\<lambda>sd.
     bindA (ec_PushSeriesRegistryEvent ec \<lparr>si_Type = eventType, si_Contract = contractAddress, si_Data = sd,
              si_TxID = txID, si_EventIndex = eventIndex, si_TxTime = Some (timestamppb_New C txTime)\<rparr>) check_status)"

section \<open>The state of an emitter\<close>

text \<open>The parameter store keeps strings by name; a failed write may or may not have taken effect.\<close>

type_synonym params = "string \<rightharpoonup> string"

record parameter_store =
  ps_GetString :: "string \<Rightarrow> (params, string) act"
  ps_PutString :: "string \<Rightarrow> string \<Rightarrow> (params, unit) act"

locale parameters =
  fixes ps :: parameter_store
  assumes GetString_law: "ps_GetString ps k m = (case m k of None \<Rightarrow> Inl (Errorf ''ParameterNotFound'') | Some v \<Rightarrow> Inr v, m) \<or>
      (\<exists>e. ps_GetString ps k m = (Inl e, m))"
    and PutString_law: "ps_PutString ps k v m = (Inr (), m(k \<mapsto> v)) \<or>
      (\<exists>e m'. ps_PutString ps k v m = (Inl e, m') \<and> (m' = m \<or> m' = m(k \<mapsto> v)))"

text \<open>\<open>em_last\<close> is the package variable with the last block that was processed, 0 at the start.\<close>

record emitter_state =
  em_pg :: pg_state
  em_cache :: "cache_entry list"
  em_params :: params
  em_last :: int

definition em_on_pg :: "(pg_state, 'a) act \<Rightarrow> (emitter_state, 'a) act" where
  "em_on_pg m = zoomA em_pg (\<lambda>t s. s\<lparr>em_pg := t\<rparr>) m"

definition em_on_cache :: "(cache_entry list, 'a) act \<Rightarrow> (emitter_state, 'a) act" where
  "em_on_cache m = zoomA em_cache (\<lambda>t s. s\<lparr>em_cache := t\<rparr>) m"

definition em_on_params :: "(params, 'a) act \<Rightarrow> (emitter_state, 'a) act" where
  "em_on_params m = zoomA em_params (\<lambda>t s. s\<lparr>em_params := t\<rparr>) m"

lemma em_run [act_simps]:
  "em_on_pg m s = (case m (em_pg s) of (r, t) \<Rightarrow> (r, s\<lparr>em_pg := t\<rparr>))"
  "em_on_cache m2 s = (case m2 (em_cache s) of (r, t) \<Rightarrow> (r, s\<lparr>em_cache := t\<rparr>))"
  "em_on_params m3 s = (case m3 (em_params s) of (r, t) \<Rightarrow> (r, s\<lparr>em_params := t\<rparr>))"
  by (simp_all add: em_on_pg_def em_on_cache_def em_on_params_def zoomA_run)

text \<open>\<open>if n > last { last = n; put the number }\<close>, the end of every handler.\<close>

definition save_checkpoint :: "parameter_store \<Rightarrow> string \<Rightarrow> int \<Rightarrow> (emitter_state, unit) act" where
  "save_checkpoint ps key n = (\<lambda>s.
     if n > em_last s then log_error (em_on_params (ps_PutString ps key (nat_digits 10 (nat n)))) (s\<lparr>em_last := n\<rparr>)
     else (Inr (), s))"

section \<open>Ethereum\<close>

definition SeriesRegistryEventRegisterSeriesSignature :: string where
  "SeriesRegistryEventRegisterSeriesSignature = ''0x55d82c1e0fbf557aad06476685a2e64309e639e7b9763ffc3cffce16cb33f689''"
definition SeriesRegistryEventUpdateSeriesSignature :: string where
  "SeriesRegistryEventUpdateSeriesSignature = ''0x799805152d6bdc2303ac0dbac07df8ecbd5946b3f66426ab316f5f3670876096''"
definition SeriesRegistryEventDeleteSeriesSignature :: string where
  "SeriesRegistryEventDeleteSeriesSignature = ''0xd1cb5d9dfefdfe2dda1152786a83292f2b48e6c71981358d0f8b9eb7dd92d6f4''"
definition SeriesRegistryEventOptOutSeriesSignature :: string where
  "SeriesRegistryEventOptOutSeriesSignature = ''0xea7a51899c6e1e1b64a73aba8ff9ce974a129f879f83343326f6c09d42834620''"
definition SeriesRegistryEventUpdateArtistAddressSignature :: string where
  "SeriesRegistryEventUpdateArtistAddressSignature = ''0x4908f8df298e29e82b08d2367b89cc9e0a041d1fa94df05fb14872975cd56597''"
definition SeriesRegistryEventOptInCollaborationSignature :: string where
  "SeriesRegistryEventOptInCollaborationSignature = ''0xf1be82cf03ce2483decce6c97c3580b7298a5d3ba618b98bc41e7c208007f22f''"
definition SeriesRegistryEventAssignSeriesSignature :: string where
  "SeriesRegistryEventAssignSeriesSignature = ''0x848e74caa538f5af05a1af3c186cca1e9d0c6f0c25995648face20eea1e930c7''"

text \<open>A filter query: the addresses (any when there are none) and the alternatives for the first topic.\<close>

record filter_query =
  fq_Addresses :: "string list"
  fq_Topics :: "string list"

definition query_matches :: "filter_query \<Rightarrow> eth_log \<Rightarrow> bool" where
  "query_matches q l \<longleftrightarrow> (fq_Addresses q = [] \<or> log_Address l \<in> set (fq_Addresses q)) \<and>
     (case log_Topics l of [] \<Rightarrow> False | t # _ \<Rightarrow> t \<in> set (fq_Topics q))"

record series_binding =
  sb_ParseRegisterSeries :: "eth_log \<Rightarrow> int res"
  sb_ParseUpdateSeries :: "eth_log \<Rightarrow> int res"
  sb_ParseDeleteSeries :: "eth_log \<Rightarrow> int res"
  sb_ParseUpdateArtistAddress :: "eth_log \<Rightarrow> (string \<times> string) res"
  sb_ParseOptInCollaboration :: "eth_log \<Rightarrow> int res"
  sb_ParseOptOutSeries :: "eth_log \<Rightarrow> int res"
  sb_ParseAssignSeries :: "eth_log \<Rightarrow> (string \<times> string) res"

record eth_emitter =
  ee_lastBlockKeyName :: string
  ee_seriesRegistryContract :: string
  ee_client :: event_client
  ee_parameterStore :: parameter_store
  ee_cacheStore :: "cache_entry coll"
  ee_BlockByHash :: "string \<Rightarrow> int res"
  ee_BlockNumber :: "int res"
  ee_FilterLogs :: "filter_query \<Rightarrow> int \<Rightarrow> eth_log list res"
  ee_binding :: "series_binding res"
  ee_ext :: ext
  ee_codec :: codec

definition bytes_to_hash :: "nat list \<Rightarrow> string" where
  "bytes_to_hash bs = ''0x'' @ concat (map (\<lambda>b. [digit_char (b div 16), digit_char (b mod 16)]) bs)"

text \<open>
  The sender, the receiver and the hash of the token id of a log with four topics, none for another
  event. The slice \<open>Data[0:32]\<close> panics when there are fewer bytes.
\<close>

definition transfer_fields :: "ext \<Rightarrow> eth_log \<Rightarrow> string \<Rightarrow> string \<Rightarrow> string \<Rightarrow> string \<Rightarrow> (string \<times> string \<times> string) option res" where
  "transfer_fields X l t0 t1 t2 t3 =
     (if t0 = TransferEventSignature
      then Inr (Some (EthereumChecksumAddress X t1, EthereumChecksumAddress X t2, t3))
      else if t0 = TransferSingleEventSignature
      then (if length (log_Data l) < 32 then Inl (GoPanic ''slice bounds out of range'')
            else Inr (Some (EthereumChecksumAddress X t2, EthereumChecksumAddress X t3, bytes_to_hash (take 32 (log_Data l)))))
      else Inr None)"

definition transfer_type :: "string \<Rightarrow> string \<Rightarrow> string" where
  "transfer_type fromAddress toAddress =
     (if fromAddress = EthereumZeroAddress then ''mint''
      else if toAddress = EthereumZeroAddress then ''burned'' else ''transfer'')"

definition eth_checkpoint :: "eth_emitter \<Rightarrow> eth_log \<Rightarrow> (emitter_state, unit) act" where
  "eth_checkpoint e l = save_checkpoint (ee_parameterStore e) (ee_lastBlockKeyName e) (log_BlockNumber l)"

text \<open>\<open>if err := push(); err != nil { log and return }\<close>, then the checkpoint.\<close>

definition push_then_checkpoint :: "eth_emitter \<Rightarrow> eth_log \<Rightarrow> (pg_state, unit) act \<Rightarrow> (emitter_state, unit) act" where
  "push_then_checkpoint e l push =
     bindA (tryA (em_on_pg push)) (\<lambda>r. case r of Inl _ \<Rightarrow> retA () | Inr _ \<Rightarrow> eth_checkpoint e l)"

definition processNftTransferLog :: "eth_emitter \<Rightarrow> eth_log \<Rightarrow> (emitter_state, unit) act" where
  "processNftTransferLog e l =
     (let X = ee_ext e
      in case log_Topics l of
        [t0, t1, t2, t3] \<Rightarrow>
          (let contractAddress = EthereumChecksumAddress X (log_Address l)
           in bindA (liftR (transfer_fields X l t0 t1 t2 t3)) (\<lambda>fields.
              case fields of
                None \<Rightarrow> retA ()
              | Some (fromAddress, toAddress, tokenIDHash) \<Rightarrow>
                  bindA (tryA (em_on_cache (GetETHBlockTime (ee_cacheStore e) (ee_BlockByHash e) (log_BlockHash l)))) (\<lambda>time.
                  case time of
                    Inl _ \<Rightarrow> retA ()
                  | Inr txTime \<Rightarrow>
                      push_then_checkpoint e l
                        (Emitter_PushNftEvent (ee_client e) (ee_codec e) (transfer_type fromAddress toAddress) fromAddress
                           toAddress contractAddress (x_EthereumBlockchain X) (big_Text 10 (x_hash_Big X tokenIDHash))
                           (log_TxHash l) (log_Index l) txTime))))
      | _ \<Rightarrow> eth_checkpoint e l)"

text \<open>The type and the data of a series event: none for an unsupported event or one that cannot be parsed.\<close>

definition series_id_data :: "string \<Rightarrow> int res \<Rightarrow> (string \<times> (string \<times> json) list) option" where
  "series_id_data eventType ev =
     (case ev of Inl _ \<Rightarrow> None | Inr seriesID \<Rightarrow> Some (eventType, [(''series_id'', JStr (big_Text 10 seriesID))]))"

definition address_data :: "string \<Rightarrow> (string \<times> string) res \<Rightarrow> (string \<times> (string \<times> json) list) option" where
  "address_data eventType ev =
     (case ev of Inl _ \<Rightarrow> None | Inr (oldAddress, newAddress) \<Rightarrow>
        Some (eventType, [(''old_address'', JStr oldAddress), (''new_address'', JStr newAddress)]))"

definition parse_series_log :: "series_binding \<Rightarrow> eth_log \<Rightarrow> string \<Rightarrow> (string \<times> (string \<times> json) list) option" where
  "parse_series_log c l t0 =
     (if t0 = SeriesRegistryEventRegisterSeriesSignature then series_id_data ''register_series'' (sb_ParseRegisterSeries c l)
      else if t0 = SeriesRegistryEventUpdateSeriesSignature then series_id_data ''update_series'' (sb_ParseUpdateSeries c l)
      else if t0 = SeriesRegistryEventDeleteSeriesSignature then series_id_data ''delete_series'' (sb_ParseDeleteSeries c l)
      else if t0 = SeriesRegistryEventUpdateArtistAddressSignature
      then address_data ''update_artist_address'' (sb_ParseUpdateArtistAddress c l)
      else if t0 = SeriesRegistryEventOptInCollaborationSignature
      then series_id_data ''opt_in_collaboration'' (sb_ParseOptInCollaboration c l)
      else if t0 = SeriesRegistryEventOptOutSeriesSignature then series_id_data ''opt_out_series'' (sb_ParseOptOutSeries c l)
      else if t0 = SeriesRegistryEventAssignSeriesSignature then address_data ''assign_series'' (sb_ParseAssignSeries c l)
      else None)"

definition processSeriesRegistryLog :: "eth_emitter \<Rightarrow> eth_log \<Rightarrow> (emitter_state, unit) act" where
  "processSeriesRegistryLog e l =
     (case ee_binding e of
        Inl _ \<Rightarrow> retA ()
      | Inr contract \<Rightarrow>
          bindA (tryA (em_on_cache (GetETHBlockTime (ee_cacheStore e) (ee_BlockByHash e) (log_BlockHash l)))) (\<lambda>time.
          case time of
            Inl _ \<Rightarrow> retA ()
          | Inr txTime \<Rightarrow>
              (case log_Topics l of
                 [] \<Rightarrow> throwA index_panic
               | t0 # _ \<Rightarrow>
                   (case parse_series_log contract l t0 of
                      None \<Rightarrow> retA ()
                    | Some (eventType, data) \<Rightarrow>
                        push_then_checkpoint e l
                          (Emitter_PushSeriesRegistryEvent (ee_client e) (ee_codec e) eventType
                             (EthereumChecksumAddress (ee_ext e) (log_Address l)) (log_TxHash l) (Some data) (log_Index l) txTime)))))"

subsection \<open>Catching up\<close>

definition nft_query :: filter_query where
  "nft_query = \<lparr>fq_Addresses = [], fq_Topics = [TransferEventSignature, TransferSingleEventSignature]\<rparr>"

text \<open>The subscription has seven topics, the catch-up five of them.\<close>

definition series_watch_query :: "eth_emitter \<Rightarrow> filter_query" where
  "series_watch_query e = \<lparr>fq_Addresses = [x_HexToAddressHex (ee_ext e) (ee_seriesRegistryContract e)],
     fq_Topics = [SeriesRegistryEventRegisterSeriesSignature, SeriesRegistryEventUpdateSeriesSignature,
       SeriesRegistryEventDeleteSeriesSignature, SeriesRegistryEventUpdateArtistAddressSignature,
       SeriesRegistryEventOptInCollaborationSignature, SeriesRegistryEventOptOutSeriesSignature,
       SeriesRegistryEventAssignSeriesSignature]\<rparr>"

definition series_catchup_query :: "eth_emitter \<Rightarrow> filter_query" where
  "series_catchup_query e = \<lparr>fq_Addresses = [x_HexToAddressHex (ee_ext e) (ee_seriesRegistryContract e)],
     fq_Topics = [SeriesRegistryEventRegisterSeriesSignature, SeriesRegistryEventUpdateSeriesSignature,
       SeriesRegistryEventDeleteSeriesSignature, SeriesRegistryEventUpdateArtistAddressSignature,
       SeriesRegistryEventOptInCollaborationSignature]\<rparr>"

text \<open>One block; \<open>False\<close> when the node failed and the catch-up ends.\<close>

definition fetch_block :: "eth_emitter \<Rightarrow> int \<Rightarrow> (emitter_state, bool) act" where
  "fetch_block e i =
     (case ee_FilterLogs e nft_query i of
        Inl _ \<Rightarrow> retA False
      | Inr logs \<Rightarrow>
          bindA (forA (processNftTransferLog e) logs) (\<lambda>_.
          case ee_FilterLogs e (series_catchup_query e) i of
            Inl _ \<Rightarrow> retA False
          | Inr logs \<Rightarrow> bindA (forA (processSeriesRegistryLog e) logs) (\<lambda>_. retA True)))"

fun fetch_blocks :: "eth_emitter \<Rightarrow> int list \<Rightarrow> (emitter_state, unit) act" where
  "fetch_blocks e [] = retA ()"
| "fetch_blocks e (i # is) = bindA (fetch_block e i) (\<lambda>more. if more then fetch_blocks e is else retA ())"

text \<open>A block number is far from \<open>2 ^ 64 - 1\<close>, at which the loop variable would wrap.\<close>

definition fetchLogsFromLastStoppedBlock :: "eth_emitter \<Rightarrow> int \<Rightarrow> (emitter_state, unit) act" where
  "fetchLogsFromLastStoppedBlock e lastStopBlock =
     (case ee_BlockNumber e of
        Inl _ \<Rightarrow> retA ()
      | Inr latestBlock \<Rightarrow> fetch_blocks e [lastStopBlock..latestBlock])"

definition processLogsSinceLastStoppedBlock :: "eth_emitter \<Rightarrow> (emitter_state, unit) act" where
  "processLogsSinceLastStoppedBlock e =
     bindA (tryA (em_on_params (ps_GetString (ee_parameterStore e) (ee_lastBlockKeyName e)))) (\<lambda>r.
     case r of
       Inl _ \<Rightarrow> retA ()
     | Inr lastStopBlock \<Rightarrow>
         (case parse_uint64 lastStopBlock of
            None \<Rightarrow> retA ()
          | Some fromBlock \<Rightarrow> fetchLogsFromLastStoppedBlock e fromBlock))"

section \<open>Tezos\<close>

text \<open>What the code reads of a transfer and of an update of a big map, as TzKT reports them.\<close>

record TokenTransfer =
  tt_From :: "string option"
  tt_To :: string
  tt_ContractAddress :: string
  tt_TokenID :: int
  tt_TransactionID :: int
  tt_Timestamp :: gotime
  tt_Level :: int

record BigmapUpdate =
  bm_ID :: int
  bm_Action :: string
  bm_ContractAddress :: string
  bm_TokenID :: string
  bm_Timestamp :: gotime
  bm_Level :: int

record TokenEvent =
  te_EventType :: string
  te_From :: string
  te_To :: string
  te_ContractAddress :: string
  te_Blockchain :: string
  te_TokenID :: string
  te_TxID :: string
  te_TxTime :: gotime
  te_Level :: int

text \<open>
  The state: that of an emitter, the channel of events, the newest last, and the two flags for the first
  message after a connection.
\<close>

record tezos_state =
  tz_em :: emitter_state
  tz_eventChan :: "TokenEvent list"
  tz_isFirstTransfer :: bool
  tz_isFirstBigmap :: bool

record tezos_emitter =
  te_lastBlockKeyName :: string
  te_client :: event_client
  te_parameterStore :: parameter_store
  te_GetLevelByTime :: "int res"
  te_GetTokenTransfersByLevel :: "string \<Rightarrow> nat \<Rightarrow> nat \<Rightarrow> TokenTransfer list res"
  te_GetTokenMetadataBigmapUpdatesByLevel :: "string \<Rightarrow> nat \<Rightarrow> nat \<Rightarrow> BigmapUpdate list res"
  te_ext :: ext
  te_codec :: codec

definition tokenTransferToEvent :: "tezos_emitter \<Rightarrow> TokenTransfer \<Rightarrow> TokenEvent" where
  "tokenTransferToEvent e transfer =
     \<lparr>te_EventType = (case tt_From transfer of None \<Rightarrow> ''mint'' | Some _ \<Rightarrow> ''transfer''),
      te_From = (case tt_From transfer of None \<Rightarrow> [] | Some a \<Rightarrow> a), te_To = tt_To transfer,
      te_ContractAddress = tt_ContractAddress transfer, te_Blockchain = x_TezosBlockchain (te_ext e),
      te_TokenID = big_Text 10 (tt_TokenID transfer), te_TxID = nat_digits 10 (nat (tt_TransactionID transfer)),
      te_TxTime = tt_Timestamp transfer, te_Level = tt_Level transfer\<rparr>"

definition tokenMetadataUpdateToEvent :: "tezos_emitter \<Rightarrow> BigmapUpdate \<Rightarrow> TokenEvent" where
  "tokenMetadataUpdateToEvent e bigmap =
     \<lparr>te_EventType = ''token_updated'', te_From = [], te_To = [], te_ContractAddress = bm_ContractAddress bigmap,
      te_Blockchain = x_TezosBlockchain (te_ext e), te_TokenID = bm_TokenID bigmap,
      te_TxID = nat_digits 10 (nat (bm_ID bigmap)), te_TxTime = bm_Timestamp bigmap, te_Level = bm_Level bigmap\<rparr>"

definition send_events :: "TokenEvent list \<Rightarrow> (tezos_state, unit) act" where
  "send_events evs = (\<lambda>s. (Inr (), s\<lparr>tz_eventChan := tz_eventChan s @ evs\<rparr>))"

text \<open>The loop over the pages of one level; the fuel bounds the pages, \<open>None\<close> when it runs out.\<close>

definition tzkt_pageSize :: nat where
  "tzkt_pageSize = 100"

fun fetch_level_pages ::
    "(nat \<Rightarrow> nat \<Rightarrow> 'p list res) \<Rightarrow> ('p \<Rightarrow> TokenEvent) \<Rightarrow> nat \<Rightarrow> nat \<Rightarrow> (tezos_state, unit option) act" where
  "fetch_level_pages get ev 0 offset = retA None"
| "fetch_level_pages get ev (Suc fuel) offset =
     (case get offset tzkt_pageSize of
        Inl _ \<Rightarrow> retA (Some ())
      | Inr items \<Rightarrow>
          bindA (send_events (map ev items)) (\<lambda>_.
          if length items < tzkt_pageSize then retA (Some ())
          else fetch_level_pages get ev fuel (offset + tzkt_pageSize)))"

definition fetchTokenTransfersByLevel :: "tezos_emitter \<Rightarrow> nat \<Rightarrow> int \<Rightarrow> (tezos_state, unit option) act" where
  "fetchTokenTransfersByLevel e fuel level =
     fetch_level_pages (te_GetTokenTransfersByLevel e (nat_digits 10 (nat level))) (tokenTransferToEvent e) fuel 0"

definition fetchTokenBigmapUpdateByLevel :: "tezos_emitter \<Rightarrow> nat \<Rightarrow> int \<Rightarrow> (tezos_state, unit option) act" where
  "fetchTokenBigmapUpdateByLevel e fuel level =
     fetch_level_pages (te_GetTokenMetadataBigmapUpdatesByLevel e (nat_digits 10 (nat level))) (tokenMetadataUpdateToEvent e) fuel 0"

fun fetch_levels :: "tezos_emitter \<Rightarrow> nat \<Rightarrow> int list \<Rightarrow> (tezos_state, unit option) act" where
  "fetch_levels e fuel [] = retA (Some ())"
| "fetch_levels e fuel (i # is) =
     bindA (fetchTokenTransfersByLevel e fuel i) (\<lambda>a.
     bindA (fetchTokenBigmapUpdateByLevel e fuel i) (\<lambda>b.
     if a = None \<or> b = None then retA None else fetch_levels e fuel is))"

definition fetchFromByLastStoppedLevel :: "tezos_emitter \<Rightarrow> nat \<Rightarrow> int \<Rightarrow> (tezos_state, unit option) act" where
  "fetchFromByLastStoppedLevel e fuel fromLevel =
     (case te_GetLevelByTime e of
        Inl _ \<Rightarrow> retA (Some ())
      | Inr latestLevel \<Rightarrow> fetch_levels e fuel [fromLevel..latestLevel])"

definition tz_on_em :: "(emitter_state, 'a) act \<Rightarrow> (tezos_state, 'a) act" where
  "tz_on_em m = zoomA tz_em (\<lambda>t s. s\<lparr>tz_em := t\<rparr>) m"

lemma tz_on_em_run [act_simps]: "tz_on_em m s = (case m (tz_em s) of (r, t) \<Rightarrow> (r, s\<lparr>tz_em := t\<rparr>))"
  by (simp add: tz_on_em_def zoomA_run)

definition processSinceLastStoppedLevel :: "tezos_emitter \<Rightarrow> nat \<Rightarrow> (tezos_state, unit option) act" where
  "processSinceLastStoppedLevel e fuel =
     bindA (tryA (tz_on_em (em_on_params (ps_GetString (te_parameterStore e) (te_lastBlockKeyName e))))) (\<lambda>r.
     case r of
       Inl _ \<Rightarrow> retA (Some ())
     | Inr lastStopLevel \<Rightarrow>
         (case parse_uint64 lastStopLevel of
            None \<Rightarrow> retA (Some ())
          | Some fromLevel \<Rightarrow> fetchFromByLastStoppedLevel e fuel fromLevel))"

text \<open>
  The callbacks of the two subscriptions on the decoded message: the first one after a connection
  fetches from the last level again.
\<close>

definition refetch_if :: "tezos_emitter \<Rightarrow> nat \<Rightarrow> bool \<Rightarrow> (tezos_state, unit option) act" where
  "refetch_if e fuel first = (\<lambda>s.
     if first \<and> em_last (tz_em s) > 0 then fetchFromByLastStoppedLevel e fuel (em_last (tz_em s)) s else (Inr (Some ()), s))"

definition Transfers :: "tezos_emitter \<Rightarrow> nat \<Rightarrow> TokenTransfer list res \<Rightarrow> (tezos_state, unit option) act" where
  "Transfers e fuel data =
     (case data of
        Inl _ \<Rightarrow> retA (Some ())
      | Inr transfers \<Rightarrow>
          if transfers = [] then retA (Some ())
          else (\<lambda>s. bindA (refetch_if e fuel (tz_isFirstTransfer s)) (\<lambda>r.
                 bindA (send_events (map (tokenTransferToEvent e) transfers)) (\<lambda>_. retA r)) (s\<lparr>tz_isFirstTransfer := False\<rparr>)))"

definition Bigmaps :: "tezos_emitter \<Rightarrow> nat \<Rightarrow> BigmapUpdate list res \<Rightarrow> (tezos_state, unit option) act" where
  "Bigmaps e fuel data =
     (case data of
        Inl _ \<Rightarrow> retA (Some ())
      | Inr updates \<Rightarrow>
          if updates = [] then retA (Some ())
          else (\<lambda>s. bindA (refetch_if e fuel (tz_isFirstBigmap s)) (\<lambda>r.
                 bindA (send_events (map (tokenMetadataUpdateToEvent e)
                   (filter (\<lambda>t. bm_Action t \<noteq> ''add_key'' \<and> bm_Action t \<noteq> ''allocate'') updates))) (\<lambda>_. retA r))
                 (s\<lparr>tz_isFirstBigmap := False\<rparr>)))"

definition processTokenEvent :: "tezos_emitter \<Rightarrow> TokenEvent \<Rightarrow> (emitter_state, unit) act" where
  "processTokenEvent e event =
     bindA (tryA (em_on_pg (Emitter_PushNftEvent (te_client e) (te_codec e) (te_EventType event) (te_From event)
              (te_To event) (te_ContractAddress event) (te_Blockchain event) (te_TokenID event) (te_TxID event) 0
              (te_TxTime event)))) (\<lambda>r.
     case r of
       Inl _ \<Rightarrow> retA ()
     | Inr _ \<Rightarrow> save_checkpoint (te_parameterStore e) (te_lastBlockKeyName e) (te_Level event))"

text \<open>The consumer of the channel takes one event; none when the channel is empty.\<close>

definition consume_event :: "tezos_emitter \<Rightarrow> (tezos_state, bool) act" where
  "consume_event e = (\<lambda>s.
     case tz_eventChan s of
       [] \<Rightarrow> (Inr False, s)
     | t # rest \<Rightarrow> bindA (tz_on_em (processTokenEvent e t)) (\<lambda>_. retA True) (s\<lparr>tz_eventChan := rest\<rparr>))"

section \<open>Instances\<close>

definition direct_client :: "codec \<Rightarrow> postgres \<Rightarrow> string \<Rightarrow> gotime \<Rightarrow> event_client" where
  "direct_client C P uuid now = \<lparr>ec_PushNftEvent = (\<lambda>i. rpc_call (PushNftEvent C P uuid now i)),
     ec_PushSeriesRegistryEvent = (\<lambda>i. rpc_call (PushSeriesRegistryEvent C P uuid now i))\<rparr>"

interpretation direct: event_connection "direct_client C P uuid now" C P for C P uuid now
proof
  show "(\<exists>u n. ec_PushNftEvent (direct_client C P uuid now) i s = rpc_call (PushNftEvent C P u n i) s) \<or>
      (\<exists>e. ec_PushNftEvent (direct_client C P uuid now) i s = (Inl e, s)) \<or>
      (\<exists>e u n. ec_PushNftEvent (direct_client C P uuid now) i s = (Inl e, snd (PushNftEvent C P u n i s)))" for i s
    by (simp add: direct_client_def) blast
  show "(\<exists>u n. ec_PushSeriesRegistryEvent (direct_client C P uuid now) i' s = rpc_call (PushSeriesRegistryEvent C P u n i') s) \<or>
      (\<exists>e. ec_PushSeriesRegistryEvent (direct_client C P uuid now) i' s = (Inl e, s)) \<or>
      (\<exists>e u n. ec_PushSeriesRegistryEvent (direct_client C P uuid now) i' s = (Inl e, snd (PushSeriesRegistryEvent C P u n i' s)))" for i' s
    by (simp add: direct_client_def) blast
qed

definition mem_params :: parameter_store where
  "mem_params = \<lparr>ps_GetString = (\<lambda>k m. (case m k of None \<Rightarrow> Inl (Errorf ''ParameterNotFound'') | Some v \<Rightarrow> Inr v, m)),
     ps_PutString = (\<lambda>k v m. (Inr (), m(k \<mapsto> v)))\<rparr>"

interpretation mem_params: parameters mem_params
  by unfold_locales (simp_all add: mem_params_def)

section \<open>Pushing an event\<close>

text \<open>The tables after an insert that may be refused because the event is there.\<close>

definition with_event :: "string \<Rightarrow> gotime \<Rightarrow> NFTEvent \<Rightarrow> ev_db \<Rightarrow> ev_db" where
  "with_event uuid now ev d = (case insert_nft_event uuid now ev d of Inr d' \<Rightarrow> d' | Inl _ \<Rightarrow> d)"

lemma PushNftEvent_outcome:
  assumes "postgres_driver P"
  shows "PushNftEvent C P uuid now i s = (Inr (''successfully'', 200), s\<lparr>pg_db := with_event uuid now (nft_event_of C i) (pg_db s)\<rparr>) \<or>
    (\<exists>e. PushNftEvent C P uuid now i s = (Inl e, s))"
proof -
  let ?f = "insert_nft_event uuid now (nft_event_of C i)"
  have "?f (pg_db s) = Inl err \<Longrightarrow> err = ErrDuplicateKey" for err
    by (auto simp: insert_nft_event_def split: if_splits)
  then show ?thesis
    using postgres_driver.Exec_law [OF assms, of ?f s]
    by (cases "?f (pg_db s)")
      (auto simp: PushNftEvent_def Queue_PushNftEvent_def CreateNftEvent_def act_simps with_event_def)
qed

context event_connection
begin

text \<open>A push that reports success has stored the event; one that fails may have.\<close>

lemma push_outcome:
  assumes "postgres_driver P"
  shows "\<exists>e uuid now. let s' = s\<lparr>pg_db := with_event uuid now (nft_event_of C i) (pg_db s)\<rparr>
    in ec_PushNftEvent ec i s = (Inr (''successfully'', 200), s') \<or> ec_PushNftEvent ec i s = (Inl e, s) \<or>
       ec_PushNftEvent ec i s = (Inl e, s')"
  using PushNftEvent_law [of i s]
proof (elim disjE exE)
  fix uuid now assume "ec_PushNftEvent ec i s = rpc_call (PushNftEvent C P uuid now i) s"
  with PushNftEvent_outcome [OF assms, of C uuid now i s] show ?thesis
    by (elim disjE exE) (auto simp: rpc_call_run Let_def intro!: exI [of _ uuid] exI [of _ now])
next
  fix e assume "ec_PushNftEvent ec i s = (Inl e, s)"
  then show ?thesis by (intro exI [of _ e]) (simp add: Let_def)
next
  fix e uuid now assume "ec_PushNftEvent ec i s = (Inl e, snd (PushNftEvent C P uuid now i s))"
  with PushNftEvent_outcome [OF assms, of C uuid now i s] show ?thesis
    by (elim disjE exE) (auto simp: Let_def intro!: exI [of _ uuid] exI [of _ now])
qed

end

section \<open>Checkpoints\<close>

context parameters
begin

text \<open>A write of the checkpoint changes nothing but the checkpoint, and never takes it back.\<close>

lemma save_checkpoint_run:
  "\<exists>m. save_checkpoint ps key n s = (Inr (), s\<lparr>em_last := max (em_last s) n, em_params := m\<rparr>) \<and>
    (m = em_params s \<or> em_last s < n \<and> m = (em_params s)(key \<mapsto> nat_digits 10 (nat n)))"
proof (cases "n > em_last s")
  case True
  let ?m = "(em_params s)(key \<mapsto> nat_digits 10 (nat n))"
  from PutString_law [of key "nat_digits 10 (nat n)" "em_params s"] obtain r m where
    "ps_PutString ps key (nat_digits 10 (nat n)) (em_params s) = (r, m)" "m = em_params s \<or> m = ?m" by blast
  with True show ?thesis
    by (intro exI [of _ m]) (auto simp: save_checkpoint_def log_error_def act_simps max_absorb2)
next
  case False
  then show ?thesis by (intro exI [of _ "em_params s"]) (simp add: save_checkpoint_def max_absorb1)
qed

end

lemma mem_checkpoint:
  "em_last s < n \<Longrightarrow> save_checkpoint mem_params key n s =
    (Inr (), s\<lparr>em_last := n, em_params := (em_params s)(key \<mapsto> nat_digits 10 (nat n))\<rparr>)"
  by (simp add: save_checkpoint_def log_error_def act_simps mem_params_def)

text \<open>The event of a log that is a transfer.\<close>

definition log_input :: "eth_emitter \<Rightarrow> eth_log \<Rightarrow> string \<Rightarrow> string \<Rightarrow> string \<Rightarrow> gotime \<Rightarrow> NftEventInput" where
  "log_input e l f t h time = \<lparr>ni_Type = transfer_type f t, ni_Blockchain = x_EthereumBlockchain (ee_ext e),
     ni_Contract = EthereumChecksumAddress (ee_ext e) (log_Address l), ni_TokenID = big_Text 10 (x_hash_Big (ee_ext e) h),
     ni_From = f, ni_To = t, ni_TXID = log_TxHash l, ni_EventIndex = log_Index l,
     ni_TXTime = Some (timestamppb_New (ee_codec e) time)\<rparr>"

lemma processNftTransferLog_push:
  assumes "log_Topics l = [t0, t1, t2, t3]" and "transfer_fields (ee_ext e) l t0 t1 t2 t3 = Inr (Some (f, t, h))"
    and "GetETHBlockTime (ee_cacheStore e) (ee_BlockByHash e) (log_BlockHash l) (em_cache s) = (Inr time, c)"
  shows "processNftTransferLog e l s =
    (case ec_PushNftEvent (ee_client e) (log_input e l f t h time) (em_pg s) of
       (Inr r, p) \<Rightarrow> if snd r = 200 then eth_checkpoint e l (s\<lparr>em_cache := c, em_pg := p\<rparr>)
                   else (Inr (), s\<lparr>em_cache := c, em_pg := p\<rparr>)
     | (Inl err, p) \<Rightarrow> (Inr (), s\<lparr>em_cache := c, em_pg := p\<rparr>))"
  by (simp add: processNftTransferLog_def assms act_simps Let_def push_then_checkpoint_def Emitter_PushNftEvent_def
      log_input_def check_status_def split: prod.split sum.split)

lemma parse_nat_digits: "0 \<le> n \<Longrightarrow> n < 2 ^ 64 \<Longrightarrow> parse_uint64 (nat_digits 10 (nat n)) = Some n"
  by (simp add: parse_uint64_def parse_nat_nat_digits nat_less_iff)

section \<open>Pages\<close>

lemma fetch_level_pages_run:
  assumes pages: "\<And>off. get off tzkt_pageSize = Inr (take tzkt_pageSize (drop off xs))"
    and "(length xs - off) div 100 < fuel"
  shows "fetch_level_pages get ev fuel off s = (Inr (Some ()), s\<lparr>tz_eventChan := tz_eventChan s @ map ev (drop off xs)\<rparr>)"
  using assms(2)
proof (induction fuel arbitrary: off s)
  case (Suc fuel)
  show ?case
  proof (cases "length xs - off < 100")
    case True
    then show ?thesis using pages [of off] by (simp add: act_simps send_events_def tzkt_pageSize_def)
  next
    case False
    then have "(length xs - (off + 100)) div 100 < fuel" using Suc.prems by simp
    from Suc.IH [OF this] have "fetch_level_pages get ev fuel (off + 100) (s\<lparr>tz_eventChan := tz_eventChan s @ map ev (take 100 (drop off xs))\<rparr>) =
        (Inr (Some ()), s\<lparr>tz_eventChan := tz_eventChan s @ map ev (take 100 (drop off xs)) @ map ev (drop (off + 100) xs)\<rparr>)"
      by simp
    moreover have "take 100 (drop off xs) @ drop (off + 100) xs = drop off xs"
      using append_take_drop_id [of 100 "drop off xs"] by (simp add: add.commute)
    ultimately show ?thesis
      using False pages [unfolded tzkt_pageSize_def]
      by (simp add: act_simps send_events_def tzkt_pageSize_def flip: map_append)
  qed
qed simp

section \<open>Properties\<close>

definition sample_tezos_emitter :: tezos_emitter where
  "sample_tezos_emitter = \<lparr>te_lastBlockKeyName = ''last'', te_client = direct_client sample_codec (mem_postgres (\<lambda>_. False)) ''u'' 9,
     te_parameterStore = mem_params, te_GetLevelByTime = Inr 7,
     te_GetTokenTransfersByLevel = (\<lambda>level off n. Inr (take n (drop off
       [\<lparr>tt_From = None, tt_To = ''tz1b'', tt_ContractAddress = ''KT1'', tt_TokenID = 12, tt_TransactionID = 99, tt_Timestamp = 5, tt_Level = 7\<rparr>]))),
     te_GetTokenMetadataBigmapUpdatesByLevel = (\<lambda>_ _ _. Inr []), te_ext = sample_ext, te_codec = sample_codec\<rparr>"

definition start_state :: emitter_state where
  "start_state = \<lparr>em_pg = \<lparr>pg_db = \<lparr>tb_events = [], tb_archived = [], tb_series = []\<rparr>, pg_locked = []\<rparr>,
     em_cache = [\<lparr>ce_key = ''0xb'', ce_data = DateTime 5\<rparr>], em_params = Map.empty, em_last = 0\<rparr>"

text \<open>
  The pages of a level end and are complete: when TzKT serves consecutive slices of the transfers of a level,
  \<open>fetchTokenTransfersByLevel\<close> asks for at most one page more than there are full pages, and puts every
  transfer on the channel as an event, in order.
\<close>

theorem fetchTokenTransfersByLevel_complete:
  assumes "\<And>off n. te_GetTokenTransfersByLevel e (nat_digits 10 (nat level)) off n = Inr (take n (drop off xs))"
    and "length xs div 100 < fuel"
  shows "fetchTokenTransfersByLevel e fuel level s =
    (Inr (Some ()), s\<lparr>tz_eventChan := tz_eventChan s @ map (tokenTransferToEvent e) xs\<rparr>)"
  unfolding fetchTokenTransfersByLevel_def
  using fetch_level_pages_run [where get = "te_GetTokenTransfersByLevel e (nat_digits 10 (nat level))" and xs = xs and off = 0]
    assms by simp

theorem fetchTokenTransfersByLevel_complete_witness:
  "map te_TxID (tz_eventChan (snd (fetchTokenTransfersByLevel sample_tezos_emitter 1 7
     \<lparr>tz_em = start_state, tz_eventChan = [], tz_isFirstTransfer = False, tz_isFirstBigmap = False\<rparr>))) = [''99'']"
proof -
  let ?t = "\<lparr>tt_From = None, tt_To = ''tz1b'', tt_ContractAddress = ''KT1'', tt_TokenID = 12, tt_TransactionID = 99, tt_Timestamp = 5, tt_Level = 7\<rparr>"
  have pages: "te_GetTokenTransfersByLevel sample_tezos_emitter (nat_digits 10 (nat 7)) off n = Inr (take n (drop off [?t]))" for off n
    by (simp add: sample_tezos_emitter_def)
  have "nat_digits 10 99 = ''99''"
    by (simp add: nat_digits.simps [of 10 99] nat_digits.simps [of 10 9] digit_char_def char_of_def bit_0)
  then show ?thesis
    using fetchTokenTransfersByLevel_complete [OF pages, of 1 "\<lparr>tz_em = start_state, tz_eventChan = [], tz_isFirstTransfer = False, tz_isFirstBigmap = False\<rparr>"]
    by (simp add: tokenTransferToEvent_def)
qed

text \<open>
  C29: From the log to the table and the checkpoint. An Ethereum log with four topics whose block time is known is
  pushed as the event that describes it. When the push reports success, that event is a row of the event table (unless
  it was already there or archived, and then the tables stay as they were), and if the block is later than the last
  one, its number is put into the parameter store under the key of the emitter, which holds it from then on if the
  write succeeds. When the push fails, neither the last block nor the parameter store changes, and the event
  table is as it was or, when only the answer was lost, has the row. Nothing but the event table, the cache of block times
  and the checkpoint changes.
\<close>

theorem transfer_log_reaches_event_store:
  assumes "log_Topics l = [t0, t1, t2, t3]" and "transfer_fields (ee_ext e) l t0 t1 t2 t3 = Inr (Some (f, t, h))"
    and "GetETHBlockTime (ee_cacheStore e) (ee_BlockByHash e) (log_BlockHash l) (em_cache s) = (Inr time, c)"
    and "event_connection (ee_client e) (ee_codec e) P" and "postgres_driver P"
    and "message_codec X (ee_codec e)" and "parameters (ee_parameterStore e)"
  shows "\<exists>uuid now. let number = nat_digits 10 (nat (log_BlockNumber l));
      put = ps_PutString (ee_parameterStore e) (ee_lastBlockKeyName e) number (em_params s);
      stored = (em_pg s)\<lparr>pg_db := with_event uuid now
       \<lparr>ev_ID = [], ev_Type = transfer_type f t, ev_Blockchain = x_EthereumBlockchain (ee_ext e),
        ev_Contract = EthereumChecksumAddress (ee_ext e) (log_Address l), ev_TokenID = big_Text 10 (x_hash_Big (ee_ext e) h),
        ev_From = f, ev_To = t, ev_TXID = log_TxHash l, ev_EventIndex = log_Index l, ev_TXTime = time,
        ev_Stage = ''stage_1_init'', ev_Status = ''created'', ev_CreatedAt = 0, ev_UpdatedAt = 0\<rparr> (pg_db (em_pg s))\<rparr>
    in case fst (ec_PushNftEvent (ee_client e) (log_input e l f t h time) (em_pg s)) of
         Inr _ \<Rightarrow>
           if em_last s < log_BlockNumber l
           then processNftTransferLog e l s = (Inr (), s\<lparr>em_cache := c, em_pg := stored, em_last := log_BlockNumber l, em_params := snd put\<rparr>) \<and>
             (fst put = Inr () \<longrightarrow> snd put = (em_params s)(ee_lastBlockKeyName e \<mapsto> number))
           else processNftTransferLog e l s = (Inr (), s\<lparr>em_cache := c, em_pg := stored\<rparr>)
       | Inl _ \<Rightarrow> processNftTransferLog e l s = (Inr (), s\<lparr>em_cache := c\<rparr>) \<or>
           processNftTransferLog e l s = (Inr (), s\<lparr>em_cache := c, em_pg := stored\<rparr>)"
proof -
  let ?i = "log_input e l f t h time"
  have ev: "nft_event_of (ee_codec e) ?i = \<lparr>ev_ID = [], ev_Type = transfer_type f t, ev_Blockchain = x_EthereumBlockchain (ee_ext e),
        ev_Contract = EthereumChecksumAddress (ee_ext e) (log_Address l), ev_TokenID = big_Text 10 (x_hash_Big (ee_ext e) h),
        ev_From = f, ev_To = t, ev_TXID = log_TxHash l, ev_EventIndex = log_Index l, ev_TXTime = time,
        ev_Stage = ''stage_1_init'', ev_Status = ''created'', ev_CreatedAt = 0, ev_UpdatedAt = 0\<rparr>"
    using message_codec.timestamp_round [OF assms(6)] by (simp add: nft_event_of_def log_input_def)
  note run = processNftTransferLog_push [OF assms(1-3)]
  let ?put = "ps_PutString (ee_parameterStore e) (ee_lastBlockKeyName e) (nat_digits 10 (nat (log_BlockNumber l))) (em_params s)"
  have put: "fst ?put = Inr () \<longrightarrow> snd ?put = (em_params s)(ee_lastBlockKeyName e \<mapsto> nat_digits 10 (nat (log_BlockNumber l)))"
    using parameters.PutString_law [OF assms(7), of "ee_lastBlockKeyName e" "nat_digits 10 (nat (log_BlockNumber l))" "em_params s"]
    by auto
  have check: "eth_checkpoint e l (s\<lparr>em_cache := c, em_pg := p\<rparr>) =
      (Inr (), if em_last s < log_BlockNumber l
         then s\<lparr>em_cache := c, em_pg := p, em_last := log_BlockNumber l, em_params := snd ?put\<rparr> else s\<lparr>em_cache := c, em_pg := p\<rparr>)" for p
    by (simp add: eth_checkpoint_def save_checkpoint_def log_error_def act_simps split: prod.split)
  from event_connection.push_outcome [OF assms(4,5), of ?i "em_pg s"] obtain err uuid now where
    push: "let p = (em_pg s)\<lparr>pg_db := with_event uuid now (nft_event_of (ee_codec e) ?i) (pg_db (em_pg s))\<rparr>
      in ec_PushNftEvent (ee_client e) ?i (em_pg s) = (Inr (''successfully'', 200), p) \<or>
         ec_PushNftEvent (ee_client e) ?i (em_pg s) = (Inl err, em_pg s) \<or> ec_PushNftEvent (ee_client e) ?i (em_pg s) = (Inl err, p)"
    by blast
  show ?thesis
    by (rule exI [of _ uuid], rule exI [of _ now])
      (use push put in \<open>auto simp: run check Let_def simp flip: ev\<close>)
qed

definition sample_emitter :: "event_client \<Rightarrow> eth_emitter" where
  "sample_emitter ec = \<lparr>ee_lastBlockKeyName = ''last'', ee_seriesRegistryContract = ''0xr'', ee_client = ec,
     ee_parameterStore = mem_params, ee_cacheStore = mem_coll (\<lambda>_ _. False), ee_BlockByHash = (\<lambda>_. Inr 1),
     ee_BlockNumber = Inr 30, ee_FilterLogs = (\<lambda>_ _. Inr []), ee_binding = Inl (Errorf ''no binding''),
     ee_ext = sample_ext, ee_codec = sample_codec\<rparr>"

definition sample_log :: eth_log where
  "sample_log = \<lparr>log_Address = ''0xc'', log_Topics = [TransferEventSignature, ''0x1'', ''0x2'', ''0x11''], log_Data = [],
     log_BlockNumber = 20, log_BlockHash = ''0xb'', log_TxHash = ''0xt'', log_Index = 3\<rparr>"

lemma sample_log_facts:
  "log_Topics sample_log = [TransferEventSignature, ''0x1'', ''0x2'', ''0x11'']"
  "transfer_fields (ee_ext (sample_emitter ec)) sample_log TransferEventSignature ''0x1'' ''0x2'' ''0x11'' =
    Inr (Some (EthereumZeroAddress, EthereumZeroAddress, ''0x11''))"
  "GetETHBlockTime (ee_cacheStore (sample_emitter ec)) (ee_BlockByHash (sample_emitter ec)) (log_BlockHash sample_log) (em_cache start_state) =
    (Inr 5, em_cache start_state)"
proof -
  show "GetETHBlockTime (ee_cacheStore (sample_emitter ec)) (ee_BlockByHash (sample_emitter ec)) (log_BlockHash sample_log) (em_cache start_state) =
    (Inr 5, em_cache start_state)"
    by (simp add: sample_emitter_def sample_log_def start_state_def GetETHBlockTime_def act_simps
        Cache_Get_run [OF mem_coll_lawful] cached_def)
qed (simp_all add: sample_log_def transfer_fields_def sample_emitter_def EthereumChecksumAddress_def sample_ext_def sample_address_def)

theorem transfer_log_reaches_event_store_witness:
  "\<exists>s' ev. processNftTransferLog (sample_emitter (direct_client sample_codec (mem_postgres (\<lambda>_. False)) ''u'' 9)) sample_log start_state = (Inr (), s') \<and>
     tb_events (pg_db (em_pg s')) = [ev] \<and> ev_Type ev = ''mint'' \<and> ev_EventIndex ev = 3 \<and>
     em_last s' = 20 \<and> em_params s' ''last'' = Some (nat_digits 10 20)"
proof -
  let ?e = "sample_emitter (direct_client sample_codec (mem_postgres (\<lambda>_. False)) ''u'' 9)"
  have facts: "event_connection (ee_client ?e) (ee_codec ?e) (mem_postgres (\<lambda>_. False))" "message_codec sample_ext (ee_codec ?e)"
    "parameters (ee_parameterStore ?e)"
    using sample_messages.message_codec_axioms mem_params.parameters_axioms direct.event_connection_axioms
    by (simp_all add: sample_emitter_def)
  have push: "fst (ec_PushNftEvent (ee_client ?e) i (em_pg start_state)) = Inr (''successfully'', 200)" for i
    by (simp add: sample_emitter_def direct_client_def act_simps PushNftEvent_def Queue_PushNftEvent_def CreateNftEvent_def
        mem_postgres_simps insert_nft_event_def start_state_def)
  have put: "ps_PutString (ee_parameterStore ?e) k v m = (Inr (), m(k \<mapsto> v))" for k v m
    by (simp add: sample_emitter_def mem_params_def)
  from transfer_log_reaches_event_store [OF sample_log_facts facts(1) mem_postgres_lawful facts(2,3), unfolded push put Let_def]
  show ?thesis
    by (auto simp: with_event_def insert_nft_event_def start_state_def transfer_type_def sample_log_def sample_emitter_def)
qed

text \<open>
  A transfer whose push fails is lost for good once a log of a later block has been seen, even one that is no
  token transfer: the checkpoint passes it, and the catch-up after a restart starts behind its block.
\<close>

theorem failed_push_not_caught_up:
  assumes "log_Topics l = [t0, t1, t2, t3]" and "transfer_fields (ee_ext e) l t0 t1 t2 t3 = Inr (Some (f, t, h))"
    and "GetETHBlockTime (ee_cacheStore e) (ee_BlockByHash e) (log_BlockHash l) (em_cache s) = (Inr time, c)"
    and fails: "ec_PushNftEvent (ee_client e) (log_input e l f t h time) (em_pg s) = (Inl err, em_pg s)"
    and "length (log_Topics l') \<noteq> 4" and "log_BlockNumber l < log_BlockNumber l'" and "em_last s < log_BlockNumber l'"
    and "0 \<le> log_BlockNumber l" and "log_BlockNumber l' < 2 ^ 64"
    and "ee_parameterStore e = mem_params" and "ee_BlockNumber e = Inr latest"
  shows "\<exists>s'. forA (processNftTransferLog e) [l, l'] s = (Inr (), s') \<and> em_pg s' = em_pg s \<and>
    processLogsSinceLastStoppedBlock e (s'\<lparr>em_last := 0\<rparr>) = fetch_blocks e [log_BlockNumber l'..latest] (s'\<lparr>em_last := 0\<rparr>) \<and>
    log_BlockNumber l \<notin> set [log_BlockNumber l'..latest]"
proof -
  let ?n = "nat_digits 10 (nat (log_BlockNumber l'))"
  let ?s = "s\<lparr>em_cache := c, em_last := log_BlockNumber l', em_params := (em_params s)(ee_lastBlockKeyName e \<mapsto> ?n)\<rparr>"
  have one: "processNftTransferLog e l s = (Inr (), s\<lparr>em_cache := c\<rparr>)"
    using fails by (simp add: processNftTransferLog_push [OF assms(1-3)])
  have "processNftTransferLog e l' (s\<lparr>em_cache := c\<rparr>) = eth_checkpoint e l' (s\<lparr>em_cache := c\<rparr>)"
    using assms(5) by (auto simp: processNftTransferLog_def Let_def split: list.split)
  also have "\<dots> = (Inr (), ?s)"
    using assms(7) by (simp add: eth_checkpoint_def assms(10) mem_checkpoint)
  finally have two: "processNftTransferLog e l' (s\<lparr>em_cache := c\<rparr>) = (Inr (), ?s)" .
  define s2 where "s2 = ?s\<lparr>em_last := 0\<rparr>"
  have key: "em_params s2 (ee_lastBlockKeyName e) = Some ?n" by (simp add: s2_def)
  have "parse_uint64 ?n = Some (log_BlockNumber l')"
    by (rule parse_nat_digits) (use assms(6,8,9) in auto)
  then have "processLogsSinceLastStoppedBlock e s2 = fetch_blocks e [log_BlockNumber l'..latest] s2"
    by (simp add: processLogsSinceLastStoppedBlock_def act_simps assms(10,11) mem_params_def fetchLogsFromLastStoppedBlock_def key)
  then have "processLogsSinceLastStoppedBlock e (?s\<lparr>em_last := 0\<rparr>) = fetch_blocks e [log_BlockNumber l'..latest] (?s\<lparr>em_last := 0\<rparr>)"
    unfolding s2_def .
  with one two assms(6) show ?thesis
    by (intro exI [of _ ?s]) (simp add: bindA_run retA_run)
qed

theorem failed_push_not_caught_up_witness:
  "\<exists>s'. forA (processNftTransferLog (sample_emitter \<lparr>ec_PushNftEvent = (\<lambda>_ s. (Inl (Errorf ''down''), s)),
       ec_PushSeriesRegistryEvent = (\<lambda>_ s. (Inl (Errorf ''down''), s))\<rparr>))
     [sample_log, sample_log\<lparr>log_Topics := [TransferEventSignature, ''0x1'', ''0x2''], log_BlockNumber := 21\<rparr>] start_state = (Inr (), s') \<and>
   tb_events (pg_db (em_pg s')) = [] \<and> (20::int) \<notin> set [21..30]"
proof -
  let ?ec = "\<lparr>ec_PushNftEvent = (\<lambda>_ s. (Inl (Errorf ''down''), s)), ec_PushSeriesRegistryEvent = (\<lambda>_ s. (Inl (Errorf ''down''), s))\<rparr>"
  let ?l = "sample_log\<lparr>log_Topics := [TransferEventSignature, ''0x1'', ''0x2''], log_BlockNumber := 21\<rparr>"
  have fails: "ec_PushNftEvent (ee_client (sample_emitter ?ec)) i p = (Inl (Errorf ''down''), p)" for i p
    by (simp add: sample_emitter_def)
  have facts: "length (log_Topics ?l) \<noteq> 4" "log_BlockNumber sample_log < log_BlockNumber ?l" "em_last start_state < log_BlockNumber ?l"
    "0 \<le> log_BlockNumber sample_log" "log_BlockNumber ?l < 2 ^ 64" "ee_parameterStore (sample_emitter ?ec) = mem_params"
    "ee_BlockNumber (sample_emitter ?ec) = Inr 30"
    by (simp_all add: sample_log_def start_state_def sample_emitter_def)
  from failed_push_not_caught_up [OF sample_log_facts fails facts] show ?thesis
    by (auto simp: start_state_def)
qed

lemmas series_signatures = SeriesRegistryEventRegisterSeriesSignature_def SeriesRegistryEventUpdateSeriesSignature_def
  SeriesRegistryEventDeleteSeriesSignature_def SeriesRegistryEventUpdateArtistAddressSignature_def
  SeriesRegistryEventOptInCollaborationSignature_def SeriesRegistryEventOptOutSeriesSignature_def
  SeriesRegistryEventAssignSeriesSignature_def

lemma series_signatures_distinct:
  "distinct [SeriesRegistryEventRegisterSeriesSignature, SeriesRegistryEventUpdateSeriesSignature,
     SeriesRegistryEventDeleteSeriesSignature, SeriesRegistryEventUpdateArtistAddressSignature,
     SeriesRegistryEventOptInCollaborationSignature, SeriesRegistryEventOptOutSeriesSignature,
     SeriesRegistryEventAssignSeriesSignature]"
  by (simp add: series_signatures)

text \<open>
  The catch-up of the series registry misses two kinds of events the subscription delivers: those of a
  series that an artist leaves and of one that is assigned to another artist.
\<close>

theorem series_catchup_misses_events:
  "query_matches (series_watch_query e) l \<and> \<not> query_matches (series_catchup_query e) l \<longleftrightarrow>
    log_Address l = x_HexToAddressHex (ee_ext e) (ee_seriesRegistryContract e) \<and>
    (\<exists>ts. log_Topics l = SeriesRegistryEventOptOutSeriesSignature # ts \<or> log_Topics l = SeriesRegistryEventAssignSeriesSignature # ts)"
  using series_signatures_distinct
  by (cases "log_Topics l") (auto simp: query_matches_def series_watch_query_def series_catchup_query_def)

end
