(* ===== verification/EthWatch.thy ===== *)
theory EthWatch
  imports Emitters
begin

text \<open>
  The Ethereum emitter as it runs (\<open>Run\<close> and \<open>Watch\<close> of \<open>services/ethereum-event-emitter/service.go\<close>): the catch-up, then the two
  subscriptions, which can break and are made again, and the two goroutines that take the logs from their channels; the process
  may be started again at any time. Logs that the chain emits appear as steps of their own, and so do the writes of the
  event processor to its tables meanwhile. A subscription delivers every log at least once while it lasts, and may deliver a log
  again (a node does when it reorganises the chain); a full channel only makes the client buffer the logs, and an
  overflow of that buffer breaks the subscription, which is a step of its own. A handler runs in one step.
\<close>

section \<open>Events in the store\<close>

text \<open>What identifies an event once it is archived; the archive keeps no event index.\<close>

definition ev_what :: "NFTEvent \<Rightarrow> string list" where
  "ev_what e = [ev_Type e, ev_Blockchain e, ev_Contract e, ev_TokenID e, ev_From e, ev_To e, ev_TXID e]"

definition ar_what :: "ArchivedNFTEvent \<Rightarrow> string list" where
  "ar_what a = [ar_Type a, ar_Blockchain a, ar_Contract a, ar_TokenID a, ar_From a, ar_To a, ar_TXID a]"

definition recorded :: "string list \<Rightarrow> int \<Rightarrow> ev_db \<Rightarrow> bool" where
  "recorded k i d \<longleftrightarrow> (\<exists>x\<in>set (tb_events d). ev_what x = k \<and> ev_EventIndex x = i) \<or> (\<exists>a\<in>set (tb_archived d). ar_what a = k)"

text \<open>A change of the tables that loses no event: one that is gone from the event table is in the archive.\<close>

definition keeps_events :: "ev_db \<Rightarrow> ev_db \<Rightarrow> bool" where
  "keeps_events d d' \<longleftrightarrow> (\<forall>k i. recorded k i d \<longrightarrow> recorded k i d')"

lemma keeps_events_refl [simp]: "keeps_events d d"
  by (simp add: keeps_events_def)

lemma keeps_events_trans: "keeps_events d d' \<Longrightarrow> keeps_events d' d'' \<Longrightarrow> keeps_events d d''"
  by (simp add: keeps_events_def)

lemma keeps_events_mono:
  "set (tb_events d) \<subseteq> set (tb_events d') \<Longrightarrow> set (tb_archived d) \<subseteq> set (tb_archived d') \<Longrightarrow> keeps_events d d'"
  by (auto simp: keeps_events_def recorded_def)

lemma insert_keeps_events: "insert_nft_event uuid now e d = Inr d' \<Longrightarrow> keeps_events d d'"
  by (rule keeps_events_mono) (auto simp: insert_nft_event_def split: if_splits)

lemma with_event_keeps: "keeps_events d (with_event uuid now e d)"
  using insert_keeps_events by (auto simp: with_event_def split: sum.split)

lemma with_event_recorded: "recorded (ev_what e) (ev_EventIndex e) (with_event uuid now e d)"
proof (cases "\<exists>a\<in>set (tb_archived d). archived_as e a")
  case True
  then show ?thesis
    by (auto simp: with_event_def insert_nft_event_def recorded_def ev_what_def ar_what_def archived_as_def)
next
  case False
  then show ?thesis
    by (auto simp: with_event_def insert_nft_event_def recorded_def ev_what_def ev_key_def)
qed

text \<open>The steps of the event processor lose no event, until old events are removed from the archive.\<close>

lemma round_effect_keeps_events:
  assumes "distinct (map ev_ID (tb_events d))" and "ev \<in> set (tb_events d)"
  shows "keeps_events d (round_effect uuid now ev nextStage outcome d)"
  unfolding keeps_events_def
proof (intro allI impI)
  fix k i assume rec: "recorded k i d"
  let ?d = "round_effect uuid now ev nextStage outcome d"
  have arch: "set (tb_archived d) \<subseteq> set (tb_archived ?d)"
    by (auto simp: round_effect_def delete_row_def save_archive_def update_row_def split: sum.split)
  from rec show "recorded k i ?d"
    unfolding recorded_def [of k i d]
  proof (elim disjE bexE conjE)
    fix x assume x: "x \<in> set (tb_events d)" "ev_what x = k" "ev_EventIndex x = i"
    show ?thesis
    proof (cases "ev_ID x = ev_ID ev")
      case False
      with x round_effect_other [OF False] show ?thesis unfolding recorded_def by blast
    next
      case True
      then have eq: "x = ev" using same_id_same_row [OF assms(1) x(1) assms(2)] by simp
      show ?thesis
      proof (cases "nextStage = StageDone")
        case True
        then have "archive_of uuid now ev \<in> set (tb_archived ?d)"
          by (auto simp: round_effect_def delete_row_def save_archive_def update_row_def split: sum.split)
        moreover have "ar_what (archive_of uuid now ev) = k" using x(2) eq by (simp add: ar_what_def ev_what_def archive_of_def)
        ultimately show ?thesis unfolding recorded_def by blast
      next
        case False
        let ?f = "\<lambda>e. e\<lparr>ev_Stage := NftEventStages nextStage,
              ev_Status := (case outcome of Inl _ \<Rightarrow> StatusFailed | Inr _ \<Rightarrow> ev_Status e), ev_UpdatedAt := now\<rparr>"
        have "?f ev \<in> set (tb_events ?d)"
          unfolding round_effect_rows using False assms(2) by (auto simp: image_iff intro!: bexI [of _ ev])
        moreover have "ev_what (?f ev) = k" "ev_EventIndex (?f ev) = i" using x eq by (simp_all add: ev_what_def)
        ultimately show ?thesis unfolding recorded_def by blast
      qed
    qed
  next
    fix a assume "a \<in> set (tb_archived d)" "ar_what a = k"
    with arch show ?thesis unfolding recorded_def by blast
  qed
qed

context postgres_driver
begin

lemma PushNftEvent_keeps_events: "PushNftEvent C P uuid now i s = (r, p) \<Longrightarrow> keeps_events (pg_db s) (pg_db p)"
proof -
  assume run: "PushNftEvent C P uuid now i s = (r, p)"
  obtain q d where "CreateNftEvent P uuid now (nft_event_of C i) s = (q, s\<lparr>pg_db := d\<rparr>)"
    and d: "d = pg_db s \<or> insert_nft_event uuid now (nft_event_of C i) (pg_db s) = Inr d"
    using CreateNftEvent_cases by blast
  with run have "p = s\<lparr>pg_db := d\<rparr>"
    by (cases q) (auto simp: PushNftEvent_def Queue_PushNftEvent_def act_simps)
  with d show ?thesis by (auto intro: insert_keeps_events)
qed

lemma ev_step_keeps_events:
  assumes "ev_step C P delay s s'" and inv: "sys_inv delay s"
    and "set (tb_archived (pg_db (sy_pg s))) \<subseteq> set (tb_archived (pg_db (sy_pg s')))"
  shows "keeps_events (pg_db (sy_pg s)) (pg_db (sy_pg s'))"
  using assms(1)
proof (cases rule: ev_step.cases)
  case (receive uuid now i r p)
  then show ?thesis using PushNftEvent_keeps_events by simp
next
  case (take k now ev t p)
  then show ?thesis
    by (cases rule: GetNftEventTransaction_cases [of "nft_filters (worker_of delay k) now" "sy_pg s"]) (auto simp: lock_row_def)
next
  case (sleep k now e p)
  then show ?thesis
    by (cases rule: GetNftEventTransaction_cases [of "nft_filters (worker_of delay k) now" "sy_pg s"]) auto
next
  case (finish k ev t uuid now outcome r p)
  from inv finish(2) have h: "holds delay k s ev t" by (simp add: sys_inv_def)
  then have t: "tx_state t = TxOpen" "tx_pending t = id" "ev \<in> set (tb_events (pg_db (sy_pg s)))" by (simp_all add: holds_def)
  have "distinct (map ev_ID (tb_events (pg_db (sy_pg s))))" using inv by (simp add: sys_inv_def)
  from round_effect_keeps_events [OF this t(3)]
    finish_nft_event_effect [OF t(1,2), of uuid now ev "nw_nextStage (worker_of delay k)" outcome "sy_pg s"] finish(3)
  show ?thesis by (fastforce simp: finish(1))
next
  case (prune now expiry r p)
  with prune_events_rows [of now expiry "sy_pg s"] assms(3) show ?thesis by (auto intro!: keeps_events_mono)
qed

end

section \<open>The running emitter\<close>

text \<open>
  \<open>w_chain\<close> are the logs of the chain. The last three fields are history, to speak of the run: the block from which the last
  catch-up fetched, if it could read one, the number of logs the chain had then, and the transfers that came without a subscription.
\<close>

record watch_state =
  w_chain :: "eth_log list"
  w_started :: bool
  w_panic :: bool
  w_nft_sub :: bool
  w_series_sub :: bool
  w_nft_chan :: "eth_log list"
  w_series_chan :: "eth_log list"
  w_em :: emitter_state
  w_from :: "int option"
  w_caught :: nat
  w_nft_missed :: "eth_log list"

definition deliver :: "bool \<Rightarrow> filter_query \<Rightarrow> eth_log \<Rightarrow> eth_log list \<Rightarrow> eth_log list" where
  "deliver subscribed q l ch = (if subscribed \<and> query_matches q l then ch @ [l] else ch)"

definition is_Inl :: "'a res \<Rightarrow> bool" where
  "is_Inl r = (case r of Inl _ \<Rightarrow> True | Inr _ \<Rightarrow> False)"

definition stored_checkpoint :: "eth_emitter \<Rightarrow> emitter_state \<Rightarrow> int option" where
  "stored_checkpoint e s =
     (case fst (ps_GetString (ee_parameterStore e) (ee_lastBlockKeyName e) (em_params s)) of
        Inl _ \<Rightarrow> None | Inr v \<Rightarrow> parse_uint64 v)"

text \<open>\<open>N\<close> is the emitter with the node as it answers for the logs of the chain so far.\<close>

inductive watch_step :: "(eth_log list \<Rightarrow> eth_emitter) \<Rightarrow> watch_state \<Rightarrow> watch_state \<Rightarrow> bool" for N where
  new_log: "watch_step N w (w\<lparr>w_chain := w_chain w @ [l],
      w_nft_chan := deliver (w_nft_sub w) nft_query l (w_nft_chan w),
      w_series_chan := deliver (w_series_sub w) (series_watch_query (N (w_chain w))) l (w_series_chan w),
      w_nft_missed := deliver (\<not> w_nft_sub w) nft_query l (w_nft_missed w)\<rparr>)"
| log_again: "l \<in> set (w_chain w) \<Longrightarrow> watch_step N w (w\<lparr>
      w_nft_chan := deliver (w_nft_sub w) nft_query l (w_nft_chan w),
      w_series_chan := deliver (w_series_sub w) (series_watch_query (N (w_chain w))) l (w_series_chan w)\<rparr>)"
| catch_up: "\<lbrakk>\<not> w_panic w; \<not> w_started w; processLogsSinceLastStoppedBlock (N (w_chain w)) (w_em w) = (r, s)\<rbrakk> \<Longrightarrow>
    watch_step N w (w\<lparr>w_started := True, w_panic := is_Inl r, w_em := s,
      w_from := stored_checkpoint (N (w_chain w)) (w_em w), w_caught := length (w_chain w), w_nft_missed := []\<rparr>)"
| subscribe_nft: "\<lbrakk>\<not> w_panic w; w_started w; \<not> w_nft_sub w\<rbrakk> \<Longrightarrow> watch_step N w (w\<lparr>w_nft_sub := True\<rparr>)"
| broken_nft: "\<lbrakk>\<not> w_panic w; w_nft_sub w\<rbrakk> \<Longrightarrow> watch_step N w (w\<lparr>w_nft_sub := False\<rparr>)"
| subscribe_series: "\<lbrakk>\<not> w_panic w; w_started w; \<not> w_series_sub w\<rbrakk> \<Longrightarrow> watch_step N w (w\<lparr>w_series_sub := True\<rparr>)"
| broken_series: "\<lbrakk>\<not> w_panic w; w_series_sub w\<rbrakk> \<Longrightarrow> watch_step N w (w\<lparr>w_series_sub := False\<rparr>)"
| receive_nft: "\<lbrakk>\<not> w_panic w; w_started w; w_nft_chan w = l # rest; processNftTransferLog (N (w_chain w)) l (w_em w) = (r, s)\<rbrakk> \<Longrightarrow>
    watch_step N w (w\<lparr>w_nft_chan := rest, w_panic := is_Inl r, w_em := s\<rparr>)"
| receive_series: "\<lbrakk>\<not> w_panic w; w_started w; w_series_chan w = l # rest; processSeriesRegistryLog (N (w_chain w)) l (w_em w) = (r, s)\<rbrakk> \<Longrightarrow>
    watch_step N w (w\<lparr>w_series_chan := rest, w_panic := is_Inl r, w_em := s\<rparr>)"
| processor: "keeps_events (pg_db (em_pg (w_em w))) (pg_db p) \<Longrightarrow> watch_step N w (w\<lparr>w_em := (w_em w)\<lparr>em_pg := p\<rparr>\<rparr>)"
| restart: "watch_step N w (w\<lparr>w_started := False, w_panic := False, w_nft_sub := False, w_series_sub := False,
      w_nft_chan := [], w_series_chan := [], w_em := (w_em w)\<lparr>em_last := 0\<rparr>, w_from := None, w_nft_missed := []\<rparr>)"

definition watch_start :: "eth_log list \<Rightarrow> emitter_state \<Rightarrow> watch_state" where
  "watch_start chain s = \<lparr>w_chain = chain, w_started = False, w_panic = False, w_nft_sub = False, w_series_sub = False,
     w_nft_chan = [], w_series_chan = [], w_em = s, w_from = None, w_caught = length chain, w_nft_missed = []\<rparr>"

section \<open>What becomes of a transfer\<close>

text \<open>The log of a transfer with four topics has its event in the store.\<close>

definition log_recorded :: "ext \<Rightarrow> eth_log \<Rightarrow> ev_db \<Rightarrow> bool" where
  "log_recorded X l d =
     (case log_Topics l of
        [t0, t1, t2, t3] \<Rightarrow>
          (case transfer_fields X l t0 t1 t2 t3 of
             Inr (Some (f, t, h)) \<Rightarrow>
               recorded [transfer_type f t, x_EthereumBlockchain X, EthereumChecksumAddress X (log_Address l),
                 big_Text 10 (x_hash_Big X h), f, t, log_TxHash l] (log_Index l) d
           | _ \<Rightarrow> True)
      | _ \<Rightarrow> True)"

lemma log_recorded_keeps: "log_recorded X l d \<Longrightarrow> keeps_events d d' \<Longrightarrow> log_recorded X l d'"
  by (auto simp: log_recorded_def keeps_events_def split: list.splits sum.splits option.splits)

text \<open>
  A node and an event processor that do not fail: every push is answered with success, the times of the blocks are known, and
  the node gives the logs of each block up to its newest.
\<close>

definition dependable :: "ext \<Rightarrow> postgres \<Rightarrow> (eth_log list \<Rightarrow> eth_emitter) \<Rightarrow> bool" where
  "dependable X P N \<longleftrightarrow> postgres_driver P \<and>
     (\<forall>chain. ee_ext (N chain) = X \<and> event_connection (ee_client (N chain)) (ee_codec (N chain)) P \<and>
        (\<forall>i p. \<exists>m. fst (ec_PushNftEvent (ee_client (N chain)) i p) = Inr m) \<and>
        (\<forall>h c. \<exists>t. fst (GetETHBlockTime (ee_cacheStore (N chain)) (ee_BlockByHash (N chain)) h c) = Inr t) \<and>
        (\<exists>n. ee_BlockNumber (N chain) = Inr n \<and> (\<forall>l\<in>set chain. log_BlockNumber l \<le> n)) \<and>
        (\<forall>i. ee_FilterLogs (N chain) nft_query i = Inr (filter (\<lambda>l. query_matches nft_query l \<and> log_BlockNumber l = i) chain)) \<and>
        (\<forall>i. \<exists>ls. ee_FilterLogs (N chain) (series_catchup_query (N chain)) i = Inr ls))"

text \<open>The change a handler makes to the tables.\<close>

definition em_db :: "emitter_state \<Rightarrow> ev_db" where
  "em_db s = pg_db (em_pg s)"

definition em_keeps :: "(emitter_state, 'a) act \<Rightarrow> bool" where
  "em_keeps m \<longleftrightarrow> (\<forall>s. keeps_events (em_db s) (em_db (snd (m s))))"

lemma em_keepsD: "em_keeps m \<Longrightarrow> m s = (r, s') \<Longrightarrow> keeps_events (em_db s) (em_db s')"
  by (metis em_keeps_def snd_conv)

lemma em_keeps_bindA: "em_keeps m \<Longrightarrow> (\<And>a. em_keeps (k a)) \<Longrightarrow> em_keeps (bindA m k)"
  unfolding em_keeps_def bindA_run
  by (auto split: prod.split sum.split) (metis keeps_events_trans snd_conv)+

lemma em_keeps_basic: "em_keeps (retA a)" "em_keeps (throwA e)" "em_keeps (liftR x)" "em_keeps (em_on_cache mc)"
  "em_keeps (em_on_params mp)" "em_keeps (save_checkpoint ps key n)"
  by (auto simp: em_keeps_def em_db_def act_simps save_checkpoint_def log_error_def split: prod.split sum.split)

lemma em_keeps_tryA: "em_keeps m \<Longrightarrow> em_keeps (tryA m)"
  by (auto simp: em_keeps_def act_simps split: prod.split) (metis snd_conv)

lemma em_keeps_forA: "(\<And>x. em_keeps (body x)) \<Longrightarrow> em_keeps (forA body xs)"
  by (induction xs) (auto intro: em_keeps_bindA em_keeps_basic)

lemma em_keeps_on_pg: "(\<And>p. keeps_events (pg_db p) (pg_db (snd (m p)))) \<Longrightarrow> em_keeps (em_on_pg m)"
  by (auto simp: em_keeps_def em_db_def act_simps split: prod.split) (metis snd_conv)

lemmas em_keeps_rules = em_keeps_bindA em_keeps_tryA em_keeps_basic em_keeps_forA em_keeps_on_pg

lemma check_status_run: "snd (check_status r s) = s"
  by (simp add: check_status_def act_simps)

lemma Emitter_Push_state: "snd (Emitter_PushNftEvent ec C ty a b c ch ti tx ei time p) =
    snd (ec_PushNftEvent ec \<lparr>ni_Type = ty, ni_Blockchain = ch, ni_Contract = c, ni_TokenID = ti, ni_From = a, ni_To = b,
      ni_TXID = tx, ni_EventIndex = ei, ni_TXTime = Some (timestamppb_New C time)\<rparr> p)"
  by (simp add: Emitter_PushNftEvent_def bindA_run check_status_run split: prod.split sum.split)

lemma series_insert_keeps:
  assumes "postgres_driver P"
  shows "keeps_events (pg_db p) (pg_db (snd (PushSeriesRegistryEvent C P uuid now i p)))"
proof -
  have ins: "keeps_events (pg_db p) (pg_db (snd (CreateSeriesRegistryEvent P uuid now e p)))" for e
    using postgres_driver.Exec_law [OF assms, of "insert_series_event uuid now e" p]
    by (auto simp: CreateSeriesRegistryEvent_def act_simps insert_series_event_def intro!: keeps_events_mono)
  show ?thesis
    unfolding PushSeriesRegistryEvent_def Queue_PushSeriesRegistryEvent_def
    by (auto simp: act_simps split: option.split sum.split prod.split) (metis ins snd_conv)+
qed

context event_connection
begin

lemma pushes_keep:
  assumes "postgres_driver P"
  shows "keeps_events (pg_db p) (pg_db (snd (ec_PushNftEvent ec i p)))"
    and "keeps_events (pg_db p) (pg_db (snd (ec_PushSeriesRegistryEvent ec i' p)))"
proof -
  from push_outcome [OF assms, of i p] show "keeps_events (pg_db p) (pg_db (snd (ec_PushNftEvent ec i p)))"
    by (auto simp: Let_def with_event_keeps)
  have rpc: "snd (rpc_call m p) = snd (m p)" for m :: "(pg_state, string \<times> int) act"
    by (simp add: rpc_call_run split: prod.split)
  from PushSeriesRegistryEvent_law [of i' p] show "keeps_events (pg_db p) (pg_db (snd (ec_PushSeriesRegistryEvent ec i' p)))"
    by (auto simp: rpc series_insert_keeps [OF assms])
qed

lemma emitter_keeps:
  assumes "postgres_driver P"
  shows "em_keeps (em_on_pg (Emitter_PushNftEvent ec cd ty a b c ch ti tx ei time))"
    and "em_keeps (em_on_pg (Emitter_PushSeriesRegistryEvent ec cd ty c tx data ei time))"
proof -
  show "em_keeps (em_on_pg (Emitter_PushNftEvent ec cd ty a b c ch ti tx ei time))"
    by (rule em_keeps_on_pg) (simp add: Emitter_Push_state pushes_keep [OF assms])
  have "keeps_events (pg_db p) (pg_db (snd (bindA (ec_PushSeriesRegistryEvent ec i) check_status p)))" for i p
    using pushes_keep(2) [OF assms, of p i]
    by (auto simp: bindA_run check_status_run split: prod.split sum.split)
  then show "em_keeps (em_on_pg (Emitter_PushSeriesRegistryEvent ec cd ty c tx data ei time))"
    unfolding Emitter_PushSeriesRegistryEvent_def
    by (intro em_keeps_on_pg) (simp add: bindA_run [where s = p for p] act_simps split: option.split)
qed

end

lemma handlers_keep:
  assumes "event_connection (ee_client e) (ee_codec e) P" and "postgres_driver P"
  shows "em_keeps (processNftTransferLog e l)" and "em_keeps (processSeriesRegistryLog e l)"
proof -
  note push = event_connection.emitter_keeps [OF assms]
  have check: "em_keeps (eth_checkpoint e l)" by (simp add: eth_checkpoint_def em_keeps_basic)
  have then_check: "em_keeps m \<Longrightarrow> em_keeps (bindA (tryA m) (\<lambda>r. case r of Inl _ \<Rightarrow> retA () | Inr _ \<Rightarrow> eth_checkpoint e l))"
    for m :: "(emitter_state, unit) act"
    by (intro em_keeps_bindA em_keeps_tryA) (auto split: sum.split intro: em_keeps_basic check)
  show "em_keeps (processNftTransferLog e l)"
    unfolding processNftTransferLog_def push_then_checkpoint_def Let_def
    by (auto split: list.split sum.split option.split intro!: em_keeps_rules then_check push check)
  show "em_keeps (processSeriesRegistryLog e l)"
    unfolding processSeriesRegistryLog_def push_then_checkpoint_def
    by (auto split: list.split sum.split option.split intro!: em_keeps_rules then_check push check)
qed

lemma handler_records:
  assumes dep: "dependable X P N" and run: "processNftTransferLog (N chain) l s = (Inr (), s')"
  shows "log_recorded X l (em_db s')"
proof (cases "\<exists>t0 t1 t2 t3 f t h. log_Topics l = [t0, t1, t2, t3] \<and> transfer_fields X l t0 t1 t2 t3 = Inr (Some (f, t, h))")
  case False
  then show ?thesis by (auto simp: log_recorded_def split: list.split sum.split option.split)
next
  case True
  then obtain t0 t1 t2 t3 f t h where l: "log_Topics l = [t0, t1, t2, t3]" "transfer_fields X l t0 t1 t2 t3 = Inr (Some (f, t, h))"
    by blast
  let ?e = "N chain"
  from dep have X: "ee_ext ?e = X" and ec: "event_connection (ee_client ?e) (ee_codec ?e) P" and P: "postgres_driver P"
    and ok: "\<And>i p. \<exists>m. fst (ec_PushNftEvent (ee_client ?e) i p) = Inr m"
    and time: "\<exists>t. fst (GetETHBlockTime (ee_cacheStore ?e) (ee_BlockByHash ?e) (log_BlockHash l) (em_cache s)) = Inr t"
    by (auto simp: dependable_def)
  from time obtain t' c where g: "GetETHBlockTime (ee_cacheStore ?e) (ee_BlockByHash ?e) (log_BlockHash l) (em_cache s) = (Inr t', c)"
    by (metis prod.collapse)
  let ?i = "log_input ?e l f t h t'"
  from l(2) X have l2: "transfer_fields (ee_ext ?e) l t0 t1 t2 t3 = Inr (Some (f, t, h))" by simp
  note step = processNftTransferLog_push [OF l(1) l2 g]
  from event_connection.push_outcome [OF ec P, of ?i "em_pg s"] ok [of ?i "em_pg s"] obtain uuid now where
    push: "ec_PushNftEvent (ee_client ?e) ?i (em_pg s) =
      (Inr (''successfully'', 200), (em_pg s)\<lparr>pg_db := with_event uuid now (nft_event_of (ee_codec ?e) ?i) (pg_db (em_pg s))\<rparr>)"
    by (auto simp: Let_def)
  have "em_keeps (eth_checkpoint ?e l)" by (simp add: eth_checkpoint_def em_keeps_basic)
  from em_keepsD [OF this] run push have "keeps_events (with_event uuid now (nft_event_of (ee_codec ?e) ?i) (pg_db (em_pg s))) (em_db s')"
    by (fastforce simp: step em_db_def)
  with with_event_recorded [of "nft_event_of (ee_codec ?e) ?i" uuid now "pg_db (em_pg s)"]
  have "recorded (ev_what (nft_event_of (ee_codec ?e) ?i)) (ev_EventIndex (nft_event_of (ee_codec ?e) ?i)) (em_db s')"
    by (simp add: keeps_events_def)
  then show ?thesis using l X by (simp add: log_recorded_def ev_what_def nft_event_of_def log_input_def)
qed

text \<open>The catch-up puts every transfer of the blocks from the checkpoint on into the store.\<close>

lemma forA_records:
  assumes dep: "dependable X P N" and run: "forA (processNftTransferLog (N chain)) ls s = (Inr (), s')"
  shows "\<forall>l\<in>set ls. log_recorded X l (em_db s')"
  using run
proof (induction ls arbitrary: s)
  case (Cons l ls)
  from Cons.prems obtain s1 where one: "processNftTransferLog (N chain) l s = (Inr (), s1)"
    and rest: "forA (processNftTransferLog (N chain)) ls s1 = (Inr (), s')"
    by (auto simp: bindA_run split: prod.splits sum.splits)
  from dep have c: "event_connection (ee_client (N chain)) (ee_codec (N chain)) P" "postgres_driver P" by (auto simp: dependable_def)
  have "keeps_events (em_db s1) (em_db s')"
    using em_keepsD [OF em_keeps_forA [OF handlers_keep(1) [OF c]] rest] .
  with handler_records [OF dep one] Cons.IH [OF rest] show ?case by (auto intro: log_recorded_keeps)
qed simp

lemma catch_up_keeps:
  assumes "dependable X P N"
  shows "em_keeps (fetch_block (N chain) i)" and "em_keeps (fetch_blocks (N chain) is)"
    and "em_keeps (processLogsSinceLastStoppedBlock (N chain))"
proof -
  from assms have c: "event_connection (ee_client (N chain)) (ee_codec (N chain)) P" "postgres_driver P" by (auto simp: dependable_def)
  note h = handlers_keep [OF c]
  show b: "em_keeps (fetch_block (N chain) i)" for i
    unfolding fetch_block_def by (auto split: sum.split intro!: em_keeps_rules h)
  show bs: "em_keeps (fetch_blocks (N chain) is)" for "is"
    by (induction "is") (auto intro!: em_keeps_rules b)
  show "em_keeps (processLogsSinceLastStoppedBlock (N chain))"
    unfolding processLogsSinceLastStoppedBlock_def fetchLogsFromLastStoppedBlock_def
    by (auto split: sum.split option.split intro!: em_keeps_rules bs)
qed

lemma bindA_InrE:
  assumes "bindA m k s = (Inr b, s')"
  obtains a t where "m s = (Inr a, t)" "k a t = (Inr b, s')"
  using assms by (cases "m s") (auto simp: bindA_run split: sum.splits)

lemma fetch_blocks_records:
  assumes dep: "dependable X P N" and run: "fetch_blocks (N chain) is s = (Inr (), s')"
    and l: "l \<in> set chain" "query_matches nft_query l" "log_BlockNumber l \<in> set is"
  shows "log_recorded X l (em_db s')"
  using run l(3)
proof (induction "is" arbitrary: s)
  case (Cons i "is")
  from dep have c: "event_connection (ee_client (N chain)) (ee_codec (N chain)) P" "postgres_driver P"
    and logs: "ee_FilterLogs (N chain) nft_query i = Inr (filter (\<lambda>l. query_matches nft_query l \<and> log_BlockNumber l = i) chain)"
    and series: "\<exists>ls. ee_FilterLogs (N chain) (series_catchup_query (N chain)) i = Inr ls"
    by (auto simp: dependable_def)
  let ?ls = "filter (\<lambda>l. query_matches nft_query l \<and> log_BlockNumber l = i) chain"
  obtain ls where ls: "ee_FilterLogs (N chain) (series_catchup_query (N chain)) i = Inr ls" using series by blast
  from Cons.prems(1) [unfolded fetch_blocks.simps] obtain more s2 where
    block: "fetch_block (N chain) i s = (Inr more, s2)"
    and more: "(if more then fetch_blocks (N chain) is else retA ()) s2 = (Inr (), s')" by (rule bindA_InrE)
  from block have "bindA (forA (processNftTransferLog (N chain)) ?ls) (\<lambda>_.
      bindA (forA (processSeriesRegistryLog (N chain)) ls) (\<lambda>_. retA True)) s = (Inr more, s2)"
    by (simp only: fetch_block_def logs ls sum.case)
  then obtain a s1 where "forA (processNftTransferLog (N chain)) ?ls s = (Inr a, s1)"
    and "bindA (forA (processSeriesRegistryLog (N chain)) ls) (\<lambda>_. retA True) s1 = (Inr more, s2)"
    by (rule bindA_InrE)
  moreover have "a = ()" by simp
  ultimately have one: "forA (processNftTransferLog (N chain)) ?ls s = (Inr (), s1)"
    and "bindA (forA (processSeriesRegistryLog (N chain)) ls) (\<lambda>_. retA True) s1 = (Inr more, s2)" by simp_all
  then have two: "forA (processSeriesRegistryLog (N chain)) ls s1 = (Inr (), s2)" and "more"
    by (auto elim!: bindA_InrE simp: retA_run)
  with more have rest: "fetch_blocks (N chain) is s2 = (Inr (), s')" by simp
  have k: "keeps_events (em_db s1) (em_db s')"
    using em_keepsD [OF em_keeps_forA [OF handlers_keep(2) [OF c]] two] em_keepsD [OF catch_up_keeps(2) [OF dep] rest]
    by (rule keeps_events_trans)
  show ?case
  proof (cases "log_BlockNumber l = i")
    case True
    with l have "l \<in> set ?ls" by simp
    with forA_records [OF dep one] k show ?thesis by (blast intro: log_recorded_keeps)
  next
    case False
    with Cons.prems(2) Cons.IH [OF rest] show ?thesis by simp
  qed
qed simp

lemma catch_up_records:
  assumes dep: "dependable X P N" and run: "processLogsSinceLastStoppedBlock (N chain) s = (Inr (), s')"
    and from_n: "stored_checkpoint (N chain) s = Some n"
    and l: "l \<in> set chain" "query_matches nft_query l" "n \<le> log_BlockNumber l"
  shows "log_recorded X l (em_db s')"
proof -
  from dep have "\<exists>n. ee_BlockNumber (N chain) = Inr n \<and> (\<forall>l\<in>set chain. log_BlockNumber l \<le> n)"
    unfolding dependable_def by blast
  then obtain top where top: "ee_BlockNumber (N chain) = Inr top" "log_BlockNumber l \<le> top" using l(1) by blast
  obtain r m where get: "ps_GetString (ee_parameterStore (N chain)) (ee_lastBlockKeyName (N chain)) (em_params s) = (r, m)"
    by fastforce
  with from_n obtain v where v: "r = Inr v" "parse_uint64 v = Some n" by (auto simp: stored_checkpoint_def split: sum.splits)
  with run get top have "fetch_blocks (N chain) [n..top] (s\<lparr>em_params := m\<rparr>) = (Inr (), s')"
    by (simp add: processLogsSinceLastStoppedBlock_def fetchLogsFromLastStoppedBlock_def act_simps)
  from fetch_blocks_records [OF dep this l(1,2)] l(3) top(2) show ?thesis by simp
qed

section \<open>The invariant of a run\<close>

text \<open>A transfer the present run is answerable for: it came after the catch-up, or lies in a block the catch-up fetched.\<close>

definition due :: "watch_state \<Rightarrow> eth_log \<Rightarrow> bool" where
  "due w l \<longleftrightarrow> query_matches nft_query l \<and>
     (l \<in> set (drop (w_caught w) (w_chain w)) \<or>
      l \<in> set (w_chain w) \<and> (case w_from w of None \<Rightarrow> False | Some n \<Rightarrow> n \<le> log_BlockNumber l))"

definition watch_inv :: "ext \<Rightarrow> watch_state \<Rightarrow> bool" where
  "watch_inv X w \<longleftrightarrow> w_caught w \<le> length (w_chain w) \<and>
     (w_started w \<and> \<not> w_panic w \<longrightarrow>
       (\<forall>l. due w l \<longrightarrow> l \<in> set (w_nft_chan w) \<or> l \<in> set (w_nft_missed w) \<or> log_recorded X l (em_db (w_em w))))"

lemma watch_inv_more:
  assumes "watch_inv X w" and "w_caught w' = w_caught w" and "w_from w' = w_from w" and "w_chain w' = w_chain w"
    and "w_started w' \<Longrightarrow> w_started w" and "w_started w' \<Longrightarrow> \<not> w_panic w' \<Longrightarrow> \<not> w_panic w"
    and "\<And>l. w_started w' \<Longrightarrow> \<not> w_panic w' \<Longrightarrow> l \<in> set (w_nft_chan w) \<Longrightarrow> l \<in> set (w_nft_chan w') \<or> log_recorded X l (em_db (w_em w'))"
    and "w_nft_missed w' = w_nft_missed w" and "keeps_events (em_db (w_em w)) (em_db (w_em w'))"
  shows "watch_inv X w'"
  using assms(1-6,8) assms(7) log_recorded_keeps [OF _ assms(9)] unfolding watch_inv_def due_def by auto

lemma watch_step_inv:
  assumes dep: "dependable X P N" and "watch_step N w w'" and inv: "watch_inv X w"
  shows "watch_inv X w'"
  using assms(2)
proof (cases rule: watch_step.cases)
  case (new_log l)
  have ch: "w_chain w' = w_chain w @ [l]" "w_caught w' = w_caught w" "w_from w' = w_from w" "w_em w' = w_em w"
    "w_started w' = w_started w" "w_panic w' = w_panic w" "w_nft_chan w' = deliver (w_nft_sub w) nft_query l (w_nft_chan w)"
    "w_nft_missed w' = deliver (\<not> w_nft_sub w) nft_query l (w_nft_missed w)"
    by (simp_all add: new_log)
  have "due w' x \<Longrightarrow> due w x \<or> x = l \<and> query_matches nft_query l" for x
    using inv by (auto simp: due_def ch watch_inv_def)
  with inv show ?thesis unfolding watch_inv_def ch by (auto simp: deliver_def)
next
  case (log_again l)
  from inv show ?thesis by (rule watch_inv_more) (simp_all add: log_again deliver_def)
next
  case (catch_up r s)
  have "log_recorded X l (em_db s)" if "\<not> is_Inl r" "due w' l" for l
  proof -
    from that(1) catch_up(4) have run: "processLogsSinceLastStoppedBlock (N (w_chain w)) (w_em w) = (Inr (), s)"
      by (auto simp: is_Inl_def split: sum.splits)
    from that(2) obtain n where "stored_checkpoint (N (w_chain w)) (w_em w) = Some n" "n \<le> log_BlockNumber l"
      "l \<in> set (w_chain w)" "query_matches nft_query l"
      by (auto simp: due_def catch_up(1) split: option.splits)
    with catch_up_records [OF dep run] show ?thesis by blast
  qed
  then show ?thesis by (simp add: watch_inv_def catch_up(1))
next
  case (receive_nft l rest r s)
  from dep have c: "event_connection (ee_client (N (w_chain w))) (ee_codec (N (w_chain w))) P" "postgres_driver P"
    by (auto simp: dependable_def)
  have k: "keeps_events (em_db (w_em w)) (em_db s)"
    by (rule em_keepsD [OF handlers_keep(1) [OF c] receive_nft(5)])
  have "log_recorded X l (em_db s)" if "\<not> is_Inl r"
  proof -
    from that receive_nft(5) have "processNftTransferLog (N (w_chain w)) l (w_em w) = (Inr (), s)"
      by (auto simp: is_Inl_def split: sum.splits)
    from handler_records [OF dep this] show ?thesis .
  qed
  with inv k show ?thesis
    by (intro watch_inv_more [OF inv]) (auto simp: receive_nft(1-4))
next
  case (receive_series l rest r s)
  from dep have c: "event_connection (ee_client (N (w_chain w))) (ee_codec (N (w_chain w))) P" "postgres_driver P"
    by (auto simp: dependable_def)
  have "keeps_events (em_db (w_em w)) (em_db s)"
    by (rule em_keepsD [OF handlers_keep(2) [OF c] receive_series(5)])
  with inv show ?thesis by (intro watch_inv_more [OF inv]) (simp_all add: receive_series(1-3))
next
  case (processor p)
  with inv show ?thesis by (intro watch_inv_more [OF inv]) (simp_all add: em_db_def)
next
  case restart
  with inv show ?thesis by (simp add: watch_inv_def)
qed (use inv in \<open>auto simp: watch_inv_def due_def\<close>)

lemma watch_reachable_inv:
  assumes "dependable X P N" and "(watch_step N)\<^sup>*\<^sup>* (watch_start chain s) w"
  shows "watch_inv X w"
  using assms(2)
proof induction
  case base
  show ?case by (simp add: watch_inv_def watch_start_def)
next
  case (step w w')
  from watch_step_inv [OF assms(1) step.hyps(2) step.IH] show ?case .
qed

section \<open>Properties\<close>

text \<open>
  C21: While the node and the event processor do not fail, no transfer is lost that the emitter sees. In every reachable state
  of a started emitter that has not panicked, each transfer log of the chain that came after the catch-up, or lies in a block from
  the stored checkpoint on, is still in the channel, came while there was no subscription, or has its event in the event
  table or in the archive: with an empty channel and no time without a subscription, every such transfer is in the event
  store. The steps cover redelivered logs, broken subscriptions, restarts and the event processor working on its tables,
  as long as it only archives events; whether its steps do is \<open>ev_step_keeps_events\<close>.
\<close>

theorem transfers_reach_event_store:
  assumes "dependable X P N" and "(watch_step N)\<^sup>*\<^sup>* (watch_start chain s) w" and "w_started w" and "\<not> w_panic w"
    and "l \<in> set (w_chain w)" and "query_matches nft_query l"
    and "l \<in> set (drop (w_caught w) (w_chain w)) \<or> (\<exists>n. w_from w = Some n \<and> n \<le> log_BlockNumber l)"
    and "log_Topics l = [t0, t1, t2, t3]" and "transfer_fields X l t0 t1 t2 t3 = Inr (Some (f, t, h))"
  shows "l \<in> set (w_nft_chan w) \<or> l \<in> set (w_nft_missed w) \<or>
    recorded [transfer_type f t, x_EthereumBlockchain X, EthereumChecksumAddress X (log_Address l), big_Text 10 (x_hash_Big X h),
      f, t, log_TxHash l] (log_Index l) (pg_db (em_pg (w_em w)))"
proof -
  have "due w l" using assms(5-7) by (auto simp: due_def)
  with watch_reachable_inv [OF assms(1,2)] assms(3,4) show ?thesis
    by (auto simp: watch_inv_def log_recorded_def assms(8,9) em_db_def)
qed

lemma other_log_moves_checkpoint:
  assumes "length (log_Topics l) \<noteq> 4" and "ee_parameterStore e = mem_params" and "em_last s < log_BlockNumber l"
  shows "processNftTransferLog e l s = (Inr (), s\<lparr>em_last := log_BlockNumber l,
    em_params := (em_params s)(ee_lastBlockKeyName e \<mapsto> nat_digits 10 (nat (log_BlockNumber l)))\<rparr>)"
proof -
  have "processNftTransferLog e l s = eth_checkpoint e l s"
    using assms(1) by (auto simp: processNftTransferLog_def Let_def split: list.split)
  then show ?thesis using assms(2,3) by (simp add: eth_checkpoint_def mem_checkpoint)
qed

lemma catch_up_from_checkpoint:
  assumes "ee_parameterStore e = mem_params" and "em_params s (ee_lastBlockKeyName e) = Some (nat_digits 10 (nat n))"
    and "0 \<le> n" and "n < 2 ^ 64" and "ee_BlockNumber e = Inr latest"
  shows "processLogsSinceLastStoppedBlock e s = fetch_blocks e [n..latest] s"
  using parse_nat_digits [OF assms(3,4)] assms(1,2,5)
  by (simp add: processLogsSinceLastStoppedBlock_def act_simps mem_params_def fetchLogsFromLastStoppedBlock_def)

text \<open>
  A transfer that comes while the subscription is broken is lost: a later log, even one that is no token transfer, moves the
  checkpoint behind it, the event store has nothing of it, and the catch-up of the next start begins after its block.
\<close>

theorem transfer_without_subscription_lost:
  assumes "\<not> w_panic w" and "w_started w" and "\<not> w_nft_sub w" and "w_nft_chan w = []"
    and "query_matches nft_query l'" and "length (log_Topics l') \<noteq> 4"
    and "0 \<le> log_BlockNumber l" and "log_BlockNumber l < log_BlockNumber l'" and "log_BlockNumber l' < 2 ^ 64"
    and "em_last (w_em w) < log_BlockNumber l'"
    and "\<And>chain. ee_parameterStore (N chain) = mem_params" and "\<And>chain. ee_lastBlockKeyName (N chain) = key"
    and "\<And>chain. ee_BlockNumber (N chain) = Inr (head chain)"
  shows "\<exists>w'. (watch_step N)\<^sup>*\<^sup>* w w' \<and> l \<in> set (w_chain w') \<and> \<not> w_started w' \<and> em_pg (w_em w') = em_pg (w_em w) \<and>
    processLogsSinceLastStoppedBlock (N (w_chain w')) (w_em w') =
      fetch_blocks (N (w_chain w')) [log_BlockNumber l'..head (w_chain w')] (w_em w') \<and>
    log_BlockNumber l \<notin> set [log_BlockNumber l'..head (w_chain w')]"
proof -
  define w1 where "w1 = w\<lparr>w_chain := w_chain w @ [l], w_nft_chan := deliver (w_nft_sub w) nft_query l (w_nft_chan w),
    w_series_chan := deliver (w_series_sub w) (series_watch_query (N (w_chain w))) l (w_series_chan w),
    w_nft_missed := deliver (\<not> w_nft_sub w) nft_query l (w_nft_missed w)\<rparr>"
  define w2 where "w2 = w1\<lparr>w_nft_sub := True\<rparr>"
  define w3 where "w3 = w2\<lparr>w_chain := w_chain w2 @ [l'], w_nft_chan := deliver (w_nft_sub w2) nft_query l' (w_nft_chan w2),
    w_series_chan := deliver (w_series_sub w2) (series_watch_query (N (w_chain w2))) l' (w_series_chan w2),
    w_nft_missed := deliver (\<not> w_nft_sub w2) nft_query l' (w_nft_missed w2)\<rparr>"
  define s4 where "s4 = (w_em w)\<lparr>em_last := log_BlockNumber l',
    em_params := (em_params (w_em w))(key \<mapsto> nat_digits 10 (nat (log_BlockNumber l')))\<rparr>"
  define w4 where "w4 = w3\<lparr>w_nft_chan := [], w_panic := is_Inl (Inr () :: unit res), w_em := s4\<rparr>"
  define w5 where "w5 = w4\<lparr>w_started := False, w_panic := False, w_nft_sub := False, w_series_sub := False,
    w_nft_chan := [], w_series_chan := [], w_em := (w_em w4)\<lparr>em_last := 0\<rparr>, w_from := None, w_nft_missed := []\<rparr>"
  have 1: "watch_step N w w1" unfolding w1_def by (rule new_log)
  have 2: "watch_step N w1 w2" unfolding w2_def by (rule subscribe_nft) (use assms in \<open>simp_all add: w1_def\<close>)
  have 3: "watch_step N w2 w3" unfolding w3_def by (rule new_log)
  have c: "w_nft_chan w3 = [l']" "w_em w3 = w_em w"
    using assms(3-5) by (simp_all add: w3_def w2_def w1_def deliver_def)
  have p: "processNftTransferLog (N (w_chain w3)) l' (w_em w3) = (Inr (), s4)"
    using other_log_moves_checkpoint [of l' "N (w_chain w3)" "w_em w"] assms(6,10-12) by (simp add: c s4_def)
  have 4: "watch_step N w3 w4" unfolding w4_def
    using receive_nft [where N = N and w = w3 and l = l' and rest = "[]" and r = "Inr ()" and s = s4] c(1) p assms(1,2)
    by (simp add: w3_def w2_def w1_def)
  have 5: "watch_step N w4 w5" unfolding w5_def by (rule restart)
  have "(watch_step N)\<^sup>*\<^sup>* w w5"
    using 1 2 3 4 5 by (meson converse_rtranclp_into_rtranclp rtranclp.rtrancl_refl)
  moreover have "l \<in> set (w_chain w5)" "\<not> w_started w5" "em_pg (w_em w5) = em_pg (w_em w)"
    by (simp_all add: w5_def w4_def s4_def w3_def w2_def w1_def)
  moreover have "em_params (w_em w5) key = Some (nat_digits 10 (nat (log_BlockNumber l')))"
    by (simp add: w5_def w4_def s4_def)
  moreover from this have "processLogsSinceLastStoppedBlock (N (w_chain w5)) (w_em w5) =
      fetch_blocks (N (w_chain w5)) [log_BlockNumber l'..head (w_chain w5)] (w_em w5)"
    using assms(7-9,11-13) by (intro catch_up_from_checkpoint) simp_all
  ultimately show ?thesis using assms(8) by (intro exI [of _ w5]) simp
qed

section \<open>Instances\<close>

definition sample_node :: "eth_log list \<Rightarrow> eth_emitter" where
  "sample_node chain = (sample_emitter (direct_client sample_codec (mem_postgres (\<lambda>_. False)) ''u'' 9))
     \<lparr>ee_BlockNumber := Inr 30, ee_FilterLogs := (\<lambda>q i. Inr (filter (\<lambda>l. query_matches q l \<and> log_BlockNumber l = i) chain))\<rparr>"

text \<open>A node that knows its newest block and gives the logs of each, and an event processor that takes every event.\<close>

definition live_node :: "eth_log list \<Rightarrow> eth_emitter" where
  "live_node chain = (sample_node chain)\<lparr>ee_BlockNumber := Inr (foldr (\<lambda>l n. max (log_BlockNumber l) n) chain 0)\<rparr>"

lemma live_node_dependable: "dependable sample_ext (mem_postgres (\<lambda>_. False)) live_node"
proof -
  have bound: "\<forall>l\<in>set chain. log_BlockNumber l \<le> foldr (\<lambda>l n. max (log_BlockNumber l) n) chain 0" for chain
    by (induction chain) auto
  have dup: "insert_nft_event u n v d = Inl err \<Longrightarrow> err = ErrDuplicateKey" for u n v d err
    by (auto simp: insert_nft_event_def split: if_splits)
  have push: "\<exists>m. fst (rpc_call (PushNftEvent sample_codec (mem_postgres (\<lambda>_. False)) u n i) p) = Inr m" for u n i p
    using dup [of u n "nft_event_of sample_codec i" "pg_db p"]
    by (cases "insert_nft_event u n (nft_event_of sample_codec i) (pg_db p)")
      (auto simp: act_simps PushNftEvent_def Queue_PushNftEvent_def CreateNftEvent_def mem_postgres_simps)
  have time: "\<exists>t. fst (GetETHBlockTime (mem_coll (\<lambda>_ _. False)) (\<lambda>_. Inr 1) h c) = Inr t" for h c
  proof (cases "\<exists>u. cached h c = Some (DateTime u)")
    case True
    then show ?thesis using GetETHBlockTime_hit [OF mem_coll_lawful] by (metis fst_conv)
  next
    case False
    with GetETHBlockTime_miss [OF mem_coll_lawful, of h c "\<lambda>_. Inr 1"] show ?thesis by auto
  qed
  show ?thesis
    unfolding dependable_def
    using mem_postgres_lawful bound push time direct.event_connection_axioms
    by (auto simp: live_node_def sample_node_def sample_emitter_def direct_client_def query_matches_def)
qed

definition other_log :: eth_log where
  "other_log = sample_log\<lparr>log_Topics := [TransferEventSignature, ''0x1'', ''0x2''], log_BlockNumber := 21\<rparr>"

definition sample_running :: watch_state where
  "sample_running = (watch_start [] start_state)\<lparr>w_started := True\<rparr>"

theorem transfers_reach_event_store_witness:
  "\<exists>w. (watch_step live_node)\<^sup>*\<^sup>* (watch_start [] start_state) w \<and> w_nft_chan w = [] \<and> w_nft_missed w = [] \<and>
     recorded [''mint'', ''ethereum'', EthereumChecksumAddress sample_ext ''0xc'', big_Text 10 (x_hash_Big sample_ext ''0x11''),
       EthereumZeroAddress, EthereumZeroAddress, ''0xt''] 3 (pg_db (em_pg (w_em w)))"
proof -
  let ?e = "live_node [sample_log]"
  define w1 where "w1 = sample_running\<lparr>w_nft_sub := True\<rparr>"
  define w2 where "w2 = w1\<lparr>w_chain := [sample_log], w_nft_chan := [sample_log]\<rparr>"
  have q: "query_matches nft_query sample_log" by (simp add: query_matches_def nft_query_def sample_log_def)
  have "stored_checkpoint (live_node []) start_state = None"
    and catch: "processLogsSinceLastStoppedBlock (live_node []) start_state = (Inr (), start_state)"
    by (simp_all add: stored_checkpoint_def processLogsSinceLastStoppedBlock_def act_simps live_node_def sample_node_def
        sample_emitter_def mem_params_def start_state_def)
  then have 0: "watch_step live_node (watch_start [] start_state) sample_running"
    using watch_step.catch_up [of "watch_start [] start_state" live_node "Inr ()" start_state]
    by (simp add: watch_start_def sample_running_def is_Inl_def)
  have 1: "watch_step live_node sample_running w1"
    unfolding w1_def by (rule subscribe_nft) (simp_all add: sample_running_def watch_start_def)
  have s: "\<not> query_matches (series_watch_query e) sample_log" for e
    by (simp add: query_matches_def series_watch_query_def sample_log_def series_signatures)
  have 2: "watch_step live_node w1 w2"
    using new_log [of live_node w1 sample_log] q s
    by (simp add: w2_def w1_def sample_running_def watch_start_def deliver_def)
  let ?i = "log_input ?e sample_log EthereumZeroAddress EthereumZeroAddress ''0x11'' 5"
  have facts: "transfer_fields (ee_ext ?e) sample_log TransferEventSignature ''0x1'' ''0x2'' ''0x11'' =
      Inr (Some (EthereumZeroAddress, EthereumZeroAddress, ''0x11''))"
    "GetETHBlockTime (ee_cacheStore ?e) (ee_BlockByHash ?e) (log_BlockHash sample_log) (em_cache start_state) = (Inr 5, em_cache start_state)"
    using sample_log_facts(2,3) [of "direct_client sample_codec (mem_postgres (\<lambda>_. False)) ''u'' 9"]
    by (simp_all add: live_node_def sample_node_def)
  obtain x y where h: "processNftTransferLog ?e sample_log start_state = (x, y)" by fastforce
  moreover have "\<not> is_Inl x"
    using h processNftTransferLog_push [OF sample_log_facts(1) facts]
    by (auto simp: is_Inl_def eth_checkpoint_def save_checkpoint_def log_error_def act_simps split: sum.splits prod.splits if_splits)
  ultimately have 3: "watch_step live_node w2 (w2\<lparr>w_nft_chan := [], w_panic := False, w_em := y\<rparr>)"
    using receive_nft [of w2 sample_log "[]" live_node x y] by (simp add: w2_def w1_def sample_running_def watch_start_def)
  let ?w = "w2\<lparr>w_nft_chan := [], w_panic := False, w_em := y\<rparr>"
  from 0 1 2 3 have run: "(watch_step live_node)\<^sup>*\<^sup>* (watch_start [] start_state) ?w"
    by (meson converse_rtranclp_into_rtranclp rtranclp.rtrancl_refl)
  have w: "w_started ?w" "\<not> w_panic ?w" "sample_log \<in> set (w_chain ?w)" "sample_log \<in> set (drop (w_caught ?w) (w_chain ?w))"
    "w_nft_chan ?w = []" "w_nft_missed ?w = []"
    by (simp_all add: w2_def w1_def sample_running_def watch_start_def)
  have "transfer_fields sample_ext sample_log TransferEventSignature ''0x1'' ''0x2'' ''0x11'' =
      Inr (Some (EthereumZeroAddress, EthereumZeroAddress, ''0x11''))"
    using facts(1) by (simp add: live_node_def sample_node_def sample_emitter_def)
  from transfers_reach_event_store [OF live_node_dependable run w(1-3) q disjI1 [OF w(4)] sample_log_facts(1) this] w(5,6)
  show ?thesis
    using run by (intro exI [of _ ?w]) (simp add: transfer_type_def sample_log_def sample_ext_def)
qed

theorem transfer_without_subscription_lost_witness:
  "\<exists>w'. (watch_step sample_node)\<^sup>*\<^sup>* sample_running w' \<and> sample_log \<in> set (w_chain w') \<and> \<not> w_started w' \<and>
     em_pg (w_em w') = em_pg start_state"
proof -
  have facts: "\<not> w_panic sample_running" "w_started sample_running" "\<not> w_nft_sub sample_running" "w_nft_chan sample_running = []"
    "query_matches nft_query other_log" "length (log_Topics other_log) \<noteq> 4" "0 \<le> log_BlockNumber sample_log"
    "log_BlockNumber sample_log < log_BlockNumber other_log" "log_BlockNumber other_log < 2 ^ 64"
    "em_last (w_em sample_running) < log_BlockNumber other_log"
    by (simp_all add: sample_running_def watch_start_def other_log_def sample_log_def query_matches_def nft_query_def start_state_def)
  have node: "ee_parameterStore (sample_node chain) = mem_params" "ee_lastBlockKeyName (sample_node chain) = ''last''"
    "ee_BlockNumber (sample_node chain) = Inr 30" for chain
    by (simp_all add: sample_node_def sample_emitter_def)
  have "em_pg (w_em sample_running) = em_pg start_state" by (simp add: sample_running_def watch_start_def)
  with transfer_without_subscription_lost [where N = sample_node and head = "\<lambda>_. 30", OF facts node] show ?thesis by metis
qed

end
