(* ===== verification/Workflows.thy ===== *)
theory Workflows
  imports StoreSales Cache Cadence
begin

text \<open>
  How the workflows of \<open>background/worker\<close> run their steps (\<open>context.go\<close>): an activity is attempted again until it
  succeeds or its attempts are used up, each attempt on the state the last one left; child workflows that are started
  together run one after the other, each as a whole, in an order the service chooses, and the parent then looks at
  their outcomes in the order in which it started them. Timeouts are not modelled.
\<close>

section \<open>The state of a worker\<close>

record worker_state =
  ws_db :: db
  ws_cache :: "cache_entry list"
  ws_started :: "workflow list"

definition on_wdb :: "(db, 'a) act \<Rightarrow> (worker_state, 'a) act" where
  "on_wdb = zoomA ws_db (\<lambda>d s. s\<lparr>ws_db := d\<rparr>)"

definition on_wcache :: "(cache_entry list, 'a) act \<Rightarrow> (worker_state, 'a) act" where
  "on_wcache = zoomA ws_cache (\<lambda>c s. s\<lparr>ws_cache := c\<rparr>)"

lemma keeps_on_wdb: "keeps P m \<Longrightarrow> keeps (\<lambda>s. P (ws_db s)) (on_wdb m)"
  by (simp add: keeps_def on_wdb_def zoomA_def split: prod.split) (metis snd_conv)

lemma keeps_on_wcache: "keeps (\<lambda>s. P (ws_db s)) (on_wcache m)"
  by (simp add: keeps_def on_wcache_def zoomA_def split: prod.split)

section \<open>Activities\<close>

text \<open>At most \<open>n + 1\<close> attempts.\<close>

fun attempts :: "nat \<Rightarrow> ('s, 'a) act \<Rightarrow> ('s, 'a) act" where
  "attempts 0 m = m"
| "attempts (Suc n) m = bindA (tryA m) (\<lambda>r. case r of Inr a \<Rightarrow> retA a | Inl _ \<Rightarrow> attempts n m)"

definition ContextRetryActivity :: "('s, 'a) act \<Rightarrow> ('s, 'a) act" where
  "ContextRetryActivity m = attempts 5 m"

definition ContextRegularActivity :: "('s, 'a) act \<Rightarrow> ('s, 'a) act" where
  "ContextRegularActivity m = attempts 9 m"

lemma attempts_ok: "m s = (Inr a, s') \<Longrightarrow> attempts n m s = (Inr a, s')"
  by (cases n) (simp_all add: act_simps)

lemma attempts_fail: "m s = (Inl e, s) \<Longrightarrow> attempts n m s = (Inl e, s)"
  by (induction n) (simp_all add: act_simps)

lemma attempts_liftR [simp]: "attempts n (liftR r) = liftR r"
  by (cases r; rule ext) (auto simp: attempts_fail attempts_ok liftR_run)

lemma attempts_readA [simp]: "attempts n (readA get f) = readA get f"
proof (rule ext)
  fix s
  show "attempts n (readA get f) s = readA get f s"
    by (cases "f (get s)") (auto simp: attempts_fail attempts_ok readA_run)
qed

lemma keeps_attempts: "keeps P m \<Longrightarrow> keeps P (attempts n m)"
  by (induction n) (auto intro!: keeps_bindA keeps_tryA keeps_case_sum)

text \<open>What an attempt gives is what some attempt gave, from a state the earlier failures led to.\<close>

lemma attempts_inv:
  assumes "attempts n m s = (Inr a, s')" and "P s" and "\<And>t e t'. P t \<Longrightarrow> m t = (Inl e, t') \<Longrightarrow> P t'"
  shows "\<exists>t. P t \<and> m t = (Inr a, s')"
  using assms(1,2)
proof (induction n arbitrary: s)
  case (Suc n)
  obtain r t where run: "m s = (r, t)" by fastforce
  show ?case
  proof (cases r)
    case (Inl e)
    with Suc.prems run have "attempts n m t = (Inr a, s')" by (simp add: act_simps)
    moreover have "P t" using assms(3) Suc.prems(2) run Inl by blast
    ultimately show ?thesis using Suc.IH by blast
  next
    case (Inr b)
    with Suc.prems run show ?thesis by (auto simp: act_simps)
  qed
qed auto

section \<open>Child workflows\<close>

text \<open>The outcomes of the children with the numbers \<open>is\<close>, in the order in which they run.\<close>

fun outcomes :: "('c \<Rightarrow> ('s, unit) act) \<Rightarrow> 'c list \<Rightarrow> nat list \<Rightarrow> ('s, (nat \<times> unit res) list) act" where
  "outcomes body cs [] = retA []"
| "outcomes body cs (i # is) =
     bindA (tryA (body (cs ! i))) (\<lambda>r. bindA (outcomes body cs is) (\<lambda>rs. retA ((i, r) # rs)))"

definition run_children :: "(nat list \<Rightarrow> nat list) \<Rightarrow> ('c \<Rightarrow> ('s, unit) act) \<Rightarrow> 'c list \<Rightarrow> ('s, unit) act" where
  "run_children ord body cs =
     bindA (outcomes body cs (ord [0..<length cs])) (\<lambda>rs.
       liftR (bindR (mapR (\<lambda>i. case map_of rs i of Some r \<Rightarrow> r | None \<Rightarrow> Inr ()) [0..<length cs]) (\<lambda>_. Inr ())))"

text \<open>Every child runs once, in some order.\<close>

locale child_order =
  fixes ord :: "nat list \<Rightarrow> nat list"
  assumes ord_set: "set (ord is) = set is" and ord_distinct: "distinct is \<Longrightarrow> distinct (ord is)"

interpretation in_order: child_order "\<lambda>is. is"
  by unfold_locales auto

interpretation reversed: child_order rev
  by unfold_locales auto

lemma outcomes_always_ok: "\<exists>rs. fst (outcomes body cs is s) = Inr rs \<and> map fst rs = is"
  by (induction "is" arbitrary: s) (auto simp: act_simps split: prod.splits sum.splits; metis fst_conv sum.inject(2) sum.distinct(1))+

lemma keeps_outcomes: "(\<And>c. c \<in> set cs \<Longrightarrow> keeps P (body c)) \<Longrightarrow> set is \<subseteq> {..<length cs} \<Longrightarrow> keeps P (outcomes body cs is)"
  by (induction "is") (auto intro!: keeps_bindA keeps_tryA keeps_retA)

lemma keeps_run_children:
  assumes "child_order ord" and "\<And>c. c \<in> set cs \<Longrightarrow> keeps P (body c)"
  shows "keeps P (run_children ord body cs)"
  unfolding run_children_def
  by (intro keeps_bindA keeps_liftR keeps_outcomes assms(2)) (auto simp: child_order.ord_set [OF assms(1)])

text \<open>A parent that returns without an error has seen every child succeed.\<close>

fun all_ran :: "('c \<Rightarrow> ('s, unit) act) \<Rightarrow> 'c list \<Rightarrow> 's \<Rightarrow> 's \<Rightarrow> bool" where
  "all_ran body [] s s' = (s' = s)"
| "all_ran body (c # cs) s s' = (\<exists>t. body c s = (Inr (), t) \<and> all_ran body cs t s')"

lemma all_ran_forA: "all_ran body cs s s' \<longleftrightarrow> forA body cs s = (Inr (), s')"
  by (induction cs arbitrary: s) (auto simp: forA_Inr_Cons retA_run simp del: forA.simps(2))

lemma outcomes_all_ran:
  assumes "outcomes body cs is s = (Inr rs, s')" and "\<And>p. p \<in> set rs \<Longrightarrow> snd p = Inr ()"
  shows "all_ran body (map ((!) cs) is) s s'"
  using assms
proof (induction "is" arbitrary: s rs)
  case (Cons i "is")
  obtain r t where run: "body (cs ! i) s = (r, t)" by fastforce
  from outcomes_always_ok [of body cs "is" t] obtain rs' where rs': "fst (outcomes body cs is t) = Inr rs'" by blast
  then obtain t' where rest: "outcomes body cs is t = (Inr rs', t')" by (cases "outcomes body cs is t") auto
  with Cons.prems(1) run have "rs = (i, r) # rs'" "t' = s'" by (auto simp: act_simps)
  with Cons.prems(2) have "r = Inr ()" and "\<And>p. p \<in> set rs' \<Longrightarrow> snd p = Inr ()" by force+
  with Cons.IH [of t rs'] rest run \<open>t' = s'\<close> show ?case by auto
qed (simp add: retA_run)

lemma mapR_all_Inr: "mapR f xs = Inr ys \<Longrightarrow> x \<in> set xs \<Longrightarrow> ok (f x)"
  by (induction xs arbitrary: ys) (auto simp: bindR_Inr_iff ok_iff)

lemma run_children_Inr:
  assumes "child_order ord" and "run_children ord body cs s = (Inr (), s')"
  shows "\<exists>cs'. set cs' = set cs \<and> all_ran body cs' s s'"
proof -
  let ?is = "ord [0..<length cs]"
  have is_set: "set ?is = {0..<length cs}" by (simp add: child_order.ord_set [OF assms(1)])
  have dist: "distinct ?is" by (simp add: child_order.ord_distinct [OF assms(1)])
  from outcomes_always_ok [of body cs ?is s] obtain rs where
    rs: "fst (outcomes body cs ?is s) = Inr rs" "map fst rs = ?is" by blast
  then obtain t where run: "outcomes body cs ?is s = (Inr rs, t)" by (cases "outcomes body cs ?is s") auto
  with assms(2) have "t = s'" and "ok (mapR (\<lambda>i. case map_of rs i of Some r \<Rightarrow> r | None \<Rightarrow> Inr ()) [0..<length cs])"
    by (auto simp: run_children_def act_simps ok_iff bindR_Inr_iff)
  then obtain ys where ys: "mapR (\<lambda>i. case map_of rs i of Some r \<Rightarrow> r | None \<Rightarrow> Inr ()) [0..<length cs] = Inr ys"
    by (auto simp: ok_iff)
  have "snd p = Inr ()" if p: "p \<in> set rs" for p
  proof -
    obtain i r where "p = (i, r)" by fastforce
    with p have that: "(i, r) \<in> set rs" by simp
    have "i \<in> set ?is" using that rs(2) by (metis image_eqI list.set_map fst_conv)
    moreover have "map_of rs i = Some r" using that rs(2) dist by (simp add: map_of_eq_Some_iff)
    ultimately show ?thesis using mapR_all_Inr [OF ys, of i] is_set \<open>p = (i, r)\<close> by (auto simp: ok_iff)
  qed
  from outcomes_all_ran [OF run this] have "all_ran body (map ((!) cs) ?is) s s'" using \<open>t = s'\<close> by blast
  moreover have "set (map ((!) cs) ?is) = set cs"
    unfolding set_map is_set by (auto simp: set_conv_nth)
  ultimately show ?thesis by blast
qed

end
