(* ===== verification/ExchangeRates.thy ===== *)
theory ExchangeRates
  imports Workflows
begin

text \<open>
  The exchange rates: the client of Coinbase (\<open>externals/coinbase\<close>), the workflow that cuts a period into requests
  and runs them in batches, and the workflow of one request (\<open>workflows_exchange_rate.go\<close>).
\<close>

section \<open>The client\<close>

text \<open>
  \<open>cb_Do\<close> sends a request and gives status, content type and body; \<open>cb_Decode\<close> is the decoding of the body;
  \<open>cb_float\<close> and \<open>cb_int64\<close> read a number and convert it.
\<close>

record cb_response =
  cbr_StatusCode :: int
  cbr_ContentType :: string
  cbr_Body :: "string \<times> goerr option"

record coinbase =
  cb_Do :: "string \<Rightarrow> cb_response res"
  cb_QueryEscape :: "string \<Rightarrow> string"
  cb_Decode :: "string \<Rightarrow> json list list res"
  cb_float :: "string \<Rightarrow> float64"
  cb_int64 :: "float64 \<Rightarrow> int"

definition baseURL :: string where
  "baseURL = ''https://api.exchange.coinbase.com''"

text \<open>A GET request without a body; \<open>url.Values.Encode\<close> orders the keys.\<close>

definition MakeRequest :: "coinbase \<Rightarrow> string \<Rightarrow> (string \<times> string) list \<Rightarrow> json list list res" where
  "MakeRequest cb endpoint queryParams =
     (let query = join ''&'' (map (\<lambda>(k, v). cb_QueryEscape cb k @ ''='' @ cb_QueryEscape cb v) (sort_key fst queryParams))
      in case cb_Do cb (baseURL @ endpoint @ ''?'' @ query) of
           Inl _ \<Rightarrow> Inl (Errorf ''failed to make request'')
         | Inr resp \<Rightarrow>
             (case snd (cbr_Body resp) of
                Some _ \<Rightarrow> Inl (Errorf ''failed to read response body'')
              | None \<Rightarrow>
                  if cbr_StatusCode resp < 200 \<or> 300 \<le> cbr_StatusCode resp then Inl (Errorf ''request failed with status'')
                  else if \<not> has_prefix ''application/json'' (cbr_ContentType resp)
                  then Inl (Errorf ''unexpected content type'')
                  else case cb_Decode cb (fst (cbr_Body resp)) of
                         Inl _ \<Rightarrow> Inl (Errorf ''failed to unmarshal response body'')
                       | Inr r \<Rightarrow> Inr r))"

definition candle_float :: "coinbase \<Rightarrow> goerr \<Rightarrow> json \<Rightarrow> float64 res" where
  "candle_float cb e v = (case v of JNum s \<Rightarrow> Inr (cb_float cb s) | _ \<Rightarrow> Inl e)"

text \<open>Only called for a candle of five elements at least.\<close>

definition Scan :: "coinbase \<Rightarrow> json list \<Rightarrow> string \<Rightarrow> HistoricalExchangeRate res" where
  "Scan cb candle currencyPair =
     (let low_error = Errorf ''failed to parse low'' in
      bindR (candle_float cb (Errorf ''failed to parse unix time'') (candle ! 0)) (\<lambda>unixTime.
      bindR (candle_float cb low_error (candle ! 1)) (\<lambda>candleLow.
      bindR (candle_float cb low_error (candle ! 2)) (\<lambda>candleHigh.
      bindR (candle_float cb low_error (candle ! 3)) (\<lambda>candleOpen.
      bindR (candle_float cb low_error (candle ! 4)) (\<lambda>candleClose.
        Inr \<lparr>her_Time = time_of_Unix (cb_int64 cb unixTime), her_Low = candleLow, her_High = candleHigh,
             her_Open = candleOpen, her_Close = candleClose, her_CurrencyPair = currencyPair\<rparr>))))))"

definition GetCandles :: "coinbase \<Rightarrow> string \<Rightarrow> string \<Rightarrow> int \<Rightarrow> int \<Rightarrow> HistoricalExchangeRate list res" where
  "GetCandles cb currencyPair granularity start end_time =
     bindR (MakeRequest cb (''/products/'' @ currencyPair @ ''/candles'')
              [(''granularity'', granularity), (''start'', format_RFC3339Nano (time_of_Unix start)),
               (''end'', format_RFC3339Nano (time_of_Unix end_time))]) (\<lambda>rawData.
       mapR (\<lambda>candle. if length candle < 5 then Inl (Errorf ''incomplete candle data'')
                      else Scan cb candle currencyPair) rawData)"

section \<open>One request\<close>

definition CrawlExchangeRateByCurrencyPair_workflow ::
    "store \<Rightarrow> coinbase \<Rightarrow> string \<Rightarrow> int \<Rightarrow> int \<Rightarrow> (db, unit) act" where
  "CrawlExchangeRateByCurrencyPair_workflow st cb currencyPair start end_time =
     bindA (ContextRegularActivity (liftR (GetCandles cb currencyPair ''60'' start end_time))) (\<lambda>rates.
       if rates = [] then retA ()
       else ContextRegularActivity (WriteHistoricalExchangeRate st rates))"

section \<open>The period\<close>

record RequestChunk =
  rq_currencyPair :: string
  rq_startTime :: int
  rq_endTime :: int

text \<open>\<open>maxCandlesPerRequest * granularity\<close>.\<close>

definition request_seconds :: int where
  "request_seconds = 300 * 60"

text \<open>
  The rounds of the loop over the period, \<open>int64\<close> arithmetic included: near the end of the range of \<open>int64\<close> the
  counter wraps and the loop does not end, so the rounds take fuel.
\<close>

fun chunk_ranges :: "nat \<Rightarrow> int \<Rightarrow> int \<Rightarrow> (int \<times> int) list option" where
  "chunk_ranges fuel i end_time =
     (if end_time \<le> i then Some []
      else case fuel of
             0 \<Rightarrow> None
           | Suc fuel \<Rightarrow>
               let e = i64 (i + request_seconds);
                   e' = (if e > end_time then end_time else e)
               in map_option ((#) (i, e')) (chunk_ranges fuel e end_time))"

declare chunk_ranges.simps [simp del]

definition add_request ::
    "RequestChunk list list \<times> RequestChunk list \<Rightarrow> RequestChunk \<Rightarrow> RequestChunk list list \<times> RequestChunk list" where
  "add_request acc r =
     (case acc of (workflowDataChunks, requestBatches) \<Rightarrow>
        let requestBatches = requestBatches @ [r]
        in if length requestBatches = 25 then (workflowDataChunks @ [requestBatches], [])
           else (workflowDataChunks, requestBatches))"

definition range_requests :: "string list \<Rightarrow> int \<times> int \<Rightarrow> RequestChunk list" where
  "range_requests currencyPairs r =
     map (\<lambda>p. \<lparr>rq_currencyPair = p, rq_startTime = fst r, rq_endTime = snd r\<rparr>) currencyPairs"

definition request_batches :: "string list \<Rightarrow> (int \<times> int) list \<Rightarrow> RequestChunk list list" where
  "request_batches currencyPairs ranges =
     (case foldl add_request ([], []) (concat (map (range_requests currencyPairs) ranges)) of
        (workflowDataChunks, requestBatches) \<Rightarrow>
          if requestBatches \<noteq> [] then workflowDataChunks @ [requestBatches] else workflowDataChunks)"

definition run_requests :: "(nat list \<Rightarrow> nat list) \<Rightarrow> store \<Rightarrow> coinbase \<Rightarrow> RequestChunk list list \<Rightarrow> (db, unit) act" where
  "run_requests ord st cb batches =
     forA (run_children ord (\<lambda>r. CrawlExchangeRateByCurrencyPair_workflow st cb (rq_currencyPair r)
             (rq_startTime r) (rq_endTime r))) batches"

text \<open>The period asked for, or from the newest rate to now.\<close>

definition crawl_period :: "store \<Rightarrow> gotime \<Rightarrow> int \<Rightarrow> int \<Rightarrow> (db, int \<times> int) act" where
  "crawl_period st now start end_time =
     (if start = 0 \<and> end_time = 0
      then bindA (GetExchangeRateLastTime st) (\<lambda>lastTime. retA (time_Unix lastTime, time_Unix now))
      else retA (start, end_time))"

definition CrawlHistoricalExchangeRate_workflow ::
    "nat \<Rightarrow> (nat list \<Rightarrow> nat list) \<Rightarrow> store \<Rightarrow> coinbase \<Rightarrow> gotime \<Rightarrow> string list \<Rightarrow> int \<Rightarrow> int \<Rightarrow> db \<Rightarrow> (unit res \<times> db) option" where
  "CrawlHistoricalExchangeRate_workflow fuel ord st cb now currencyPairs start end_time s =
     (if \<not> list_all SupportedCurrencyPairs currencyPairs then Some (Inr (), s)
      else case crawl_period st now start end_time s of
             (Inl e, s) \<Rightarrow> Some (Inl e, s)
           | (Inr (start, end_time), s) \<Rightarrow>
               if end_time \<le> start then Some (Inr (), s)
               else map_option (\<lambda>ranges. run_requests ord st cb (request_batches currencyPairs ranges) s)
                      (chunk_ranges fuel start end_time))"

section \<open>The requests of a period\<close>

text \<open>The ranges follow each other from the start to the end, none longer than a request allows.\<close>

fun tiles :: "int \<Rightarrow> (int \<times> int) list \<Rightarrow> int \<Rightarrow> bool" where
  "tiles s [] e = (s = e)"
| "tiles s ((a, b) # rs) e = (a = s \<and> a < b \<and> b - a \<le> request_seconds \<and> tiles b rs e)"

lemma chunk_ranges_tiles:
  assumes "- (2 ^ 63) \<le> s" and "e + request_seconds < 2 ^ 63" and "s \<le> e" and "e - s \<le> request_seconds * int fuel"
  shows "\<exists>rs. chunk_ranges fuel s e = Some rs \<and> tiles s rs e \<and>
    int (length rs) * request_seconds < e - s + request_seconds"
  using assms
proof (induction fuel arbitrary: s)
  case 0
  then show ?case by (simp add: chunk_ranges.simps request_seconds_def)
next
  case (Suc fuel)
  show ?case
  proof (cases "e \<le> s")
    case True
    with Suc.prems show ?thesis by (simp add: chunk_ranges.simps request_seconds_def)
  next
    case False
    have s': "i64 (s + request_seconds) = s + request_seconds"
      using Suc.prems False by (intro i64_id) (simp_all add: request_seconds_def)
    show ?thesis
    proof (cases "e \<le> s + request_seconds")
      case True
      with False s' show ?thesis
        by (auto simp: chunk_ranges.simps [of _ s] chunk_ranges.simps [of _ "s + request_seconds"] Let_def)
    next
      case longer: False
      have "\<exists>rs. chunk_ranges fuel (s + request_seconds) e = Some rs \<and> tiles (s + request_seconds) rs e \<and>
          int (length rs) * request_seconds < e - (s + request_seconds) + request_seconds"
        using Suc.prems longer by (intro Suc.IH) (simp_all add: request_seconds_def)
      then obtain rs where rs: "chunk_ranges fuel (s + request_seconds) e = Some rs" "tiles (s + request_seconds) rs e"
        "int (length rs) * request_seconds < e - (s + request_seconds) + request_seconds" by blast
      with False longer s' show ?thesis
        by (auto simp: chunk_ranges.simps [of _ s] Let_def request_seconds_def)
    qed
  qed
qed

lemma add_request_concat:
  "concat (fst (add_request acc r)) @ snd (add_request acc r) = concat (fst acc) @ snd acc @ [r]"
  by (cases acc) (simp add: add_request_def Let_def)

lemma add_requests_concat:
  "concat (fst (foldl add_request acc rs)) @ snd (foldl add_request acc rs) = concat (fst acc) @ snd acc @ rs"
proof (induction rs arbitrary: acc)
  case (Cons r rs)
  have "concat (fst (foldl add_request acc (r # rs))) @ snd (foldl add_request acc (r # rs)) =
      (concat (fst (add_request acc r)) @ snd (add_request acc r)) @ rs"
    by (simp only: foldl_Cons Cons.IH append_assoc)
  then show ?case by (simp only: add_request_concat append_assoc append.simps)
qed simp

lemma add_requests_bounds:
  assumes "\<And>b. b \<in> set (fst acc) \<Longrightarrow> b \<noteq> [] \<and> length b \<le> 25" and "length (snd acc) < 25"
  shows "(\<forall>b\<in>set (fst (foldl add_request acc rs)). b \<noteq> [] \<and> length b \<le> 25) \<and>
    length (snd (foldl add_request acc rs)) < 25"
  using assms
proof (induction rs arbitrary: acc)
  case (Cons r rs)
  have "(\<forall>b\<in>set (fst (add_request acc r)). b \<noteq> [] \<and> length b \<le> 25) \<and> length (snd (add_request acc r)) < 25"
    using Cons.prems by (cases acc) (auto simp: add_request_def Let_def)
  note step = this
  show ?case unfolding foldl_Cons by (rule Cons.IH) (use step in blast)+
qed simp

lemma request_batches_cases:
  "request_batches pairs ranges =
    (let p = foldl add_request ([], []) (concat (map (range_requests pairs) ranges))
     in fst p @ (if snd p = [] then [] else [snd p]))"
  by (simp add: request_batches_def Let_def case_prod_beta)

lemma request_batches_concat:
  "concat (request_batches pairs ranges) = concat (map (range_requests pairs) ranges)"
proof -
  let ?p = "foldl add_request ([], []) (concat (map (range_requests pairs) ranges))"
  have "concat (request_batches pairs ranges) = concat (fst ?p) @ snd ?p"
    by (simp add: request_batches_cases Let_def)
  then show ?thesis by (simp only: add_requests_concat) simp
qed

lemma request_batches_bounds:
  assumes "b \<in> set (request_batches pairs ranges)"
  shows "b \<noteq> [] \<and> length b \<le> 25"
proof -
  let ?p = "foldl add_request ([], []) (concat (map (range_requests pairs) ranges))"
  have "(\<forall>b\<in>set (fst ?p). b \<noteq> [] \<and> length b \<le> 25) \<and> length (snd ?p) < 25"
    by (rule add_requests_bounds) simp_all
  with assms show ?thesis by (auto simp: request_batches_cases Let_def split: if_splits)
qed

section \<open>What a crawl stores\<close>

definition rate_at :: "gotime \<times> string \<Rightarrow> db \<Rightarrow> float64 option" where
  "rate_at k s = map_option er_Price (List.find (\<lambda>r. er_key r = k) (db_rates s))"

definition her_key :: "HistoricalExchangeRate \<Rightarrow> gotime \<times> string" where
  "her_key r = (her_Time r, her_CurrencyPair r)"

definition put_rate :: "HistoricalExchangeRate \<Rightarrow> db \<Rightarrow> db" where
  "put_rate r s = s\<lparr>db_rates :=
     (if \<exists>d\<in>set (db_rates s). er_key d = her_key r then upd1 (\<lambda>d. er_key d = her_key r) (\<lambda>_. rate_of r) (db_rates s)
      else db_rates s @ [rate_of r])\<rparr>"

lemma er_key_rate_of [simp]: "er_key (rate_of r) = her_key r"
  by (simp add: er_key_def rate_of_def her_key_def)

lemma find_upd1_rate_key:
  "List.find (\<lambda>d. key d = k) (upd1 (\<lambda>d. key d = j) (\<lambda>_. new) ds) =
     (if key new = j \<and> k = j \<and> (\<exists>d\<in>set ds. key d = j) then Some new else List.find (\<lambda>d. key d = k) ds)"
  if "key new = j"
  using that by (induction ds) auto

lemma rate_at_put: "rate_at k (put_rate r s) = (if k = her_key r then Some (her_Open r) else rate_at k s)"
proof -
  have price: "er_Price (rate_of r) = her_Open r" by (simp add: rate_of_def)
  show ?thesis
  proof (cases "\<exists>d\<in>set (db_rates s). er_key d = her_key r")
    case True
    then show ?thesis
      using find_upd1_rate_key [of er_key "rate_of r" "her_key r" k "db_rates s"] price
      by (simp add: rate_at_def put_rate_def)
  next
    case False
    then have "List.find (\<lambda>d. er_key d = her_key r) (db_rates s) = None" by (simp add: find_None)
    with False price show ?thesis
      by (auto simp: rate_at_def put_rate_def find_append split: option.split)
  qed
qed

context mongo_store
begin

lemma WriteHistoricalExchangeRate_run:
  "WriteHistoricalExchangeRate st rs s = (Inr (), fold put_rate rs s)"
proof (induction rs arbitrary: s)
  case (Cons r rs)
  have "UpsertOne (historicalExchangeRatesCollection st) (\<lambda>d. er_key d = (her_Time r, her_CurrencyPair r))
      (\<lambda>_. rate_of r) (rate_of r) (db_rates s) = (Inr (case List.find (\<lambda>d. er_key d = her_key r) (db_rates s) of
            None \<Rightarrow> \<lparr>MatchedCount = 0, ModifiedCount = 0, UpsertedCount = 1\<rparr>
          | Some d \<Rightarrow> upd_res d (rate_of r)), db_rates (put_rate r s))"
    using krates.upsert_by_key [of "her_key r" "\<lambda>_. rate_of r" "rate_of r" "db_rates s"]
    by (simp add: put_rate_def) (simp add: her_key_def)
  with Cons show ?case
    by (simp add: WriteHistoricalExchangeRate_def on_rates_def act_simps put_rate_def)
qed (simp add: WriteHistoricalExchangeRate_def retA_run)

end

lemma fold_put_rates: "fold put_rate rs s = s\<lparr>db_rates := db_rates (fold put_rate rs s)\<rparr>"
proof (induction rs arbitrary: s)
  case (Cons r rs)
  from Cons.IH [of "put_rate r s"] show ?case by (simp add: put_rate_def)
qed simp

text \<open>Of several candles for the same key the last one written is kept.\<close>

definition prices :: "HistoricalExchangeRate set \<Rightarrow> gotime \<times> string \<Rightarrow> float64 set" where
  "prices cs k = {her_Open c | c. c \<in> cs \<and> her_key c = k}"

text \<open>The state after candles were written: each has one of the prices given for its key, and nothing else has changed.\<close>

definition wrote :: "HistoricalExchangeRate set \<Rightarrow> db \<Rightarrow> db \<Rightarrow> bool" where
  "wrote cs s s' \<longleftrightarrow> s' = s\<lparr>db_rates := db_rates s'\<rparr> \<and>
     (\<forall>k. if prices cs k = {} then rate_at k s' = rate_at k s else \<exists>v\<in>prices cs k. rate_at k s' = Some v)"

lemma wrote_none: "wrote {} s s"
  by (simp add: wrote_def prices_def)

lemma wrote_both:
  assumes "wrote cs s t" and "wrote ds t s'"
  shows "wrote (cs \<union> ds) s s'"
proof -
  have t: "t = s\<lparr>db_rates := db_rates t\<rparr>" and s': "s' = t\<lparr>db_rates := db_rates s'\<rparr>"
    using assms unfolding wrote_def by blast+
  have frame: "s' = s\<lparr>db_rates := db_rates s'\<rparr>" by (subst s', subst t) simp
  have first: "if prices cs k = {} then rate_at k t = rate_at k s else \<exists>v\<in>prices cs k. rate_at k t = Some v"
    and second: "if prices ds k = {} then rate_at k s' = rate_at k t else \<exists>v\<in>prices ds k. rate_at k s' = Some v" for k
    using assms unfolding wrote_def by blast+
  have both: "prices (cs \<union> ds) k = prices cs k \<union> prices ds k" for k unfolding prices_def by blast
  have "if prices (cs \<union> ds) k = {} then rate_at k s' = rate_at k s else \<exists>v\<in>prices (cs \<union> ds) k. rate_at k s' = Some v" for k
  proof (cases "prices ds k = {}")
    case True
    with first [of k] second [of k] show ?thesis unfolding both by simp
  next
    case False
    with second [of k] show ?thesis unfolding both by auto
  qed
  with frame show ?thesis unfolding wrote_def by blast
qed

lemma wrote_fold_put: "wrote (set rs) s (fold put_rate rs s)"
proof (induction rs arbitrary: s)
  case Nil
  then show ?case by (simp add: wrote_none)
next
  case (Cons r rs)
  have "wrote {r} s (put_rate r s)"
    by (auto simp: wrote_def prices_def rate_at_put) (simp add: put_rate_def)
  from wrote_both [OF this Cons.IH] show ?case by simp
qed

lemma wrote_keys:
  assumes "wrote cs s s'"
  shows "s' = s\<lparr>db_rates := db_rates s'\<rparr> \<and>
    (\<forall>k. if \<exists>c\<in>cs. her_key c = k then \<exists>c\<in>cs. her_key c = k \<and> rate_at k s' = Some (her_Open c)
         else rate_at k s' = rate_at k s)"
proof -
  have "if \<exists>c\<in>cs. her_key c = k then \<exists>c\<in>cs. her_key c = k \<and> rate_at k s' = Some (her_Open c)
      else rate_at k s' = rate_at k s" for k
  proof -
    have "if prices cs k = {} then rate_at k s' = rate_at k s else \<exists>v\<in>prices cs k. rate_at k s' = Some v"
      using assms unfolding wrote_def by blast
    then show ?thesis by (auto simp: prices_def split: if_splits)
  qed
  with assms show ?thesis unfolding wrote_def by blast
qed

text \<open>The candles that answer a request; none when it fails.\<close>

definition served :: "coinbase \<Rightarrow> RequestChunk \<Rightarrow> HistoricalExchangeRate set" where
  "served cb r =
     (case GetCandles cb (rq_currencyPair r) ''60'' (rq_startTime r) (rq_endTime r) of Inl _ \<Rightarrow> {} | Inr rates \<Rightarrow> set rates)"

definition answered :: "coinbase \<Rightarrow> RequestChunk \<Rightarrow> bool" where
  "answered cb r = ok (GetCandles cb (rq_currencyPair r) ''60'' (rq_startTime r) (rq_endTime r))"

abbreviation run_request :: "store \<Rightarrow> coinbase \<Rightarrow> RequestChunk \<Rightarrow> (db, unit) act" where
  "run_request st cb r \<equiv>
     CrawlExchangeRateByCurrencyPair_workflow st cb (rq_currencyPair r) (rq_startTime r) (rq_endTime r)"

lemma run_request_Inr:
  assumes "mongo_store st" and "run_request st cb r s = (Inr (), s')"
  shows "wrote (served cb r) s s' \<and> answered cb r"
proof -
  let ?q = "GetCandles cb (rq_currencyPair r) ''60'' (rq_startTime r) (rq_endTime r)"
  from assms(2) obtain rates where rates: "?q = Inr rates"
    by (cases ?q) (auto simp: CrawlExchangeRateByCurrencyPair_workflow_def ContextRegularActivity_def act_simps)
  have "ContextRegularActivity (WriteHistoricalExchangeRate st rates) s = (Inr (), fold put_rate rates s)"
    unfolding ContextRegularActivity_def
    by (rule attempts_ok) (rule mongo_store.WriteHistoricalExchangeRate_run [OF assms(1)])
  with assms(2) rates have "s' = fold put_rate rates s"
    by (cases "rates = []") (auto simp: CrawlExchangeRateByCurrencyPair_workflow_def act_simps ContextRegularActivity_def)
  with wrote_fold_put [of rates s] show ?thesis by (simp add: served_def answered_def ok_def rates)
qed

lemma all_ran_rates:
  assumes "mongo_store st"
  shows "all_ran (run_request st cb) rs s s' \<Longrightarrow> wrote (\<Union> (served cb ` set rs)) s s' \<and> list_all (answered cb) rs"
proof (induction rs arbitrary: s)
  case (Cons r rs)
  then obtain t where t: "run_request st cb r s = (Inr (), t)" "all_ran (run_request st cb) rs t s'" by auto
  from wrote_both Cons.IH [OF t(2)] run_request_Inr [OF assms t(1)] show ?case by auto
qed (simp add: wrote_none)

lemma run_requests_rates:
  assumes "mongo_store st" and "child_order ord"
  shows "run_requests ord st cb batches s = (Inr (), s') \<Longrightarrow>
    wrote (\<Union> (served cb ` set (concat batches))) s s' \<and> list_all (answered cb) (concat batches)"
proof (induction batches arbitrary: s)
  case Nil
  then show ?case by (simp add: run_requests_def retA_run wrote_none)
next
  case (Cons b batches)
  then obtain t where t: "run_children ord (run_request st cb) b s = (Inr (), t)"
      "run_requests ord st cb batches t = (Inr (), s')"
    unfolding run_requests_def forA_Inr_Cons by blast
  from run_children_Inr [OF assms(2) t(1)] obtain b' where b': "set b' = set b" "all_ran (run_request st cb) b' s t" by blast
  with all_ran_rates [OF assms(1) b'(2)] Cons.IH [OF t(2)] wrote_both show ?case
    by (auto simp: list_all_iff)
qed

section \<open>The period of a crawl\<close>

text \<open>The period asked for; without one, from the newest stored rate, or the zero time, to now.\<close>

definition period_of :: "gotime \<Rightarrow> int \<Rightarrow> int \<Rightarrow> db \<Rightarrow> int \<times> int" where
  "period_of now s0 e0 s =
     (if s0 = 0 \<and> e0 = 0 then (time_Unix (if db_rates s = [] then 0 else Max (er_Timestamp ` set (db_rates s))), time_Unix now)
      else (s0, e0))"

lemma newest_first:
  assumes "sort_key (\<lambda>r. - f r :: int) rs = r # rest"
  shows "Max (f ` set rs) = f r"
proof (rule Max_eqI)
  have set: "set rs = set (r # rest)" using set_sort [of "\<lambda>r. - f r" rs] assms by metis
  then show "f r \<in> f ` set rs" by simp
  have "sorted (map (\<lambda>r. - f r) (r # rest))" using sorted_sort_key [of "\<lambda>r. - f r" rs] assms by metis
  then show "y \<le> f r" if "y \<in> f ` set rs" for y using that set by auto
qed simp

lemma crawl_period_run:
  assumes "mongo_store st"
  shows "crawl_period st now s0 e0 s = (Inr (period_of now s0 e0 s), s)"
proof (cases "sort_key (\<lambda>r. - er_Timestamp r) (db_rates s)")
  case Nil
  then have "db_rates s = []" by (metis length_0_conv length_sort)
  then show ?thesis
    by (simp add: crawl_period_def period_of_def GetExchangeRateLastTime_def act_simps or_missing_def
        mongo_collection.FindOne_law [OF mongo_store.rates_law [OF assms]])
next
  case (Cons r rest)
  then have "db_rates s \<noteq> []" by auto
  with Cons newest_first [OF Cons] show ?thesis
    by (simp add: crawl_period_def period_of_def GetExchangeRateLastTime_def act_simps or_missing_def
        mongo_collection.FindOne_law [OF mongo_store.rates_law [OF assms]])
qed

text \<open>The request for a pair that starts \<open>i\<close> times 300 minutes after the start of the period.\<close>

definition nth_request :: "int \<times> int \<Rightarrow> string \<Rightarrow> nat \<Rightarrow> RequestChunk" where
  "nth_request period pair i =
     \<lparr>rq_currencyPair = pair, rq_startTime = fst period + 18000 * int i,
      rq_endTime = min (fst period + 18000 * int i + 18000) (snd period)\<rparr>"

lemma chunk_ranges_nth:
  assumes "- (2 ^ 63) \<le> s" and "e + request_seconds < 2 ^ 63" and "e - s \<le> request_seconds * int fuel"
  shows "\<exists>rs. chunk_ranges fuel s e = Some rs \<and>
    set rs = {(s + 18000 * int i, min (s + 18000 * int i + 18000) e) | i. s + 18000 * int i < e}"
  using assms
proof (induction fuel arbitrary: s)
  case 0
  then show ?case by (auto simp: chunk_ranges.simps request_seconds_def)
next
  case (Suc fuel)
  show ?case
  proof (cases "e \<le> s")
    case True
    then show ?thesis by (auto simp: chunk_ranges.simps)
  next
    case False
    have s': "i64 (s + request_seconds) = s + request_seconds"
      using Suc.prems False by (intro i64_id) (simp_all add: request_seconds_def)
    have "\<exists>rs. chunk_ranges fuel (s + request_seconds) e = Some rs \<and> set rs =
        {(s + request_seconds + 18000 * int i, min (s + request_seconds + 18000 * int i + 18000) e) | i. s + request_seconds + 18000 * int i < e}"
      using Suc.prems by (intro Suc.IH) (simp_all add: request_seconds_def)
    then obtain rs where rs: "chunk_ranges fuel (s + request_seconds) e = Some rs" "set rs =
        {(s + request_seconds + 18000 * int i, min (s + request_seconds + 18000 * int i + 18000) e) | i. s + request_seconds + 18000 * int i < e}"
      by blast
    have first: "chunk_ranges (Suc fuel) s e = Some ((s, min (s + 18000) e) # rs)"
      using False rs(1) s' by (simp add: chunk_ranges.simps [of _ s] Let_def min_def request_seconds_def)
    have shift: "s + request_seconds + 18000 * int i = s + 18000 * int (Suc i)" for i by (simp add: request_seconds_def)
    have "insert (s, min (s + 18000) e) (set rs) =
        {(s + 18000 * int i, min (s + 18000 * int i + 18000) e) | i. s + 18000 * int i < e}" (is "?A = ?B")
    proof
      have "(s, min (s + 18000) e) = (s + 18000 * int 0, min (s + 18000 * int 0 + 18000) e)" "s + 18000 * int 0 < e"
        using False by simp_all
      then show "?A \<subseteq> ?B" unfolding rs(2) shift by blast
      show "?B \<subseteq> ?A"
      proof
        fix x assume "x \<in> ?B"
        then obtain i where i: "x = (s + 18000 * int i, min (s + 18000 * int i + 18000) e)" "s + 18000 * int i < e" by blast
        show "x \<in> ?A"
        proof (cases i)
          case (Suc j)
          with i show ?thesis unfolding rs(2) shift by blast
        qed (use i in simp)
      qed
    qed
    with first show ?thesis by simp
  qed
qed

lemma range_requests_nth:
  assumes "set rs = {(s + 18000 * int i, min (s + 18000 * int i + 18000) e) | i. s + 18000 * int i < e}"
  shows "set (concat (map (range_requests pairs) rs)) = {nth_request (s, e) p i | p i. p \<in> set pairs \<and> s + 18000 * int i < e}"
  using assms by (auto simp: range_requests_def nth_request_def)

section \<open>Properties\<close>

text \<open>
  The requests of a crawl cover the period: the ranges follow each other from its start to its end without a gap
  or an overlap, none asks for more candles than a request may, every pair is asked for in every range, and no
  batch is empty or larger than 25; one round of the loop per 300 minutes is enough.
\<close>

theorem crawl_requests_tile_period:
  assumes "- (2 ^ 63) \<le> s" and "e + request_seconds < 2 ^ 63" and "s < e" and "e - s \<le> request_seconds * int fuel"
  shows "\<exists>ranges. chunk_ranges fuel s e = Some ranges \<and> tiles s ranges e
    \<and> concat (request_batches pairs ranges) = concat (map (range_requests pairs) ranges)
    \<and> list_all (\<lambda>b. b \<noteq> [] \<and> length b \<le> 25) (request_batches pairs ranges)"
proof -
  from chunk_ranges_tiles [OF assms(1,2) _ assms(4)] assms(3) obtain ranges where
    "chunk_ranges fuel s e = Some ranges" "tiles s ranges e" by auto
  then show ?thesis
    using request_batches_concat [of pairs ranges] request_batches_bounds [of _ pairs ranges]
    by (auto simp: list_all_iff)
qed

theorem crawl_requests_tile_period_witness:
  "\<exists>ranges. chunk_ranges 3 1000 40000 = Some ranges \<and> tiles 1000 ranges 40000
    \<and> concat (request_batches [''ETH-USD''] ranges) = concat (map (range_requests [''ETH-USD'']) ranges)
    \<and> list_all (\<lambda>b. b \<noteq> [] \<and> length b \<le> 25) (request_batches [''ETH-USD''] ranges)"
  by (rule crawl_requests_tile_period) (simp_all add: request_seconds_def)

text \<open>
  C34: A crawl, for the period asked for or, as the cron job runs it, with 0 and 0 for the time since the newest stored rate.
  Far from the limits of \<open>int64\<close>, and for pairs that are supported and distinct (two children of the same id are not
  modelled), the loop over the period ends, with one round of fuel per 300 minutes. A crawl of a period that is not empty and
  that reports success has had an answer to the request for each pair and each of the ranges of 300 minutes that follow each other
  from the start to the end, the last one cut off at the end, and has stored the opening price of every candle of these answers, in
  whatever order the requests of a batch ran; if answers differ in the price for a time, one of them is stored. Every
  other rate, and everything else, is as it was. A crawl of an empty period changes nothing.
\<close>

theorem crawl_stores_all_candles:
  assumes "mongo_store st" and "child_order ord" and "list_all SupportedCurrencyPairs pairs" and "distinct pairs"
    and "period_of now s0 e0 s = (start, stop)" and "- (2 ^ 63) \<le> start" and "stop + 18000 < 2 ^ 63"
    and "stop - start \<le> 18000 * int fuel"
  shows "\<exists>r s'. CrawlHistoricalExchangeRate_workflow fuel ord st cb now pairs s0 e0 s = Some (r, s') \<and>
    (stop \<le> start \<longrightarrow> r = Inr () \<and> s' = s) \<and>
    (start < stop \<and> r = Inr () \<longrightarrow>
      (let requests = {nth_request (start, stop) p i | p i. p \<in> set pairs \<and> start + 18000 * int i < stop};
           candles = \<Union> (served cb ` requests)
       in (\<forall>q\<in>requests. answered cb q) \<and> s' = s\<lparr>db_rates := db_rates s'\<rparr> \<and>
          (\<forall>k. if \<exists>c\<in>candles. her_key c = k
               then \<exists>c\<in>candles. her_key c = k \<and> rate_at k s' = Some (her_Open c)
               else rate_at k s' = rate_at k s)))"
proof (cases "start < stop")
  case False
  then show ?thesis
    using assms(3,5) by (simp add: CrawlHistoricalExchangeRate_workflow_def crawl_period_run [OF assms(1)])
next
  case True
  from chunk_ranges_nth [of start stop fuel] assms(6-8) obtain rs where
    rs: "chunk_ranges fuel start stop = Some rs"
    and set: "set rs = {(start + 18000 * int i, min (start + 18000 * int i + 18000) stop) | i. start + 18000 * int i < stop}"
    by (auto simp: request_seconds_def)
  obtain r s' where run: "run_requests ord st cb (request_batches pairs rs) s = (r, s')" by fastforce
  have crawl: "CrawlHistoricalExchangeRate_workflow fuel ord st cb now pairs s0 e0 s = Some (r, s')"
    using True assms(3,5) by (simp add: CrawlHistoricalExchangeRate_workflow_def crawl_period_run [OF assms(1)] rs run)
  let ?q = "{nth_request (start, stop) p i | p i. p \<in> set pairs \<and> start + 18000 * int i < stop}"
  have "wrote (\<Union> (served cb ` ?q)) s s' \<and> (\<forall>q\<in>?q. answered cb q)" if "r = Inr ()"
    using run_requests_rates [OF assms(1,2) run [unfolded that]]
    unfolding request_batches_concat range_requests_nth [OF set] list_all_iff .
  then have stored: "(\<forall>q\<in>?q. answered cb q) \<and> s' = s\<lparr>db_rates := db_rates s'\<rparr> \<and>
      (\<forall>k. if \<exists>c\<in>\<Union> (served cb ` ?q). her_key c = k
           then \<exists>c\<in>\<Union> (served cb ` ?q). her_key c = k \<and> rate_at k s' = Some (her_Open c)
           else rate_at k s' = rate_at k s)" if "r = Inr ()"
    using that wrote_keys by blast
  show ?thesis
    unfolding Let_def by (intro exI conjI, rule crawl, use True in simp, rule impI, rule stored, erule conjunct2)
qed

lemma after_success:
  assumes "\<exists>r s'. run = Some (r, s') \<and> A r s' \<and> ((1000::int) < 4600 \<and> r = Inr () \<longrightarrow> (let qs = Q; cs = C qs in P qs \<and> F s' \<and> (\<forall>k. R cs k s')))"
    and "run = Some (Inr (), t)"
  shows "R (C Q) k t"
  using assms by (auto simp: Let_def)

definition sample_coinbase :: coinbase where
  "sample_coinbase =
     \<lparr>cb_Do = (\<lambda>u. Inr \<lparr>cbr_StatusCode = 200, cbr_ContentType = ''application/json'', cbr_Body = ([], None)\<rparr>),
      cb_QueryEscape = (\<lambda>s. s),
      cb_Decode = (\<lambda>b. Inr [[JNum ''a'', JNum ''b'', JNum ''c'', JNum ''d'', JNum ''e'', JNum ''f'']]),
      cb_float = (\<lambda>s. 7), cb_int64 = (\<lambda>f. 1200)\<rparr>"

lemma sample_candles:
  "GetCandles sample_coinbase p g s e =
     Inr [\<lparr>her_Time = time_of_Unix 1200, her_Low = 7, her_High = 7, her_Open = 7, her_Close = 7, her_CurrencyPair = p\<rparr>]"
  by (simp add: GetCandles_def MakeRequest_def Let_def sample_coinbase_def Scan_def candle_float_def has_prefix_def)

text \<open>A store with one rate, of one hour before \<open>now\<close>: the cron job asks for the hour between.\<close>

definition sample_rates :: db where
  "sample_rates = empty_db\<lparr>db_rates := [rate_of
     \<lparr>her_Time = time_of_Unix 1000, her_Low = 3, her_High = 3, her_Open = 3, her_Close = 3, her_CurrencyPair = ''ETH-USD''\<rparr>]\<rparr>"

theorem crawl_stores_all_candles_witness:
  "\<exists>s'. CrawlHistoricalExchangeRate_workflow 1 rev (mem_store []) sample_coinbase (time_of_Unix 4600) [''ETH-USD''] 0 0 sample_rates =
      Some (Inr (), s') \<and> rate_at (time_of_Unix 1200, ''ETH-USD'') s' = Some 7 \<and> rate_at (time_of_Unix 1000, ''ETH-USD'') s' = Some 3"
proof -
  let ?now = "time_of_Unix 4600"
  have unix: "time_Unix (time_of_Unix n) = n" for n by (simp add: time_Unix_def time_of_Unix_def)
  have period: "period_of ?now 0 0 sample_rates = (1000, 4600)"
    by (simp add: period_of_def sample_rates_def rate_of_def unix)
  have ranges: "chunk_ranges 1 1000 4600 = Some [(1000, 4600)]"
    by (simp add: chunk_ranges.simps request_seconds_def i64_id)
  have batches: "request_batches [''ETH-USD''] [(1000, 4600)] =
      [[\<lparr>rq_currencyPair = ''ETH-USD'', rq_startTime = 1000, rq_endTime = 4600\<rparr>]]"
    by (simp add: request_batches_cases range_requests_def add_request_def)
  let ?r = "\<lparr>her_Time = time_of_Unix 1200, her_Low = 7, her_High = 7, her_Open = 7, her_Close = 7, her_CurrencyPair = ''ETH-USD''\<rparr>"
  have wr: "ContextRegularActivity (WriteHistoricalExchangeRate (mem_store []) [?r]) s = (Inr (), put_rate ?r s)" for s
    unfolding ContextRegularActivity_def
    by (rule attempts_ok) (simp add: mem_st.WriteHistoricalExchangeRate_run)
  have run: "CrawlHistoricalExchangeRate_workflow 1 rev (mem_store []) sample_coinbase ?now [''ETH-USD''] 0 0 sample_rates =
      Some (Inr (), put_rate ?r sample_rates)"
    by (simp add: CrawlHistoricalExchangeRate_workflow_def SupportedCurrencyPairs_def crawl_period_run [OF mem_store_lawful]
        period ranges batches run_requests_def run_children_def act_simps CrawlExchangeRateByCurrencyPair_workflow_def
        sample_candles ContextRegularActivity_def [of "liftR _"] wr del: One_nat_def)
  have requests: "{nth_request (1000, 4600) p i | p i. p \<in> set [''ETH-USD''] \<and> 1000 + 18000 * int i < 4600} =
      {\<lparr>rq_currencyPair = ''ETH-USD'', rq_startTime = 1000, rq_endTime = 4600\<rparr>}"
    by (auto simp: nth_request_def intro!: exI [of _ 0])
  have candle: "served sample_coinbase \<lparr>rq_currencyPair = ''ETH-USD'', rq_startTime = 1000, rq_endTime = 4600\<rparr> = {?r}"
    by (simp add: served_def sample_candles)
  have "\<exists>r s'. CrawlHistoricalExchangeRate_workflow 1 rev (mem_store []) sample_coinbase ?now [''ETH-USD''] 0 0 sample_rates = Some (r, s') \<and>
    (4600 \<le> (1000::int) \<longrightarrow> r = Inr () \<and> s' = sample_rates) \<and>
    ((1000::int) < 4600 \<and> r = Inr () \<longrightarrow>
      (let requests = {nth_request (1000, 4600) p i | p i. p \<in> set [''ETH-USD''] \<and> 1000 + 18000 * int i < 4600};
           candles = \<Union> (served sample_coinbase ` requests)
       in (\<forall>q\<in>requests. answered sample_coinbase q) \<and> s' = sample_rates\<lparr>db_rates := db_rates s'\<rparr> \<and>
          (\<forall>k. if \<exists>c\<in>candles. her_key c = k
               then \<exists>c\<in>candles. her_key c = k \<and> rate_at k s' = Some (her_Open c)
               else rate_at k s' = rate_at k sample_rates)))"
    by (rule crawl_stores_all_candles [OF mem_store_lawful reversed.child_order_axioms _ _ period])
      (simp_all add: SupportedCurrencyPairs_def)
  from after_success [OF this run] have all: "if \<exists>c\<in>{?r}. her_key c = k
      then \<exists>c\<in>{?r}. her_key c = k \<and> rate_at k (put_rate ?r sample_rates) = Some (her_Open c)
      else rate_at k (put_rate ?r sample_rates) = rate_at k sample_rates" for k
    unfolding requests image_insert image_empty candle Union_insert Union_empty Un_empty_right by blast
  have "rate_at (time_of_Unix 1200, ''ETH-USD'') (put_rate ?r sample_rates) = Some 7"
    using all [of "(time_of_Unix 1200, ''ETH-USD'')"] by (simp add: her_key_def)
  moreover have "rate_at (time_of_Unix 1000, ''ETH-USD'') (put_rate ?r sample_rates) =
      rate_at (time_of_Unix 1000, ''ETH-USD'') sample_rates"
    using all [of "(time_of_Unix 1000, ''ETH-USD'')"] by (simp add: her_key_def time_of_Unix_def)
  moreover have "rate_at (time_of_Unix 1000, ''ETH-USD'') sample_rates = Some 3"
    by (simp add: rate_at_def sample_rates_def er_key_def rate_of_def)
  ultimately show ?thesis using run by simp
qed

text \<open>
  When no rate is stored yet, a crawl without a period starts at the year 1: the requests it makes for one pair
  are more than three million, nearly all for times before the currency existed.
\<close>

theorem first_crawl_starts_at_year_one:
  assumes "mongo_store st" and "db_rates s = []" and "1700000000 \<le> time_Unix now"
    and "time_Unix now + request_seconds < 2 ^ 63"
  shows "crawl_period st now 0 0 s = (Inr (- 62135596800, time_Unix now), s)
    \<and> (\<forall>fuel ranges. chunk_ranges fuel (- 62135596800) (time_Unix now) = Some ranges \<longrightarrow> 3500000 < length ranges)"
proof
  have none: "FindOne (historicalExchangeRatesCollection st) (\<lambda>_. True) (sort_key (\<lambda>r. - er_Timestamp r)) [] = Inl ErrNoDocuments"
    using mongo_collection.FindOne_law [OF mongo_store.rates_law [OF assms(1)]] by simp
  show "crawl_period st now 0 0 s = (Inr (- 62135596800, time_Unix now), s)"
    by (simp add: crawl_period_def GetExchangeRateLastTime_def act_simps assms(2) none or_missing_def time_Unix_def unix_epoch_def)
  have count: "e - s \<le> request_seconds * int (length rs)" if "chunk_ranges fuel s e = Some rs" "- (2 ^ 63) \<le> s" "e + request_seconds < 2 ^ 63"
    for fuel s e rs
    using that
  proof (induction fuel arbitrary: s rs)
    case 0
    then show ?case by (auto simp: chunk_ranges.simps split: if_splits)
  next
    case (Suc fuel)
    show ?case
    proof (cases "e \<le> s")
      case True
      with Suc.prems show ?thesis by (simp add: chunk_ranges.simps)
    next
      case False
      have s': "i64 (s + request_seconds) = s + request_seconds"
        using Suc.prems False by (intro i64_id) (simp_all add: request_seconds_def)
      with Suc.prems(1) False obtain rs' where rs': "chunk_ranges fuel (s + request_seconds) e = Some rs'" "length rs = Suc (length rs')"
        by (auto simp: chunk_ranges.simps [of _ s] Let_def)
      have "e - (s + request_seconds) \<le> request_seconds * int (length rs')"
        using Suc.prems rs'(1) by (intro Suc.IH) (simp_all add: request_seconds_def)
      with rs'(2) show ?thesis by (simp add: request_seconds_def)
    qed
  qed
  show "\<forall>fuel ranges. chunk_ranges fuel (- 62135596800) (time_Unix now) = Some ranges \<longrightarrow> 3500000 < length ranges"
  proof (intro allI impI)
    fix fuel ranges assume "chunk_ranges fuel (- 62135596800) (time_Unix now) = Some ranges"
    from count [OF this] assms(3,4) have "63835596800 \<le> request_seconds * int (length ranges)" by simp
    then show "3500000 < length ranges" by (simp add: request_seconds_def)
  qed
qed

theorem first_crawl_starts_at_year_one_witness:
  "crawl_period (mem_store []) (time_of_Unix 1700000000) 0 0 empty_db = (Inr (- 62135596800, 1700000000), empty_db)"
  using first_crawl_starts_at_year_one [OF mem_store_lawful, of empty_db "time_of_Unix 1700000000" "[]"]
  by (simp add: empty_db_def request_seconds_def)

end
