(* ===== verification/EngineMeta.thy ===== *)
theory EngineMeta
  imports StoreSales
begin

text \<open>
  What the index engine makes of the metadata of an asset (\<open>indexer.go\<close>): the source of a token, links
  to gateways and content networks, media types, and the description of an asset gathered from
  TzKT, OpenSea, fxhash and objkt. The answers of those services are records with the fields the code
  reads.
\<close>

section \<open>Constants\<close>

abbreviation DefaultDisplayURI :: string where
  "DefaultDisplayURI \<equiv> ''ipfs://QmX5rRzkZQfvEyaYc1Q78YZ83pFj3AgpFVSK8SmxUmZ85M''"
abbreviation DefaultIPFSGateway :: string where "DefaultIPFSGateway \<equiv> ''ipfs.nftstorage.link''"
abbreviation FxhashGateway :: string where "FxhashGateway \<equiv> ''gateway.fxhash.xyz''"
abbreviation FxhashDevIPFSGateway :: string where "FxhashDevIPFSGateway \<equiv> ''gateway.fxhash-dev2.xyz''"
abbreviation FxhashWaitingToBeSignedCID :: string where
  "FxhashWaitingToBeSignedCID \<equiv> ''QmbvEAn7FLMeYBDroYwBP8qWc3d3VVWbk19tTB83LCMB5S''"
abbreviation FxhashOnchfsGateway :: string where "FxhashOnchfsGateway \<equiv> ''onchfs.fxhash2.xyz''"
abbreviation ARTBLOCKS_DOMAIN :: string where "ARTBLOCKS_DOMAIN \<equiv> ''https://www.artblocks.io''"
abbreviation FXHASH_DOMAIN :: string where "FXHASH_DOMAIN \<equiv> ''https://www.fxhash.xyz''"
abbreviation CRAYON_CODES_DOMAIN :: string where "CRAYON_CODES_DOMAIN \<equiv> ''https://openprocessing.org/crayon''"
abbreviation OPENSEA_DOMAIN :: string where "OPENSEA_DOMAIN \<equiv> ''https://opensea.io''"
abbreviation sourceArtBlocks :: string where "sourceArtBlocks \<equiv> ''Art Blocks''"
abbreviation sourceCrayonCodes :: string where "sourceCrayonCodes \<equiv> ''Crayon Codes''"
abbreviation sourceFxHash :: string where "sourceFxHash \<equiv> ''fxhash''"
abbreviation hicetnuncDefaultThumbnailURL :: string where
  "hicetnuncDefaultThumbnailURL \<equiv> ''ipfs://QmNrhZHUaEqxhyLfqoq1mtHSipkWHeT31LNHb1QEbDHgnc''"
abbreviation ObjktCDNDisplayType :: string where "ObjktCDNDisplayType \<equiv> ''display''"
abbreviation ObjktCDNArtifactType :: string where "ObjktCDNArtifactType \<equiv> ''artifact''"
abbreviation ObjktCDNThumbnailType :: string where "ObjktCDNThumbnailType \<equiv> ''thumbnail''"
abbreviation ObjktCDNArtifactThumbnailType :: string where "ObjktCDNArtifactThumbnailType \<equiv> ''thumb288''"
abbreviation ObjktCDNBasePath :: string where "ObjktCDNBasePath \<equiv> ''/file/assets-003/''"
abbreviation ObjktCDNHost :: string where "ObjktCDNHost \<equiv> ''assets.objkt.media''"

definition inhouseMinter :: "string list" where
  "inhouseMinter = [''tz1d6EdHCR6YSpW1dNcbF9BqG1SaY1nCxrLx'', ''tz1hQbuRax3op9knY3YDxqNnqxzcmoxmv1qa'']"

definition artblocksContracts :: "string list" where
  "artblocksContracts = [''0x059EDD72Cd353dF5106D2B9cC5ab83a52287aC3a'', ''0xa7d8d9ef8D8Ce8992Df33D8b8CF4Aebabd5bD270'']"

section \<open>Sources of tokens\<close>

definition getTokenSourceByContract :: "ext \<Rightarrow> string \<Rightarrow> string" where
  "getTokenSourceByContract X contractAddress =
     (if x_GetBlockchainByAddress X contractAddress = x_EthereumBlockchain X then
        (if contractAddress \<in> set artblocksContracts then sourceArtBlocks
         else if contractAddress = ''0x70e6b3f9d99432fCF35274d6b24D83Ef5Ba3dE2D'' then sourceCrayonCodes
         else SourceOpensea)
      else [])"

text \<open>
  The three regular expressions. A dot matches any character but a line feed; a pattern is looked for at every
  position. \<open>\<open>fxhash\d+\.xyz\<close>\<close> needs a digit at least between the two texts.
\<close>

definition dot_prefix :: "string \<Rightarrow> string \<Rightarrow> bool" where
  "dot_prefix pat s \<longleftrightarrow> length pat \<le> length s \<and>
     list_all (\<lambda>(p, c). if p = CHR ''.'' then c \<noteq> CHR 0x0A else c = p) (zip pat s)"

fun match_somewhere :: "(string \<Rightarrow> bool) \<Rightarrow> string \<Rightarrow> bool" where
  "match_somewhere m [] = m []"
| "match_somewhere m (c # s) = (m (c # s) \<or> match_somewhere m s)"

definition fxhash_domain_at :: "string \<Rightarrow> bool" where
  "fxhash_domain_at s \<longleftrightarrow> has_prefix ''fxhash'' s \<and>
     takeWhile is_digit (drop 6 s) \<noteq> [] \<and> has_prefix ''.xyz'' (dropWhile is_digit (drop 6 s))"

definition getTokenSourceByPreviewURL :: "string \<Rightarrow> string" where
  "getTokenSourceByPreviewURL u =
     (if match_somewhere (dot_prefix ''generator.artblocks.io'') u then sourceArtBlocks
      else if match_somewhere fxhash_domain_at u then sourceFxHash else [])"

definition getTokenSourceByMetadataURL :: "string \<Rightarrow> string" where
  "getTokenSourceByMetadataURL u = (if match_somewhere (dot_prefix ''media.fxhash.xyz'') u then sourceFxHash else [])"

section \<open>Links and media\<close>

text \<open>The link and whether it could be parsed; the query is that of \<open>url.Values.Encode\<close>, its keys in order.\<close>

definition OptimizedOpenseaImageURL :: "ext \<Rightarrow> string \<Rightarrow> string \<times> bool" where
  "OptimizedOpenseaImageURL X imageURL =
     (case x_url_Parse X imageURL of
        None \<Rightarrow> (imageURL, False)
      | Some u \<Rightarrow> (x_url_String X (if u_Host u = ''i.seadn.io'' then u\<lparr>u_RawQuery := ''auto=format&dpr=1&w=3840''\<rparr> else u), True))"

definition mediumByPreviewFileExtension :: "string \<Rightarrow> Medium" where
  "mediumByPreviewFileExtension u =
     (let extn = path_Ext u
      in if extn \<in> {''.jpg'', ''.jpeg'', ''.png'', ''.svg''} then MediumImage
         else if extn \<in> {''.mp4'', ''.mov''} then MediumVideo
         else if extn = [] then MediumUnknown else MediumOther)"

definition mediumByMIMEType :: "string \<Rightarrow> Medium" where
  "mediumByMIMEType mimeType =
     (case split ''/'' mimeType of
        [] \<Rightarrow> MediumUnknown
      | item # _ \<Rightarrow>
          if item = ''image'' then MediumImage
          else if item = ''video'' then MediumVideo
          else if item = ''application'' then MediumSoftware
          else if item = [] then MediumUnknown else MediumOther)"

definition onchfsURLToGatewayURL :: "ext \<Rightarrow> string \<Rightarrow> string \<Rightarrow> string" where
  "onchfsURLToGatewayURL X gateway onchfsURL =
     (case x_url_Parse X onchfsURL of
        None \<Rightarrow> onchfsURL
      | Some u \<Rightarrow>
          if u_Scheme u \<noteq> ''onchfs'' then onchfsURL
          else x_url_String X (u\<lparr>u_Path := u_Host u @ ''/'' @ trim_left_char (CHR ''/'') (u_Path u),
                 u_Host := gateway, u_Scheme := ''https''\<rparr>))"

definition ipfsURLToGatewayURL :: "ext \<Rightarrow> string \<Rightarrow> string \<Rightarrow> string" where
  "ipfsURLToGatewayURL X gateway ipfsURL =
     (case x_url_Parse X ipfsURL of
        None \<Rightarrow> ipfsURL
      | Some u \<Rightarrow>
          if u_Scheme u \<noteq> ''ipfs'' then
            (if u_Scheme u = ''onchfs'' then onchfsURLToGatewayURL X FxhashOnchfsGateway ipfsURL else ipfsURL)
          else x_url_String X (u\<lparr>u_Path := ''ipfs/'' @ u_Host u @ ''/'' @ trim_left_char (CHR ''/'') (u_Path u),
                 u_Host := gateway, u_Scheme := ''https''\<rparr>))"

definition replace_all :: "string \<Rightarrow> string \<Rightarrow> string \<Rightarrow> string" where
  "replace_all s old new = join new (split old s)"

definition OptimizeFxHashIPFSURL :: "string \<Rightarrow> string" where
  "OptimizeFxHashIPFSURL u = (if contains ''https://ipfs.io/ipfs/'' u then replace_all u ''ipfs.io'' FxhashGateway else u)"

definition IsIPFSLink :: "string \<Rightarrow> bool" where
  "IsIPFSLink u \<longleftrightarrow> has_prefix ''ipfs://'' u \<or> contains ''/ipfs/'' u"

text \<open>
  The network as the engine uses it: requests, \<open>url.JoinPath\<close>, and the decoding of a body into a map.
  \<open>web_arrival\<close> gives the order in which the answers of concurrent requests arrive.
\<close>

record web =
  web_Head :: "string \<Rightarrow> http_response res"
  web_Get :: "string \<Rightarrow> http_response res"
  web_JoinPath :: "string list \<Rightarrow> string res"
  web_DecodeMap :: "string \<times> goerr option \<Rightarrow> (string \<times> json) list res"
  web_arrival :: "string list \<Rightarrow> string list"

definition MakeCDNURIFromIPFSURI :: "ext \<Rightarrow> web \<Rightarrow> string \<Rightarrow> string \<Rightarrow> string \<Rightarrow> string \<Rightarrow> string res" where
  "MakeCDNURIFromIPFSURI X W assetURI assetType contract tokenID =
     (case x_url_Parse X assetURI of
        None \<Rightarrow> Inl (Errorf ''parse'')
      | Some parsed \<Rightarrow>
          let cid = u_Host parsed;
              u = parsed\<lparr>u_Scheme := ''https'', u_Host := ObjktCDNHost\<rparr>
          in if assetType = ObjktCDNArtifactThumbnailType
             then bindR (web_JoinPath W [ObjktCDNBasePath, contract, tokenID, assetType]) (\<lambda>p.
                  let uri = x_url_String X (u\<lparr>u_Path := p\<rparr>)
                  in if CheckCDNURLIsExist (web_Head W) uri then Inr uri
                     else Inl (Errorf ''CDN URL is not exist''))
             else bindR (web_JoinPath W [ObjktCDNBasePath, cid, u_Path u, assetType]) (\<lambda>p.
                  bindR (if assetType = ObjktCDNArtifactType \<and> u_RawQuery u \<noteq> []
                         then web_JoinPath W [p, ''/index.html''] else Inr p) (\<lambda>p.
                  let uri = x_url_String X (u\<lparr>u_Path := p\<rparr>)
                  in if CheckCDNURLIsExist (web_Head W) uri then Inr uri
                     else if assetType = ObjktCDNArtifactType \<and> u_RawQuery u = [] \<and>
                             CheckCDNURLIsExist (web_Head W) (uri @ ''/index.html'') then Inr (uri @ ''/index.html'')
                     else Inr (ipfsURLToGatewayURL X DefaultIPFSGateway assetURI))))"

definition ReplaceIPFSURIByObjktCDNURI :: "ext \<Rightarrow> web \<Rightarrow> string \<Rightarrow> string \<Rightarrow> string \<Rightarrow> string \<Rightarrow> string" where
  "ReplaceIPFSURIByObjktCDNURI X W assetType assetURI contract tokenID =
     (if \<not> has_prefix ''ipfs://'' assetURI then assetURI
      else case MakeCDNURIFromIPFSURI X W assetURI assetType contract tokenID of
             Inr uri \<Rightarrow> uri
           | Inl _ \<Rightarrow> ipfsURLToGatewayURL X DefaultIPFSGateway assetURI)"

text \<open>\<open>`.*#(\d+)$`\<close>: the digits at the end of the name, when there is a \<open>#\<close> before them.\<close>

definition GetEditionNumberByName :: "string \<Rightarrow> int" where
  "GetEditionNumberByName name =
     (let digits = takeWhile is_digit (rev name)
      in case dropWhile is_digit (rev name) of
           [] \<Rightarrow> 0
         | c # _ \<Rightarrow>
             if c = CHR ''#'' \<and> digits \<noteq> []
             then (case parse_int64 (rev digits) of None \<Rightarrow> 0 | Some n \<Rightarrow> n) else 0)"

section \<open>The description of an asset\<close>

record MarketplaceProfile =
  mp_Source :: string
  mp_SourceURL :: string
  mp_AssetURL :: string

record AssetMetadataDetail =
  ad_AssetID :: string
  ad_Source :: string
  ad_SourceURL :: string
  ad_AssetURL :: string
  ad_Name :: string
  ad_Description :: string
  ad_MIMEType :: string
  ad_Medium :: Medium
  ad_Minter :: string
  ad_ArtistID :: string
  ad_ArtistName :: string
  ad_ArtistURL :: string
  ad_MaxEdition :: int
  ad_ThumbnailURI :: string
  ad_DisplayURI :: string
  ad_PreviewURI :: string
  ad_IsBooleanAmount :: bool
  ad_ArtworkMetadata :: "(string \<times> json) list"
  ad_Artists :: "Artist list"

definition NewAssetMetadataDetail :: "string \<Rightarrow> AssetMetadataDetail" where
  "NewAssetMetadataDetail assetID =
     \<lparr>ad_AssetID = assetID, ad_Source = [], ad_SourceURL = [], ad_AssetURL = [], ad_Name = [],
      ad_Description = [], ad_MIMEType = [], ad_Medium = MediumUnknown, ad_Minter = [], ad_ArtistID = [],
      ad_ArtistName = [], ad_ArtistURL = [], ad_MaxEdition = 0, ad_ThumbnailURI = [], ad_DisplayURI = [],
      ad_PreviewURI = [], ad_IsBooleanAmount = False, ad_ArtworkMetadata = [], ad_Artists = []\<rparr>"

definition SetMarketplace :: "MarketplaceProfile \<Rightarrow> AssetMetadataDetail \<Rightarrow> AssetMetadataDetail" where
  "SetMarketplace profile detail =
     detail\<lparr>ad_Source := mp_Source profile, ad_SourceURL := mp_SourceURL profile,
            ad_AssetURL := mp_AssetURL profile\<rparr>"

definition SetMedium :: "Medium \<Rightarrow> AssetMetadataDetail \<Rightarrow> AssetMetadataDetail" where
  "SetMedium m detail = detail\<lparr>ad_Medium := m\<rparr>"

subsection \<open>TzKT\<close>

text \<open>The fields of the records of \<open>tzkt-go\<close> that the code reads.\<close>

record FileFormat =
  ff_URI :: string
  ff_FileSize :: int
  ff_MIMEType :: string

record TokenMetadata =
  tm_Name :: string
  tm_Description :: string
  tm_Symbol :: string
  tm_ArtifactURI :: string
  tm_DisplayURI :: string
  tm_ThumbnailURI :: string
  tm_Creators :: "string list"
  tm_Publishers :: "string list"
  tm_Minter :: string
  tm_Formats :: "FileFormat list"
  tm_IsBooleanAmount :: bool
  tm_ArtworkMetadata :: "(string \<times> json) list"

record TzktToken =
  tz_Contract :: string
  tz_ID :: string
  tz_Standard :: string
  tz_TotalSupply :: int
  tz_Timestamp :: gotime
  tz_LastTime :: gotime
  tz_Metadata :: "TokenMetadata option"

text \<open>The loop over the formats keeps the largest image so far.\<close>

fun largest_image :: "FileFormat list \<Rightarrow> string \<times> int \<Rightarrow> string \<times> int" where
  "largest_image [] best = best"
| "largest_image (f # fs) best =
     largest_image fs (if contains ''image'' (ff_MIMEType f) \<and> ff_FileSize f > snd best
                       then (ff_URI f, ff_FileSize f) else best)"

definition FromTZIP21TokenMetadata :: "TokenMetadata \<Rightarrow> AssetMetadataDetail \<Rightarrow> AssetMetadataDetail" where
  "FromTZIP21TokenMetadata md detail =
     (let mimeType = (case List.find (\<lambda>f. ff_URI f = tm_ArtifactURI md) (tm_Formats md) of
                        None \<Rightarrow> [] | Some f \<Rightarrow> ff_MIMEType f);
          detail = detail\<lparr>ad_Name := tm_Name md, ad_Description := tm_Description md, ad_MIMEType := mimeType,
                          ad_Medium := mediumByMIMEType mimeType, ad_Minter := tm_Minter md\<rparr>;
          optimizedDisplayURI = fst (largest_image (tm_Formats md) ([], 0));
          displayURI = (if optimizedDisplayURI \<noteq> [] then optimizedDisplayURI
                        else if tm_DisplayURI md \<noteq> [] then tm_DisplayURI md
                        else if tm_ThumbnailURI md \<noteq> [] then tm_ThumbnailURI md else DefaultDisplayURI);
          thumbnailURI = (if tm_ThumbnailURI md = [] then displayURI else tm_ThumbnailURI md);
          previewURI = (if tm_ArtifactURI md \<noteq> [] then tm_ArtifactURI md else displayURI);
          detail = (case tm_Creators md of
                      [] \<Rightarrow> detail
                    | c # _ \<Rightarrow> detail\<lparr>ad_Artists := map (\<lambda>v. \<lparr>artist_ID = v, artist_Name = v, artist_URL = []\<rparr>)
                                                     (tm_Creators md),
                                    ad_ArtistID := c, ad_ArtistName := c\<rparr>);
          detail = (case tm_Publishers md of [] \<Rightarrow> detail | p # _ \<Rightarrow> detail\<lparr>ad_Source := p\<rparr>)
      in detail\<lparr>ad_ThumbnailURI := thumbnailURI, ad_DisplayURI := displayURI, ad_PreviewURI := previewURI,
                ad_IsBooleanAmount := tm_IsBooleanAmount md, ad_ArtworkMetadata := tm_ArtworkMetadata md\<rparr>)"

definition FromTZKT :: "TzktToken \<Rightarrow> AssetMetadataDetail \<Rightarrow> AssetMetadataDetail" where
  "FromTZKT t detail =
     (let detail = detail\<lparr>ad_MaxEdition := tz_TotalSupply t\<rparr>
      in case tz_Metadata t of None \<Rightarrow> detail | Some md \<Rightarrow> FromTZIP21TokenMetadata md detail)"

subsection \<open>OpenSea\<close>

record OpenseaOwner =
  oo_Address :: string
  oo_Quantity :: int

record DetailedAssetV2 =
  da_Identifier :: string
  da_Contract :: string
  da_TokenStandard :: string
  da_Name :: string
  da_Description :: string
  da_ImageURL :: string
  da_MetadataURL :: string
  da_DisplayImageURL :: string
  da_AnimationURL :: string
  da_OpenseaURL :: string
  da_CreatedAt :: gotime
  da_UpdatedAt :: gotime
  da_Owners :: "OpenseaOwner list option"
  da_Creator :: string

text \<open>Artist id, artist link and link of the source, for an asset that has a creator.\<close>

definition opensea_creator :: "ext \<Rightarrow> string \<Rightarrow> string \<Rightarrow> string \<times> string \<times> string" where
  "opensea_creator X creator source =
     (if creator = [] then ([], [], [])
      else (EthereumChecksumAddress X creator,
            if source = sourceArtBlocks then ARTBLOCKS_DOMAIN @ ''/'' @ creator
            else if source = sourceCrayonCodes then OPENSEA_DOMAIN @ ''/'' @ creator
            else if source = sourceFxHash then FXHASH_DOMAIN @ ''/u/'' @ creator
            else OPENSEA_DOMAIN @ ''/'' @ creator,
            if source = sourceArtBlocks then ARTBLOCKS_DOMAIN
            else if source = sourceCrayonCodes then CRAYON_CODES_DOMAIN
            else if source = sourceFxHash then FXHASH_DOMAIN
            else OPENSEA_DOMAIN))"

definition FromOpenseaAsset :: "ext \<Rightarrow> DetailedAssetV2 \<Rightarrow> string \<Rightarrow> AssetMetadataDetail \<Rightarrow> AssetMetadataDetail" where
  "FromOpenseaAsset X a source detail =
     (case opensea_creator X (da_Creator a) source of (artistID, artistURL, sourceURL) \<Rightarrow>
        let detail = detail\<lparr>ad_ArtistID := artistID, ad_ArtistName := [], ad_ArtistURL := artistURL,
                            ad_Artists := [\<lparr>artist_ID = artistID, artist_Name = [], artist_URL = artistURL\<rparr>]\<rparr>;
            rawImageURL = (if da_DisplayImageURL a \<noteq> [] then da_DisplayImageURL a else da_ImageURL a);
            imageURL = fst (OptimizedOpenseaImageURL X rawImageURL);
            imageURL = (if imageURL = [] then rawImageURL else imageURL);
            assetURL = (if source = sourceFxHash
                        then FXHASH_DOMAIN @ ''/gentk/'' @ da_Contract a @ ''-'' @ da_Identifier a
                        else da_OpenseaURL a);
            imageURL = (if source = sourceFxHash then OptimizeFxHashIPFSURL imageURL else imageURL);
            animationURL = (if source = sourceFxHash then OptimizeFxHashIPFSURL (da_AnimationURL a)
                            else da_AnimationURL a);
            detail = detail\<lparr>ad_Name := da_Name a, ad_Description := da_Description a,
                            ad_MIMEType := GetMIMETypeByURL X imageURL, ad_Medium := MediumUnknown,
                            ad_ThumbnailURI := imageURL, ad_DisplayURI := imageURL, ad_PreviewURI := imageURL,
                            ad_AssetURL := assetURL, ad_Source := source, ad_SourceURL := sourceURL\<rparr>
        in if animationURL \<noteq> [] then
             detail\<lparr>ad_PreviewURI := animationURL, ad_MIMEType := GetMIMETypeByURL X animationURL,
                    ad_Medium := (if source = sourceArtBlocks then MediumSoftware
                                  else mediumByPreviewFileExtension animationURL)\<rparr>
           else if imageURL \<noteq> [] then detail\<lparr>ad_Medium := MediumImage\<rparr>
           else detail)"

subsection \<open>fxhash\<close>

record FxUser =
  fu_ID :: string
  fu_Name :: string

record ObjectDetail =
  od_Name :: string
  od_CreatedAt :: gotime
  od_Iteration :: int
  od_Description :: string
  od_ArtifactURI :: string
  od_DisplayURI :: string
  od_ThumbnailURI :: string
  od_Supply :: int
  od_Author :: FxUser
  od_Collaborators :: "FxUser list"

definition fx_artist :: "FxUser \<Rightarrow> Artist" where
  "fx_artist v = \<lparr>artist_ID = fu_ID v, artist_Name = fu_Name v,
                  artist_URL = ''https://www.fxhash.xyz/u/'' @ fu_Name v\<rparr>"

definition FromFxhashObject :: "ext \<Rightarrow> ObjectDetail \<Rightarrow> AssetMetadataDetail \<Rightarrow> AssetMetadataDetail" where
  "FromFxhashObject X obj detail =
     (let artists = map fx_artist (od_Collaborators obj);
          artists = (if artists = [] then [fx_artist (od_Author obj)] else artists);
          a = hd artists
      in detail\<lparr>ad_ArtistID := artist_ID a, ad_ArtistName := artist_Name a, ad_ArtistURL := artist_URL a,
                ad_Name := od_Name obj, ad_Description := od_Description obj, ad_MaxEdition := od_Supply obj,
                ad_ThumbnailURI := ipfsURLToGatewayURL X FxhashGateway (od_ThumbnailURI obj),
                ad_DisplayURI := ipfsURLToGatewayURL X FxhashGateway (od_DisplayURI obj),
                ad_PreviewURI := ipfsURLToGatewayURL X FxhashGateway (od_ArtifactURI obj),
                ad_Artists := artists\<rparr>)"

record TokenDetail =
  td_Edition :: int
  td_Fungible :: bool
  td_MintedAt :: gotime

text \<open>The answer of fxhash for the object is an argument.\<close>

definition indexTokenFromFXHASH ::
    "ext \<Rightarrow> ObjectDetail res \<Rightarrow> string \<Rightarrow> AssetMetadataDetail \<times> TokenDetail \<Rightarrow> AssetMetadataDetail \<times> TokenDetail" where
  "indexTokenFromFXHASH X answer fxhashObjectID md_td =
     (let (md, td) = md_td;
          md = SetMarketplace \<lparr>mp_Source = ''fxhash'', mp_SourceURL = ''https://www.fxhash.xyz'',
                 mp_AssetURL = ''https://www.fxhash.xyz/gentk/'' @ fxhashObjectID\<rparr> md;
          md = SetMedium MediumSoftware md
      in case answer of
           Inl _ \<Rightarrow> (md, td)
         | Inr detail \<Rightarrow>
             (if \<not> contains FxhashWaitingToBeSignedCID (od_ThumbnailURI detail)
              then FromFxhashObject X detail md else md,
              td\<lparr>td_MintedAt := od_CreatedAt detail, td_Edition := od_Iteration detail\<rparr>))"

subsection \<open>objkt\<close>

record Holder =
  ho_Alias :: string
  ho_Website :: string
  ho_Address :: string
  ho_Facebook :: string
  ho_Github :: string
  ho_Gitlab :: string
  ho_Instagram :: string
  ho_Medium :: string
  ho_Reddit :: string
  ho_Telegram :: string
  ho_Twitter :: string

record ObjktToken =
  ot_Name :: string
  ot_Description :: string
  ot_Mime :: string
  ot_DisplayURI :: string
  ot_ThumbnailURI :: string
  ot_ArtifactURI :: string
  ot_TokenID :: string
  ot_FaContract :: string
  ot_Creators :: "Holder list"

text \<open>\<open>structs.Map\<close> gives a Go map, whose iteration order is unspecified: \<open>ord\<close> orders the keys.\<close>

definition holder_map :: "Holder \<Rightarrow> (string \<times> string) list" where
  "holder_map h = [(''Alias'', ho_Alias h), (''Website'', ho_Website h), (''Address'', ho_Address h),
     (''Facebook'', ho_Facebook h), (''Github'', ho_Github h), (''Gitlab'', ho_Gitlab h),
     (''Instagram'', ho_Instagram h), (''Medium'', ho_Medium h), (''Reddit'', ho_Reddit h),
     (''Telegram'', ho_Telegram h), (''Twitter'', ho_Twitter h)]"

type_synonym map_order = "(string \<times> string) list \<Rightarrow> (string \<times> string) list"

definition getArtistURL :: "map_order \<Rightarrow> Holder \<Rightarrow> string" where
  "getArtistURL ord h =
     (case List.find (\<lambda>(k, v). \<not> (k = ''Alias'' \<or> k = ''Address'') \<and> v \<noteq> []) (ord (holder_map h)) of
        Some (k, v) \<Rightarrow> v
      | None \<Rightarrow> ''https://objkt.com/profile/'' @ ho_Address h)"

definition UpdateMetadataFromObjkt :: "ext \<Rightarrow> web \<Rightarrow> ObjktToken \<Rightarrow> AssetMetadataDetail \<Rightarrow> AssetMetadataDetail" where
  "UpdateMetadataFromObjkt X W token detail =
     (let cdn = (\<lambda>assetType u. ReplaceIPFSURIByObjktCDNURI X W assetType u (ot_FaContract token) (ot_TokenID token));
          detail = detail\<lparr>ad_Name := ot_Name token, ad_Description := ot_Description token,
                          ad_MIMEType := ot_Mime token, ad_Medium := mediumByMIMEType (ot_Mime token)\<rparr>;
          display = (if ot_DisplayURI token \<noteq> [] then cdn ObjktCDNDisplayType (ot_DisplayURI token)
                     else if ot_ThumbnailURI token = hicetnuncDefaultThumbnailURL
                     then cdn ObjktCDNArtifactThumbnailType (ot_ThumbnailURI token)
                     else if ot_ThumbnailURI token \<noteq> [] then cdn ObjktCDNThumbnailType (ot_ThumbnailURI token)
                     else ad_DisplayURI detail);
          display = (if display = [] \<or> display = hicetnuncDefaultThumbnailURL
                     then ipfsURLToGatewayURL X DefaultIPFSGateway DefaultDisplayURI else display);
          preview = (if ot_ArtifactURI token \<noteq> [] then cdn ObjktCDNArtifactType (ot_ArtifactURI token)
                     else ipfsURLToGatewayURL X DefaultIPFSGateway DefaultDisplayURI)
      in detail\<lparr>ad_DisplayURI := display, ad_ThumbnailURI := display, ad_PreviewURI := preview\<rparr>)"

definition objkt_artist :: "map_order \<Rightarrow> Holder \<Rightarrow> Artist" where
  "objkt_artist ord h =
     \<lparr>artist_ID = ho_Address h,
      artist_Name = (if ho_Alias h = [] \<and> ho_Address h \<noteq> [] then ho_Address h else ho_Alias h),
      artist_URL = getArtistURL ord h\<rparr>"

definition FromObjkt :: "ext \<Rightarrow> web \<Rightarrow> map_order \<Rightarrow> ObjktToken \<Rightarrow> AssetMetadataDetail \<Rightarrow> AssetMetadataDetail" where
  "FromObjkt X W ord token detail =
     (let detail = UpdateMetadataFromObjkt X W token detail
      in case ot_Creators token of
           [] \<Rightarrow> detail
         | h # _ \<Rightarrow> detail\<lparr>ad_Artists := map (objkt_artist ord) (ot_Creators token), ad_ArtistID := ho_Address h,
                          ad_ArtistURL := getArtistURL ord h,
                          ad_ArtistName := (if ho_Alias h = [] \<and> ho_Address h \<noteq> [] then ho_Address h
                                            else ho_Alias h)\<rparr>)"

section \<open>Metadata documents\<close>

fun trait_artist :: "json list \<Rightarrow> string option" where
  "trait_artist [] = None"
| "trait_artist (trait # traits) =
     (case as_map trait of
        None \<Rightarrow> trait_artist traits
      | Some traitMap \<Rightarrow>
          (case as_string (jlookup traitMap ''trait_type'') of
             None \<Rightarrow> trait_artist traits
           | Some traitType \<Rightarrow>
               if traitType \<noteq> ''artist'' \<and> traitType \<noteq> ''Artist'' \<and> traitType \<noteq> ''Creator'' \<and> traitType \<noteq> ''creator''
               then trait_artist traits
               else (case as_string (jlookup traitMap ''value'') of
                       None \<Rightarrow> trait_artist traits
                     | Some artistName \<Rightarrow> Some artistName)))"

definition lookupArtistName :: "(string \<times> json) list \<Rightarrow> string" where
  "lookupArtistName metadata =
     (case as_string (jlookup metadata ''artist'') of
        Some artistName \<Rightarrow> artistName
      | None \<Rightarrow>
     (case Option.bind (as_slice (jlookup metadata ''traits'')) trait_artist of
        Some artistName \<Rightarrow> artistName
      | None \<Rightarrow>
     (case Option.bind (as_string (jlookup metadata ''collection_name'')) (\<lambda>name.
             if name = [] then None
             else case split '' by '' name of _ # artistName # _ \<Rightarrow> Some artistName | _ \<Rightarrow> None) of
        Some artistName \<Rightarrow> artistName
      | None \<Rightarrow>
     (case as_string (jlookup metadata ''createdBy'') of
        Some artistName \<Rightarrow> artistName
      | None \<Rightarrow>
     (case as_string (jlookup metadata ''created_by'') of
        Some artistName \<Rightarrow> artistName
      | None \<Rightarrow>
     (case as_string (jlookup metadata ''creator'') of
        Some creator \<Rightarrow> creator
      | None \<Rightarrow> []))))))"

definition fetchMetadataFromURL :: "web \<Rightarrow> string \<Rightarrow> (string \<times> json) list res" where
  "fetchMetadataFromURL W u =
     bindR (web_Get W u) (\<lambda>resp.
       if http_StatusCode resp \<noteq> 200 then Inl (Errorf ''unexpected status code'')
       else case web_DecodeMap W (http_Body resp) of
              Inl _ \<Rightarrow> Inl (Errorf ''failed to decode JSON response'')
            | Inr metadata \<Rightarrow> Inr metadata)"

text \<open>The answers are taken in the order in which they arrive, until one is not an error.\<close>

fun first_success :: "'a res list \<Rightarrow> goerr \<Rightarrow> 'a res" where
  "first_success [] lastErr = Inl lastErr"
| "first_success (Inr a # rs) lastErr = Inr a"
| "first_success (Inl e # rs) lastErr = first_success rs e"

definition fetchMetadataFromIPFS :: "ext \<Rightarrow> web \<Rightarrow> string list \<Rightarrow> string \<Rightarrow> (string \<times> json) list res" where
  "fetchMetadataFromIPFS X W ipfsGateways ipfsURL =
     (if ipfsGateways = [] then Inl (Errorf ''no IPFS gateways configured'')
      else case first_success (map (\<lambda>gateway. fetchMetadataFromURL W (ipfsURLToGatewayURL X gateway ipfsURL))
                     (web_arrival W ipfsGateways)) (Errorf '''') of
             Inr metadata \<Rightarrow> Inr metadata
           | Inl _ \<Rightarrow> Inl (Errorf ''all IPFS gateways failed''))"

definition fetchTokenMetadata :: "ext \<Rightarrow> web \<Rightarrow> string list \<Rightarrow> string \<Rightarrow> (string \<times> json) list res" where
  "fetchTokenMetadata X W ipfsGateways u =
     (if has_prefix ''http://'' u \<or> has_prefix ''https://'' u then
        (if contains ''/ipfs/'' u then
           (case split ''/ipfs/'' u of
              _ # cid # _ \<Rightarrow> if cid \<noteq> [] then fetchMetadataFromIPFS X W ipfsGateways (''ipfs://'' @ cid)
                             else fetchMetadataFromURL W u
            | _ \<Rightarrow> fetchMetadataFromURL W u)
         else fetchMetadataFromURL W u)
      else if has_prefix ''ipfs://'' u then fetchMetadataFromIPFS X W ipfsGateways u
      else Inl (Errorf ''unsupported URL scheme''))"

end
