(* ===== verification/Engine.thy ===== *)
theory Engine
  imports EngineMeta Cache "HOL-Library.Multiset"
begin

text \<open>
  The index engine (\<open>engine.go\<close>): its settings and its clients, each client a function from the arguments of
  a call to its answer. Then the hexadecimal strings of \<open>indexer_tezos.go\<close>, and what is known of the links
  and of the concurrent requests of \<open>EngineMeta\<close>.
\<close>

section \<open>Answers of the clients\<close>

record OwnedToken =
  own_Token :: TzktToken
  own_Balance :: int
  own_LastTime :: gotime

record TzktOwner =
  tzo_Address :: string
  tzo_Balance :: int
  tzo_LastTime :: gotime
  tzo_TotalSupply :: int

record TzktTransfer =
  ttf_From :: "string option"
  ttf_To :: string
  ttf_Level :: int
  ttf_Timestamp :: gotime
  ttf_TransactionID :: int

record AssetsResponse =
  ar_NFTs :: "(string \<times> string) list"
  ar_Next :: string

record bq_balance =
  bq_Owner :: string
  bq_Balance :: string
  bq_LastUpdatedTime :: gotime

record receipt =
  rc_Status :: int
  rc_BlockHash :: string
  rc_Logs :: "eth_log list"

record TransactionDetails =
  txd_From :: string
  txd_To :: string
  txd_IndexID :: string
  txd_Timestamp :: gotime

section \<open>The engine\<close>

record engine =
  en_environment :: string
  en_ethereumNetwork :: string
  en_ipfsGateways :: "string list"
  en_minterGateways :: "string \<rightharpoonup> string"
  en_web :: web
  en_map_order :: map_order
  en_RetrieveAssets :: "string \<Rightarrow> string \<Rightarrow> AssetsResponse res"
  en_RetrieveAsset :: "string \<Rightarrow> string \<Rightarrow> DetailedAssetV2 res"
  en_fxhash_Query :: "string \<Rightarrow> ObjectDetail res"
  en_objkt_Query :: "string \<Rightarrow> string \<Rightarrow> ObjktToken list res"
  en_RetrieveTokens :: "string \<Rightarrow> gotime \<Rightarrow> int \<Rightarrow> OwnedToken list res"
  en_GetContractToken :: "string \<Rightarrow> string \<Rightarrow> TzktToken res"
  en_GetBigMapPointer :: "string \<Rightarrow> int res"
  en_GetBigMapValue :: "int \<Rightarrow> string \<Rightarrow> string res"
  en_tzkt_GetTokenBalanceOfOwner :: "string \<Rightarrow> string \<Rightarrow> string \<Rightarrow> int res"
  en_GetTokenTransfersCount :: "string \<Rightarrow> string \<Rightarrow> int res"
  en_GetTokenTransfers :: "string \<Rightarrow> string \<Rightarrow> int \<Rightarrow> TzktTransfer list res"
  en_GetTransactionHash :: "int \<Rightarrow> string res"
  en_GetTokenOwners :: "string \<Rightarrow> string \<Rightarrow> int \<Rightarrow> gotime \<Rightarrow> TzktOwner list res"
  en_GetTokenLastActivityTime :: "string \<Rightarrow> string \<Rightarrow> gotime res"
  en_GetTransactionByTx :: "string \<Rightarrow> gotime list res"
  en_DecodeTokenMetadata :: "string \<times> goerr option \<Rightarrow> TokenMetadata res"
  en_UnmarshalTokenInfo :: "string \<Rightarrow> (string \<times> string) list res"
  en_sha3_hex :: "string \<Rightarrow> string"
  en_GetTokenBalance :: "string \<Rightarrow> string \<Rightarrow> string \<Rightarrow> string res"
  en_ListTokenBalances :: "string \<Rightarrow> string \<Rightarrow> string \<Rightarrow> string option \<Rightarrow> (bq_balance list \<times> string option) res"
  en_TransactionReceipt :: "string \<Rightarrow> receipt option res"
  en_BlockByHash :: "string \<Rightarrow> int res"
  en_cacheStore :: "cache_entry coll"

text \<open>\<open>New\<close>: without gateways in the settings, the default one.\<close>

definition New_engine :: "engine \<Rightarrow> engine" where
  "New_engine E = E\<lparr>en_ipfsGateways := (if en_ipfsGateways E = [] then [DefaultIPFSGateway] else en_ipfsGateways E)\<rparr>"

text \<open>\<open>objkt.Client.GetObjectToken\<close>: the first token of the answer.\<close>

definition GetObjktToken :: "engine \<Rightarrow> string \<Rightarrow> string \<Rightarrow> ObjktToken res" where
  "GetObjktToken E contract tokenID =
     bindR (en_objkt_Query E contract tokenID) (\<lambda>tokens.
       case tokens of [] \<Rightarrow> Inl (Errorf ''there is no token in objkt'') | t # _ \<Rightarrow> Inr t)"

section \<open>Hexadecimal strings\<close>

text \<open>\<open>hex.DecodeString\<close> and \<open>hex.EncodeToString\<close> on the bytes of a string.\<close>

fun hex_DecodeString :: "string \<Rightarrow> string res" where
  "hex_DecodeString [] = Inr []"
| "hex_DecodeString [c] = Inl (Errorf ''odd length hex string'')"
| "hex_DecodeString (c # d # s) =
     (case (digit_val c, digit_val d) of
        (Some hi, Some lo) \<Rightarrow> bindR (hex_DecodeString s) (\<lambda>t. Inr (char_of (16 * hi + lo) # t))
      | _ \<Rightarrow> Inl (Errorf ''invalid byte''))"

fun hex_EncodeToString :: "string \<Rightarrow> string" where
  "hex_EncodeToString [] = []"
| "hex_EncodeToString (c # s) =
     (let n = of_char c :: nat in digit_char (n div 16) # digit_char (n mod 16) # hex_EncodeToString s)"

text \<open>The value of \<open>token_info[k]\<close>, decoded by \<open>HexString.UnmarshalJSON\<close>; a bad value fails the whole map.\<close>

definition decode_token_info :: "(string \<times> string) list \<Rightarrow> (string \<times> string) list res" where
  "decode_token_info kvs = mapR (\<lambda>(k, v). bindR (hex_DecodeString v) (\<lambda>b. Inr (k, b))) kvs"

lemma hex_decode_encode: "hex_DecodeString (hex_EncodeToString s) = Inr s"
proof (induction s)
  case (Cons c s)
  let ?n = "of_char c :: nat"
  have n: "?n < 256" by (rule nat_of_char_less_256)
  then have "?n div 16 < 16" and "?n mod 16 < 16" by linarith+
  then have "digit_val (digit_char (?n div 16)) = Some (?n div 16)"
    and "digit_val (digit_char (?n mod 16)) = Some (?n mod 16)"
    by (blast intro: digit_val_digit_char)+
  with Cons show ?case by (simp add: Let_def)
qed simp

section \<open>Links\<close>

text \<open>
  What the code relies on in \<open>net/url\<close>: a link that is put together begins with its scheme. Where no link can
  be parsed this holds of any printer, so the interpretation below is on one that parses.
\<close>

locale url_syntax =
  fixes X :: ext
  assumes string_of_https: "u_Scheme u = ''https'' \<Longrightarrow> has_prefix ''https://'' (x_url_String X u)"
begin

lemma onchfs_gateway_https:
  assumes "x_url_Parse X link = Some u" and "u_Scheme u = ''onchfs''"
  shows "has_prefix ''https://'' (onchfsURLToGatewayURL X gateway link)"
  using assms by (simp add: onchfsURLToGatewayURL_def string_of_https)

lemma gateway_link:
  "has_prefix ''https://'' (ipfsURLToGatewayURL X gateway link) \<or>
   ipfsURLToGatewayURL X gateway link = link \<and>
     (\<forall>u. x_url_Parse X link = Some u \<longrightarrow> u_Scheme u \<noteq> ''ipfs'' \<and> u_Scheme u \<noteq> ''onchfs'')"
  by (auto simp: ipfsURLToGatewayURL_def string_of_https onchfs_gateway_https split: option.splits)

end

interpretation sample_url: url_syntax sample_ext
  by unfold_locales (simp add: sample_ext_def has_prefix_iff)

text \<open>No scheme of a content network is left in a link.\<close>

definition web_link :: "ext \<Rightarrow> string \<Rightarrow> bool" where
  "web_link X link \<longleftrightarrow> has_prefix ''https://'' link \<or>
     (\<forall>u. x_url_Parse X link = Some u \<longrightarrow> u_Scheme u \<noteq> ''ipfs'' \<and> u_Scheme u \<noteq> ''onchfs'')"

lemma gateway_web_link:
  assumes "url_syntax X"
  shows "web_link X (ipfsURLToGatewayURL X gateway link)"
  using url_syntax.gateway_link [OF assms, of gateway link] by (auto simp: web_link_def)

section \<open>Concurrent requests\<close>

text \<open>Every request is answered once: the answers arrive in some order.\<close>

locale answered_once =
  fixes arrival :: "string list \<Rightarrow> string list"
  assumes arrival_mset: "mset (arrival gateways) = mset gateways"
begin

lemma arrival_set: "set (arrival gateways) = set gateways"
  using arrival_mset by (metis set_mset_mset)

lemma arrival_Nil: "arrival gateways = [] \<longleftrightarrow> gateways = []"
  using arrival_set by (metis set_empty)

end

lemma first_success_ok: "ok (first_success rs e) \<longleftrightarrow> (\<exists>r\<in>set rs. ok r)"
  by (induction rs e rule: first_success.induct) auto

lemma first_success_mem: "first_success rs e = Inr a \<Longrightarrow> Inr a \<in> set rs"
  by (induction rs e rule: first_success.induct) auto

section \<open>An instance\<close>

text \<open>
  An engine over the sample of the external code: one OpenSea asset, one token of TzKT, one page of balances. The
  answers of concurrent requests arrive in reverse order.
\<close>

definition sample_web :: web where
  "sample_web =
     \<lparr>web_Head = (\<lambda>u. Inl (Errorf ''not found'')),
      web_Get = (\<lambda>u. if has_prefix ''https://two'' u
                     then Inr \<lparr>http_StatusCode = 200, http_ContentLength = 2, http_Body = (''{}'', None)\<rparr>
                     else Inl (Errorf ''no route'')),
      web_JoinPath = (\<lambda>ps. Inr (join ''/'' ps)),
      web_DecodeMap = (\<lambda>b. Inr [(''artist'', JStr ''Ann'')]),
      web_arrival = rev\<rparr>"

interpretation sample_arrival: answered_once "web_arrival sample_web"
  by unfold_locales (simp add: sample_web_def)

definition sample_asset :: DetailedAssetV2 where
  "sample_asset =
     \<lparr>da_Identifier = ''7'', da_Contract = ''0xab'', da_TokenStandard = ''ERC721'', da_Name = ''Work #12'',
      da_Description = [], da_ImageURL = ''https://img/a.png'', da_MetadataURL = [], da_DisplayImageURL = [],
      da_AnimationURL = [], da_OpenseaURL = [], da_CreatedAt = 5, da_UpdatedAt = 9, da_Owners = None,
      da_Creator = []\<rparr>"

definition sample_tzkt_token :: TzktToken where
  "sample_tzkt_token =
     \<lparr>tz_Contract = ''KT1abc'', tz_ID = ''42'', tz_Standard = ''fa2'', tz_TotalSupply = 1, tz_Timestamp = 5,
      tz_LastTime = 9, tz_Metadata = None\<rparr>"

definition sample_engine :: engine where
  "sample_engine =
     \<lparr>en_environment = ProductionEnvironment, en_ethereumNetwork = ''mainnet'',
      en_ipfsGateways = [''one'', ''two''], en_minterGateways = Map.empty, en_web = sample_web,
      en_map_order = (\<lambda>m. m),
      en_RetrieveAssets = (\<lambda>owner next. Inr \<lparr>ar_NFTs = [(''0xab'', ''7'')], ar_Next = []\<rparr>),
      en_RetrieveAsset = (\<lambda>c i. Inr sample_asset),
      en_fxhash_Query = (\<lambda>i. Inl (Errorf ''none'')), en_objkt_Query = (\<lambda>c i. Inr []),
      en_RetrieveTokens = (\<lambda>owner t offset. Inr [\<lparr>own_Token = sample_tzkt_token, own_Balance = 1, own_LastTime = 9\<rparr>]),
      en_GetContractToken = (\<lambda>c i. Inr sample_tzkt_token),
      en_GetBigMapPointer = (\<lambda>c. Inl (Errorf ''none'')), en_GetBigMapValue = (\<lambda>p i. Inl (Errorf ''none'')),
      en_tzkt_GetTokenBalanceOfOwner = (\<lambda>c i owner. Inr 1),
      en_GetTokenTransfersCount = (\<lambda>c i. Inr 2),
      en_GetTokenTransfers = (\<lambda>c i n. Inr [
         \<lparr>ttf_From = None, ttf_To = ''tz1a'', ttf_Level = 10, ttf_Timestamp = 100, ttf_TransactionID = 1\<rparr>,
         \<lparr>ttf_From = Some ''tz1a'', ttf_To = ''tz1b'', ttf_Level = 11, ttf_Timestamp = 200, ttf_TransactionID = 2\<rparr>]),
      en_GetTransactionHash = (\<lambda>n. Inr (big_Text 10 n)),
      en_GetTokenOwners = (\<lambda>c i n t. Inr [\<lparr>tzo_Address = ''tz1b'', tzo_Balance = 1, tzo_LastTime = 200, tzo_TotalSupply = 1\<rparr>]),
      en_GetTokenLastActivityTime = (\<lambda>c i. Inr 200),
      en_GetTransactionByTx = (\<lambda>h. Inr [200]),
      en_DecodeTokenMetadata = (\<lambda>b. Inl (Errorf ''none'')), en_UnmarshalTokenInfo = (\<lambda>b. Inr []),
      en_sha3_hex = (\<lambda>s. s),
      en_GetTokenBalance = (\<lambda>c i owner. Inr ''3''),
      en_ListTokenBalances = (\<lambda>n c i next. case next of
         None \<Rightarrow> Inr ([\<lparr>bq_Owner = ''0xaa'', bq_Balance = ''2'', bq_LastUpdatedTime = 1\<rparr>], Some ''p2'')
       | Some p \<Rightarrow> Inr ([\<lparr>bq_Owner = ''0xbb'', bq_Balance = ''1'', bq_LastUpdatedTime = 2\<rparr>], None)),
      en_TransactionReceipt = (\<lambda>h. Inr None), en_BlockByHash = (\<lambda>h. Inr 100), en_cacheStore = mem_coll (\<lambda>_ _. False)\<rparr>"

section \<open>Properties\<close>

text \<open>
  In whatever order the gateways answer, a metadata document is found exactly when one of the gateways has it,
  and the document found is that of a gateway: a gateway that fails first does not fail the request.
\<close>

theorem fetchMetadataFromIPFS_any_order:
  assumes "answered_once (web_arrival W)"
  shows "(ok (fetchMetadataFromIPFS X W gateways link) \<longleftrightarrow>
      (\<exists>g\<in>set gateways. ok (fetchMetadataFromURL W (ipfsURLToGatewayURL X g link))))
    \<and> (case fetchMetadataFromIPFS X W gateways link of
         Inl _ \<Rightarrow> True
       | Inr m \<Rightarrow> \<exists>g\<in>set gateways. fetchMetadataFromURL W (ipfsURLToGatewayURL X g link) = Inr m)"
proof (cases "gateways = []")
  case True
  then show ?thesis by (simp add: fetchMetadataFromIPFS_def)
next
  case False
  let ?rs = "map (\<lambda>g. fetchMetadataFromURL W (ipfsURLToGatewayURL X g link)) (web_arrival W gateways)"
  have set: "set (web_arrival W gateways) = set gateways" by (rule answered_once.arrival_set [OF assms])
  have ok_rs: "ok (first_success ?rs (Errorf '''')) \<longleftrightarrow>
      (\<exists>g\<in>set gateways. ok (fetchMetadataFromURL W (ipfsURLToGatewayURL X g link)))"
    by (simp add: first_success_ok set)
  show ?thesis
  proof (cases "first_success ?rs (Errorf '''')")
    case (Inl e)
    with ok_rs False show ?thesis by (simp add: fetchMetadataFromIPFS_def)
  next
    case (Inr m)
    from first_success_mem [OF this] set have "\<exists>g\<in>set gateways. fetchMetadataFromURL W (ipfsURLToGatewayURL X g link) = Inr m"
      by auto
    with Inr ok_rs False show ?thesis by (simp add: fetchMetadataFromIPFS_def)
  qed
qed

theorem fetchMetadataFromIPFS_any_order_witness:
  "ok (fetchMetadataFromIPFS sample_ext sample_web [''one'', ''two''] ''ipfs://Qm'')"
proof -
  have "ok (fetchMetadataFromURL sample_web (ipfsURLToGatewayURL sample_ext ''two'' ''ipfs://Qm''))"
    by (simp add: fetchMetadataFromURL_def sample_web_def ipfsURLToGatewayURL_def sample_ext_def has_prefix_def trim_left_char_def)
  with fetchMetadataFromIPFS_any_order [OF sample_arrival.answered_once_axioms,
      of sample_ext "[''one'', ''two'']" "''ipfs://Qm''"] show ?thesis by simp
qed

text \<open>
  A string of bytes survives the hexadecimal form in which TzKT hands out the metadata of a token, and a string
  of odd length is refused.
\<close>

theorem HexString_roundtrip:
  "hex_DecodeString (hex_EncodeToString s) = Inr s \<and> length (hex_EncodeToString s) = 2 * length s
    \<and> \<not> ok (hex_DecodeString (c # hex_EncodeToString s))"
proof -
  have odd: "ok (hex_DecodeString t) \<Longrightarrow> even (length t)" for t
    by (induction t rule: hex_DecodeString.induct) (auto simp: ok_iff bindR_Inr_iff split: option.splits)
  have len: "length (hex_EncodeToString s) = 2 * length s"
    by (induction s) (simp_all add: Let_def)
  show ?thesis using odd [of "c # hex_EncodeToString s"] by (auto simp: hex_decode_encode len)
qed

end
