(* ===== verification/EngineEth.thy ===== *)
theory EngineEth
  imports Engine
begin

text \<open>
  The Ethereum side of the index engine (\<open>indexer_ethereum.go\<close>): tokens of an owner and single tokens read
  from OpenSea, balances and owners from the blockchain query service, times and transfers of a transaction from
  the node. Reads of the block time go through the cache, the only state.
\<close>

section \<open>Constants\<close>

abbreviation ENSContractAddress1 :: string where "ENSContractAddress1 \<equiv> ''0x57f1887a8BF19b14fC0dF6Fd9B2acc9Af147eA85''"
abbreviation ENSContractAddress2 :: string where "ENSContractAddress2 \<equiv> ''0xD4416b13d2b3a9aBae7AcD5D6C2BbDBE25686401''"

definition pm_of_detail :: "AssetMetadataDetail \<Rightarrow> gotime \<Rightarrow> ProjectMetadata" where
  "pm_of_detail md now =
     zero_ProjectMetadata\<lparr>
       pm_AssetID := ad_AssetID md, pm_Source := ad_Source md, pm_SourceURL := ad_SourceURL md,
       pm_AssetURL := ad_AssetURL md, pm_Title := ad_Name md, pm_Description := ad_Description md,
       pm_MIMEType := ad_MIMEType md, pm_Medium := ad_Medium md, pm_ArtistID := ad_ArtistID md,
       pm_ArtistName := ad_ArtistName md, pm_ArtistURL := ad_ArtistURL md, pm_Artists := ad_Artists md,
       pm_MaxEdition := ad_MaxEdition md, pm_PreviewURL := ad_PreviewURI md,
       pm_ThumbnailURL := ad_ThumbnailURI md, pm_GalleryThumbnailURL := ad_DisplayURI md,
       pm_ArtworkMetadata := ad_ArtworkMetadata md, pm_LastUpdatedAt := now\<rparr>"

lemma pm_of_detail_links:
  "pm_ThumbnailURL (pm_of_detail md now) = ad_ThumbnailURI md"
  "pm_GalleryThumbnailURL (pm_of_detail md now) = ad_DisplayURI md"
  "pm_PreviewURL (pm_of_detail md now) = ad_PreviewURI md"
  by (simp_all add: pm_of_detail_def)

section \<open>Tokens\<close>

text \<open>The name of the artist, and for Art Blocks the generator, from the metadata document of the token.\<close>

definition fetch_artist :: "ext \<Rightarrow> engine \<Rightarrow> DetailedAssetV2 \<Rightarrow> string \<Rightarrow> AssetMetadataDetail \<Rightarrow> AssetMetadataDetail" where
  "fetch_artist X E a source md =
     (if da_MetadataURL a \<noteq> [] \<and> (ad_ArtistName md = [] \<or> source = sourceArtBlocks) then
        let metadata = (case fetchTokenMetadata X (en_web E) (en_ipfsGateways E) (da_MetadataURL a) of
                          Inl _ \<Rightarrow> [] | Inr m \<Rightarrow> m);
            artistName = lookupArtistName metadata;
            md = md\<lparr>ad_ArtistName := artistName\<rparr>;
            md = (case ad_Artists md of
                    [artist] \<Rightarrow> md\<lparr>ad_Artists := [artist\<lparr>artist_Name := artistName\<rparr>]\<rparr>
                  | _ \<Rightarrow> md)
        in case as_string (jlookup metadata ''generator_url'') of
             Some animationURL \<Rightarrow>
               if source = sourceArtBlocks
               then md\<lparr>ad_PreviewURI := animationURL, ad_MIMEType := MediumSoftware\<rparr> else md
           | None \<Rightarrow> md
      else md)"

definition eth_token_source :: "ext \<Rightarrow> DetailedAssetV2 \<Rightarrow> string \<Rightarrow> string" where
  "eth_token_source X a contractAddress =
     (let source = getTokenSourceByMetadataURL (da_MetadataURL a);
          source = (if source = [] then getTokenSourceByPreviewURL (da_AnimationURL a) else source)
      in if source = [] then getTokenSourceByContract X contractAddress else source)"

definition opensea_owners :: "OpenseaOwner list \<Rightarrow> (string \<rightharpoonup> int)" where
  "opensea_owners os = fold (\<lambda>ow m. m(oo_Address ow \<mapsto> oo_Quantity ow)) os Map.empty"

definition eth_token :: "ext \<Rightarrow> gotime \<Rightarrow> DetailedAssetV2 \<Rightarrow> string \<Rightarrow> int \<Rightarrow> TokenDetail \<Rightarrow> string \<Rightarrow> string \<Rightarrow> Token" where
  "eth_token X now a owner balance td contractType contractAddress =
     (let token = zero_Token\<lparr>
            tok_Base := \<lparr>base_ID = da_Identifier a, base_Blockchain = x_EthereumBlockchain X,
                         base_Fungible = td_Fungible td, base_ContractType = contractType,
                         base_ContractAddress = contractAddress\<rparr>,
            tok_IndexID := TokenIndexID X (x_EthereumBlockchain X) contractAddress (da_Identifier a),
            tok_Edition := td_Edition td, tok_Balance := balance, tok_Owner := owner,
            tok_MintedAt := td_MintedAt td, tok_LastRefreshedTime := now,
            tok_LastActivityTime := da_UpdatedAt a\<rparr>
      in if owner \<noteq> [] then token\<lparr>tok_Owners := Some [owner \<mapsto> balance]\<rparr>
         else case da_Owners a of
                None \<Rightarrow> token
              | Some os \<Rightarrow>
                  let token = token\<lparr>tok_Owners := Some (opensea_owners os)\<rparr>
                  in case os of [ow] \<Rightarrow> token\<lparr>tok_Owner := oo_Address ow\<rparr> | _ \<Rightarrow> token)"

text \<open>\<open>None\<close> is the nil update of a contract that is skipped; the function returns no error.\<close>

definition indexETHToken ::
    "ext \<Rightarrow> engine \<Rightarrow> gotime \<Rightarrow> DetailedAssetV2 \<Rightarrow> string \<Rightarrow> int \<Rightarrow> AssetUpdates option" where
  "indexETHToken X E now a owner balance =
     (let contractAddress = EthereumChecksumAddress X (da_Contract a)
      in if contractAddress = ENSContractAddress1 \<or> contractAddress = ENSContractAddress2 then None
         else
           let source = eth_token_source X a contractAddress;
               md = FromOpenseaAsset X a source (NewAssetMetadataDetail contractAddress);
               md = fetch_artist X E a source md;
               contractType = to_lower (da_TokenStandard a);
               td = \<lparr>td_Edition = GetEditionNumberByName (da_Name a), td_Fungible = contractType \<noteq> ''erc721'',
                     td_MintedAt = da_CreatedAt a\<rparr>;
               fxObjktID = da_Contract a @ ''-'' @ da_Identifier a;
               (md, td) = (if en_environment E \<noteq> DevelopmentEnvironment \<and> source = sourceFxHash
                           then indexTokenFromFXHASH X (en_fxhash_Query E fxObjktID) fxObjktID (md, td)
                           else (md, td))
           in Some \<lparr>au_ID = da_Contract a @ ''-'' @ da_Identifier a, au_Source = SourceOpensea,
                    au_ProjectMetadata = pm_of_detail md now, au_BlockchainMetadata = JNull,
                    au_Tokens = [eth_token X now a owner balance td contractType contractAddress]\<rparr>)"

definition IndexETHToken :: "ext \<Rightarrow> engine \<Rightarrow> gotime \<Rightarrow> string \<Rightarrow> string \<Rightarrow> AssetUpdates option res" where
  "IndexETHToken X E now contract tokenID =
     bindR (en_RetrieveAsset E contract tokenID) (\<lambda>a. Inr (indexETHToken X E now a [] 0))"

text \<open>An asset whose description cannot be read is skipped.\<close>

fun eth_updates :: "ext \<Rightarrow> engine \<Rightarrow> gotime \<Rightarrow> string \<Rightarrow> (string \<times> string) list \<Rightarrow> AssetUpdates list" where
  "eth_updates X E now owner [] = []"
| "eth_updates X E now owner ((contract, identifier) # nfts) =
     (case en_RetrieveAsset E contract identifier of
        Inl _ \<Rightarrow> eth_updates X E now owner nfts
      | Inr a \<Rightarrow>
          (case indexETHToken X E now a owner 1 of
             None \<Rightarrow> eth_updates X E now owner nfts
           | Some update \<Rightarrow> update # eth_updates X E now owner nfts))"

definition IndexETHTokenByOwner :: "ext \<Rightarrow> engine \<Rightarrow> gotime \<Rightarrow> string \<Rightarrow> string \<Rightarrow> (AssetUpdates list \<times> string) res" where
  "IndexETHTokenByOwner X E now owner next =
     (if owner \<in> set EthereumIndexExcludedOwners then Inr ([], [])
      else bindR (en_RetrieveAssets E owner next) (\<lambda>assets.
             Inr (eth_updates X E now owner (ar_NFTs assets), ar_Next assets)))"

section \<open>Balances and owners\<close>

text \<open>\<open>fmt.Sprintf("0x%064x", id)\<close>; the sign counts in the width.\<close>

definition hex64 :: "int \<Rightarrow> string" where
  "hex64 n =
     (let h = big_Text 16 \<bar>n\<bar>
      in ''0x'' @ (if n < 0 then ''-'' @ replicate (63 - length h) (CHR ''0'') @ h
                   else replicate (64 - length h) (CHR ''0'') @ h))"

definition getEthereumTokenBalanceOfOwner :: "engine \<Rightarrow> string \<Rightarrow> string \<Rightarrow> string \<Rightarrow> int res" where
  "getEthereumTokenBalanceOfOwner E contract tokenID owner =
     (if owner \<in> set EthereumIndexExcludedOwners then Inr 0
      else case big_SetString 10 tokenID of
             None \<Rightarrow> Inl (Errorf ''fail to convert token id to hex'')
           | Some n \<Rightarrow>
               bindR (en_GetTokenBalance E contract (hex64 n) owner) (\<lambda>balance.
                 case parse_int64 balance of
                   None \<Rightarrow> Inl (Errorf ''strconv.Atoi'')
                 | Some b \<Rightarrow> Inr b))"

definition owner_balance :: "ext \<Rightarrow> bq_balance \<Rightarrow> OwnerBalance res" where
  "owner_balance X ob =
     (case parse_int64 (bq_Balance ob) of
        None \<Rightarrow> Inl (Errorf ''strconv.Atoi'')
      | Some b \<Rightarrow> Inr \<lparr>ob_Address = EthereumChecksumAddress X (bq_Owner ob), ob_Balance = b,
                       ob_LastTime = bq_LastUpdatedTime ob\<rparr>)"

definition bq_network :: "engine \<Rightarrow> string" where
  "bq_network E = (if en_ethereumNetwork E = ''sepolia'' then ''ETHEREUM_SEPOLIA_TESTNET'' else ''ETHEREUM_MAINNET'')"

text \<open>The pages; \<open>fuel\<close> bounds their number, \<open>None\<close> when it does not suffice.\<close>

fun eth_owner_pages ::
    "nat \<Rightarrow> ext \<Rightarrow> engine \<Rightarrow> string \<Rightarrow> string \<Rightarrow> string option \<Rightarrow> OwnerBalance list \<Rightarrow> OwnerBalance list res option" where
  "eth_owner_pages 0 X E contract tokenID nextToken acc = None"
| "eth_owner_pages (Suc fuel) X E contract tokenID nextToken acc =
     (case big_SetString 10 tokenID of
        None \<Rightarrow> Some (Inl (Errorf ''fail to convert to hex''))
      | Some n \<Rightarrow>
          (case en_ListTokenBalances E (bq_network E) contract (hex64 n) nextToken of
             Inl e \<Rightarrow> Some (Inl e)
           | Inr (balances, nextToken') \<Rightarrow>
               (case mapR (owner_balance X) balances of
                  Inl e \<Rightarrow> Some (Inl e)
                | Inr obs \<Rightarrow>
                    (case nextToken' of
                       None \<Rightarrow> Some (Inr (acc @ obs))
                     | Some t \<Rightarrow> eth_owner_pages fuel X E contract tokenID (Some t) (acc @ obs)))))"

definition IndexETHTokenOwners ::
    "nat \<Rightarrow> ext \<Rightarrow> engine \<Rightarrow> string \<Rightarrow> string \<Rightarrow> OwnerBalance list res option" where
  "IndexETHTokenOwners fuel X E contract tokenID = eth_owner_pages fuel X E contract tokenID None []"

section \<open>Transactions\<close>

definition GetEthereumTxTimestamp :: "engine \<Rightarrow> string \<Rightarrow> (cache_entry list, gotime) act" where
  "GetEthereumTxTimestamp E txHash =
     (case en_TransactionReceipt E txHash of
        Inl e \<Rightarrow> throwA e
      | Inr None \<Rightarrow> throwA ErrTXNotFound
      | Inr (Some receipt) \<Rightarrow>
          if rc_Status receipt = 0 then throwA (Errorf ''the transaction is not success'')
          else if rc_Status receipt = 1
               then GetETHBlockTime (en_cacheStore E) (en_BlockByHash E) (rc_BlockHash receipt)
          else throwA (Errorf ''unexpected tx status for ethereum''))"

definition transfer_of_token :: "ext \<Rightarrow> string \<Rightarrow> eth_log \<Rightarrow> bool" where
  "transfer_of_token X tokenID l \<longleftrightarrow>
     (case log_Topics l of
        [t0, t1, t2, t3] \<Rightarrow> big_Text 10 (x_hash_Big X t3) = tokenID \<and>
          (t0 = TransferEventSignature \<or> t0 = TransferSingleEventSignature)
      | _ \<Rightarrow> False)"

definition transaction_detail :: "ext \<Rightarrow> string \<Rightarrow> gotime \<Rightarrow> eth_log \<Rightarrow> TransactionDetails" where
  "transaction_detail X tokenID ts l =
     \<lparr>txd_From = x_HexToAddressHex X (log_Topics l ! 1), txd_To = x_HexToAddressHex X (log_Topics l ! 2),
      txd_IndexID = TokenIndexID X (x_EthereumBlockchain X) (log_Address l) tokenID, txd_Timestamp = ts\<rparr>"

definition GetETHTransactionDetailsByPendingTx ::
    "ext \<Rightarrow> engine \<Rightarrow> string \<Rightarrow> string \<Rightarrow> (cache_entry list, TransactionDetails list) act" where
  "GetETHTransactionDetailsByPendingTx X E txHash tokenID =
     (case en_TransactionReceipt E txHash of
        Inl e \<Rightarrow> throwA e
      | Inr None \<Rightarrow> throwA (Errorf ''not found'')
      | Inr (Some receipt) \<Rightarrow>
          if rc_Logs receipt = [] \<or> rc_Status receipt = 0 then throwA (Errorf ''the transaction is not success'')
          else bindA (tryA (GetETHBlockTime (en_cacheStore E) (en_BlockByHash E) (rc_BlockHash receipt))) (\<lambda>r.
                 case r of
                   Inl _ \<Rightarrow> throwA (Errorf ''cannot get transaction timestamp'')
                 | Inr ts \<Rightarrow> retA (map (transaction_detail X tokenID ts)
                                    (filter (transfer_of_token X tokenID) (rc_Logs receipt)))))"

section \<open>What an update of an asset contains\<close>

lemma eth_token_fields [simp]:
  "tok_IndexID (eth_token X now a owner balance td ct addr) =
     TokenIndexID X (x_EthereumBlockchain X) addr (da_Identifier a)"
  "tok_Base (eth_token X now a owner balance td ct addr) =
     \<lparr>base_ID = da_Identifier a, base_Blockchain = x_EthereumBlockchain X, base_Fungible = td_Fungible td,
      base_ContractType = ct, base_ContractAddress = addr\<rparr>"
  "tok_Balance (eth_token X now a owner balance td ct addr) = balance"
  by (simp_all add: eth_token_def Let_def split: option.split list.split)

lemma eth_token_owner:
  "owner \<noteq> [] \<Longrightarrow> tok_Owner (eth_token X now a owner balance td ct addr) = owner \<and>
     tok_Owners (eth_token X now a owner balance td ct addr) = Some [owner \<mapsto> balance]"
  by (simp add: eth_token_def Let_def)

lemma SetMarketplace_AssetID [simp]: "ad_AssetID (SetMarketplace p md) = ad_AssetID md"
  by (simp add: SetMarketplace_def)

lemma SetMedium_AssetID [simp]: "ad_AssetID (SetMedium m md) = ad_AssetID md"
  by (simp add: SetMedium_def)

lemma FromOpenseaAsset_AssetID [simp]: "ad_AssetID (FromOpenseaAsset X a source md) = ad_AssetID md"
  by (simp add: FromOpenseaAsset_def Let_def case_prod_beta if_distrib [of ad_AssetID] split del: if_split cong del: if_weak_cong)

lemma FromFxhashObject_AssetID [simp]: "ad_AssetID (FromFxhashObject X obj md) = ad_AssetID md"
  by (simp add: FromFxhashObject_def Let_def)

lemma fetch_artist_AssetID [simp]: "ad_AssetID (fetch_artist X E a source md) = ad_AssetID md"
  by (simp add: fetch_artist_def Let_def split: option.split list.split)

lemma indexTokenFromFXHASH_fst_AssetID [simp]:
  "ad_AssetID (fst (indexTokenFromFXHASH X answer i (md, td))) = ad_AssetID md"
  by (simp add: indexTokenFromFXHASH_def Let_def split: sum.split)

lemma indexTokenFromFXHASH_Fungible [simp]:
  "td_Fungible (snd (indexTokenFromFXHASH X answer i (md, td))) = td_Fungible td"
  by (simp add: indexTokenFromFXHASH_def Let_def split: sum.split)

lemma indexETHToken_None_iff:
  "indexETHToken X E now a owner balance = None \<longleftrightarrow>
     EthereumChecksumAddress X (da_Contract a) \<in> {ENSContractAddress1, ENSContractAddress2}"
  by (simp add: indexETHToken_def Let_def split: prod.split)

lemma indexETHToken_Some:
  assumes "indexETHToken X E now a owner balance = Some u"
  obtains md td where
    "u = \<lparr>au_ID = da_Contract a @ ''-'' @ da_Identifier a, au_Source = SourceOpensea,
          au_ProjectMetadata = pm_of_detail md now, au_BlockchainMetadata = JNull,
          au_Tokens = [eth_token X now a owner balance td (to_lower (da_TokenStandard a))
                         (EthereumChecksumAddress X (da_Contract a))]\<rparr>"
    and "ad_AssetID md = EthereumChecksumAddress X (da_Contract a)"
    and "td_Fungible td \<longleftrightarrow> to_lower (da_TokenStandard a) \<noteq> ''erc721''"
proof -
  define addr where "addr = EthereumChecksumAddress X (da_Contract a)"
  define source where "source = eth_token_source X a addr"
  define md0 where "md0 = fetch_artist X E a source (FromOpenseaAsset X a source (NewAssetMetadataDetail addr))"
  define td0 where "td0 = \<lparr>td_Edition = GetEditionNumberByName (da_Name a),
    td_Fungible = to_lower (da_TokenStandard a) \<noteq> ''erc721'', td_MintedAt = da_CreatedAt a\<rparr>"
  define i where "i = da_Contract a @ ''-'' @ da_Identifier a"
  define p where "p = (if en_environment E \<noteq> DevelopmentEnvironment \<and> source = sourceFxHash
    then indexTokenFromFXHASH X (en_fxhash_Query E i) i (md0, td0) else (md0, td0))"
  have "ad_AssetID md0 = addr" by (simp add: md0_def NewAssetMetadataDetail_def)
  then have "ad_AssetID (fst p) = addr" and "td_Fungible (snd p) = td_Fungible td0"
    by (simp_all add: p_def)
  moreover have "u = \<lparr>au_ID = i, au_Source = SourceOpensea, au_ProjectMetadata = pm_of_detail (fst p) now,
      au_BlockchainMetadata = JNull,
      au_Tokens = [eth_token X now a owner balance (snd p) (to_lower (da_TokenStandard a)) addr]\<rparr>"
    using assms unfolding indexETHToken_def Let_def addr_def [symmetric] source_def [symmetric]
      md0_def [symmetric] td0_def [symmetric] i_def [symmetric] p_def [symmetric]
    by (auto split: if_splits prod.splits)
  ultimately show ?thesis using that by (simp add: addr_def i_def td0_def)
qed

lemma eth_updates_map_filter:
  "eth_updates X E now owner nfts = List.map_filter (\<lambda>(c, i). case en_RetrieveAsset E c i of
     Inl _ \<Rightarrow> None | Inr a \<Rightarrow> indexETHToken X E now a owner 1) nfts"
  by (induction nfts) (auto simp: List.map_filter_simps split: sum.split option.split)

section \<open>Pages of owners\<close>

text \<open>The answers the service gives, page by page, the last one without a token for the next.\<close>

fun owner_page_chain ::
    "(string option \<Rightarrow> (bq_balance list \<times> string option) res) \<Rightarrow> string option \<Rightarrow> bq_balance list list \<Rightarrow> bool" where
  "owner_page_chain ask nextToken [] = False"
| "owner_page_chain ask nextToken [bs] = (ask nextToken = Inr (bs, None))"
| "owner_page_chain ask nextToken (bs # p # pages) =
     (case ask nextToken of
        Inr (bs', Some t) \<Rightarrow> bs' = bs \<and> owner_page_chain ask (Some t) (p # pages)
      | _ \<Rightarrow> False)"

lemma mapR_append:
  "mapR f (xs @ ys) = bindR (mapR f xs) (\<lambda>as. bindR (mapR f ys) (\<lambda>bs. Inr (as @ bs)))"
  by (induction xs) (auto simp: bindR_def split: sum.splits)

lemma eth_owner_pages_chain:
  assumes "big_SetString 10 tokenID = Some n"
    and "owner_page_chain (en_ListTokenBalances E (bq_network E) contract (hex64 n)) nextToken pages"
    and "length pages \<le> fuel"
  shows "eth_owner_pages fuel X E contract tokenID nextToken acc =
    Some (bindR (mapR (owner_balance X) (concat pages)) (\<lambda>obs. Inr (acc @ obs)))"
  using assms(2,3)
proof (induction "en_ListTokenBalances E (bq_network E) contract (hex64 n)" nextToken pages
    arbitrary: fuel acc rule: owner_page_chain.induct)
  case (2 nextToken bs)
  then obtain k where "fuel = Suc k" by (cases fuel) auto
  with 2 assms(1) show ?case by (cases "mapR (owner_balance X) bs") auto
next
  case (3 nextToken bs p pages)
  then obtain k where fuel: "fuel = Suc k" by (cases fuel) auto
  from 3(2) obtain t where ans: "en_ListTokenBalances E (bq_network E) contract (hex64 n) nextToken = Inr (bs, Some t)"
    and chain: "owner_page_chain (en_ListTokenBalances E (bq_network E) contract (hex64 n)) (Some t) (p # pages)"
    by (auto split: sum.splits option.splits prod.splits)
  from 3(3) fuel have len: "length (p # pages) \<le> k" by simp
  from 3(1) [OF ans refl refl chain len] ans assms(1) fuel show ?case
    by (cases "mapR (owner_balance X) bs") (simp_all add: mapR_append bindR_def split: sum.split)
qed simp

section \<open>Properties\<close>

text \<open>
  An update made from an OpenSea asset holds one token. Its index id is parsed back into the chain, the
  checksum address and the token id; the metadata is about that address; a token indexed for an owner records
  that owner, and no other, with the given balance; it is fungible unless the standard is ERC-721.
\<close>

theorem indexETHToken_well_formed:
  assumes "external X" and "indexETHToken X E now a owner balance = Some u"
    and "CHR ''-'' \<notin> set (da_Contract a)" and "CHR ''-'' \<notin> set (da_Identifier a)"
  shows "\<exists>t. au_Tokens u = [t]
    \<and> ParseTokenIndexID X (tok_IndexID t) = Inr (''eth'', tok_ContractAddress t, tok_ID t)
    \<and> EthereumChecksumAddress X (tok_ContractAddress t) = tok_ContractAddress t
    \<and> pm_AssetID (au_ProjectMetadata u) = tok_ContractAddress t
    \<and> (owner \<noteq> [] \<longrightarrow> tok_Owner t = owner \<and> tok_Owners t = Some [owner \<mapsto> balance])
    \<and> tok_Balance t = balance \<and> (tok_Fungible t \<longleftrightarrow> base_ContractType (tok_Base t) \<noteq> ''erc721'')"
proof -
  from indexETHToken_Some [OF assms(2)] obtain md td where u:
    "u = \<lparr>au_ID = da_Contract a @ ''-'' @ da_Identifier a, au_Source = SourceOpensea,
          au_ProjectMetadata = pm_of_detail md now, au_BlockchainMetadata = JNull,
          au_Tokens = [eth_token X now a owner balance td (to_lower (da_TokenStandard a))
                         (EthereumChecksumAddress X (da_Contract a))]\<rparr>"
    and md: "ad_AssetID md = EthereumChecksumAddress X (da_Contract a)"
    and td: "td_Fungible td \<longleftrightarrow> to_lower (da_TokenStandard a) \<noteq> ''erc721''" by blast
  have idem: "EthereumChecksumAddress X (EthereumChecksumAddress X c) = EthereumChecksumAddress X c" for c
    by (simp add: EthereumChecksumAddress_def external.address_idem [OF assms(1)])
  have no_dash: "CHR ''-'' \<notin> set (EthereumChecksumAddress X c)" for c
    by (simp add: EthereumChecksumAddress_def external.address_no_dash [OF assms(1)])
  show ?thesis
    using external.parse_TokenIndexID [OF assms(1) external.alias_eth [OF assms(1)] no_dash assms(4)]
    by (simp add: u md td idem pm_of_detail_def eth_token_owner)
qed

theorem indexETHToken_well_formed_witness:
  "\<exists>u t. indexETHToken sample_ext sample_engine 50 sample_asset ''0xcd'' 1 = Some u \<and> au_Tokens u = [t] \<and>
     ParseTokenIndexID sample_ext (tok_IndexID t) = Inr (''eth'', tok_ContractAddress t, tok_ID t) \<and>
     tok_Owners t = Some [''0xcd'' \<mapsto> 1]"
proof -
  have "indexETHToken sample_ext sample_engine 50 sample_asset ''0xcd'' 1 \<noteq> None"
    by (simp add: indexETHToken_None_iff EthereumChecksumAddress_def sample_ext_def sample_address_def sample_asset_def)
  then obtain u where u: "indexETHToken sample_ext sample_engine 50 sample_asset ''0xcd'' 1 = Some u" by blast
  have "CHR ''-'' \<notin> set (da_Contract sample_asset)" and "CHR ''-'' \<notin> set (da_Identifier sample_asset)"
    by (simp_all add: sample_asset_def)
  from indexETHToken_well_formed [OF sample.external_axioms u this] obtain t where
    "au_Tokens u = [t]" "ParseTokenIndexID sample_ext (tok_IndexID t) = Inr (''eth'', tok_ContractAddress t, tok_ID t)"
    "tok_Owners t = Some [''0xcd'' \<mapsto> 1]" by auto
  with u show ?thesis by blast
qed

text \<open>
  \<open>IndexETHTokenOwners\<close> ends after the last page of the service and returns the balances of all the pages, in
  order, or the error of the first balance that is not a number: fuel for one call per page suffices.
\<close>

theorem IndexETHTokenOwners_complete:
  assumes "big_SetString 10 tokenID = Some n"
    and "owner_page_chain (en_ListTokenBalances E (bq_network E) contract (hex64 n)) None pages"
    and "length pages \<le> fuel"
  shows "IndexETHTokenOwners fuel X E contract tokenID = Some (mapR (owner_balance X) (concat pages))"
  using eth_owner_pages_chain [OF assms, of X "[]"]
  by (cases "mapR (owner_balance X) (concat pages)") (simp_all add: IndexETHTokenOwners_def)

theorem IndexETHTokenOwners_complete_witness:
  "IndexETHTokenOwners 2 sample_ext sample_engine ''0xab'' ''7'' =
     Some (Inr [\<lparr>ob_Address = EthereumChecksumAddress sample_ext ''0xaa'', ob_Balance = 2, ob_LastTime = 1\<rparr>,
                \<lparr>ob_Address = EthereumChecksumAddress sample_ext ''0xbb'', ob_Balance = 1, ob_LastTime = 2\<rparr>])"
proof -
  have n: "big_SetString 10 ''7'' = Some 7"
    by (simp add: big_SetString_def parse_nat_def digit_val_def char_of_def bit_0)
  have "owner_page_chain (en_ListTokenBalances sample_engine (bq_network sample_engine) ''0xab'' (hex64 7)) None
      [[\<lparr>bq_Owner = ''0xaa'', bq_Balance = ''2'', bq_LastUpdatedTime = 1\<rparr>],
       [\<lparr>bq_Owner = ''0xbb'', bq_Balance = ''1'', bq_LastUpdatedTime = 2\<rparr>]]"
    by (simp add: sample_engine_def)
  from IndexETHTokenOwners_complete [OF n this, of 2 sample_ext] show ?thesis
    by (simp add: owner_balance_def parse_int64_def big_SetString_def parse_nat_def digit_val_def char_of_def bit_0)
qed

text \<open>
  A \<open>TransferSingle\<close> log of ERC-1155 carries the operator, the sender and the receiver in its topics and the
  token id in its data. The look-up of a pending transaction compares the receiver with the token id: it reports a
  transfer only when the two happen to be the same number, and then with the operator as the sender.
\<close>

theorem pending_single_transfer_misread:
  assumes "en_TransactionReceipt E txHash = Inr (Some \<lparr>rc_Status = 1, rc_BlockHash = h, rc_Logs = [l]\<rparr>)"
    and "log_Topics l = [TransferSingleEventSignature, operator, sender, receiver]"
    and "GetETHBlockTime (en_cacheStore E) (en_BlockByHash E) h cache = (Inr ts, cache')"
  shows "GetETHTransactionDetailsByPendingTx X E txHash tokenID cache =
    (Inr (if big_Text 10 (x_hash_Big X receiver) = tokenID
          then [\<lparr>txd_From = x_HexToAddressHex X operator, txd_To = x_HexToAddressHex X sender,
                 txd_IndexID = TokenIndexID X (x_EthereumBlockchain X) (log_Address l) tokenID, txd_Timestamp = ts\<rparr>]
          else []), cache')"
  using assms
  by (simp add: GetETHTransactionDetailsByPendingTx_def act_simps transfer_of_token_def transaction_detail_def)

definition sample_single_transfer :: eth_log where
  "sample_single_transfer = \<lparr>log_Address = ''0xab'', log_Topics = [TransferSingleEventSignature, ''0x1'', ''0x2'', ''0x3''],
    log_Data = [7, 1], log_BlockNumber = 1, log_BlockHash = ''0xb'', log_TxHash = ''0xt'', log_Index = 0\<rparr>"

theorem pending_single_transfer_misread_witness:
  "GetETHTransactionDetailsByPendingTx sample_ext
     (sample_engine\<lparr>en_TransactionReceipt :=
        (\<lambda>_. Inr (Some \<lparr>rc_Status = 1, rc_BlockHash = ''0xb'', rc_Logs = [sample_single_transfer]\<rparr>))\<rparr>)
     ''0xt'' ''7'' [\<lparr>ce_key = ''0xb'', ce_data = DateTime 100\<rparr>] = (Inr [], [\<lparr>ce_key = ''0xb'', ce_data = DateTime 100\<rparr>])"
proof -
  let ?E = "sample_engine\<lparr>en_TransactionReceipt :=
        (\<lambda>_. Inr (Some \<lparr>rc_Status = 1, rc_BlockHash = ''0xb'', rc_Logs = [sample_single_transfer]\<rparr>))\<rparr>"
  have coll: "cache_collection (en_cacheStore ?E)"
    by (simp add: sample_engine_def mem_coll_lawful)
  have t: "GetETHBlockTime (en_cacheStore ?E) (en_BlockByHash ?E) ''0xb'' [\<lparr>ce_key = ''0xb'', ce_data = DateTime 100\<rparr>] =
      (Inr 100, [\<lparr>ce_key = ''0xb'', ce_data = DateTime 100\<rparr>])"
    by (rule GetETHBlockTime_hit [OF coll]) (simp add: cached_def)
  have "big_Text 10 (x_hash_Big sample_ext ''0x3'') = ''3''"
    by (simp add: sample_ext_def trim_prefix_def has_prefix_def big_SetString_def parse_nat_def digit_val_def
        big_Text_def digit_char_def nat_digits.simps char_of_def bit_0)
  with pending_single_transfer_misread [where E = ?E and txHash = "''0xt''" and l = sample_single_transfer
      and X = sample_ext and tokenID = "''7''", OF _ _ t] show ?thesis
    by (simp add: sample_single_transfer_def)
qed

end
