(* ===== verification/EngineTezos.thy ===== *)
theory EngineTezos
  imports EngineEth
begin

text \<open>
  The Tezos side of the index engine (\<open>indexer_tezos.go\<close>): tokens of an owner and single tokens read from
  TzKT, their metadata documents, provenance and owners; and the operations of \<open>indexer.go\<close> that choose the side
  by the blockchain of a contract.
\<close>

section \<open>Constants\<close>

abbreviation TezDaoContractAddress :: string where "TezDaoContractAddress \<equiv> ''KT1C9X9s5rpVJGxwVuHEVBLYEdAQ1Qw8QDjH''"
abbreviation TezosDNSContractAddress :: string where "TezosDNSContractAddress \<equiv> ''KT1GBZmSxmnKJXGMdMLbugPfLyUPmuLSMwKS''"
abbreviation KALAMContractAddress :: string where "KALAMContractAddress \<equiv> ''KT1A5P4ejnLix13jtadsfV9GCnXLMNnab8UT''"
abbreviation VersumContractAddress :: string where "VersumContractAddress \<equiv> ''KT1LjmAdYQCLBjwv4S2oFkEzyHVkomAf5MrW''"

definition FXHASHContractAddresses :: "string list" where
  "FXHASHContractAddresses = [''KT1U6EHmNxJTkvaWJ4ThczG4FSDaHC21ssvi'', ''KT1KEa8z6vWXDJrVqtMrAeDVzsvxat3kHaCE'',
     ''KT1AEVuykWeuuFX7QkEAMNtffzwhe1Z98hJS'', ''KT1EfsNuqwLAWDd3o4pvfUx1CAh5GMdTrRvr'']"

definition FXHASHContractAddressesDev :: "string list" where
  "FXHASHContractAddressesDev = [''KT1NkZho1yRkDdQnN4Mz93sDYyY2pPrEHTNs'', ''KT1TtVAyjh4Ahdm8sLZwFnL7tqoLf59XrK2h'']"

definition skippedTezosContracts :: "string list" where
  "skippedTezosContracts = [KALAMContractAddress, TezDaoContractAddress, TezosDNSContractAddress]"

section \<open>Metadata documents\<close>

definition fetchTzktMetadataByLink :: "engine \<Rightarrow> string \<Rightarrow> TokenMetadata res" where
  "fetchTzktMetadataByLink E u =
     bindR (web_Get (en_web E) u) (\<lambda>resp. en_DecodeTokenMetadata E (http_Body resp))"

text \<open>The loop over the gateways returns in its first round.\<close>

definition searchMetadataFromIPFS :: "ext \<Rightarrow> engine \<Rightarrow> string \<Rightarrow> TokenMetadata res" where
  "searchMetadataFromIPFS X E ipfsURI =
     (if has_prefix ''https://'' ipfsURI then fetchTzktMetadataByLink E ipfsURI
      else if \<not> has_prefix ''ipfs://'' ipfsURI then Inl (Errorf ''invalid ipfs link'')
      else case en_ipfsGateways E of
             gateway # _ \<Rightarrow> fetchTzktMetadataByLink E (ipfsURLToGatewayURL X gateway ipfsURI)
           | [] \<Rightarrow> Inl (Errorf ''fail to get metadata from the preferred gateways''))"

definition getTokenMetadataURL :: "engine \<Rightarrow> string \<Rightarrow> string \<Rightarrow> string res" where
  "getTokenMetadataURL E contractAddress tokenID =
     bindR (en_GetBigMapPointer E contractAddress) (\<lambda>p.
     bindR (en_GetBigMapValue E p tokenID) (\<lambda>b.
     bindR (en_UnmarshalTokenInfo E b) (\<lambda>raw.
     bindR (decode_token_info raw) (\<lambda>info.
       Inr (case map_of info [] of None \<Rightarrow> [] | Some s \<Rightarrow> s)))))"

text \<open>The description after the metadata document of the token was looked for, and found or not.\<close>

definition refresh_metadata :: "ext \<Rightarrow> engine \<Rightarrow> TzktToken \<Rightarrow> AssetMetadataDetail \<Rightarrow> AssetMetadataDetail" where
  "refresh_metadata X E t md =
     (case getTokenMetadataURL E (tz_Contract t) (tz_ID t) of
        Inl _ \<Rightarrow> md
      | Inr u \<Rightarrow>
          (case searchMetadataFromIPFS X E u of
             Inl _ \<Rightarrow> md
           | Inr metadata \<Rightarrow> FromTZIP21TokenMetadata metadata md))"

section \<open>Tokens\<close>

definition GetTezosTokenByOwner :: "engine \<Rightarrow> string \<Rightarrow> gotime \<Rightarrow> int \<Rightarrow> OwnedToken list res" where
  "GetTezosTokenByOwner E owner lastTime offset =
     (if owner \<in> set TezosIndexExcludedOwners then Inr [] else en_RetrieveTokens E owner lastTime offset)"

definition two_weeks :: int where
  "two_weeks = 14 * 24 * 3600 * 1000000000"

text \<open>
  The two ways of indexing: the description, the details of the token, whether the marketplace is to be
  detected, and the gateway; \<open>None\<close> for a contract that is skipped.
\<close>

definition index_production ::
    "ext \<Rightarrow> engine \<Rightarrow> gotime \<Rightarrow> gotime \<Rightarrow> TzktToken \<Rightarrow> AssetMetadataDetail \<Rightarrow> TokenDetail
      \<Rightarrow> (AssetMetadataDetail \<times> TokenDetail \<times> bool \<times> string) option" where
  "index_production X E now lastActivityTime t md td =
     (let md = (if tz_Metadata t = None \<or> time_Sub now lastActivityTime < two_weeks
                then refresh_metadata X E t md else md);
          td = td\<lparr>td_Fungible := ad_MaxEdition md > 1 \<or> \<not> ad_IsBooleanAmount md\<rparr>
      in if tz_Contract t \<in> set skippedTezosContracts then None
         else if tz_Contract t \<in> set FXHASHContractAddresses then
           let fxObjktID = tz_Contract t @ ''-'' @ tz_ID t;
               (md, td) = indexTokenFromFXHASH X (en_fxhash_Query E fxObjktID) fxObjktID
                            (md, td\<lparr>td_Fungible := False\<rparr>)
           in Some (md, td, False, DefaultIPFSGateway)
         else if tz_Contract t = VersumContractAddress then
           let md = SetMarketplace \<lparr>mp_Source = ''versum'', mp_SourceURL = ''https://versum.xyz'',
                      mp_AssetURL = ''https://versum.xyz/token/versum/'' @ tz_ID t\<rparr> md;
               md = md\<lparr>ad_ArtistURL := ''https://versum.xyz/user/'' @ ad_ArtistName md,
                       ad_Artists := map (\<lambda>artist. artist\<lparr>artist_URL := ''https://versum.xyz/user/'' @ artist_Name artist\<rparr>)
                                       (ad_Artists md)\<rparr>
           in Some (md, td\<lparr>td_Fungible := True\<rparr>, False, DefaultIPFSGateway)
         else Some (md, td, True, DefaultIPFSGateway))"

definition index_development ::
    "ext \<Rightarrow> engine \<Rightarrow> TzktToken \<Rightarrow> AssetMetadataDetail \<Rightarrow> TokenDetail
      \<Rightarrow> AssetMetadataDetail \<times> TokenDetail \<times> bool \<times> string" where
  "index_development X E t md td =
     (let md = refresh_metadata X E t md;
          td = td\<lparr>td_Fungible := ad_MaxEdition md > 1 \<or> \<not> ad_IsBooleanAmount md\<rparr>
      in if tz_Contract t \<in> set FXHASHContractAddressesDev then
           (SetMedium MediumSoftware (SetMarketplace \<lparr>mp_Source = ''fxhash-dev'',
              mp_SourceURL = ''https://dev.fxhash-dev.xyz'', mp_AssetURL = []\<rparr> md), td, False, FxhashDevIPFSGateway)
         else (md, td, True, DefaultIPFSGateway))"

text \<open>The marketplace by the metadata and objkt.\<close>

definition detect_marketplace :: "ext \<Rightarrow> engine \<Rightarrow> TzktToken \<Rightarrow> AssetMetadataDetail \<Rightarrow> AssetMetadataDetail" where
  "detect_marketplace X E t md =
     (let source = (if ad_Source md \<noteq> [] then ad_Source md
                    else case tz_Metadata t of
                           None \<Rightarrow> []
                         | Some m \<Rightarrow> if tm_Symbol m = ''OBJKTCOM'' then ''objkt''
                                     else if tm_Symbol m = ''OBJKT'' then ''hic et nunc'' else ''unknown'');
          inhouse = (ad_Minter md \<in> set inhouseMinter);
          sourceURL = (if inhouse then ''https://autonomy.io'' else ''https://objkt.com'');
          md = (if inhouse then md
                else case GetObjktToken E (tz_Contract t) (tz_ID t) of
                       Inl _ \<Rightarrow> md
                     | Inr objktToken \<Rightarrow> FromObjkt X (en_web E) (en_map_order E) objktToken md);
          objktHost = (if en_environment E = DevelopmentEnvironment then ''ghostnet.objkt.com'' else ''objkt.com'')
      in SetMarketplace \<lparr>mp_Source = source, mp_SourceURL = sourceURL,
           mp_AssetURL = ''https://'' @ objktHost @ ''/asset/'' @ tz_Contract t @ ''/'' @ tz_ID t\<rparr> md)"

definition gateway_links :: "ext \<Rightarrow> string \<Rightarrow> AssetMetadataDetail \<Rightarrow> AssetMetadataDetail" where
  "gateway_links X gateway md =
     md\<lparr>ad_ThumbnailURI := ipfsURLToGatewayURL X gateway (ad_ThumbnailURI md),
        ad_DisplayURI := ipfsURLToGatewayURL X gateway (ad_DisplayURI md),
        ad_PreviewURI := ipfsURLToGatewayURL X gateway (ad_PreviewURI md)\<rparr>"

definition tezos_token :: "ext \<Rightarrow> gotime \<Rightarrow> TzktToken \<Rightarrow> string \<Rightarrow> int \<Rightarrow> gotime \<Rightarrow> TokenDetail \<Rightarrow> Token" where
  "tezos_token X now t owner balance lastActivityTime td =
     zero_Token\<lparr>
       tok_Base := \<lparr>base_ID = tz_ID t, base_Blockchain = x_TezosBlockchain X, base_Fungible = td_Fungible td,
                    base_ContractType = tz_Standard t, base_ContractAddress = tz_Contract t\<rparr>,
       tok_IndexID := TokenIndexID X (x_TezosBlockchain X) (tz_Contract t) (tz_ID t),
       tok_Owner := owner, tok_Balance := balance, tok_Owners := Some [owner \<mapsto> balance],
       tok_Edition := td_Edition td, tok_MintedAt := td_MintedAt td, tok_LastRefreshedTime := now,
       tok_LastActivityTime := lastActivityTime\<rparr>"

definition index_by_environment ::
    "ext \<Rightarrow> engine \<Rightarrow> gotime \<Rightarrow> gotime \<Rightarrow> TzktToken \<Rightarrow> AssetMetadataDetail \<Rightarrow> TokenDetail
      \<Rightarrow> (AssetMetadataDetail \<times> TokenDetail \<times> bool \<times> string) option" where
  "index_by_environment X E now lastActivityTime t md td =
     (if en_environment E \<noteq> DevelopmentEnvironment then index_production X E now lastActivityTime t md td
      else Some (index_development X E t md td))"

definition indexTezosToken ::
    "ext \<Rightarrow> engine \<Rightarrow> gotime \<Rightarrow> TzktToken \<Rightarrow> string \<Rightarrow> int \<Rightarrow> gotime \<Rightarrow> AssetUpdates option" where
  "indexTezosToken X E now t owner balance lastActivityTime =
     (let assetID = en_sha3_hex E (tz_Contract t @ ''-'' @ tz_ID t);
          md = FromTZKT t (NewAssetMetadataDetail assetID);
          td = \<lparr>td_Edition = 0, td_Fungible = False, td_MintedAt = tz_Timestamp t\<rparr>
      in case index_by_environment X E now lastActivityTime t md td of
           None \<Rightarrow> None
         | Some (md, td, nonCustomizedMarketplace, gateway) \<Rightarrow>
             let md = (if nonCustomizedMarketplace then detect_marketplace X E t md else md);
                 gateway = (case en_minterGateways E (ad_Minter md) of None \<Rightarrow> gateway | Some g \<Rightarrow> g);
                 md = gateway_links X gateway md
             in Some \<lparr>au_ID = assetID, au_Source = SourceTZKT, au_ProjectMetadata = pm_of_detail md now,
                      au_BlockchainMetadata = JNull,
                      au_Tokens = [tezos_token X now t owner balance lastActivityTime td]\<rparr>)"

definition IndexTezosToken :: "ext \<Rightarrow> engine \<Rightarrow> gotime \<Rightarrow> string \<Rightarrow> string \<Rightarrow> AssetUpdates option res" where
  "IndexTezosToken X E now contract tokenID =
     bindR (en_GetContractToken E contract tokenID) (\<lambda>t. Inr (indexTezosToken X E now t [] 0 (tz_LastTime t)))"

definition IndexTezosTokenByOwner ::
    "ext \<Rightarrow> engine \<Rightarrow> gotime \<Rightarrow> string \<Rightarrow> gotime \<Rightarrow> int \<Rightarrow> (AssetUpdates list \<times> gotime) res" where
  "IndexTezosTokenByOwner X E now owner lastTime offset =
     bindR (GetTezosTokenByOwner E owner lastTime offset) (\<lambda>ownedTokens.
       Inr (List.map_filter (\<lambda>t. indexTezosToken X E now (own_Token t) owner (own_Balance t) (own_LastTime t)) ownedTokens,
            case ownedTokens of [] \<Rightarrow> 0 | _ \<Rightarrow> own_LastTime (last ownedTokens)))"

section \<open>Balances, provenance, owners\<close>

definition getTezosTokenBalanceOfOwner :: "engine \<Rightarrow> string \<Rightarrow> string \<Rightarrow> string \<Rightarrow> int res" where
  "getTezosTokenBalanceOfOwner E contract tokenID owner =
     (if owner \<in> set TezosIndexExcludedOwners then Inr 0
      else en_tzkt_GetTokenBalanceOfOwner E contract tokenID owner)"

definition tezos_provenance :: "ext \<Rightarrow> engine \<Rightarrow> TzktTransfer \<Rightarrow> Provenance res" where
  "tezos_provenance X E t =
     bindR (en_GetTransactionHash E (ttf_TransactionID t)) (\<lambda>hash.
       Inr \<lparr>prov_FormerOwner = None, prov_Type = (if ttf_From t = None then ''mint'' else ''transfer''),
            prov_Owner = ttf_To t, prov_Blockchain = x_TezosBlockchain X, prov_BlockNumber = Some (ttf_Level t),
            prov_Timestamp = ttf_Timestamp t, prov_TxID = hash, prov_TxURL = ''https://tzkt.io/'' @ hash\<rparr>)"

definition IndexTezosTokenProvenance :: "ext \<Rightarrow> engine \<Rightarrow> string \<Rightarrow> string \<Rightarrow> Provenance list res" where
  "IndexTezosTokenProvenance X E contract tokenID =
     bindR (en_GetTokenTransfersCount E contract tokenID) (\<lambda>count.
     bindR (en_GetTokenTransfers E contract tokenID count) (\<lambda>transfers.
       mapR (tezos_provenance X E) (rev transfers)))"

definition IndexTezosTokenLastActivityTime :: "engine \<Rightarrow> string \<Rightarrow> string \<Rightarrow> gotime res" where
  "IndexTezosTokenLastActivityTime E contract tokenID = en_GetTokenLastActivityTime E contract tokenID"

definition tezos_owner_balance :: "TzktOwner \<Rightarrow> OwnerBalance" where
  "tezos_owner_balance ow = \<lparr>ob_Address = tzo_Address ow, ob_Balance = tzo_Balance ow, ob_LastTime = tzo_LastTime ow\<rparr>"

text \<open>Pages of 50 owners, each after the time of the last owner of the page before.\<close>

fun tezos_owner_pages ::
    "nat \<Rightarrow> engine \<Rightarrow> string \<Rightarrow> string \<Rightarrow> gotime \<Rightarrow> OwnerBalance list \<Rightarrow> OwnerBalance list res option" where
  "tezos_owner_pages 0 E contract tokenID lastTime acc = None"
| "tezos_owner_pages (Suc fuel) E contract tokenID lastTime acc =
     (case en_GetTokenOwners E contract tokenID 50 lastTime of
        Inl e \<Rightarrow> Some (Inl e)
      | Inr owners \<Rightarrow>
          if list_ex (\<lambda>ow. tzo_TotalSupply ow > 100000) owners then Some (Inr [])
          else let acc = acc @ map tezos_owner_balance owners
               in if length owners < 50 then Some (Inr acc)
                  else tezos_owner_pages fuel E contract tokenID (tzo_LastTime (last owners)) acc)"

definition IndexTezosTokenOwners :: "nat \<Rightarrow> engine \<Rightarrow> string \<Rightarrow> string \<Rightarrow> OwnerBalance list res option" where
  "IndexTezosTokenOwners fuel E contract tokenID = tezos_owner_pages fuel E contract tokenID 0 []"

definition GetTezosTxTimestamp :: "engine \<Rightarrow> string \<Rightarrow> gotime res" where
  "GetTezosTxTimestamp E txHash =
     bindR (en_GetTransactionByTx E txHash) (\<lambda>ts. case ts of [] \<Rightarrow> Inl ErrTXNotFound | t # _ \<Rightarrow> Inr t)"

section \<open>Either side\<close>

definition GetTokenBalanceOfOwner :: "ext \<Rightarrow> engine \<Rightarrow> string \<Rightarrow> string \<Rightarrow> string \<Rightarrow> int res" where
  "GetTokenBalanceOfOwner X E contract tokenID owner =
     (let b = x_GetBlockchainByAddress X contract
      in if b = x_EthereumBlockchain X then getEthereumTokenBalanceOfOwner E contract tokenID owner
         else if b = x_TezosBlockchain X then getTezosTokenBalanceOfOwner E contract tokenID owner
         else Inl ErrUnsupportedBlockchain)"

definition IndexToken :: "ext \<Rightarrow> engine \<Rightarrow> gotime \<Rightarrow> string \<Rightarrow> string \<Rightarrow> AssetUpdates option res" where
  "IndexToken X E now contract tokenID =
     (let b = x_GetBlockchainByAddress X contract
      in if b = x_EthereumBlockchain X then IndexETHToken X E now contract tokenID
         else if b = x_TezosBlockchain X then IndexTezosToken X E now contract tokenID
         else Inl ErrUnsupportedBlockchain)"

definition GetTxTimestamp :: "ext \<Rightarrow> engine \<Rightarrow> string \<Rightarrow> string \<Rightarrow> (cache_entry list, gotime) act" where
  "GetTxTimestamp X E blockchain txHash =
     (if blockchain = x_TezosBlockchain X then liftR (GetTezosTxTimestamp E txHash)
      else if blockchain = x_EthereumBlockchain X then GetEthereumTxTimestamp E txHash
      else throwA ErrUnsupportedBlockchain)"

section \<open>What an update of a token contains\<close>

lemma FromTZIP21_AssetID [simp]: "ad_AssetID (FromTZIP21TokenMetadata m md) = ad_AssetID md"
  by (simp add: FromTZIP21TokenMetadata_def Let_def split: list.split option.split)

lemma FromTZKT_AssetID [simp]: "ad_AssetID (FromTZKT t md) = ad_AssetID md"
  by (simp add: FromTZKT_def Let_def split: option.split)

lemma refresh_metadata_AssetID [simp]: "ad_AssetID (refresh_metadata X E t md) = ad_AssetID md"
  by (simp add: refresh_metadata_def split: sum.split)

lemma FromObjkt_AssetID [simp]: "ad_AssetID (FromObjkt X W ord token md) = ad_AssetID md"
  by (simp add: FromObjkt_def UpdateMetadataFromObjkt_def Let_def split: list.split)

lemma detect_marketplace_AssetID [simp]: "ad_AssetID (detect_marketplace X E t md) = ad_AssetID md"
  by (simp add: detect_marketplace_def Let_def split: sum.split)

lemma gateway_links_AssetID [simp]: "ad_AssetID (gateway_links X g md) = ad_AssetID md"
  by (simp add: gateway_links_def)

lemma index_development_AssetID [simp]: "ad_AssetID (fst (index_development X E t md td)) = ad_AssetID md"
  by (simp add: index_development_def Let_def)

text \<open>The marketplace step of the production path, after the refresh of the metadata.\<close>

lemma index_production_AssetID:
  assumes "index_production X E now last_time t md td = Some p"
  shows "ad_AssetID (fst p) = ad_AssetID md"
proof -
  define md1 where "md1 = (if tz_Metadata t = None \<or> time_Sub now last_time < two_weeks
    then refresh_metadata X E t md else md)"
  have md1: "ad_AssetID md1 = ad_AssetID md" by (simp add: md1_def)
  show ?thesis
  proof (cases "tz_Contract t \<in> set FXHASHContractAddresses")
    case True
    let ?i = "tz_Contract t @ ''-'' @ tz_ID t"
    have "fst p = fst (indexTokenFromFXHASH X (en_fxhash_Query E ?i) ?i
        (md1, td\<lparr>td_Fungible := ad_MaxEdition md1 > 1 \<or> \<not> ad_IsBooleanAmount md1, td_Fungible := False\<rparr>))"
      using assms True unfolding index_production_def Let_def md1_def [symmetric]
      by (auto split: if_splits prod.splits)
    then show ?thesis by (simp add: md1)
  next
    case False
    with assms have "fst p = md1 \<or> tz_Contract t = VersumContractAddress \<and> ad_AssetID (fst p) = ad_AssetID md1"
      unfolding index_production_def Let_def md1_def [symmetric] by (auto simp: SetMarketplace_def split: if_splits)
    with md1 show ?thesis by auto
  qed
qed

lemma index_production_None_iff:
  "index_production X E now last_time t md td = None \<longleftrightarrow> tz_Contract t \<in> set skippedTezosContracts"
  by (auto simp: index_production_def Let_def split: prod.split if_split)

lemma index_by_environment_None_iff:
  "index_by_environment X E now last_time t md td = None \<longleftrightarrow>
     en_environment E \<noteq> DevelopmentEnvironment \<and> tz_Contract t \<in> set skippedTezosContracts"
  by (simp add: index_by_environment_def index_production_None_iff)

lemma index_by_environment_AssetID:
  "index_by_environment X E now last_time t md td = Some p \<Longrightarrow> ad_AssetID (fst p) = ad_AssetID md"
  by (auto simp: index_by_environment_def index_production_AssetID split: if_splits)

lemma indexTezosToken_None_iff:
  "indexTezosToken X E now t owner balance last_time = None \<longleftrightarrow>
     en_environment E \<noteq> DevelopmentEnvironment \<and> tz_Contract t \<in> set skippedTezosContracts"
  by (simp add: indexTezosToken_def Let_def index_by_environment_None_iff split: option.split prod.split)
    (metis index_by_environment_None_iff not_None_eq)

lemma indexTezosToken_Some:
  assumes "indexTezosToken X E now t owner balance last_time = Some u"
  obtains md td g where
    "u = \<lparr>au_ID = en_sha3_hex E (tz_Contract t @ ''-'' @ tz_ID t), au_Source = SourceTZKT,
          au_ProjectMetadata = pm_of_detail (gateway_links X g md) now, au_BlockchainMetadata = JNull,
          au_Tokens = [tezos_token X now t owner balance last_time td]\<rparr>"
    and "ad_AssetID md = en_sha3_hex E (tz_Contract t @ ''-'' @ tz_ID t)"
proof -
  let ?i = "en_sha3_hex E (tz_Contract t @ ''-'' @ tz_ID t)"
  let ?p = "index_by_environment X E now last_time t (FromTZKT t (NewAssetMetadataDetail ?i))
    \<lparr>td_Edition = 0, td_Fungible = False, td_MintedAt = tz_Timestamp t\<rparr>"
  from assms obtain md td b g where p: "?p = Some (md, td, b, g)"
    by (auto simp: indexTezosToken_def Let_def split: option.splits prod.splits)
  then have "ad_AssetID md = ?i"
    using index_by_environment_AssetID [OF p] by (simp add: NewAssetMetadataDetail_def)
  then have "ad_AssetID (if b then detect_marketplace X E t md else md) = ?i" by simp
  from that [OF _ this] assms p show ?thesis
    by (auto simp: indexTezosToken_def Let_def)
qed

section \<open>Pages of owners\<close>

lemma filter_after_sorted:
  assumes "sorted_wrt (<) (map f ys)" and "k < length ys"
  shows "filter (\<lambda>y. (f (ys ! k) :: int) < f y) ys = drop (Suc k) ys"
proof -
  have "filter (\<lambda>y. f (ys ! k) < f y) (take (Suc k) ys) = []"
  proof (rule filter_False, rule ballI)
    fix y assume "y \<in> set (take (Suc k) ys)"
    then obtain i where i: "i < Suc k" "i < length ys" "y = ys ! i" by (auto simp: in_set_conv_nth)
    then have "f (ys ! i) \<le> f (ys ! k)"
      using sorted_wrt_nth_less [OF assms(1), of i k] assms(2) by (cases "i = k") auto
    then show "\<not> f (ys ! k) < f y" using i by simp
  qed
  moreover have "filter (\<lambda>y. f (ys ! k) < f y) (drop (Suc k) ys) = drop (Suc k) ys"
  proof (rule filter_True, rule ballI)
    fix y assume "y \<in> set (drop (Suc k) ys)"
    then obtain i where "i < length (drop (Suc k) ys)" "y = drop (Suc k) ys ! i" by (auto simp: in_set_conv_nth)
    then show "f (ys ! k) < f y"
      using sorted_wrt_nth_less [OF assms(1), of k "Suc k + i"] by auto
  qed
  ultimately show ?thesis
    by (metis append_Nil append_take_drop_id filter_append)
qed

lemma tezos_owner_pages_run:
  assumes serve: "\<And>t. en_GetTokenOwners E contract tokenID 50 t =
      Inr (take 50 (filter (\<lambda>ow. t < tzo_LastTime ow) owners))"
    and sorted: "sorted_wrt (<) (map tzo_LastTime owners)"
    and small: "\<And>ow. ow \<in> set owners \<Longrightarrow> tzo_TotalSupply ow \<le> 100000"
  shows "length (filter (\<lambda>ow. t < tzo_LastTime ow) owners) < 50 * fuel \<Longrightarrow>
    tezos_owner_pages fuel E contract tokenID t acc =
      Some (Inr (acc @ map tezos_owner_balance (filter (\<lambda>ow. t < tzo_LastTime ow) owners)))"
proof (induction fuel arbitrary: t acc)
  case (Suc fuel)
  let ?ys = "filter (\<lambda>ow. t < tzo_LastTime ow) owners"
  have ex: "\<not> list_ex (\<lambda>ow. tzo_TotalSupply ow > 100000) (take 50 ?ys)"
  proof
    assume "list_ex (\<lambda>ow. tzo_TotalSupply ow > 100000) (take 50 ?ys)"
    then obtain ow where "ow \<in> set owners" "tzo_TotalSupply ow > 100000"
      unfolding list_ex_iff by (meson filter_is_subset in_set_takeD subsetD)
    with small show False by fastforce
  qed
  show ?case
  proof (cases "length ?ys < 50")
    case True
    then show ?thesis using ex by (simp add: serve)
  next
    case False
    let ?t = "tzo_LastTime (?ys ! 49)"
    have "take 50 ?ys \<noteq> []" using False by auto
    then have last: "tzo_LastTime (last (take 50 ?ys)) = ?t" using False by (simp add: last_conv_nth min_def)
    have "?ys ! 49 \<in> set ?ys" using False by (intro nth_mem) simp
    then have "t < ?t" by simp
    then have "filter (\<lambda>ow. ?t < tzo_LastTime ow) owners = filter (\<lambda>ow. ?t < tzo_LastTime ow) ?ys"
      by (auto simp: filter_filter intro: filter_cong)
    also have "\<dots> = drop 50 ?ys"
    proof -
      have "sorted_wrt (<) (map tzo_LastTime ?ys)"
        using sorted by (induction owners) auto
      from filter_after_sorted [OF this, of 49] False show ?thesis by simp
    qed
    finally have rest: "filter (\<lambda>ow. ?t < tzo_LastTime ow) owners = drop 50 ?ys" .
    define n where "n = length ?ys"
    have n: "n < 50 * Suc fuel" "\<not> n < 50" using Suc.prems False by (simp_all add: n_def)
    then have "n - 50 < 50 * fuel" by arith
    then have "length (filter (\<lambda>ow. ?t < tzo_LastTime ow) owners) < 50 * fuel"
      unfolding rest length_drop n_def .
    note IH = Suc.IH [OF this, of "acc @ map tezos_owner_balance (take 50 ?ys)"]
    have "tezos_owner_pages (Suc fuel) E contract tokenID t acc =
        tezos_owner_pages fuel E contract tokenID ?t (acc @ map tezos_owner_balance (take 50 ?ys))"
      using False ex by (simp add: serve last Let_def)
    also have "\<dots> = Some (Inr ((acc @ map tezos_owner_balance (take 50 ?ys)) @ map tezos_owner_balance (drop 50 ?ys)))"
      unfolding IH rest ..
    also have "(acc @ map tezos_owner_balance (take 50 ?ys)) @ map tezos_owner_balance (drop 50 ?ys) =
        acc @ map tezos_owner_balance ?ys"
      unfolding append_assoc by (metis append_take_drop_id map_append)
    finally show ?thesis .
  qed
qed simp

section \<open>Properties\<close>

text \<open>
  Whatever the environment, the marketplace and the gateway set for the minter, the three links of an update
  made from a token of TzKT are links a browser can open: none is left with the scheme of a content network.
\<close>

theorem indexTezosToken_links:
  assumes "url_syntax X" and "indexTezosToken X E now t owner balance last_time = Some u"
  shows "web_link X (pm_ThumbnailURL (au_ProjectMetadata u)) \<and> web_link X (pm_GalleryThumbnailURL (au_ProjectMetadata u))
    \<and> web_link X (pm_PreviewURL (au_ProjectMetadata u))"
proof -
  from indexTezosToken_Some [OF assms(2)] obtain md g where
    "au_ProjectMetadata u = pm_of_detail (gateway_links X g md) now" by (metis AssetUpdates.select_convs(3))
  then show ?thesis by (simp add: pm_of_detail_links gateway_links_def gateway_web_link [OF assms(1)])
qed

theorem indexTezosToken_links_witness:
  "\<exists>u. indexTezosToken sample_ext sample_engine 50 sample_tzkt_token ''tz1a'' 1 9 = Some u \<and>
     web_link sample_ext (pm_PreviewURL (au_ProjectMetadata u))"
proof -
  have "indexTezosToken sample_ext sample_engine 50 sample_tzkt_token ''tz1a'' 1 9 \<noteq> None"
    by (simp add: indexTezosToken_None_iff sample_tzkt_token_def skippedTezosContracts_def)
  then obtain u where u: "indexTezosToken sample_ext sample_engine 50 sample_tzkt_token ''tz1a'' 1 9 = Some u" by blast
  with indexTezosToken_links [OF sample_url.url_syntax_axioms u] show ?thesis by blast
qed

text \<open>
  When TzKT serves the owners of a token ordered by time, fifty at a time and only those after the given time,
  and no two have the same time, \<open>IndexTezosTokenOwners\<close> ends after one page per fifty owners and returns all of
  them, each once.
\<close>

theorem IndexTezosTokenOwners_complete:
  assumes "\<And>t. en_GetTokenOwners E contract tokenID 50 t = Inr (take 50 (filter (\<lambda>ow. t < tzo_LastTime ow) owners))"
    and "sorted_wrt (<) (map tzo_LastTime owners)"
    and "\<And>ow. ow \<in> set owners \<Longrightarrow> 0 < tzo_LastTime ow \<and> tzo_TotalSupply ow \<le> 100000"
    and "length owners div 50 < fuel"
  shows "IndexTezosTokenOwners fuel E contract tokenID = Some (Inr (map tezos_owner_balance owners))"
proof -
  have all: "filter (\<lambda>ow. 0 < tzo_LastTime ow) owners = owners" using assms(3) by (simp add: filter_id_conv)
  have "length owners < 50 * fuel"
    using assms(4) by (simp add: div_less_iff_less_mult mult.commute)
  then show ?thesis
    using tezos_owner_pages_run [OF assms(1,2), of 0 fuel "[]"] assms(3)
    by (simp add: IndexTezosTokenOwners_def all)
qed

theorem IndexTezosTokenOwners_complete_witness:
  "IndexTezosTokenOwners 1
     (sample_engine\<lparr>en_GetTokenOwners := (\<lambda>c i n t. Inr (take 50 (filter (\<lambda>ow. t < tzo_LastTime ow)
        [\<lparr>tzo_Address = ''tz1a'', tzo_Balance = 2, tzo_LastTime = 5, tzo_TotalSupply = 3\<rparr>,
         \<lparr>tzo_Address = ''tz1b'', tzo_Balance = 1, tzo_LastTime = 8, tzo_TotalSupply = 3\<rparr>])))\<rparr>) ''KT1'' ''7'' =
   Some (Inr [\<lparr>ob_Address = ''tz1a'', ob_Balance = 2, ob_LastTime = 5\<rparr>,
              \<lparr>ob_Address = ''tz1b'', ob_Balance = 1, ob_LastTime = 8\<rparr>])"
  by (subst IndexTezosTokenOwners_complete [where owners =
        "[\<lparr>tzo_Address = ''tz1a'', tzo_Balance = 2, tzo_LastTime = 5, tzo_TotalSupply = 3\<rparr>,
          \<lparr>tzo_Address = ''tz1b'', tzo_Balance = 1, tzo_LastTime = 8, tzo_TotalSupply = 3\<rparr>]"])
    (auto simp: tezos_owner_balance_def)

text \<open>
  A metadata document is searched for at the first preferred gateway only: when that gateway fails, the search
  fails, whatever the gateways behind it would answer.
\<close>

theorem searchMetadata_first_gateway_only:
  assumes "has_prefix ''ipfs://'' link"
    and "fetchTzktMetadataByLink E (ipfsURLToGatewayURL X g link) = Inl e"
  shows "searchMetadataFromIPFS X (E\<lparr>en_ipfsGateways := g # gateways\<rparr>) link = Inl e"
proof -
  have "fetchTzktMetadataByLink (E\<lparr>en_ipfsGateways := g # gateways\<rparr>) u = fetchTzktMetadataByLink E u" for u
    by (simp add: fetchTzktMetadataByLink_def)
  moreover have "\<not> has_prefix ''https://'' link" using assms(1) by (auto simp: has_prefix_iff)
  ultimately show ?thesis using assms by (simp add: searchMetadataFromIPFS_def)
qed

theorem searchMetadata_first_gateway_only_witness:
  "searchMetadataFromIPFS sample_ext (sample_engine\<lparr>en_ipfsGateways := [''one'', ''two'']\<rparr>) ''ipfs://Qm'' =
     Inl (Errorf ''no route'')"
  by (rule searchMetadata_first_gateway_only)
    (simp_all add: has_prefix_def fetchTzktMetadataByLink_def sample_engine_def sample_web_def ipfsURLToGatewayURL_def
      sample_ext_def trim_left_char_def)

end
