(* ===== verification/SaleParser.thy ===== *)
theory SaleParser
  imports Workflows Engine "HOL-Library.AList"
begin

text \<open>
  What a sale is worth and who gets it: the accounting of the payments of a transaction, the classification of its
  logs, the sale parsed from an Ethereum transaction (\<open>workflows_detector.go\<close>), and the record that is written for
  it (\<open>activities.go\<close>). The settings and the clients are parameters.
\<close>

section \<open>Sales\<close>

record TokenSaleInfo =
  tsi_ContractAddress :: string
  tsi_TokenID :: string
  tsi_SellerAddress :: string
  tsi_BuyerAddress :: string

text \<open>The map of the shares is the list of its entries in the order they were added; keys are distinct.\<close>

record TokenSale =
  ts_Timestamp :: gotime
  ts_BundleTokenInfo :: "TokenSaleInfo list"
  ts_Price :: int
  ts_Marketplace :: string
  ts_Blockchain :: string
  ts_Currency :: string
  ts_TxID :: string
  ts_PlatformFee :: int
  ts_NetRevenue :: int
  ts_PaymentAmount :: int
  ts_Shares :: "(string \<times> int) list"

section \<open>Payments\<close>

record payTransferData =
  pt_From :: string
  pt_To :: string
  pt_Amount :: int

record sale_amounts =
  sa_Shares :: "(string \<times> int) list"
  sa_Price :: int
  sa_PlatformFee :: int

definition no_amounts :: sale_amounts where
  "no_amounts = \<lparr>sa_Shares = [], sa_Price = 0, sa_PlatformFee = 0\<rparr>"

text \<open>
  One payment: it adds to the share of its receiver and to the price, and is deducted from both again where the
  sender had received it before.
\<close>

definition accumulate :: "(string \<Rightarrow> bool) \<Rightarrow> payTransferData \<Rightarrow> sale_amounts \<Rightarrow> sale_amounts" where
  "accumulate fee_wallet tx a =
     (let shares = AList.update (pt_To tx) (case map_of (sa_Shares a) (pt_To tx) of
                      Some s \<Rightarrow> s + pt_Amount tx | None \<Rightarrow> pt_Amount tx) (sa_Shares a);
          price = sa_Price a + pt_Amount tx;
          (shares, price) = (case map_of shares (pt_From tx) of
                      Some s \<Rightarrow> (AList.update (pt_From tx) (s - pt_Amount tx) shares, price - pt_Amount tx)
                    | None \<Rightarrow> (shares, price))
      in \<lparr>sa_Shares = shares, sa_Price = price,
          sa_PlatformFee = (if fee_wallet (pt_To tx) then sa_PlatformFee a + pt_Amount tx else sa_PlatformFee a)\<rparr>)"

text \<open>
  The fixed fee: the price times the \<open>float64\<close> nearest to 0.025, computed as \<open>big.Float\<close> does (to nearest even, in the
  bits of the price, 64 at least) and cut to an integer.
\<close>

function bit_length :: "nat \<Rightarrow> nat" where
  "bit_length n = (if n = 0 then 0 else Suc (bit_length (n div 2)))"
  by pat_completeness auto
termination by (relation "measure (\<lambda>n. n)") auto

declare bit_length.simps [simp del]

definition round_bits :: "nat \<Rightarrow> nat \<Rightarrow> nat" where
  "round_bits prec n =
     (let e = bit_length n - prec; q = n div 2 ^ e; r = n mod 2 ^ e
      in if e = 0 then n
         else (if 2 * r > 2 ^ e \<or> 2 * r = 2 ^ e \<and> odd q then q + 1 else q) * 2 ^ e)"

definition fixed_fee :: "int \<Rightarrow> int" where
  "fixed_fee price =
     (let m = nat \<bar>price\<bar>; prec = max 64 (bit_length m)
      in sgn price * int (round_bits prec (m * 3602879701896397) div 2 ^ 57))"

section \<open>Logs\<close>

text \<open>The logs by kind; the ERC-20 transfers by contract.\<close>

fun classifyTxLogs ::
    "eth_log list \<Rightarrow> (string \<times> eth_log list) list \<times> eth_log list \<Rightarrow> ((string \<times> eth_log list) list \<times> eth_log list) res" where
  "classifyTxLogs [] acc = Inr acc"
| "classifyTxLogs (l # ls) (erc20Transfers, tokenTransfers) =
     bindR (ERC20Transfer l) (\<lambda>is20.
       if is20 then
         classifyTxLogs ls (AList.update (log_Address l)
           ((case map_of erc20Transfers (log_Address l) of None \<Rightarrow> [] | Some x \<Rightarrow> x) @ [l]) erc20Transfers, tokenTransfers)
       else
         bindR (ERC1155SingleTransfer l) (\<lambda>is1155.
         bindR (if is1155 then Inr True else ERC721Transfer l) (\<lambda>token.
           classifyTxLogs ls (erc20Transfers, if token then tokenTransfers @ [l] else tokenTransfers))))"

definition big_SetBytes :: "nat list \<Rightarrow> nat" where
  "big_SetBytes bs = foldl (\<lambda>a b. 256 * a + b) 0 bs"

text \<open>\<open>hex.EncodeToString(n.Bytes())\<close>: two digits for each byte, none for zero.\<close>

definition hex_of_big :: "nat \<Rightarrow> string" where
  "hex_of_big n = (if n = 0 then [] else let h = nat_digits 16 n in if odd (length h) then CHR ''0'' # h else h)"

text \<open>Sender, receiver and token id of a token transfer, or none when the log is not one of a single token.\<close>

definition read_token_transfer :: "ext \<Rightarrow> eth_log \<Rightarrow> TokenSaleInfo option res" where
  "read_token_transfer X l =
     bindR (ERC721Transfer l) (\<lambda>isERC721.
       let topic = (\<lambda>i. log_Topics l ! i);
           addr = (\<lambda>i. x_HexToAddressHex X (topic i));
           info = (\<lambda>sender receiver tokenIDHex.
             \<lparr>tsi_ContractAddress = log_Address l, tsi_TokenID = HexToDec tokenIDHex, tsi_SellerAddress = sender,
              tsi_BuyerAddress = receiver\<rparr>)
       in if isERC721 then Inr (Some (info (addr 1) (addr 2) (trim_prefix ''0x'' (topic 3))))
          else if length (log_Data l) \<noteq> 64 then Inr None
          else if big_SetBytes (drop 32 (log_Data l)) mod 2 ^ 64 \<noteq> 1 then Inr None
          else Inr (Some (info (addr 2) (addr 3) (hex_of_big (big_SetBytes (take 32 (log_Data l)))))))"

text \<open>Of several transfers of a token, the seller is the first sender, the buyer the last receiver.\<close>

definition add_transfer :: "TokenSaleInfo \<Rightarrow> (string \<times> TokenSaleInfo) list \<Rightarrow> (string \<times> TokenSaleInfo) list" where
  "add_transfer i tokenTxMap =
     (let k = tsi_ContractAddress i @ ''-'' @ tsi_TokenID i
      in AList.update k (case map_of tokenTxMap k of
                           Some t \<Rightarrow> i\<lparr>tsi_SellerAddress := tsi_SellerAddress t\<rparr>
                         | None \<Rightarrow> i) tokenTxMap)"

section \<open>The sale of an Ethereum transaction\<close>

record etherscan_tx =
  es_From :: string
  es_To :: string
  es_Value :: string

record eth_tx =
  etx_To :: "string option"
  etx_Value :: nat

text \<open>The settings, with their keys in lower case, and the clients; \<open>sv_map_order\<close> is the order of a Go map.\<close>

record sale_env =
  sv_erc20 :: "(string \<times> string) list"
  sv_marketplaces :: "(string \<times> string) list"
  sv_fee_wallets :: "(string \<times> string) list"
  sv_old_fee_wallet :: string
  sv_TransactionReceipt :: "string \<Rightarrow> receipt option res"
  sv_TransactionByHash :: "string \<Rightarrow> eth_tx res"
  sv_InternalTxs :: "string \<Rightarrow> etherscan_tx list res"
  sv_HeaderByHash :: "string \<Rightarrow> int option res"
  sv_map_order :: "TokenSaleInfo list \<Rightarrow> TokenSaleInfo list"

text \<open>The transfers of tokens; \<open>None\<close> when one of them rules the sale out.\<close>

fun token_transfers ::
    "ext \<Rightarrow> store \<Rightarrow> eth_log list \<Rightarrow> (string \<times> TokenSaleInfo) list \<Rightarrow> (db, (string \<times> TokenSaleInfo) list option) act" where
  "token_transfers X st [] tokenTxMap = retA (Some tokenTxMap)"
| "token_transfers X st (l # ls) tokenTxMap =
     bindA (liftR (read_token_transfer X l)) (\<lambda>r.
       case r of
         None \<Rightarrow> retA None
       | Some i \<Rightarrow>
           bindA (ContextRegularActivity (GetTokenByIndexID st
                    (TokenIndexID X (x_EthereumBlockchain X) (tsi_ContractAddress i) (tsi_TokenID i)))) (\<lambda>token.
             case token of
               None \<Rightarrow> retA None
             | Some t \<Rightarrow>
                 if tok_Source t \<noteq> ''feralfile'' then retA None
                 else token_transfers X st ls (add_transfer i tokenTxMap)))"

text \<open>The payments by ERC-20 and the currency the last known contract among them stands for.\<close>

fun erc20_payments :: "ext \<Rightarrow> (string \<times> string) list \<Rightarrow> eth_log list \<Rightarrow> string \<Rightarrow> string \<times> payTransferData list" where
  "erc20_payments X contractMap [] currency = (currency, [])"
| "erc20_payments X contractMap (l # ls) currency =
     (let currency = (case map_of contractMap (to_lower (log_Address l)) of Some c \<Rightarrow> c | None \<Rightarrow> currency);
          p = \<lparr>pt_From = x_HexToAddressHex X (log_Topics l ! 1), pt_To = x_HexToAddressHex X (log_Topics l ! 2),
               pt_Amount = int (big_SetBytes (log_Data l))\<rparr>;
          (currency, ps) = erc20_payments X contractMap ls currency
      in (currency, p # ps))"

definition internal_payment :: "ext \<Rightarrow> etherscan_tx \<Rightarrow> payTransferData res" where
  "internal_payment X itx =
     (case big_SetString 10 (es_Value itx) of
        None \<Rightarrow> Inl (Errorf ''fail to parse internal tx value'')
      | Some v \<Rightarrow> Inr \<lparr>pt_From = x_HexToAddressHex X (es_From itx), pt_To = x_HexToAddressHex X (es_To itx), pt_Amount = v\<rparr>)"

text \<open>The marketplace of the contract that was called, or of the first payment that touches one.\<close>

fun payment_marketplace :: "(string \<times> string) list \<Rightarrow> payTransferData list \<Rightarrow> string" where
  "payment_marketplace ms [] = []"
| "payment_marketplace ms (p # ps) =
     (case map_of ms (to_lower (pt_To p)) of
        Some m \<Rightarrow> m
      | None \<Rightarrow> (case map_of ms (to_lower (pt_From p)) of Some m \<Rightarrow> m | None \<Rightarrow> payment_marketplace ms ps))"

definition sale_marketplace :: "(string \<times> string) list \<Rightarrow> string \<Rightarrow> payTransferData list \<Rightarrow> string" where
  "sale_marketplace ms txTo payTxs =
     (case map_of ms (to_lower txTo) of Some m \<Rightarrow> m | None \<Rightarrow> payment_marketplace ms payTxs)"

definition eth_amounts :: "sale_env \<Rightarrow> payTransferData list \<Rightarrow> sale_amounts" where
  "eth_amounts V payTxs =
     (let a = fold (accumulate (\<lambda>w. map_of (sv_fee_wallets V) (to_lower w) \<noteq> None))
                (filter (\<lambda>tx. map_of (sv_marketplaces V) (to_lower (pt_To tx)) = None) payTxs) no_amounts
      in if sa_PlatformFee a = 0 \<and> map_of (sa_Shares a) (sv_old_fee_wallet V) \<noteq> None
         then a\<lparr>sa_PlatformFee := fixed_fee (sa_Price a)\<rparr> else a)"

definition token_sale_of ::
    "gotime \<Rightarrow> string \<Rightarrow> string \<Rightarrow> string \<Rightarrow> string \<Rightarrow> TokenSaleInfo list \<Rightarrow> sale_amounts \<Rightarrow> TokenSale" where
  "token_sale_of ts marketplace blockchain currency txID bundle a =
     \<lparr>ts_Timestamp = ts, ts_BundleTokenInfo = bundle, ts_Price = sa_Price a, ts_Marketplace = marketplace,
      ts_Blockchain = blockchain, ts_Currency = currency, ts_TxID = txID, ts_PlatformFee = sa_PlatformFee a,
      ts_NetRevenue = sa_Price a - sa_PlatformFee a, ts_PaymentAmount = sa_Price a, ts_Shares = sa_Shares a\<rparr>"

text \<open>From the transfers and the payments to the sale.\<close>

definition eth_sale ::
    "ext \<Rightarrow> sale_env \<Rightarrow> string \<Rightarrow> string \<Rightarrow> receipt \<Rightarrow> string \<Rightarrow> TokenSaleInfo list \<Rightarrow> payTransferData list \<Rightarrow> TokenSale option res" where
  "eth_sale X V txID txTo receipt currency tokenTxs payTxs =
     (let marketplace = sale_marketplace (sv_marketplaces V) txTo payTxs
      in if marketplace = [] \<or> payTxs = [] \<or> sv_fee_wallets V = [] then Inr None
         else bindR (sv_HeaderByHash V (rc_BlockHash receipt)) (\<lambda>blkHeader.
                case blkHeader of
                  None \<Rightarrow> Inl (Errorf ''block not found'')
                | Some blockTime \<Rightarrow>
                    Inr (Some (token_sale_of (time_of_Unix (i64 blockTime)) marketplace ''ethereum'' currency txID
                                 tokenTxs (eth_amounts V payTxs)))))"

definition eth_payments ::
    "ext \<Rightarrow> sale_env \<Rightarrow> string \<Rightarrow> string \<Rightarrow> (string \<times> eth_log list) list \<Rightarrow> (string \<times> payTransferData list) res" where
  "eth_payments X V txID currency erc20Transfers =
     (if erc20Transfers \<noteq> [] \<and> sv_erc20 V = [] then Inl (Errorf ''couldn't load the ERC20 contracts'')
      else case erc20_payments X (sv_erc20 V) (concat (map snd erc20Transfers)) currency of (currency, payTxs) \<Rightarrow>
        bindR (sv_InternalTxs V txID) (\<lambda>itxs.
        bindR (mapR (internal_payment X) itxs) (\<lambda>ps.
          Inr (if itxs \<noteq> [] \<and> currency = [] then ''ETH'' else currency, payTxs @ ps))))"

definition ParseEthereumTokenSale :: "ext \<Rightarrow> store \<Rightarrow> sale_env \<Rightarrow> string \<Rightarrow> (db, TokenSale option) act" where
  "ParseEthereumTokenSale X st V txID =
     bindA (liftR (sv_TransactionReceipt V txID)) (\<lambda>txReceipt.
       case txReceipt of
         None \<Rightarrow> retA None
       | Some receipt \<Rightarrow>
           if rc_Status receipt = 0 then retA None
           else bindA (liftR (sv_TransactionByHash V txID)) (\<lambda>tx.
             case etx_To tx of
               None \<Rightarrow> retA None
             | Some txTo \<Rightarrow>
                 bindA (liftR (classifyTxLogs (rc_Logs receipt) ([], []))) (\<lambda>(erc20Transfers, tokenTransfers).
                   let currency = (if etx_Value tx \<noteq> 0 then ''ETH'' else [])
                   in if currency = ''ETH'' \<and> erc20Transfers \<noteq> [] then retA None
                      else if length erc20Transfers > 1 then retA None
                      else bindA (token_transfers X st tokenTransfers []) (\<lambda>r.
                             case r of
                               None \<Rightarrow> retA None
                             | Some tokenTxMap \<Rightarrow>
                                 bindA (liftR (eth_payments X V txID currency erc20Transfers)) (\<lambda>(currency, payTxs).
                                   liftR (eth_sale X V txID txTo receipt currency
                                            (sv_map_order V (map snd tokenTxMap)) payTxs))))))"

section \<open>The record of a sale\<close>

definition token_info_json :: "TokenSaleInfo \<Rightarrow> json" where
  "token_info_json i =
     JObj [(''contractAddress'', JStr (tsi_ContractAddress i)), (''tokenID'', JStr (tsi_TokenID i)),
           (''sellerAddress'', JStr (tsi_SellerAddress i)), (''buyerAddress'', JStr (tsi_BuyerAddress i))]"

text \<open>The time is written in UTC.\<close>

definition ParseTokenSaleToGenericSalesTimeSeries :: "TokenSale \<Rightarrow> GenericSalesTimeSeries" where
  "ParseTokenSaleToGenericSalesTimeSeries s =
     \<lparr>gst_Timestamp = format_RFC3339Nano (ts_Timestamp s),
      gst_Metadata =
        [(''blockchain'', JStr (ts_Blockchain s)), (''marketplace'', JStr (ts_Marketplace s)),
         (''paymentCurrency'', JStr (ts_Currency s)), (''paymentMethod'', JStr ''crypto''),
         (''pricingCurrency'', JStr (ts_Currency s)), (''revenueCurrency'', JStr (ts_Currency s)),
         (''saleType'', JStr ''secondary''), (''transactionIDs'', JArr [JStr (ts_TxID s)]),
         (''bundleTokenInfo'', JArr (map token_info_json (ts_BundleTokenInfo s)))],
      gst_Values =
        [(''price'', big_Text 10 (ts_Price s)), (''platformFee'', big_Text 10 (ts_PlatformFee s)),
         (''netRevenue'', big_Text 10 (ts_NetRevenue s)), (''paymentAmount'', big_Text 10 (ts_PaymentAmount s)),
         (''exchangeRate'', ''1'')],
      gst_Shares = map (\<lambda>(a, v). (a, big_Text 10 v)) (ts_Shares s)\<rparr>"

section \<open>The accounting\<close>

definition balanced :: "sale_amounts \<Rightarrow> bool" where
  "balanced a \<longleftrightarrow> distinct (map fst (sa_Shares a)) \<and> sa_Price a = sum_list (map snd (sa_Shares a))"

lemma sum_list_update:
  fixes v :: int
  assumes "distinct (map fst al)"
  shows "sum_list (map snd (AList.update k v al)) =
    sum_list (map snd al) - (case map_of al k of None \<Rightarrow> 0 | Some w \<Rightarrow> w) + v"
  using assms
proof (induction al)
  case (Cons p al)
  obtain j w where p: "p = (j, w)" by fastforce
  show ?case
  proof (cases "j = k")
    case False
    with Cons p show ?thesis by simp
  next
    case True
    with Cons.prems p show ?thesis by simp
  qed
qed simp

lemma balanced_no_amounts [simp]: "balanced no_amounts"
  by (simp add: balanced_def no_amounts_def)

lemma balanced_accumulate: "balanced a \<Longrightarrow> balanced (accumulate fee_wallet tx a)"
  by (auto simp: balanced_def accumulate_def Let_def sum_list_update AList.distinct_update AList.update_conv'
      split: option.split)

lemma balanced_fold: "balanced a \<Longrightarrow> balanced (fold (accumulate fee_wallet) txs a)"
  by (induction txs arbitrary: a) (auto intro: balanced_accumulate)

lemma price_accumulate: "0 \<le> pt_Amount tx \<Longrightarrow> sa_Price a \<le> sa_Price (accumulate fee_wallet tx a)"
  by (auto simp: accumulate_def Let_def split: option.split)

lemma balanced_eth_amounts: "balanced (eth_amounts V payTxs)"
proof -
  let ?a = "fold (accumulate (\<lambda>w. map_of (sv_fee_wallets V) (to_lower w) \<noteq> None))
              (filter (\<lambda>tx. map_of (sv_marketplaces V) (to_lower (pt_To tx)) = None) payTxs) no_amounts"
  have "balanced ?a" by (rule balanced_fold) simp
  then show ?thesis by (simp add: eth_amounts_def Let_def balanced_def)
qed

text \<open>What holds of the amounts of a sale.\<close>

definition sale_balances :: "TokenSale \<Rightarrow> bool" where
  "sale_balances s \<longleftrightarrow> distinct (map fst (ts_Shares s)) \<and> ts_Price s = sum_list (map snd (ts_Shares s))
     \<and> ts_NetRevenue s + ts_PlatformFee s = ts_Price s \<and> ts_PaymentAmount s = ts_Price s"

lemma sale_balances_of: "balanced a \<Longrightarrow> sale_balances (token_sale_of t m b c tx bundle a)"
  by (simp add: sale_balances_def balanced_def token_sale_of_def)

lemma eth_sale_Some:
  assumes "eth_sale X V txID txTo receipt currency tokenTxs payTxs = Inr (Some s)"
  shows "sale_balances s \<and> ts_TxID s = txID \<and> ts_Blockchain s = ''ethereum'' \<and> ts_Marketplace s \<noteq> []
    \<and> ts_BundleTokenInfo s = tokenTxs"
  using assms
  by (auto simp: eth_sale_def Let_def bindR_Inr_iff sale_balances_of balanced_eth_amounts token_sale_of_def
      split: if_splits option.splits)
    (simp_all add: sale_balances_def balanced_eth_amounts [unfolded balanced_def])

lemma ParseEthereumTokenSale_Some:
  assumes "ParseEthereumTokenSale X st V txID s = (Inr (Some sale), s')"
  shows "\<exists>txTo receipt currency tokenTxs payTxs. eth_sale X V txID txTo receipt currency tokenTxs payTxs = Inr (Some sale)"
  using assms
  by (auto simp: ParseEthereumTokenSale_def act_simps Let_def split: sum.splits option.splits prod.splits if_splits) blast+

section \<open>The fixed fee\<close>

lemma bit_length_0: "bit_length 0 = 0"
  by (subst bit_length.simps) simp

lemma bit_length_1: "bit_length 1 = 1"
  by (subst bit_length.simps) (simp add: bit_length_0)

lemma bit_length_bounds: "0 < n \<Longrightarrow> 2 ^ (bit_length n - 1) \<le> n \<and> n < 2 ^ bit_length n"
proof (induction n rule: bit_length.induct)
  case (1 n)
  show ?case
  proof (cases "n div 2 = 0")
    case True
    with 1(2) have "n = 1" by simp
    then show ?thesis by (simp add: bit_length_1 [simplified])
  next
    case False
    with 1 have IH: "2 ^ (bit_length (n div 2) - 1) \<le> n div 2" "n div 2 < 2 ^ bit_length (n div 2)" by auto
    have "bit_length (n div 2) \<noteq> 0" using False by (simp add: bit_length.simps [of "n div 2"])
    then obtain k where k: "bit_length (n div 2) = Suc k" by (cases "bit_length (n div 2)") auto
    with 1(2) have len: "bit_length n = Suc (Suc k)" by (simp add: bit_length.simps [of n])
    from IH k have "2 ^ k \<le> n div 2" "n div 2 < 2 ^ Suc k" by auto
    then have "2 ^ Suc k \<le> n" "n < 2 ^ Suc (Suc k)" by auto
    with len show ?thesis by simp
  qed
qed

lemma round_bits_le: "round_bits prec n \<le> 2 * n" if "0 < prec"
proof -
  define e where "e = bit_length n - prec"
  show ?thesis
  proof (cases "e = 0")
    case True
    then show ?thesis by (simp add: round_bits_def e_def Let_def)
  next
    case False
    then have "n \<noteq> 0" by (metis bit_length_0 diff_0_eq_0 e_def)
    then have "2 ^ (bit_length n - 1) \<le> n" using bit_length_bounds by simp
    moreover have "(2 :: nat) ^ e \<le> 2 ^ (bit_length n - 1)"
      using False that by (intro power_increasing) (auto simp: e_def)
    ultimately have "2 ^ e \<le> n" by linarith
    have "round_bits prec n \<le> (n div 2 ^ e + 1) * 2 ^ e"
      using False by (simp add: round_bits_def Let_def e_def [symmetric])
    also have "\<dots> \<le> n + 2 ^ e" by (simp add: algebra_simps)
    finally show ?thesis using \<open>2 ^ e \<le> n\<close> by simp
  qed
qed

lemma fixed_fee_bounds: "0 \<le> price \<Longrightarrow> 0 \<le> fixed_fee price \<and> fixed_fee price \<le> price"
proof -
  assume pos: "0 \<le> price"
  define m where "m = nat price"
  define r where "r = round_bits (max 64 (bit_length m)) (m * 3602879701896397)"
  have "r \<le> 2 * (m * 3602879701896397)" unfolding r_def by (rule round_bits_le) simp
  also have "2 * (m * 3602879701896397) \<le> m * 2 ^ 57" by simp
  finally have "r \<le> m * 2 ^ 57" .
  then have "r div 2 ^ 57 \<le> m" using div_le_mono [of r "m * 2 ^ 57" "2 ^ 57"] by simp
  moreover have "fixed_fee price = sgn price * int (r div 2 ^ 57)"
    using pos by (simp add: fixed_fee_def Let_def r_def m_def)
  ultimately show ?thesis using pos
    by (cases "price = 0") (auto simp: m_def sgn_if)
qed

section \<open>Token ids\<close>

lemma parse_digits_lead_zero: "parse_digits 16 0 (CHR ''0'' # h) = parse_digits 16 0 h"
  by (simp add: digit_val_def)

lemma HexToDec_hex_of_big: "HexToDec (hex_of_big n) = (if n = 0 then [] else big_Text 10 (int n))"
proof (cases "n = 0")
  case True
  then show ?thesis by (simp add: hex_of_big_def HexToDec_def big_SetString_def)
next
  case False
  let ?h = "nat_digits 16 n"
  have "big_SetString 16 ?h = Some (int n)" using big_SetString_Text [of 16 "int n"] by (simp add: big_Text_def)
  moreover have "big_SetString 16 (CHR ''0'' # ?h) = Some (int n)"
    using parse_nat_nat_digits [of 16 n]
    by (simp add: big_SetString_def parse_nat_def parse_digits_lead_zero digit_val_def split: if_splits)
  ultimately show ?thesis using False by (simp add: hex_of_big_def HexToDec_def Let_def)
qed

section \<open>An instance\<close>

text \<open>One transfer of a token of Feral File, paid by two internal transfers: to the seller and to the marketplace.\<close>

definition sample_seller :: string where "sample_seller = ''0x'' @ replicate 40 (CHR ''c'')"
definition sample_fee :: string where "sample_fee = ''0x'' @ replicate 40 (CHR ''f'')"

lemma sample_wallets [simp]:
  "sample_address sample_seller = sample_seller" "sample_address sample_fee = sample_fee"
  "to_lower sample_seller = sample_seller" "to_lower sample_fee = sample_fee"
  "sample_seller \<noteq> sample_fee" "sample_fee \<noteq> sample_seller"
  by (simp_all add: sample_seller_def sample_fee_def sample_address_def has_prefix_def to_lower_def lower_char_def
      numeral_eq_Suc)

definition sample_transfer :: eth_log where
  "sample_transfer =
     \<lparr>log_Address = ''0xab'', log_Topics = [TransferEventSignature, sample_seller, ''0x2'', ''0x7''], log_Data = [],
      log_BlockNumber = 1, log_BlockHash = ''0xb'', log_TxHash = ''0xt'', log_Index = 0\<rparr>"

definition sample_sale_env :: sale_env where
  "sample_sale_env =
     \<lparr>sv_erc20 = [], sv_marketplaces = [(''0xmarket'', ''OpenSea'')], sv_fee_wallets = [(sample_fee, ''OpenSea'')],
      sv_old_fee_wallet = [],
      sv_TransactionReceipt = (\<lambda>t. Inr (Some \<lparr>rc_Status = 1, rc_BlockHash = ''0xb'', rc_Logs = [sample_transfer]\<rparr>)),
      sv_TransactionByHash = (\<lambda>t. Inr \<lparr>etx_To = Some ''0xMarket'', etx_Value = 100\<rparr>),
      sv_InternalTxs = (\<lambda>t. Inr [\<lparr>es_From = ''0x1'', es_To = sample_seller, es_Value = ''95''\<rparr>,
                                \<lparr>es_From = ''0x1'', es_To = sample_fee, es_Value = ''5''\<rparr>]),
      sv_HeaderByHash = (\<lambda>h. Inr (Some 1700000000)), sv_map_order = (\<lambda>is. is)\<rparr>"

definition sample_info :: TokenSaleInfo where
  "sample_info = \<lparr>tsi_ContractAddress = ''0xab'', tsi_TokenID = ''7'', tsi_SellerAddress = sample_seller,
     tsi_BuyerAddress = EthereumZeroAddress\<rparr>"

definition sample_sale_db :: db where
  "sample_sale_db = empty_db\<lparr>db_tokens := [zero_Token\<lparr>tok_Source := ''feralfile'',
     tok_IndexID := TokenIndexID sample_ext (x_EthereumBlockchain sample_ext) ''0xab'' ''7''\<rparr>]\<rparr>"

definition sample_token_sale :: TokenSale where
  "sample_token_sale =
     \<lparr>ts_Timestamp = time_of_Unix 1700000000, ts_BundleTokenInfo = [sample_info], ts_Price = 100,
      ts_Marketplace = ''OpenSea'', ts_Blockchain = ''ethereum'', ts_Currency = ''ETH'', ts_TxID = ''0xt'',
      ts_PlatformFee = 5, ts_NetRevenue = 95, ts_PaymentAmount = 100,
      ts_Shares = [(sample_seller, 95), (sample_fee, 5)]\<rparr>"

lemma sample_transfer_kinds:
  "ERC20Transfer sample_transfer = Inr False" "ERC721Transfer sample_transfer = Inr True"
  "ERC1155SingleTransfer sample_transfer = Inr False"
  by (simp_all add: sample_transfer_def ERC20Transfer_def ERC721Transfer_def ERC1155SingleTransfer_def TransferEventLog_def)

lemma sample_read: "read_token_transfer sample_ext sample_transfer = Inr (Some sample_info)"
proof -
  have "HexToDec (trim_prefix ''0x'' ''0x7'') = ''7''"
    by (simp add: trim_prefix_def has_prefix_def HexToDec_def big_SetString_def parse_nat_def digit_val_def big_Text_def
        nat_digits.simps digit_char_def char_of_def bit_0)
  moreover have "x_HexToAddressHex sample_ext = sample_address" by (simp add: sample_ext_def)
  moreover have "sample_address ''0x2'' = EthereumZeroAddress" by (simp add: sample_address_def)
  ultimately show ?thesis
    by (simp add: read_token_transfer_def sample_transfer_kinds) (simp add: sample_transfer_def sample_info_def)
qed

lemma sample_parse:
  "ParseEthereumTokenSale sample_ext (mem_store []) sample_sale_env ''0xt'' sample_sale_db =
     (Inr (Some sample_token_sale), sample_sale_db)"
proof -
  let ?i = "TokenIndexID sample_ext (x_EthereumBlockchain sample_ext) ''0xab'' ''7''"
  let ?t = "zero_Token\<lparr>tok_Source := ''feralfile'', tok_IndexID := ?i\<rparr>"
  have "GetTokenByIndexID (mem_store []) ?i sample_sale_db = (Inr (Some ?t), sample_sale_db)"
    by (simp add: mem_st.GetTokenByIndexID_run get_token_def) (simp add: sample_sale_db_def)
  then have token: "ContextRegularActivity (GetTokenByIndexID (mem_store []) ?i) sample_sale_db = (Inr (Some ?t), sample_sale_db)"
    unfolding ContextRegularActivity_def by (rule attempts_ok)
  have info: "tsi_ContractAddress sample_info = ''0xab''" "tsi_TokenID sample_info = ''7''" by (simp_all add: sample_info_def)
  have transfers: "token_transfers sample_ext (mem_store []) [sample_transfer] [] sample_sale_db =
      (Inr (Some [(''0xab-7'', sample_info)]), sample_sale_db)"
    using token by (simp add: act_simps sample_read info add_transfer_def)
  have classify: "classifyTxLogs [sample_transfer] ([], []) = Inr ([], [sample_transfer])"
    by (simp add: sample_transfer_kinds)
  have amounts: "big_SetString 10 ''95'' = Some 95" "big_SetString 10 ''5'' = Some 5"
    by (simp_all add: big_SetString_def parse_nat_def digit_val_def)
  let ?p = "[\<lparr>pt_From = EthereumZeroAddress, pt_To = sample_seller, pt_Amount = 95\<rparr>,
             \<lparr>pt_From = EthereumZeroAddress, pt_To = sample_fee, pt_Amount = 5\<rparr>]"
  have "x_HexToAddressHex sample_ext = sample_address" by (simp add: sample_ext_def)
  moreover have "sample_address ''0x1'' = EthereumZeroAddress" by (simp add: sample_address_def)
  ultimately have payments: "eth_payments sample_ext sample_sale_env ''0xt'' ''ETH'' [] = Inr (''ETH'', ?p)"
    by (simp add: eth_payments_def sample_sale_env_def internal_payment_def amounts)
  have wallets: "sample_seller \<noteq> ''0xmarket''" "sample_fee \<noteq> ''0xmarket''" "sample_seller \<noteq> EthereumZeroAddress"
    "sample_fee \<noteq> EthereumZeroAddress" "sample_seller \<noteq> []"
    by (simp_all add: sample_seller_def sample_fee_def numeral_eq_Suc)
  have amounts: "eth_amounts sample_sale_env ?p =
      \<lparr>sa_Shares = [(sample_seller, 95), (sample_fee, 5)], sa_Price = 100, sa_PlatformFee = 5\<rparr>"
    by (simp add: eth_amounts_def sample_sale_env_def accumulate_def no_amounts_def wallets wallets [symmetric] Let_def)
  have market: "sale_marketplace (sv_marketplaces sample_sale_env) ''0xMarket'' ?p = ''OpenSea''"
    by (simp add: sale_marketplace_def sample_sale_env_def to_lower_def lower_char_def char_of_def bit_0)
  have sale: "eth_sale sample_ext sample_sale_env ''0xt'' ''0xMarket'' \<lparr>rc_Status = 1, rc_BlockHash = ''0xb'', rc_Logs = [sample_transfer]\<rparr>
      ''ETH'' [sample_info] ?p = Inr (Some sample_token_sale)"
    unfolding eth_sale_def market amounts
    by (simp add: sample_sale_env_def token_sale_of_def sample_token_sale_def i64_id)
  have env: "sv_TransactionReceipt sample_sale_env ''0xt'' = Inr (Some \<lparr>rc_Status = 1, rc_BlockHash = ''0xb'', rc_Logs = [sample_transfer]\<rparr>)"
    "sv_TransactionByHash sample_sale_env ''0xt'' = Inr \<lparr>etx_To = Some ''0xMarket'', etx_Value = 100\<rparr>"
    "sv_map_order sample_sale_env = (\<lambda>is. is)"
    by (simp_all add: sample_sale_env_def)
  show ?thesis
    by (simp add: ParseEthereumTokenSale_def act_simps env classify transfers payments sale
        del: token_transfers.simps classifyTxLogs.simps)
qed

section \<open>Properties\<close>

text \<open>
  C31: The amounts of a sale parsed from an Ethereum transaction balance, whatever payments it is made of: the price is
  the sum of the shares, each receiver having one; the net revenue is the price less the platform fee; and the sale
  has a marketplace and the id of the transaction.
\<close>

theorem parsed_sale_balances:
  assumes "ParseEthereumTokenSale X st V txID s = (Inr (Some sale), s')"
  shows "distinct (map fst (ts_Shares sale)) \<and> ts_Price sale = sum_list (map snd (ts_Shares sale))
    \<and> ts_NetRevenue sale + ts_PlatformFee sale = ts_Price sale \<and> ts_PaymentAmount sale = ts_Price sale
    \<and> ts_TxID sale = txID \<and> ts_Marketplace sale \<noteq> []"
proof -
  from ParseEthereumTokenSale_Some [OF assms] obtain txTo receipt currency tokenTxs payTxs where
    "eth_sale X V txID txTo receipt currency tokenTxs payTxs = Inr (Some sale)" by blast
  from eth_sale_Some [OF this] show ?thesis by (simp add: sale_balances_def)
qed

theorem parsed_sale_balances_witness:
  "distinct (map fst (ts_Shares sample_token_sale)) \<and> ts_Price sample_token_sale = sum_list (map snd (ts_Shares sample_token_sale))
    \<and> ts_NetRevenue sample_token_sale + ts_PlatformFee sample_token_sale = ts_Price sample_token_sale"
  using parsed_sale_balances [OF sample_parse] by blast

text \<open>
  The fixed fee of a price is between nothing and the price, so that the net revenue is not negative, although it
  goes through binary floating point.
\<close>

theorem fixed_fee_within_price:
  assumes "0 \<le> price"
  shows "0 \<le> fixed_fee price \<and> fixed_fee price \<le> price"
  by (rule fixed_fee_bounds [OF assms])

theorem fixed_fee_within_price_witness: "0 \<le> fixed_fee 1000 \<and> fixed_fee 1000 \<le> 1000"
  by (rule fixed_fee_within_price) simp

text \<open>
  The token id read from a \<open>TransferSingle\<close> log is the number in its data, in decimal, except for the token 0: its
  bytes are none, its id is the empty text, and no token with such an index id exists.
\<close>

theorem single_transfer_token_id:
  assumes "log_Topics l = [TransferSingleEventSignature, operator, sender, receiver]"
    and "log_Data l = id_bytes @ value_bytes" and "length id_bytes = 32" and "length value_bytes = 32"
    and "big_SetBytes value_bytes = 1"
  shows "read_token_transfer X l = Inr (Some \<lparr>tsi_ContractAddress = log_Address l,
    tsi_TokenID = (if big_SetBytes id_bytes = 0 then [] else big_Text 10 (int (big_SetBytes id_bytes))),
    tsi_SellerAddress = x_HexToAddressHex X sender, tsi_BuyerAddress = x_HexToAddressHex X receiver\<rparr>)"
  using assms
  by (simp add: read_token_transfer_def ERC721Transfer_def TransferEventLog_def HexToDec_hex_of_big)

theorem single_transfer_token_id_witness:
  "\<exists>i. read_token_transfer sample_ext (sample_transfer\<lparr>log_Topics := [TransferSingleEventSignature, ''0x1'', ''0x2'', ''0x3''],
     log_Data := replicate 32 0 @ (replicate 31 0 @ [1])\<rparr>) = Inr (Some i) \<and> tsi_TokenID i = []"
proof -
  let ?l = "sample_transfer\<lparr>log_Topics := [TransferSingleEventSignature, ''0x1'', ''0x2'', ''0x3''],
     log_Data := replicate 32 0 @ (replicate 31 0 @ [1])\<rparr>"
  have zeros: "foldl (\<lambda>a b. 256 * a + b) 0 (replicate n 0) = (0 :: nat)" for n by (induction n) auto
  have one: "big_SetBytes (replicate 31 0 @ [1]) = 1" and zero: "big_SetBytes (replicate 32 0) = 0"
    unfolding big_SetBytes_def foldl_append zeros by simp_all
  have "\<exists>i. read_token_transfer sample_ext ?l = Inr (Some i) \<and>
      tsi_TokenID i = (if big_SetBytes (replicate 32 0) = 0 then [] else big_Text 10 (int (big_SetBytes (replicate 32 0))))"
    using single_transfer_token_id [of ?l "''0x1''" "''0x2''" "''0x3''" "replicate 32 0" "replicate 31 0 @ [1]"] one by simp
  thus ?thesis unfolding zero by simp
qed

end
