(* ===== verification/SaleIndexer.thy ===== *)
theory SaleIndexer
  imports SaleParser
begin

text \<open>
  The sale parsed from a transaction of objkt on Tezos (\<open>activities.go\<close>), and the workflows that index the sales of
  transactions, of a range of blocks and of a period (\<open>workflows_detector.go\<close>, \<open>workflows_indexer.go\<close>). A workflow that
  continues as a new one returns the argument that changes.
\<close>

section \<open>Parameters of a Tezos transfer\<close>

record TxsFormat =
  tf_To :: string
  tf_Amount :: string
  tf_TokenID :: string

record ParametersValue =
  pv_From :: string
  pv_Txs :: "TxsFormat list"

definition parseArraryMapInterface :: "json \<Rightarrow> (string \<times> json) list list res" where
  "parseArraryMapInterface input =
     (case as_slice input of
        None \<Rightarrow> Inl (Errorf ''invalid slice of interface'')
      | Some xs \<Rightarrow> mapR (\<lambda>item. case as_map item of
            None \<Rightarrow> Inl (Errorf ''invalid slice of map string interface'')
          | Some m \<Rightarrow> Inr m) xs)"

definition text_or :: "goerr \<Rightarrow> json \<Rightarrow> string res" where
  "text_or e v = (case as_string v of None \<Rightarrow> Inl e | Some s \<Rightarrow> Inr s)"

definition decode_txs :: "(string \<times> json) list \<Rightarrow> TxsFormat res" where
  "decode_txs tx =
     bindR (case as_string (jlookup tx ''to_'') of
              Some to_addr \<Rightarrow> Inr to_addr
            | None \<Rightarrow> text_or (Errorf ''invalid tx value parse to'') (jlookup tx ''to'')) (\<lambda>to_addr.
     bindR (text_or (Errorf ''invalid tx value parse amount'') (jlookup tx ''amount'')) (\<lambda>amount.
     bindR (text_or (Errorf ''invalid tx value parse token_id'') (jlookup tx ''token_id'')) (\<lambda>tokenID.
       Inr \<lparr>tf_To = to_addr, tf_Amount = amount, tf_TokenID = tokenID\<rparr>)))"

text \<open>The values of one parameter, in the order in which the Go map is iterated.\<close>

definition decode_param :: "json list \<Rightarrow> ParametersValue res" where
  "decode_param valueSlice =
     (case valueSlice of
        [v0, v1] \<Rightarrow>
          let from_error = Errorf ''invalid parame value parse from'' in
          bindR (case parseArraryMapInterface v0 of
                   Inr txs \<Rightarrow> bindR (text_or from_error v1) (\<lambda>from_addr. Inr (txs, from_addr))
                 | Inl _ \<Rightarrow>
                     (case parseArraryMapInterface v1 of
                        Inl _ \<Rightarrow> Inl (Errorf ''invalid param value parse txs'')
                      | Inr txs \<Rightarrow> bindR (text_or from_error v0) (\<lambda>from_addr. Inr (txs, from_addr)))) (\<lambda>(txs, from_addr).
          bindR (mapR decode_txs txs) (\<lambda>txsResult. Inr \<lparr>pv_From = from_addr, pv_Txs = txsResult\<rparr>))
      | _ \<Rightarrow> Inl (Errorf ''invalid param value legth''))"

type_synonym value_order = "json list \<Rightarrow> json list"

definition decodeParametersValue :: "value_order \<Rightarrow> json \<Rightarrow> ParametersValue list res" where
  "decodeParametersValue ord input =
     bindR (parseArraryMapInterface input) (\<lambda>data.
       mapR (\<lambda>paramValue. decode_param (ord (map snd paramValue))) data)"

section \<open>The sale of an objkt transaction\<close>

record DetailedTransaction =
  dtx_Status :: string
  dtx_Parameter :: "(string \<times> json) option"
  dtx_Target :: string
  dtx_Sender :: string
  dtx_Amount :: int
  dtx_Timestamp :: gotime

definition OBJKTSaleEntrypoints :: "string list" where
  "OBJKTSaleEntrypoints = [''fulfill_ask'', ''fulfill_offer'']"

abbreviation TezosOBJKTTreasuryProxyAddress :: string where
  "TezosOBJKTTreasuryProxyAddress \<equiv> ''KT19kCpYFxrNPegMBYKKH44szaqv8offqBRz''"

definition param_bundle :: "string \<Rightarrow> ParametersValue \<Rightarrow> TokenSaleInfo list" where
  "param_bundle contract paramValue =
     map (\<lambda>ptx. \<lparr>tsi_ContractAddress = contract, tsi_TokenID = tf_TokenID ptx, tsi_SellerAddress = pv_From paramValue,
                 tsi_BuyerAddress = tf_To ptx\<rparr>) (pv_Txs paramValue)"

text \<open>The operations of the transaction: whether a sale was among them, the tokens, the amounts; \<open>None\<close> on a failed one.\<close>

fun objkt_operations ::
    "value_order \<Rightarrow> (string \<times> string) list \<Rightarrow> DetailedTransaction list \<Rightarrow> bool \<times> TokenSaleInfo list \<times> sale_amounts
      \<Rightarrow> (bool \<times> TokenSaleInfo list \<times> sale_amounts) option res" where
  "objkt_operations ord wallets [] acc = Inr (Some acc)"
| "objkt_operations ord wallets (tx # txs) (valid, bundle, a) =
     (if dtx_Status tx \<noteq> ''applied'' then Inr None
      else case dtx_Parameter tx of
             Some (entrypoint, v) \<Rightarrow>
               if entrypoint \<in> set OBJKTSaleEntrypoints then objkt_operations ord wallets txs (True, bundle, a)
               else if entrypoint = ''transfer'' then
                 (case decodeParametersValue ord v of
                    Inl _ \<Rightarrow> Inl (Errorf ''invalid transfer transaction - not supported buying using token'')
                  | Inr paramValues \<Rightarrow>
                      objkt_operations ord wallets txs
                        (valid, bundle @ concat (map (param_bundle (dtx_Target tx)) paramValues), a))
               else objkt_operations ord wallets txs (valid, bundle, a)
           | None \<Rightarrow>
               if dtx_Target tx = TezosOBJKTTreasuryProxyAddress then objkt_operations ord wallets txs (valid, bundle, a)
               else objkt_operations ord wallets txs (valid, bundle,
                      accumulate (\<lambda>w. map_of wallets (to_lower w) = Some ''Objkt'')
                        \<lparr>pt_From = dtx_Sender tx, pt_To = dtx_Target tx, pt_Amount = dtx_Amount tx\<rparr> a))"

definition ParseTezosObjktTokenSale ::
    "value_order \<Rightarrow> (string \<times> string) list \<Rightarrow> (string \<Rightarrow> DetailedTransaction list res) \<Rightarrow> string \<Rightarrow> TokenSale option res" where
  "ParseTezosObjktTokenSale ord wallets GetTransactionByTx hash =
     bindR (GetTransactionByTx hash) (\<lambda>txs.
       if length txs < 2 then Inl (Errorf ''invalid objkt tx'')
       else bindR (objkt_operations ord wallets txs (False, [], no_amounts)) (\<lambda>r.
         case r of
           None \<Rightarrow> Inr None
         | Some (valid, bundle, a) \<Rightarrow>
             if \<not> valid then Inl (Errorf ''invalid objkt tx'')
             else if bundle = [] then Inl (Errorf ''invalid sale transaction - no tokens transfer'')
             else Inr (Some (token_sale_of (dtx_Timestamp (hd txs)) ''Objkt'' ''tezos'' ''XTZ'' hash bundle a))))"

section \<open>Indexing the sale of a transaction\<close>

record tezos_sale_env =
  tv_fee_wallets :: "(string \<times> string) list"
  tv_GetTransactionByTx :: "string \<Rightarrow> DetailedTransaction list res"
  tv_GetTransactionHash :: "int \<Rightarrow> string res"
  tv_GetTransactions :: "gotime \<Rightarrow> int \<Rightarrow> int \<Rightarrow> string list res"
  tv_value_order :: value_order

definition write_sale :: "ext \<Rightarrow> store \<Rightarrow> TokenSale \<Rightarrow> (db, unit) act" where
  "write_sale X st tokenSale =
     ContextRegularActivity (WriteTimeSeriesData X st [ParseTokenSaleToGenericSalesTimeSeries tokenSale])"

definition already_indexed :: "store \<Rightarrow> string \<Rightarrow> string \<Rightarrow> bool \<Rightarrow> (db, bool) act" where
  "already_indexed st txID blockchain skipIndexed =
     (if skipIndexed then ContextRegularActivity (SaleTimeSeriesDataExists st txID blockchain) else retA False)"

definition IndexEthereumTokenSale_workflow :: "ext \<Rightarrow> store \<Rightarrow> sale_env \<Rightarrow> string \<Rightarrow> bool \<Rightarrow> (db, unit) act" where
  "IndexEthereumTokenSale_workflow X st V txID skipIndexed =
     bindA (already_indexed st txID (x_EthereumBlockchain X) skipIndexed) (\<lambda>indexed.
       if indexed then retA ()
       else bindA (ParseEthereumTokenSale X st V txID) (\<lambda>r.
              case r of None \<Rightarrow> retA () | Some tokenSale \<Rightarrow> write_sale X st tokenSale))"

text \<open>Whether every token of the bundle is one of Feral File.\<close>

fun all_feralfile :: "ext \<Rightarrow> store \<Rightarrow> TokenSaleInfo list \<Rightarrow> (db, bool) act" where
  "all_feralfile X st [] = retA True"
| "all_feralfile X st (i # is) =
     bindA (ContextRegularActivity (GetTokenByIndexID st
              (TokenIndexID X (x_TezosBlockchain X) (tsi_ContractAddress i) (tsi_TokenID i)))) (\<lambda>token.
       case token of
         None \<Rightarrow> retA False
       | Some t \<Rightarrow> if tok_Source t \<noteq> ''feralfile'' then retA False else all_feralfile X st is)"

definition IndexTezosObjktTokenSale_workflow :: "ext \<Rightarrow> store \<Rightarrow> tezos_sale_env \<Rightarrow> string \<Rightarrow> bool \<Rightarrow> (db, unit) act" where
  "IndexTezosObjktTokenSale_workflow X st V txHash skipIndexed =
     bindA (already_indexed st txHash (x_TezosBlockchain X) skipIndexed) (\<lambda>indexed.
       if indexed then retA ()
       else bindA (liftR (ParseTezosObjktTokenSale (tv_value_order V) (tv_fee_wallets V) (tv_GetTransactionByTx V) txHash)) (\<lambda>r.
              case r of
                None \<Rightarrow> retA ()
              | Some tokenSale \<Rightarrow>
                  bindA (all_feralfile X st (ts_BundleTokenInfo tokenSale)) (\<lambda>ours.
                    if ours then write_sale X st tokenSale else retA ())))"

definition IndexTezosTokenSaleFromTzktTxID_workflow :: "ext \<Rightarrow> store \<Rightarrow> tezos_sale_env \<Rightarrow> int \<Rightarrow> (db, unit) act" where
  "IndexTezosTokenSaleFromTzktTxID_workflow X st V tx =
     bindA (liftR (tv_GetTransactionHash V tx)) (\<lambda>txHash. IndexTezosObjktTokenSale_workflow X st V txHash True)"

section \<open>Indexing a range of blocks\<close>

text \<open>Every transaction with a token transfer once, in the order \<open>ord\<close> of the Go map.\<close>

fun nft_txs :: "eth_log list \<Rightarrow> string list res" where
  "nft_txs [] = Inr []"
| "nft_txs (l # ls) =
     bindR (ERC721Transfer l) (\<lambda>is721.
     bindR (if is721 then Inr True else ERC1155SingleTransfer l) (\<lambda>token.
     bindR (nft_txs ls) (\<lambda>txs. Inr (if token then log_TxHash l # txs else txs))))"

record range_env =
  rv_FilterLogs :: "string list \<Rightarrow> int \<Rightarrow> int \<Rightarrow> eth_log list res"
  rv_map_order :: "string list \<Rightarrow> string list"
  rv_child_order :: "nat list \<Rightarrow> nat list"

definition FilterEthereumNFTTxByEventLogs :: "range_env \<Rightarrow> string list \<Rightarrow> int \<Rightarrow> int \<Rightarrow> string list res" where
  "FilterEthereumNFTTxByEventLogs R addresses fromBlk toBlk =
     bindR (rv_FilterLogs R addresses fromBlk toBlk) (\<lambda>evts.
     bindR (nft_txs evts) (\<lambda>txs. Inr (rv_map_order R (remdups txs))))"

definition range_end :: "int \<Rightarrow> int \<Rightarrow> int \<Rightarrow> int" where
  "range_end fromBlk toBlk blkBatchSize =
     (let endBlk = u64 (fromBlk + blkBatchSize) in if endBlk > toBlk then toBlk else endBlk)"

text \<open>One run; \<open>Some\<close> is the first block of the run it continues as.\<close>

definition IndexEthereumTokenSaleInBlockRange_workflow ::
    "ext \<Rightarrow> store \<Rightarrow> sale_env \<Rightarrow> range_env \<Rightarrow> int \<Rightarrow> int \<Rightarrow> int \<Rightarrow> string list \<Rightarrow> bool \<Rightarrow> (db, int option) act" where
  "IndexEthereumTokenSaleInBlockRange_workflow X st V R fromBlk toBlk blkBatchSize contractAddresses skipIndexed =
     (if \<not> skipIndexed then throwA (Errorf ''skipIndexed must be true until we have a unique index handled properly'')
      else if fromBlk > toBlk then throwA (Errorf ''invalid block range'')
      else let endBlk = range_end fromBlk toBlk blkBatchSize in
        bindA (liftR (FilterEthereumNFTTxByEventLogs R contractAddresses fromBlk endBlk)) (\<lambda>txIDs.
        bindA (run_children (rv_child_order R) (\<lambda>txID. IndexEthereumTokenSale_workflow X st V txID skipIndexed) txIDs) (\<lambda>_.
          retA (if endBlk < toBlk then Some (u64 (fromBlk + blkBatchSize)) else None))))"

text \<open>The runs one after the other; \<open>None\<close> when the fuel does not suffice.\<close>

fun block_range_runs ::
    "nat \<Rightarrow> ext \<Rightarrow> store \<Rightarrow> sale_env \<Rightarrow> range_env \<Rightarrow> int \<Rightarrow> int \<Rightarrow> int \<Rightarrow> string list \<Rightarrow> db \<Rightarrow> (unit res \<times> db) option" where
  "block_range_runs 0 X st V R fromBlk toBlk blkBatchSize addresses s = None"
| "block_range_runs (Suc fuel) X st V R fromBlk toBlk blkBatchSize addresses s =
     (case IndexEthereumTokenSaleInBlockRange_workflow X st V R fromBlk toBlk blkBatchSize addresses True s of
        (Inl e, s) \<Rightarrow> Some (Inl e, s)
      | (Inr None, s) \<Rightarrow> Some (Inr (), s)
      | (Inr (Some next_from), s) \<Rightarrow> block_range_runs fuel X st V R next_from toBlk blkBatchSize addresses s)"

section \<open>Indexing a period\<close>

definition IndexTezosObjktTokenSaleFromTime_workflow ::
    "(nat list \<Rightarrow> nat list) \<Rightarrow> ext \<Rightarrow> store \<Rightarrow> tezos_sale_env \<Rightarrow> gotime \<Rightarrow> int \<Rightarrow> int \<Rightarrow> bool \<Rightarrow> (db, int option) act" where
  "IndexTezosObjktTokenSaleFromTime_workflow ord X st V startTime offset batchSize skipIndexed =
     bindA (liftR (tv_GetTransactions V startTime offset batchSize)) (\<lambda>hashes.
     bindA (run_children ord (\<lambda>hash. IndexTezosObjktTokenSale_workflow X st V hash skipIndexed)
              (rev (remdups (rev hashes)))) (\<lambda>_.
       retA (if hashes \<noteq> [] then Some (i64 (offset + int (length hashes))) else None)))"

section \<open>Every transaction of a range\<close>

definition token_log :: "eth_log \<Rightarrow> bool" where
  "token_log l \<longleftrightarrow> ERC721Transfer l = Inr True \<or> ERC1155SingleTransfer l = Inr True"

lemma nft_txs_Inr: "nft_txs ls = Inr txs \<Longrightarrow> set txs = log_TxHash ` {l \<in> set ls. token_log l}"
proof (induction ls arbitrary: txs)
  case (Cons l ls)
  then obtain b t ts where b: "ERC721Transfer l = Inr b" "(if b then Inr True else ERC1155SingleTransfer l) = Inr t"
    and ts: "nft_txs ls = Inr ts" "txs = (if t then log_TxHash l # ts else ts)"
    by (auto simp: bindR_Inr_iff)
  from b have "token_log l \<longleftrightarrow> t"
    by (cases b) (auto simp: token_log_def ERC721Transfer_def ERC1155SingleTransfer_def TransferEventLog_def
        split: list.splits)
  with Cons.IH [OF ts(1)] ts(2) show ?case by auto
qed simp

text \<open>The node answers with the logs of the blocks asked for, out of those of the contracts on the chain.\<close>

definition serves_logs :: "range_env \<Rightarrow> string list \<Rightarrow> eth_log list \<Rightarrow> bool" where
  "serves_logs R addresses chain \<longleftrightarrow>
     (\<forall>a b. rv_FilterLogs R addresses a b = Inr (filter (\<lambda>l. a \<le> log_BlockNumber l \<and> log_BlockNumber l \<le> b) chain))
     \<and> (\<forall>xs. set (rv_map_order R xs) = set xs) \<and> child_order (rv_child_order R)"

definition sale_txs :: "eth_log list \<Rightarrow> int \<Rightarrow> int \<Rightarrow> string set" where
  "sale_txs chain a b = log_TxHash ` {l \<in> set chain. token_log l \<and> a \<le> log_BlockNumber l \<and> log_BlockNumber l \<le> b}"

lemma sale_txs_Un: "a \<le> c \<Longrightarrow> c \<le> b \<Longrightarrow> sale_txs chain a c \<union> sale_txs chain c b = sale_txs chain a b"
proof -
  assume "a \<le> c" "c \<le> b"
  then have "{l \<in> set chain. token_log l \<and> a \<le> log_BlockNumber l \<and> log_BlockNumber l \<le> c} \<union>
      {l \<in> set chain. token_log l \<and> c \<le> log_BlockNumber l \<and> log_BlockNumber l \<le> b} =
      {l \<in> set chain. token_log l \<and> a \<le> log_BlockNumber l \<and> log_BlockNumber l \<le> b}" by auto
  then show ?thesis unfolding sale_txs_def by (metis image_Un)
qed

lemma all_ran_append: "all_ran body (xs @ ys) s s' \<longleftrightarrow> (\<exists>t. all_ran body xs s t \<and> all_ran body ys t s')"
  by (induction xs arbitrary: s) auto

lemma range_end_small:
  assumes "0 \<le> fromBlk" "fromBlk \<le> toBlk" "0 \<le> batch" "toBlk + batch < 2 ^ 64"
  shows "range_end fromBlk toBlk batch = min (fromBlk + batch) toBlk" and "u64 (fromBlk + batch) = fromBlk + batch"
  using assms by (auto simp: range_end_def u64_id Let_def min_def)

lemma block_range_run:
  assumes "serves_logs R addresses chain"
    and "IndexEthereumTokenSaleInBlockRange_workflow X st V R fromBlk toBlk batch addresses True s = (Inr r, s')"
  shows "\<exists>txs. set txs = sale_txs chain fromBlk (range_end fromBlk toBlk batch)
      \<and> all_ran (\<lambda>tx. IndexEthereumTokenSale_workflow X st V tx True) txs s s'
      \<and> r = (if range_end fromBlk toBlk batch < toBlk then Some (u64 (fromBlk + batch)) else None)"
proof -
  let ?e = "range_end fromBlk toBlk batch"
  from assms(2) obtain ids where ids: "FilterEthereumNFTTxByEventLogs R addresses fromBlk ?e = Inr ids"
    and run: "run_children (rv_child_order R) (\<lambda>tx. IndexEthereumTokenSale_workflow X st V tx True) ids s = (Inr (), s')"
    and r: "r = (if ?e < toBlk then Some (u64 (fromBlk + batch)) else None)"
    by (auto simp: IndexEthereumTokenSaleInBlockRange_workflow_def act_simps Let_def split: if_splits prod.splits sum.splits)
  have ord: "child_order (rv_child_order R)" using assms(1) by (simp add: serves_logs_def)
  from run_children_Inr [OF ord run] obtain txs where "set txs = set ids"
    "all_ran (\<lambda>tx. IndexEthereumTokenSale_workflow X st V tx True) txs s s'" by blast
  moreover have "set ids = sale_txs chain fromBlk ?e"
    using ids assms(1)
    by (auto simp: FilterEthereumNFTTxByEventLogs_def bindR_Inr_iff serves_logs_def sale_txs_def dest!: nft_txs_Inr)
  ultimately show ?thesis using r by blast
qed

lemma block_range_runs_all:
  assumes "serves_logs R addresses chain" and "0 < batch" "toBlk + batch < 2 ^ 64"
    and "0 \<le> fromBlk" "fromBlk \<le> toBlk"
    and "block_range_runs fuel X st V R fromBlk toBlk batch addresses s = Some (Inr (), s')"
  shows "\<exists>txs. set txs = sale_txs chain fromBlk toBlk \<and> all_ran (\<lambda>tx. IndexEthereumTokenSale_workflow X st V tx True) txs s s'"
  using assms(4-)
proof (induction fuel arbitrary: fromBlk s)
  case (Suc fuel)
  let ?e = "range_end fromBlk toBlk batch"
  note small = range_end_small [OF Suc.prems(1,2) less_imp_le [OF assms(2)] assms(3)]
  from Suc.prems(3) obtain r t where run: "IndexEthereumTokenSaleInBlockRange_workflow X st V R fromBlk toBlk batch addresses True s = (Inr r, t)"
    by (auto split: prod.splits sum.splits)
  from block_range_run [OF assms(1) run] obtain txs where txs: "set txs = sale_txs chain fromBlk ?e"
    "all_ran (\<lambda>tx. IndexEthereumTokenSale_workflow X st V tx True) txs s t"
    and r: "r = (if ?e < toBlk then Some (u64 (fromBlk + batch)) else None)" by blast
  show ?case
  proof (cases "?e < toBlk")
    case False
    with Suc.prems(3) run r small txs show ?thesis by (auto simp: min_def split: if_splits)
  next
    case True
    with small have e: "?e = fromBlk + batch" "fromBlk + batch < toBlk" by (auto simp: min_def split: if_splits)
    from True Suc.prems(3) run r small(2)
    have rest: "block_range_runs fuel X st V R (fromBlk + batch) toBlk batch addresses t = Some (Inr (), s')" by simp
    from Suc.IH [OF _ _ rest] e(2) Suc.prems(1) assms(2) obtain txs' where
      "set txs' = sale_txs chain (fromBlk + batch) toBlk"
      "all_ran (\<lambda>tx. IndexEthereumTokenSale_workflow X st V tx True) txs' t s'" by auto
    with txs e assms(2) sale_txs_Un [of fromBlk "fromBlk + batch" toBlk chain] show ?thesis
      by (intro exI [of _ "txs @ txs'"]) (auto simp: all_ran_append)
  qed
qed simp

lemma block_range_runs_end:
  assumes "0 < batch" "toBlk + batch < 2 ^ 64" "0 \<le> fromBlk" "nat (toBlk - fromBlk) < fuel"
  shows "block_range_runs fuel X st V R fromBlk toBlk batch addresses s \<noteq> None"
  using assms(3,4)
proof (induction fuel arbitrary: fromBlk s)
  case (Suc fuel)
  obtain r t where run: "IndexEthereumTokenSaleInBlockRange_workflow X st V R fromBlk toBlk batch addresses True s = (r, t)"
    by fastforce
  have step: "r = Inr (Some n) \<Longrightarrow> n = fromBlk + batch \<and> fromBlk + batch < toBlk" for n
    using run range_end_small [of fromBlk toBlk batch] Suc.prems(1) assms(1,2)
    by (auto simp: IndexEthereumTokenSaleInBlockRange_workflow_def act_simps Let_def min_def
        split: if_splits prod.splits sum.splits)
  show ?case
  proof (cases "\<exists>n. r = Inr (Some n)")
    case True
    then obtain n where r: "r = Inr (Some n)" by blast
    with step have n: "n = fromBlk + batch" "fromBlk + batch < toBlk" by auto
    with Suc.prems assms(1) have "nat (toBlk - n) < fuel" "0 \<le> n" by auto
    with Suc.IH run r show ?thesis by simp
  next
    case False
    with run show ?thesis by (auto split: sum.split option.split)
  qed
qed simp

lemma block_range_runs_batch_0:
  assumes "0 \<le> fromBlk" "fromBlk < toBlk" "toBlk < 2 ^ 64"
  shows "block_range_runs fuel X st V R fromBlk toBlk 0 addresses s \<noteq> Some (Inr (), s')"
proof (induction fuel arbitrary: s)
  case (Suc fuel)
  have "r = Some fromBlk" if "IndexEthereumTokenSaleInBlockRange_workflow X st V R fromBlk toBlk 0 addresses True s = (Inr r, t)" for r t
    using that range_end_small [of fromBlk toBlk 0] assms
    by (auto simp: IndexEthereumTokenSaleInBlockRange_workflow_def act_simps Let_def min_def
        split: if_splits prod.splits sum.splits)
  with Suc.IH show ?case by (auto split: prod.split sum.split option.split)
qed simp

section \<open>The record of a sale is written\<close>

definition bundle_index_ids :: "TokenSale \<Rightarrow> string list" where
  "bundle_index_ids s = map (\<lambda>i. ts_Blockchain s @ ''-'' @ tsi_ContractAddress i @ ''-'' @ tsi_TokenID i) (ts_BundleTokenInfo s)"

lemma record_lookups:
  "jlookup (gst_Metadata (ParseTokenSaleToGenericSalesTimeSeries s)) ''blockchain'' = JStr (ts_Blockchain s)"
  "jlookup (gst_Metadata (ParseTokenSaleToGenericSalesTimeSeries s)) ''transactionIDs'' = JArr [JStr (ts_TxID s)]"
  "gst_Timestamp (ParseTokenSaleToGenericSalesTimeSeries s) = format_RFC3339Nano (ts_Timestamp s)"
  by (simp_all add: ParseTokenSaleToGenericSalesTimeSeries_def jlookup_def)

lemma bundle_ids_run:
  assumes "jlookup metadata ''blockchain'' = JStr (ts_Blockchain s)"
  shows "mapR (bundle_token_id metadata) (map token_info_json (ts_BundleTokenInfo s)) = Inr (bundle_index_ids s)"
proof -
  have "bundle_token_id metadata (token_info_json i) =
      Inr (ts_Blockchain s @ ''-'' @ tsi_ContractAddress i @ ''-'' @ tsi_TokenID i)" for i
    by (simp add: bundle_token_id_def token_info_json_def jlookup_def assms [unfolded jlookup_def])
  then have "mapR (bundle_token_id metadata) (map token_info_json is) =
      Inr (map (\<lambda>i. ts_Blockchain s @ ''-'' @ tsi_ContractAddress i @ ''-'' @ tsi_TokenID i) is)" for "is"
    by (induction "is") simp_all
  then show ?thesis unfolding bundle_index_ids_def by blast
qed

text \<open>The id of the record is made of the transaction and of the tokens of the bundle, in order.\<close>

lemma record_unique_id:
  "sale_unique_id X (gst_Metadata (ParseTokenSaleToGenericSalesTimeSeries s)) =
     Inr (x_sha1_hex X (ts_TxID s @ ''|'' @ join '','' (sort (bundle_index_ids s))))"
proof -
  let ?m = "gst_Metadata (ParseTokenSaleToGenericSalesTimeSeries s)"
  have ids: "mapR (bundle_token_id ?m) (map token_info_json (ts_BundleTokenInfo s)) = Inr (bundle_index_ids s)"
    by (rule bundle_ids_run) (rule record_lookups)
  have "sale_token_ids ?m ?m = Inr (bundle_index_ids s)"
    by (subst (2) ParseTokenSaleToGenericSalesTimeSeries_def) (simp add: reserved_def ids)
  then show ?thesis by (simp add: sale_unique_id_def sale_tx_ids_def record_lookups)
qed


text \<open>What a sale needs for that: a time of four-digit years, amounts of at most 34 digits, no address that is a reserved name.\<close>

definition writable :: "ext \<Rightarrow> TokenSale \<Rightarrow> bool" where
  "writable X s \<longleftrightarrow> 0 \<le> ts_Timestamp s \<and> ts_Timestamp s < 3652059 * 86400000
     \<and> list_all (\<lambda>v. x_ParseDecimal128 X v \<noteq> None)
         (''1'' # map (big_Text 10) ([ts_Price s, ts_PlatformFee s, ts_NetRevenue s, ts_PaymentAmount s] @ map snd (ts_Shares s)))
     \<and> list_all (\<lambda>a. \<not> reserved a) (map fst (ts_Shares s))"

lemma parse_amounts_Inr:
  "list_all (\<lambda>(k, v). \<not> reserved k \<and> x_ParseDecimal128 X v \<noteq> None) kvs \<Longrightarrow> ok (parse_amounts X kvs)"
  unfolding parse_amounts_def by (induction kvs) (auto simp: ok_iff)

lemma sale_entry_ok: "writable X s \<Longrightarrow> ok (sale_entry X (ParseTokenSaleToGenericSalesTimeSeries s))"
proof -
  let ?r = "ParseTokenSaleToGenericSalesTimeSeries s"
  assume w: "writable X s"
  then have "ok (parse_amounts X (gst_Values ?r))"
    by (intro parse_amounts_Inr) (simp add: writable_def ParseTokenSaleToGenericSalesTimeSeries_def reserved_def)
  moreover from w have "ok (parse_amounts X (gst_Shares ?r))"
    by (intro parse_amounts_Inr) (auto simp: writable_def ParseTokenSaleToGenericSalesTimeSeries_def list_all_iff)
  ultimately show ?thesis using w
    by (auto simp: sale_entry_def record_lookups parse_format_RFC3339Nano writable_def record_unique_id sale_doc_def ok_iff)
qed

lemma write_sale_ok:
  assumes "mongo_store st" and "writable X sale"
  shows "\<exists>s'. write_sale X st sale s = (Inr (), s') \<and> s' = snd (WriteTimeSeriesData X st [ParseTokenSaleToGenericSalesTimeSeries sale] s)"
proof -
  from sale_entry_ok [OF assms(2)] obtain e where "sale_entry X (ParseTokenSaleToGenericSalesTimeSeries sale) = Inr e"
    by (auto simp: ok_iff)
  then have "mapR (sale_entry X) [ParseTokenSaleToGenericSalesTimeSeries sale] = Inr [e]" by simp
  from mongo_store.WriteTimeSeriesData_run [OF assms(1) this, of s] show ?thesis
    unfolding write_sale_def ContextRegularActivity_def by (simp add: attempts_ok)
qed

section \<open>A sale is indexed once\<close>

lemma indexed_run:
  assumes "mongo_store st"
  shows "SaleTimeSeriesDataExists st tx b s = (Inr (fst (SaleTimeSeriesDataExists st tx b s) = Inr True), s)"
  by (simp add: SaleTimeSeriesDataExists_def act_simps
      mongo_collection.CountDocuments_law [OF mongo_store.sales_law [OF assms]])

lemma write_sale_exists:
  assumes "mongo_store st" and "write_sale X st sale s = (Inr (), s')"
  shows "SaleTimeSeriesDataExists st (ts_TxID sale) (ts_Blockchain sale) s' = (Inr True, s')"
proof -
  let ?r = "ParseTokenSaleToGenericSalesTimeSeries sale"
  from attempts_inv [OF assms(2) [unfolded write_sale_def ContextRegularActivity_def], of "\<lambda>_. True"]
  obtain t where t: "WriteTimeSeriesData X st [?r] t = (Inr (), s')" by blast
  have "ok (sale_entry X ?r)"
  proof (rule ccontr)
    assume "\<not> ok (sale_entry X ?r)"
    then obtain e where "sale_entry X ?r = Inl e" by (cases "sale_entry X ?r") auto
    from mongo_store.prepare_sales_append [OF assms(1) _ this, of "[]" "[]" "[]" t] t show False
      by (simp add: WriteTimeSeriesData_def act_simps)
  qed
  then obtain e where "sale_entry X ?r = Inr e" by (auto simp: ok_iff)
  then have "mapR (sale_entry X) [?r] = Inr [e]" by simp
  from sale_exists_after_write [OF assms(1) this _ _ record_lookups(1) record_lookups(2), where tx = "ts_TxID sale" and s = t] t
  have "fst (SaleTimeSeriesDataExists st (ts_TxID sale) (ts_Blockchain sale) s') = Inr True" by simp
  with indexed_run [OF assms(1), of "ts_TxID sale" "ts_Blockchain sale" s'] show ?thesis by simp
qed

lemma already_indexed_run:
  assumes "mongo_store st" and "SaleTimeSeriesDataExists st tx b s = (Inr True, s)"
  shows "already_indexed st tx b True s = (Inr True, s)"
  using assms(2) by (simp add: already_indexed_def ContextRegularActivity_def attempts_ok)

lemma already_indexed_keeps:
  assumes "mongo_store st" and "already_indexed st tx b skip s = (r, s')"
  shows "s' = s"
  using assms(2) indexed_run [OF assms(1), of tx b s]
  by (auto simp: already_indexed_def ContextRegularActivity_def retA_run attempts_ok split: if_splits)

lemma token_transfers_keeps:
  assumes "mongo_store st"
  shows "snd (token_transfers X st ls m s) = s"
  by (induction ls arbitrary: m)
    (auto simp: act_simps ContextRegularActivity_def attempts_ok [OF mongo_store.GetTokenByIndexID_run [OF assms]]
      split: sum.split option.split prod.split)

lemma ParseEthereumTokenSale_keeps:
  assumes "mongo_store st"
  shows "snd (ParseEthereumTokenSale X st V tx s) = s"
  using token_transfers_keeps [OF assms, of X]
  by (auto simp: ParseEthereumTokenSale_def act_simps Let_def split: sum.split option.split prod.split)
    (metis snd_conv)+

lemma IndexEthereumTokenSale_again:
  assumes "mongo_store st" and "x_EthereumBlockchain X = ''ethereum''"
    and "IndexEthereumTokenSale_workflow X st V tx True s = (Inr (), s')"
  shows "IndexEthereumTokenSale_workflow X st V tx True s' = (Inr (), s')"
proof -
  let ?b = "''ethereum''"
  obtain i where i: "already_indexed st tx ?b True s = (Inr i, s)"
    using indexed_run [OF assms(1), of tx ?b s]
    by (auto simp: already_indexed_def ContextRegularActivity_def attempts_ok)
  show ?thesis
  proof (cases i)
    case True
    with assms(2,3) i show ?thesis by (simp add: IndexEthereumTokenSale_workflow_def act_simps)
  next
    case False
    obtain r where r: "ParseEthereumTokenSale X st V tx s = (r, s)"
      using ParseEthereumTokenSale_keeps [OF assms(1), of X V tx s] by (cases "ParseEthereumTokenSale X st V tx s") auto
    show ?thesis
    proof (cases "\<exists>sale. r = Inr (Some sale)")
      case False
      with assms(2,3) i r show ?thesis
        by (auto simp: IndexEthereumTokenSale_workflow_def act_simps split: sum.splits option.splits if_splits)
    next
      case True
      then obtain sale where sale: "r = Inr (Some sale)" by blast
      with r have "ParseEthereumTokenSale X st V tx s = (Inr (Some sale), s)" by simp
      from ParseEthereumTokenSale_Some [OF this] eth_sale_Some
      have tx: "ts_TxID sale = tx" "ts_Blockchain sale = ?b" by blast+
      from assms(2,3) i \<open>\<not> i\<close> r sale have "write_sale X st sale s = (Inr (), s')"
        by (simp add: IndexEthereumTokenSale_workflow_def act_simps)
      from write_sale_exists [OF assms(1) this] tx have "SaleTimeSeriesDataExists st tx ?b s' = (Inr True, s')" by simp
      from already_indexed_run [OF assms(1) this] assms(2) show ?thesis
        by (simp add: IndexEthereumTokenSale_workflow_def act_simps)
    qed
  qed
qed

section \<open>The order of a map of parameters\<close>

definition permutes :: "value_order \<Rightarrow> bool" where
  "permutes ord \<longleftrightarrow> (\<forall>xs. mset (ord xs) = mset xs)"

lemma decode_param_swap: "decode_param [v, w] = Inr p \<Longrightarrow> decode_param [w, v] = Inr p"
  by (auto simp: decode_param_def parseArraryMapInterface_def text_or_def bindR_Inr_iff
      split: sum.splits option.splits prod.splits)
    (cases v; cases w; auto)+

lemma two_elements: "mset [a, b] = mset xs \<Longrightarrow> xs = [a, b] \<or> xs = [b, a]"
proof -
  assume m: "mset [a, b] = mset xs"
  then have "length xs = 2" using mset_eq_length by fastforce
  then obtain c d where "xs = [c, d]" by (cases xs; cases "tl xs") auto
  with m show ?thesis by (auto simp: add_eq_conv_ex)
qed

lemma decode_param_order:
  assumes "permutes ord" and "permutes ord'" and "decode_param (ord vs) = Inr p"
  shows "decode_param (ord' vs) = Inr p"
proof -
  from assms(3) obtain a b where ab: "ord vs = [a, b]"
    unfolding decode_param_def by (simp split: list.split_asm)
  from assms(1,2) ab have "mset [a, b] = mset (ord' vs)" unfolding permutes_def by metis
  from two_elements [OF this] assms(3) ab decode_param_swap [of a b p] show ?thesis by auto
qed

lemma mapR_cong_Inr: "(\<And>x y. f x = Inr y \<Longrightarrow> g x = Inr y) \<Longrightarrow> mapR f xs = Inr ys \<Longrightarrow> mapR g xs = Inr ys"
  by (induction xs arbitrary: ys) (auto simp: bindR_Inr_iff)

lemma decodeParametersValue_order:
  assumes "permutes ord" and "permutes ord'"
  shows "decodeParametersValue ord v = Inr ps \<Longrightarrow> decodeParametersValue ord' v = Inr ps"
proof -
  have param: "decode_param (ord (map snd x)) = Inr y \<Longrightarrow> decode_param (ord' (map snd x)) = Inr y" for x y
    by (rule decode_param_order [OF assms])
  assume "decodeParametersValue ord v = Inr ps"
  then obtain ms where "parseArraryMapInterface v = Inr ms" "mapR (\<lambda>x. decode_param (ord (map snd x))) ms = Inr ps"
    unfolding decodeParametersValue_def bindR_Inr_iff by blast
  with mapR_cong_Inr [of "\<lambda>x. decode_param (ord (map snd x))" "\<lambda>x. decode_param (ord' (map snd x))", OF param]
  show ?thesis by (simp add: decodeParametersValue_def)
qed

lemma objkt_operations_order:
  assumes "permutes ord" and "permutes ord'"
  shows "objkt_operations ord wallets txs acc = objkt_operations ord' wallets txs acc"
proof -
  have same: "(\<exists>ps. decodeParametersValue ord v = Inr ps \<and> decodeParametersValue ord' v = Inr ps) \<or>
      (\<exists>e e'. decodeParametersValue ord v = Inl e \<and> decodeParametersValue ord' v = Inl e')" for v
    using decodeParametersValue_order [OF assms, of v] decodeParametersValue_order [OF assms(2,1), of v]
    by (cases "decodeParametersValue ord v"; cases "decodeParametersValue ord' v") simp_all
  show ?thesis
  proof (induction txs arbitrary: acc)
    case (Cons tx txs)
    obtain v b a where acc: "acc = (v, b, a)" by (cases acc)
    show ?case
    proof (cases "dtx_Parameter tx")
      case None
      then show ?thesis by (simp add: acc Cons)
    next
      case (Some p)
      obtain entrypoint val where "p = (entrypoint, val)" by fastforce
      with Some same [of val] show ?thesis by (auto simp: acc Cons)
    qed
  qed simp
qed

section \<open>The accounting of an objkt sale\<close>

lemma objkt_operations_balanced:
  "objkt_operations ord wallets txs (v, b, a) = Inr (Some (v', b', a')) \<Longrightarrow> balanced a \<Longrightarrow> balanced a'"
  by (induction txs arbitrary: v b a)
    (auto split: if_splits option.splits prod.splits sum.splits intro: balanced_accumulate)

lemma ParseTezosObjktTokenSale_Some:
  assumes "ParseTezosObjktTokenSale ord wallets get hash = Inr (Some s)"
  shows "sale_balances s \<and> ts_TxID s = hash \<and> ts_BundleTokenInfo s \<noteq> []"
proof -
  from assms obtain txs r where ops: "objkt_operations ord wallets txs (False, [], no_amounts) = Inr r"
    and rest: "(case r of None \<Rightarrow> Inr None
         | Some (valid, bundle, a) \<Rightarrow>
             if \<not> valid then Inl (Errorf ''invalid objkt tx'')
             else if bundle = [] then Inl (Errorf ''invalid sale transaction - no tokens transfer'')
             else Inr (Some (token_sale_of (dtx_Timestamp (hd txs)) ''Objkt'' ''tezos'' ''XTZ'' hash bundle a))) = Inr (Some s)"
    unfolding ParseTezosObjktTokenSale_def bindR_Inr_iff by (metis (no_types, lifting) Inl_Inr_False bindR_Inr_iff)
  from rest obtain v b a where "r = Some (v, b, a)" and "b \<noteq> []"
    and s: "s = token_sale_of (dtx_Timestamp (hd txs)) ''Objkt'' ''tezos'' ''XTZ'' hash b a"
    by (auto split: option.split_asm prod.split_asm if_split_asm)
  with ops have "objkt_operations ord wallets txs (False, [], no_amounts) = Inr (Some (v, b, a))" by simp
  then have "balanced a" by (rule objkt_operations_balanced) simp
  with s \<open>b \<noteq> []\<close> show ?thesis by (simp add: sale_balances_of) (simp add: token_sale_of_def)
qed

section \<open>Instances\<close>

definition sample_range_env :: range_env where
  "sample_range_env =
     \<lparr>rv_FilterLogs = (\<lambda>addresses a b. Inr (filter (\<lambda>l. a \<le> log_BlockNumber l \<and> log_BlockNumber l \<le> b) [sample_transfer])),
      rv_map_order = rev, rv_child_order = rev\<rparr>"

lemma sample_serves: "serves_logs sample_range_env addresses [sample_transfer]"
  using reversed.child_order_axioms by (simp add: serves_logs_def sample_range_env_def)

lemma sample_token_log: "token_log sample_transfer"
  by (simp add: token_log_def sample_transfer_kinds)

lemma sample_writable: "writable sample_ext sample_token_sale"
proof -
  have "x_ParseDecimal128 sample_ext (big_Text 10 n) \<noteq> None" if "0 \<le> n" for n
    using that big_SetString_Text [of 10 n] by (simp add: sample_ext_def)
  moreover have "x_ParseDecimal128 sample_ext ''1'' \<noteq> None"
    by (simp add: sample_ext_def big_SetString_def parse_nat_def digit_val_def)
  moreover have "\<not> reserved sample_seller" "\<not> reserved sample_fee"
    by (auto simp: reserved_def sample_seller_def sample_fee_def numeral_eq_Suc)
  ultimately show ?thesis by (simp add: writable_def sample_token_sale_def time_of_Unix_def unix_epoch_def)
qed

lemma sample_index:
  "\<exists>s'. IndexEthereumTokenSale_workflow sample_ext (mem_store []) sample_sale_env ''0xt'' True sample_sale_db = (Inr (), s')"
proof -
  from write_sale_ok [OF mem_store_lawful sample_writable, of "[]" sample_sale_db] obtain s' where
    "write_sale sample_ext (mem_store []) sample_token_sale sample_sale_db = (Inr (), s')" by blast
  moreover have "SaleTimeSeriesDataExists (mem_store []) ''0xt'' b sample_sale_db = (Inr False, sample_sale_db)" for b
    by (simp add: SaleTimeSeriesDataExists_def act_simps
        mongo_collection.CountDocuments_law [OF mongo_store.sales_law [OF mem_store_lawful]])
      (simp add: sample_sale_db_def empty_db_def)
  then have "already_indexed (mem_store []) ''0xt'' b True sample_sale_db = (Inr False, sample_sale_db)" for b
    unfolding already_indexed_def ContextRegularActivity_def by (simp add: attempts_ok)
  ultimately show ?thesis
    by (simp add: IndexEthereumTokenSale_workflow_def act_simps sample_parse)
qed

lemma sample_range_runs:
  "\<exists>s'. block_range_runs 3 sample_ext (mem_store []) sample_sale_env sample_range_env 0 2 1 [] sample_sale_db = Some (Inr (), s')"
proof -
  let ?I = "IndexEthereumTokenSale_workflow sample_ext (mem_store []) sample_sale_env ''0xt'' True"
  from sample_index obtain s' where first: "?I sample_sale_db = (Inr (), s')" by blast
  have again: "?I s' = (Inr (), s')"
    by (rule IndexEthereumTokenSale_again [OF mem_store_lawful _ first]) (simp add: sample_ext_def)
  have txs: "FilterEthereumNFTTxByEventLogs sample_range_env [] a b = Inr [''0xt'']" if "a \<le> 1" "1 \<le> b" for a b
  proof -
    have "log_BlockNumber sample_transfer = 1" "log_TxHash sample_transfer = ''0xt''" by (simp_all add: sample_transfer_def)
    with that show ?thesis by (simp add: FilterEthereumNFTTxByEventLogs_def sample_range_env_def sample_transfer_kinds)
  qed
  have order: "rv_child_order sample_range_env = rev" by (simp add: sample_range_env_def)
  have child: "run_children rev (\<lambda>tx. IndexEthereumTokenSale_workflow sample_ext (mem_store []) sample_sale_env tx True) [''0xt''] s =
      (Inr (), t)" if "?I s = (Inr (), t)" for s t
    using that by (simp add: run_children_def act_simps)
  show ?thesis
    by (simp add: numeral_eq_Suc IndexEthereumTokenSaleInBlockRange_workflow_def Let_def range_end_def u64_id txs act_simps
        child [OF first] child [OF again] order)
qed

section \<open>Properties\<close>

text \<open>
  Indexing the sales of a range of blocks ends: whatever the chain and the database answer, with a batch of at
  least one block, as many runs as the range has blocks are enough (an error ends it as well).
\<close>

theorem block_range_ends:
  assumes "0 < batch" and "toBlk + batch < 2 ^ 64" and "0 \<le> fromBlk" and "nat (toBlk - fromBlk) < fuel"
  shows "block_range_runs fuel X st V R fromBlk toBlk batch addresses s \<noteq> None"
  by (rule block_range_runs_end [OF assms])

theorem block_range_ends_witness:
  "block_range_runs 3 sample_ext (mem_store []) sample_sale_env sample_range_env 0 2 1 [] sample_sale_db \<noteq> None"
  by (rule block_range_ends) simp_all

text \<open>
  C22: When it ends without an error, the effect is that of indexing, one after the other and each with success, the
  transactions of exactly the single-token transfers of the blocks of the range, those of the first and of the last
  block included; whatever the size of the batches and the order of the maps and of the child workflows.
\<close>

theorem block_range_indexes_every_tx:
  assumes "serves_logs R addresses chain" and "0 < batch" and "toBlk + batch < 2 ^ 64"
    and "0 \<le> fromBlk" and "fromBlk \<le> toBlk"
    and "block_range_runs fuel X st V R fromBlk toBlk batch addresses s = Some (Inr (), s')"
  shows "\<exists>txs. set txs = log_TxHash ` {l \<in> set chain. token_log l \<and> fromBlk \<le> log_BlockNumber l \<and> log_BlockNumber l \<le> toBlk}
    \<and> forA (\<lambda>tx. IndexEthereumTokenSale_workflow X st V tx True) txs s = (Inr (), s')"
  using block_range_runs_all [OF assms] by (simp add: sale_txs_def all_ran_forA)

theorem block_range_indexes_every_tx_witness:
  "\<exists>txs s'. set txs = {''0xt''} \<and>
     forA (\<lambda>tx. IndexEthereumTokenSale_workflow sample_ext (mem_store []) sample_sale_env tx True) txs sample_sale_db = (Inr (), s')"
proof -
  from sample_range_runs obtain s' where
    run: "block_range_runs 3 sample_ext (mem_store []) sample_sale_env sample_range_env 0 2 1 [] sample_sale_db = Some (Inr (), s')" by blast
  have "{l \<in> set [sample_transfer]. token_log l \<and> 0 \<le> log_BlockNumber l \<and> log_BlockNumber l \<le> 2} = {sample_transfer}"
    using sample_token_log by (auto simp: sample_transfer_def)
  moreover have "log_TxHash sample_transfer = ''0xt''" by (simp add: sample_transfer_def)
  ultimately show ?thesis
    using block_range_indexes_every_tx [OF sample_serves _ _ _ _ run] by auto
qed

text \<open>
  A batch of no blocks never gets anywhere: every run indexes the first block again and continues as itself.
\<close>

theorem block_range_batch_zero:
  assumes "0 \<le> fromBlk" and "fromBlk < toBlk" and "toBlk < 2 ^ 64"
  shows "block_range_runs fuel X st V R fromBlk toBlk 0 addresses s \<noteq> Some (Inr (), s')"
  by (rule block_range_runs_batch_0 [OF assms])

theorem block_range_batch_zero_witness:
  "block_range_runs 100 sample_ext (mem_store []) sample_sale_env sample_range_env 0 2 0 [] sample_sale_db \<noteq>
     Some (Inr (), sample_sale_db)"
  by (rule block_range_batch_zero) simp_all

text \<open>
  C30: Indexing the sale of a transaction again, as every range that begins with the last block of the one before
  does, changes nothing: the first run has either found no sale or left the record that the second one finds.
\<close>

theorem sale_indexed_once:
  assumes "mongo_store st" and "x_EthereumBlockchain X = ''ethereum''"
    and "IndexEthereumTokenSale_workflow X st V tx True s = (Inr (), s')"
  shows "IndexEthereumTokenSale_workflow X st V tx True s' = (Inr (), s')"
  by (rule IndexEthereumTokenSale_again [OF assms])

theorem sale_indexed_once_witness:
  "\<exists>s'. IndexEthereumTokenSale_workflow sample_ext (mem_store []) sample_sale_env ''0xt'' True s' = (Inr (), s')"
proof -
  from sample_index obtain s' where "IndexEthereumTokenSale_workflow sample_ext (mem_store []) sample_sale_env ''0xt'' True sample_sale_db = (Inr (), s')"
    by blast
  from sale_indexed_once [OF mem_store_lawful _ this] show ?thesis by (auto simp: sample_ext_def)
qed

text \<open>
  What is parsed from an objkt transaction does not depend on the order in which Go iterates over the maps of its
  parameters, although the code takes their values by position.
\<close>

theorem objkt_sale_any_map_order:
  assumes "permutes ord" and "permutes ord'"
  shows "ParseTezosObjktTokenSale ord wallets get hash = ParseTezosObjktTokenSale ord' wallets get hash"
  unfolding ParseTezosObjktTokenSale_def objkt_operations_order [OF assms] ..

theorem objkt_sale_any_map_order_witness:
  "ParseTezosObjktTokenSale rev [] (\<lambda>h. Inr []) ''op'' = ParseTezosObjktTokenSale (\<lambda>vs. vs) [] (\<lambda>h. Inr []) ''op''"
  by (rule objkt_sale_any_map_order) (simp_all add: permutes_def)

end
