(* ===== verification/Etherscan.thy ===== *)
theory Etherscan
  imports SaleParser
begin

text \<open>
  The client of Etherscan (\<open>externals/etherscan\<close>) and the query parameters of \<open>utils.go\<close> it uses: how a request is
  built, how an answer is read, and the internal transactions of a transaction. The exchange with the server is a
  parameter that gives the decoded JSON of the body.
\<close>

section \<open>Query parameters\<close>

text \<open>A field of a struct: a value as \<open>fmt\<close> prints it (that of a pointer is printed), or a list of them.\<close>

datatype param_value = Scalar string | Items "param_value list"

definition trim_suffix :: "string \<Rightarrow> string \<Rightarrow> string" where
  "trim_suffix suffix s = (if has_prefix (rev suffix) (rev s) then take (length s - length suffix) s else s)"

definition escape_plus :: "string \<Rightarrow> string" where
  "escape_plus s = concat (map (\<lambda>c. if c = CHR ''+'' then ''%2B'' else [c]) s)"

fun getQueryParams :: "(string \<Rightarrow> string) \<Rightarrow> string \<Rightarrow> param_value \<Rightarrow> string" where
  "getQueryParams PathEscape key (Scalar v) =
     trim_suffix ''&'' (escape_plus (PathEscape key @ ''='' @ PathEscape v))"
| "getQueryParams PathEscape key (Items vs) =
     trim_suffix ''&'' (escape_plus (concat (map (\<lambda>v. getQueryParams PathEscape (PathEscape key) v @ ''&'') vs)))"

type_synonym fields = "(string \<times> param_value) list"

text \<open>The fields in the order \<open>ord\<close> in which the Go map is iterated.\<close>

definition BuildQueryParams :: "(string \<Rightarrow> string) \<Rightarrow> (fields \<Rightarrow> fields) \<Rightarrow> fields \<Rightarrow> string" where
  "BuildQueryParams PathEscape ord params =
     trim_suffix ''&'' (concat (map (\<lambda>(k, v). getQueryParams PathEscape k v @ ''&'') (ord params)))"

section \<open>Requests\<close>

text \<open>\<open>req_Do\<close> sends a method and an address, without a body: nothing in the program sends one.\<close>

record Requester =
  req_baseURL :: string
  req_apiKey :: string
  req_PathEscape :: "string \<Rightarrow> string"
  req_map_order :: "fields \<Rightarrow> fields"
  req_Do :: "string \<Rightarrow> string \<Rightarrow> json res"

record Response =
  rsp_Status :: string
  rsp_Message :: string
  rsp_Result :: json

text \<open>A JSON value read into a Go string, and the members of an object read into a struct: \<open>null\<close> leaves them zero.\<close>

definition decode_string :: "json \<Rightarrow> string res" where
  "decode_string v = (case v of JNull \<Rightarrow> Inr [] | JStr s \<Rightarrow> Inr s | _ \<Rightarrow> Inl (Errorf ''json: cannot unmarshal''))"

definition decode_struct :: "json \<Rightarrow> (string \<times> json) list res" where
  "decode_struct v = (case v of JNull \<Rightarrow> Inr [] | JObj m \<Rightarrow> Inr m | _ \<Rightarrow> Inl (Errorf ''json: cannot unmarshal''))"

definition decode_array :: "json \<Rightarrow> json list res" where
  "decode_array v = (case v of JNull \<Rightarrow> Inr [] | JArr xs \<Rightarrow> Inr xs | _ \<Rightarrow> Inl (Errorf ''json: cannot unmarshal''))"

definition decode_Response :: "json \<Rightarrow> Response res" where
  "decode_Response v =
     bindR (decode_struct v) (\<lambda>m.
     bindR (decode_string (jlookup m ''status'')) (\<lambda>status.
     bindR (decode_string (jlookup m ''message'')) (\<lambda>message.
       Inr \<lparr>rsp_Status = status, rsp_Message = message, rsp_Result = jlookup m ''result''\<rparr>)))"

definition request_url :: "Requester \<Rightarrow> string \<Rightarrow> fields \<Rightarrow> string" where
  "request_url r module query =
     req_baseURL r @ ''?module='' @ module @ ''&apikey='' @ req_apiKey r @
     ''&'' @ BuildQueryParams (req_PathEscape r) (req_map_order r) query"

definition read_response :: "json \<Rightarrow> json res" where
  "read_response body =
     bindR (decode_Response body) (\<lambda>res.
       if rsp_Status res = ''1'' then Inr (rsp_Result res)
       else if rsp_Status res = ''0'' then
         Inl (Errorf (case decode_string (rsp_Result res) of Inr errMessage \<Rightarrow> errMessage | Inl _ \<Rightarrow> rsp_Message res))
       else Inl (Errorf ''unexpected error happened''))"

definition request :: "Requester \<Rightarrow> string \<Rightarrow> string \<Rightarrow> fields \<Rightarrow> json res" where
  "request r method module query = bindR (req_Do r method (request_url r module query)) read_response"

section \<open>Internal transactions\<close>

record TransactionQueryParams =
  tq_Action :: string
  tq_Address :: "string option"
  tq_TxHash :: "string option"
  tq_StartBlock :: "int option"
  tq_EndBlock :: "int option"
  tq_Page :: "int option"
  tq_Offset :: "int option"
  tq_Sort :: "string option"

text \<open>Without the fields that are nil.\<close>

definition query_fields :: "TransactionQueryParams \<Rightarrow> fields" where
  "query_fields q =
     (let s = (\<lambda>k v. case v of None \<Rightarrow> [] | Some x \<Rightarrow> [(k, Scalar x)]);
          n = (\<lambda>k v. case v of None \<Rightarrow> [] | Some x \<Rightarrow> [(k, Scalar (big_Text 10 x))])
      in (''action'', Scalar (tq_Action q)) # s ''address'' (tq_Address q) @ s ''txhash'' (tq_TxHash q) @
         n ''startblock'' (tq_StartBlock q) @ n ''endblock'' (tq_EndBlock q) @ n ''page'' (tq_Page q) @
         n ''offset'' (tq_Offset q) @ s ''sort'' (tq_Sort q))"

text \<open>Of a transaction, the members the program reads.\<close>

definition decode_transaction :: "json \<Rightarrow> etherscan_tx res" where
  "decode_transaction v =
     bindR (decode_struct v) (\<lambda>m.
     bindR (decode_string (jlookup m ''from'')) (\<lambda>f.
     bindR (decode_string (jlookup m ''to'')) (\<lambda>t.
     bindR (decode_string (jlookup m ''value'')) (\<lambda>w.
       Inr \<lparr>es_From = f, es_To = t, es_Value = w\<rparr>))))"

definition errNoTxFound :: goerr where
  "errNoTxFound = Errorf ''no transactions found''"

definition ListInternalTxs :: "Requester \<Rightarrow> TransactionQueryParams \<Rightarrow> etherscan_tx list res" where
  "ListInternalTxs r query =
     (case bindR (request r ''GET'' ''account'' (query_fields (query\<lparr>tq_Action := ''txlistinternal''\<rparr>)))
             (\<lambda>result. bindR (decode_array result) (mapR decode_transaction)) of
        Inl err \<Rightarrow> if err = errNoTxFound then Inr [] else Inl err
      | Inr res \<Rightarrow> Inr res)"

text \<open>\<open>GetEthereumInternalTxs\<close> of the worker.\<close>

definition GetEthereumInternalTxs :: "Requester \<Rightarrow> string \<Rightarrow> etherscan_tx list res" where
  "GetEthereumInternalTxs r txID =
     ListInternalTxs r \<lparr>tq_Action = [], tq_Address = None, tq_TxHash = Some txID, tq_StartBlock = None, tq_EndBlock = None,
       tq_Page = None, tq_Offset = None, tq_Sort = None\<rparr>"

section \<open>Properties\<close>

definition sample_requester :: "json \<Rightarrow> Requester" where
  "sample_requester answer =
     \<lparr>req_baseURL = ''https://api'', req_apiKey = ''k'', req_PathEscape = (\<lambda>s. s), req_map_order = rev,
      req_Do = (\<lambda>m u. Inr answer)\<rparr>"

text \<open>The answer Etherscan documents for a transaction without internal transactions.\<close>

definition no_txs_answer :: json where
  "no_txs_answer = JObj [(''status'', JStr ''0''), (''message'', JStr ''No transactions found''), (''result'', JArr [])]"

lemma no_txs_is_error:
  assumes "\<And>u. req_Do r ''GET'' u = Inr no_txs_answer"
  shows "GetEthereumInternalTxs r txID = Inl (Errorf ''No transactions found'')"
  by (simp add: GetEthereumInternalTxs_def ListInternalTxs_def request_def assms read_response_def decode_Response_def
      no_txs_answer_def decode_struct_def decode_string_def jlookup_def errNoTxFound_def)

text \<open>
  The code looks for Etherscan's message without its capital letter, so that no internal transactions are an
  error: then a sale that is paid in ERC-20 tokens alone cannot be read, whatever its payments are.
\<close>

theorem no_internal_txs_no_sale:
  assumes "\<And>u. req_Do r ''GET'' u = Inr no_txs_answer" and "sv_InternalTxs V = GetEthereumInternalTxs r"
  shows "\<not> ok (eth_payments X V txID currency erc20Transfers)"
  by (auto simp: eth_payments_def assms(2) no_txs_is_error [OF assms(1)] split: prod.split)

theorem no_internal_txs_no_sale_witness:
  "\<not> ok (eth_payments sample_ext (sample_sale_env\<lparr>sv_erc20 := [(''0xweth'', ''WETH'')],
       sv_InternalTxs := GetEthereumInternalTxs (sample_requester no_txs_answer)\<rparr>) ''0xt'' []
     [(''0xweth'', [sample_transfer])])"
  by (rule no_internal_txs_no_sale [of "sample_requester no_txs_answer"]) (simp_all add: sample_requester_def)

lemma decode_transactions:
  "mapR decode_transaction (map (\<lambda>t. JObj [(''from'', JStr (es_From t)), (''to'', JStr (es_To t)), (''value'', JStr (es_Value t))]) ts)
     = Inr ts"
  by (induction ts) (simp_all add: decode_transaction_def decode_struct_def decode_string_def jlookup_def)

text \<open>An answer with transactions is read in order, whatever order the parameters of the request have.\<close>

theorem internal_txs_read:
  assumes "\<And>u. req_Do r ''GET'' u = Inr (JObj [(''status'', JStr ''1''), (''message'', JStr ''OK''), (''result'',
     JArr (map (\<lambda>t. JObj [(''from'', JStr (es_From t)), (''to'', JStr (es_To t)), (''value'', JStr (es_Value t))]) ts))])"
  shows "GetEthereumInternalTxs r txID = Inr ts"
  by (simp add: GetEthereumInternalTxs_def ListInternalTxs_def request_def assms read_response_def decode_Response_def
      decode_struct_def decode_string_def jlookup_def decode_array_def decode_transactions)

theorem internal_txs_read_witness:
  "GetEthereumInternalTxs (sample_requester (JObj [(''status'', JStr ''1''), (''message'', JStr ''OK''), (''result'',
     JArr [JObj [(''from'', JStr ''0x1''), (''to'', JStr ''0x2''), (''value'', JStr ''5'')]])])) ''0xt'' =
   Inr [\<lparr>es_From = ''0x1'', es_To = ''0x2'', es_Value = ''5''\<rparr>]"
  by (rule internal_txs_read) (simp add: sample_requester_def)

end
