(* ===== verification/Worker.thy ===== *)
theory Worker
  imports EngineTezos SaleIndexer Etherscan
begin

text \<open>
  The activities of the worker that index tokens, their provenance and their owners (\<open>activities.go\<close>), and the
  workflows made of them (\<open>workflows_indexer.go\<close>, \<open>workflows_provenance.go\<close>). The state is the database, the cache of
  block times and the workflows that were started. Times are in milliseconds; the clock stands still during an
  activity. An activity that does not end within its time is one that fails.
\<close>

section \<open>The worker\<close>

record worker =
  wk_ext :: ext
  wk_store :: store
  wk_engine :: engine
  wk_cadence :: cadence_client
  wk_Environment :: string
  wk_bitmarkZeroAddress :: string
  wk_GetBitmarkFullProvenance :: "string \<Rightarrow> json res"
  wk_BlockDump :: "int \<Rightarrow> json res"
  wk_FilterTransferLogs :: "string \<Rightarrow> string \<Rightarrow> eth_log list res"
  wk_BlockByHash :: "string \<Rightarrow> int res"
  wk_cacheStore :: "cache_entry coll"
  wk_value_order :: value_order
  wk_fuel :: nat

definition New_worker :: "string \<Rightarrow> worker \<Rightarrow> worker" where
  "New_worker environment W =
     W\<lparr>wk_Environment := environment,
       wk_bitmarkZeroAddress := (if environment = DevelopmentEnvironment then TestnetZeroAddress else LivenetZeroAddress)\<rparr>"

text \<open>The first token of an update.\<close>

definition first_token :: "AssetUpdates \<Rightarrow> Token res" where
  "first_token u = (case au_Tokens u of [] \<Rightarrow> Inl index_panic | t # _ \<Rightarrow> Inr t)"

text \<open>A loop of requests that is cut off by the time limit of the activity.\<close>

definition within_time :: "'a res option \<Rightarrow> 'a res" where
  "within_time r = (case r of None \<Rightarrow> Inl (Errorf ''activity timeout'') | Some x \<Rightarrow> x)"

section \<open>Tokens of an owner\<close>

definition account_token_of :: "string \<Rightarrow> int \<Rightarrow> Token \<Rightarrow> AccountToken" where
  "account_token_of owner balance t =
     \<lparr>at_Base = tok_Base t, at_IndexID = tok_IndexID t, at_OwnerAccount = owner, at_Balance = balance,
      at_LastActivityTime = tok_LastActivityTime t, at_LastRefreshedTime = tok_LastRefreshedTime t,
      at_LastPendingTime = [], at_PendingTxs = []\<rparr>"

text \<open>The loop over the updates, which saves each asset and collects the account tokens.\<close>

fun index_updates :: "worker \<Rightarrow> gotime \<Rightarrow> AssetUpdates list \<Rightarrow> (db, AccountToken list) act" where
  "index_updates W now [] = retA []"
| "index_updates W now (update # updates) =
     bindA (IndexAsset (wk_ext W) (wk_store W) now (au_ID update) update) (\<lambda>_.
     bindA (liftR (first_token update)) (\<lambda>t.
     bindA (index_updates W now updates) (\<lambda>accountTokens.
       retA (account_token_of (tok_Owner t) (tok_Balance t) t # accountTokens))))"

definition IndexETHTokenByOwner_activity :: "worker \<Rightarrow> gotime \<Rightarrow> string \<Rightarrow> string \<Rightarrow> (db, string) act" where
  "IndexETHTokenByOwner_activity W now owner next =
     bindA (liftR (IndexETHTokenByOwner (wk_ext W) (wk_engine W) now owner next)) (\<lambda>(updates, next).
       if updates = [] then retA []
       else bindA (index_updates W now updates) (\<lambda>accountTokens.
            bindA (IndexAccountTokens (wk_store W) owner accountTokens) (\<lambda>_.
              retA next)))"

definition indexTezosAccount :: "worker \<Rightarrow> gotime \<Rightarrow> string \<Rightarrow> gotime \<Rightarrow> (db, unit) act" where
  "indexTezosAccount W now owner lastActivityTime =
     IndexAccount (wk_store W) now
       \<lparr>acc_Account = owner, acc_Blockchain = ''tezos'', acc_LastUpdatedTime = now, acc_LastActivityTime = lastActivityTime\<rparr>"

definition IndexTezosTokenByOwner_activity :: "worker \<Rightarrow> gotime \<Rightarrow> string \<Rightarrow> bool \<Rightarrow> (db, bool) act" where
  "IndexTezosTokenByOwner_activity W now owner isFirstPage =
     bindA (GetAccount (wk_store W) owner) (\<lambda>account.
       if isFirstPage \<and> time_Unix (acc_LastUpdatedTime account) > time_Unix (now - 60000) then retA False
       else bindA (liftR (IndexTezosTokenByOwner (wk_ext W) (wk_engine W) now owner (acc_LastActivityTime account) 0))
              (\<lambda>(updates, newLastTime).
                if updates = [] then retA False
                else bindA (index_updates W now updates) (\<lambda>accountTokens.
                     bindA (indexTezosAccount W now owner newLastTime) (\<lambda>_.
                     bindA (IndexAccountTokens (wk_store W) owner accountTokens) (\<lambda>_.
                       retA True)))))"

section \<open>Provenance\<close>

definition block_timestamp :: "json \<Rightarrow> int res" where
  "block_timestamp blockResp =
     bindR (decode_struct blockResp) (\<lambda>d.
     bindR (decode_struct (jlookup d ''block'')) (\<lambda>b.
     bindR (decode_struct (jlookup b ''header'')) (\<lambda>h.
     bindR (decode_string (jlookup h ''timestamp'')) (\<lambda>s.
       case parse_int64 s of None \<Rightarrow> Inl (Errorf ''failed to parse timestamp'') | Some n \<Rightarrow> Inr n))))"

definition bitmark_provenance :: "worker \<Rightarrow> json \<Rightarrow> Provenance res" where
  "bitmark_provenance W d =
     bindR (decode_struct d) (\<lambda>p.
     bindR (decode_string (jlookup p ''record'')) (\<lambda>pRecord.
     bindR (decode_string (jlookup p ''txId'')) (\<lambda>pTxID.
     bindR (decode_string (jlookup p ''inBlock'')) (\<lambda>pBlock.
     bindR (decode_struct (jlookup p ''data'')) (\<lambda>pData.
       case as_string (jlookup pData ''owner'') of
         None \<Rightarrow> Inl (Errorf ''owner is not a string in provenance data'')
       | Some owner \<Rightarrow>
           let txType = (if pRecord = ''BitmarkIssue'' then ''issue''
                         else if owner = wk_bitmarkZeroAddress W then ''burn'' else ''transfer'')
           in case parse_uint64 pBlock of
                None \<Rightarrow> Inl (Errorf ''failed to parse block height'')
              | Some blockHeight \<Rightarrow>
                  bindR (wk_BlockDump W blockHeight) (\<lambda>blockResp.
                  bindR (block_timestamp blockResp) (\<lambda>timestamp.
                    Inr \<lparr>prov_FormerOwner = None, prov_Type = txType, prov_Owner = owner,
                         prov_Blockchain = x_BitmarkBlockchain (wk_ext W), prov_BlockNumber = Some blockHeight,
                         prov_Timestamp = time_of_Unix timestamp, prov_TxID = pTxID,
                         prov_TxURL = TxURL (wk_ext W) (x_BitmarkBlockchain (wk_ext W)) (wk_Environment W) pTxID\<rparr>)))))))"

text \<open>The last item of the answer is the asset.\<close>

definition fetchBitmarkProvenance :: "worker \<Rightarrow> string \<Rightarrow> Provenance list res" where
  "fetchBitmarkProvenance W bitmarkID =
     bindR (wk_GetBitmarkFullProvenance W bitmarkID) (\<lambda>provenanceResp.
     bindR (decode_struct provenanceResp) (\<lambda>m.
     bindR (decode_array (jlookup m ''data'')) (\<lambda>data.
       if data = [] then Inl (Errorf ''no provenance data found for bitmark ID'')
       else mapR (bitmark_provenance W) (butlast data))))"

definition topic_at :: "eth_log \<Rightarrow> nat \<Rightarrow> string res" where
  "topic_at l i = (if i < length (log_Topics l) then Inr (log_Topics l ! i) else Inl index_panic)"

fun eth_provenances :: "worker \<Rightarrow> eth_log list \<Rightarrow> (cache_entry list, Provenance list) act" where
  "eth_provenances W [] = retA []"
| "eth_provenances W (l # ls) =
     bindA (liftR (topic_at l 1)) (\<lambda>fromAccountHash.
     bindA (liftR (topic_at l 2)) (\<lambda>toAccountHash.
     bindA (GetETHBlockTime (wk_cacheStore W) (wk_BlockByHash W) (log_BlockHash l)) (\<lambda>txTime.
     bindA (eth_provenances W ls) (\<lambda>ps.
       retA (\<lparr>prov_FormerOwner = None,
              prov_Type = (if x_hash_Big (wk_ext W) fromAccountHash = 0 then ''mint'' else ''transfer''),
              prov_Owner = EthereumChecksumAddress (wk_ext W) toAccountHash,
              prov_Blockchain = x_EthereumBlockchain (wk_ext W), prov_BlockNumber = Some (log_BlockNumber l),
              prov_Timestamp = txTime, prov_TxID = log_TxHash l,
              prov_TxURL = TxURL (wk_ext W) (x_EthereumBlockchain (wk_ext W)) (wk_Environment W) (log_TxHash l)\<rparr> # ps)))))"

definition fetchEthereumProvenance :: "worker \<Rightarrow> string \<Rightarrow> string \<Rightarrow> (cache_entry list, Provenance list) act" where
  "fetchEthereumProvenance W tokenID contractAddress =
     bindA (liftR (OpenseaTokenIDToHex tokenID)) (\<lambda>hexID.
     bindA (liftR (wk_FilterTransferLogs W (x_HexToAddressHex (wk_ext W) contractAddress) hexID)) (\<lambda>transferLogs.
       eth_provenances W (rev transferLogs)))"

definition fetchTezosProvenance :: "worker \<Rightarrow> string \<Rightarrow> string \<Rightarrow> Provenance list res" where
  "fetchTezosProvenance W tokenID contractAddress =
     IndexTezosTokenProvenance (wk_ext W) (wk_engine W) contractAddress tokenID"

text \<open>The records of one blockchain; none of an unknown one.\<close>

definition chain_provenance :: "worker \<Rightarrow> BaseTokenInfo \<Rightarrow> (cache_entry list, Provenance list) act" where
  "chain_provenance W info =
     (let b = base_Blockchain info
      in if b = x_BitmarkBlockchain (wk_ext W) then liftR (fetchBitmarkProvenance W (base_ID info))
         else if b = x_EthereumBlockchain (wk_ext W)
              then fetchEthereumProvenance W (base_ID info) (base_ContractAddress info)
         else if b = x_TezosBlockchain (wk_ext W)
              then liftR (fetchTezosProvenance W (base_ID info) (base_ContractAddress info))
         else retA [])"

fun chain_provenances :: "worker \<Rightarrow> BaseTokenInfo list \<Rightarrow> (cache_entry list, Provenance list) act" where
  "chain_provenances W [] = retA []"
| "chain_provenances W (info # infos) =
     bindA (chain_provenance W info) (\<lambda>ps. bindA (chain_provenances W infos) (\<lambda>qs. retA (ps @ qs)))"

text \<open>Whether the refresh of a Tezos token can be left out.\<close>

definition tezos_up_to_date :: "worker \<Rightarrow> Token \<Rightarrow> bool res" where
  "tezos_up_to_date W token =
     (if tok_Blockchain token = x_TezosBlockchain (wk_ext W) then
        bindR (IndexTezosTokenLastActivityTime (wk_engine W) (tok_ContractAddress token) (tok_ID token)) (\<lambda>lastActivityTime.
          Inr (case provs token of
                 [] \<Rightarrow> False
               | p # _ \<Rightarrow> time_Sub (prov_Timestamp p) (tok_LastActivityTime token) = 0 \<and>
                          time_Sub lastActivityTime (tok_LastActivityTime token) \<le> 0))
      else Inr False)"

definition save_provenance :: "worker \<Rightarrow> gotime \<Rightarrow> string \<Rightarrow> Provenance list \<Rightarrow> (db, unit) act" where
  "save_provenance W now indexID totalProvenances =
     bindA (UpdateTokenProvenance (wk_store W) now indexID totalProvenances) (\<lambda>_.
       case totalProvenances of
         [] \<Rightarrow> retA ()
       | p # _ \<Rightarrow> UpdateAccountTokenOwners (wk_store W) now indexID
                   [\<lparr>ob_Address = prov_Owner p, ob_Balance = 1, ob_LastTime = prov_Timestamp p\<rparr>])"

definition refresh_provenance :: "worker \<Rightarrow> gotime \<Rightarrow> int \<Rightarrow> Token \<Rightarrow> (worker_state, unit) act" where
  "refresh_provenance W now delay token =
     (if delay > 0 \<and> time_Unix (tok_LastRefreshedTime token) > time_Unix (now - delay) then retA ()
      else if tok_Fungible token then retA ()
      else bindA (liftR (tezos_up_to_date W token)) (\<lambda>skip.
             if skip then retA ()
             else bindA (on_wcache (chain_provenances W (tok_Base token # tok_OriginTokenInfo token))) (\<lambda>totalProvenances.
                    on_wdb (save_provenance W now (tok_IndexID token) totalProvenances))))"

definition RefreshTokenProvenance_activity :: "worker \<Rightarrow> gotime \<Rightarrow> string list \<Rightarrow> int \<Rightarrow> (worker_state, unit) act" where
  "RefreshTokenProvenance_activity W now indexIDs delay =
     bindA (on_wdb (GetTokensByIndexIDs (wk_store W) indexIDs)) (\<lambda>tokens.
       forA (refresh_provenance W now delay) tokens)"

section \<open>Owners\<close>

text \<open>The balances of the owners; \<open>None\<close> where nothing is to be done.\<close>

definition owner_balances :: "worker \<Rightarrow> gotime \<Rightarrow> gotime \<Rightarrow> Token \<Rightarrow> (gotime \<times> OwnerBalance list) option res" where
  "owner_balances W now tokenLastActivityTime token =
     (let E = wk_engine W; X = wk_ext W; contract = tok_ContractAddress token
      in if tok_Blockchain token = x_EthereumBlockchain X then
           if time_Sub now (tok_LastActivityTime token) \<le> 86400 * 1000000000 \<and>
              tok_OwnersArray token \<noteq> None \<and> tok_OwnersArray token \<noteq> Some []
           then Inr None
           else bindR (within_time (IndexETHTokenOwners (wk_fuel W) X E contract (tok_ID token))) (\<lambda>obs. Inr (Some (0, obs)))
         else if tok_Blockchain token = x_TezosBlockchain X then
           bindR (IndexTezosTokenLastActivityTime E contract (tok_ID token)) (\<lambda>onChainLastActivityTime.
             if time_Sub onChainLastActivityTime tokenLastActivityTime \<le> 0 then Inr None
             else bindR (within_time (IndexTezosTokenOwners (wk_fuel W) E contract (tok_ID token))) (\<lambda>obs.
                    Inr (Some (onChainLastActivityTime, obs))))
         else Inr (Some (0, [])))"

definition refresh_ownership :: "worker \<Rightarrow> gotime \<Rightarrow> int \<Rightarrow> (string \<rightharpoonup> gotime) \<Rightarrow> Token \<Rightarrow> (db, unit) act" where
  "refresh_ownership W now delay latest token =
     (let indexID = tok_IndexID token;
          tokenLastActivityTime = (case latest indexID of Some t \<Rightarrow> t | None \<Rightarrow> tok_LastActivityTime token)
      in if time_Unix (tok_LastRefreshedTime token) > time_Unix (now - delay) then retA ()
         else if \<not> tok_Fungible token then retA ()
         else bindA (liftR (owner_balances W now tokenLastActivityTime token)) (\<lambda>r.
                case r of
                  None \<Rightarrow> retA ()
                | Some (onChainLastActivityTime, ownerBalances) \<Rightarrow>
                    bindA (UpdateTokenOwners (wk_store W) now indexID onChainLastActivityTime ownerBalances) (\<lambda>_.
                      UpdateAccountTokenOwners (wk_store W) now indexID ownerBalances)))"

definition RefreshTokenOwnership_activity :: "worker \<Rightarrow> gotime \<Rightarrow> string list \<Rightarrow> int \<Rightarrow> (db, unit) act" where
  "RefreshTokenOwnership_activity W now indexIDs delay =
     bindA (GetLatestActivityTimeByIndexIDs indexIDs) (\<lambda>latest.
     bindA (GetTokensByIndexIDs (wk_store W) indexIDs) (\<lambda>tokens.
       forA (refresh_ownership W now delay latest) tokens))"

section \<open>What a transaction changes\<close>

definition balance_change :: "string \<Rightarrow> string \<Rightarrow> int \<Rightarrow> gotime \<Rightarrow> AccountToken" where
  "balance_change indexID owner balance time =
     zero_AccountToken\<lparr>at_IndexID := indexID, at_OwnerAccount := owner, at_Balance := balance, at_LastActivityTime := time\<rparr>"

text \<open>The transfers of the token; an amount that is no number is passed over.\<close>

fun received :: "string \<Rightarrow> gotime \<Rightarrow> TxsFormat list \<Rightarrow> AccountToken list res" where
  "received indexID time [] = Inr []"
| "received indexID time (txs # rest) =
     (case split ''-'' indexID of
        _ # _ # tokenID # _ \<Rightarrow>
          bindR (received indexID time rest) (\<lambda>cs.
            Inr (if tf_TokenID txs = tokenID
                 then (case parse_int64 (tf_Amount txs) of
                         None \<Rightarrow> cs | Some amount \<Rightarrow> balance_change indexID (tf_To txs) amount time # cs)
                 else cs))
      | _ \<Rightarrow> Inl index_panic)"

definition GetBalanceDiffFromTezosTransaction ::
    "worker \<Rightarrow> DetailedTransaction \<Rightarrow> AccountToken \<Rightarrow> AccountToken list res" where
  "GetBalanceDiffFromTezosTransaction W transactionDetails accountToken =
     (case dtx_Parameter transactionDetails of
        None \<Rightarrow> Inl (GoPanic ''nil pointer dereference'')
      | Some (_, v) \<Rightarrow>
          bindR (decodeParametersValue (wk_value_order W) v) (\<lambda>paramValues.
          bindR (received (at_IndexID accountToken) (dtx_Timestamp transactionDetails) (concat (map pv_Txs paramValues))) (\<lambda>cs.
            let totalTransferredAmount = foldl (\<lambda>n c. i64 (n + at_Balance c)) 0 cs
            in Inr (cs @ [balance_change (at_IndexID accountToken) (at_OwnerAccount accountToken)
                            (i64 (- totalTransferredAmount)) (dtx_Timestamp transactionDetails)]))))"

definition eth_changes :: "TransactionDetails \<Rightarrow> AccountToken list" where
  "eth_changes d =
     (if txd_To d \<noteq> EthereumZeroAddress then [balance_change (txd_IndexID d) (txd_To d) 1 (txd_Timestamp d)] else []) @
     (if txd_From d \<noteq> EthereumZeroAddress then [balance_change (txd_IndexID d) (txd_From d) (- 1) (txd_Timestamp d)] else [])"

definition GetBalanceDiffFromETHTransaction :: "TransactionDetails list \<Rightarrow> AccountToken list res" where
  "GetBalanceDiffFromETHTransaction transactionDetails = Inr (concat (map eth_changes transactionDetails))"

section \<open>Tokens of a contract that enumerates them\<close>

record erc721 =
  erc_BalanceOf :: "string \<Rightarrow> nat res"
  erc_TokenOfOwnerByIndex :: "string \<Rightarrow> int \<Rightarrow> int res"

definition GetOwnedERC721TokenIDByContract ::
    "ext \<Rightarrow> (string \<Rightarrow> erc721 res) \<Rightarrow> string \<Rightarrow> string \<Rightarrow> int list res" where
  "GetOwnedERC721TokenIDByContract X NewERC721Enumerable contractAddress ownerAddress =
     bindR (NewERC721Enumerable (x_HexToAddressHex X contractAddress)) (\<lambda>instanc.
     let ownerAddr = x_HexToAddressHex X ownerAddress
     in bindR (erc_BalanceOf instanc ownerAddr) (\<lambda>n.
          mapR (erc_TokenOfOwnerByIndex instanc ownerAddr) (map int [0..<nat (i64 (int n))])))"

section \<open>Sales of objkt\<close>

definition objkt_contracts :: "string \<Rightarrow> string list" where
  "objkt_contracts network =
     (if network = ''testnet'' then [''KT1FvqJwEDWb1Gwc55Jd1jjTHRVWbYKUUpyq'']
      else [''KT1FvqJwEDWb1Gwc55Jd1jjTHRVWbYKUUpyq'', ''KT1WvzYHCNBvDSdwafTHv7nJ1dWmZ8GCYuuC''])"

definition GetObjktSaleTransactionHashes ::
    "string \<Rightarrow> (string list \<Rightarrow> string list \<Rightarrow> gotime \<Rightarrow> int \<Rightarrow> int \<Rightarrow> string list res) \<Rightarrow> gotime \<Rightarrow> int \<Rightarrow> int \<Rightarrow> string list res" where
  "GetObjktSaleTransactionHashes network GetTransactions lastTime offset limit =
     GetTransactions (objkt_contracts network) OBJKTSaleEntrypoints lastTime offset limit"

section \<open>Workflows that index tokens\<close>

text \<open>\<open>defer d\<close>: \<open>d\<close> runs at the end, whatever the outcome.\<close>

definition deferA :: "('s, unit) act \<Rightarrow> ('s, 'a) act \<Rightarrow> ('s, 'a) act" where
  "deferA d m = bindA (tryA m) (\<lambda>r. bindA d (\<lambda>_. liftR r))"

text \<open>The detached child workflow; unlike in the other policies, the interval between its attempts stays the same.\<close>

definition refreshTokenProvenanceByOwnerDetachedWorkflow :: "worker \<Rightarrow> string \<Rightarrow> string \<Rightarrow> (worker_state, unit) act" where
  "refreshTokenProvenanceByOwnerDetachedWorkflow W caller owner =
     zoomA ws_started (\<lambda>ws s. s\<lparr>ws_started := ws\<rparr>) (log_error (StartWorkflow (wk_cadence W)
       \<lparr>wf_ID = WorkflowIDRefreshTokenProvenanceByOwner caller owner, wf_TaskList = ProvenanceTaskListName,
        wf_ExecutionStartToCloseTimeout = 3600, wf_WorkflowIDReusePolicy = AllowDuplicate,
        wf_RetryPolicy = Some (10, 60), wf_CronSchedule = [], wf_call = RefreshTokenProvenanceByOwnerWorkflow owner\<rparr>))"

text \<open>The loop over the pages, which the time limit of the workflow cuts off.\<close>

fun eth_token_pages :: "nat \<Rightarrow> worker \<Rightarrow> gotime \<Rightarrow> string \<Rightarrow> string \<Rightarrow> (db, unit) act" where
  "eth_token_pages 0 W now owner next = throwA (Errorf ''workflow timeout'')"
| "eth_token_pages (Suc fuel) W now owner next =
     bindA (ContextRetryActivity (IndexETHTokenByOwner_activity W now owner next)) (\<lambda>nextPointer.
       if nextPointer = [] then retA () else eth_token_pages fuel W now owner nextPointer)"

fun tezos_token_pages :: "nat \<Rightarrow> worker \<Rightarrow> gotime \<Rightarrow> string \<Rightarrow> bool \<Rightarrow> (db, unit) act" where
  "tezos_token_pages 0 W now owner isFirstPage = throwA (Errorf ''workflow timeout'')"
| "tezos_token_pages (Suc fuel) W now owner isFirstPage =
     bindA (ContextRetryActivity (IndexTezosTokenByOwner_activity W now owner isFirstPage)) (\<lambda>shouldContinue.
       if \<not> shouldContinue then retA () else tezos_token_pages fuel W now owner False)"

definition IndexETHTokenWorkflow_workflow :: "worker \<Rightarrow> gotime \<Rightarrow> string \<Rightarrow> bool \<Rightarrow> (worker_state, unit) act" where
  "IndexETHTokenWorkflow_workflow W now tokenOwner includeHistory =
     deferA (if includeHistory then refreshTokenProvenanceByOwnerDetachedWorkflow W ''nft-indexer-background'' tokenOwner
             else retA ())
       (let ethTokenOwner = EthereumChecksumAddress (wk_ext W) tokenOwner
        in if ethTokenOwner = EthereumZeroAddress then throwA (Errorf ''invalid ethereum token owner'')
           else on_wdb (eth_token_pages (wk_fuel W) W now ethTokenOwner []))"

definition IndexTezosTokenWorkflow_workflow :: "worker \<Rightarrow> gotime \<Rightarrow> string \<Rightarrow> bool \<Rightarrow> (worker_state, unit) act" where
  "IndexTezosTokenWorkflow_workflow W now tokenOwner includeHistory =
     deferA (if includeHistory then refreshTokenProvenanceByOwnerDetachedWorkflow W ''nft-indexer-background'' tokenOwner
             else retA ())
       (on_wdb (tezos_token_pages (wk_fuel W) W now tokenOwner True))"

section \<open>Workflows that refresh\<close>

definition RefreshTokenProvenanceWorkflow_workflow :: "worker \<Rightarrow> gotime \<Rightarrow> string list \<Rightarrow> int \<Rightarrow> (worker_state, unit) act" where
  "RefreshTokenProvenanceWorkflow_workflow W now indexIDs delay = RefreshTokenProvenance_activity W now indexIDs delay"

definition RefreshTokenOwnershipWorkflow_workflow :: "worker \<Rightarrow> gotime \<Rightarrow> string list \<Rightarrow> int \<Rightarrow> (worker_state, unit) act" where
  "RefreshTokenOwnershipWorkflow_workflow W now indexIDs delay = on_wdb (RefreshTokenOwnership_activity W now indexIDs delay)"

fun batches_of :: "nat \<Rightarrow> 'a list \<Rightarrow> 'a list list" where
  "batches_of k [] = []"
| "batches_of k (x # xs) = (if k = 0 then [] else take k (x # xs) # batches_of k (drop k (x # xs)))"

text \<open>An error of either activity is logged; the variable keeps what it holds.\<close>

definition owned_tokens_to_refresh :: "worker \<Rightarrow> string \<Rightarrow> (db, string list) act" where
  "owned_tokens_to_refresh W owner =
     bindA (tryA (ContextRegularActivity (GetOwnedTokenIDsByOwner (wk_store W) owner))) (\<lambda>r.
     let ownedTokenIDs = (case r of Inl _ \<Rightarrow> [] | Inr ids \<Rightarrow> ids)
     in bindA (tryA (ContextRegularActivity
               (FilterTokenIDsWithInconsistentProvenanceForOwner (wk_store W) ownedTokenIDs owner))) (\<lambda>r.
          retA (case r of Inl _ \<Rightarrow> ownedTokenIDs | Inr ids \<Rightarrow> ids)))"

definition RefreshTokenProvenanceByOwnerWorkflow_workflow :: "worker \<Rightarrow> gotime \<Rightarrow> string \<Rightarrow> (worker_state, unit) act" where
  "RefreshTokenProvenanceByOwnerWorkflow_workflow W now owner =
     bindA (on_wdb (owned_tokens_to_refresh W owner)) (\<lambda>ownedTokenIDs.
       forA (\<lambda>ids. RefreshTokenProvenanceWorkflow_workflow W now ids 0) (batches_of 25 ownedTokenIDs))"

section \<open>The workflow that indexes one token\<close>

text \<open>No update comes back as one with zero values.\<close>

definition zero_AssetUpdates :: AssetUpdates where
  "zero_AssetUpdates =
     \<lparr>au_ID = [], au_Source = [], au_ProjectMetadata = zero_ProjectMetadata, au_BlockchainMetadata = JNull, au_Tokens = []\<rparr>"

definition index_owner_token :: "worker \<Rightarrow> gotime \<Rightarrow> string \<Rightarrow> string \<Rightarrow> string \<Rightarrow> AssetUpdates \<Rightarrow> (db, unit) act" where
  "index_owner_token W now owner contract tokenID update =
     (if owner = [] then retA ()
      else bindA (liftR (GetTokenBalanceOfOwner (wk_ext W) (wk_engine W) contract tokenID owner)) (\<lambda>balance.
           bindA (liftR (first_token update)) (\<lambda>t.
             IndexAccountTokens (wk_store W) owner [account_token_of owner balance t])))"

definition IndexTokenWorkflow_workflow ::
    "worker \<Rightarrow> gotime \<Rightarrow> string \<Rightarrow> string \<Rightarrow> string \<Rightarrow> bool \<Rightarrow> bool \<Rightarrow> (worker_state, unit) act" where
  "IndexTokenWorkflow_workflow W now owner contract tokenID indexProvenance indexPreview =
     bindA (liftR (IndexToken (wk_ext W) (wk_engine W) now contract tokenID)) (\<lambda>r.
     let update = (case r of None \<Rightarrow> zero_AssetUpdates | Some u \<Rightarrow> u)
     in bindA (on_wdb (IndexAsset (wk_ext W) (wk_store W) now (au_ID update) update)) (\<lambda>_.
        bindA (on_wdb (index_owner_token W now owner contract tokenID update)) (\<lambda>_.
        bindA (liftR (first_token update)) (\<lambda>t.
        bindA (if indexProvenance then
                 (if tok_Fungible t then RefreshTokenOwnershipWorkflow_workflow W now [tok_IndexID t] 0
                  else RefreshTokenProvenanceWorkflow_workflow W now [tok_IndexID t] 0)
               else retA ()) (\<lambda>_.
          on_wdb (MarkAccountTokenChanged (wk_store W) now [tok_IndexID t]))))))"

section \<open>Refreshing\<close>

lemma set_provenance_simps [simp]:
  "tok_Owner (set_provenance now ps t) = prov_Owner (hd ps)" "tok_Owners (set_provenance now ps t) = Some [prov_Owner (hd ps) \<mapsto> 1]"
  "tok_Provenances (set_provenance now ps t) = Some (map bson_Provenance ps)" "tok_IndexID (set_provenance now ps t) = tok_IndexID t"
  by (simp_all add: set_provenance_def Let_def set_single_owner_def)

lemma get_at_tokens [simp]: "get_at k (s\<lparr>db_tokens := ts\<rparr>) = get_at k s"
  by (simp add: get_at_def)

text \<open>What is left of the balances of a token when they are set to those of \<open>obs\<close>.\<close>

lemma account_owners_set:
  assumes "mongo_store st" and "get_token i s = Some t"
  shows "\<exists>s'. UpdateAccountTokenOwners st now i obs s = (Inr (), s') \<and> get_token i s' = Some t
    \<and> (\<forall>owner. map_option at_Balance (get_at (i, owner) s') =
         (case owners_of obs owner of Some b \<Rightarrow> Some b | None \<Rightarrow> map_option (\<lambda>_. 0) (get_at (i, owner) s)))"
proof -
  obtain ats where run: "UpdateAccountTokenOwners st now i obs s = (Inr (), s\<lparr>db_accountTokens := ats\<rparr>)"
    using mongo_store.UpdateAccountTokenOwners_run [OF assms] by blast
  from mongo_store.UpdateAccountTokenOwners_balances [OF assms run, of i]
  have "map_option at_Balance (get_at (i, owner) (s\<lparr>db_accountTokens := ats\<rparr>)) =
      (case owners_of obs owner of Some b \<Rightarrow> Some b | None \<Rightarrow> map_option (\<lambda>_. 0) (get_at (i, owner) s))" for owner
    by (simp split: option.split)
  with run assms(2) show ?thesis by (intro exI [of _ "s\<lparr>db_accountTokens := ats\<rparr>"]) simp
qed

lemma save_provenance_run:
  assumes "mongo_store (wk_store W)" and "get_token i s = Some t" and "ps \<noteq> []"
  shows "\<exists>s'. save_provenance W now i ps s = (Inr (), s') \<and> get_token i s' = Some (set_provenance now ps t)
    \<and> (\<forall>owner. map_option at_Balance (get_at (i, owner) s') =
         (if owner = prov_Owner (hd ps) then Some 1 else map_option (\<lambda>_. 0) (get_at (i, owner) s)))"
proof -
  let ?s = "s\<lparr>db_tokens := upd1 (\<lambda>t. tok_IndexID t = i) (set_provenance now ps) (db_tokens s)\<rparr>"
  let ?ob = "\<lparr>ob_Address = prov_Owner (hd ps), ob_Balance = 1, ob_LastTime = prov_Timestamp (hd ps)\<rparr>"
  have run: "save_provenance W now i ps s = UpdateAccountTokenOwners (wk_store W) now i [?ob] ?s"
    using assms(3) by (simp add: save_provenance_def act_simps mongo_store.UpdateTokenProvenance_run [OF assms(1)] split: list.split)
  have "get_token i ?s = map_option (\<lambda>t. if tok_IndexID t = i then set_provenance now ps t else t) (get_token i s)"
    by (rule get_token_upd1_same) simp_all
  with assms(2) have "get_token i ?s = Some (set_provenance now ps t)"
    using get_token_index [OF assms(2)] by simp
  from account_owners_set [OF assms(1) this, of now "[?ob]"] obtain s' where
    s': "UpdateAccountTokenOwners (wk_store W) now i [?ob] ?s = (Inr (), s')" "get_token i s' = Some (set_provenance now ps t)"
    and bal: "\<And>owner. map_option at_Balance (get_at (i, owner) s') =
      (case owners_of [?ob] owner of Some b \<Rightarrow> Some b | None \<Rightarrow> map_option (\<lambda>_. 0) (get_at (i, owner) ?s))" by blast
  have "map_option at_Balance (get_at (i, owner) s') =
      (if owner = prov_Owner (hd ps) then Some 1 else map_option (\<lambda>_. 0) (get_at (i, owner) s))" for owner
    using bal [of owner] by (cases "owner = prov_Owner (hd ps)") (simp_all add: owners_of_def)
  with s' show ?thesis unfolding run by blast
qed

lemma refresh_provenance_run:
  assumes "mongo_store (wk_store W)" and "get_token (tok_IndexID t) (ws_db s) = Some t" and "\<not> tok_Fungible t"
    and "tezos_up_to_date W t = Inr False"
    and "chain_provenances W (tok_Base t # tok_OriginTokenInfo t) (ws_cache s) = (Inr ps, c)" and "ps \<noteq> []"
  shows "\<exists>d. refresh_provenance W now 0 t s = (Inr (), s\<lparr>ws_db := d, ws_cache := c\<rparr>)
    \<and> get_token (tok_IndexID t) d = Some (set_provenance now ps t)
    \<and> (\<forall>owner. map_option at_Balance (get_at (tok_IndexID t, owner) d) =
         (if owner = prov_Owner (hd ps) then Some 1 else map_option (\<lambda>_. 0) (get_at (tok_IndexID t, owner) (ws_db s))))"
proof -
  from save_provenance_run [OF assms(1,2,6), of now] obtain d where
    d: "save_provenance W now (tok_IndexID t) ps (ws_db s) = (Inr (), d)" and rest:
    "get_token (tok_IndexID t) d = Some (set_provenance now ps t)"
    "\<forall>owner. map_option at_Balance (get_at (tok_IndexID t, owner) d) =
         (if owner = prov_Owner (hd ps) then Some 1 else map_option (\<lambda>_. 0) (get_at (tok_IndexID t, owner) (ws_db s)))" by blast
  have "refresh_provenance W now 0 t s = (Inr (), s\<lparr>ws_db := d, ws_cache := c\<rparr>)"
    using assms(3) by (simp add: refresh_provenance_def act_simps assms(4,5) on_wcache_def on_wdb_def d del: chain_provenances.simps)
  with rest show ?thesis by blast
qed

lemma within_time_Some [simp]: "within_time (Some r) = r"
  by (simp add: within_time_def)

lemma large_supply_owners:
  assumes "en_GetTokenOwners E contract tokenID 50 0 = Inr owners" and "ow \<in> set owners" and "tzo_TotalSupply ow > 100000"
    and "0 < fuel"
  shows "IndexTezosTokenOwners fuel E contract tokenID = Some (Inr [])"
proof -
  obtain n where "fuel = Suc n" using assms(4) by (cases fuel) auto
  moreover have "list_ex (\<lambda>ow. tzo_TotalSupply ow > 100000) owners" using assms(2,3) by (auto simp: list_ex_iff)
  ultimately show ?thesis by (simp add: IndexTezosTokenOwners_def assms(1))
qed

lemma large_supply_refresh:
  assumes "mongo_store (wk_store W)" and "get_token (tok_IndexID t) s = Some t" and "tok_Fungible t"
    and "tok_Blockchain t = x_TezosBlockchain (wk_ext W)" and "x_TezosBlockchain (wk_ext W) \<noteq> x_EthereumBlockchain (wk_ext W)"
    and "time_Unix (tok_LastRefreshedTime t) \<le> time_Unix (now - delay)"
    and "IndexTezosTokenLastActivityTime (wk_engine W) (tok_ContractAddress t) (tok_ID t) = Inr onChain"
    and "onChain > (case latest (tok_IndexID t) of Some l \<Rightarrow> l | None \<Rightarrow> tok_LastActivityTime t)"
    and "IndexTezosTokenOwners (wk_fuel W) (wk_engine W) (tok_ContractAddress t) (tok_ID t) = Some (Inr [])"
  shows "\<exists>s'. refresh_ownership W now delay latest t s = (Inr (), s') \<and> get_token (tok_IndexID t) s' = Some t
    \<and> (\<forall>owner. map_option at_Balance (get_at (tok_IndexID t, owner) s') = map_option (\<lambda>_. 0) (get_at (tok_IndexID t, owner) s))"
proof -
  have "owner_balances W now (case latest (tok_IndexID t) of Some l \<Rightarrow> l | None \<Rightarrow> tok_LastActivityTime t) t = Inr (Some (onChain, []))"
    using assms(4,5,7-9) by (simp add: owner_balances_def Let_def time_Sub_nonpos)
  then have "refresh_ownership W now delay latest t s = UpdateAccountTokenOwners (wk_store W) now (tok_IndexID t) [] s"
    using assms(3,6) by (simp add: refresh_ownership_def Let_def act_simps mongo_store.UpdateTokenOwners_run [OF assms(1)])
  with account_owners_set [OF assms(1,2), of now "[]"] show ?thesis by (simp add: owners_of_def)
qed

section \<open>What is taken from one is given to another\<close>

lemma balance_change_balance [simp]: "at_Balance (balance_change i owner b t) = b"
  by (simp add: balance_change_def)

lemma wrapped_sum: "foldl (\<lambda>n c. i64 (n + f c)) (i64 m) cs = i64 (m + sum_list (map f cs))"
proof (induction cs arbitrary: m)
  case (Cons c cs)
  from Cons.IH [of "m + f c"] show ?case by (simp add: i64_add_left add.assoc)
qed simp

lemma tezos_changes_balance:
  assumes "GetBalanceDiffFromTezosTransaction W tx a = Inr cs"
  shows "i64 (sum_list (map at_Balance cs)) = 0"
proof -
  from assms obtain rs where cs: "cs = rs @ [balance_change (at_IndexID a) (at_OwnerAccount a)
      (i64 (- foldl (\<lambda>n c. i64 (n + at_Balance c)) 0 rs)) (dtx_Timestamp tx)]"
    by (auto simp: GetBalanceDiffFromTezosTransaction_def bindR_Inr_iff Let_def split: option.splits prod.splits)
  show ?thesis
    using wrapped_sum [of at_Balance 0 rs] unfolding cs by (simp add: i64_add_right i64_minus)
qed

lemma eth_changes_balance:
  "sum_list (map at_Balance (concat (map eth_changes ds))) =
     int (length (filter (\<lambda>d. txd_From d = EthereumZeroAddress \<and> txd_To d \<noteq> EthereumZeroAddress) ds)) -
     int (length (filter (\<lambda>d. txd_To d = EthereumZeroAddress \<and> txd_From d \<noteq> EthereumZeroAddress) ds))"
  by (induction ds) (auto simp: eth_changes_def)

section \<open>The tokens of an owner, page by page\<close>

lemma keeps_other_collections:
  "keeps (\<lambda>s. db_accountTokens s = ats) (on_tokens m)" "keeps (\<lambda>s. db_accountTokens s = ats) (on_assets m')"
  "keeps (\<lambda>s. db_accountTokens s = ats) (on_collectionAssets m'')"
  by (simp_all add: keeps_def on_tokens_def on_assets_def on_collectionAssets_def zoomA_def split: prod.split)

lemma IndexAsset_account_tokens: "keeps (\<lambda>s. db_accountTokens s = ats) (IndexAsset X st now i au)"
  unfolding IndexAsset_def index_asset_doc_def index_asset_token_def insert_new_token_def update_current_token_def
    Let_def find_token_def
  by (intro keeps_rules keeps_other_collections)

text \<open>The updates of an owner: one token each, which is that of the owner.\<close>

definition owner_updates :: "string \<Rightarrow> AssetUpdates list \<Rightarrow> bool" where
  "owner_updates owner us \<longleftrightarrow> (\<forall>u\<in>set us. \<exists>t. au_Tokens u = [t] \<and> tok_Owner t = owner)"

abbreviation update_token :: "AssetUpdates \<Rightarrow> Token" where "update_token u \<equiv> hd (au_Tokens u)"

lemma index_updates_run:
  assumes "mongo_store (wk_store W)" and "owner_updates owner us" and "db_inv s"
  shows "\<exists>s'. index_updates W now us s =
      (Inr (map (\<lambda>u. account_token_of owner (tok_Balance (update_token u)) (update_token u)) us), s')
    \<and> db_accountTokens s' = db_accountTokens s \<and> db_inv s'"
  using assms(2,3)
proof (induction us arbitrary: s)
  case (Cons u us)
  obtain r s1 where run: "IndexAsset (wk_ext W) (wk_store W) now (au_ID u) u s = (r, s1)" by fastforce
  have r: "r = Inr ()" using mongo_store.IndexAsset_post(1) [OF assms(1) run] .
  have ats: "db_accountTokens s1 = db_accountTokens s"
    using keepsD [OF IndexAsset_account_tokens [of "db_accountTokens s"], of s] run by (metis snd_conv)
  have inv: "db_inv s1" using keepsD [OF mongo_store.keeps_IndexAsset [OF assms(1)] Cons.prems(2)] run by (metis snd_conv)
  have us: "owner_updates owner us" using Cons.prems(1) by (simp add: owner_updates_def)
  from Cons.prems(1) obtain t where t: "au_Tokens u = [t]" "tok_Owner t = owner" by (auto simp: owner_updates_def)
  from Cons.IH [OF us inv] obtain s' where "index_updates W now us s1 =
      (Inr (map (\<lambda>u. account_token_of owner (tok_Balance (update_token u)) (update_token u)) us), s')"
    "db_accountTokens s' = db_accountTokens s1" "db_inv s'" by blast
  with run r t ats show ?case by (simp add: act_simps first_token_def)
qed (simp add: retA_run)

definition indexed_for :: "string \<Rightarrow> AssetUpdates list \<Rightarrow> db \<Rightarrow> bool" where
  "indexed_for owner us s \<longleftrightarrow> (\<forall>u\<in>set us. get_at (tok_IndexID (update_token u), owner) s \<noteq> None)"

lemma eth_page_run:
  assumes "mongo_store (wk_store W)" and "db_inv s" and "us \<noteq> []" and "owner_updates owner us"
    and "IndexETHTokenByOwner (wk_ext W) (wk_engine W) now owner n = Inr (us, n')"
  shows "\<exists>s'. IndexETHTokenByOwner_activity W now owner n s = (Inr n', s') \<and> db_inv s' \<and> indexed_for owner us s'
    \<and> (\<forall>k. get_at k s \<noteq> None \<longrightarrow> get_at k s' \<noteq> None)"
proof -
  let ?ats = "map (\<lambda>u. account_token_of owner (tok_Balance (update_token u)) (update_token u)) us"
  from index_updates_run [OF assms(1,4,2)] obtain s1 where s1: "index_updates W now us s = (Inr ?ats, s1)"
    "db_accountTokens s1 = db_accountTokens s" "db_inv s1" by blast
  have "\<forall>a\<in>set ?ats. at_OwnerAccount a = owner" by (simp add: account_token_of_def)
  from mongo_store.IndexAccountTokens_post [OF assms(1) s1(3) this] obtain s' where
    s': "IndexAccountTokens (wk_store W) owner ?ats s1 = (Inr (), s')"
    "\<And>a. a \<in> set ?ats \<Longrightarrow> get_at (at_key a) s' \<noteq> None" "\<And>k. get_at k s1 \<noteq> None \<Longrightarrow> get_at k s' \<noteq> None" by fastforce
  have "get_at (tok_IndexID (update_token u), owner) s' \<noteq> None" if "u \<in> set us" for u
    using s'(2) [of "account_token_of owner (tok_Balance (update_token u)) (update_token u)"] that
    by (auto simp: account_token_of_def at_key_def)
  then have "indexed_for owner us s'" by (simp add: indexed_for_def)
  moreover have "db_inv s'"
    using keepsD [OF mongo_store.keeps_IndexAccountTokens [OF assms(1)] s1(3)] s'(1) by (metis snd_conv)
  moreover have "get_at k s1 = get_at k s" for k using s1(2) by (simp add: get_at_def)
  moreover have "IndexETHTokenByOwner_activity W now owner n s = (Inr n', s')"
    using assms(3) by (simp add: IndexETHTokenByOwner_activity_def act_simps assms(5) s1(1) s'(1))
  ultimately show ?thesis using s'(3) by auto
qed

text \<open>The pages the marketplace serves, as updates: every page but the last has some.\<close>

fun update_pages :: "worker \<Rightarrow> gotime \<Rightarrow> string \<Rightarrow> string \<Rightarrow> AssetUpdates list list \<Rightarrow> bool" where
  "update_pages W now owner n [] = False"
| "update_pages W now owner n [us] = (IndexETHTokenByOwner (wk_ext W) (wk_engine W) now owner n = Inr (us, []))"
| "update_pages W now owner n (us # vs # rest) =
     (us \<noteq> [] \<and> (\<exists>n'. n' \<noteq> [] \<and> IndexETHTokenByOwner (wk_ext W) (wk_engine W) now owner n = Inr (us, n')
        \<and> update_pages W now owner n' (vs # rest)))"

lemma eth_updates_owner: "owner \<noteq> [] \<Longrightarrow> owner_updates owner (eth_updates X E now owner nfts)"
proof (induction nfts)
  case (Cons nft nfts)
  obtain c i where nft: "nft = (c, i)" by fastforce
  have "\<exists>t. au_Tokens u = [t] \<and> tok_Owner t = owner" if u: "indexETHToken X E now a owner 1 = Some u" for a u
    by (rule indexETHToken_Some [OF u]) (use Cons.prems in \<open>simp add: eth_token_def Let_def\<close>)
  with Cons nft show ?case by (auto simp: owner_updates_def split: sum.split option.split)
qed (simp add: owner_updates_def)

lemma IndexETHTokenByOwner_owner:
  "owner \<noteq> [] \<Longrightarrow> IndexETHTokenByOwner X E now owner n = Inr (us, n') \<Longrightarrow> owner_updates owner us"
  using eth_updates_owner by (auto simp: IndexETHTokenByOwner_def bindR_Inr_iff owner_updates_def split: if_splits)

lemma no_updates_page:
  assumes "IndexETHTokenByOwner (wk_ext W) (wk_engine W) now owner n = Inr ([], n')"
  shows "eth_token_pages (Suc fuel) W now owner n s = (Inr (), s)"
proof -
  have "IndexETHTokenByOwner_activity W now owner n s = (Inr [], s)"
    by (simp add: IndexETHTokenByOwner_activity_def act_simps assms)
  then show ?thesis by (simp add: act_simps ContextRetryActivity_def attempts_ok)
qed

lemma eth_token_pages_run:
  assumes "mongo_store (wk_store W)" and "owner \<noteq> []"
  shows "update_pages W now owner n pages \<Longrightarrow> db_inv s \<Longrightarrow> length pages \<le> fuel \<Longrightarrow>
    \<exists>s'. eth_token_pages fuel W now owner n s = (Inr (), s') \<and> db_inv s' \<and> indexed_for owner (concat pages) s'
      \<and> (\<forall>k. get_at k s \<noteq> None \<longrightarrow> get_at k s' \<noteq> None)"
proof (induction pages arbitrary: n s fuel)
  case (Cons us rest)
  from Cons.prems(1) obtain n' where page: "IndexETHTokenByOwner (wk_ext W) (wk_engine W) now owner n = Inr (us, n')"
    and more: "rest \<noteq> [] \<Longrightarrow> us \<noteq> [] \<and> n' \<noteq> [] \<and> update_pages W now owner n' rest" and last: "rest = [] \<Longrightarrow> n' = []"
    by (cases rest) auto
  from Cons.prems(3) obtain f where fuel: "fuel = Suc f" "length rest \<le> f" by (cases fuel) auto
  show ?case
  proof (cases "us = []")
    case True
    with more have "rest = []" by blast
    with True no_updates_page [of W now owner n n' f s] page Cons.prems(2) fuel show ?thesis
      by (simp add: indexed_for_def)
  next
    case False
    from eth_page_run [OF assms(1) Cons.prems(2) False IndexETHTokenByOwner_owner [OF assms(2) page] page] obtain s1 where
      s1: "IndexETHTokenByOwner_activity W now owner n s = (Inr n', s1)" "db_inv s1" "indexed_for owner us s1"
        "\<And>k. get_at k s \<noteq> None \<Longrightarrow> get_at k s1 \<noteq> None" by blast
    have step: "eth_token_pages fuel W now owner n s = (if n' = [] then (Inr (), s1) else eth_token_pages f W now owner n' s1)"
    proof -
      have "ContextRetryActivity (IndexETHTokenByOwner_activity W now owner n) s = (Inr n', s1)"
        unfolding ContextRetryActivity_def by (rule attempts_ok) (rule s1(1))
      then show ?thesis by (simp add: fuel act_simps)
    qed
    show ?thesis
    proof (cases "rest = []")
      case True
      with last s1 show ?thesis unfolding step by auto
    next
      case more': False
      with more have "n' \<noteq> []" "update_pages W now owner n' rest" by auto
      from Cons.IH [OF this(2) s1(2) fuel(2)] \<open>n' \<noteq> []\<close> s1(3,4) show ?thesis
        unfolding step by (force simp: indexed_for_def)
    qed
  qed
qed simp

section \<open>A token that is not indexed\<close>

lemma IndexTokenWorkflow_no_update:
  assumes "mongo_store (wk_store W)" and "IndexToken (wk_ext W) (wk_engine W) now contract tokenID = Inr None"
  shows "\<exists>s'. IndexTokenWorkflow_workflow W now [] contract tokenID p v s = (Inl index_panic, s')
    \<and> (\<exists>a\<in>set (db_assets (ws_db s')). asset_IndexID a = asset_index_id [] [])"
proof -
  obtain r d where run: "IndexAsset (wk_ext W) (wk_store W) now [] zero_AssetUpdates (ws_db s) = (r, d)" by fastforce
  note post = mongo_store.IndexAsset_post [OF assms(1) run]
  have "au_ID zero_AssetUpdates = []" "au_Source zero_AssetUpdates = []" "au_Tokens zero_AssetUpdates = []"
    by (simp_all add: zero_AssetUpdates_def)
  with post run show ?thesis
    by (intro exI [of _ "s\<lparr>ws_db := d\<rparr>"])
      (simp add: IndexTokenWorkflow_workflow_def act_simps assms(2) on_wdb_def index_owner_token_def first_token_def)
qed

section \<open>Instances\<close>

definition sample_worker :: "engine \<Rightarrow> worker" where
  "sample_worker E =
     \<lparr>wk_ext = sample_ext, wk_store = mem_store [], wk_engine = E, wk_cadence = mem_cadence,
      wk_Environment = ProductionEnvironment, wk_bitmarkZeroAddress = LivenetZeroAddress,
      wk_GetBitmarkFullProvenance = (\<lambda>i. Inr JNull), wk_BlockDump = (\<lambda>n. Inr JNull),
      wk_FilterTransferLogs = (\<lambda>c i. Inr []), wk_BlockByHash = (\<lambda>h. Inr 100),
      wk_cacheStore = mem_coll (\<lambda>_ _. False), wk_value_order = (\<lambda>vs. vs), wk_fuel = 9\<rparr>"

lemma sample_worker_simps [simp]:
  "wk_store (sample_worker E) = mem_store []" "wk_ext (sample_worker E) = sample_ext" "wk_engine (sample_worker E) = E"
  "wk_fuel (sample_worker E) = 9" "wk_cadence (sample_worker E) = mem_cadence"
  by (simp_all add: sample_worker_def)

lemma sample_chains [simp]: "x_TezosBlockchain sample_ext = ''tezos''" "x_EthereumBlockchain sample_ext = ''ethereum''"
  "x_BitmarkBlockchain sample_ext = ''bitmark''"
  by (simp_all add: sample_ext_def)

definition tezos_sample :: "bool \<Rightarrow> Token" where
  "tezos_sample fungible = zero_Token\<lparr>tok_IndexID := ''tez-KT1a-1'',
     tok_Base := \<lparr>base_ID = ''1'', base_Blockchain = ''tezos'', base_Fungible = fungible, base_ContractType = ''fa2'',
                  base_ContractAddress = ''KT1a''\<rparr>\<rparr>"

definition old_holder :: AccountToken where
  "old_holder = zero_AccountToken\<lparr>at_IndexID := ''tez-KT1a-1'', at_OwnerAccount := ''tz1a'', at_Balance := 1\<rparr>"

definition sample_worker_state :: "bool \<Rightarrow> worker_state" where
  "sample_worker_state fungible =
     \<lparr>ws_db = empty_db\<lparr>db_tokens := [tezos_sample fungible], db_accountTokens := [old_holder]\<rparr>, ws_cache = [], ws_started = []\<rparr>"

lemma sample_worker_token:
  "get_token ''tez-KT1a-1'' (ws_db (sample_worker_state f)) = Some (tezos_sample f)"
  "map_option at_Balance (get_at (''tez-KT1a-1'', ''tz1a'') (ws_db (sample_worker_state f))) = Some 1"
  by (simp_all add: sample_worker_state_def get_token_def tezos_sample_def get_at_def old_holder_def at_key_def zero_AccountToken_def)

lemma sample_worker_inv: "db_inv (ws_db (sample_worker_state f))"
  by (simp add: sample_worker_state_def db_inv_def empty_db_def)

definition sample_owner :: string where "sample_owner = ''0x'' @ replicate 40 (CHR ''d'')"

lemma sample_owner_address: "EthereumChecksumAddress sample_ext sample_owner = sample_owner" "sample_owner \<noteq> EthereumZeroAddress"
  "sample_owner \<noteq> []" "sample_owner \<notin> set EthereumIndexExcludedOwners"
  by (simp_all add: EthereumChecksumAddress_def sample_ext_def sample_address_def has_prefix_def sample_owner_def numeral_eq_Suc
      EthereumIndexExcludedOwners_def)

definition two_pages :: engine where
  "two_pages = sample_engine\<lparr>en_RetrieveAssets := (\<lambda>owner next.
     Inr \<lparr>ar_NFTs = [(''0xab'', ''7'')], ar_Next = (if next = [] then ''p2'' else [])\<rparr>)\<rparr>"

definition no_descriptions :: engine where
  "no_descriptions = two_pages\<lparr>en_RetrieveAsset := (\<lambda>c i. Inl (Errorf ''too many requests''))\<rparr>"

definition large_supply :: engine where
  "large_supply = sample_engine\<lparr>en_GetTokenOwners := (\<lambda>c i n t. Inr
     [\<lparr>tzo_Address = ''tz1a'', tzo_Balance = 1, tzo_LastTime = 200, tzo_TotalSupply = 200000\<rparr>])\<rparr>"

definition skipped_contract :: engine where
  "skipped_contract = sample_engine\<lparr>en_GetContractToken := (\<lambda>c i. Inr (sample_tzkt_token\<lparr>tz_Contract := KALAMContractAddress\<rparr>))\<rparr>"

section \<open>Properties\<close>

text \<open>
  C23: The workflow that indexes the tokens of an Ethereum owner goes through all the pages the marketplace serves, as
  long as every page but the last has a token that can be described: it succeeds, and the owner has an account token
  for every token described on any of the pages.
\<close>

theorem eth_owner_pages_indexed:
  assumes "mongo_store (wk_store W)" and "db_inv (ws_db s)"
    and "EthereumChecksumAddress (wk_ext W) owner = a" and "a \<noteq> EthereumZeroAddress" and "a \<noteq> []"
    and "update_pages W now a [] pages" and "length pages \<le> wk_fuel W"
  shows "\<exists>s'. IndexETHTokenWorkflow_workflow W now owner h s = (Inr (), s') \<and>
    (\<forall>us\<in>set pages. \<forall>u\<in>set us. get_at (tok_IndexID (hd (au_Tokens u)), a) (ws_db s') \<noteq> None)"
proof -
  from eth_token_pages_run [OF assms(1,5,6,2,7)] obtain d where
    d: "eth_token_pages (wk_fuel W) W now a [] (ws_db s) = (Inr (), d)" "indexed_for a (concat pages) d" by blast
  have start: "\<exists>t. refreshTokenProvenanceByOwnerDetachedWorkflow W c o1 t0 = (Inr (), t) \<and> ws_db t = ws_db t0" for c o1 t0
    by (simp add: refreshTokenProvenanceByOwnerDetachedWorkflow_def act_simps log_error_def split: prod.split)
  have run: "on_wdb (eth_token_pages (wk_fuel W) W now a []) s = (Inr (), s\<lparr>ws_db := d\<rparr>)"
    by (simp add: on_wdb_def act_simps d(1))
  have "\<exists>s'. IndexETHTokenWorkflow_workflow W now owner h s = (Inr (), s') \<and> ws_db s' = d"
    using start [of "''nft-indexer-background''" owner "s\<lparr>ws_db := d\<rparr>"] assms(3,4)
    by (auto simp: IndexETHTokenWorkflow_workflow_def deferA_def act_simps run)
  with d(2) show ?thesis by (auto simp: indexed_for_def)
qed

theorem eth_owner_pages_indexed_witness:
  "\<exists>s' u. IndexETHTokenWorkflow_workflow (sample_worker two_pages) 50 sample_owner True (sample_worker_state True) = (Inr (), s') \<and>
     indexETHToken sample_ext two_pages 50 sample_asset sample_owner 1 = Some u \<and>
     get_at (tok_IndexID (hd (au_Tokens u)), sample_owner) (ws_db s') \<noteq> None"
proof -
  have "indexETHToken sample_ext two_pages 50 sample_asset sample_owner 1 \<noteq> None"
    by (simp add: indexETHToken_None_iff EthereumChecksumAddress_def sample_ext_def sample_address_def sample_asset_def)
  then obtain u where u: "indexETHToken sample_ext two_pages 50 sample_asset sample_owner 1 = Some u" by blast
  have asset: "en_RetrieveAsset two_pages = (\<lambda>c i. Inr sample_asset)" by (simp add: two_pages_def sample_engine_def)
  have assets: "en_RetrieveAssets two_pages o1 n = Inr \<lparr>ar_NFTs = [(''0xab'', ''7'')], ar_Next = (if n = [] then ''p2'' else [])\<rparr>" for o1 n
    by (simp add: two_pages_def)
  have page: "IndexETHTokenByOwner sample_ext two_pages 50 sample_owner n = Inr ([u], if n = [] then ''p2'' else [])" for n
    using sample_owner_address(4) by (simp add: IndexETHTokenByOwner_def assets asset u)
  have "update_pages (sample_worker two_pages) 50 sample_owner [] [[u], [u]]" by (simp add: page)
  from eth_owner_pages_indexed [of "sample_worker two_pages", OF _ sample_worker_inv _ _ _ this, of sample_owner True True]
  show ?thesis using mem_store_lawful sample_owner_address u by auto
qed

text \<open>
  But a page none of whose tokens can be described, as when the marketplace answers every request for a description
  with an error, ends the workflow with success: the pages that follow it are not asked for.
\<close>

theorem eth_page_without_updates_ends:
  assumes "EthereumChecksumAddress (wk_ext W) owner = a" and "a \<noteq> EthereumZeroAddress" and "0 < wk_fuel W"
    and "IndexETHTokenByOwner (wk_ext W) (wk_engine W) now a [] = Inr ([], next_page)"
  shows "IndexETHTokenWorkflow_workflow W now owner False s = (Inr (), s)"
proof -
  obtain f where f: "wk_fuel W = Suc f" using assms(3) by (cases "wk_fuel W") auto
  have "eth_token_pages (wk_fuel W) W now a [] d = (Inr (), d)" for d
    unfolding f by (rule no_updates_page [OF assms(4)])
  then show ?thesis
    using assms(1,2) by (simp add: IndexETHTokenWorkflow_workflow_def deferA_def act_simps on_wdb_def)
qed

theorem eth_page_without_updates_ends_witness:
  "IndexETHTokenWorkflow_workflow (sample_worker no_descriptions) 50 sample_owner False (sample_worker_state True) =
     (Inr (), sample_worker_state True)"
proof -
  have "IndexETHTokenByOwner sample_ext no_descriptions 50 sample_owner [] = Inr ([], ''p2'')"
    using sample_owner_address(4) by (simp add: IndexETHTokenByOwner_def no_descriptions_def two_pages_def)
  with eth_page_without_updates_ends [of "sample_worker no_descriptions" sample_owner sample_owner 50 "''p2''"]
  show ?thesis using sample_owner_address by simp
qed

text \<open>
  C13: A refresh of the provenance of a token that is not fungible leaves the database consistent: the first record of
  the history names the owner of the token, and among the accounts only that owner has the token, once; every other
  account that had it has none. The history includes those of the tokens it came from.
\<close>

theorem provenance_refresh_sets_owner:
  assumes "mongo_store (wk_store W)" and "get_token (tok_IndexID t) (ws_db s) = Some t" and "\<not> tok_Fungible t"
    and "tezos_up_to_date W t = Inr False"
    and "chain_provenances W (tok_Base t # tok_OriginTokenInfo t) (ws_cache s) = (Inr ps, c)" and "ps \<noteq> []"
  shows "\<exists>s' t'. refresh_provenance W now 0 t s = (Inr (), s') \<and> get_token (tok_IndexID t) (ws_db s') = Some t'
    \<and> tok_Owner t' = prov_Owner (hd ps) \<and> tok_Owners t' = Some [prov_Owner (hd ps) \<mapsto> 1]
    \<and> tok_Provenances t' = Some (map bson_Provenance ps)
    \<and> (\<forall>owner. map_option at_Balance (get_at (tok_IndexID t, owner) (ws_db s')) =
         (if owner = prov_Owner (hd ps) then Some 1 else map_option (\<lambda>_. 0) (get_at (tok_IndexID t, owner) (ws_db s))))"
proof -
  from refresh_provenance_run [OF assms, of now] obtain d where
    "refresh_provenance W now 0 t s = (Inr (), s\<lparr>ws_db := d, ws_cache := c\<rparr>)"
    "get_token (tok_IndexID t) d = Some (set_provenance now ps t)"
    "\<forall>owner. map_option at_Balance (get_at (tok_IndexID t, owner) d) =
         (if owner = prov_Owner (hd ps) then Some 1 else map_option (\<lambda>_. 0) (get_at (tok_IndexID t, owner) (ws_db s)))" by blast
  then show ?thesis by (intro exI [of _ "s\<lparr>ws_db := d, ws_cache := c\<rparr>"] exI [of _ "set_provenance now ps t"]) simp
qed

theorem provenance_refresh_sets_owner_witness:
  "\<exists>s'. refresh_provenance (sample_worker sample_engine) 300 0 (tezos_sample False) (sample_worker_state False) = (Inr (), s') \<and>
     map_option at_Balance (get_at (''tez-KT1a-1'', ''tz1b'') (ws_db s')) = Some 1 \<and>
     map_option at_Balance (get_at (''tez-KT1a-1'', ''tz1a'') (ws_db s')) = Some 0"
proof -
  let ?W = "sample_worker sample_engine"
  have t: "tok_IndexID (tezos_sample False) = ''tez-KT1a-1''" "tok_OriginTokenInfo (tezos_sample False) = []"
    "tok_Base (tezos_sample False) = \<lparr>base_ID = ''1'', base_Blockchain = ''tezos'', base_Fungible = False,
       base_ContractType = ''fa2'', base_ContractAddress = ''KT1a''\<rparr>" "provs (tezos_sample False) = []"
    by (simp_all add: tezos_sample_def zero_Token_def provs_def)
  have transfers: "en_GetTokenTransfersCount sample_engine c i = Inr 2" "en_GetTokenTransfers sample_engine c i n = Inr [
      \<lparr>ttf_From = None, ttf_To = ''tz1a'', ttf_Level = 10, ttf_Timestamp = 100, ttf_TransactionID = 1\<rparr>,
      \<lparr>ttf_From = Some ''tz1a'', ttf_To = ''tz1b'', ttf_Level = 11, ttf_Timestamp = 200, ttf_TransactionID = 2\<rparr>]"
    "en_GetTransactionHash sample_engine m = Inr (big_Text 10 m)" "en_GetTokenLastActivityTime sample_engine c i = Inr 200" for c i n m
    by (simp_all add: sample_engine_def)
  obtain p ps where "IndexTezosTokenProvenance sample_ext sample_engine ''KT1a'' ''1'' = Inr (p # ps)" and p: "prov_Owner p = ''tz1b''"
    by (simp add: IndexTezosTokenProvenance_def transfers tezos_provenance_def)
  then have "chain_provenances ?W (tok_Base (tezos_sample False) # tok_OriginTokenInfo (tezos_sample False)) c = (Inr (p # ps), c)" for c
    by (simp add: t chain_provenance_def fetchTezosProvenance_def act_simps)
  moreover have "tezos_up_to_date ?W (tezos_sample False) = Inr False"
    by (simp add: tezos_up_to_date_def t IndexTezosTokenLastActivityTime_def transfers)
  moreover have "get_token (tok_IndexID (tezos_sample False)) (ws_db (sample_worker_state False)) = Some (tezos_sample False)"
    by (simp add: t sample_worker_token)
  ultimately obtain s' where "refresh_provenance ?W 300 0 (tezos_sample False) (sample_worker_state False) = (Inr (), s')"
    and bal: "\<And>owner. map_option at_Balance (get_at (''tez-KT1a-1'', owner) (ws_db s')) = (if owner = ''tz1b'' then Some 1
        else map_option (\<lambda>_. 0) (get_at (''tez-KT1a-1'', owner) (ws_db (sample_worker_state False))))"
    using provenance_refresh_sets_owner [where W = ?W and t = "tezos_sample False" and s = "sample_worker_state False" and
        ps = "p # ps" and c = "ws_cache (sample_worker_state False)" and now = 300] mem_store_lawful
    by (auto simp: t(1) p tezos_sample_def zero_Token_def simp del: chain_provenances.simps)
  moreover obtain d where "get_at (''tez-KT1a-1'', ''tz1a'') (ws_db (sample_worker_state False)) = Some d"
    using sample_worker_token(2) by fastforce
  ultimately show ?thesis using bal [of "''tz1a''"] bal [of "''tz1b''"] by (intro exI [of _ s']) simp
qed

text \<open>
  C35: The owners of a Tezos token with a supply of more than 100000 are not indexed, the code says. But when such a token
  has seen activity, its refresh takes the empty list for the list of its owners: the token stays as it is, and every
  account that has some of it is left with none.
\<close>

theorem large_supply_refresh_clears_balances:
  assumes "mongo_store (wk_store W)" and "get_token (tok_IndexID t) s = Some t" and "tok_Fungible t"
    and "tok_Blockchain t = x_TezosBlockchain (wk_ext W)" and "x_TezosBlockchain (wk_ext W) \<noteq> x_EthereumBlockchain (wk_ext W)"
    and "time_Unix (tok_LastRefreshedTime t) \<le> time_Unix (now - delay)"
    and "IndexTezosTokenLastActivityTime (wk_engine W) (tok_ContractAddress t) (tok_ID t) = Inr onChain"
    and "onChain > (case latest (tok_IndexID t) of Some l \<Rightarrow> l | None \<Rightarrow> tok_LastActivityTime t)"
    and "en_GetTokenOwners (wk_engine W) (tok_ContractAddress t) (tok_ID t) 50 0 = Inr owners" and "ow \<in> set owners"
    and "tzo_TotalSupply ow > 100000" and "0 < wk_fuel W"
  shows "\<exists>s'. refresh_ownership W now delay latest t s = (Inr (), s') \<and> get_token (tok_IndexID t) s' = Some t
    \<and> (\<forall>owner. map_option at_Balance (get_at (tok_IndexID t, owner) s') = map_option (\<lambda>_. 0) (get_at (tok_IndexID t, owner) s))"
  by (rule large_supply_refresh [where latest = latest and t = t and s = s, OF assms(1-8) large_supply_owners [OF assms(9-12)]])

theorem large_supply_refresh_clears_balances_witness:
  "\<exists>s'. refresh_ownership (sample_worker large_supply) 300 0 Map.empty (tezos_sample True) (ws_db (sample_worker_state True)) = (Inr (), s')
     \<and> map_option at_Balance (get_at (''tez-KT1a-1'', ''tz1a'') s') = Some 0"
proof -
  have t: "tok_IndexID (tezos_sample True) = ''tez-KT1a-1''" "tok_Fungible (tezos_sample True)"
    "tok_Blockchain (tezos_sample True) = ''tezos''" "tok_LastRefreshedTime (tezos_sample True) = 0"
    "tok_LastActivityTime (tezos_sample True) = 0"
    by (simp_all add: tezos_sample_def zero_Token_def)
  have "time_Unix 0 \<le> time_Unix 300" by (simp add: time_Unix_def zdiv_mono1)
  moreover have "IndexTezosTokenLastActivityTime large_supply c i = Inr 200" "en_GetTokenOwners large_supply c i 50 0 = Inr
     [\<lparr>tzo_Address = ''tz1a'', tzo_Balance = 1, tzo_LastTime = 200, tzo_TotalSupply = 200000\<rparr>]" for c i
    by (simp_all add: large_supply_def sample_engine_def IndexTezosTokenLastActivityTime_def)
  moreover have "get_token ''tez-KT1a-1'' (ws_db (sample_worker_state True)) = Some (tezos_sample True)"
    by (rule sample_worker_token)
  ultimately obtain s' where
    run: "refresh_ownership (sample_worker large_supply) 300 0 Map.empty (tezos_sample True) (ws_db (sample_worker_state True)) = (Inr (), s')"
    and bal: "\<And>owner. map_option at_Balance (get_at (''tez-KT1a-1'', owner) s') =
       map_option (\<lambda>_. 0) (get_at (''tez-KT1a-1'', owner) (ws_db (sample_worker_state True)))"
    using large_supply_refresh_clears_balances [of "sample_worker large_supply" "tezos_sample True" "ws_db (sample_worker_state True)"
        300 0 200 Map.empty "[\<lparr>tzo_Address = ''tz1a'', tzo_Balance = 1, tzo_LastTime = 200, tzo_TotalSupply = 200000\<rparr>]"
        "\<lparr>tzo_Address = ''tz1a'', tzo_Balance = 1, tzo_LastTime = 200, tzo_TotalSupply = 200000\<rparr>"] mem_store_lawful t
    by auto
  have "get_at (''tez-KT1a-1'', ''tz1a'') (ws_db (sample_worker_state True)) \<noteq> None"
    using sample_worker_token(2) by fastforce
  then obtain d where "get_at (''tez-KT1a-1'', ''tz1a'') (ws_db (sample_worker_state True)) = Some d" by blast
  with bal [of "''tz1a''"] have "map_option at_Balance (get_at (''tez-KT1a-1'', ''tz1a'') s') = Some 0" by simp
  with run show ?thesis by blast
qed

text \<open>
  The changes of balances read from a transaction cancel out: those of a Tezos transfer add up to nothing (in 64 bits),
  those of an Ethereum transaction to the tokens minted less the tokens burned.
\<close>

theorem balance_changes_cancel:
  assumes "GetBalanceDiffFromTezosTransaction W tx a = Inr cs" and "GetBalanceDiffFromETHTransaction ds = Inr es"
  shows "i64 (sum_list (map at_Balance cs)) = 0 \<and> sum_list (map at_Balance es) =
     int (length (filter (\<lambda>d. txd_From d = EthereumZeroAddress \<and> txd_To d \<noteq> EthereumZeroAddress) ds)) -
     int (length (filter (\<lambda>d. txd_To d = EthereumZeroAddress \<and> txd_From d \<noteq> EthereumZeroAddress) ds))"
  using tezos_changes_balance [OF assms(1)] assms(2) eth_changes_balance [of ds]
  by (auto simp: GetBalanceDiffFromETHTransaction_def)

definition sample_transfer_parameter :: json where
  "sample_transfer_parameter = JArr [JObj [(''from_'', JStr ''tz1a''), (''txs'', JArr [
     JObj [(''to_'', JStr ''tz1b''), (''amount'', JStr ''3''), (''token_id'', JStr ''1'')],
     JObj [(''to_'', JStr ''tz1c''), (''amount'', JStr ''2''), (''token_id'', JStr ''4'')]])]]"

theorem balance_changes_cancel_witness:
  "\<exists>cs. GetBalanceDiffFromTezosTransaction (sample_worker sample_engine) \<lparr>dtx_Status = ''applied'',
       dtx_Parameter = Some (''transfer'', sample_transfer_parameter), dtx_Target = ''KT1a'', dtx_Sender = ''tz1a'', dtx_Amount = 0,
       dtx_Timestamp = 5\<rparr> old_holder = Inr cs
     \<and> map at_OwnerAccount cs = [''tz1b'', ''tz1a''] \<and> i64 (sum_list (map at_Balance cs)) = 0"
proof -
  have "split ''-'' ''tez-KT1a-1'' = [''tez'', ''KT1a'', ''1'']"
    using sample.split_index_id [of "''tez''" "''KT1a''" "''1''"] by simp
  moreover have "parse_int64 ''3'' = Some 3" by (simp add: parse_int64_def big_SetString_def parse_nat_def digit_val_def)
  ultimately obtain cs where run: "GetBalanceDiffFromTezosTransaction (sample_worker sample_engine) \<lparr>dtx_Status = ''applied'',
       dtx_Parameter = Some (''transfer'', sample_transfer_parameter), dtx_Target = ''KT1a'', dtx_Sender = ''tz1a'', dtx_Amount = 0,
       dtx_Timestamp = 5\<rparr> old_holder = Inr cs" and cs: "map at_OwnerAccount cs = [''tz1b'', ''tz1a'']"
    by (simp add: GetBalanceDiffFromTezosTransaction_def sample_worker_def sample_transfer_parameter_def decodeParametersValue_def
        parseArraryMapInterface_def decode_param_def text_or_def decode_txs_def jlookup_def old_holder_def zero_AccountToken_def
        balance_change_def Let_def)
  from balance_changes_cancel [OF run, of "[]" "[]"] cs run show ?thesis by (simp add: GetBalanceDiffFromETHTransaction_def)
qed

text \<open>
  A token that the engine leaves out, as those of the contracts it skips, is no error for the workflow that indexes
  one token: it saves an asset without a name or a source and then panics on the token that is not there.
\<close>

theorem skipped_token_panics:
  assumes "mongo_store (wk_store W)" and "IndexToken (wk_ext W) (wk_engine W) now contract tokenID = Inr None"
  shows "\<exists>s'. IndexTokenWorkflow_workflow W now [] contract tokenID p v s = (Inl (GoPanic ''index out of range''), s')
    \<and> (\<exists>a\<in>set (db_assets (ws_db s')). asset_IndexID a = asset_index_id [] [])"
  using IndexTokenWorkflow_no_update [OF assms] by (simp add: index_panic_def)

theorem skipped_token_panics_witness:
  "\<exists>s'. IndexTokenWorkflow_workflow (sample_worker skipped_contract) 50 [] ''KT1a'' ''1'' True False (sample_worker_state True) =
     (Inl (GoPanic ''index out of range''), s')"
proof -
  have get: "en_GetContractToken skipped_contract c i = Inr (sample_tzkt_token\<lparr>tz_Contract := KALAMContractAddress\<rparr>)" for c i
    by (simp add: skipped_contract_def)
  have tezos: "x_GetBlockchainByAddress sample_ext ''KT1a'' = ''tezos''" by (simp add: sample_ext_def has_prefix_def)
  have "indexTezosToken sample_ext skipped_contract 50 (sample_tzkt_token\<lparr>tz_Contract := KALAMContractAddress\<rparr>) [] 0 l = None" for l
    by (simp add: indexTezosToken_def index_by_environment_def index_production_def skippedTezosContracts_def Let_def
        skipped_contract_def sample_engine_def)
  then have "IndexToken sample_ext skipped_contract 50 ''KT1a'' ''1'' = Inr None"
    by (simp add: IndexToken_def IndexTezosToken_def get tezos)
  with skipped_token_panics [of "sample_worker skipped_contract" 50 "''KT1a''" "''1''" True False "sample_worker_state True"]
  show ?thesis using mem_store_lawful by auto
qed

end
