(* ===== verification/ApiGateway.thy ===== *)
theory ApiGateway
  imports EngineTezos Workflows
begin

text \<open>
  The REST API of \<open>services/api-gateway\<close>: the handlers (\<open>query.go\<close>, \<open>index.go\<close>, \<open>feralfile.go\<close>, \<open>sales.go\<close>), the
  check of the token (\<open>middleware.go\<close>) and the routes (\<open>routes.go\<close>). A handler is an action on the database, the
  cache and the list of started workflows; it answers with a status and a body. Gin reads a request into the
  struct of the handler, with the defaults the handler sets: these readings are the fields \<open>Bind\<close> and
  \<open>BindQuery\<close> of the context. A call the code starts with \<open>go\<close> runs where it is started, and the order in which a
  Go map is gone through is a parameter. A panic leaves the handler without an answer.
\<close>

section \<open>The server and its requests\<close>

record NFTQueryParams =
  q_Offset :: int
  q_Size :: int
  q_Source :: string
  q_Owner :: string
  q_Text :: string
  q_IDs :: "string list"
  q_CollectionID :: string
  q_BurnedIncluded :: bool
  q_LastUpdatedAt :: int
  q_SortBy :: string

record CollectionQueryParams =
  cq_Offset :: int
  cq_Size :: int
  cq_Creators :: string

record ExchangeRateQueryParams =
  rateq_CurrencyPair :: string
  rateq_Timestamp :: gotime

record IndexOneRequest =
  one_Owner :: string
  one_Contract :: string
  one_TokenID :: string
  one_DryRun :: bool
  one_Preview :: bool

definition no_params :: NFTQueryParams where
  "no_params = \<lparr>q_Offset = 0, q_Size = 0, q_Source = [], q_Owner = [], q_Text = [], q_IDs = [], q_CollectionID = [],
     q_BurnedIncluded = False, q_LastUpdatedAt = 0, q_SortBy = []\<rparr>"

text \<open>The defaults of most handlers: \<open>Offset: 0, Size: 50\<close>.\<close>

definition default_params :: NFTQueryParams where
  "default_params = no_params\<lparr>q_Size := 50\<rparr>"

text \<open>A request: its header, the parameters of its path, and what gin reads into the struct of each handler.\<close>

record gin_context =
  c_Method :: string
  c_Body :: "string res"
  GetHeader :: "string \<Rightarrow> string"
  c_params :: "(string \<times> string) list"
  BindQuery_NFT :: "NFTQueryParams \<Rightarrow> NFTQueryParams res"
  Bind_NFT :: "NFTQueryParams \<Rightarrow> NFTQueryParams res"
  BindQuery_Collections :: "CollectionQueryParams \<Rightarrow> CollectionQueryParams res"
  BindQuery_Rate :: "ExchangeRateQueryParams \<Rightarrow> ExchangeRateQueryParams res"
  BindQuery_Owner :: "string res"
  Bind_AccountNumbers :: "string list res"
  Bind_Reindex :: "(string \<times> int) res"
  Bind_IndexNFTs :: "(string \<times> string) res"
  Bind_IndexNFTsV2 :: "(string \<times> bool) res"
  Bind_IndexOne :: "IndexOneRequest res"
  Bind_IndexID :: "string res"
  Bind_SwapUpdate :: "SwapUpdate res"
  Bind_AssetUpdates :: "AssetUpdates res"
  Bind_Owner :: "string res"
  Bind_Sales :: "GenericSalesTimeSeries list res"

definition c_Param :: "gin_context \<Rightarrow> string \<Rightarrow> string" where
  "c_Param c k = (case map_of (c_params c) k of None \<Rightarrow> [] | Some v \<Rightarrow> v)"

text \<open>How an address in the body of a request is read.\<close>

definition BlockchainAddress_UnmarshalJSON :: "ext \<Rightarrow> json \<Rightarrow> string \<Rightarrow> string res" where
  "BlockchainAddress_UnmarshalJSON X data a =
     (case data of
        JNull \<Rightarrow> Inr a
      | JStr s \<Rightarrow>
          if s = [] then Inr a
          else if x_GetBlockchainByAddress X s = x_EthereumBlockchain X then Inr (EthereumChecksumAddress X s)
          else if x_GetBlockchainByAddress X s = x_UnknownBlockchain X then Inl ErrUnsupportedBlockchain
          else Inr s
      | _ \<Rightarrow> Inl (Errorf ''json: cannot unmarshal into Go value of type string''))"

datatype api_body =
    OkBody
  | OkMessage string
  | Message string
  | TokensBody "DetailedToken list"
  | TokensV2Body "DetailedTokenV2 list"
  | TokenIDsBody "string list"
  | IdentityBody AccountIdentity
  | IdentitiesBody "string \<rightharpoonup> AccountIdentity"
  | TotalBody nat
  | BlockTimeBody gotime
  | CollectionsBody "Collection list"
  | CollectionBody Collection
  | ExchangeRateBody ExchangeRate
  | UpdateBody "AssetUpdates option"
  | ErrorText string
  | GraphQLBody json
  | PlaygroundPage

text \<open>\<open>Running\<close>: the handler is still busy when the fuel ends.\<close>

datatype response = Response int api_body | Running

type_synonym api_state = worker_state
type_synonym handler = "(api_state, response) act"

text \<open>
  The server. \<open>as_ensResolveDomain\<close> and \<open>as_tezosResolveDomain\<close> ask the name services, \<open>as_regex\<close> is the pattern
  match of the database, \<open>as_HexToHash\<close> is \<open>common.HexToHash(s).Hex()\<close>, \<open>as_Ping\<close> the health of the two databases. The GraphQL
  library reads the query in a body (\<open>as_UnmarshalQuery\<close>), parses it into its operations, each with its selections
  as \<open>fmt.Sprint\<close> prints them (\<open>as_ParseQuery\<close>), and answers it (\<open>as_graphqlServer\<close>).
\<close>

record api_server =
  as_apiToken :: string
  as_adminAPIToken :: string
  as_store :: store
  as_cacheStore :: "cache_entry coll"
  as_engine :: engine
  as_cadence :: cadence_client
  as_ensResolveDomain :: "string \<Rightarrow> string res"
  as_tezosResolveDomain :: "string \<Rightarrow> string res"
  as_ethClient :: "string \<Rightarrow> int res"
  as_HexToHash :: "string \<Rightarrow> string"
  as_regex :: "string \<Rightarrow> (string \<Rightarrow> bool) option"
  as_ext :: ext
  as_now :: gotime
  as_map_order :: "string list \<Rightarrow> string list"
  as_fuel :: nat
  as_Ping :: "unit res \<times> unit res"
  as_environment :: string
  as_UnmarshalQuery :: "string \<Rightarrow> string res"
  as_ParseQuery :: "string \<Rightarrow> string list list res"
  as_graphqlServer :: "string \<Rightarrow> handler"

definition on_started :: "(workflow list, 'a) act \<Rightarrow> (api_state, 'a) act" where
  "on_started = zoomA ws_started (\<lambda>w s. s\<lparr>ws_started := w\<rparr>)"

definition JSON :: "int \<Rightarrow> api_body \<Rightarrow> handler" where
  "JSON code b = retA (Response code b)"

definition abortWithError :: "int \<Rightarrow> string \<Rightarrow> handler" where
  "abortWithError code message = retA (Response code (Message message))"

text \<open>\<open>v, err := m()\<close>: an error is a value the code looks at, a panic is not.\<close>

definition tryE :: "('s, 'a) act \<Rightarrow> ('s, 'a res) act" where
  "tryE m = bindA (tryA m) (\<lambda>r. case r of Inl (GoPanic p) \<Rightarrow> throwA (GoPanic p) | _ \<Rightarrow> retA r)"

text \<open>\<open>if err != nil { abortWithError(c, code, message, err); return }\<close>.\<close>

definition or_abort :: "int \<Rightarrow> string \<Rightarrow> (api_state, 'a) act \<Rightarrow> ('a \<Rightarrow> handler) \<Rightarrow> handler" where
  "or_abort code message m k =
     bindA (tryE m) (\<lambda>r. case r of Inl _ \<Rightarrow> abortWithError code message | Inr a \<Rightarrow> k a)"

definition bind_or_400 :: "'a res \<Rightarrow> ('a \<Rightarrow> handler) \<Rightarrow> handler" where
  "bind_or_400 r k = or_abort 400 ''invalid parameters'' (liftR r) k"

section \<open>Reading tokens\<close>

text \<open>The index id of version 1 of the API: the token id of an Ethereum token as a hexadecimal number.\<close>

definition with_old_IndexID :: "ext \<Rightarrow> DetailedToken \<Rightarrow> DetailedToken" where
  "with_old_IndexID X d =
     (let t = dt_Token d
      in if tok_Blockchain t \<noteq> x_EthereumBlockchain X then d
         else case parse_int64 (tok_ID t) of
                None \<Rightarrow> d
              | Some n \<Rightarrow>
                  d\<lparr>dt_Token := t\<lparr>tok_IndexID := TokenIndexID X (x_EthereumBlockchain X) (tok_ContractAddress t) (big_Text 16 n)\<rparr>\<rparr>)"

definition no_filter :: FilterParameter where
  "no_filter = \<lparr>fp_Source = [], fp_IDs = None, fp_BurnedIncluded = False\<rparr>"

definition QueryNFTs :: "api_server \<Rightarrow> gin_context \<Rightarrow> handler" where
  "QueryNFTs s c =
     bind_or_400 (BindQuery_NFT c default_params) (\<lambda>reqParams.
     bind_or_400 (Bind_NFT c reqParams) (\<lambda>reqParams.
     or_abort 500 ''fail to query tokens from indexer store''
       (on_wdb (GetDetailedTokens
          (no_filter\<lparr>fp_IDs := Some (NormalizeIndexIDs (as_ext s) (q_IDs reqParams) True), fp_BurnedIncluded := q_BurnedIncluded reqParams\<rparr>)
          (q_Offset reqParams) (q_Size reqParams))) (\<lambda>tokenInfo.
     JSON 200 (TokensBody (map (with_old_IndexID (as_ext s)) tokenInfo)))))"

definition ListNFTs :: "api_server \<Rightarrow> gin_context \<Rightarrow> handler" where
  "ListNFTs s c =
     bind_or_400 (BindQuery_NFT c default_params) (\<lambda>reqParams.
     if q_Owner reqParams = [] then abortWithError 400 ''invalid parameters''
     else
       or_abort 500 ''fail to query tokens from indexer store''
         (on_wdb (GetDetailedTokensByOwners (as_store s) (split '','' (q_Owner reqParams))
            (no_filter\<lparr>fp_Source := q_Source reqParams\<rparr>) (q_Offset reqParams) (q_Size reqParams))) (\<lambda>tokenInfo.
       JSON 200 (TokensBody tokenInfo)))"

definition OwnedNFTIDs :: "api_server \<Rightarrow> gin_context \<Rightarrow> handler" where
  "OwnedNFTIDs s c =
     bind_or_400 (BindQuery_NFT c no_params) (\<lambda>reqParams.
     if q_Owner reqParams = [] then abortWithError 400 ''invalid parameters''
     else
       or_abort 500 ''fail to query tokens from indexer store''
         (on_wdb (GetOwnedTokenIDsByOwner (as_store s) (q_Owner reqParams))) (\<lambda>tokens.
       JSON 200 (TokenIDsBody tokens)))"

definition SearchNFTs :: "api_server \<Rightarrow> gin_context \<Rightarrow> handler" where
  "SearchNFTs s c =
     bind_or_400 (BindQuery_NFT c default_params) (\<lambda>reqParams.
     if q_Text reqParams = [] then abortWithError 400 ''invalid parameters''
     else
       or_abort 500 ''fail to query tokens from indexer store''
         (on_wdb (GetTokensByTextSearch (as_regex s) (as_store s) (q_Text reqParams) (q_Offset reqParams) (q_Size reqParams))) (\<lambda>tokens.
       JSON 200 (TokensBody tokens)))"

definition GetAccountNFTsV2 :: "api_server \<Rightarrow> gin_context \<Rightarrow> handler" where
  "GetAccountNFTsV2 s c =
     bind_or_400 (BindQuery_NFT c default_params) (\<lambda>reqParams.
     if q_Owner reqParams = [] then abortWithError 400 ''invalid parameters''
     else
       or_abort 500 ''fail to query tokens from indexer store''
         (on_wdb (GetDetailedAccountTokensByOwners (as_store s) (as_fuel s) (split '','' (q_Owner reqParams))
            (no_filter\<lparr>fp_Source := q_Source reqParams\<rparr>) (time_of_Unix (q_LastUpdatedAt reqParams)) (q_SortBy reqParams)
            (q_Offset reqParams) (q_Size reqParams))) (\<lambda>tokensInfo.
       case tokensInfo of None \<Rightarrow> retA Running | Some ts \<Rightarrow> JSON 200 (TokensV2Body ts)))"

definition CountAccountNFTsV2 :: "api_server \<Rightarrow> gin_context \<Rightarrow> handler" where
  "CountAccountNFTsV2 s c =
     bind_or_400 (BindQuery_Owner c) (\<lambda>owner.
     if owner = [] then abortWithError 400 ''invalid parameters''
     else
       or_abort 500 ''fail to count tokens from indexer store''
         (on_wdb (CountDetailedAccountTokensByOwner (as_store s) owner)) (\<lambda>count.
       JSON 200 (TotalBody count)))"

text \<open>\<open>idMap\<close> is the list of the keys of the map, in the order in which the loop goes through them.\<close>

fun IndexMissingTokens :: "api_server \<Rightarrow> string list \<Rightarrow> (api_state, unit) act" where
  "IndexMissingTokens s [] = retA ()"
| "IndexMissingTokens s (redundantID # idMap) =
     (case ParseTokenIndexID (as_ext s) redundantID of
        Inl _ \<Rightarrow> IndexMissingTokens s idMap
      | Inr (_, contract, tokenID) \<Rightarrow>
          bindA (on_started (StartIndexTokenWorkflow (as_cadence s) [] contract tokenID True False)) (\<lambda>_.
          IndexMissingTokens s idMap))"

text \<open>The requested ids, each once, that are not the index id of a token found.\<close>

definition missing_ids :: "string list \<Rightarrow> DetailedTokenV2 list \<Rightarrow> string list" where
  "missing_ids ids tokenInfo = filter (\<lambda>i. i \<notin> (\<lambda>d. tok_IndexID (dt2_Token d)) ` set tokenInfo) (remdups ids)"

definition QueryNFTsV2 :: "api_server \<Rightarrow> gin_context \<Rightarrow> handler" where
  "QueryNFTsV2 s c =
     bind_or_400 (BindQuery_NFT c default_params) (\<lambda>reqParams.
     bind_or_400 (Bind_NFT c reqParams) (\<lambda>reqParams.
     let ids = q_IDs reqParams
     in if length ids > 0 then
          or_abort 500 ''fail to query tokens from indexer store''
            (on_wdb (GetDetailedTokensV2 (no_filter\<lparr>fp_IDs := Some (NormalizeIndexIDs (as_ext s) ids False)\<rparr>)
               (q_Offset reqParams) (q_Size reqParams))) (\<lambda>tokenInfo.
          bindA (if length ids > length tokenInfo then IndexMissingTokens s (as_map_order s (missing_ids ids tokenInfo)) else retA ()) (\<lambda>_.
          JSON 200 (TokensV2Body tokenInfo)))
        else
          or_abort 500 ''fail to query collection tokens from indexer store''
            (on_wdb (GetDetailedTokensByCollectionID (as_store s) (q_CollectionID reqParams) (q_SortBy reqParams)
               (q_Offset reqParams) (q_Size reqParams))) (\<lambda>tokenInfo.
          JSON 200 (TokensV2Body tokenInfo))))"

section \<open>Identities\<close>

definition fetchIdentity :: "api_server \<Rightarrow> string \<Rightarrow> AccountIdentity res" where
  "fetchIdentity s accountNumber =
     (let X = as_ext s; blockchain = x_GetBlockchainByAddress X accountNumber;
          i = zero_AccountIdentity\<lparr>ident_AccountNumber := accountNumber, ident_Blockchain := blockchain\<rparr>
      in if blockchain = x_EthereumBlockchain X then
           bindR (as_ensResolveDomain s accountNumber) (\<lambda>domain. Inr (i\<lparr>ident_Name := domain\<rparr>))
         else if blockchain = x_TezosBlockchain X then
           bindR (as_tezosResolveDomain s accountNumber) (\<lambda>domain. Inr (i\<lparr>ident_Name := domain\<rparr>))
         else Inl ErrUnsupportedBlockchain)"

definition refreshIdentity :: "api_server \<Rightarrow> string \<Rightarrow> (api_state, unit) act" where
  "refreshIdentity s accountNumber =
     (case fetchIdentity s accountNumber of
        Inl _ \<Rightarrow> retA ()
      | Inr i \<Rightarrow> bindA (tryE (on_wdb (IndexIdentity (as_store s) (as_now s) i))) (\<lambda>_. retA ()))"

definition hour_ns :: int where "hour_ns = 3600 * 1000000000"

definition GetIdentity_handler :: "api_server \<Rightarrow> gin_context \<Rightarrow> handler" where
  "GetIdentity_handler s c =
     (let accountNumber = c_Param c ''account_number''
      in bindA (tryE (on_wdb (GetIdentity (as_store s) accountNumber))) (\<lambda>r.
         let account = (case r of Inl _ \<Rightarrow> zero_AccountIdentity | Inr a \<Rightarrow> a)
         in if ident_AccountNumber account \<noteq> [] then
              bindA (if time_Sub (as_now s) (ident_LastUpdatedTime account) > hour_ns then refreshIdentity s accountNumber else retA ()) (\<lambda>_.
              JSON 200 (IdentityBody account))
            else
              case fetchIdentity s accountNumber of
                Inl e \<Rightarrow> abortWithError (if e = ErrUnsupportedBlockchain then 400 else 500) ''fail to query account identity from blockchain''
              | Inr i \<Rightarrow>
                  bindA (tryE (on_wdb (IndexIdentity (as_store s) (as_now s) i))) (\<lambda>_.
                  JSON 200 (IdentityBody i))))"

definition GetIdentities_handler :: "api_server \<Rightarrow> gin_context \<Rightarrow> handler" where
  "GetIdentities_handler s c =
     bind_or_400 (Bind_AccountNumbers c) (\<lambda>accountNumbers.
     or_abort 500 ''fail to resolve name by account numbers'' (on_wdb (GetIdentities (as_store s) accountNumbers)) (\<lambda>ids.
     JSON 200 (IdentitiesBody ids)))"

section \<open>Starting the indexing\<close>

definition startIndexWorkflow :: "api_server \<Rightarrow> string \<Rightarrow> string \<Rightarrow> workflow_call \<Rightarrow> (api_state, unit) act" where
  "startIndexWorkflow s owner blockchain call =
     on_started (log_error (StartWorkflow (as_cadence s)
       \<lparr>wf_ID = ''index-'' @ blockchain @ ''-nft-by-owner-'' @ owner, wf_TaskList = TaskListName,
        wf_ExecutionStartToCloseTimeout = 3600, wf_WorkflowIDReusePolicy = AllowDuplicate,
        wf_RetryPolicy = None, wf_CronSchedule = [], wf_call = call\<rparr>))"

text \<open>The switch of \<open>IndexNFTs\<close> and \<open>ForceReindexNFT\<close>.\<close>

definition start_index_by_owner :: "api_server \<Rightarrow> string \<Rightarrow> string \<Rightarrow> handler" where
  "start_index_by_owner s owner blockchain =
     (let alias = (\<lambda>b. alias_of (as_ext s) b);
          started = (\<lambda>m. bindA m (\<lambda>_. JSON 200 OkBody))
      in if blockchain = ''eth'' then started (startIndexWorkflow s owner blockchain (IndexETHTokenWorkflow owner False))
         else if blockchain = ''tezos'' then started (startIndexWorkflow s owner blockchain (IndexTezosTokenWorkflow owner False))
         else if has_prefix ''0x'' owner then
           started (startIndexWorkflow s owner (alias (x_EthereumBlockchain (as_ext s))) (IndexETHTokenWorkflow owner False))
         else if has_prefix ''tz'' owner then
           started (startIndexWorkflow s owner (alias (x_TezosBlockchain (as_ext s))) (IndexTezosTokenWorkflow owner False))
         else abortWithError 500 ''owner address with unsupported blockchain'')"

definition IndexNFTs :: "api_server \<Rightarrow> gin_context \<Rightarrow> handler" where
  "IndexNFTs s c = bind_or_400 (Bind_IndexNFTs c) (\<lambda>(owner, blockchain). start_index_by_owner s owner blockchain)"

definition ForceReindexNFT :: "api_server \<Rightarrow> gin_context \<Rightarrow> handler" where
  "ForceReindexNFT s c =
     bind_or_400 (Bind_Reindex c) (\<lambda>(owner, lastUpdate).
     let blockchain = x_GetBlockchainByAddress (as_ext s) owner
     in if blockchain = x_UnknownBlockchain (as_ext s) then abortWithError 500 ''unknow blockchain''
        else
          or_abort 500 ''fail to update account status''
            (on_wdb (IndexAccount (as_store s) (as_now s)
               \<lparr>acc_Account = owner, acc_Blockchain = blockchain, acc_LastUpdatedTime = time_of_Unix lastUpdate,
                acc_LastActivityTime = time_of_Unix lastUpdate\<rparr>)) (\<lambda>_.
          start_index_by_owner s owner blockchain))"

definition IndexNFTsV2 :: "api_server \<Rightarrow> gin_context \<Rightarrow> handler" where
  "IndexNFTsV2 s c =
     bind_or_400 (Bind_IndexNFTsV2 c) (\<lambda>(owner, includeHistory).
     let X = as_ext s; blockchain = x_GetBlockchainByAddress X owner
     in if blockchain = x_EthereumBlockchain X then
          bindA (on_started (StartIndexETHTokenWorkflow (as_cadence s) ''indexer'' owner includeHistory)) (\<lambda>_. JSON 200 OkBody)
        else if blockchain = x_TezosBlockchain X then
          bindA (on_started (StartIndexTezosTokenWorkflow (as_cadence s) ''indexer'' owner includeHistory)) (\<lambda>_. JSON 200 OkBody)
        else abortWithError 500 ''owner address with unsupported blockchain'')"

definition IndexOneNFT :: "api_server \<Rightarrow> gin_context \<Rightarrow> handler" where
  "IndexOneNFT s c =
     bind_or_400 (Bind_IndexOne c) (\<lambda>req.
     if one_DryRun req then
       or_abort 500 ''fail to index token''
         (liftR (IndexToken (as_ext s) (as_engine s) (as_now s) (one_Contract req) (one_TokenID req))) (\<lambda>u.
       JSON 200 (UpdateBody u))
     else
       bindA (on_started (StartIndexTokenWorkflow (as_cadence s) (one_Owner req) (one_Contract req) (one_TokenID req) False (one_Preview req))) (\<lambda>_.
       JSON 200 OkBody))"

section \<open>Refreshing tokens\<close>

definition StartRefreshToken :: "api_server \<Rightarrow> Token \<Rightarrow> string \<Rightarrow> (api_state, unit) act" where
  "StartRefreshToken s token indexID =
     (if tok_Fungible token
      then on_started (StartRefreshTokenOwnershipWorkflow (as_cadence s) ''indexer'' indexID 0)
      else on_started (StartRefreshTokenProvenanceWorkflow (as_cadence s) ''indexer'' indexID 0))"

definition IndexHistory :: "api_server \<Rightarrow> gin_context \<Rightarrow> handler" where
  "IndexHistory s c =
     bind_or_400 (Bind_IndexID c) (\<lambda>indexID.
     or_abort 500 ''failed to get token'' (on_wdb (GetTokenByIndexID (as_store s) indexID)) (\<lambda>token.
     case token of
       None \<Rightarrow> abortWithError 400 ''token does not exist''
     | Some t \<Rightarrow> bindA (StartRefreshToken s t indexID) (\<lambda>_. JSON 200 OkBody)))"

definition RefreshProvenance :: "api_server \<Rightarrow> gin_context \<Rightarrow> handler" where
  "RefreshProvenance s c =
     bindA (on_started (StartRefreshTokenProvenanceWorkflow (as_cadence s) ''api-refresh'' (c_Param c ''token_id'') 0)) (\<lambda>_.
     JSON 200 OkBody)"

definition RefreshProvenanceWithOwner :: "api_server \<Rightarrow> gin_context \<Rightarrow> handler" where
  "RefreshProvenanceWithOwner s c =
     (let tokenID = c_Param c ''token_id''
      in bind_or_400 (Bind_Owner c) (\<lambda>owner.
         or_abort 500 ''fail to update provenance''
           (on_wdb (UpdateOwner (as_store s) (as_now s) tokenID owner (as_now s))) (\<lambda>_.
         bindA (on_started (StartRefreshTokenProvenanceWorkflow (as_cadence s) ''api-refresh'' tokenID 0)) (\<lambda>_.
         JSON 200 OkBody))))"

definition SwapNFT :: "api_server \<Rightarrow> gin_context \<Rightarrow> handler" where
  "SwapNFT s c =
     bind_or_400 (Bind_SwapUpdate c) (\<lambda>input.
     bindA (tryE (on_wdb (SwapToken (as_ext s) (as_store s) (as_now s) (as_now s) input))) (\<lambda>r.
     case r of
       Inl e \<Rightarrow> JSON 500 (Message (''unable to swap token. error: '' @ error_text e))
     | Inr swappedTokenIndexID \<Rightarrow>
         bindA (on_started (StartRefreshTokenProvenanceWorkflow (as_cadence s) ''api-swap-nft'' swappedTokenIndexID 0)) (\<lambda>_.
         JSON 200 OkBody)))"

section \<open>Writing assets, sales and demo tokens\<close>

text \<open>The loop over the tokens of \<open>IndexAsset\<close>: the index ids, or none when a token has no id.\<close>

fun token_index_ids :: "ext \<Rightarrow> Token list \<Rightarrow> string list option" where
  "token_index_ids X [] = Some []"
| "token_index_ids X (token # tokens) =
     (if tok_ID token = [] then None
      else map_option ((#) (if tok_IndexID token = [] then TokenIndexID X (tok_Blockchain token) (tok_ContractAddress token) (tok_ID token)
                            else tok_IndexID token)) (token_index_ids X tokens))"

definition IndexAsset_handler :: "api_server \<Rightarrow> gin_context \<Rightarrow> handler" where
  "IndexAsset_handler s c =
     (let assetID = c_Param c ''asset_id''
      in bind_or_400 (Bind_AssetUpdates c) (\<lambda>input.
         let input = (if au_Source input = [] then input\<lparr>au_Source := SourceFeralFile\<rparr> else input)
         in case token_index_ids (as_ext s) (au_Tokens input) of
              None \<Rightarrow> abortWithError 400 ''invalid parameters''
            | Some tokenIndexIDs \<Rightarrow>
                or_abort 500 ''unable to update asset data''
                  (on_wdb (IndexAsset (as_ext s) (as_store s) (as_now s) assetID input)) (\<lambda>_.
                or_abort 500 ''unable to mark account token changed''
                  (on_wdb (MarkAccountTokenChanged (as_store s) (as_now s) tokenIndexIDs)) (\<lambda>_.
                or_abort 500 ''unable to find null provenance tokens''
                  (on_wdb (GetNullProvenanceTokensByIndexIDs (as_store s) tokenIndexIDs)) (\<lambda>nullProvenanceIDs.
                bindA (forA (\<lambda>i. on_started (StartRefreshTokenProvenanceWorkflow (as_cadence s) ''api-indexAsset'' i 0)) nullProvenanceIDs) (\<lambda>_.
                JSON 200 OkBody))))))"

definition SalesTimeSeries :: "api_server \<Rightarrow> gin_context \<Rightarrow> handler" where
  "SalesTimeSeries s c =
     bind_or_400 (Bind_Sales c) (\<lambda>request.
     or_abort 500 ''failed to store record'' (on_wdb (WriteTimeSeriesData (as_ext s) (as_store s) request)) (\<lambda>_.
     JSON 200 OkBody))"

definition CreateDemoTokens :: "api_server \<Rightarrow> gin_context \<Rightarrow> handler" where
  "CreateDemoTokens s c =
     bind_or_400 (BindQuery_NFT c default_params) (\<lambda>reqParams.
     bind_or_400 (Bind_NFT c reqParams) (\<lambda>reqParams.
     if q_Owner reqParams = [] then abortWithError 400 ''invalid parameters''
     else if length (q_IDs reqParams) = 0 then abortWithError 400 ''invalid parameters''
     else if \<exists>i\<in>set (q_IDs reqParams). length (split ''-'' i) \<noteq> 3 then abortWithError 400 ''invalid parameter''
     else
       or_abort 500 ''fail to index all demo tokens''
         (on_wdb (IndexDemoTokens (as_store s) (q_Owner reqParams) (q_IDs reqParams))) (\<lambda>_.
       JSON 200 (OkMessage ''tokens in the system are added''))))"

section \<open>Blocks, collections and exchange rates\<close>

definition GetETHBlockTime_handler :: "api_server \<Rightarrow> gin_context \<Rightarrow> handler" where
  "GetETHBlockTime_handler s c =
     or_abort 500 ''fail to get block''
       (on_wcache (GetETHBlockTime (as_cacheStore s) (as_ethClient s) (as_HexToHash s (c_Param c ''block_hash'')))) (\<lambda>blockTime.
     JSON 200 (BlockTimeBody blockTime))"

definition GetCollectionsByCreators_handler :: "api_server \<Rightarrow> gin_context \<Rightarrow> handler" where
  "GetCollectionsByCreators_handler s c =
     bind_or_400 (BindQuery_Collections c \<lparr>cq_Offset = 0, cq_Size = 50, cq_Creators = []\<rparr>) (\<lambda>reqParams.
     if cq_Creators reqParams = [] then abortWithError 400 ''invalid parameters''
     else
       or_abort 500 ''fail to query collections from indexer store''
         (on_wdb (GetCollectionsByCreators (as_store s) (as_fuel s) (split '','' (cq_Creators reqParams))
            (cq_Offset reqParams) (cq_Size reqParams))) (\<lambda>collections.
       case collections of None \<Rightarrow> retA Running | Some cs \<Rightarrow> JSON 200 (CollectionsBody cs)))"

definition GetCollectionByID_handler :: "api_server \<Rightarrow> gin_context \<Rightarrow> handler" where
  "GetCollectionByID_handler s c =
     or_abort 500 ''fail to query collections from indexer store''
       (on_wdb (GetCollectionByID (as_store s) (c_Param c ''collection_id''))) (\<lambda>collection.
     case collection of
       None \<Rightarrow> abortWithError 500 ''collection is not found''
     | Some col \<Rightarrow> JSON 200 (CollectionBody col))"

definition GetExchangeRate :: "api_server \<Rightarrow> gin_context \<Rightarrow> handler" where
  "GetExchangeRate s c =
     bind_or_400 (BindQuery_Rate c \<lparr>rateq_CurrencyPair = [], rateq_Timestamp = as_now s\<rparr>) (\<lambda>reqParams.
     if \<not> SupportedCurrencyPairs (rateq_CurrencyPair reqParams) then abortWithError 400 ''invalid parameters''
     else
       or_abort 500 ''fail to query exchange rate from indexer store''
         (on_wdb (GetHistoricalExchangeRate (as_store s) (rateq_CurrencyPair reqParams) (rateq_Timestamp reqParams))) (\<lambda>result.
       JSON 200 (ExchangeRateBody result)))"

section \<open>What a handler may write\<close>

lemma keeps_on_started: "keeps (\<lambda>s. P (ws_db s)) (on_started m)"
  by (simp add: keeps_def on_started_def zoomA_def split: prod.split)

lemma keeps_tryE: "keeps P m \<Longrightarrow> keeps P (tryE m)"
  unfolding tryE_def by (intro keeps_bindA keeps_tryA) (auto split: sum.split goerr.split)

lemma keeps_or_abort: "keeps P m \<Longrightarrow> (\<And>a. keeps P (k a)) \<Longrightarrow> keeps P (or_abort code msg m k)"
  unfolding or_abort_def abortWithError_def by (intro keeps_bindA keeps_tryE keeps_case_sum keeps_retA)

lemma keeps_bind_or_400: "(\<And>a. keeps P (k a)) \<Longrightarrow> keeps P (bind_or_400 r k)"
  unfolding bind_or_400_def by (intro keeps_or_abort keeps_liftR)

lemma keeps_JSON: "keeps P (JSON code b)" and keeps_abortWithError: "keeps P (abortWithError code msg)"
  unfolding JSON_def abortWithError_def by (rule keeps_retA)+

lemmas handler_keeps = keeps_rules keeps_on_wdb keeps_on_wcache keeps_on_started keeps_tryE keeps_or_abort keeps_bind_or_400
  keeps_JSON keeps_abortWithError

text \<open>The operations of the store that only read.\<close>

lemma keeps_query_pages: "(\<And>page. keeps P (q page)) \<Longrightarrow> keeps P (query_pages q ids is ts)"
  by (induction q ids "is" ts rule: query_pages.induct) (auto simp: Let_def intro!: handler_keeps)

lemma keeps_aggregations:
  "keeps P (getTokensByAggregation fp o1 n)" "keeps P (getDetailedTokensV2InView fp o1 n)"
  "keeps P (getTokensByAggregationForOwner owner fp o1 n)" "keeps P (getTokensByAggregationByOwners owners fp o1 n)"
  by (simp_all add: keeps_def getTokensByAggregation_def getDetailedTokensV2InView_def Let_def
      getTokensByAggregationForOwner_def getTokensByAggregationByOwners_def split: option.split)

lemma keeps_GetDetailedTokensV2: "keeps P (GetDetailedTokensV2 fp o1 n)"
  unfolding GetDetailedTokensV2_def by (intro handler_keeps keeps_query_pages keeps_aggregations)

lemma keeps_account_pages: "keeps P (account_pages st fuel owners fp t sortBy o1 n pg ats ds)"
  by (induction fuel arbitrary: pg ats ds)
    (auto simp: Let_def intro!: handler_keeps keeps_GetDetailedTokensV2)

lemma keeps_collection_pages: "keeps P (collection_pages st fuel creators o1 n pg cs)"
  by (induction fuel arbitrary: pg cs) (auto simp: Let_def intro!: handler_keeps)

lemma keeps_attach_assets: "keeps P (attach_assets st cache ts ds)"
proof (induction ts arbitrary: cache ds)
  case (Cons t ts)
  show ?case unfolding attach_assets.simps by (intro handler_keeps Cons.IH)
qed (simp add: keeps_retA)

lemma keeps_queries:
  "keeps P (GetDetailedTokens fp o1 n)" "keeps P (GetDetailedTokensByOwners st owners fp o1 n)"
  "keeps P (GetTokensByTextSearch regex st txt o1 n)" "keeps P (GetDetailedAccountTokensByOwners st fuel owners fp t sortBy o1 n)"
  "keeps P (GetDetailedTokensByCollectionID st col sortBy o1 n)" "keeps P (GetCollectionsByCreators st fuel creators o1 n)"
  unfolding GetDetailedTokens_def GetDetailedTokensByOwners_def GetTokensByTextSearch_def GetDetailedAccountTokensByOwners_def
    GetDetailedTokensByCollectionID_def GetCollectionsByCreators_def
  by (intro handler_keeps keeps_query_pages keeps_aggregations keeps_attach_assets keeps_account_pages
      keeps_GetDetailedTokensV2 keeps_collection_pages)+

lemma keeps_lookups:
  "keeps P (GetTokenByIndexID st i)" "keeps P (GetNullProvenanceTokensByIndexIDs st ids)" "keeps P (GetOwnedTokenIDsByOwner st owner)"
  "keeps P (CountDetailedAccountTokensByOwner st owner)" "keeps P (GetIdentity st a)" "keeps P (GetIdentities st as)"
  "keeps P (GetCollectionByID st i)" "keeps P (GetHistoricalExchangeRate st pair t)"
  unfolding GetTokenByIndexID_def GetTokensByIndexIDs_def GetNullProvenanceTokensByIndexIDs_def GetOwnedTokenIDsByOwner_def
    CountDetailedAccountTokensByOwner_def GetIdentity_def GetIdentities_def GetCollectionByID_def GetHistoricalExchangeRate_def
    find_tokens_def find_accountTokens_def
  by (intro handler_keeps)+

text \<open>The database without the identities.\<close>

definition but_identities :: "db \<Rightarrow> db" where
  "but_identities d = d\<lparr>db_identities := []\<rparr>"

lemma keeps_but_identities: "keeps (\<lambda>d. but_identities d = d0) (on_identities m)"
  by (simp add: keeps_def on_identities_def zoomA_def but_identities_def split: prod.split)

lemma keeps_IndexIdentity_only: "keeps (\<lambda>d. but_identities d = d0) (IndexIdentity st now i)"
  unfolding IndexIdentity_def by (intro handler_keeps keeps_but_identities)

lemma keeps_refreshIdentity:
  "(\<And>i. keeps P (IndexIdentity (as_store s) (as_now s) i)) \<Longrightarrow> keeps (\<lambda>t. P (ws_db t)) (refreshIdentity s a)"
  unfolding refreshIdentity_def by (intro handler_keeps)

lemma keeps_IndexMissingTokens: "keeps (\<lambda>t. P (ws_db t)) (IndexMissingTokens s ids)"
proof (induction ids)
  case (Cons i ids)
  show ?case unfolding IndexMissingTokens.simps by (intro handler_keeps Cons.IH)
qed (simp add: keeps_retA)

lemma keeps_StartRefreshToken: "keeps (\<lambda>t. P (ws_db t)) (StartRefreshToken s t i)"
  unfolding StartRefreshToken_def by (intro handler_keeps)

lemma keeps_start_index_by_owner: "keeps (\<lambda>t. P (ws_db t)) (start_index_by_owner s owner blockchain)"
  unfolding start_index_by_owner_def startIndexWorkflow_def Let_def by (intro handler_keeps)

lemmas handler_ops = handler_keeps keeps_queries keeps_GetDetailedTokensV2 keeps_lookups keeps_IndexMissingTokens keeps_StartRefreshToken
  keeps_start_index_by_owner

end
