(* ===== verification/GraphQL.thy ===== *)
theory GraphQL
  imports ApiGateway
begin

text \<open>
  The GraphQL API of \<open>services/api-gateway\<close>: the filter in front of it (\<open>middleware.go\<close>) and the presentation of
  errors (\<open>graphql.go\<close>), the resolvers (\<open>graph/schema.resolvers.go\<close>) over the operations of the store, and the
  conversions to the types of the schema (\<open>graph/resolver.go\<close>, \<open>graph/model/models_gen.go\<close>). The executable schema
  in \<open>graph/generated.go\<close> is generated by gqlgen. A \<open>*T\<close> that the conversions always fill is a \<open>T\<close>.
\<close>

section \<open>The filter\<close>

definition isIntrospectionQuery :: "string \<Rightarrow> bool" where
  "isIntrospectionQuery query =
     (let lowerQuery = to_lower query
      in contains ''__schema'' lowerQuery \<or> (contains ''__type'' lowerQuery \<and> \<not> contains ''__typename'' lowerQuery))"

text \<open>The selections that count: those whose text does not mention \<open>__typename\<close>.\<close>

definition queryCount :: "string list \<Rightarrow> nat" where
  "queryCount selectionSet = length (filter (\<lambda>x. \<not> contains ''__typename'' x) selectionSet)"

fun check_operations :: "string list list \<Rightarrow> unit res" where
  "check_operations [] = Inr ()"
| "check_operations (operation # operations) =
     (if queryCount operation > 1 then Inl (Errorf ''multiple requests in a single operation are not allowed'')
      else check_operations operations)"

definition validateSingleRequestPerOperation :: "api_server \<Rightarrow> string \<Rightarrow> unit res" where
  "validateSingleRequestPerOperation s query = bindR (as_ParseQuery s query) check_operations"

definition graphqlError :: "string \<Rightarrow> string" where
  "graphqlError message = ''{\"errors\":\"'' @ message @ ''\"}''"

definition http_Error :: "string \<Rightarrow> int \<Rightarrow> handler" where
  "http_Error text code = retA (Response code (ErrorText text))"

definition GraphQLMiddleware :: "api_server \<Rightarrow> gin_context \<Rightarrow> (string res \<Rightarrow> handler) \<Rightarrow> handler" where
  "GraphQLMiddleware s c ServeHTTP =
     (if c_Method c \<noteq> ''POST'' then ServeHTTP (c_Body c)
      else
        case c_Body c of
          Inl _ \<Rightarrow> http_Error (graphqlError ''Could not read request body'') 400
        | Inr bodyBytes \<Rightarrow>
            (case as_UnmarshalQuery s bodyBytes of
               Inl _ \<Rightarrow> http_Error (graphqlError ''Error parsing request body'') 400
             | Inr query \<Rightarrow>
                 (case validateSingleRequestPerOperation s query of
                    Inl e \<Rightarrow> http_Error (graphqlError (error_text e)) 400
                  | Inr _ \<Rightarrow>
                      if as_environment s \<noteq> DevelopmentEnvironment \<and> isIntrospectionQuery query
                      then http_Error (graphqlError ''Introspection queries are disabled'') 403
                      else ServeHTTP (Inr bodyBytes))))"

text \<open>The message the client sees: without the hint.\<close>

definition graphqlErrorPresenter :: "string \<Rightarrow> string" where
  "graphqlErrorPresenter message =
     (case split ''Did you mean'' message of [] \<Rightarrow> [] | p # _ \<Rightarrow> TrimSpace p)"

section \<open>The types of the schema\<close>

record GArtist =
  ga_ID :: string
  ga_Name :: string
  ga_URL :: string

record GAssetConfiguration =
  gc_Scaling :: string
  gc_BackgroundColor :: string
  gc_MarginLeft :: float64
  gc_MarginRight :: float64
  gc_MarginTop :: float64
  gc_MarginBottom :: float64
  gc_AutoPlay :: bool
  gc_Looping :: bool
  gc_Interactable :: bool
  gc_Overridable :: bool

record GAssetAttributes =
  gat_Configuration :: GAssetConfiguration
  gat_Scrollable :: bool

record GProjectMetadata =
  gpm_ArtistID :: string
  gpm_ArtistName :: string
  gpm_ArtistURL :: string
  gpm_Artists :: "GArtist list"
  gpm_AssetID :: string
  gpm_Title :: string
  gpm_Description :: string
  gpm_MimeType :: string
  gpm_Medium :: string
  gpm_MaxEdition :: int
  gpm_BaseCurrency :: string
  gpm_BasePrice :: float64
  gpm_Source :: string
  gpm_SourceURL :: string
  gpm_PreviewURL :: string
  gpm_ThumbnailURL :: string
  gpm_GalleryThumbnailURL :: string
  gpm_AssetData :: string
  gpm_AssetURL :: string
  gpm_ArtworkMetadata :: "(string \<times> json) list"

record GVersionedProjectMetadata =
  gvm_Origin :: GProjectMetadata
  gvm_Latest :: GProjectMetadata

record GAsset =
  gas_IndexID :: string
  gas_ThumbnailID :: string
  gas_LastRefreshedTime :: gotime
  gas_Attributes :: "GAssetAttributes option"
  gas_Project :: GVersionedProjectMetadata
  gas_StaticPreviewURLLandscape :: "string option"
  gas_StaticPreviewURLPortrait :: "string option"

record GBaseTokenInfo =
  gb_ID :: string
  gb_Blockchain :: string
  gb_Fungible :: bool
  gb_ContractType :: string
  gb_ContractAddress :: string

record GProvenance =
  gp_Type :: string
  gp_Owner :: string
  gp_Blockchain :: string
  gp_BlockNumber :: int
  gp_Timestamp :: gotime
  gp_TxID :: string
  gp_TxURL :: string

record GOwner =
  gow_Address :: string
  gow_Balance :: int

record GToken =
  gqt_ID :: string
  gqt_Blockchain :: string
  gqt_Fungible :: bool
  gqt_ContractType :: string
  gqt_ContractAddress :: string
  gqt_Edition :: int
  gqt_EditionName :: string
  gqt_MintAt :: gotime
  gqt_MintedAt :: gotime
  gqt_Balance :: int
  gqt_Owner :: string
  gqt_Owners :: "GOwner list"
  gqt_OriginTokenInfo :: "GBaseTokenInfo list"
  gqt_IndexID :: string
  gqt_Source :: string
  gqt_Swapped :: bool
  gqt_Burned :: bool
  gqt_Provenance :: "GProvenance list"
  gqt_LastActivityTime :: gotime
  gqt_LastRefreshedTime :: gotime
  gqt_Asset :: GAsset

record GIdentity =
  gid_AccountNumber :: string
  gid_Blockchain :: string
  gid_Name :: string

record GCollection =
  gcol_ID :: string
  gcol_ExternalID :: string
  gcol_Creators :: "string list"
  gcol_Name :: string
  gcol_Description :: string
  gcol_Items :: int
  gcol_ImageURL :: string
  gcol_Erc721 :: "string list"
  gcol_Erc1155 :: "string list"
  gcol_Fa2 :: "string list"
  gcol_Published :: bool
  gcol_Source :: string
  gcol_ExternalURL :: string
  gcol_Metadata :: "(string \<times> json) list"
  gcol_LastUpdatedTime :: gotime
  gcol_CreatedAt :: gotime

section \<open>The conversions\<close>

definition mapGraphQLProvenance :: "Provenance \<Rightarrow> GProvenance" where
  "mapGraphQLProvenance p =
     \<lparr>gp_Type = prov_Type p, gp_Owner = prov_Owner p, gp_Blockchain = prov_Blockchain p,
      gp_BlockNumber = (case prov_BlockNumber p of None \<Rightarrow> 0 | Some n \<Rightarrow> i64 n),
      gp_Timestamp = prov_Timestamp p, gp_TxID = prov_TxID p, gp_TxURL = prov_TxURL p\<rparr>"

definition mapGraphQLBaseTokenInfo :: "BaseTokenInfo \<Rightarrow> GBaseTokenInfo" where
  "mapGraphQLBaseTokenInfo t =
     \<lparr>gb_ID = base_ID t, gb_Blockchain = base_Blockchain t, gb_Fungible = base_Fungible t,
      gb_ContractType = base_ContractType t, gb_ContractAddress = base_ContractAddress t\<rparr>"

definition mapGraphQLProjectMetadata :: "ProjectMetadata \<Rightarrow> GProjectMetadata" where
  "mapGraphQLProjectMetadata p =
     \<lparr>gpm_ArtistID = pm_ArtistID p, gpm_ArtistName = pm_ArtistName p, gpm_ArtistURL = pm_ArtistURL p,
      gpm_Artists = map (\<lambda>a. \<lparr>ga_ID = artist_ID a, ga_Name = artist_Name a, ga_URL = artist_URL a\<rparr>) (pm_Artists p),
      gpm_AssetID = pm_AssetID p, gpm_Title = pm_Title p, gpm_Description = pm_Description p,
      gpm_MimeType = pm_MIMEType p, gpm_Medium = pm_Medium p, gpm_MaxEdition = pm_MaxEdition p,
      gpm_BaseCurrency = pm_BaseCurrency p, gpm_BasePrice = pm_BasePrice p, gpm_Source = pm_Source p,
      gpm_SourceURL = pm_SourceURL p, gpm_PreviewURL = pm_PreviewURL p, gpm_ThumbnailURL = pm_ThumbnailURL p,
      gpm_GalleryThumbnailURL = pm_GalleryThumbnailURL p, gpm_AssetData = pm_AssetData p, gpm_AssetURL = pm_AssetURL p,
      gpm_ArtworkMetadata = pm_ArtworkMetadata p\<rparr>"

definition mapGraphQLConfiguration :: "AssetConfiguration \<Rightarrow> GAssetConfiguration" where
  "mapGraphQLConfiguration c =
     \<lparr>gc_Scaling = cfg_Scaling c, gc_BackgroundColor = cfg_BackgroundColor c, gc_MarginLeft = cfg_MarginLeft c,
      gc_MarginRight = cfg_MarginRight c, gc_MarginTop = cfg_MarginTop c, gc_MarginBottom = cfg_MarginBottom c,
      gc_AutoPlay = cfg_AutoPlay c, gc_Looping = cfg_Looping c, gc_Interactable = cfg_Interactable c,
      gc_Overridable = cfg_Overridable c\<rparr>"

definition mapGraphQLAsset :: "AssetV2 \<Rightarrow> GAsset" where
  "mapGraphQLAsset a =
     (let attributes = (case av2_Attributes a of
                          None \<Rightarrow> None
                        | Some as \<Rightarrow> (case attr_Configuration as of
                                      None \<Rightarrow> None
                                    | Some c \<Rightarrow> Some \<lparr>gat_Configuration = mapGraphQLConfiguration c, gat_Scrollable = False\<rparr>))
      in \<lparr>gas_IndexID = av2_IndexID a, gas_ThumbnailID = av2_ThumbnailID a, gas_LastRefreshedTime = av2_LastRefreshedTime a,
          gas_Attributes = attributes,
          gas_Project = \<lparr>gvm_Origin = mapGraphQLProjectMetadata (vpm_Origin (av2_ProjectMetadata a)),
                         gvm_Latest = mapGraphQLProjectMetadata (vpm_Latest (av2_ProjectMetadata a))\<rparr>,
          gas_StaticPreviewURLLandscape = av2_StaticPreviewURLLandscape a,
          gas_StaticPreviewURLPortrait = av2_StaticPreviewURLPortrait a\<rparr>)"

text \<open>The entries of a Go map, in the order in which a loop goes through them.\<close>

type_synonym entries = "(string \<rightharpoonup> int) \<Rightarrow> (string \<times> int) list"

definition mapGraphQLToken :: "entries \<Rightarrow> DetailedTokenV2 \<Rightarrow> GToken" where
  "mapGraphQLToken entries d =
     (let t = dt2_Token d
      in \<lparr>gqt_ID = tok_ID t, gqt_Blockchain = tok_Blockchain t, gqt_Fungible = tok_Fungible t,
          gqt_ContractType = base_ContractType (tok_Base t), gqt_ContractAddress = tok_ContractAddress t,
          gqt_Edition = tok_Edition t, gqt_EditionName = tok_EditionName t, gqt_MintAt = tok_MintedAt t,
          gqt_MintedAt = tok_MintedAt t, gqt_Balance = tok_Balance t, gqt_Owner = tok_Owner t,
          gqt_Owners = (case tok_Owners t of
                         None \<Rightarrow> []
                       | Some m \<Rightarrow> map (\<lambda>(address, balance). \<lparr>gow_Address = address, gow_Balance = balance\<rparr>) (entries m)),
          gqt_OriginTokenInfo = map mapGraphQLBaseTokenInfo (tok_OriginTokenInfo t), gqt_IndexID = tok_IndexID t,
          gqt_Source = tok_Source t, gqt_Swapped = tok_Swapped t, gqt_Burned = tok_Burned t,
          gqt_Provenance = map mapGraphQLProvenance (provs t), gqt_LastActivityTime = tok_LastActivityTime t,
          gqt_LastRefreshedTime = tok_LastRefreshedTime t, gqt_Asset = mapGraphQLAsset (dt2_Asset d)\<rparr>)"

definition mapGraphQLIdentity :: "AccountIdentity \<Rightarrow> GIdentity" where
  "mapGraphQLIdentity a =
     \<lparr>gid_AccountNumber = ident_AccountNumber a, gid_Blockchain = ident_Blockchain a, gid_Name = ident_Name a\<rparr>"

definition mapGraphQLCollection :: "Collection \<Rightarrow> GCollection" where
  "mapGraphQLCollection c =
     \<lparr>gcol_ID = col_ID c, gcol_ExternalID = col_ExternalID c, gcol_Creators = col_Creators c, gcol_Name = col_Name c,
      gcol_Description = col_Description c, gcol_Items = col_Items c, gcol_ImageURL = col_ImageURL c,
      gcol_Erc721 = eca_ERC721 (ca_Ethereum (col_Contracts c)), gcol_Erc1155 = eca_ERC1155 (ca_Ethereum (col_Contracts c)),
      gcol_Fa2 = tca_FA2 (ca_Tezos (col_Contracts c)), gcol_Published = col_Published c, gcol_Source = col_Source c,
      gcol_ExternalURL = col_ExternalURL c, gcol_Metadata = col_Metadata c, gcol_LastUpdatedTime = col_LastUpdatedTime c,
      gcol_CreatedAt = col_CreatedAt c\<rparr>"

section \<open>The resolvers\<close>

definition IndexHistory_resolver :: "api_server \<Rightarrow> string \<Rightarrow> (api_state, bool) act" where
  "IndexHistory_resolver s indexID =
     bindA (on_wdb (GetTokenByIndexID (as_store s) indexID)) (\<lambda>token.
     case token of
       None \<Rightarrow> throwA (Errorf ''token does not exist'')
     | Some t \<Rightarrow> bindA (StartRefreshToken s t indexID) (\<lambda>_. retA True))"

definition IndexCollection_resolver :: "api_server \<Rightarrow> string list \<Rightarrow> (api_state, bool) act" where
  "IndexCollection_resolver s creators = throwA (GoPanic ''not implemented: IndexCollection - indexCollection'')"

definition or_default :: "'a \<Rightarrow> 'a option \<Rightarrow> 'a" where
  "or_default d p = (case p of None \<Rightarrow> d | Some v \<Rightarrow> v)"

text \<open>Nothing when the fuel of the pages ends.\<close>

definition Tokens_resolver ::
    "api_server \<Rightarrow> entries \<Rightarrow> string list \<Rightarrow> string list \<Rightarrow> string \<Rightarrow> string \<Rightarrow> gotime option \<Rightarrow> bool \<Rightarrow> string option \<Rightarrow>
     int \<Rightarrow> int \<Rightarrow> (api_state, GToken list option) act" where
  "Tokens_resolver s entries owners ids collectionID source lastUpdatedAt burnedIncluded sortBy offset sz =
     bindA
       (if length ids = 0 \<and> length owners > 0 then
          on_wdb (GetDetailedAccountTokensByOwners (as_store s) (as_fuel s) owners (no_filter\<lparr>fp_Source := source\<rparr>)
            (or_default 0 lastUpdatedAt) (or_default [] sortBy) offset sz)
        else if length owners = 0 \<and> length ids > 0 then
          bindA (on_wdb (GetDetailedTokensV2
            (no_filter\<lparr>fp_IDs := Some (NormalizeIndexIDs (as_ext s) ids False), fp_BurnedIncluded := burnedIncluded\<rparr>) offset sz))
            (\<lambda>ts. retA (Some ts))
        else if collectionID \<noteq> [] then
          bindA (on_wdb (GetDetailedTokensByCollectionID (as_store s) collectionID (or_default [] sortBy) offset sz))
            (\<lambda>ts. retA (Some ts))
        else throwA (Errorf ''invalid query''))
       (\<lambda>tokensInfo. retA (map_option (map (mapGraphQLToken entries)) tokensInfo))"

definition Identity_resolver :: "api_server \<Rightarrow> string \<Rightarrow> (api_state, GIdentity) act" where
  "Identity_resolver s account =
     bindA (on_wdb (GetIdentity (as_store s) account)) (\<lambda>i. retA (mapGraphQLIdentity i))"

definition EthBlockTime_resolver :: "api_server \<Rightarrow> string \<Rightarrow> (api_state, gotime) act" where
  "EthBlockTime_resolver s blockHash =
     on_wcache (GetETHBlockTime (as_cacheStore s) (as_ethClient s) (as_HexToHash s blockHash))"

definition Collections_resolver :: "api_server \<Rightarrow> string list \<Rightarrow> int \<Rightarrow> int \<Rightarrow> (api_state, GCollection list option) act" where
  "Collections_resolver s creators offset sz =
     bindA (on_wdb (GetCollectionsByCreators (as_store s) (as_fuel s) creators offset sz))
       (\<lambda>cs. retA (map_option (map mapGraphQLCollection) cs))"

definition Collection_resolver :: "api_server \<Rightarrow> string \<Rightarrow> (api_state, GCollection) act" where
  "Collection_resolver s i =
     bindA (on_wdb (GetCollectionByID (as_store s) i)) (\<lambda>collectionInfo.
     case collectionInfo of
       None \<Rightarrow> throwA (Errorf ''collection is not found'')
     | Some c \<Rightarrow> retA (mapGraphQLCollection c))"

end
