(* ===== verification/ApiRoutes.thy ===== *)
theory ApiRoutes
  imports GraphQL
begin

text \<open>
  The routes of the API (\<open>routes.go\<close>) and the check of the token (\<open>middleware.go\<close>) in front of some of them, and
  what holds of every request whatever its route: which requests may write to the database. The redirects of gin for a
  trailing slash and the answers of the CORS middleware to preflight requests are not modelled.
\<close>

section \<open>The table of routes\<close>

datatype endpoint =
    E_IndexNFTs | E_RefreshProvenance | E_QueryNFTs | E_SearchNFTs | E_OwnedNFTIDs | E_ListNFTs | E_IndexOneNFT
  | E_GetIdentity | E_GetIdentities | E_SwapNFT | E_IndexAsset | E_GetETHBlockTime | E_GetExchangeRate
  | E_CreateDemoTokens | E_ForceReindexNFT | E_RefreshProvenanceWithOwner | E_SalesTimeSeries
  | E_GetAccountNFTsV2 | E_CountAccountNFTsV2 | E_QueryNFTsV2 | E_IndexNFTsV2 | E_IndexHistory
  | E_GetCollectionsByCreators | E_GetCollectionByID | E_graphqlHandler | E_playgroundHandler | E_healthz

datatype guard = Anyone | ApiToken | AdminApiToken

datatype segment = Lit string | Par string

text \<open>A method, the segments of a pattern, the token that is asked for, and the handler.\<close>

type_synonym route = "string \<times> segment list \<times> guard \<times> endpoint"

definition SetupRoute :: "route list" where
  "SetupRoute =
     [(''POST'', [Lit ''nft'', Lit ''index''], Anyone, E_IndexNFTs),
      (''POST'', [Lit ''nft'', Par ''token_id'', Lit ''provenance''], Anyone, E_RefreshProvenance),
      (''POST'', [Lit ''nft'', Lit ''query''], Anyone, E_QueryNFTs),
      (''GET'', [Lit ''nft'', Lit ''search''], Anyone, E_SearchNFTs),
      (''GET'', [Lit ''nft'', Lit ''owned''], Anyone, E_OwnedNFTIDs),
      (''GET'', [Lit ''nft''], Anyone, E_ListNFTs),
      (''POST'', [Lit ''nft'', Lit ''index_one''], Anyone, E_IndexOneNFT),
      (''GET'', [Lit ''identity'', Par ''account_number''], Anyone, E_GetIdentity),
      (''POST'', [Lit ''identity'', Lit []], Anyone, E_GetIdentities),
      (''POST'', [Lit ''nft'', Lit ''swap''], ApiToken, E_SwapNFT),
      (''PUT'', [Lit ''asset'', Par ''asset_id''], ApiToken, E_IndexAsset),
      (''GET'', [Lit ''eth'', Par ''block_hash'', Lit ''block_time''], Anyone, E_GetETHBlockTime),
      (''GET'', [Lit ''exchange_rate''], Anyone, E_GetExchangeRate),
      (''GET'', [Lit ''v1'', Lit ''nft'', Lit ''owned''], Anyone, E_OwnedNFTIDs),
      (''POST'', [Lit ''v1'', Lit ''admin'', Lit ''demo-tokens'', Lit []], AdminApiToken, E_CreateDemoTokens),
      (''POST'', [Lit ''v1'', Lit ''admin'', Lit ''force-reindex-nft'', Lit []], AdminApiToken, E_ForceReindexNFT),
      (''POST'', [Lit ''v1'', Lit ''feralfile'', Lit ''nft'', Par ''token_id'', Lit ''provenance''], ApiToken, E_RefreshProvenanceWithOwner),
      (''POST'', [Lit ''v1'', Lit ''feralfile'', Lit ''nft'', Lit ''swap''], ApiToken, E_SwapNFT),
      (''PUT'', [Lit ''v1'', Lit ''feralfile'', Lit ''asset'', Par ''asset_id''], ApiToken, E_IndexAsset),
      (''POST'', [Lit ''v1'', Lit ''feralfile'', Lit ''salests''], ApiToken, E_SalesTimeSeries),
      (''GET'', [Lit ''v2'', Lit ''nft''], Anyone, E_GetAccountNFTsV2),
      (''GET'', [Lit ''v2'', Lit ''nft'', Lit ''count''], Anyone, E_CountAccountNFTsV2),
      (''POST'', [Lit ''v2'', Lit ''nft'', Lit ''query''], Anyone, E_QueryNFTsV2),
      (''POST'', [Lit ''v2'', Lit ''nft'', Lit ''index_one''], Anyone, E_IndexOneNFT),
      (''POST'', [Lit ''v2'', Lit ''nft'', Lit ''index''], Anyone, E_IndexNFTsV2),
      (''POST'', [Lit ''v2'', Lit ''nft'', Lit ''index_history''], Anyone, E_IndexHistory),
      (''GET'', [Lit ''v2'', Lit ''collections''], Anyone, E_GetCollectionsByCreators),
      (''GET'', [Lit ''v2'', Lit ''collections'', Par ''collection_id''], Anyone, E_GetCollectionByID),
      (''POST'', [Lit ''v2'', Lit ''graphql''], Anyone, E_graphqlHandler),
      (''GET'', [Lit ''v2'', Lit ''graphiql''], Anyone, E_playgroundHandler),
      (''GET'', [Lit ''healthz''], Anyone, E_healthz)]"

text \<open>A parameter of a path takes one segment that is not empty.\<close>

fun match_path :: "segment list \<Rightarrow> string list \<Rightarrow> (string \<times> string) list option" where
  "match_path [] [] = Some []"
| "match_path (Lit l # ss) (p # ps) = (if l = p then match_path ss ps else None)"
| "match_path (Par n # ss) (p # ps) = (if p = [] then None else map_option ((#) (n, p)) (match_path ss ps))"
| "match_path _ _ = None"

fun find_route :: "route list \<Rightarrow> string \<Rightarrow> string list \<Rightarrow> (guard \<times> endpoint \<times> (string \<times> string) list) option" where
  "find_route [] meth path = None"
| "find_route ((m, pat, g, e) # rs) meth path =
     (if m = meth
      then case match_path pat path of Some params \<Rightarrow> Some (g, e, params) | None \<Rightarrow> find_route rs meth path
      else find_route rs meth path)"

section \<open>Serving a request\<close>

definition TokenAuthenticate :: "string \<Rightarrow> string \<Rightarrow> gin_context \<Rightarrow> handler \<Rightarrow> handler" where
  "TokenAuthenticate tokenKey tokenValue c Next =
     (let token = GetHeader c tokenKey
      in if token \<noteq> tokenValue then abortWithError 403 ''invalid api token'' else Next)"

definition authenticate :: "api_server \<Rightarrow> guard \<Rightarrow> gin_context \<Rightarrow> handler \<Rightarrow> handler" where
  "authenticate s g c Next =
     (case g of
        Anyone \<Rightarrow> Next
      | ApiToken \<Rightarrow> TokenAuthenticate ''API-TOKEN'' (as_apiToken s) c Next
      | AdminApiToken \<Rightarrow> TokenAuthenticate ''API-TOKEN'' (as_adminAPIToken s) c Next)"

definition graphqlHandler :: "api_server \<Rightarrow> gin_context \<Rightarrow> handler" where
  "graphqlHandler s c =
     GraphQLMiddleware s c (\<lambda>b. case b of
         Inl _ \<Rightarrow> http_Error [] 400
       | Inr bodyBytes \<Rightarrow> as_graphqlServer s bodyBytes)"

definition healthz :: "api_server \<Rightarrow> handler" where
  "healthz s =
     (case fst (as_Ping s) of
        Inl e \<Rightarrow> JSON 500 (Message (error_text e))
      | Inr _ \<Rightarrow> (case snd (as_Ping s) of Inl e \<Rightarrow> JSON 500 (Message (error_text e)) | Inr _ \<Rightarrow> JSON 200 OkBody))"

fun run_endpoint :: "endpoint \<Rightarrow> api_server \<Rightarrow> gin_context \<Rightarrow> handler" where
  "run_endpoint E_IndexNFTs s c = IndexNFTs s c"
| "run_endpoint E_RefreshProvenance s c = RefreshProvenance s c"
| "run_endpoint E_QueryNFTs s c = QueryNFTs s c"
| "run_endpoint E_SearchNFTs s c = SearchNFTs s c"
| "run_endpoint E_OwnedNFTIDs s c = OwnedNFTIDs s c"
| "run_endpoint E_ListNFTs s c = ListNFTs s c"
| "run_endpoint E_IndexOneNFT s c = IndexOneNFT s c"
| "run_endpoint E_GetIdentity s c = GetIdentity_handler s c"
| "run_endpoint E_GetIdentities s c = GetIdentities_handler s c"
| "run_endpoint E_SwapNFT s c = SwapNFT s c"
| "run_endpoint E_IndexAsset s c = IndexAsset_handler s c"
| "run_endpoint E_GetETHBlockTime s c = GetETHBlockTime_handler s c"
| "run_endpoint E_GetExchangeRate s c = GetExchangeRate s c"
| "run_endpoint E_CreateDemoTokens s c = CreateDemoTokens s c"
| "run_endpoint E_ForceReindexNFT s c = ForceReindexNFT s c"
| "run_endpoint E_RefreshProvenanceWithOwner s c = RefreshProvenanceWithOwner s c"
| "run_endpoint E_SalesTimeSeries s c = SalesTimeSeries s c"
| "run_endpoint E_GetAccountNFTsV2 s c = GetAccountNFTsV2 s c"
| "run_endpoint E_CountAccountNFTsV2 s c = CountAccountNFTsV2 s c"
| "run_endpoint E_QueryNFTsV2 s c = QueryNFTsV2 s c"
| "run_endpoint E_IndexNFTsV2 s c = IndexNFTsV2 s c"
| "run_endpoint E_IndexHistory s c = IndexHistory s c"
| "run_endpoint E_GetCollectionsByCreators s c = GetCollectionsByCreators_handler s c"
| "run_endpoint E_GetCollectionByID s c = GetCollectionByID_handler s c"
| "run_endpoint E_graphqlHandler s c = graphqlHandler s c"
| "run_endpoint E_playgroundHandler s c = JSON 200 PlaygroundPage"
| "run_endpoint E_healthz s c = healthz s"

definition serve :: "api_server \<Rightarrow> string list \<Rightarrow> gin_context \<Rightarrow> handler" where
  "serve s path c =
     (case find_route SetupRoute (c_Method c) path of
        None \<Rightarrow> JSON 404 (Message ''this is not what you are looking for'')
      | Some (g, e, params) \<Rightarrow>
          let c = c\<lparr>c_params := params\<rparr> in authenticate s g c (run_endpoint e s c))"

text \<open>A panic is not an error that a handler can report.\<close>

definition is_panic :: "goerr \<Rightarrow> bool" where
  "is_panic e = (case e of GoPanic _ \<Rightarrow> True | _ \<Rightarrow> False)"

section \<open>The GraphQL library\<close>

text \<open>What every resolver keeps, whatever it is asked for.\<close>

definition resolvers_keep :: "api_server \<Rightarrow> (api_state \<Rightarrow> bool) \<Rightarrow> bool" where
  "resolvers_keep s R =
     ((\<forall>i. keeps R (IndexHistory_resolver s i)) \<and> (\<forall>creators. keeps R (IndexCollection_resolver s creators)) \<and>
      (\<forall>ord owners ids col src t burned sortBy o1 n. keeps R (Tokens_resolver s ord owners ids col src t burned sortBy o1 n)) \<and>
      (\<forall>a. keeps R (Identity_resolver s a)) \<and> (\<forall>h. keeps R (EthBlockTime_resolver s h)) \<and>
      (\<forall>creators o1 n. keeps R (Collections_resolver s creators o1 n)) \<and> (\<forall>i. keeps R (Collection_resolver s i)))"

text \<open>
  The server of the GraphQL library reaches the state of the program only through the resolvers: it reads the query, runs
  some of them on arguments of its choice and writes the answer.
\<close>

locale graphql_library =
  fixes s :: api_server
  assumes runs_resolvers: "resolvers_keep s R \<Longrightarrow> keeps R (as_graphqlServer s q)"
begin

lemma keeps_graphqlHandler: "resolvers_keep s R \<Longrightarrow> keeps R (graphqlHandler s c)"
  unfolding graphqlHandler_def GraphQLMiddleware_def http_Error_def
  by (intro handler_ops runs_resolvers)

end

text \<open>Every resolver of the schema reads the database: some start workflows, and the block times are cached.\<close>

lemma resolvers_read: "resolvers_keep s (\<lambda>t. P (ws_db t))"
  unfolding resolvers_keep_def IndexHistory_resolver_def IndexCollection_resolver_def Tokens_resolver_def Identity_resolver_def
    EthBlockTime_resolver_def Collections_resolver_def Collection_resolver_def
  by (intro conjI allI handler_ops)

section \<open>Requests without a token\<close>

text \<open>
  The token that an operation requires, by what it does: the operations of the administrator, the updates of tokens, assets
  and sales for Feral File, and the public ones.
\<close>

definition required_token :: "api_server \<Rightarrow> endpoint \<Rightarrow> string option" where
  "required_token s e =
     (if e \<in> {E_SwapNFT, E_IndexAsset, E_RefreshProvenanceWithOwner, E_SalesTimeSeries} then Some (as_apiToken s)
      else if e \<in> {E_CreateDemoTokens, E_ForceReindexNFT} then Some (as_adminAPIToken s) else None)"

definition routed_to :: "string \<Rightarrow> string list \<Rightarrow> endpoint option" where
  "routed_to meth path = map_option (\<lambda>(g, e, ps). e) (find_route SetupRoute meth path)"

lemma find_route_in: "find_route rs m path = Some (g, e, ps) \<Longrightarrow> \<exists>pat. (m, pat, g, e) \<in> set rs"
  by (induction rs m path rule: find_route.induct) (auto split: if_splits option.splits)

lemma route_guard: "find_route SetupRoute m path = Some (g, e, ps) \<Longrightarrow>
    required_token s e = (case g of Anyone \<Rightarrow> None | ApiToken \<Rightarrow> Some (as_apiToken s) | AdminApiToken \<Rightarrow> Some (as_adminAPIToken s))"
  by (drule find_route_in) (auto simp: SetupRoute_def required_token_def)

lemma open_endpoint_keeps:
  assumes "graphql_library s" and "required_token s e = None"
  shows "keeps (\<lambda>t. but_identities (ws_db t) = d0) (run_endpoint e s c)"
  using assms(2)
  by (cases e)
    (simp_all add: required_token_def IndexNFTs_def RefreshProvenance_def QueryNFTs_def SearchNFTs_def OwnedNFTIDs_def ListNFTs_def
      IndexOneNFT_def GetIdentity_handler_def GetIdentities_handler_def GetETHBlockTime_handler_def GetExchangeRate_def
      GetAccountNFTsV2_def CountAccountNFTsV2_def QueryNFTsV2_def IndexNFTsV2_def IndexHistory_def
      GetCollectionsByCreators_handler_def GetCollectionByID_handler_def healthz_def Let_def del: fun_upd_apply split del: if_split,
      (intro handler_ops graphql_library.keeps_graphqlHandler [OF assms(1) resolvers_read [where P = "\<lambda>d. but_identities d = d0"]]
        keeps_refreshIdentity keeps_IndexIdentity_only)+)

text \<open>A request without the required token is refused before the handler.\<close>

lemma refused:
  assumes "routed_to (c_Method c) path = Some e" and "required_token s e = Some token" and "GetHeader c ''API-TOKEN'' \<noteq> token"
  shows "serve s path c t = (Inr (Response 403 (Message ''invalid api token'')), t)"
proof -
  obtain g ps where r: "find_route SetupRoute (c_Method c) path = Some (g, e, ps)"
    using assms(1) by (auto simp: routed_to_def)
  from route_guard [OF this, of s] assms(2,3) show ?thesis
    by (auto simp: serve_def r authenticate_def TokenAuthenticate_def abortWithError_def retA_run split: guard.splits)
qed

text \<open>
  C7: A request that does not carry the very token its operation requires - the administrator's for the demo tokens and the
  forced indexing, the ordinary one for swaps, updates of assets, provenance with an owner and sales - is answered with 403 and
  changes nothing at all. A request for any other operation, GraphQL included, and one that no route takes change nothing in
  the database but the identities: assets, tokens, provenance, balances, accounts, collections, sales and rates stay
  what they are. The GraphQL library is assumed to touch the state only by running the resolvers.
\<close>

theorem no_token_no_write:
  assumes "graphql_library s"
    and "\<forall>e. routed_to (c_Method c) path = Some e \<longrightarrow> required_token s e \<noteq> Some (GetHeader c ''API-TOKEN'')"
  shows "but_identities (ws_db (snd (serve s path c t))) = but_identities (ws_db t) \<and>
    (\<forall>e. routed_to (c_Method c) path = Some e \<and> required_token s e \<noteq> None \<longrightarrow>
       serve s path c t = (Inr (Response 403 (Message ''invalid api token'')), t))"
proof (cases "routed_to (c_Method c) path")
  case None
  then show ?thesis by (simp add: routed_to_def serve_def JSON_def retA_run)
next
  case (Some e)
  then obtain g ps where r: "find_route SetupRoute (c_Method c) path = Some (g, e, ps)" by (auto simp: routed_to_def)
  show ?thesis
  proof (cases "required_token s e")
    case None
    have "keeps (\<lambda>u. but_identities (ws_db u) = but_identities (ws_db t)) (run_endpoint e s (c\<lparr>c_params := ps\<rparr>))"
      by (rule open_endpoint_keeps [OF assms(1) None])
    from keepsD [OF this, of t] show ?thesis
      using route_guard [OF r, of s] None Some
      by (simp add: serve_def r authenticate_def split: guard.splits)
  next
    case (Some token)
    with refused [OF \<open>routed_to _ _ = Some e\<close> Some] assms(2) \<open>routed_to _ _ = Some e\<close> show ?thesis by auto
  qed
qed

section \<open>Missing tokens\<close>

text \<open>A service that accepts every workflow, and keys of a map that come in some order.\<close>

definition accepting :: "api_server \<Rightarrow> bool" where
  "accepting s = ((\<forall>w ws. StartWorkflow (as_cadence s) w ws = (Inr (), ws @ [w])) \<and> 
     (\<forall>ids. set (as_map_order s ids) = set ids \<and> (distinct ids \<longrightarrow> distinct (as_map_order s ids))))"

definition index_workflows :: "ext \<Rightarrow> string list \<Rightarrow> workflow list" where
  "index_workflows X ids = concat (map (\<lambda>i. case ParseTokenIndexID X i of
       Inl _ \<Rightarrow> [] | Inr (_, contract, tokenID) \<Rightarrow> [index_token_workflow [] contract tokenID True False]) ids)"

lemma start_accepted:
  assumes "accepting s"
  shows "on_started (log_error (StartWorkflow (as_cadence s) w)) t = (Inr (), t\<lparr>ws_started := ws_started t @ [w]\<rparr>)"
  using assms by (simp add: on_started_def log_error_def act_simps accepting_def)

lemma IndexMissingTokens_run:
  assumes "accepting s"
  shows "IndexMissingTokens s ids t = (Inr (), t\<lparr>ws_started := ws_started t @ index_workflows (as_ext s) ids\<rparr>)"
proof (induction ids arbitrary: t)
  case (Cons i ids)
  then show ?case
    by (auto simp: index_workflows_def StartIndexTokenWorkflow_def bindA_run start_accepted [OF assms] split: sum.split)
qed (simp add: index_workflows_def retA_run)

lemma or_abort_ok: "m t = (Inr a, t') \<Longrightarrow> or_abort code msg m k t = k a t'"
  by (simp add: or_abort_def tryE_def act_simps)

lemma bind_or_400_ok: "bind_or_400 (Inr a) k = k a"
  by (rule ext) (simp add: bind_or_400_def or_abort_ok liftR_run)

lemma on_wdb_ok: "m (ws_db t) = (r, d) \<Longrightarrow> on_wdb m t = (r, t\<lparr>ws_db := d\<rparr>)"
  by (simp add: on_wdb_def zoomA_run)

lemma QueryNFTsV2_run:
  assumes "accepting s" and "BindQuery_NFT c default_params = Inr p0" and "Bind_NFT c p0 = Inr p" and "q_IDs p \<noteq> []"
    and "GetDetailedTokensV2 (no_filter\<lparr>fp_IDs := Some (NormalizeIndexIDs (as_ext s) (q_IDs p) False)\<rparr>) (q_Offset p) (q_Size p)
           (ws_db t) = (Inr ts, d)"
  shows "QueryNFTsV2 s c t = (Inr (Response 200 (TokensV2Body ts)), t\<lparr>ws_db := d, ws_started := ws_started t @
    (if length ts < length (q_IDs p) then index_workflows (as_ext s) (as_map_order s (missing_ids (q_IDs p) ts)) else [])\<rparr>)"
  using assms(4)
  by (simp add: QueryNFTsV2_def assms(2,3) bind_or_400_ok Let_def or_abort_def tryE_def on_wdb_def act_simps assms(5)
      IndexMissingTokens_run [OF assms(1)] JSON_def)

lemma set_index_workflows: "set (index_workflows X ids) =
    {index_token_workflow [] contract tokenID True False | i b contract tokenID.
       i \<in> set ids \<and> ParseTokenIndexID X i = Inr (b, contract, tokenID)}"
  by (auto simp: index_workflows_def split: sum.splits prod.splits) metis

text \<open>
  C36: The query for tokens by their ids answers with the tokens of the page, and when it has found fewer tokens than
  ids it starts the indexing of exactly the requested ids that are well formed and not the index id of a token in
  the answer, also of those that lie on another page or that are stored in a normalized form of the id.
\<close>

theorem query_indexes_missing_tokens:
  assumes "accepting s" and "BindQuery_NFT c default_params = Inr p0" and "Bind_NFT c p0 = Inr p" and "q_IDs p \<noteq> []"
    and "GetDetailedTokensV2 (no_filter\<lparr>fp_IDs := Some (NormalizeIndexIDs (as_ext s) (q_IDs p) False)\<rparr>) (q_Offset p) (q_Size p)
           (ws_db t) = (Inr ts, d)"
    and "length ts < length (q_IDs p)"
  shows "\<exists>t' new. QueryNFTsV2 s c t = (Inr (Response 200 (TokensV2Body ts)), t') \<and> ws_started t' = ws_started t @ new \<and>
    set new = {index_token_workflow [] contract tokenID True False | i b contract tokenID.
      i \<in> set (q_IDs p) \<and> i \<notin> (\<lambda>d. tok_IndexID (dt2_Token d)) ` set ts \<and>
      ParseTokenIndexID (as_ext s) i = Inr (b, contract, tokenID)}"
proof -
  have "set (as_map_order s (missing_ids (q_IDs p) ts)) = set (missing_ids (q_IDs p) ts)"
    using assms(1) by (simp add: accepting_def)
  then have "set (index_workflows (as_ext s) (as_map_order s (missing_ids (q_IDs p) ts))) =
     {index_token_workflow [] contract tokenID True False | i b contract tokenID.
      i \<in> set (q_IDs p) \<and> i \<notin> (\<lambda>d. tok_IndexID (dt2_Token d)) ` set ts \<and>
      ParseTokenIndexID (as_ext s) i = Inr (b, contract, tokenID)}"
    by (simp add: set_index_workflows missing_ids_def)
  with QueryNFTsV2_run [OF assms(1-5)] assms(6) show ?thesis by auto
qed

section \<open>One operation behind two interfaces\<close>

lemma or_abort_error:
  "m t = (Inl e, t') \<Longrightarrow> \<not> is_panic e \<Longrightarrow> or_abort code msg m k t = (Inr (Response code (Message msg)), t')"
  by (cases e) (simp_all add: or_abort_def tryE_def act_simps abortWithError_def is_panic_def)

lemma or_abort_panic:
  "m t = (Inl e, t') \<Longrightarrow> is_panic e \<Longrightarrow> or_abort code msg m k t = (Inl e, t')"
  by (cases e) (simp_all add: or_abort_def tryE_def act_simps is_panic_def)

lemma StartRefreshToken_ok: "\<exists>t'. StartRefreshToken s tk i t = (Inr (), t')"
  by (auto simp: StartRefreshToken_def StartRefreshTokenOwnershipWorkflow_def StartRefreshTokenProvenanceWorkflow_def
      on_started_def log_error_def act_simps split: prod.split)

text \<open>
  The refresh of the history of a token gives the same through REST and through GraphQL: the state after both is the
  same, and REST answers 200 exactly when GraphQL answers true, 400 when there is no such token, and 500 on any
  other error.
\<close>

theorem index_history_same:
  assumes "Bind_IndexID c = Inr i" and "IndexHistory_resolver s i t = (r, t')"
  shows "case r of
      Inr b \<Rightarrow> b \<and> IndexHistory s c t = (Inr (Response 200 OkBody), t')
    | Inl e \<Rightarrow> if is_panic e then IndexHistory s c t = (Inl e, t')
        else \<exists>code msg. IndexHistory s c t = (Inr (Response code (Message msg)), t') \<and> code \<in> {400, 500} \<and>
          (code = 400 \<longleftrightarrow> fst (GetTokenByIndexID (as_store s) i (ws_db t)) = Inr None)"
proof -
  obtain q d where q: "GetTokenByIndexID (as_store s) i (ws_db t) = (q, d)" by fastforce
  have run: "on_wdb (GetTokenByIndexID (as_store s) i) t = (q, t\<lparr>ws_db := d\<rparr>)" by (rule on_wdb_ok) (rule q)
  show ?thesis
  proof (cases q)
    case (Inl e)
    with assms(2) run have "r = Inl e" "t' = t\<lparr>ws_db := d\<rparr>" by (auto simp: IndexHistory_resolver_def bindA_run)
    with run Inl q show ?thesis
      by (cases "is_panic e") (simp_all add: IndexHistory_def assms(1) bind_or_400_ok or_abort_error or_abort_panic)
  next
    case (Inr o1)
    show ?thesis
    proof (cases o1)
      case None
      with assms(2) run Inr show ?thesis
        by (auto simp: IndexHistory_resolver_def IndexHistory_def assms(1) bind_or_400_ok bindA_run q
            or_abort_ok abortWithError_def act_simps is_panic_def)
    next
      case (Some tk)
      obtain u where "StartRefreshToken s tk i (t\<lparr>ws_db := d\<rparr>) = (Inr (), u)" using StartRefreshToken_ok by blast
      with assms(2) run Inr Some show ?thesis
        by (auto simp: IndexHistory_resolver_def IndexHistory_def assms(1) bind_or_400_ok bindA_run
            or_abort_ok JSON_def act_simps)
    qed
  qed
qed

text \<open>
  The tokens of the accounts of some owners are the same through REST and through GraphQL, for the same parameters:
  GraphQL gives the tokens of the answer of REST in the form of its schema.
\<close>

theorem account_tokens_same:
  assumes "BindQuery_NFT c default_params = Inr p" and "q_Owner p \<noteq> []"
    and "Tokens_resolver s ord (split '','' (q_Owner p)) [] col (q_Source p) (Some (time_of_Unix (q_LastUpdatedAt p)))
           burned (Some (q_SortBy p)) (q_Offset p) (q_Size p) t = (r, t')"
  shows "case r of
      Inr None \<Rightarrow> GetAccountNFTsV2 s c t = (Inr Running, t')
    | Inr (Some gs) \<Rightarrow> \<exists>ts. GetAccountNFTsV2 s c t = (Inr (Response 200 (TokensV2Body ts)), t') \<and> gs = map (mapGraphQLToken ord) ts
    | Inl e \<Rightarrow> if is_panic e then GetAccountNFTsV2 s c t = (Inl e, t')
        else GetAccountNFTsV2 s c t = (Inr (Response 500 (Message ''fail to query tokens from indexer store'')), t')"
proof -
  let ?m = "GetDetailedAccountTokensByOwners (as_store s) (as_fuel s) (split '','' (q_Owner p))
      (no_filter\<lparr>fp_Source := q_Source p\<rparr>) (time_of_Unix (q_LastUpdatedAt p)) (q_SortBy p) (q_Offset p) (q_Size p)"
  obtain q d where q: "?m (ws_db t) = (q, d)" by fastforce
  have run: "on_wdb ?m t = (q, t\<lparr>ws_db := d\<rparr>)" by (rule on_wdb_ok) (rule q)
  have rest: "GetAccountNFTsV2 s c t = or_abort 500 ''fail to query tokens from indexer store'' (on_wdb ?m)
      (\<lambda>x. case x of None \<Rightarrow> retA Running | Some ts \<Rightarrow> JSON 200 (TokensV2Body ts)) t"
    using assms(2) by (simp add: GetAccountNFTsV2_def assms(1) bind_or_400_ok)
  have gql: "r = (case q of Inl e \<Rightarrow> Inl e | Inr x \<Rightarrow> Inr (map_option (map (mapGraphQLToken ord)) x))" "t' = t\<lparr>ws_db := d\<rparr>"
    using assms(3) run by (auto simp: Tokens_resolver_def or_default_def bindA_run retA_run split: sum.splits)
  show ?thesis
  proof (cases q)
    case (Inl e)
    with gql rest run show ?thesis by (simp add: or_abort_error or_abort_panic)
  next
    case (Inr x)
    with gql rest run show ?thesis by (cases x) (auto simp: or_abort_ok JSON_def retA_run)
  qed
qed

section \<open>Burned tokens\<close>

lemma view_rows_tokens: "r \<in> set (view_rows s) \<Longrightarrow> fst r \<in> set (db_tokens s)"
  by (auto simp: view_rows_def token_asset_rows_def neq_Nil_conv split: list.split_asm)

lemma burned_not_found:
  assumes "\<forall>tk\<in>set (db_tokens d). tok_IndexID tk = i \<longrightarrow> tok_Burned tk" and "0 < n" and "n < 2 ^ 63"
  shows "GetDetailedTokensV2 (no_filter\<lparr>fp_IDs := Some [i]\<rparr>) 0 n d = (Inr [], d)"
proof -
  have none: "filter (\<lambda>(t, a, pv). tok_IndexID t = i \<and> \<not> tok_Burned t) (view_rows d) = []"
    using assms(1) view_rows_tokens [of _ d] by (auto simp: filter_empty_conv)
  have "getDetailedTokensV2InView (no_filter\<lparr>fp_IDs := Some [i]\<rparr>) 0 1 d = (Inr [], d)"
    using none by (simp add: getDetailedTokensV2InView_def no_filter_def unburned_def Let_def agg_page_def act_simps)
  moreover have "i64 n = n" using assms(2,3) by (simp add: i64_id)
  ultimately show ?thesis using assms(2)
    by (auto simp: GetDetailedTokensV2_def fp_ids_def no_filter_def Let_def slice_def getPageCounts_def QueryPageSize_def
        act_simps upt_rec)
qed

text \<open>
  A request for one token, all of whose documents are marked as burned, finds nothing, even when it asks for burned
  tokens too: it answers with the empty list and starts to index the token again.
\<close>

theorem burned_token_indexed_again:
  assumes "accepting s" and "BindQuery_NFT c default_params = Inr p0" and "Bind_NFT c p0 = Inr p"
    and "q_IDs p = [i]" and "q_BurnedIncluded p" and "q_Offset p = 0" and "0 < q_Size p" and "q_Size p < 2 ^ 63"
    and "ParseTokenIndexID (as_ext s) i = Inr (b, contract, tokenID)" and "normalize_one (as_ext s) False i = Some i"
    and "\<forall>tk\<in>set (db_tokens (ws_db t)). tok_IndexID tk = i \<longrightarrow> tok_Burned tk"
  shows "QueryNFTsV2 s c t = (Inr (Response 200 (TokensV2Body [])),
    t\<lparr>ws_started := ws_started t @ [index_token_workflow [] contract tokenID True False]\<rparr>)"
proof -
  have "GetDetailedTokensV2 (no_filter\<lparr>fp_IDs := Some (NormalizeIndexIDs (as_ext s) (q_IDs p) False)\<rparr>)
      (q_Offset p) (q_Size p) (ws_db t) = (Inr [], ws_db t)"
    using burned_not_found [OF assms(11,7,8)] by (simp add: assms(4,6,10))
  from QueryNFTsV2_run [OF assms(1-3) _ this] have run: "QueryNFTsV2 s c t = (Inr (Response 200 (TokensV2Body [])),
      t\<lparr>ws_db := ws_db t, ws_started := ws_started t @ index_workflows (as_ext s) (as_map_order s [i])\<rparr>)"
    by (simp add: assms(4) missing_ids_def)
  have "set (as_map_order s [i]) = {i}" and "distinct (as_map_order s [i])" using assms(1) by (simp_all add: accepting_def)
  then have "as_map_order s [i] = [i]" by (cases "as_map_order s [i]" rule: remdups_adj.cases) auto
  with run show ?thesis using assms(9) by (simp add: index_workflows_def)
qed

section \<open>Writing an asset\<close>

context mongo_store
begin

lemma MarkAccountTokenChanged_run:
  "MarkAccountTokenChanged st now ids d = (Inr (), d\<lparr>db_accountTokens := map (\<lambda>a.
     if at_IndexID a \<in> set ids then a\<lparr>at_LastRefreshedTime := now\<rparr> else a) (db_accountTokens d)\<rparr>)"
proof -
  obtain r where "UpdateMany (accountTokenCollection st) (\<lambda>a. at_IndexID a \<in> set ids) (\<lambda>a. a\<lparr>at_LastRefreshedTime := now\<rparr>)
      (db_accountTokens d) = (Inr r, map (\<lambda>a. if at_IndexID a \<in> set ids then a\<lparr>at_LastRefreshedTime := now\<rparr> else a) (db_accountTokens d))"
    using accountTokens.update_many_keeping [of "\<lambda>a. a\<lparr>at_LastRefreshedTime := now\<rparr>" "\<lambda>a. at_IndexID a \<in> set ids" "db_accountTokens d"]
    by (auto simp: at_key_def same_by_def)
  then show ?thesis
    by (simp add: MarkAccountTokenChanged_def on_accountTokens_def act_simps)
qed

lemma GetNullProvenanceTokensByIndexIDs_run:
  "GetNullProvenanceTokensByIndexIDs st ids d =
     (Inr (map tok_IndexID (filter (\<lambda>t. tok_IndexID t \<in> set ids \<and> \<not> tok_Fungible t \<and> tok_Provenances t = None) (db_tokens d))), d)"
  by (simp add: GetNullProvenanceTokensByIndexIDs_def bindA_run find_tokens_run retA_run)

end

definition provenance_workflow :: "string \<Rightarrow> string \<Rightarrow> workflow" where
  "provenance_workflow caller indexID =
     \<lparr>wf_ID = WorkflowIDIndexTokenProvenanceByIndexID caller indexID, wf_TaskList = ProvenanceTaskListName,
      wf_ExecutionStartToCloseTimeout = 3600, wf_WorkflowIDReusePolicy = AllowDuplicate,
      wf_RetryPolicy = Some (10, 10), wf_CronSchedule = [], wf_call = RefreshTokenProvenanceWorkflow [indexID] 0\<rparr>"

lemma start_provenance_refreshes:
  assumes "accepting s"
  shows "forA (\<lambda>i. on_started (StartRefreshTokenProvenanceWorkflow (as_cadence s) caller i 0)) ids t =
    (Inr (), t\<lparr>ws_started := ws_started t @ map (provenance_workflow caller) ids\<rparr>)"
proof (induction ids arbitrary: t)
  case (Cons i ids)
  have "on_started (StartRefreshTokenProvenanceWorkflow (as_cadence s) caller i 0) t =
      (Inr (), t\<lparr>ws_started := ws_started t @ [provenance_workflow caller i]\<rparr>)"
    by (simp only: StartRefreshTokenProvenanceWorkflow_def start_accepted [OF assms] provenance_workflow_def)
  with Cons show ?case by (simp add: bindA_run)
qed (simp add: retA_run)

text \<open>
  C32: An update of an asset whose tokens have ids is carried out and answered with 200: every account token of the
  tokens in it carries the time of the update, and the provenance of exactly those of these tokens that have none
  yet, and are not fungible, is refreshed.
\<close>

theorem asset_update_marks_and_refreshes:
  assumes "mongo_store (as_store s)" and "accepting s" and "Bind_AssetUpdates c = Inr input"
    and "token_index_ids (as_ext s) (au_Tokens input) = Some ids"
  shows "\<exists>t' new. IndexAsset_handler s c t = (Inr (Response 200 OkBody), t') \<and>
    (\<forall>a\<in>set (db_accountTokens (ws_db t')). at_IndexID a \<in> set ids \<longrightarrow> at_LastRefreshedTime a = as_now s) \<and>
    ws_started t' = ws_started t @ new \<and>
    wf_call ` set new = {RefreshTokenProvenanceWorkflow [tok_IndexID tk] 0 | tk. tk \<in> set (db_tokens (ws_db t')) \<and>
         tok_IndexID tk \<in> set ids \<and> \<not> tok_Fungible tk \<and> tok_Provenances tk = None}"
proof -
  define input' where "input' = (if au_Source input = [] then input\<lparr>au_Source := SourceFeralFile\<rparr> else input)"
  have toks: "au_Tokens input' = au_Tokens input" by (simp add: input'_def)
  let ?index = "IndexAsset (as_ext s) (as_store s) (as_now s) (c_Param c ''asset_id'') input'"
  let ?mark = "MarkAccountTokenChanged (as_store s) (as_now s) ids" and ?null = "GetNullProvenanceTokensByIndexIDs (as_store s) ids"
  obtain r d1 where run1: "?index (ws_db t) = (r, d1)" by fastforce
  have "r = Inr ()" by (rule mongo_store.IndexAsset_post(1) [OF assms(1) run1])
  with run1 have index: "on_wdb ?index t = (Inr (), t\<lparr>ws_db := d1\<rparr>)" by (simp add: on_wdb_def zoomA_run)
  define d where "d = d1\<lparr>db_accountTokens := map (\<lambda>a.
     if at_IndexID a \<in> set ids then a\<lparr>at_LastRefreshedTime := as_now s\<rparr> else a) (db_accountTokens d1)\<rparr>"
  define nulls where "nulls = map tok_IndexID (filter (\<lambda>t. tok_IndexID t \<in> set ids \<and> \<not> tok_Fungible t \<and> tok_Provenances t = None) (db_tokens d))"
  have mark: "on_wdb ?mark (t\<lparr>ws_db := d1\<rparr>) = (Inr (), t\<lparr>ws_db := d\<rparr>)"
    by (simp add: on_wdb_def zoomA_run mongo_store.MarkAccountTokenChanged_run [OF assms(1)] d_def)
  have null: "on_wdb ?null (t\<lparr>ws_db := d\<rparr>) = (Inr nulls, t\<lparr>ws_db := d\<rparr>)"
    by (simp add: on_wdb_def zoomA_run mongo_store.GetNullProvenanceTokensByIndexIDs_run [OF assms(1)] nulls_def)
  let ?new = "map (provenance_workflow ''api-indexAsset'') nulls"
  have "IndexAsset_handler s c t = (Inr (Response 200 OkBody), t\<lparr>ws_db := d, ws_started := ws_started t @ ?new\<rparr>)"
    by (simp add: IndexAsset_handler_def assms(3) bind_or_400_ok Let_def toks assms(4) or_abort_ok [of "on_wdb ?index", OF index]
        or_abort_ok [of "on_wdb ?mark", OF mark] or_abort_ok [of "on_wdb ?null", OF null] bindA_run
        start_provenance_refreshes [OF assms(2)] JSON_def retA_run flip: input'_def)
  moreover have "wf_call ` set ?new = {RefreshTokenProvenanceWorkflow [tok_IndexID tk] 0 | tk. tk \<in> set (db_tokens d) \<and>
         tok_IndexID tk \<in> set ids \<and> \<not> tok_Fungible tk \<and> tok_Provenances tk = None}"
    by (auto simp: nulls_def provenance_workflow_def image_iff)
  ultimately show ?thesis by (auto simp: d_def)
qed

section \<open>An instance\<close>

text \<open>A server over the collections in memory, whose GraphQL library answers a query with the identity it names.\<close>

definition sample_api_base :: api_server where
  "sample_api_base =
     \<lparr>as_apiToken = ''secret'', as_adminAPIToken = ''admin'', as_store = mem_store [], as_cacheStore = mem_coll (\<lambda>_ _. False),
      as_engine = sample_engine, as_cadence = mem_cadence, as_ensResolveDomain = (\<lambda>a. Inr ''ann.eth''),
      as_tezosResolveDomain = (\<lambda>a. Inr ''ann.tez''), as_ethClient = (\<lambda>h. Inr 100), as_HexToHash = (\<lambda>h. h),
      as_regex = (\<lambda>p. Some (\<lambda>x. contains p x)), as_ext = sample_ext, as_now = 1000, as_map_order = (\<lambda>ids. ids), as_fuel = 9,
      as_Ping = (Inr (), Inr ()), as_environment = ProductionEnvironment, as_UnmarshalQuery = (\<lambda>b. Inr b),
      as_ParseQuery = (\<lambda>q. Inr [[q]]), as_graphqlServer = (\<lambda>q. JSON 200 (GraphQLBody JNull))\<rparr>"

definition sample_graphqlServer :: "string \<Rightarrow> handler" where
  "sample_graphqlServer q =
     bindA (tryE (Identity_resolver sample_api_base q)) (\<lambda>r.
     JSON 200 (GraphQLBody (case r of Inl _ \<Rightarrow> JNull | Inr i \<Rightarrow> JStr (gid_Name i))))"

definition sample_api :: api_server where
  "sample_api = sample_api_base\<lparr>as_graphqlServer := sample_graphqlServer\<rparr>"

lemma sample_api_simps [simp]:
  "as_store sample_api = mem_store []" "as_ext sample_api = sample_ext" "as_now sample_api = 1000" "as_fuel sample_api = 9"
  "as_apiToken sample_api = ''secret''" "as_adminAPIToken sample_api = ''admin''" "as_environment sample_api = ProductionEnvironment"
  "as_UnmarshalQuery sample_api b = Inr b" "as_ParseQuery sample_api b = Inr [[b]]"
  by (simp_all add: sample_api_def sample_api_base_def)

lemma sample_Identity_resolver: "Identity_resolver sample_api_base = Identity_resolver sample_api"
  by (rule ext) (simp add: Identity_resolver_def sample_api_def)

interpretation sample_graphql: graphql_library sample_api
proof
  fix R q assume "resolvers_keep sample_api R"
  then have "keeps R (Identity_resolver sample_api q)" by (simp add: resolvers_keep_def)
  then show "keeps R (as_graphqlServer sample_api q)"
    by (simp add: sample_api_def [THEN arg_cong [where f = as_graphqlServer]] sample_graphqlServer_def sample_Identity_resolver)
      (intro handler_ops)
qed

lemma sample_accepting: "accepting sample_api"
  by (simp add: accepting_def sample_api_def sample_api_base_def mem_cadence_def)

definition sample_context :: "string \<Rightarrow> NFTQueryParams \<Rightarrow> gin_context" where
  "sample_context meth p =
     \<lparr>c_Method = meth, c_Body = Inr [], GetHeader = (\<lambda>k. []), c_params = [], BindQuery_NFT = (\<lambda>_. Inr p),
      Bind_NFT = (\<lambda>p. Inr p), BindQuery_Collections = Inr, BindQuery_Rate = Inr, BindQuery_Owner = Inr ''tz1a'',
      Bind_AccountNumbers = Inr [], Bind_Reindex = Inr (''tz1a'', 0), Bind_IndexNFTs = Inr (''tz1a'', []),
      Bind_IndexNFTsV2 = Inr (''tz1a'', False), Bind_IndexOne = Inl (Errorf ''EOF''), Bind_IndexID = Inr ''tez-KT1a-1'',
      Bind_SwapUpdate = Inl (Errorf ''EOF''), Bind_AssetUpdates = Inr \<lparr>au_ID = [], au_Source = [],
        au_ProjectMetadata = zero_ProjectMetadata, au_BlockchainMetadata = JNull, au_Tokens = [zero_Token\<lparr>
          tok_IndexID := ''tez-KT1a-1'', tok_Base := zero_BaseTokenInfo\<lparr>base_ID := ''1''\<rparr>\<rparr>]\<rparr>,
      Bind_Owner = Inr ''tz1a'', Bind_Sales = Inr []\<rparr>"

definition sample_query :: string where
  "sample_query = ''{__type(name:T){fields{name __typename}}}''"

lemma sample_query_text:
  "contains ''__typename'' sample_query" "contains ''__typename'' (to_lower sample_query)"
  "\<not> contains ''__schema'' (to_lower sample_query)" "contains ''__type(name:'' sample_query"
  by code_simp+

definition sample_burned :: Token where
  "sample_burned = zero_Token\<lparr>tok_IndexID := ''tez-KT1a-1'', tok_Burned := True\<rparr>"

definition sample_api_state :: "Token list \<Rightarrow> api_state" where
  "sample_api_state ts = \<lparr>ws_db = empty_db\<lparr>db_tokens := ts, db_accountTokens := [zero_AccountToken\<lparr>at_IndexID := ''tez-KT1a-1''\<rparr>]\<rparr>,
     ws_cache = [], ws_started = []\<rparr>"

section \<open>Properties\<close>

theorem no_token_no_write_witness:
  "serve sample_api [''v1'', ''admin'', ''force-reindex-nft'', []]
     ((sample_context ''POST'' default_params)\<lparr>GetHeader := (\<lambda>k. ''secret'')\<rparr>) (sample_api_state []) =
   (Inr (Response 403 (Message ''invalid api token'')), sample_api_state [])"
proof -
  let ?c = "(sample_context ''POST'' default_params)\<lparr>GetHeader := (\<lambda>k. ''secret'')\<rparr>"
  let ?path = "[''v1'', ''admin'', ''force-reindex-nft'', []]"
  have route: "routed_to (c_Method ?c) ?path = Some E_ForceReindexNFT"
    by (simp add: routed_to_def SetupRoute_def sample_context_def)
  then have "\<forall>e. routed_to (c_Method ?c) ?path = Some e \<longrightarrow> required_token sample_api e \<noteq> Some (GetHeader ?c ''API-TOKEN'')"
    by (simp add: required_token_def)
  from no_token_no_write [OF sample_graphql.graphql_library_axioms this, of "sample_api_state []"] route show ?thesis
    by (simp add: required_token_def)
qed

text \<open>
  The filter against introspection and batches can be evaded: a query whose every selection mentions \<open>__typename\<close>
  anywhere, if only as a part of an alias or inside the selection, is passed on, however many selections it has and whether or
  not it asks for \<open>__type\<close>.
\<close>

theorem typename_evades_filter:
  assumes "c_Method c = ''POST''" and "c_Body c = Inr b" and "as_UnmarshalQuery s b = Inr query"
    and "as_ParseQuery s query = Inr operations"
    and "\<forall>operation\<in>set operations. \<forall>selection\<in>set operation. contains ''__typename'' selection"
    and "contains ''__typename'' (to_lower query)" and "\<not> contains ''__schema'' (to_lower query)"
  shows "GraphQLMiddleware s c h t = h (Inr b) t"
proof -
  have "check_operations operations = Inr ()" using assms(5)
    by (induction operations) (auto simp: queryCount_def filter_empty_conv)
  then show ?thesis
    using assms by (simp add: GraphQLMiddleware_def validateSingleRequestPerOperation_def isIntrospectionQuery_def)
qed

theorem typename_evades_filter_witness:
  "contains ''__type(name:'' sample_query \<and>
   GraphQLMiddleware sample_api ((sample_context ''POST'' default_params)\<lparr>c_Body := Inr sample_query\<rparr>)
     (\<lambda>b. JSON 200 PlaygroundPage) (sample_api_state []) = JSON 200 PlaygroundPage (sample_api_state [])"
  using sample_query_text
  by (intro conjI typename_evades_filter [where operations = "[[sample_query]]"]) (simp_all add: sample_context_def)

theorem query_indexes_missing_tokens_witness:
  "\<exists>t' new. QueryNFTsV2 sample_api (sample_context ''POST'' (default_params\<lparr>q_IDs := [''tez-KT1a-1'', ''bad'']\<rparr>)) (sample_api_state [])
       = (Inr (Response 200 (TokensV2Body [])), t') \<and>
     ws_started t' = ws_started (sample_api_state []) @ new \<and>
     set new = {index_token_workflow [] contract tokenID True False | i b contract tokenID.
      i \<in> set [''tez-KT1a-1'', ''bad''] \<and> i \<notin> (\<lambda>d. tok_IndexID (dt2_Token d)) ` set [] \<and>
      ParseTokenIndexID sample_ext i = Inr (b, contract, tokenID)}"
proof -
  let ?p = "default_params\<lparr>q_IDs := [''tez-KT1a-1'', ''bad'']\<rparr>"
  have "NormalizeIndexIDs sample_ext [''tez-KT1a-1'', ''bad''] False = [''tez-KT1a-1'']" by code_simp
  moreover have "GetDetailedTokensV2 (no_filter\<lparr>fp_IDs := Some [''tez-KT1a-1'']\<rparr>) 0 50 (ws_db (sample_api_state [])) =
      (Inr [], ws_db (sample_api_state []))"
    by (rule burned_not_found) (simp_all add: sample_api_state_def)
  ultimately have "GetDetailedTokensV2 (no_filter\<lparr>fp_IDs := Some (NormalizeIndexIDs (as_ext sample_api) (q_IDs ?p) False)\<rparr>)
      (q_Offset ?p) (q_Size ?p) (ws_db (sample_api_state [])) = (Inr [], ws_db (sample_api_state []))"
    by (simp add: default_params_def no_params_def)
  from query_indexes_missing_tokens [OF sample_accepting _ _ _ this, of "sample_context ''POST'' ?p" ?p] show ?thesis
    by (simp add: sample_context_def)
qed

theorem index_history_same_witness:
  "IndexHistory sample_api (sample_context ''POST'' default_params) (sample_api_state [sample_burned]) =
   (Inr (Response 200 OkBody), snd (IndexHistory_resolver sample_api ''tez-KT1a-1'' (sample_api_state [sample_burned])))"
proof -
  obtain r t' where run: "IndexHistory_resolver sample_api ''tez-KT1a-1'' (sample_api_state [sample_burned]) = (r, t')" by fastforce
  have "r = Inr True"
    using run mem_st.GetTokenByIndexID_run [of "[]" "''tez-KT1a-1''" "ws_db (sample_api_state [sample_burned])"]
      StartRefreshToken_ok [of sample_api sample_burned "''tez-KT1a-1''" "sample_api_state [sample_burned]"]
    by (auto simp: IndexHistory_resolver_def bindA_run on_wdb_def zoomA_run sample_api_state_def get_token_def sample_burned_def retA_run)
  with index_history_same [OF _ run, of "sample_context ''POST'' default_params"] run show ?thesis
    by (simp add: sample_context_def)
qed

theorem burned_token_indexed_again_witness:
  "QueryNFTsV2 sample_api (sample_context ''POST'' (default_params\<lparr>q_IDs := [''tez-KT1a-1''], q_BurnedIncluded := True\<rparr>))
       (sample_api_state [sample_burned]) =
   (Inr (Response 200 (TokensV2Body [])), (sample_api_state [sample_burned])
     \<lparr>ws_started := ws_started (sample_api_state [sample_burned]) @ [index_token_workflow [] ''KT1a'' ''1'' True False]\<rparr>)"
proof (rule burned_token_indexed_again [OF sample_accepting, where p0 = "default_params\<lparr>q_IDs := [''tez-KT1a-1''], q_BurnedIncluded := True\<rparr>"
      and p = "default_params\<lparr>q_IDs := [''tez-KT1a-1''], q_BurnedIncluded := True\<rparr>"])
  show "ParseTokenIndexID (as_ext sample_api) ''tez-KT1a-1'' = Inr (''tez'', ''KT1a'', ''1'')" by simp code_simp
  show "normalize_one (as_ext sample_api) False ''tez-KT1a-1'' = Some ''tez-KT1a-1''" by simp code_simp
qed (simp_all add: sample_context_def default_params_def no_params_def sample_api_state_def sample_burned_def)

theorem account_tokens_same_witness:
  "GetAccountNFTsV2 sample_api (sample_context ''GET'' (default_params\<lparr>q_Owner := ''tz1b''\<rparr>)) (sample_api_state []) =
   (Inr (Response 200 (TokensV2Body [])), sample_api_state [])"
proof -
  let ?p = "default_params\<lparr>q_Owner := ''tz1b''\<rparr>"
  have owners: "split '','' ''tz1b'' = [''tz1b'']" by code_simp
  have "Tokens_resolver sample_api (\<lambda>m. []) (split '','' (q_Owner ?p)) [] [] (q_Source ?p) (Some (time_of_Unix (q_LastUpdatedAt ?p)))
      False (Some (q_SortBy ?p)) (q_Offset ?p) (q_Size ?p) (sample_api_state []) = (Inr (Some []), sample_api_state [])"
    by (simp add: owners Tokens_resolver_def default_params_def no_params_def no_filter_def on_wdb_def act_simps
        GetDetailedAccountTokensByOwners_def eval_nat_numeral mem_store_def mem_coll_def find_page_def page_def QueryPageSize_def Let_def account_filter_def
        sample_api_state_def zero_AccountToken_def empty_db_def account_sort_def sort_newest_def)
  from account_tokens_same [OF _ _ this, of "sample_context ''GET'' ?p"] show ?thesis
    by (simp add: sample_context_def)
qed

theorem asset_update_marks_and_refreshes_witness:
  "\<exists>t'. IndexAsset_handler sample_api (sample_context ''PUT'' default_params) (sample_api_state [sample_burned]) =
      (Inr (Response 200 OkBody), t') \<and>
    filter (\<lambda>a. at_IndexID a = ''tez-KT1a-1'' \<and> at_LastRefreshedTime a \<noteq> 1000) (db_accountTokens (ws_db t')) = []"
proof -
  have "Bind_AssetUpdates (sample_context ''PUT'' default_params) = Inr (projr (Bind_AssetUpdates (sample_context ''PUT'' default_params)))"
    and "token_index_ids (as_ext sample_api) (au_Tokens (projr (Bind_AssetUpdates (sample_context ''PUT'' default_params)))) = Some [''tez-KT1a-1'']"
    by (simp_all add: sample_context_def zero_BaseTokenInfo_def)
  from asset_update_marks_and_refreshes [OF _ sample_accepting this, of "sample_api_state [sample_burned]"] show ?thesis
    by (auto simp: mem_store_lawful filter_empty_conv)
qed

end
