(* ===== verification/ApiClient.thy ===== *)
theory ApiClient
  imports ApiRoutes Etherscan
begin

text \<open>
  The client of the API gateway (\<open>sdk/api-gateway/client.go\<close>), composed with the gateway: the JSON it sends is read the way
  the handler reads it, and the request goes through the table of routes.
\<close>

section \<open>The request on the wire\<close>

text \<open>The body that \<open>IndexOne\<close> encodes, with the names of its map.\<close>

definition IndexOne_body :: "string \<Rightarrow> string \<Rightarrow> bool \<Rightarrow> bool \<Rightarrow> json" where
  "IndexOne_body contract tokenID dryRun preview =
     JObj [(''contract'', JStr contract), (''tokenID'', JStr tokenID), (''dryrun'', JBool dryRun), (''preview'', JBool preview)]"

definition decode_bool :: "json \<Rightarrow> bool res" where
  "decode_bool v = (case v of JNull \<Rightarrow> Inr False | JBool b \<Rightarrow> Inr b | _ \<Rightarrow> Inl (Errorf ''json: cannot unmarshal''))"

text \<open>How the body is bound to the request of \<open>IndexOneNFT\<close>: a contract and a token id are required.\<close>

definition read_IndexOneRequest :: "ext \<Rightarrow> json \<Rightarrow> IndexOneRequest res" where
  "read_IndexOneRequest X body =
     bindR (decode_struct body) (\<lambda>m.
     bindR (BlockchainAddress_UnmarshalJSON X (jlookup m ''owner'') []) (\<lambda>owner.
     bindR (BlockchainAddress_UnmarshalJSON X (jlookup m ''contract'') []) (\<lambda>contract.
     bindR (decode_string (jlookup m ''tokenID'')) (\<lambda>tokenID.
     bindR (decode_bool (jlookup m ''dryrun'')) (\<lambda>dryRun.
     bindR (decode_bool (jlookup m ''preview'')) (\<lambda>preview.
       if contract = [] \<or> tokenID = [] then Inl (Errorf ''required'')
       else Inr \<lparr>one_Owner = owner, one_Contract = contract, one_TokenID = tokenID, one_DryRun = dryRun, one_Preview = preview\<rparr>))))))"

section \<open>The client\<close>

text \<open>The rest of the request, with its headers, is \<open>c\<close>. A handler that panics gives no answer.\<close>

definition SDK_IndexOne :: "api_server \<Rightarrow> gin_context \<Rightarrow> string \<Rightarrow> string \<Rightarrow> bool \<Rightarrow> bool \<Rightarrow> (api_state, unit) act" where
  "SDK_IndexOne s c contract tokenID dryRun preview =
     bindA (tryA (serve s [''v2'', ''nft'', ''index_one'']
        (c\<lparr>c_Method := ''POST'', Bind_IndexOne := read_IndexOneRequest (as_ext s) (IndexOne_body contract tokenID dryRun preview)\<rparr>))) (\<lambda>r.
     case r of
       Inl e \<Rightarrow> throwA e
     | Inr Running \<Rightarrow> retA ()
     | Inr (Response code b) \<Rightarrow> if code \<noteq> 200 then throwA (Errorf ''index_one failed with status code'') else retA ())"

section \<open>The client and the gateway\<close>

lemma serve_index_one:
  "serve s [''v2'', ''nft'', ''index_one''] (c\<lparr>c_Method := ''POST'', Bind_IndexOne := req\<rparr>) =
     IndexOneNFT s (c\<lparr>c_Method := ''POST'', Bind_IndexOne := req, c_params := []\<rparr>)"
  by (simp add: serve_def SetupRoute_def authenticate_def)

lemma UnmarshalJSON_no_panic: "BlockchainAddress_UnmarshalJSON X v a = Inl e \<Longrightarrow> \<not> is_panic e"
  by (auto simp: BlockchainAddress_UnmarshalJSON_def is_panic_def split: json.splits if_splits)

lemma read_IndexOneRequest_body:
  "read_IndexOneRequest X (IndexOne_body contract tokenID dryRun preview) =
     bindR (BlockchainAddress_UnmarshalJSON X (JStr contract) []) (\<lambda>addr.
       if addr = [] \<or> tokenID = [] then Inl (Errorf ''required'')
       else Inr \<lparr>one_Owner = [], one_Contract = addr, one_TokenID = tokenID, one_DryRun = dryRun, one_Preview = preview\<rparr>)"
  by (simp add: read_IndexOneRequest_def IndexOne_body_def jlookup_def decode_struct_def decode_string_def decode_bool_def
      BlockchainAddress_UnmarshalJSON_def [of _ JNull])

text \<open>
  A client that asks to index a token over the gateway has exactly the effect of starting the workflow for the contract in its
  normal form, without an owner; with a contract or a token id that the gateway cannot read, or an empty one, it gets an error and
  nothing changes. Without a dry run, it hears nothing of a workflow that could not be started.
\<close>

theorem client_index_one_starts_workflow:
  "SDK_IndexOne s c contract tokenID False preview t =
     (case BlockchainAddress_UnmarshalJSON (as_ext s) (JStr contract) [] of
        Inl e \<Rightarrow> (Inl (Errorf ''index_one failed with status code''), t)
      | Inr addr \<Rightarrow>
          if addr = [] \<or> tokenID = [] then (Inl (Errorf ''index_one failed with status code''), t)
          else (Inr (), snd (on_started (StartIndexTokenWorkflow (as_cadence s) [] addr tokenID False preview) t)))"
proof -
  note defs = SDK_IndexOne_def serve_index_one IndexOneNFT_def bind_or_400_def or_abort_def tryE_def read_IndexOneRequest_body
    abortWithError_def JSON_def act_simps
  show ?thesis
  proof (cases "BlockchainAddress_UnmarshalJSON (as_ext s) (JStr contract) []")
    case (Inl e)
    with UnmarshalJSON_no_panic [OF Inl] show ?thesis by (cases e) (simp_all add: defs is_panic_def)
  next
    case (Inr addr)
    then show ?thesis
      by (cases "addr = [] \<or> tokenID = []") (auto simp: defs on_started_def StartIndexTokenWorkflow_def log_error_def split: prod.splits)
  qed
qed

end
