(* ===== verification/ImageReader.thy ===== *)
theory ImageReader
  imports Utils
begin

text \<open>
  How the image indexer gets a file: the download with its check of the address
  (\<open>services/image-indexer/downloader.go\<close>), the screenshots of vector graphics (\<open>image_reader.go\<close>), and the download of
  \<open>utils_downloader.go\<close>. The HTTP client, the browser and the detection of a content type are parameters.
\<close>

section \<open>A body that is read in pieces\<close>

text \<open>
  The first read of a body into a buffer gives some bytes, at most as many as the buffer has, and may report the end
  of the body or an error; then there is a rest, which may break off with an error.
\<close>

datatype read_end = EOF | ReadError goerr

record http_stream =
  hs_StatusCode :: int
  hs_First :: "string \<times> read_end option"
  hs_Rest :: "string \<times> goerr option"

definition header_size :: nat where "header_size = 512"

text \<open>\<open>make([]byte, 512)\<close> after a read of \<open>bytes\<close> into it.\<close>

definition filled_header :: "string \<Rightarrow> string" where
  "filled_header bytes = bytes @ replicate (header_size - length bytes) (CHR 0x00)"

definition content_of :: "http_stream \<Rightarrow> string" where
  "content_of r = fst (hs_First r) @ fst (hs_Rest r)"

section \<open>The address of a download\<close>

text \<open>\<open>URL.Hostname\<close>: the host without its port and without the brackets of an IPv6 address.\<close>

definition url_Hostname :: "string \<Rightarrow> string" where
  "url_Hostname host =
     (if CHR '':'' \<notin> set host then host
      else if CHR '']'' \<in> set host then trim_prefix ''['' (takeWhile (\<lambda>ch. ch \<noteq> CHR '']'') host)
      else takeWhile (\<lambda>ch. ch \<noteq> CHR '':'') host)"

definition validateURL :: "ext \<Rightarrow> string \<Rightarrow> unit res" where
  "validateURL X rawURL =
     (case x_url_Parse X rawURL of
        None \<Rightarrow> Inl (Errorf ''failed to parse URL'')
      | Some parsedURL \<Rightarrow>
          if u_Scheme parsedURL \<noteq> ''http'' \<and> u_Scheme parsedURL \<noteq> ''https'' then Inl (Errorf ''unsupported protocol'')
          else
            let host = to_lower (url_Hostname (u_Host parsedURL))
            in if host = ''localhost'' \<or> host = ''127.0.0.1'' \<or> host = ''::1'' then Inl (Errorf ''localhost access not allowed'')
               else if has_prefix ''192.168.'' host \<or> has_prefix ''10.'' host \<or> has_prefix ''172.'' host \<or> has_prefix ''169.254.'' host
               then Inl (Errorf ''private IP range access not allowed'')
               else Inr ())"

section \<open>Downloads\<close>

record downloads =
  dl_Get :: "string \<Rightarrow> http_stream res"
  dl_Detect :: "string \<Rightarrow> string"
  dl_ScreenShoot :: "string \<Rightarrow> string \<Rightarrow> string option res"
  dl_ext :: ext

abbreviation DeadlineExceeded :: goerr where "DeadlineExceeded \<equiv> Errorf ''context deadline exceeded''"

text \<open>The file, its type and its size.\<close>

definition DownloadFile :: "downloads \<Rightarrow> string \<Rightarrow> (string \<times> string \<times> int) res" where
  "DownloadFile D url =
     bindR (validateURL (dl_ext D) url) (\<lambda>_.
     bindR (dl_Get D url) (\<lambda>resp.
       if hs_StatusCode resp < 200 \<or> hs_StatusCode resp \<ge> 300 then Inl (Errorf ''status code'')
       else
         bindR (case snd (hs_First resp) of
                  None \<Rightarrow> Inr (filled_header (fst (hs_First resp)))
                | Some EOF \<Rightarrow> Inr (fst (hs_First resp))
                | Some (ReadError _) \<Rightarrow> Inl (Errorf ''bytes read'')) (\<lambda>fileHeader.
         let mimeType = dl_Detect D fileHeader
         in case snd (hs_Rest resp) of
              Some e \<Rightarrow> Inl e
            | None \<Rightarrow> let file = fileHeader @ fst (hs_Rest resp) in Inr (file, mimeType, int (length file)))))"

text \<open>\<open>utils_downloader.go\<close>: the reader of the file, here as the bytes it gives, and its type.\<close>

definition URLDownloader_Download :: "(string \<Rightarrow> http_stream res) \<Rightarrow> (string \<Rightarrow> string) \<Rightarrow> string \<Rightarrow> ((string \<times> goerr option) \<times> string) res" where
  "URLDownloader_Download Get Detect url =
     bindR (Get url) (\<lambda>resp.
       case snd (hs_First resp) of
         Some EOF \<Rightarrow> Inl (Errorf ''EOF'')
       | Some (ReadError e) \<Rightarrow> Inl e
       | None \<Rightarrow>
           let fileHeader = filled_header (fst (hs_First resp))
           in Inr ((fileHeader @ fst (hs_Rest resp), snd (hs_Rest resp)), Detect fileHeader))"

section \<open>Screenshots\<close>

definition screenshotSupportedSVGTags :: "string list" where
  "screenshotSupportedSVGTags = [''rect'', ''svg'']"

fun screenshot_tags :: "downloads \<Rightarrow> string \<Rightarrow> string list \<Rightarrow> string res" where
  "screenshot_tags D url [] =
     (case dl_ScreenShoot D url [] of
        Inl _ \<Rightarrow> Inl (Errorf ''fail to take screenshot'')
      | Inr buf \<Rightarrow> Inr (case buf of None \<Rightarrow> [] | Some b \<Rightarrow> b))"
| "screenshot_tags D url (tag # tags) =
     (case dl_ScreenShoot D url tag of
        Inl e \<Rightarrow> if e = DeadlineExceeded then screenshot_tags D url tags else Inl (Errorf ''fail to take screenshot'')
      | Inr None \<Rightarrow> screenshot_tags D url tags
      | Inr (Some buf) \<Rightarrow> Inr buf)"

definition screenshotSVGTags :: "downloads \<Rightarrow> string \<Rightarrow> string res" where
  "screenshotSVGTags D url = screenshot_tags D url screenshotSupportedSVGTags"

definition ScreenshotLink :: "downloads \<Rightarrow> string \<Rightarrow> (string \<times> string \<times> int) res" where
  "ScreenshotLink D url = bindR (screenshotSVGTags D url) (\<lambda>f. Inr (f, ''image/png'', int (length f)))"

definition has_suffix :: "string \<Rightarrow> string \<Rightarrow> bool" where
  "has_suffix suffix s = has_prefix (rev suffix) (rev s)"

definition URLImageReader_Read :: "downloads \<Rightarrow> string \<Rightarrow> (string \<times> string \<times> int) res" where
  "URLImageReader_Read D url =
     (if has_suffix ''.svg'' url then ScreenshotLink D url
      else
        case DownloadFile D url of
          Inl e \<Rightarrow> Inl e
        | Inr (file, mimeType, fileSize) \<Rightarrow>
            if has_prefix ''image/svg'' mimeType \<or> has_prefix ''application/octet-stream'' mimeType
            then ScreenshotLink D url
            else Inr (file, mimeType, fileSize))"

section \<open>What is read\<close>

lemma DownloadFile_Inr:
  assumes "DownloadFile D url = Inr (file, mimeType, n)"
  shows "validateURL (dl_ext D) url = Inr () \<and> (\<exists>resp. dl_Get D url = Inr resp \<and> n = int (length file) \<and>
     200 \<le> hs_StatusCode resp \<and> hs_StatusCode resp < 300 \<and>
     (case snd (hs_First resp) of
        None \<Rightarrow> file = filled_header (fst (hs_First resp)) @ fst (hs_Rest resp)
      | Some e \<Rightarrow> e = EOF \<and> file = content_of resp))"
  using assms
  by (auto simp: DownloadFile_def bindR_Inr_iff Let_def content_of_def split: if_splits option.splits read_end.splits)

text \<open>
  What the image reader returns is a screenshot, or a file from an address that was checked: the address is HTTP
  or HTTPS and its host is none of those that are blocked. The size is the number of bytes, and the file is the body of the
  answer when the first read filled its buffer or met the end of the body.
\<close>

theorem image_read_from_checked_address:
  assumes "URLImageReader_Read D url = Inr (file, mimeType, n)"
  shows "n = int (length file) \<and>
    (ScreenshotLink D url = Inr (file, mimeType, n) \<or>
     (\<exists>resp. validateURL (dl_ext D) url = Inr () \<and> dl_Get D url = Inr resp \<and>
        (length (fst (hs_First resp)) = header_size \<or> snd (hs_First resp) = Some EOF \<longrightarrow> file = content_of resp)))"
proof (cases "ScreenshotLink D url = Inr (file, mimeType, n)")
  case True
  then show ?thesis by (auto simp: ScreenshotLink_def bindR_Inr_iff)
next
  case False
  with assms have "DownloadFile D url = Inr (file, mimeType, n)"
    by (auto simp: URLImageReader_Read_def split: if_splits sum.splits)
  from DownloadFile_Inr [OF this] show ?thesis
    by (auto simp: filled_header_def content_of_def split: option.splits)
qed

text \<open>
  A first read that gives fewer bytes than its buffer has, without the end of the body, corrupts the file: the rest of the
  buffer, zero bytes, stays between the two parts of the body, and the size counts them.
\<close>

theorem short_read_corrupts_file:
  assumes "validateURL (dl_ext D) url = Inr ()" and "dl_Get D url = Inr resp" and "hs_StatusCode resp = 200"
    and "hs_First resp = (part, None)" and "length part < header_size" and "hs_Rest resp = (rest, None)"
  shows "\<exists>file mimeType. DownloadFile D url = Inr (file, mimeType, int (length file)) \<and>
    file = part @ replicate (header_size - length part) (CHR 0x00) @ rest \<and> file \<noteq> content_of resp"
  using assms
  by (auto simp: DownloadFile_def Let_def filled_header_def content_of_def)

section \<open>Instances\<close>

definition sample_downloads :: "string \<times> read_end option \<Rightarrow> downloads" where
  "sample_downloads part =
     \<lparr>dl_Get = (\<lambda>u. Inr \<lparr>hs_StatusCode = 200, hs_First = part, hs_Rest = ([], None)\<rparr>), dl_Detect = (\<lambda>f. ''image/png''),
      dl_ScreenShoot = (\<lambda>u tag. Inr None),
      dl_ext = sample_ext\<lparr>x_url_Parse := (\<lambda>u. Some \<lparr>u_Scheme = ''https'', u_Host = ''img'', u_Path = u, u_RawQuery = [], u_Rest = []\<rparr>)\<rparr>\<rparr>"

lemma sample_validateURL: "validateURL (dl_ext (sample_downloads part)) url = Inr ()"
  by (simp add: validateURL_def sample_downloads_def url_Hostname_def to_lower_def lower_char_def has_prefix_def)

lemma sample_image_read: "URLImageReader_Read (sample_downloads (''png'', Some EOF)) ''a.png'' = Inr (''png'', ''image/png'', 3)"
  using sample_validateURL [of "(''png'', Some EOF)" "''a.png''"]
  by (simp add: URLImageReader_Read_def DownloadFile_def has_suffix_def has_prefix_def)
     (simp add: sample_downloads_def has_prefix_def)

theorem image_read_from_checked_address_witness:
  "\<exists>resp. dl_Get (sample_downloads (''png'', Some EOF)) ''a.png'' = Inr resp \<and> content_of resp = ''png'' \<and>
     validateURL (dl_ext (sample_downloads (''png'', Some EOF))) ''a.png'' = Inr ()"
  using image_read_from_checked_address [OF sample_image_read]
  by (auto simp: sample_downloads_def ScreenshotLink_def screenshotSVGTags_def screenshotSupportedSVGTags_def bindR_def)

theorem short_read_corrupts_file_witness:
  "\<exists>file mimeType. DownloadFile (sample_downloads (''p'', None)) ''a.png'' = Inr (file, mimeType, int (length file)) \<and>
    file = ''p'' @ replicate (header_size - length ''p'') (CHR 0x00) @ [] \<and>
    file \<noteq> content_of \<lparr>hs_StatusCode = 200, hs_First = (''p'', None), hs_Rest = ([], None)\<rparr>"
  by (rule short_read_corrupts_file [OF sample_validateURL]) (simp_all add: sample_downloads_def header_size_def)

end
