(* ===== verification/ImageStore.thy ===== *)
theory ImageStore
  imports ImageReader
begin

text \<open>
  The store of cached images (\<open>services/image-indexer/store/\<close>): a table with one row for an asset, and the images of
  the account at Cloudflare. An upload is a transaction on the row of its asset. The database, Cloudflare and ffmpeg are
  parameters.
\<close>

section \<open>Errors (errors.go)\<close>

definition ReasonBrokenImage :: string where "ReasonBrokenImage = ''ErrBrokenImage''"
definition ReasonUnsupportedImageType :: string where "ReasonUnsupportedImageType = ''ErrUnsupportedImageType''"
definition ReasonUnsupportedSVGFile :: string where "ReasonUnsupportedSVGFile = ''ErrUnsupportedSVGFile''"
definition ReasonDownloadFileFailed :: string where "ReasonDownloadFileFailed = ''ErrDownloadFileFailed''"
definition ReasonFileSizeTooLarge :: string where "ReasonFileSizeTooLarge = ''ErrSizeTooLarge''"
definition ReasonUnknownCloudflareAPIFailure :: string where
  "ReasonUnknownCloudflareAPIFailure = ''ErrUnknownCloudflareAPIFailure''"

lemmas reason_defs = ReasonBrokenImage_def ReasonUnsupportedImageType_def ReasonUnsupportedSVGFile_def
  ReasonDownloadFileFailed_def ReasonFileSizeTooLarge_def ReasonUnknownCloudflareAPIFailure_def

definition ImageCachingErrorReasons :: "string \<rightharpoonup> string" where
  "ImageCachingErrorReasons = map_of
     [(ReasonBrokenImage, ''broken image''), (ReasonUnsupportedImageType, ''unsupported image type''),
      (ReasonUnsupportedSVGFile, ''unsupported SVG File''), (ReasonDownloadFileFailed, ''download file error''),
      (ReasonFileSizeTooLarge, ''size too large''), (ReasonUnknownCloudflareAPIFailure, ''unknown cloudflare api error'')]"

text \<open>The errors the client of Cloudflare distinguishes; a request error has the codes of the answer.\<close>

datatype cf_error = RatelimitError | RequestError "int list" | ServiceError | OtherError string

datatype image_error =
    ImageCachingError string
  | UnsupportedSVGError string
  | CloudflareError cf_error
  | PlainError goerr

text \<open>The errors with a reason are those of the interface \<open>UnsupportedImageCachingError\<close>.\<close>

fun Reason :: "image_error \<Rightarrow> string option" where
  "Reason (ImageCachingError r) = Some r"
| "Reason (UnsupportedSVGError url) = Some ReasonUnsupportedSVGFile"
| "Reason (CloudflareError e) = None"
| "Reason (PlainError e) = None"

definition NewImageCachingError :: "string \<Rightarrow> image_error" where
  "NewImageCachingError reason =
     (case ImageCachingErrorReasons reason of
        None \<Rightarrow> PlainError (Errorf reason)
      | Some _ \<Rightarrow> ImageCachingError reason)"

definition NewUnsupportedSVG :: "string \<Rightarrow> image_error" where
  "NewUnsupportedSVG url = UnsupportedSVGError url"

lemma NewImageCachingError_simps [simp]:
  "NewImageCachingError ReasonBrokenImage = ImageCachingError ReasonBrokenImage"
  "NewImageCachingError ReasonUnsupportedImageType = ImageCachingError ReasonUnsupportedImageType"
  "NewImageCachingError ReasonDownloadFileFailed = ImageCachingError ReasonDownloadFileFailed"
  "NewImageCachingError ReasonFileSizeTooLarge = ImageCachingError ReasonFileSizeTooLarge"
  by (simp_all add: NewImageCachingError_def ImageCachingErrorReasons_def reason_defs)

section \<open>The state and the services\<close>

record ImageMetadata =
  im_AssetID :: string
  im_ImageID :: string
  im_CreatedAt :: gotime
  im_UpdatedAt :: gotime

definition zero_image :: ImageMetadata where
  "zero_image = \<lparr>im_AssetID = [], im_ImageID = [], im_CreatedAt = 0, im_UpdatedAt = 0\<rparr>"

type_synonym metadata = "string \<rightharpoonup> string"

record cf_image =
  cf_ID :: string
  cf_File :: string
  cf_Name :: string
  cf_Metadata :: metadata

text \<open>The table, the assets whose rows other transactions have locked, and the images at Cloudflare.\<close>

record image_state =
  im_rows :: "ImageMetadata list"
  im_locked :: "string list"
  im_cloud :: "cf_image list"

record image_services =
  is_First :: "string \<Rightarrow> ImageMetadata list \<Rightarrow> ImageMetadata res"
  is_FirstOrCreate :: "gotime \<Rightarrow> string \<Rightarrow> (ImageMetadata list, ImageMetadata) act"
  is_Begin :: "image_state \<Rightarrow> goerr option"
  is_FirstForUpdate :: "string \<Rightarrow> string list \<Rightarrow> ImageMetadata list \<Rightarrow> ImageMetadata res"
  is_Save :: "gotime \<Rightarrow> string \<Rightarrow> ImageMetadata \<Rightarrow> (ImageMetadata list, ImageMetadata) act"
  is_Commit :: "ImageMetadata list \<Rightarrow> goerr option"
  is_accountHash :: string
  is_Head :: "string \<Rightarrow> cf_image list \<Rightarrow> int res"
  is_DeleteImage :: "string \<Rightarrow> cf_image list \<Rightarrow> cf_error option \<times> cf_image list"
  is_UploadImage :: "string \<Rightarrow> string \<Rightarrow> metadata \<Rightarrow> cf_image list \<Rightarrow> (cf_error + string) \<times> cf_image list"
  is_ffmpeg :: "string \<Rightarrow> string res"

section \<open>Reading the table and Cloudflare\<close>

definition ImageSizeThreshold :: nat where
  "ImageSizeThreshold = 10 * 1024 * 1024"

definition IsSupportedImageType :: "string \<Rightarrow> bool" where
  "IsSupportedImageType mimeType = has_prefix ''image/'' mimeType"

definition deliver_url :: "string \<Rightarrow> string \<Rightarrow> string" where
  "deliver_url hash imageID = ''https://imagedelivery.net/'' @ hash @ ''/'' @ imageID @ ''/public''"

definition imageIDExisted :: "image_services \<Rightarrow> string \<Rightarrow> cf_image list \<Rightarrow> bool res" where
  "imageIDExisted S imageID cloud =
     bindR (is_Head S (deliver_url (is_accountHash S) imageID) cloud) (\<lambda>code.
       if code = 200 then Inr True
       else if code = 404 then Inr False
       else Inl (Errorf ''incorrect http status on checking image existence''))"

definition GetImage :: "image_services \<Rightarrow> string \<Rightarrow> (image_state, ImageMetadata) act" where
  "GetImage S assetID = readA im_rows (is_First S assetID)"

definition CreateOrGetImage :: "image_services \<Rightarrow> gotime \<Rightarrow> string \<Rightarrow> (image_state, ImageMetadata) act" where
  "CreateOrGetImage S now assetID = zoomA im_rows (\<lambda>r s. s\<lparr>im_rows := r\<rparr>) (is_FirstOrCreate S now assetID)"

section \<open>Uploading an image\<close>

text \<open>
  \<open>compressImage\<close> runs ffmpeg until its result is small enough, which need not happen: None is a call that does not
  return. When a run fails the reader that comes back has been read to its end, so nothing is left in it.
\<close>

partial_function (option) compressImage :: "(string \<Rightarrow> string res) \<Rightarrow> string \<Rightarrow> (string \<times> goerr option) option" where
  "compressImage ffmpeg file =
     (case ffmpeg file of
        Inl e \<Rightarrow> Some ([], Some e)
      | Inr resultBuffer \<Rightarrow>
          if length resultBuffer > ImageSizeThreshold then compressImage ffmpeg resultBuffer
          else Some (resultBuffer, None))"

text \<open>The file that is uploaded; an error of \<open>compressImage\<close> is only logged.\<close>

definition fitted_file :: "image_services \<Rightarrow> int \<Rightarrow> string \<Rightarrow> string option" where
  "fitted_file S imageSize file =
     (if imageSize > int ImageSizeThreshold
      then (case compressImage (is_ffmpeg S) file of None \<Rightarrow> None | Some (file', _) \<Rightarrow> Some file')
      else Some file)"

definition with_mime_type :: "string \<Rightarrow> metadata option \<Rightarrow> metadata" where
  "with_mime_type mimeType md =
     (case md of None \<Rightarrow> Map.empty | Some m \<Rightarrow> m)
       (''mime_type'' \<mapsto> (if has_prefix ''image/svg'' mimeType then ''image/png'' else mimeType))"

fun upload_error :: "cf_error \<Rightarrow> image_error" where
  "upload_error (RequestError (code # codes)) =
     (if code = 5455 then NewImageCachingError ReasonUnsupportedImageType
      else if code = 9422 then NewImageCachingError ReasonBrokenImage
      else if code = 5443 then NewImageCachingError ReasonFileSizeTooLarge
      else CloudflareError (RequestError (code # codes)))"
| "upload_error e = CloudflareError e"

text \<open>The image of the row is removed before its successor is made.\<close>

definition remove_old_image :: "image_services \<Rightarrow> ImageMetadata \<Rightarrow> cf_image list \<Rightarrow> image_error option \<times> cf_image list" where
  "remove_old_image S img cloud =
     (if im_ImageID img = [] then (None, cloud)
      else
        case imageIDExisted S (im_ImageID img) cloud of
          Inl e \<Rightarrow> (Some (PlainError e), cloud)
        | Inr imageExisted \<Rightarrow>
            if imageExisted
            then (case is_DeleteImage S (im_ImageID img) cloud of (e, cloud') \<Rightarrow> (map_option CloudflareError e, cloud'))
            else (None, cloud))"

text \<open>
  What the function of the transaction works on: the two variables it assigns, the table as the transaction sees it, and
  Cloudflare. Its result is the error it returns.
\<close>

record upload =
  up_image :: ImageMetadata
  up_cloudflareImageID :: string
  up_rows :: "ImageMetadata list"
  up_cloud :: "cf_image list"

definition store_image :: "image_services \<Rightarrow> gotime \<Rightarrow> string \<Rightarrow> string \<Rightarrow> metadata \<Rightarrow> upload \<Rightarrow> image_error option \<times> upload" where
  "store_image S now assetID file md u =
     (case is_UploadImage S file assetID md (up_cloud u) of
        (Inl e, cloud) \<Rightarrow> (Some (upload_error e), u\<lparr>up_cloud := cloud\<rparr>)
      | (Inr i, cloud) \<Rightarrow>
          let u1 = u\<lparr>up_image := (up_image u)\<lparr>im_ImageID := i\<rparr>, up_cloudflareImageID := i, up_cloud := cloud\<rparr>
          in case is_Save S now assetID (up_image u1) (up_rows u) of
               (Inl e, rows) \<Rightarrow> (Some (PlainError e), u1\<lparr>up_rows := rows\<rparr>)
             | (Inr saved, rows) \<Rightarrow> (None, u1\<lparr>up_image := saved, up_rows := rows\<rparr>))"

definition upload_tx ::
    "image_services \<Rightarrow> gotime \<Rightarrow> string list \<Rightarrow> string \<Rightarrow> (string \<times> string \<times> int) res \<Rightarrow> metadata option \<Rightarrow> upload \<Rightarrow>
     (image_error option \<times> upload) option" where
  "upload_tx S now locked assetID reader md u =
     (case is_FirstForUpdate S assetID locked (up_rows u) of
        Inl e \<Rightarrow> Some (Some (PlainError e), u)
      | Inr img \<Rightarrow>
          (case remove_old_image S img (up_cloud u) of
             (Some e, cloud) \<Rightarrow> Some (Some e, u\<lparr>up_image := img, up_cloud := cloud\<rparr>)
           | (None, cloud) \<Rightarrow>
               let u1 = u\<lparr>up_image := img, up_cloud := cloud\<rparr>
               in case reader of
                    Inl e \<Rightarrow> Some (Some (NewImageCachingError ReasonDownloadFileFailed), u1)
                  | Inr (file, mimeType, imageSize) \<Rightarrow>
                      if \<not> IsSupportedImageType mimeType
                      then Some (Some (NewImageCachingError ReasonUnsupportedImageType), u1)
                      else
                        map_option (\<lambda>file'. store_image S now assetID file' (with_mime_type mimeType md) u1)
                          (fitted_file S imageSize file)))"

text \<open>
  The transaction: an error of its function rolls the table back, and so does a commit that fails. The clean-up after a
  failed transaction replaces the error by its own result.
\<close>

definition UploadImage ::
    "image_services \<Rightarrow> gotime \<Rightarrow> string \<Rightarrow> (string \<times> string \<times> int) res \<Rightarrow> metadata option \<Rightarrow> image_state \<Rightarrow>
     ((ImageMetadata \<times> image_error option) \<times> image_state) option" where
  "UploadImage S now assetID reader md s =
     (case is_Begin S s of
        Some e \<Rightarrow> Some ((zero_image, Some (PlainError e)), s)
      | None \<Rightarrow>
          (case upload_tx S now (im_locked s) assetID reader md
                  \<lparr>up_image = zero_image, up_cloudflareImageID = [], up_rows = im_rows s, up_cloud = im_cloud s\<rparr> of
             None \<Rightarrow> None
           | Some (e, u) \<Rightarrow>
               let (err, rows) =
                 (case e of
                    Some x \<Rightarrow> (Some x, im_rows s)
                  | None \<Rightarrow>
                      (case is_Commit S (up_rows u) of
                         Some x \<Rightarrow> (Some (PlainError x), im_rows s)
                       | None \<Rightarrow> (None, up_rows u)))
               in if err \<noteq> None \<and> up_cloudflareImageID u \<noteq> []
                  then (case is_DeleteImage S (up_cloudflareImageID u) (up_cloud u) of
                          (x, cloud) \<Rightarrow>
                            Some ((up_image u, map_option CloudflareError x), s\<lparr>im_rows := rows, im_cloud := cloud\<rparr>))
                  else Some ((up_image u, err), s\<lparr>im_rows := rows, im_cloud := up_cloud u\<rparr>)))"

section \<open>The documented behaviour of the services\<close>

definition row_of :: "string \<Rightarrow> ImageMetadata list \<Rightarrow> ImageMetadata option" where
  "row_of assetID rows = List.find (\<lambda>r. im_AssetID r = assetID) rows"

definition put_row :: "string \<Rightarrow> ImageMetadata \<Rightarrow> ImageMetadata list \<Rightarrow> ImageMetadata list" where
  "put_row assetID row rows = map (\<lambda>r. if im_AssetID r = assetID then row else r) rows"

definition cf_ids :: "cf_image list \<Rightarrow> string set" where
  "cf_ids cloud = cf_ID ` set cloud"

definition without_image :: "string \<Rightarrow> cf_image list \<Rightarrow> cf_image list" where
  "without_image i cloud = filter (\<lambda>c. cf_ID c \<noteq> i) cloud"

definition cf_added :: "string \<Rightarrow> string \<Rightarrow> string \<Rightarrow> metadata \<Rightarrow> cf_image list \<Rightarrow> cf_image list" where
  "cf_added i file name md cloud = cloud @ [\<lparr>cf_ID = i, cf_File = file, cf_Name = name, cf_Metadata = md\<rparr>]"

lemma row_of_Some: "row_of assetID rows = Some r \<Longrightarrow> r \<in> set rows \<and> im_AssetID r = assetID"
  using find_Some_set [of "\<lambda>r. im_AssetID r = assetID" rows r] by (simp add: row_of_def)

lemma without_image_none: "i \<notin> cf_ids cloud \<Longrightarrow> without_image i cloud = cloud"
  unfolding without_image_def filter_id_conv cf_ids_def by blast

lemma without_image_fresh: "i \<notin> cf_ids cloud \<Longrightarrow> without_image i (cf_added i file name md cloud) = cloud"
  using without_image_none [of i cloud] by (simp add: without_image_def cf_added_def)

text \<open>
  What a query by a struct with this asset id may answer: the row of the asset; but a field with its zero value is no condition,
  so for the empty id any row is an answer.
\<close>

definition answers :: "string \<Rightarrow> ImageMetadata list \<Rightarrow> ImageMetadata \<Rightarrow> bool" where
  "answers assetID rows r \<longleftrightarrow> (if assetID = [] then r \<in> set rows else row_of assetID rows = Some r)"

lemma no_answers: "(\<forall>r. \<not> answers assetID rows r) \<Longrightarrow> row_of assetID rows = None"
proof (rule ccontr)
  assume n: "\<forall>r. \<not> answers assetID rows r" and "row_of assetID rows \<noteq> None"
  then obtain r where r: "row_of assetID rows = Some r" by blast
  with row_of_Some [OF r] have "answers assetID rows r" by (simp add: answers_def)
  with n show False by blast
qed

text \<open>
  Every call may fail. A row that another transaction has locked is not read for an update. A new image has an id that is not
  empty and that no other image has.
\<close>

locale image_service =
  fixes S :: image_services
  assumes First_law: "(\<exists>r. answers assetID rows r \<and> is_First S assetID rows = Inr r) \<or>
       (\<forall>r. \<not> answers assetID rows r) \<and> is_First S assetID rows = Inl ErrRecordNotFound \<or>
       (\<exists>e. is_First S assetID rows = Inl e)"
    and FirstOrCreate_law: "(\<exists>r. answers assetID rows r \<and> is_FirstOrCreate S now assetID rows = (Inr r, rows)) \<or>
       (\<exists>r. (\<forall>r. \<not> answers assetID rows r) \<and> r = \<lparr>im_AssetID = assetID, im_ImageID = [], im_CreatedAt = now, im_UpdatedAt = now\<rparr> \<and>
          is_FirstOrCreate S now assetID rows = (Inr r, rows @ [r])) \<or>
       (\<exists>e. is_FirstOrCreate S now assetID rows = (Inl e, rows))"
    and FirstForUpdate_law: "(assetID \<notin> set locked \<and> (\<exists>r. row_of assetID rows = Some r \<and>
          is_FirstForUpdate S assetID locked rows = Inr r)) \<or> (\<exists>e. is_FirstForUpdate S assetID locked rows = Inl e)"
    and Save_law: "(\<exists>r. r = img\<lparr>im_UpdatedAt := now\<rparr> \<and> is_Save S now assetID img rows = (Inr r, put_row assetID r rows)) \<or>
       (\<exists>e. is_Save S now assetID img rows = (Inl e, rows))"
    and Head_law: "is_Head S (deliver_url (is_accountHash S) i) cloud = Inr code \<Longrightarrow>
       (code = 200 \<longrightarrow> i \<in> cf_ids cloud) \<and> (code = 404 \<longrightarrow> i \<notin> cf_ids cloud)"
    and DeleteImage_law: "is_DeleteImage S i cloud = (None, without_image i cloud) \<or> (\<exists>e. is_DeleteImage S i cloud = (Some e, cloud))"
    and UploadImage_law: "(\<exists>i. i \<noteq> [] \<and> i \<notin> cf_ids cloud \<and> is_UploadImage S file name md cloud = (Inr i, cf_added i file name md cloud)) \<or>
       (\<exists>e. is_UploadImage S file name md cloud = (Inl e, cloud))"
begin

lemma imageIDExisted_correct: "imageIDExisted S i cloud = Inr b \<Longrightarrow> b \<longleftrightarrow> i \<in> cf_ids cloud"
  using Head_law [of i cloud] by (auto simp: imageIDExisted_def bindR_Inr_iff split: if_splits)

text \<open>The old image is gone, or it is still there and the upload ends.\<close>

lemma remove_old_image_result:
  "remove_old_image S img cloud =
     (None, if im_ImageID img = [] then cloud else without_image (im_ImageID img) cloud) \<or>
   (\<exists>e. remove_old_image S img cloud = (Some e, cloud))"
proof (cases "im_ImageID img = []")
  case True
  then show ?thesis by (simp add: remove_old_image_def)
next
  case False
  show ?thesis
  proof (cases "imageIDExisted S (im_ImageID img) cloud")
    case (Inl e)
    with False show ?thesis by (simp add: remove_old_image_def)
  next
    case (Inr b)
    then have b: "b \<longleftrightarrow> im_ImageID img \<in> cf_ids cloud" by (rule imageIDExisted_correct)
    from DeleteImage_law [of "im_ImageID img" cloud] False Inr b without_image_none [of "im_ImageID img" cloud] show ?thesis
      by (auto simp: remove_old_image_def)
  qed
qed

lemma store_image_result:
  "(\<exists>e. store_image S now assetID file md u = (Some e, u)) \<or>
   (\<exists>i e u'. i \<noteq> [] \<and> i \<notin> cf_ids (up_cloud u) \<and> store_image S now assetID file md u = (e, u') \<and>
      up_cloudflareImageID u' = i \<and> im_ImageID (up_image u') = i \<and> im_AssetID (up_image u') = im_AssetID (up_image u) \<and>
      up_cloud u' = cf_added i file assetID md (up_cloud u) \<and>
      (e = None \<longrightarrow> up_rows u' = put_row assetID (up_image u') (up_rows u)))"
proof (cases "\<exists>e. is_UploadImage S file assetID md (up_cloud u) = (Inl e, up_cloud u)")
  case True
  then show ?thesis by (cases u) (auto simp: store_image_def)
next
  case False
  then obtain i where i: "i \<noteq> []" "i \<notin> cf_ids (up_cloud u)"
      "is_UploadImage S file assetID md (up_cloud u) = (Inr i, cf_added i file assetID md (up_cloud u))"
    using UploadImage_law [of "up_cloud u" "file" assetID md] by blast
  define img where "img = (up_image u)\<lparr>im_ImageID := i\<rparr>"
  from Save_law [of now img assetID "up_rows u"] show ?thesis
  proof
    assume "\<exists>r. r = img\<lparr>im_UpdatedAt := now\<rparr> \<and> is_Save S now assetID img (up_rows u) = (Inr r, put_row assetID r (up_rows u))"
    with i show ?thesis by (intro disjI2 exI [of _ i]) (auto simp: store_image_def Let_def img_def)
  next
    assume "\<exists>e. is_Save S now assetID img (up_rows u) = (Inl e, up_rows u)"
    with i show ?thesis by (intro disjI2 exI [of _ i]) (auto simp: store_image_def Let_def img_def)
  qed
qed

end

section \<open>What an upload does\<close>

definition old_removed :: "ImageMetadata \<Rightarrow> cf_image list \<Rightarrow> cf_image list" where
  "old_removed r cloud = (if im_ImageID r = [] then cloud else without_image (im_ImageID r) cloud)"

text \<open>A new image \<open>i\<close> for an asset, made from what the reader gave, in place of the image of the row.\<close>

definition new_image ::
    "image_services \<Rightarrow> string \<Rightarrow> (string \<times> string \<times> int) res \<Rightarrow> metadata option \<Rightarrow> ImageMetadata list \<Rightarrow> string list \<Rightarrow>
     cf_image list \<Rightarrow> string \<Rightarrow> cf_image list \<Rightarrow> bool" where
  "new_image S assetID reader md rows locked cloud i cloud' \<longleftrightarrow>
     (\<exists>r f mimeType n file. row_of assetID rows = Some r \<and> assetID \<notin> set locked \<and> i \<noteq> [] \<and> i \<notin> cf_ids (old_removed r cloud) \<and>
        reader = Inr (f, mimeType, n) \<and> IsSupportedImageType mimeType \<and> fitted_file S n f = Some file \<and>
        cloud' = cf_added i file assetID (with_mime_type mimeType md) (old_removed r cloud))"

definition old_gone :: "string \<Rightarrow> ImageMetadata list \<Rightarrow> cf_image list \<Rightarrow> cf_image list \<Rightarrow> bool" where
  "old_gone assetID rows cloud cloud' \<longleftrightarrow>
     cloud' = cloud \<or> (\<exists>r. row_of assetID rows = Some r \<and> cloud' = old_removed r cloud)"

lemma new_image_without:
  "new_image S assetID reader md rows locked cloud i cloud' \<Longrightarrow> old_gone assetID rows cloud (without_image i cloud')"
  by (auto simp: new_image_def old_gone_def without_image_fresh)

context image_service begin

lemma upload_tx_result:
  assumes "upload_tx S now locked assetID reader md u = Some (e, u')" and "up_cloudflareImageID u = []"
  shows "(e \<noteq> None \<and> up_cloudflareImageID u' = [] \<and> old_gone assetID (up_rows u) (up_cloud u) (up_cloud u')) \<or>
    (new_image S assetID reader md (up_rows u) locked (up_cloud u) (up_cloudflareImageID u') (up_cloud u') \<and>
     im_AssetID (up_image u') = assetID \<and> im_ImageID (up_image u') = up_cloudflareImageID u' \<and>
     (e = None \<longrightarrow> up_rows u' = put_row assetID (up_image u') (up_rows u)))"
proof (cases "is_FirstForUpdate S assetID locked (up_rows u)")
  case (Inl x)
  with assms show ?thesis by (auto simp: upload_tx_def old_gone_def)
next
  case (Inr r)
  with FirstForUpdate_law [of assetID locked "up_rows u"]
  have r: "row_of assetID (up_rows u) = Some r" "assetID \<notin> set locked" by auto
  have a: "im_AssetID r = assetID" using row_of_Some [OF r(1)] by simp
  show ?thesis
  proof (cases "fst (remove_old_image S r (up_cloud u))")
    case (Some x)
    with remove_old_image_result [of r "up_cloud u"] Inr assms show ?thesis
      by (auto simp: upload_tx_def old_gone_def)
  next
    case None
    with remove_old_image_result [of r "up_cloud u"]
    have rm: "remove_old_image S r (up_cloud u) = (None, old_removed r (up_cloud u))"
      by (auto simp: old_removed_def)
    define u1 where "u1 = u\<lparr>up_image := r, up_cloud := old_removed r (up_cloud u)\<rparr>"
    show ?thesis
    proof (cases "\<exists>f mimeType n file. reader = Inr (f, mimeType, n) \<and> IsSupportedImageType mimeType \<and> fitted_file S n f = Some file")
      case False
      with assms Inr rm r show ?thesis
        by (auto simp: upload_tx_def old_gone_def Let_def split: sum.splits if_splits)
    next
      case True
      then obtain f mimeType n fl where f: "reader = Inr (f, mimeType, n)" "IsSupportedImageType mimeType"
          "fitted_file S n f = Some fl" by blast
      with assms Inr rm have "store_image S now assetID fl (with_mime_type mimeType md) u1 = (e, u')"
        by (simp add: upload_tx_def u1_def Let_def)
      with store_image_result [of now assetID fl "with_mime_type mimeType md" u1] f r a assms(2) show ?thesis
        by (auto simp: u1_def new_image_def old_gone_def)
    qed
  qed
qed

text \<open>
  An upload fails before it has made an image; or it makes one and the row of the asset gets its id; or it makes one and
  the transaction fails, and then the outcome is that of the clean-up.
\<close>

lemma UploadImage_result:
  assumes "UploadImage S now assetID reader md s = Some ((img, err), s')"
  shows "(err \<noteq> None \<and> im_rows s' = im_rows s \<and> old_gone assetID (im_rows s) (im_cloud s) (im_cloud s')) \<or>
    (\<exists>cloud. new_image S assetID reader md (im_rows s) (im_locked s) (im_cloud s) (im_ImageID img) cloud \<and> im_AssetID img = assetID \<and>
       (err = None \<and> im_rows s' = put_row assetID img (im_rows s) \<and> im_cloud s' = cloud \<or>
        im_rows s' = im_rows s \<and> (err = None \<and> im_cloud s' = without_image (im_ImageID img) cloud \<or>
          err \<noteq> None \<and> im_cloud s' = cloud \<and> fst (is_DeleteImage S (im_ImageID img) cloud) \<noteq> None)))"
proof (cases "is_Begin S s")
  case (Some x)
  with assms show ?thesis by (auto simp: UploadImage_def old_gone_def)
next
  case None
  define u where "u = \<lparr>up_image = zero_image, up_cloudflareImageID = [], up_rows = im_rows s, up_cloud = im_cloud s\<rparr>"
  from assms None obtain e u' where tx: "upload_tx S now (im_locked s) assetID reader md u = Some (e, u')"
    by (auto simp: UploadImage_def u_def split: option.splits)
  note res = upload_tx_result [OF tx]
  show ?thesis
  proof (cases "up_cloudflareImageID u' = []")
    case True
    with res have "e \<noteq> None" "old_gone assetID (im_rows s) (im_cloud s) (up_cloud u')"
      by (auto simp: u_def new_image_def)
    with assms None tx True show ?thesis
      by (auto simp: UploadImage_def u_def [symmetric])
  next
    case False
    with res have n: "new_image S assetID reader md (im_rows s) (im_locked s) (im_cloud s) (up_cloudflareImageID u') (up_cloud u')"
        "im_AssetID (up_image u') = assetID" "im_ImageID (up_image u') = up_cloudflareImageID u'"
        "e = None \<Longrightarrow> up_rows u' = put_row assetID (up_image u') (im_rows s)"
      by (auto simp: u_def)
    from n False assms None tx DeleteImage_law [of "up_cloudflareImageID u'" "up_cloud u'"] show ?thesis
      by (intro disjI2 exI [of _ "up_cloud u'"])
         (auto simp: UploadImage_def u_def [symmetric] Let_def split: option.splits prod.splits)
  qed
qed

end

section \<open>No image is left behind\<close>

text \<open>Every image at Cloudflare is the one that the row of its asset names.\<close>

definition no_orphans :: "image_state \<Rightarrow> bool" where
  "no_orphans s \<longleftrightarrow> distinct (map im_AssetID (im_rows s)) \<and> distinct (map cf_ID (im_cloud s)) \<and>
     (\<forall>c\<in>set (im_cloud s). cf_ID c \<noteq> [] \<and> (\<exists>r. row_of (cf_Name c) (im_rows s) = Some r \<and> im_ImageID r = cf_ID c))"

lemma row_of_put_row:
  "im_AssetID row = assetID \<Longrightarrow>
   row_of a (put_row assetID row rows) = (if a = assetID \<and> row_of assetID rows \<noteq> None then Some row else row_of a rows)"
  by (induction rows) (auto simp: row_of_def put_row_def)

lemma put_row_ids: "im_AssetID row = assetID \<Longrightarrow> map im_AssetID (put_row assetID row rows) = map im_AssetID rows"
  by (induction rows) (auto simp: put_row_def)

lemma row_of_None: "row_of a rows = None \<longleftrightarrow> a \<notin> im_AssetID ` set rows"
  by (auto simp: row_of_def find_None)

lemma row_of_append_new:
  "row_of a rows = None \<Longrightarrow> im_AssetID r = a \<Longrightarrow> row_of b (rows @ [r]) = (if b = a then Some r else row_of b rows)"
  by (auto simp: row_of_def find_append split: option.splits)

lemma no_orphans_fewer:
  assumes "no_orphans s" and "im_rows s' = im_rows s" and "old_gone assetID (im_rows s) (im_cloud s) (im_cloud s')"
  shows "no_orphans s'"
  using assms by (auto simp: no_orphans_def old_gone_def old_removed_def without_image_def distinct_map_filter split: if_splits)

text \<open>With the image of the row removed, no image of the asset is left.\<close>

lemma old_removed_others:
  assumes "no_orphans s" and "row_of assetID (im_rows s) = Some r" and "c \<in> set (old_removed r (im_cloud s))"
  shows "cf_Name c \<noteq> assetID \<and> c \<in> set (im_cloud s)"
  using assms by (fastforce simp: no_orphans_def old_removed_def without_image_def split: if_splits)

lemma no_orphans_new_image:
  assumes "no_orphans s" and "new_image S assetID reader md (im_rows s) locked (im_cloud s) (im_ImageID img) cloud"
    and "im_AssetID img = assetID" and "im_rows s' = put_row assetID img (im_rows s)" and "im_cloud s' = cloud"
  shows "no_orphans s'"
proof -
  from assms(2) obtain r fl m where r: "row_of assetID (im_rows s) = Some r" and i: "im_ImageID img \<noteq> []"
      "im_ImageID img \<notin> cf_ids (old_removed r (im_cloud s))"
    and c: "cloud = cf_added (im_ImageID img) fl assetID m (old_removed r (im_cloud s))"
    by (auto simp: new_image_def)
  have d: "distinct (map cf_ID (old_removed r (im_cloud s)))"
    using assms(1) by (auto simp: no_orphans_def old_removed_def without_image_def distinct_map_filter)
  have "cf_ID x \<noteq> [] \<and> (\<exists>q. row_of (cf_Name x) (im_rows s') = Some q \<and> im_ImageID q = cf_ID x)" if "x \<in> set (im_cloud s')" for x
    using that old_removed_others [OF assms(1) r, of x] assms r i c
    by (auto simp: cf_added_def row_of_put_row no_orphans_def)
  with assms d i c show ?thesis
    by (auto simp: no_orphans_def put_row_ids cf_added_def cf_ids_def)
qed

context image_service begin

lemma CreateOrGetImage_no_orphans:
  assumes "no_orphans s"
  shows "no_orphans (snd (CreateOrGetImage S now assetID s))"
proof -
  have "no_orphans (s\<lparr>im_rows := im_rows s @ [r]\<rparr>)" if "row_of assetID (im_rows s) = None" and "im_AssetID r = assetID" for r
  proof -
    from that assms have "cf_Name c \<noteq> assetID" if "c \<in> set (im_cloud s)" for c
      using that by (auto simp: no_orphans_def)
    then show ?thesis
      using row_of_append_new [OF that] that assms by (auto simp: no_orphans_def row_of_None)
  qed
  with FirstOrCreate_law [of assetID "im_rows s" now] no_answers [of assetID "im_rows s"] assms show ?thesis
    by (auto simp: CreateOrGetImage_def zoomA_run)
qed

lemma UploadImage_no_orphans:
  assumes "\<And>i cloud. fst (is_DeleteImage S i cloud) = None"
    and "no_orphans s" and "UploadImage S now assetID reader md s = Some ((img, err), s')"
  shows "no_orphans s'"
  using UploadImage_result [OF assms(3)]
proof (elim disjE exE conjE)
  assume "im_rows s' = im_rows s" and "old_gone assetID (im_rows s) (im_cloud s) (im_cloud s')"
  then show ?thesis by (rule no_orphans_fewer [OF assms(2)])
next
  fix cloud assume "new_image S assetID reader md (im_rows s) (im_locked s) (im_cloud s) (im_ImageID img) cloud"
    and "im_AssetID img = assetID" and "im_rows s' = put_row assetID img (im_rows s)" and "im_cloud s' = cloud"
  then show ?thesis by (rule no_orphans_new_image [OF assms(2)])
next
  fix cloud assume n: "new_image S assetID reader md (im_rows s) (im_locked s) (im_cloud s) (im_ImageID img) cloud"
    and r: "im_rows s' = im_rows s" and c: "im_cloud s' = without_image (im_ImageID img) cloud"
  from new_image_without [OF n] have "old_gone assetID (im_rows s) (im_cloud s) (im_cloud s')" by (simp add: c)
  with r show ?thesis by (rule no_orphans_fewer [OF assms(2)])
next
  fix cloud assume "fst (is_DeleteImage S (im_ImageID img) cloud) \<noteq> None"
  with assms(1) show ?thesis by simp
qed

end

section \<open>Services with this behaviour\<close>

definition fresh_image_id :: "cf_image list \<Rightarrow> string" where
  "fresh_image_id cloud = replicate (Suc (sum_list (map (\<lambda>c. length (cf_ID c)) cloud))) (CHR ''i'')"

definition first_row :: "string \<Rightarrow> ImageMetadata list \<Rightarrow> ImageMetadata option" where
  "first_row assetID rows = (if assetID = [] then (case rows of [] \<Rightarrow> None | r # _ \<Rightarrow> Some r) else row_of assetID rows)"

lemma first_row_answers:
  "first_row assetID rows = Some r \<Longrightarrow> answers assetID rows r"
  "first_row assetID rows = None \<Longrightarrow> \<not> answers assetID rows r"
  by (auto simp: first_row_def answers_def split: if_splits list.splits)

definition mem_images :: "bool \<Rightarrow> (string \<Rightarrow> string res) \<Rightarrow> image_services" where
  "mem_images bad_commit ffmpeg =
     \<lparr>is_First = (\<lambda>a rows. case first_row a rows of None \<Rightarrow> Inl ErrRecordNotFound | Some r \<Rightarrow> Inr r),
      is_FirstOrCreate = (\<lambda>now a rows. case first_row a rows of
          None \<Rightarrow> let r = \<lparr>im_AssetID = a, im_ImageID = [], im_CreatedAt = now, im_UpdatedAt = now\<rparr> in (Inr r, rows @ [r])
        | Some r \<Rightarrow> (Inr r, rows)),
      is_Begin = (\<lambda>s. None),
      is_FirstForUpdate = (\<lambda>a locked rows. if a \<in> set locked then Inl (ErrDB ''could not obtain lock on row'')
        else case row_of a rows of None \<Rightarrow> Inl ErrRecordNotFound | Some r \<Rightarrow> Inr r),
      is_Save = (\<lambda>now a img rows. let r = img\<lparr>im_UpdatedAt := now\<rparr> in (Inr r, put_row a r rows)),
      is_Commit = (\<lambda>rows. if bad_commit then Some (ErrDB ''connection lost'') else None),
      is_accountHash = ''h'',
      is_Head = (\<lambda>url cloud. Inr (if list_ex (\<lambda>c. deliver_url ''h'' (cf_ID c) = url) cloud then 200 else 404)),
      is_DeleteImage = (\<lambda>i cloud. (None, without_image i cloud)),
      is_UploadImage = (\<lambda>f name md cloud. let i = fresh_image_id cloud in (Inr i, cf_added i f name md cloud)),
      is_ffmpeg = ffmpeg\<rparr>"

lemma fresh_image_id: "fresh_image_id cloud \<noteq> [] \<and> fresh_image_id cloud \<notin> cf_ids cloud"
proof -
  have "length (cf_ID c) < length (fresh_image_id cloud)" if "c \<in> set cloud" for c
    using member_le_sum_list [of "length (cf_ID c)" "map (\<lambda>c. length (cf_ID c)) cloud"] that
    by (simp add: fresh_image_id_def)
  then have "fresh_image_id cloud \<notin> cf_ids cloud" by (fastforce simp: cf_ids_def)
  then show ?thesis by (simp add: fresh_image_id_def)
qed

lemma deliver_url_eq: "deliver_url h i = deliver_url h j \<longleftrightarrow> i = j"
  by (simp add: deliver_url_def)

interpretation mem_img: image_service "mem_images bad_commit ffmpeg" for bad_commit ffmpeg
proof
  fix i cloud code
  assume "is_Head (mem_images bad_commit ffmpeg) (deliver_url (is_accountHash (mem_images bad_commit ffmpeg)) i) cloud = Inr code"
  then show "(code = 200 \<longrightarrow> i \<in> cf_ids cloud) \<and> (code = 404 \<longrightarrow> i \<notin> cf_ids cloud)"
    by (auto simp: mem_images_def deliver_url_eq list_ex_iff cf_ids_def split: if_splits)
next
  fix cloud f name md
  show "(\<exists>i. i \<noteq> [] \<and> i \<notin> cf_ids cloud \<and>
      is_UploadImage (mem_images bad_commit ffmpeg) f name md cloud = (Inr i, cf_added i f name md cloud)) \<or>
    (\<exists>e. is_UploadImage (mem_images bad_commit ffmpeg) f name md cloud = (Inl e, cloud))"
    using fresh_image_id [of cloud] by (auto simp: mem_images_def Let_def)
qed (auto simp: mem_images_def Let_def split: option.splits dest: first_row_answers)

lemma mem_images_lawful: "image_service (mem_images bad_commit ffmpeg)"
  by (rule mem_img.image_service_axioms)

section \<open>Properties of uploads\<close>

text \<open>
  C11: As long as Cloudflare deletes what it is asked to delete, no upload leaves an image behind: every image is the one
  that the row of its asset names, whether the upload succeeds, fails or is rolled back, and so it stays when rows are created.
\<close>

theorem no_orphaned_images:
  assumes "image_service S" and "\<And>i cloud. fst (is_DeleteImage S i cloud) = None" and "no_orphans s"
    and "UploadImage S now assetID reader md s = Some ((img, err), s')"
  shows "no_orphans s' \<and> no_orphans (snd (CreateOrGetImage S later other s'))"
  using image_service.UploadImage_no_orphans [OF assms]
    image_service.CreateOrGetImage_no_orphans [OF assms(1)] by blast

text \<open>
  C24: An upload that reports an error leaves the table as it was. One that reports none has put its image into the row of the
  asset and the image is there with the file, or it has changed no row and its image has been deleted again.
\<close>

theorem upload_outcome:
  assumes "image_service S" and "UploadImage S now assetID reader md s = Some ((img, err), s')"
  shows "case err of
      Some e \<Rightarrow> im_rows s' = im_rows s
    | None \<Rightarrow> assetID \<notin> set (im_locked s) \<and> im_AssetID img = assetID \<and>
        (im_rows s' = put_row assetID img (im_rows s) \<and>
           (\<exists>f mimeType n file m. reader = Inr (f, mimeType, n) \<and> fitted_file S n f = Some file \<and>
              \<lparr>cf_ID = im_ImageID img, cf_File = file, cf_Name = assetID, cf_Metadata = m\<rparr> \<in> set (im_cloud s')) \<or>
         im_rows s' = im_rows s \<and> im_ImageID img \<notin> cf_ids (im_cloud s'))"
  using image_service.UploadImage_result [OF assms]
  by (auto simp: new_image_def cf_added_def without_image_def cf_ids_def split: option.splits)

text \<open>
  When the file of an asset that has an image cannot be read, the image is lost: it has been deleted before the reading, and the
  row still names it.
\<close>

theorem failed_download_loses_image:
  assumes "is_Begin S s = None" and "is_FirstForUpdate S assetID (im_locked s) (im_rows s) = Inr row"
    and "im_ImageID row \<noteq> []" and "imageIDExisted S (im_ImageID row) (im_cloud s) = Inr True"
    and "is_DeleteImage S (im_ImageID row) (im_cloud s) = (None, without_image (im_ImageID row) (im_cloud s))"
  shows "UploadImage S now assetID (Inl e) md s =
    Some ((row, Some (ImageCachingError ReasonDownloadFileFailed)), s\<lparr>im_cloud := without_image (im_ImageID row) (im_cloud s)\<rparr>)"
  using assms by (simp add: UploadImage_def upload_tx_def remove_old_image_def Let_def)

text \<open>With an ffmpeg that gives back its input, a file that is too large is compressed for ever.\<close>

lemma compressImage_diverges:
  assumes "compressImage ffmpeg f = Some out" and "\<And>g. ffmpeg g = Inr g"
  shows "length f \<le> ImageSizeThreshold"
proof -
  have "(\<forall>g. ffmpeg g = Inr g) \<longrightarrow> length f \<le> ImageSizeThreshold"
    using assms(1) by (rule compressImage.raw_induct [rotated]) (auto split: sum.splits if_splits)
  with assms(2) show ?thesis by blast
qed

text \<open>
  \<open>compressImage\<close> returns when each run of ffmpeg whose result is too large makes the file smaller, and then its result is small
  enough; a run that fails leaves an empty file.
\<close>

theorem compressImage_terminates:
  assumes "\<And>f g. ffmpeg f = Inr g \<Longrightarrow> length g > ImageSizeThreshold \<Longrightarrow> length g < length f"
  shows "\<exists>f' e. compressImage ffmpeg f = Some (f', e) \<and> length f' \<le> ImageSizeThreshold \<and> (e \<noteq> None \<longrightarrow> f' = [])"
proof (induction f rule: measure_induct_rule [of length])
  case (less f)
  show ?case
  proof (cases "ffmpeg f")
    case (Inl e)
    then show ?thesis by (subst compressImage.simps) simp
  next
    case (Inr g)
    with less [of g] assms [of f g] show ?thesis by (subst compressImage.simps) auto
  qed
qed

text \<open>
  A file that is too large and that ffmpeg cannot read is replaced by an empty one: the upload goes on with it and reports no error.
\<close>

theorem failed_compression_uploads_nothing:
  assumes "image_service S" and "UploadImage S now assetID (Inr (f, mimeType, n)) md s = Some ((img, None), s')"
    and "n > int ImageSizeThreshold" and "is_ffmpeg S f = Inl e" and "im_rows s' \<noteq> im_rows s"
  shows "\<exists>c\<in>set (im_cloud s'). cf_ID c = im_ImageID img \<and> cf_File c = []"
proof -
  have "fitted_file S n f = Some []"
    using assms(3,4) compressImage.simps [of "is_ffmpeg S" f] by (simp add: fitted_file_def)
  with image_service.UploadImage_result [OF assms(1,2)] assms(5) show ?thesis
    by (auto simp: new_image_def cf_added_def)
qed

section \<open>Instances\<close>

definition sample_row :: ImageMetadata where
  "sample_row = \<lparr>im_AssetID = ''a'', im_ImageID = ''old'', im_CreatedAt = 1, im_UpdatedAt = 1\<rparr>"

definition sample_images :: image_state where
  "sample_images = \<lparr>im_rows = [sample_row], im_locked = [],
     im_cloud = [\<lparr>cf_ID = ''old'', cf_File = ''o'', cf_Name = ''a'', cf_Metadata = Map.empty\<rparr>]\<rparr>"

definition big_file :: string where
  "big_file = replicate (Suc ImageSizeThreshold) (CHR ''x'')"

definition no_ffmpeg :: "string \<Rightarrow> string res" where
  "no_ffmpeg f = Inl (Errorf ''exit status 1'')"

lemma sample_no_orphans: "no_orphans sample_images"
  by (simp add: no_orphans_def sample_images_def sample_row_def row_of_def)

text \<open>The upload of a small and of a large file for the asset.\<close>

lemmas upload_sample_simps = first_row_def UploadImage_def upload_tx_def mem_images_def sample_images_def sample_row_def row_of_def Let_def
  remove_old_image_def imageIDExisted_def without_image_def store_image_def IsSupportedImageType_def has_prefix_def
  fresh_image_id_def cf_added_def put_row_def with_mime_type_def

lemma sample_upload:
  assumes "fitted_file (mem_images bad ffmpeg) n f = Some fl"
  shows "UploadImage (mem_images bad ffmpeg) 7 ''a'' (Inr (f, ''image/png'', n)) None sample_images =
    Some ((sample_row\<lparr>im_ImageID := ''i'', im_UpdatedAt := 7\<rparr>, None),
      if bad then sample_images\<lparr>im_cloud := []\<rparr>
      else \<lparr>im_rows = [sample_row\<lparr>im_ImageID := ''i'', im_UpdatedAt := 7\<rparr>], im_locked = [],
        im_cloud = [\<lparr>cf_ID = ''i'', cf_File = fl, cf_Name = ''a'', cf_Metadata = [''mime_type'' \<mapsto> ''image/png'']\<rparr>]\<rparr>)"
  using assms by (simp add: upload_sample_simps deliver_url_def)

lemma sample_small: "fitted_file S 1 ''p'' = Some ''p''"
  by (simp add: fitted_file_def ImageSizeThreshold_def)

lemma sample_big: "fitted_file (mem_images False no_ffmpeg) (int (Suc ImageSizeThreshold)) big_file = Some []"
  using compressImage.simps [of no_ffmpeg big_file] by (simp add: fitted_file_def mem_images_def no_ffmpeg_def)

theorem no_orphaned_images_witness:
  "no_orphans (sample_images\<lparr>im_cloud := []\<rparr>) \<and>
   no_orphans (snd (CreateOrGetImage (mem_images True no_ffmpeg) 8 ''b'' (sample_images\<lparr>im_cloud := []\<rparr>)))"
proof (rule no_orphaned_images [OF mem_images_lawful _ sample_no_orphans])
  show "UploadImage (mem_images True no_ffmpeg) 7 ''a'' (Inr (''p'', ''image/png'', 1)) None sample_images =
      Some ((sample_row\<lparr>im_ImageID := ''i'', im_UpdatedAt := 7\<rparr>, None), sample_images\<lparr>im_cloud := []\<rparr>)"
    using sample_upload [OF sample_small, of True no_ffmpeg] by simp
qed (simp add: mem_images_def)

theorem upload_outcome_witness:
  "UploadImage (mem_images True no_ffmpeg) 7 ''a'' (Inr (''p'', ''image/png'', 1)) None sample_images =
     Some ((sample_row\<lparr>im_ImageID := ''i'', im_UpdatedAt := 7\<rparr>, None), sample_images\<lparr>im_cloud := []\<rparr>) \<and>
   ''i'' \<notin> cf_ids (im_cloud (sample_images\<lparr>im_cloud := []\<rparr>))"
proof -
  have u: "UploadImage (mem_images True no_ffmpeg) 7 ''a'' (Inr (''p'', ''image/png'', 1)) None sample_images =
      Some ((sample_row\<lparr>im_ImageID := ''i'', im_UpdatedAt := 7\<rparr>, None), sample_images\<lparr>im_cloud := []\<rparr>)"
    using sample_upload [OF sample_small, of True no_ffmpeg] by simp
  from upload_outcome [OF mem_images_lawful u] u show ?thesis
    by (auto simp: sample_images_def put_row_def sample_row_def)
qed

theorem failed_download_loses_image_witness:
  "UploadImage (mem_images False no_ffmpeg) 7 ''a'' (Inl (Errorf ''status code'')) None sample_images =
     Some ((sample_row, Some (ImageCachingError ReasonDownloadFileFailed)), sample_images\<lparr>im_cloud := []\<rparr>)"
proof -
  have d: "without_image (im_ImageID sample_row) (im_cloud sample_images) = []"
    by (simp add: without_image_def sample_images_def sample_row_def)
  show ?thesis
    unfolding d [symmetric]
    by (rule failed_download_loses_image)
       (simp_all add: mem_images_def sample_images_def sample_row_def row_of_def imageIDExisted_def deliver_url_def)
qed

theorem compressImage_terminates_witness:
  "\<exists>f' e. compressImage (\<lambda>f. Inr (drop 1 f)) big_file = Some (f', e) \<and> length f' \<le> ImageSizeThreshold"
  using compressImage_terminates [of "\<lambda>f. Inr (drop 1 f)" big_file] by fastforce

theorem failed_compression_uploads_nothing_witness:
  "\<exists>c. c \<in> set [\<lparr>cf_ID = ''i'', cf_File = [], cf_Name = ''a'', cf_Metadata = [''mime_type'' \<mapsto> ''image/png'']\<rparr>] \<and> cf_File c = [] \<and> cf_ID c = ''i''"
  using failed_compression_uploads_nothing [OF mem_images_lawful sample_upload [OF sample_big, simplified]]
  by (simp add: mem_images_def no_ffmpeg_def sample_images_def sample_row_def)

end
