(* ===== verification/ImageIndexer.thy ===== *)
theory ImageIndexer
  imports StoreCollections ImageStore
begin

text \<open>
  The image indexer (\<open>services/image-indexer/service.go\<close>): two loops look for assets and collections without a thumbnail and
  send them to a channel, from which five workers take them, upload the image and write the result back. The collections of the
  database, the image store and the downloads are parameters.
\<close>

section \<open>Documents\<close>

text \<open>The fields the image indexer adds to the assets and collections.\<close>

record ThumbAsset = AssetDoc +
  ta_LastCheck :: "gotime option"
  ta_FailedReason :: "string option"

record ThumbCollection = Collection +
  tc_ThumbnailURL :: "string option"
  tc_LastCheck :: "gotime option"
  tc_FailedReason :: "string option"

record thumb_db =
  td_assets :: "ThumbAsset list"
  td_collections :: "ThumbCollection list"
  td_tokens :: "Token list"
  td_accountTokens :: "AccountToken list"
  td_images :: image_state

type_synonym 'd find_and_update = "('d \<Rightarrow> bool) \<Rightarrow> ('d \<Rightarrow> 'd) \<Rightarrow> ('d list, 'd) act"

record NFTContentIndexer =
  ni_retryInterval :: int
  ni_URLPrefix :: string
  ni_images :: image_services
  ni_downloads :: downloads
  nftAssets :: "ThumbAsset coll"
  nftAssets_FindOneAndUpdate :: "ThumbAsset find_and_update"
  nftTokens :: "Token coll"
  nftAccountTokens :: "AccountToken coll"
  nftCollections :: "ThumbCollection coll"
  nftCollections_FindOneAndUpdate :: "ThumbCollection find_and_update"

definition on_td_assets :: "(ThumbAsset list, 'a) act \<Rightarrow> (thumb_db, 'a) act" where
  "on_td_assets m = zoomA td_assets (\<lambda>t s. s\<lparr>td_assets := t\<rparr>) m"

definition on_td_collections :: "(ThumbCollection list, 'a) act \<Rightarrow> (thumb_db, 'a) act" where
  "on_td_collections m = zoomA td_collections (\<lambda>t s. s\<lparr>td_collections := t\<rparr>) m"

definition on_td_accountTokens :: "(AccountToken list, 'a) act \<Rightarrow> (thumb_db, 'a) act" where
  "on_td_accountTokens m = zoomA td_accountTokens (\<lambda>t s. s\<lparr>td_accountTokens := t\<rparr>) m"

definition on_td_images :: "(image_state, 'a) act \<Rightarrow> (thumb_db, 'a) act" where
  "on_td_images m = zoomA td_images (\<lambda>t s. s\<lparr>td_images := t\<rparr>) m"

lemmas on_td_defs = on_td_assets_def on_td_collections_def on_td_accountTokens_def on_td_images_def

section \<open>Looking for work\<close>

datatype thumb_type = TypeCollection | TypeAsset

record ThumbnailIndexInfo =
  ti_ID :: string
  ti_ImageURL :: string
  ti_Metadata :: metadata
  ti_Type :: thumb_type

record NFTAsset =
  na_ID :: string
  na_IndexID :: string
  na_ProjectMetadata :: VersionedProjectMetadata

text \<open>\<open>$in: [null, ""]\<close>, and the two ways a time of the last check lets a document through.\<close>

definition null_or_empty :: "string option \<Rightarrow> bool" where
  "null_or_empty v \<longleftrightarrow> v = None \<or> v = Some []"

definition not_checked_since :: "gotime \<Rightarrow> gotime option \<Rightarrow> bool" where
  "not_checked_since ts v = (case v of None \<Rightarrow> True | Some t \<Rightarrow> t < ts)"

definition asset_without_thumbnail :: "gotime \<Rightarrow> ThumbAsset \<Rightarrow> bool" where
  "asset_without_thumbnail ts a \<longleftrightarrow>
     not_checked_since ts (ta_LastCheck a) \<and> null_or_empty (asset_ThumbnailID a) \<and> null_or_empty (ta_FailedReason a)"

definition collection_without_thumbnail :: "gotime \<Rightarrow> ThumbCollection \<Rightarrow> bool" where
  "collection_without_thumbnail ts c \<longleftrightarrow>
     not_checked_since ts (tc_LastCheck c) \<and> null_or_empty (tc_ThumbnailURL c) \<and> null_or_empty (tc_FailedReason c)"

text \<open>What the projections of the two queries leave of a document.\<close>

definition project_asset :: "ThumbAsset \<Rightarrow> NFTAsset" where
  "project_asset a = \<lparr>na_ID = asset_ID a, na_IndexID = asset_IndexID a,
     na_ProjectMetadata = \<lparr>vpm_Origin = zero_ProjectMetadata,
       vpm_Latest = zero_ProjectMetadata\<lparr>pm_ThumbnailURL := pm_ThumbnailURL (vpm_Latest (asset_ProjectMetadata a))\<rparr>\<rparr>\<rparr>"

definition project_collection :: "ThumbCollection \<Rightarrow> Collection" where
  "project_collection c = zero_Collection\<lparr>col_ID := col_ID c, col_ImageURL := col_ImageURL c\<rparr>"

definition getAssetWithoutThumbnailCached :: "NFTContentIndexer \<Rightarrow> gotime \<Rightarrow> (thumb_db, NFTAsset) act" where
  "getAssetWithoutThumbnailCached N now =
     bindA (on_td_assets (nftAssets_FindOneAndUpdate N (asset_without_thumbnail (now - ni_retryInterval N))
              (\<lambda>a. a\<lparr>ta_LastCheck := Some now\<rparr>))) (\<lambda>a. retA (project_asset a))"

definition getCollectionWithoutThumbnailCached :: "NFTContentIndexer \<Rightarrow> gotime \<Rightarrow> (thumb_db, Collection) act" where
  "getCollectionWithoutThumbnailCached N now =
     bindA (on_td_collections (nftCollections_FindOneAndUpdate N (collection_without_thumbnail (now - ni_retryInterval N))
              (\<lambda>c. c\<lparr>tc_LastCheck := Some now\<rparr>))) (\<lambda>c. retA (project_collection c))"

definition asset_info :: "NFTAsset \<Rightarrow> ThumbnailIndexInfo" where
  "asset_info asset =
     (let latest = vpm_Latest (na_ProjectMetadata asset)
      in \<lparr>ti_ID = na_IndexID asset, ti_ImageURL = pm_ThumbnailURL latest,
          ti_Metadata = [''source'' \<mapsto> pm_Source latest, ''file_url'' \<mapsto> pm_ThumbnailURL latest], ti_Type = TypeAsset\<rparr>)"

definition collection_info :: "Collection \<Rightarrow> ThumbnailIndexInfo" where
  "collection_info col =
     \<lparr>ti_ID = col_ID col, ti_ImageURL = col_ImageURL col,
      ti_Metadata = [''source'' \<mapsto> col_Source col, ''file_url'' \<mapsto> col_ImageURL col], ti_Type = TypeCollection\<rparr>"

section \<open>Writing back\<close>

text \<open>\<open>strings.SplitN(s, sep, 2)\<close> for a separator of one character.\<close>

definition SplitN_2 :: "char \<Rightarrow> string \<Rightarrow> string list" where
  "SplitN_2 sep s =
     (if sep \<in> set s then [takeWhile (\<lambda>c. c \<noteq> sep) s, tl (dropWhile (\<lambda>c. c \<noteq> sep) s)] else [s])"

definition updateAssetThumbnail :: "NFTContentIndexer \<Rightarrow> gotime \<Rightarrow> string \<Rightarrow> string \<Rightarrow> (thumb_db, unit) act" where
  "updateAssetThumbnail N now indexID thumbnailID =
     bindA (on_td_assets (UpdateOne (nftAssets N) (\<lambda>a. asset_IndexID a = indexID)
              (\<lambda>a. a\<lparr>asset_ThumbnailID := Some thumbnailID, asset_LastRefreshedTime := now\<rparr>))) (\<lambda>_.
     case SplitN_2 (CHR ''-'') indexID of
       [blockchain, assetID] \<Rightarrow>
         bindA (readA td_tokens (Find (nftTokens N) (\<lambda>t. tok_AssetID t = assetID) id 0 0)) (\<lambda>tokens.
         bindA (on_td_accountTokens (UpdateMany (nftAccountTokens N) (\<lambda>a. at_IndexID a \<in> set (map tok_IndexID tokens))
                  (\<lambda>a. a\<lparr>at_LastRefreshedTime := now\<rparr>))) (\<lambda>_. retA ()))
     | _ \<Rightarrow> throwA (Errorf ''invalid asset index id''))"

definition updateCollectionThumbnail :: "NFTContentIndexer \<Rightarrow> gotime \<Rightarrow> string \<Rightarrow> string \<Rightarrow> (thumb_db, unit) act" where
  "updateCollectionThumbnail N now i thumbnailID =
     (let thumbnailURL = ni_URLPrefix N @ thumbnailID @ ''/thumbnail''
      in bindA (on_td_collections (UpdateOne (nftCollections N) (\<lambda>c. col_ID c = i)
                  (\<lambda>c. c\<lparr>tc_ThumbnailURL := Some thumbnailURL, col_LastUpdatedTime := now\<rparr>))) (\<lambda>_. retA ()))"

definition markAssetThumbnailFailed :: "NFTContentIndexer \<Rightarrow> string \<Rightarrow> string \<Rightarrow> (thumb_db, unit) act" where
  "markAssetThumbnailFailed N indexID thumbnailFailedReason =
     bindA (on_td_assets (UpdateOne (nftAssets N) (\<lambda>a. asset_IndexID a = indexID)
              (\<lambda>a. a\<lparr>ta_FailedReason := Some thumbnailFailedReason\<rparr>))) (\<lambda>_. retA ())"

section \<open>A worker\<close>

text \<open>
  The body of the loop of a worker. The errors are logged, so only the state is left; None when the compression of the image
  does not return.
\<close>

definition generate_thumbnail :: "NFTContentIndexer \<Rightarrow> gotime \<Rightarrow> ThumbnailIndexInfo \<Rightarrow> thumb_db \<Rightarrow> thumb_db option" where
  "generate_thumbnail N now info s =
     (case on_td_images (CreateOrGetImage (ni_images N) now (ti_ID info)) s of
        (Inl e, s1) \<Rightarrow> Some s1
      | (Inr _, s1) \<Rightarrow>
          (case UploadImage (ni_images N) now (ti_ID info) (URLImageReader_Read (ni_downloads N) (ti_ImageURL info))
                  (Some (ti_Metadata info)) (td_images s1) of
             None \<Rightarrow> None
           | Some ((img, err), imgs) \<Rightarrow>
               let s2 = s1\<lparr>td_images := imgs\<rparr>
               in Some (case err of
                    Some e \<Rightarrow>
                      (case Reason e of
                         Some r \<Rightarrow> snd (markAssetThumbnailFailed N (ti_ID info) r s2)
                       | None \<Rightarrow> s2)
                  | None \<Rightarrow>
                      (case ti_Type info of
                         TypeAsset \<Rightarrow> snd (updateAssetThumbnail N now (im_AssetID img) (im_ImageID img) s2)
                       | TypeCollection \<Rightarrow> snd (updateCollectionThumbnail N now (im_AssetID img) (im_ImageID img) s2)))))"

section \<open>The loops, the channel and the workers\<close>

text \<open>
  A loop that watches looks for work; one that sends waits for a place in the channel. An error of the query makes a loop
  sleep, and a loop whose context has ended stops there; the end of the loop over the assets closes the channel.
\<close>

datatype watch_loop = Watching | Sending ThumbnailIndexInfo | Stopped

record queue =
  q_now :: gotime
  q_db :: thumb_db
  q_assets :: watch_loop
  q_collections :: watch_loop
  q_chan :: "ThumbnailIndexInfo list"
  q_closed :: bool
  q_idle :: nat
  q_busy :: "ThumbnailIndexInfo list"
  q_exited :: nat
  q_panic :: bool

abbreviation chan_capacity :: nat where "chan_capacity \<equiv> 20"

definition queue_started :: "gotime \<Rightarrow> thumb_db \<Rightarrow> queue" where
  "queue_started now s = \<lparr>q_now = now, q_db = s, q_assets = Watching, q_collections = Watching, q_chan = [], q_closed = False,
     q_idle = 5, q_busy = [], q_exited = 0, q_panic = False\<rparr>"

inductive queue_step :: "NFTContentIndexer \<Rightarrow> queue \<Rightarrow> queue \<Rightarrow> bool" for N where
  tick: "\<lbrakk>\<not> q_panic q; q_now q \<le> t\<rbrakk> \<Longrightarrow> queue_step N q (q\<lparr>q_now := t\<rparr>)"
| asset_found: "\<lbrakk>\<not> q_panic q; q_assets q = Watching; getAssetWithoutThumbnailCached N (q_now q) (q_db q) = (Inr a, s)\<rbrakk> \<Longrightarrow>
    queue_step N q (q\<lparr>q_db := s, q_assets := Sending (asset_info a)\<rparr>)"
| asset_sleep: "\<lbrakk>\<not> q_panic q; q_assets q = Watching; getAssetWithoutThumbnailCached N (q_now q) (q_db q) = (Inl e, s)\<rbrakk> \<Longrightarrow>
    queue_step N q (q\<lparr>q_db := s\<rparr>)"
| asset_stop: "\<lbrakk>\<not> q_panic q; q_assets q = Watching; getAssetWithoutThumbnailCached N (q_now q) (q_db q) = (Inl e, s)\<rbrakk> \<Longrightarrow>
    queue_step N q (q\<lparr>q_db := s, q_assets := Stopped, q_closed := True\<rparr>)"
| asset_send: "\<lbrakk>\<not> q_panic q; q_assets q = Sending i; length (q_chan q) < chan_capacity\<rbrakk> \<Longrightarrow>
    queue_step N q (q\<lparr>q_assets := Watching, q_chan := q_chan q @ [i]\<rparr>)"
| collection_found: "\<lbrakk>\<not> q_panic q; q_collections q = Watching; getCollectionWithoutThumbnailCached N (q_now q) (q_db q) = (Inr c, s)\<rbrakk> \<Longrightarrow>
    queue_step N q (q\<lparr>q_db := s, q_collections := Sending (collection_info c)\<rparr>)"
| collection_sleep: "\<lbrakk>\<not> q_panic q; q_collections q = Watching; getCollectionWithoutThumbnailCached N (q_now q) (q_db q) = (Inl e, s)\<rbrakk> \<Longrightarrow>
    queue_step N q (q\<lparr>q_db := s\<rparr>)"
| collection_stop: "\<lbrakk>\<not> q_panic q; q_collections q = Watching; getCollectionWithoutThumbnailCached N (q_now q) (q_db q) = (Inl e, s)\<rbrakk> \<Longrightarrow>
    queue_step N q (q\<lparr>q_db := s, q_collections := Stopped\<rparr>)"
| collection_send: "\<lbrakk>\<not> q_panic q; q_collections q = Sending i; \<not> q_closed q; length (q_chan q) < chan_capacity\<rbrakk> \<Longrightarrow>
    queue_step N q (q\<lparr>q_collections := Watching, q_chan := q_chan q @ [i]\<rparr>)"
| send_on_closed: "\<lbrakk>\<not> q_panic q; q_collections q = Sending i; q_closed q\<rbrakk> \<Longrightarrow> queue_step N q (q\<lparr>q_panic := True\<rparr>)"
| receive: "\<lbrakk>\<not> q_panic q; q_chan q = i # rest; 0 < q_idle q\<rbrakk> \<Longrightarrow>
    queue_step N q (q\<lparr>q_chan := rest, q_idle := q_idle q - 1, q_busy := i # q_busy q\<rparr>)"
| generate: "\<lbrakk>\<not> q_panic q; i \<in> set (q_busy q); generate_thumbnail N (q_now q) i (q_db q) = Some s\<rbrakk> \<Longrightarrow>
    queue_step N q (q\<lparr>q_db := s, q_idle := q_idle q + 1, q_busy := remove1 i (q_busy q)\<rparr>)"
| worker_exit: "\<lbrakk>\<not> q_panic q; q_closed q; q_chan q = []; 0 < q_idle q\<rbrakk> \<Longrightarrow>
    queue_step N q (q\<lparr>q_idle := q_idle q - 1, q_exited := q_exited q + 1\<rparr>)"

section \<open>The documented behaviour of the collections\<close>

locale find_and_update =
  fixes F :: "'d find_and_update"
  assumes FindOneAndUpdate_law: "F p f ds =
    (case List.find p ds of None \<Rightarrow> (Inl ErrNoDocuments, ds) | Some d \<Rightarrow> (Inr d, upd1 p f ds))"
begin

lemma find_and_update_Inr: "F p f ds = (Inr d, ds') \<Longrightarrow> d \<in> set ds \<and> p d \<and> ds' = upd1 p f ds"
  using find_Some_set [of p ds] by (auto simp: FindOneAndUpdate_law split: option.splits)

lemma find_and_update_Inl: "F p f ds = (Inl e, ds') \<Longrightarrow> ds' = ds \<and> (\<forall>d\<in>set ds. \<not> p d)"
  by (auto simp: FindOneAndUpdate_law find_None split: option.splits)

end

definition mem_find_and_update :: "'d find_and_update" where
  "mem_find_and_update p f ds =
     (case List.find p ds of None \<Rightarrow> (Inl ErrNoDocuments, ds) | Some d \<Rightarrow> (Inr d, upd1 p f ds))"

interpretation mem_fu: find_and_update mem_find_and_update
  by unfold_locales (simp add: mem_find_and_update_def)

locale thumb_indexer =
  fixes N :: NFTContentIndexer
  assumes images_law: "image_service (ni_images N)"
    and assets_law: "mongo_collection (nftAssets N) (same_by asset_IndexID)"
    and assets_find_law: "find_and_update (nftAssets_FindOneAndUpdate N)"
    and tokens_law: "mongo_collection (nftTokens N) (same_by tok_IndexID)"
    and accountTokens_law: "mongo_collection (nftAccountTokens N) (same_by at_key)"
    and collections_law: "mongo_collection (nftCollections N) no_unique"
    and collections_find_law: "find_and_update (nftCollections_FindOneAndUpdate N)"

sublocale thumb_indexer \<subseteq> images: image_service "ni_images N"
  by (rule images_law)

sublocale thumb_indexer \<subseteq> assets: mongo_collection "nftAssets N" "same_by asset_IndexID"
  by (rule assets_law)

sublocale thumb_indexer \<subseteq> assets_find: find_and_update "nftAssets_FindOneAndUpdate N"
  by (rule assets_find_law)

sublocale thumb_indexer \<subseteq> tokens: mongo_collection "nftTokens N" "same_by tok_IndexID"
  by (rule tokens_law)

sublocale thumb_indexer \<subseteq> accountTokens: mongo_collection "nftAccountTokens N" "same_by at_key"
  by (rule accountTokens_law)

sublocale thumb_indexer \<subseteq> collections: mongo_collection "nftCollections N" no_unique
  by (rule collections_law)

sublocale thumb_indexer \<subseteq> collections_find: find_and_update "nftCollections_FindOneAndUpdate N"
  by (rule collections_find_law)

text \<open>The image indexer over the collections of \<open>mem_coll\<close> and the images of \<open>mem_images\<close>.\<close>

definition mem_indexer :: "bool \<Rightarrow> downloads \<Rightarrow> NFTContentIndexer" where
  "mem_indexer bad_commit D =
     \<lparr>ni_retryInterval = 100, ni_URLPrefix = ''https://cdn/'', ni_images = mem_images bad_commit no_ffmpeg, ni_downloads = D,
      nftAssets = mem_coll (same_by asset_IndexID), nftAssets_FindOneAndUpdate = mem_find_and_update,
      nftTokens = mem_coll (same_by tok_IndexID), nftAccountTokens = mem_coll (same_by at_key),
      nftCollections = mem_coll no_unique, nftCollections_FindOneAndUpdate = mem_find_and_update\<rparr>"

interpretation mem_ni: thumb_indexer "mem_indexer bad_commit D" for bad_commit D
  by (rule thumb_indexer.intro)
     (simp_all add: mem_indexer_def mem_coll_lawful mem_images_lawful mem_fu.find_and_update_axioms)

lemma mem_indexer_lawful: "thumb_indexer (mem_indexer bad_commit D)"
  by (rule mem_ni.thumb_indexer_axioms)

section \<open>What the operations do\<close>

definition refreshed :: "gotime \<Rightarrow> string \<Rightarrow> Token list \<Rightarrow> AccountToken \<Rightarrow> AccountToken" where
  "refreshed now assetID tokens a =
     (if \<exists>t\<in>set tokens. tok_AssetID t = assetID \<and> at_IndexID a = tok_IndexID t then a\<lparr>at_LastRefreshedTime := now\<rparr> else a)"

context thumb_indexer begin

lemma asset_picked:
  assumes "getAssetWithoutThumbnailCached N now s = (Inr a, s')"
  shows "\<exists>d\<in>set (td_assets s). a = project_asset d \<and> asset_without_thumbnail (now - ni_retryInterval N) d \<and>
    s' = s\<lparr>td_assets := upd1 (asset_without_thumbnail (now - ni_retryInterval N)) (\<lambda>a. a\<lparr>ta_LastCheck := Some now\<rparr>) (td_assets s)\<rparr>"
proof -
  from assms obtain d ds where "nftAssets_FindOneAndUpdate N (asset_without_thumbnail (now - ni_retryInterval N))
      (\<lambda>a. a\<lparr>ta_LastCheck := Some now\<rparr>) (td_assets s) = (Inr d, ds)" "a = project_asset d" "s' = s\<lparr>td_assets := ds\<rparr>"
    by (auto simp: getAssetWithoutThumbnailCached_def act_simps on_td_defs split: prod.splits sum.splits)
  with assets_find.find_and_update_Inr show ?thesis by blast
qed

lemma updateAssetThumbnail_result:
  assumes "SplitN_2 (CHR ''-'') indexID = [b, assetID]"
  shows "snd (updateAssetThumbnail N now indexID i s) =
    s\<lparr>td_assets := upd1 (\<lambda>a. asset_IndexID a = indexID)
        (\<lambda>a. a\<lparr>asset_ThumbnailID := Some i, asset_LastRefreshedTime := now\<rparr>) (td_assets s),
      td_accountTokens := map (refreshed now assetID (td_tokens s)) (td_accountTokens s)\<rparr>"
proof -
  let ?ids = "tok_IndexID ` {t \<in> set (td_tokens s). tok_AssetID t = assetID}"
  have u: "UpdateOne (nftAssets N) (\<lambda>a. asset_IndexID a = indexID)
      (\<lambda>a. a\<lparr>asset_ThumbnailID := Some i, asset_LastRefreshedTime := now\<rparr>) (td_assets s) =
    (Inr (case List.find (\<lambda>a. asset_IndexID a = indexID) (td_assets s) of
            None \<Rightarrow> \<lparr>MatchedCount = 0, ModifiedCount = 0, UpsertedCount = 0\<rparr>
          | Some d \<Rightarrow> upd_res d (d\<lparr>asset_ThumbnailID := Some i, asset_LastRefreshedTime := now\<rparr>)),
     upd1 (\<lambda>a. asset_IndexID a = indexID) (\<lambda>a. a\<lparr>asset_ThumbnailID := Some i, asset_LastRefreshedTime := now\<rparr>) (td_assets s))"
    by (rule assets.update_one_keeping) (simp add: same_by_def)
  obtain r where m: "UpdateMany (nftAccountTokens N) (\<lambda>a. at_IndexID a \<in> ?ids) (\<lambda>a. a\<lparr>at_LastRefreshedTime := now\<rparr>) (td_accountTokens s)
      = (Inr r, map (\<lambda>a. if at_IndexID a \<in> ?ids then a\<lparr>at_LastRefreshedTime := now\<rparr> else a) (td_accountTokens s))"
    using accountTokens.update_many_keeping [of "\<lambda>a. a\<lparr>at_LastRefreshedTime := now\<rparr>" "\<lambda>a. at_IndexID a \<in> ?ids" "td_accountTokens s"]
    by (auto simp: same_by_def at_key_def)
  have "(\<lambda>a. if at_IndexID a \<in> ?ids then a\<lparr>at_LastRefreshedTime := now\<rparr> else a) = refreshed now assetID (td_tokens s)"
    by (auto simp: fun_eq_iff refreshed_def image_iff)
  with u m assms tokens.find_all show ?thesis
    by (simp add: updateAssetThumbnail_def act_simps on_td_defs)
qed

lemma updateCollectionThumbnail_rest:
  "td_images (snd (updateCollectionThumbnail N now i j s)) = td_images s \<and> td_assets (snd (updateCollectionThumbnail N now i j s)) = td_assets s"
  by (auto simp: updateCollectionThumbnail_def Let_def act_simps on_td_defs split: prod.splits sum.splits)

lemma markAssetThumbnailFailed_result:
  "snd (markAssetThumbnailFailed N i r s) =
    s\<lparr>td_assets := upd1 (\<lambda>a. asset_IndexID a = i) (\<lambda>a. a\<lparr>ta_FailedReason := Some r\<rparr>) (td_assets s)\<rparr>"
proof -
  have "snd (UpdateOne (nftAssets N) (\<lambda>a. asset_IndexID a = i) (\<lambda>a. a\<lparr>ta_FailedReason := Some r\<rparr>) (td_assets s)) =
      upd1 (\<lambda>a. asset_IndexID a = i) (\<lambda>a. a\<lparr>ta_FailedReason := Some r\<rparr>) (td_assets s)"
    by (subst assets.update_one_keeping) (simp_all add: same_by_def)
  then show ?thesis
    by (auto simp: markAssetThumbnailFailed_def act_simps on_td_defs split: prod.splits sum.splits)
qed

end

section \<open>Assets that were checked\<close>

text \<open>Every asset with an index id has been checked at a time or later.\<close>

definition checked :: "string \<Rightarrow> gotime \<Rightarrow> thumb_db \<Rightarrow> bool" where
  "checked i t s \<longleftrightarrow> (\<forall>d\<in>set (td_assets s). asset_IndexID d = i \<longrightarrow> (\<exists>t'. ta_LastCheck d = Some t' \<and> t \<le> t'))"

lemma checked_more [simp]:
  "checked i t (s\<lparr>td_collections := c\<rparr>) = checked i t s" "checked i t (s\<lparr>td_accountTokens := x\<rparr>) = checked i t s"
  "checked i t (s\<lparr>td_images := m\<rparr>) = checked i t s"
  by (simp_all add: checked_def)

lemma checked_upd1:
  assumes "checked i t s" and "\<And>d. asset_IndexID (f d) = asset_IndexID d"
    and "\<And>d. ta_LastCheck (f d) = ta_LastCheck d \<or> (\<exists>t'\<ge>t. ta_LastCheck (f d) = Some t')"
  shows "checked i t (s\<lparr>td_assets := upd1 p f (td_assets s)\<rparr>)"
  unfolding checked_def
proof (intro ballI impI)
  fix d assume d: "d \<in> set (td_assets (s\<lparr>td_assets := upd1 p f (td_assets s)\<rparr>))" "asset_IndexID d = i"
  then have "d \<in> set (td_assets s) \<or> (\<exists>x\<in>set (td_assets s). d = f x)"
    using set_upd1 [of d p f "td_assets s"] by auto
  with d(2) assms show "\<exists>t'. ta_LastCheck d = Some t' \<and> t \<le> t'" unfolding checked_def by metis
qed

lemma keeps_run: "keeps P m \<Longrightarrow> m s = (r, s') \<Longrightarrow> P s \<Longrightarrow> P s'"
  by (auto simp: keeps_def dest!: spec [of _ s])

lemma keeps_checked_on_td:
  "keeps (checked i t) (on_td_collections m2)" "keeps (checked i t) (on_td_accountTokens m3)" "keeps (checked i t) (on_td_images m4)"
  by (auto simp: keeps_def on_td_defs act_simps split: prod.splits)

context thumb_indexer begin

lemma keeps_checked_update:
  assumes "\<And>d. asset_IndexID (f d) = asset_IndexID d" and "\<And>d. ta_LastCheck (f d) = ta_LastCheck d"
  shows "keeps (checked i t) (on_td_assets (UpdateOne (nftAssets N) p f))"
  unfolding keeps_def
proof (intro allI impI)
  fix s assume c: "checked i t s"
  from checked_upd1 [OF c, of f p] assms have "checked i t (s\<lparr>td_assets := upd1 p f (td_assets s)\<rparr>)" by simp
  moreover have "\<exists>r. UpdateOne (nftAssets N) p f (td_assets s) = (Inr r, upd1 p f (td_assets s))"
    using assets.update_one_keeping [of f p "td_assets s"] assms(1) by (auto simp: same_by_def)
  ultimately show "checked i t (snd (on_td_assets (UpdateOne (nftAssets N) p f) s))" by (auto simp: on_td_defs act_simps)
qed

lemma keeps_checked_writes:
  "keeps (checked i t) (updateAssetThumbnail N now j k)" "keeps (checked i t) (updateCollectionThumbnail N now j k)"
  "keeps (checked i t) (markAssetThumbnailFailed N j r)" "keeps (checked i t) (getCollectionWithoutThumbnailCached N now)"
  unfolding updateAssetThumbnail_def updateCollectionThumbnail_def markAssetThumbnailFailed_def getCollectionWithoutThumbnailCached_def Let_def
  by (intro keeps_rules keeps_checked_on_td keeps_checked_update; simp)+

lemma getAsset_checked:
  assumes "getAssetWithoutThumbnailCached N now s = (r, s')" and "checked i t s" and "t \<le> now"
  shows "checked i t s'"
proof (cases r)
  case (Inl e)
  with assms(1) have "td_assets s' = td_assets s"
    by (auto simp: getAssetWithoutThumbnailCached_def act_simps on_td_defs split: prod.splits sum.splits
        dest!: assets_find.find_and_update_Inl)
  with assms(2) show ?thesis by (simp add: checked_def)
next
  case (Inr a)
  from asset_picked [OF assms(1) [unfolded Inr]] checked_upd1 [OF assms(2)] assms(3) show ?thesis by auto
qed

lemma getAsset_marks:
  assumes "getAssetWithoutThumbnailCached N now s = (Inr a, s')" and "distinct (map asset_IndexID (td_assets s))"
  shows "checked (na_IndexID a) now s'"
proof -
  let ?p = "asset_without_thumbnail (now - ni_retryInterval N)" and ?f = "\<lambda>a. a\<lparr>ta_LastCheck := Some now\<rparr>"
  from assms(1) obtain d ds where "nftAssets_FindOneAndUpdate N ?p ?f (td_assets s) = (Inr d, ds)" "a = project_asset d" "s' = s\<lparr>td_assets := ds\<rparr>"
    by (auto simp: getAssetWithoutThumbnailCached_def act_simps on_td_defs split: prod.splits sum.splits)
  then have d: "List.find ?p (td_assets s) = Some d" "a = project_asset d" "s' = s\<lparr>td_assets := upd1 ?p ?f (td_assets s)\<rparr>"
    by (auto simp: assets_find.FindOneAndUpdate_law split: option.splits)
  from del1_split [OF d(1), of ?f] obtain as bs where split: "td_assets s = as @ d # bs" "upd1 ?p ?f (td_assets s) = as @ ?f d # bs" by blast
  from assms(2) split(1) show ?thesis
    unfolding checked_def d(2,3) by (simp add: split(2) [unfolded split(1)] project_asset_def image_iff) (use split in fastforce)
qed

lemma generate_thumbnail_checked:
  assumes "generate_thumbnail N now info s = Some s'" and "checked i t s"
  shows "checked i t s'"
proof -
  obtain r s1 where c: "on_td_images (CreateOrGetImage (ni_images N) now (ti_ID info)) s = (r, s1)" by fastforce
  have s1: "checked i t s1" by (rule keeps_run [OF keeps_checked_on_td(3) c assms(2)])
  show ?thesis
  proof (cases r)
    case (Inl e)
    with c s1 assms(1) show ?thesis by (simp add: generate_thumbnail_def)
  next
    case (Inr row)
    with c assms(1) obtain img err imgs where u: "UploadImage (ni_images N) now (ti_ID info)
        (URLImageReader_Read (ni_downloads N) (ti_ImageURL info)) (Some (ti_Metadata info)) (td_images s1) = Some ((img, err), imgs)"
      by (auto simp: generate_thumbnail_def split: option.splits)
    from s1 have "checked i t (snd (m (s1\<lparr>td_images := imgs\<rparr>)))" if "keeps (checked i t) m" for m :: "(thumb_db, unit) act"
      by (intro keepsD [OF that]) simp
    with s1 u Inr c assms(1) keeps_checked_writes show ?thesis
      by (auto simp: generate_thumbnail_def Let_def split: option.splits thumb_type.splits)
  qed
qed

lemma queue_step_checked:
  assumes "queue_step N q q'" and "checked i t (q_db q)" and "t \<le> q_now q"
  shows "checked i t (q_db q') \<and> t \<le> q_now q'"
  using assms
proof (induction rule: queue_step.induct)
  case (generate q i s)
  then show ?case using generate_thumbnail_checked by simp
qed (auto intro: getAsset_checked elim: keeps_run [OF keeps_checked_writes(4)])

lemma queue_steps_checked:
  assumes "(queue_step N)\<^sup>*\<^sup>* q q'" and "checked i t (q_db q)" and "t \<le> q_now q"
  shows "checked i t (q_db q')"
proof -
  from assms(1) have "checked i t (q_db q') \<and> t \<le> q_now q'"
  proof induction
    case base
    with assms(2,3) show ?case by simp
  next
    case (step q1 q2)
    then show ?case using queue_step_checked by blast
  qed
  then show ?thesis by simp
qed

end

section \<open>A transaction that cannot be committed\<close>

context image_service begin

lemma UploadImage_commit_fails:
  assumes "UploadImage S now assetID reader md s = Some ((img, None), s')" and "\<And>rows. is_Commit S rows \<noteq> None"
  shows "im_AssetID img = assetID \<and> im_ImageID img \<notin> cf_ids (im_cloud s') \<and> im_rows s' = im_rows s"
proof -
  define u where "u = \<lparr>up_image = zero_image, up_cloudflareImageID = [], up_rows = im_rows s, up_cloud = im_cloud s\<rparr>"
  from assms(1) obtain e u' where tx: "upload_tx S now (im_locked s) assetID reader md u = Some (e, u')"
    by (auto simp: UploadImage_def u_def split: option.splits)
  note res = upload_tx_result [OF tx]
  from assms(2) [of "up_rows u'"] obtain x where x: "is_Commit S (up_rows u') = Some x" by auto
  from assms(1) tx x have up: "up_cloudflareImageID u' \<noteq> []" and im: "up_image u' = img" and r: "im_rows s' = im_rows s"
    and d: "is_DeleteImage S (up_cloudflareImageID u') (up_cloud u') = (None, im_cloud s')"
    by (auto simp: UploadImage_def u_def Let_def split: option.splits prod.splits if_splits)
  from up res im have i: "im_ImageID img = up_cloudflareImageID u'" and a: "im_AssetID img = assetID"
    by (auto simp: u_def)
  from DeleteImage_law [of "up_cloudflareImageID u'" "up_cloud u'"] d
  have "im_cloud s' = without_image (up_cloudflareImageID u') (up_cloud u')" by auto
  then show ?thesis using i a r by (auto simp: without_image_def cf_ids_def)
qed

end

section \<open>Properties of the image indexer\<close>

text \<open>
  C25: An asset the loop has picked had no thumbnail and no recorded failure, and whatever the loops and workers do from then on, with
  their steps in any order, the loop does not pick the same asset again before the retry interval has passed.
\<close>

theorem asset_not_picked_twice:
  assumes "thumb_indexer N" and "distinct (map asset_IndexID (td_assets (q_db q)))"
    and "getAssetWithoutThumbnailCached N (q_now q) (q_db q) = (Inr a, s)"
    and "(queue_step N)\<^sup>*\<^sup>* (q\<lparr>q_db := s, q_assets := Sending (asset_info a)\<rparr>) q'"
    and "getAssetWithoutThumbnailCached N (q_now q') (q_db q') = (Inr b, s')"
    and "q_now q' \<le> q_now q + ni_retryInterval N"
  shows "na_IndexID b \<noteq> na_IndexID a \<and>
    (\<exists>d\<in>set (td_assets (q_db q)). project_asset d = a \<and> null_or_empty (asset_ThumbnailID d) \<and> null_or_empty (ta_FailedReason d))"
proof
  from thumb_indexer.queue_steps_checked [OF assms(1,4)] thumb_indexer.getAsset_marks [OF assms(1,3,2)]
  have "checked (na_IndexID a) (q_now q) (q_db q')" by simp
  moreover from thumb_indexer.asset_picked [OF assms(1,5)] obtain d where "d \<in> set (td_assets (q_db q'))" "b = project_asset d"
    "asset_without_thumbnail (q_now q' - ni_retryInterval N) d" by blast
  ultimately show "na_IndexID b \<noteq> na_IndexID a"
    using assms(6) by (auto simp: checked_def project_asset_def asset_without_thumbnail_def not_checked_since_def)
qed (use thumb_indexer.asset_picked [OF assms(1,3)] in \<open>auto simp: asset_without_thumbnail_def\<close>)

text \<open>
  C37: After an upload that reports no error the worker writes the id of the image into the asset and marks the account tokens of
  all tokens of this asset as refreshed.
\<close>

theorem worker_writes_thumbnail:
  assumes "thumb_indexer N" and "on_td_images (CreateOrGetImage (ni_images N) now (ti_ID info)) s = (Inr row, s1)"
    and "UploadImage (ni_images N) now (ti_ID info) (URLImageReader_Read (ni_downloads N) (ti_ImageURL info))
           (Some (ti_Metadata info)) (td_images s1) = Some ((img, None), imgs)"
    and "ti_Type info = TypeAsset" and "SplitN_2 (CHR ''-'') (ti_ID info) = [blockchain, assetID]"
  shows "generate_thumbnail N now info s = Some
    (s1\<lparr>td_images := imgs,
       td_assets := upd1 (\<lambda>a. asset_IndexID a = ti_ID info)
         (\<lambda>a. a\<lparr>asset_ThumbnailID := Some (im_ImageID img), asset_LastRefreshedTime := now\<rparr>) (td_assets s1),
       td_accountTokens := map (refreshed now assetID (td_tokens s1)) (td_accountTokens s1)\<rparr>)"
proof -
  have "im_AssetID img = ti_ID info"
    using image_service.UploadImage_result [OF thumb_indexer.images_law [OF assms(1)] assms(3)] by auto
  with assms thumb_indexer.updateAssetThumbnail_result [OF assms(1,5)] show ?thesis
    by (simp add: generate_thumbnail_def)
qed

text \<open>
  C33: When the transaction of an upload cannot be committed the image is deleted again and the deletion's success hides the failure:
  the worker then writes the id of an image that does not exist into the asset, which is never picked again.
\<close>

theorem rolled_back_upload_leaves_dangling_thumbnail:
  assumes "thumb_indexer N" and "\<And>rows. is_Commit (ni_images N) rows \<noteq> None"
    and "on_td_images (CreateOrGetImage (ni_images N) now (ti_ID info)) s = (Inr row, s1)"
    and "UploadImage (ni_images N) now (ti_ID info) (URLImageReader_Read (ni_downloads N) (ti_ImageURL info))
           (Some (ti_Metadata info)) (td_images s1) = Some ((img, None), imgs)"
    and "ti_Type info = TypeAsset" and "SplitN_2 (CHR ''-'') (ti_ID info) = [blockchain, assetID]"
    and "asset_IndexID d = ti_ID info" and "d \<in> set (td_assets s1)"
  shows "\<exists>s' i. generate_thumbnail N now info s = Some s' \<and> i \<notin> cf_ids (im_cloud (td_images s')) \<and>
    (\<exists>a\<in>set (td_assets s'). asset_IndexID a = ti_ID info \<and> asset_ThumbnailID a = Some i)"
proof -
  from assms(7,8) obtain x where "List.find (\<lambda>a. asset_IndexID a = ti_ID info) (td_assets s1) = Some x"
    using find_None [of "\<lambda>a. asset_IndexID a = ti_ID info" "td_assets s1"]
    by (cases "List.find (\<lambda>a. asset_IndexID a = ti_ID info) (td_assets s1)") auto
  from del1_split [OF this, of "\<lambda>a. a\<lparr>asset_ThumbnailID := Some (im_ImageID img), asset_LastRefreshedTime := now\<rparr>"]
  have "\<exists>a\<in>set (upd1 (\<lambda>a. asset_IndexID a = ti_ID info)
      (\<lambda>a. a\<lparr>asset_ThumbnailID := Some (im_ImageID img), asset_LastRefreshedTime := now\<rparr>) (td_assets s1)).
    asset_IndexID a = ti_ID info \<and> asset_ThumbnailID a = Some (im_ImageID img)" by force
  moreover have "im_AssetID img = ti_ID info" and "im_ImageID img \<notin> cf_ids (im_cloud imgs)"
    using image_service.UploadImage_commit_fails [OF thumb_indexer.images_law [OF assms(1)] assms(4,2)] by auto
  ultimately show ?thesis
    using assms(3-5) thumb_indexer.updateAssetThumbnail_result [OF assms(1,6), of now "im_ImageID img"]
    by (simp add: generate_thumbnail_def) blast
qed

text \<open>
  A failure on the image of a collection is never recorded at the collection: it is written to an asset with the id of the
  collection, if there is one, and the collections stay as they were.
\<close>

theorem collection_failure_not_recorded:
  assumes "thumb_indexer N" and "on_td_images (CreateOrGetImage (ni_images N) now (ti_ID info)) s = (Inr row, s1)"
    and "UploadImage (ni_images N) now (ti_ID info) (URLImageReader_Read (ni_downloads N) (ti_ImageURL info))
           (Some (ti_Metadata info)) (td_images s1) = Some ((img, Some e), imgs)"
    and "Reason e = Some r" and "ti_Type info = TypeCollection"
  shows "\<exists>s'. generate_thumbnail N now info s = Some s' \<and> td_collections s' = td_collections s1 \<and>
    td_assets s' = upd1 (\<lambda>a. asset_IndexID a = ti_ID info) (\<lambda>a. a\<lparr>ta_FailedReason := Some r\<rparr>) (td_assets s1)"
  using assms(2-5) thumb_indexer.markAssetThumbnailFailed_result [OF assms(1)]
  by (simp add: generate_thumbnail_def)

text \<open>
  The process can panic when it is stopped: with no asset to work on and a collection just found, the end of the context closes
  the channel on which the collection is then sent.
\<close>

theorem queue_panic_reachable:
  assumes "thumb_indexer N" and "\<And>a. a \<in> set (td_assets s) \<Longrightarrow> \<not> asset_without_thumbnail (now - ni_retryInterval N) a"
    and "c \<in> set (td_collections s)" and "collection_without_thumbnail (now - ni_retryInterval N) c"
  shows "\<exists>q. (queue_step N)\<^sup>*\<^sup>* (queue_started now s) q \<and> q_panic q"
proof -
  define ts where "ts = now - ni_retryInterval N"
  from assms(2) have a: "List.find (asset_without_thumbnail ts) (td_assets s) = None"
    by (auto simp: find_None ts_def)
  from assms(3,4) obtain x where x: "List.find (collection_without_thumbnail ts) (td_collections s) = Some x"
    using find_None [of "collection_without_thumbnail ts" "td_collections s"]
    by (cases "List.find (collection_without_thumbnail ts) (td_collections s)") (auto simp: ts_def)
  define s1 where "s1 = s\<lparr>td_collections := upd1 (collection_without_thumbnail ts) (\<lambda>c. c\<lparr>tc_LastCheck := Some now\<rparr>) (td_collections s)\<rparr>"
  define q0 where "q0 = queue_started now s"
  define q1 where "q1 = q0\<lparr>q_db := s1, q_collections := Sending (collection_info (project_collection x))\<rparr>"
  define q2 where "q2 = q1\<lparr>q_db := s1, q_assets := Stopped, q_closed := True\<rparr>"
  note laws = find_and_update.FindOneAndUpdate_law [OF thumb_indexer.assets_find_law [OF assms(1)]]
    find_and_update.FindOneAndUpdate_law [OF thumb_indexer.collections_find_law [OF assms(1)]]
  have "getCollectionWithoutThumbnailCached N now s = (Inr (project_collection x), s1)"
    using x by (simp add: getCollectionWithoutThumbnailCached_def act_simps on_td_defs laws s1_def ts_def)
  then have 1: "queue_step N q0 q1"
    unfolding q1_def by (intro collection_found) (simp_all add: q0_def queue_started_def)
  have "getAssetWithoutThumbnailCached N now s1 = (Inl ErrNoDocuments, s1)"
    using a by (simp add: getAssetWithoutThumbnailCached_def act_simps on_td_defs laws s1_def ts_def)
  then have 2: "queue_step N q1 q2"
    unfolding q2_def by (intro asset_stop) (simp_all add: q1_def q0_def queue_started_def)
  have 3: "queue_step N q2 (q2\<lparr>q_panic := True\<rparr>)"
    by (rule send_on_closed [where i = "collection_info (project_collection x)"]) (simp_all add: q2_def q1_def q0_def queue_started_def)
  from 1 2 3 have "(queue_step N)\<^sup>*\<^sup>* q0 (q2\<lparr>q_panic := True\<rparr>)"
    by (meson converse_rtranclp_into_rtranclp rtranclp.rtrancl_refl)
  then show ?thesis by (auto simp: q0_def)
qed

section \<open>Instances\<close>

definition sample_thumb_asset :: "string \<Rightarrow> ThumbAsset" where
  "sample_thumb_asset i = \<lparr>asset_ID = ''a'', asset_IndexID = i, asset_Source = [], asset_BlockchainMetadata = JNull,
     asset_ProjectMetadata = \<lparr>vpm_Origin = zero_ProjectMetadata, vpm_Latest = zero_ProjectMetadata\<rparr>,
     asset_LastRefreshedTime = 0, asset_ThumbnailID = None, asset_IPFSPinned = False, asset_Attributes = None,
     ta_LastCheck = None, ta_FailedReason = None\<rparr>"

definition sample_thumb_collection :: ThumbCollection where
  "sample_thumb_collection = Collection.extend sample_collection
     \<lparr>tc_ThumbnailURL = None, tc_LastCheck = None, tc_FailedReason = None\<rparr>"

definition sample_thumb_db :: thumb_db where
  "sample_thumb_db = \<lparr>td_assets = [sample_thumb_asset ''ff-a'', sample_thumb_asset ''ff-b''], td_collections = [],
     td_tokens = [zero_Token\<lparr>tok_IndexID := ''t'', tok_AssetID := ''a''\<rparr>],
     td_accountTokens = [zero_AccountToken\<lparr>at_IndexID := ''t''\<rparr>],
     td_images = \<lparr>im_rows = [], im_locked = [], im_cloud = []\<rparr>\<rparr>"

definition sample_info :: "thumb_type \<Rightarrow> ThumbnailIndexInfo" where
  "sample_info ty = \<lparr>ti_ID = ''ff-a'', ti_ImageURL = ''a.png'', ti_Metadata = Map.empty, ti_Type = ty\<rparr>"

definition sample_thumb_row :: ImageMetadata where
  "sample_thumb_row = \<lparr>im_AssetID = ''ff-a'', im_ImageID = [], im_CreatedAt = 7, im_UpdatedAt = 7\<rparr>"

abbreviation with_row :: thumb_db where
  "with_row \<equiv> sample_thumb_db\<lparr>td_images := \<lparr>im_rows = [sample_thumb_row], im_locked = [], im_cloud = []\<rparr>\<rparr>"

abbreviation good_image :: downloads where "good_image \<equiv> sample_downloads (''png'', Some EOF)"
abbreviation bad_image :: downloads where "bad_image \<equiv> sample_downloads ([], Some (ReadError (Errorf ''reset'')))"

lemma sample_create:
  "on_td_images (CreateOrGetImage (ni_images (mem_indexer bad D)) 7 (ti_ID (sample_info ty))) sample_thumb_db =
     (Inr sample_thumb_row, with_row)"
  by (simp add: on_td_defs act_simps CreateOrGetImage_def mem_indexer_def mem_images_def sample_info_def sample_thumb_db_def
      first_row_def row_of_def sample_thumb_row_def Let_def)

lemma sample_thumb_upload:
  "UploadImage (ni_images (mem_indexer bad good_image)) 7 (ti_ID (sample_info ty))
     (URLImageReader_Read (ni_downloads (mem_indexer bad good_image)) (ti_ImageURL (sample_info ty)))
     (Some (ti_Metadata (sample_info ty))) (td_images with_row) =
   Some ((sample_thumb_row\<lparr>im_ImageID := ''i''\<rparr>, None),
     if bad then \<lparr>im_rows = [sample_thumb_row], im_locked = [], im_cloud = []\<rparr>
     else \<lparr>im_rows = [sample_thumb_row\<lparr>im_ImageID := ''i''\<rparr>], im_locked = [],
       im_cloud = [\<lparr>cf_ID = ''i'', cf_File = ''png'', cf_Name = ''ff-a'', cf_Metadata = [''mime_type'' \<mapsto> ''image/png'']\<rparr>]\<rparr>)"
  using sample_image_read
  by (simp add: mem_indexer_def sample_info_def upload_sample_simps sample_thumb_row_def fitted_file_def ImageSizeThreshold_def)

lemma sample_bad_upload:
  "UploadImage (ni_images (mem_indexer False bad_image)) 7 (ti_ID (sample_info ty))
     (URLImageReader_Read (ni_downloads (mem_indexer False bad_image)) (ti_ImageURL (sample_info ty)))
     (Some (ti_Metadata (sample_info ty))) (td_images with_row) =
   Some ((sample_thumb_row, Some (ImageCachingError ReasonDownloadFileFailed)), td_images with_row)"
proof -
  have "URLImageReader_Read bad_image ''a.png'' = Inl (Errorf ''bytes read'')"
    using sample_validateURL [of "([], Some (ReadError (Errorf ''reset'')))" "''a.png''"]
    by (simp add: URLImageReader_Read_def DownloadFile_def has_suffix_def has_prefix_def) (simp add: sample_downloads_def)
  then show ?thesis
    by (simp add: mem_indexer_def sample_info_def upload_sample_simps sample_thumb_row_def)
qed

lemma sample_split: "SplitN_2 (CHR ''-'') (ti_ID (sample_info ty)) = [''ff'', ''a'']"
  by (simp add: SplitN_2_def sample_info_def)

theorem asset_not_picked_twice_witness:
  "na_IndexID (project_asset (sample_thumb_asset ''ff-b'')) \<noteq> na_IndexID (project_asset (sample_thumb_asset ''ff-a''))"
proof -
  let ?N = "mem_indexer False good_image"
  let ?a = "sample_thumb_asset ''ff-a''" and ?b = "sample_thumb_asset ''ff-b''"
  let ?s = "sample_thumb_db\<lparr>td_assets := [?a\<lparr>ta_LastCheck := Some 10\<rparr>, ?b]\<rparr>" and ?q = "queue_started 10 sample_thumb_db"
  let ?q1 = "?q\<lparr>q_db := ?s, q_assets := Sending (asset_info (project_asset ?a))\<rparr>"
  let ?q2 = "?q1\<lparr>q_assets := Watching, q_chan := [asset_info (project_asset ?a)]\<rparr>"
  let ?q3 = "?q2\<lparr>q_now := 11\<rparr>"
  note get = getAssetWithoutThumbnailCached_def act_simps on_td_defs mem_indexer_def mem_find_and_update_def sample_thumb_db_def
    sample_thumb_asset_def asset_without_thumbnail_def not_checked_since_def null_or_empty_def queue_started_def
  have 1: "getAssetWithoutThumbnailCached ?N (q_now ?q) (q_db ?q) = (Inr (project_asset ?a), ?s)"
    by (simp add: get)
  have sent: "queue_step ?N ?q1 ?q2"
    using asset_send [of ?q1 "asset_info (project_asset ?a)" ?N] by (simp add: queue_started_def)
  have "queue_step ?N ?q2 ?q3" by (rule tick) (simp_all add: queue_started_def)
  with sent have steps: "(queue_step ?N)\<^sup>*\<^sup>* ?q1 ?q3" by (meson converse_rtranclp_into_rtranclp rtranclp.rtrancl_refl)
  have 2: "getAssetWithoutThumbnailCached ?N (q_now ?q3) (q_db ?q3) =
      (Inr (project_asset ?b), sample_thumb_db\<lparr>td_assets := [?a\<lparr>ta_LastCheck := Some 10\<rparr>, ?b\<lparr>ta_LastCheck := Some 11\<rparr>]\<rparr>)"
    by (simp add: get)
  have "distinct (map asset_IndexID (td_assets (q_db ?q)))"
    by (simp add: sample_thumb_db_def sample_thumb_asset_def queue_started_def)
  from asset_not_picked_twice [OF mem_indexer_lawful this 1 steps 2] show ?thesis by (simp add: mem_indexer_def queue_started_def)
qed

theorem worker_writes_thumbnail_witness:
  "\<exists>s'. generate_thumbnail (mem_indexer False good_image) 7 (sample_info TypeAsset) sample_thumb_db = Some s' \<and>
     map asset_ThumbnailID (td_assets s') = [Some ''i'', None] \<and> map at_LastRefreshedTime (td_accountTokens s') = [7]"
  using worker_writes_thumbnail [OF mem_indexer_lawful sample_create sample_thumb_upload [of False TypeAsset] _ sample_split]
  by (simp add: sample_thumb_db_def sample_thumb_asset_def sample_info_def sample_thumb_row_def refreshed_def zero_Token_def zero_AccountToken_def)

theorem rolled_back_upload_leaves_dangling_thumbnail_witness:
  "\<exists>s' i. generate_thumbnail (mem_indexer True good_image) 7 (sample_info TypeAsset) sample_thumb_db = Some s' \<and>
     i \<notin> cf_ids (im_cloud (td_images s')) \<and> list_ex (\<lambda>a. asset_ThumbnailID a = Some i) (td_assets s')"
proof -
  have c: "is_Commit (ni_images (mem_indexer True good_image)) rows \<noteq> None" for rows
    by (simp add: mem_indexer_def mem_images_def)
  have t: "ti_Type (sample_info TypeAsset) = TypeAsset" by (simp add: sample_info_def)
  have "asset_IndexID (sample_thumb_asset ''ff-a'') = ti_ID (sample_info TypeAsset)"
    and "sample_thumb_asset ''ff-a'' \<in> set (td_assets with_row)"
    by (simp_all add: sample_thumb_asset_def sample_info_def sample_thumb_db_def)
  from rolled_back_upload_leaves_dangling_thumbnail [OF mem_indexer_lawful c sample_create sample_thumb_upload t sample_split this]
  show ?thesis by (fastforce simp: list_ex_iff)
qed

theorem collection_failure_not_recorded_witness:
  "\<exists>s'. generate_thumbnail (mem_indexer False bad_image) 7 (sample_info TypeCollection) sample_thumb_db = Some s' \<and>
     map ta_FailedReason (td_assets s') = [Some ReasonDownloadFileFailed, None]"
proof -
  have "Reason (ImageCachingError ReasonDownloadFileFailed) = Some ReasonDownloadFileFailed"
    and "ti_Type (sample_info TypeCollection) = TypeCollection" by (simp_all add: sample_info_def)
  from collection_failure_not_recorded [OF mem_indexer_lawful sample_create sample_bad_upload this] show ?thesis
    by (auto simp: sample_thumb_db_def sample_thumb_asset_def sample_info_def)
qed

theorem queue_panic_reachable_witness:
  "\<exists>q. (queue_step (mem_indexer False good_image))\<^sup>*\<^sup>*
       (queue_started 10 (sample_thumb_db\<lparr>td_assets := [], td_collections := [sample_thumb_collection]\<rparr>)) q \<and> q_panic q"
  by (rule queue_panic_reachable [OF mem_indexer_lawful, of _ 10 _ _ sample_thumb_collection])
     (simp_all add: sample_thumb_collection_def Collection.extend_def collection_without_thumbnail_def not_checked_since_def null_or_empty_def)

end
