(* ===== verification/OpenSea.thy ===== *)
theory OpenSea
  imports Etherscan EngineEth GoTime
begin

text \<open>
  The client of OpenSea (\<open>externals/opensea/client.go\<close>): the limit on the rate of requests as a step relation, how a
  request is made and its answer classified, and how the assets are read. The HTTP client and the reading of JSON text are
  parameters.
\<close>

section \<open>The limit on the rate\<close>

text \<open>
  The state of a limiter with a positive rate: the permits in the channel, the rounds left of the loop that a tick has started,
  and, to speak of them, the ticks so far and the requests that have been let through. A tick that comes while the loop still runs
  is kept by the ticker or dropped, so it starts nothing here.
\<close>

record RateLimiter =
  rl_rps :: int
  rl_chan :: nat
  rl_loop :: nat
  rl_ticks :: nat
  rl_requests :: nat

text \<open>\<open>make(chan struct{}, rps)\<close> panics for a negative capacity.\<close>

definition NewRateLimiter :: "int \<Rightarrow> RateLimiter res" where
  "NewRateLimiter rps =
     (if rps < 0 then Inl (GoPanic ''makechan: size out of range'')
      else Inr \<lparr>rl_rps = rps, rl_chan = 0, rl_loop = 0, rl_ticks = 0, rl_requests = 0\<rparr>)"

inductive limiter_step :: "RateLimiter \<Rightarrow> RateLimiter \<Rightarrow> bool" where
  second: "\<lbrakk>0 < rl_rps r; rl_loop r = 0\<rbrakk> \<Longrightarrow> limiter_step r (r\<lparr>rl_loop := nat (rl_rps r), rl_ticks := rl_ticks r + 1\<rparr>)"
| permit: "\<lbrakk>rl_loop r = Suc n; int (rl_chan r) < rl_rps r\<rbrakk> \<Longrightarrow> limiter_step r (r\<lparr>rl_loop := n, rl_chan := rl_chan r + 1\<rparr>)"
| full: "\<lbrakk>rl_loop r = Suc n; \<not> int (rl_chan r) < rl_rps r\<rbrakk> \<Longrightarrow> limiter_step r (r\<lparr>rl_loop := n\<rparr>)"
| request: "\<lbrakk>0 < rl_rps r; rl_chan r = Suc n\<rbrakk> \<Longrightarrow> limiter_step r (r\<lparr>rl_chan := n, rl_requests := rl_requests r + 1\<rparr>)"
| unlimited: "\<not> 0 < rl_rps r \<Longrightarrow> limiter_step r (r\<lparr>rl_requests := rl_requests r + 1\<rparr>)"

definition limiter_ok :: "RateLimiter \<Rightarrow> bool" where
  "limiter_ok r \<longleftrightarrow> 0 \<le> rl_rps r \<and> int (rl_chan r) \<le> rl_rps r \<and> int (rl_loop r) \<le> rl_rps r"

text \<open>A step changes neither the rate nor the invariant, and only a tick adds to what may still be requested.\<close>

definition credit :: "RateLimiter \<Rightarrow> int" where
  "credit r = int (rl_requests r) + int (rl_chan r) + int (rl_loop r) - rl_rps r * int (rl_ticks r)"

lemma limiter_step_credit:
  "limiter_step r r' \<Longrightarrow> limiter_ok r \<Longrightarrow> 0 < rl_rps r \<Longrightarrow> limiter_ok r' \<and> rl_rps r' = rl_rps r \<and> credit r' \<le> credit r"
  by (induction rule: limiter_step.induct) (auto simp: limiter_ok_def credit_def algebra_simps)

lemma limiter_steps_credit:
  assumes "limiter_step\<^sup>*\<^sup>* r r'" and "limiter_ok r" and "0 < rl_rps r"
  shows "limiter_ok r' \<and> rl_rps r' = rl_rps r \<and> credit r' \<le> credit r"
  using assms(1)
proof induction
  case base
  with assms show ?case by simp
next
  case (step r' r'')
  with limiter_step_credit [OF step.hyps(2)] assms(3) show ?case by auto
qed

lemma NewRateLimiter_empty:
  "NewRateLimiter n = Inr r \<Longrightarrow> rl_chan r = 0 \<and> rl_loop r = 0 \<and> rl_ticks r = 0 \<and> rl_requests r = 0"
  by (auto simp: NewRateLimiter_def split: if_splits)

section \<open>Times\<close>

text \<open>
  \<open>time.Parse\<close> with the layout \<open>2006-01-02T15:04:05.999999\<close> reads a time as the layout of RFC 3339 does, without its zone.
\<close>

definition trim_quotes :: "string \<Rightarrow> string" where
  "trim_quotes s = rev (dropWhile (\<lambda>c. c = CHR 0x22) (rev (dropWhile (\<lambda>c. c = CHR 0x22) s)))"

definition Time_UnmarshalJSON :: "string \<Rightarrow> gotime res" where
  "Time_UnmarshalJSON b =
     (let s = TrimSpace (trim_quotes b)
      in if s = [] then Inr 0
         else case parse_RFC3339Nano (hd (split ''+'' s) @ ''Z'') of
                None \<Rightarrow> Inl (Errorf ''parsing time'')
              | Some t \<Rightarrow> Inr t)"

section \<open>Requests\<close>

text \<open>A response: its status, its body as text, and its body as JSON.\<close>

record os_response =
  os_StatusCode :: int
  os_ReadAll :: "string res"
  os_Decode :: "json res"

record os_client =
  oc_ext :: ext
  oc_Valid :: "string \<Rightarrow> bool"
  oc_Encode :: "(string \<times> string) list \<Rightarrow> string"
  oc_Do :: "string \<Rightarrow> os_response res"

definition ErrTooManyRequest :: goerr where
  "ErrTooManyRequest = Errorf ''too many requests''"

text \<open>The request takes a permit of the limiter between its making and its sending; how long it waits for it is not in the result.\<close>

definition makeRequest :: "os_client \<Rightarrow> string \<Rightarrow> os_response res" where
  "makeRequest c url =
     (if \<not> oc_Valid c url then Inl (Errorf ''net/http: invalid request'')
      else bindR (oc_Do c url) (\<lambda>resp.
        if os_StatusCode resp = 200 then Inr resp
        else if os_StatusCode resp = 429 then Inl ErrTooManyRequest
        else bindR (os_ReadAll resp) (\<lambda>errResp. Inl (Errorf (''opensea api error: '' @ errResp)))))"

definition os_url :: "os_client \<Rightarrow> string \<Rightarrow> string \<Rightarrow> string" where
  "os_url c path query = x_url_String (oc_ext c)
     \<lparr>u_Scheme = ''https'', u_Host = ''api.opensea.io'', u_Path = path, u_RawQuery = query, u_Rest = []\<rparr>"

section \<open>Assets\<close>

definition decode_int64 :: "json \<Rightarrow> int res" where
  "decode_int64 v = (case v of JNull \<Rightarrow> Inr 0
     | JNum s \<Rightarrow> (case parse_int64 s of None \<Rightarrow> Inl (Errorf ''json: cannot unmarshal'') | Some n \<Rightarrow> Inr n)
     | _ \<Rightarrow> Inl (Errorf ''json: cannot unmarshal''))"

text \<open>
  The time in a member, zero without the member: the text of the value, with its quotes when it is a string. An explicit
  null is handed over as any other text; no value but a string holds a time.
\<close>

definition decode_Time :: "json option \<Rightarrow> gotime res" where
  "decode_Time v = (case v of None \<Rightarrow> Inr 0
     | Some JNull \<Rightarrow> Time_UnmarshalJSON ''null''
     | Some (JStr s) \<Rightarrow> Time_UnmarshalJSON ([CHR 0x22] @ s @ [CHR 0x22])
     | Some _ \<Rightarrow> Inl (Errorf ''parsing time''))"

definition decode_Owner :: "json \<Rightarrow> OpenseaOwner res" where
  "decode_Owner v =
     bindR (decode_struct v) (\<lambda>m.
     bindR (decode_string (jlookup m ''address'')) (\<lambda>a.
     bindR (decode_int64 (jlookup m ''quantity'')) (\<lambda>n. Inr \<lparr>oo_Address = a, oo_Quantity = n\<rparr>)))"

definition decode_Owners :: "json \<Rightarrow> OpenseaOwner list option res" where
  "decode_Owners v = (case v of JNull \<Rightarrow> Inr None
     | _ \<Rightarrow> bindR (decode_array v) (\<lambda>vs. bindR (mapR decode_Owner vs) (\<lambda>os. Inr (Some os))))"

text \<open>The members of an asset that the program reads.\<close>

definition decode_DetailedAsset :: "json \<Rightarrow> DetailedAssetV2 res" where
  "decode_DetailedAsset v =
     bindR (decode_struct v) (\<lambda>m. let str = (\<lambda>k. decode_string (jlookup m k)) in
     bindR (str ''identifier'') (\<lambda>i. bindR (str ''contract'') (\<lambda>c. bindR (str ''token_standard'') (\<lambda>ts.
     bindR (str ''name'') (\<lambda>n. bindR (str ''description'') (\<lambda>d. bindR (str ''image_url'') (\<lambda>iu.
     bindR (str ''metadata_url'') (\<lambda>mu. bindR (str ''display_image_url'') (\<lambda>di. bindR (str ''display_animation_url'') (\<lambda>an.
     bindR (str ''opensea_url'') (\<lambda>ou. bindR (decode_Time (map_of m ''created_at'')) (\<lambda>ca.
     bindR (decode_Time (map_of m ''updated_at'')) (\<lambda>ua. bindR (decode_Owners (jlookup m ''owners'')) (\<lambda>os.
     bindR (str ''creator'') (\<lambda>cr.
       Inr \<lparr>da_Identifier = i, da_Contract = c, da_TokenStandard = ts, da_Name = n, da_Description = d, da_ImageURL = iu,
            da_MetadataURL = mu, da_DisplayImageURL = di, da_AnimationURL = an, da_OpenseaURL = ou, da_CreatedAt = ca,
            da_UpdatedAt = ua, da_Owners = os, da_Creator = cr\<rparr>)))))))))))))))"

definition decode_nft :: "json \<Rightarrow> (string \<times> string) res" where
  "decode_nft v =
     bindR (decode_struct v) (\<lambda>m.
     bindR (decode_string (jlookup m ''contract'')) (\<lambda>c.
     bindR (decode_string (jlookup m ''identifier'')) (\<lambda>i. Inr (c, i))))"

definition RetrieveAsset :: "os_client \<Rightarrow> string \<Rightarrow> string \<Rightarrow> DetailedAssetV2 res" where
  "RetrieveAsset c contract tokenID =
     bindR (makeRequest c (os_url c (''/api/v2/chain/ethereum/contract/'' @ contract @ ''/nfts/'' @ tokenID) [])) (\<lambda>resp.
     bindR (os_Decode resp) (\<lambda>v. bindR (decode_struct v) (\<lambda>m. decode_DetailedAsset (jlookup m ''nft''))))"

definition RetrieveAssets :: "os_client \<Rightarrow> string \<Rightarrow> string \<Rightarrow> AssetsResponse res" where
  "RetrieveAssets c owner cursor =
     bindR (makeRequest c (os_url c (''/api/v2/chain/ethereum/account/'' @ owner @ ''/nfts'')
       (oc_Encode c [(''limit'', ''50''), (''next'', cursor)]))) (\<lambda>resp.
     bindR (os_Decode resp) (\<lambda>v.
     bindR (decode_struct v) (\<lambda>m.
     bindR (decode_array (jlookup m ''nfts'')) (\<lambda>vs.
     bindR (mapR decode_nft vs) (\<lambda>nfts.
     bindR (decode_string (jlookup m ''next'')) (\<lambda>n. Inr \<lparr>ar_NFTs = nfts, ar_Next = n\<rparr>))))))"

text \<open>The engine over this client.\<close>

definition with_opensea :: "os_client \<Rightarrow> engine \<Rightarrow> engine" where
  "with_opensea c E = E\<lparr>en_RetrieveAsset := RetrieveAsset c, en_RetrieveAssets := RetrieveAssets c\<rparr>"

section \<open>Properties\<close>

text \<open>
  C16: Whatever the interleaving, between two states of a limiter at most its rate of requests is let through for each tick,
  and twice the rate more; a new limiter lets through at most its rate for each tick.
\<close>

theorem requests_rate_limited:
  assumes "limiter_step\<^sup>*\<^sup>* r r'" and "limiter_ok r" and "0 < rl_rps r"
  shows "int (rl_requests r') - int (rl_requests r) \<le> rl_rps r * (int (rl_ticks r') - int (rl_ticks r) + 2) \<and>
    (NewRateLimiter (rl_rps r) = Inr r \<longrightarrow> int (rl_requests r') \<le> rl_rps r * int (rl_ticks r'))"
proof -
  from limiter_steps_credit [OF assms] have "rl_rps r' = rl_rps r" "credit r' \<le> credit r" by auto
  with assms(2) NewRateLimiter_empty [of "rl_rps r" r] show ?thesis
    by (auto simp: credit_def limiter_ok_def algebra_simps)
qed

text \<open>
  When OpenSea throttles the requests for the single assets of a page, the indexing of the page reports success: none of
  its tokens is indexed and the cursor goes on to the next page.
\<close>

theorem throttled_page_is_skipped:
  assumes "RetrieveAssets c owner cursor = Inr assets" and "owner \<notin> set EthereumIndexExcludedOwners"
    and "\<And>path. oc_Valid c (os_url c path [])"
    and "\<And>path. \<exists>resp. oc_Do c (os_url c path []) = Inr resp \<and> os_StatusCode resp = 429"
  shows "IndexETHTokenByOwner X (with_opensea c E) now owner cursor = Inr ([], ar_Next assets)"
proof -
  have "RetrieveAsset c contract i = Inl ErrTooManyRequest" for contract i
    using assms(3,4) [of "''/api/v2/chain/ethereum/contract/'' @ contract @ ''/nfts/'' @ i"]
    by (auto simp: RetrieveAsset_def makeRequest_def)
  then have "eth_updates X (with_opensea c E) now owner nfts = []" for nfts
    by (induction nfts) (auto simp: with_opensea_def)
  with assms(1,2) show ?thesis by (simp add: IndexETHTokenByOwner_def with_opensea_def)
qed

section \<open>Instances\<close>

definition sample_client :: os_client where
  "sample_client =
     \<lparr>oc_ext = sample_ext\<lparr>x_url_String := (\<lambda>u. u_RawQuery u)\<rparr>, oc_Valid = (\<lambda>u. True), oc_Encode = (\<lambda>v. ''q''),
      oc_Do = (\<lambda>u. Inr (if u = ''q'' then \<lparr>os_StatusCode = 200, os_ReadAll = Inr [],
          os_Decode = Inr (JObj [(''nfts'', JArr [JObj [(''contract'', JStr ''0xab''), (''identifier'', JStr ''7'')]]), (''next'', JStr ''n2'')])\<rparr>
        else \<lparr>os_StatusCode = 429, os_ReadAll = Inr [], os_Decode = Inl (Errorf ''EOF'')\<rparr>))\<rparr>"

definition sample_limiter :: RateLimiter where
  "sample_limiter = \<lparr>rl_rps = 2, rl_chan = 0, rl_loop = 0, rl_ticks = 0, rl_requests = 0\<rparr>"

theorem requests_rate_limited_witness:
  "int (rl_requests (sample_limiter\<lparr>rl_loop := 1, rl_ticks := 1, rl_requests := 1\<rparr>)) \<le> rl_rps sample_limiter * 1"
proof -
  define r where "r = sample_limiter"
  note r_def = r_def sample_limiter_def
  have "limiter_step r (r\<lparr>rl_loop := 2, rl_ticks := 1\<rparr>)"
    using second [of r] by (simp add: r_def)
  moreover have "limiter_step (r\<lparr>rl_loop := 2, rl_ticks := 1\<rparr>) (r\<lparr>rl_loop := 1, rl_ticks := 1, rl_chan := 1\<rparr>)"
    using permit [of "r\<lparr>rl_loop := 2, rl_ticks := 1\<rparr>" 1] by (simp add: r_def)
  moreover have "limiter_step (r\<lparr>rl_loop := 1, rl_ticks := 1, rl_chan := 1\<rparr>) (r\<lparr>rl_loop := 1, rl_ticks := 1, rl_requests := 1\<rparr>)"
    using request [of "r\<lparr>rl_loop := 1, rl_ticks := 1, rl_chan := 1\<rparr>" 0] by (simp add: r_def)
  ultimately have "limiter_step\<^sup>*\<^sup>* r (r\<lparr>rl_loop := 1, rl_ticks := 1, rl_requests := 1\<rparr>)"
    by (meson converse_rtranclp_into_rtranclp rtranclp.rtrancl_refl)
  from requests_rate_limited [OF this] show ?thesis
    by (simp add: r_def limiter_ok_def NewRateLimiter_def)
qed

theorem throttled_page_is_skipped_witness:
  "IndexETHTokenByOwner sample_ext (with_opensea sample_client sample_engine) 1 ''me'' [] = Inr ([], ''n2'')"
proof -
  have "RetrieveAssets sample_client ''me'' [] = Inr \<lparr>ar_NFTs = [(''0xab'', ''7'')], ar_Next = ''n2''\<rparr>"
    by (simp add: RetrieveAssets_def makeRequest_def os_url_def sample_client_def decode_struct_def decode_array_def
        decode_nft_def decode_string_def jlookup_def)
  moreover have "''me'' \<notin> set EthereumIndexExcludedOwners" by (simp add: EthereumIndexExcludedOwners_def)
  moreover have "oc_Valid sample_client (os_url sample_client path [])" for path by (simp add: sample_client_def)
  moreover have "\<exists>resp. oc_Do sample_client (os_url sample_client path []) = Inr resp \<and> os_StatusCode resp = 429" for path
    by (simp add: sample_client_def os_url_def)
  ultimately show ?thesis
    using throttled_page_is_skipped [where c = sample_client and owner = "''me''" and cursor = "[]"] by fastforce
qed

end
