(* ===== verification/Spec2Isabelle.thy ===== *)
theory Spec2Isabelle
  imports GrpcGateway SeriesLife EthWatch ExchangeRates Worker ApiClient ImageIndexer OpenSea
begin

text \<open>
  The ff-indexer records who owns which digital artwork: it takes ownership events from two
  blockchains, asks the blockchains and the marketplaces for the tokens concerned, and keeps tokens, assets,
  accounts, collections and sales in a document store that the gateways serve. This theory imports the
  whole development.

  \<^bold>\<open>Parts, theories and sources.\<close>

  \<^item> Foundation. \<open>Prelude\<close>: Go's errors, actions over a state, machine integers, times. \<open>GoStrings\<close>: the
    operations of \<open>strings\<close>, \<open>strconv\<close> and \<open>math/big\<close> the code calls, executable. \<open>GoTime\<close>: calendar dates and
    time layouts. \<open>Mongo\<close>: the interface of a document collection with its unique index
    (\<open>mongo_collection\<close>) and a reference driver that satisfies it.
  \<^item> Data. \<open>Types\<close>: the structs of \<open>structs.go\<close> and \<open>schema.go\<close>. \<open>Utils\<close>: \<open>utils.go\<close>, \<open>utils_eth.go\<close> and
    \<open>constants.go\<close>: index ids, links, HTTP reads, the classification of Ethereum logs.
  \<^item> The store, \<open>store.go\<close>. \<open>StoreDb\<close>: the database as a record of collections, transactions, and the
    interface \<open>mongo_store\<close>. \<open>StoreTokens\<close>: assets and tokens, \<open>IndexAsset\<close>, \<open>SwapToken\<close>, provenance and
    owners. \<open>StoreAccounts\<close>: identities, accounts and account tokens. \<open>StoreQueries\<close>: the queries that join tokens
    with their assets and page through them. \<open>StoreCollections\<close>: collections. \<open>StoreSales\<close>: sales and
    exchange rates.
  \<^item> The gRPC gateway. \<open>GrpcMapper\<close>: the messages and \<open>sdk/grpc-gateway/mapper.go\<close>. \<open>Cache\<close>:
    \<open>cache/cache_store.go\<close>. \<open>GrpcGateway\<close>: the handlers of \<open>services/grpc-gateway/server.go\<close> and the client
    \<open>sdk/grpc-gateway/client.go\<close>, composed over a connection (\<open>grpc_connection\<close>).
  \<^item> The index engine. \<open>EngineMeta\<close>: the metadata of assets, \<open>indexer.go\<close>. \<open>Engine\<close>: the engine as the record of its
    settings and clients, \<open>engine.go\<close>. \<open>EngineEth\<close>, \<open>EngineTezos\<close>: \<open>indexer_ethereum.go\<close> and \<open>indexer_tezos.go\<close>.
    \<open>OpenSea\<close>: the client \<open>externals/opensea\<close>, its limit on the rate as a step relation \<open>limiter_step\<close>, composed with the engine.
  \<^item> Workflows, \<open>background/worker\<close>. \<open>Cadence\<close>: what starts workflows, \<open>helper.go\<close> and \<open>workflow_id.go\<close>.
    \<open>Workflows\<close>: attempts of activities (\<open>context.go\<close>) and child workflows. \<open>ExchangeRates\<close>: the crawl of
    \<open>workflows_exchange_rate.go\<close> and its client \<open>externals/coinbase\<close>. \<open>SaleParser\<close>, \<open>SaleIndexer\<close>: the sales of
    \<open>workflows_detector.go\<close>, with the workflows that index them. \<open>Etherscan\<close>: \<open>externals/etherscan\<close>. \<open>Worker\<close>: the
    activities and the workflows on tokens, provenance and owners, over the engine and the store (\<open>activities.go\<close>,
    \<open>workflows_indexer.go\<close>, \<open>workflows_provenance.go\<close>).
  \<^item> The API gateway, \<open>services/api-gateway\<close>. \<open>ApiGateway\<close>: the REST handlers over the store, the cache, the engine and
    the workflows they start (\<open>query.go\<close>, \<open>index.go\<close>, \<open>feralfile.go\<close>, \<open>sales.go\<close>). \<open>GraphQL\<close>: the filter of
    \<open>middleware.go\<close>, the resolvers and the conversions of \<open>graph\<close>. \<open>ApiRoutes\<close>: the table of \<open>routes.go\<close> with the check
    of tokens, and what holds of every request. \<open>ApiClient\<close>: the client \<open>sdk/api-gateway/client.go\<close> over this table.
  \<^item> The image indexer, \<open>services/image-indexer\<close>. \<open>ImageReader\<close>: the download of a file with the check of its address, and
    screenshots (\<open>downloader.go\<close>, \<open>image_reader.go\<close>, also \<open>utils_downloader.go\<close>). \<open>ImageStore\<close>: the upload of an image as a
    transaction (\<open>store\<close>). \<open>ImageIndexer\<close>: the loops, the channel and the workers of \<open>service.go\<close> as a step relation \<open>queue_step\<close>.
  \<^item> The event emitters, \<open>services/ethereum-event-emitter\<close> and \<open>services/tezos-event-emitter\<close>, which push to the
    event processor: \<open>Emitters\<close>. \<open>EthWatch\<close>: the Ethereum emitter as it runs, with its subscriptions and restarts, as the step
    relation \<open>watch_step\<close>.
  \<^item> The event processor, \<open>services/event-processor\<close>. \<open>EventStore\<close>: the tables and their transactions,
    over the interface \<open>postgres_driver\<close>. \<open>EventProcessor\<close>: the handlers, the processors of the stages and
    the worker loop. \<open>EventSteps\<close>: what the statements of one round do, with failures at any of them.
    \<open>EventLife\<close>: the concurrent workers as a step relation \<open>ev_step\<close>, its invariant, and what becomes of an event.
    \<open>EventFlow\<close>: processors and rounds composed. \<open>SeriesProcessor\<close>, \<open>SeriesLife\<close>: the events of the
    series registry.

  \<^bold>\<open>How state corresponds.\<close> An operation of the code that reads or writes shared state is an action
  \<open>'s \<Rightarrow> (goerr + 'a) \<times> 's\<close>: it returns an error or a value and, in both cases, the state after it. The state is a
  record of the collections (\<open>db\<close>), of the tables and row locks (\<open>pg_state\<close>), or of several such (\<open>world\<close>, \<open>worker_state\<close>). A
  panic is the error \<open>GoPanic\<close>. The time of a step and generated ids are arguments.

  \<^bold>\<open>Parameters.\<close> What is not part of the repository is an argument, with the documented behaviour as the
  laws of a locale, each with an interpretation on a concrete instance: \<open>external\<close> (go-ethereum, autonomy-utils,
  crypto, decimal, url), \<open>mongo_collection\<close> and \<open>mongo_store\<close>, \<open>message_codec\<close> (encoding/json and protobuf),
  \<open>grpc_connection\<close>, \<open>event_connection\<close>, \<open>cadence_service\<close>, \<open>postgres_driver\<close>, \<open>url_syntax\<close> (net/url), \<open>answered_once\<close>
  (the order in which concurrent requests end), \<open>child_order\<close> (the order in which child workflows run), \<open>graphql_library\<close> (the library that
  executes a query over the resolvers, and keeps what every resolver keeps), \<open>image_service\<close> (the table of images, Cloudflare), \<open>find_and_update\<close> and \<open>thumb_indexer\<close> (the
  collections of the image indexer). HTTP and
  contract calls are functions without laws; the order in which Go iterates over a map is an argument.

  \<^bold>\<open>What the lemmas show.\<close> The \<open>_run\<close> lemmas give the state after an operation over a lawful driver; the
  \<open>keeps\<close> lemmas carry invariants through a handler; the step lemmas (\<open>tx_writes\<close>, \<open>step_inv\<close>) carry them through
  the concurrent system. That a driver keeps the unique indexes is one of its laws, so the invariants of indexes are lemmas and no
  properties; the properties, in the text blocks numbered C1 and up, say what the code does to the state: the state after an
  operation, what it leaves alone, what holds in every reachable state, when a loop ends. Where a call of a service may fail at any
  point (\<open>postgres_driver\<close>, \<open>event_connection\<close>), they hold of every such failure, unless they name the condition
  (\<open>dependable\<close> for the emitter, deletions that succeed for the images).

  \<^bold>\<open>Bounds and fuel.\<close> Loops of pages take fuel and return \<open>None\<close> when it runs out:
  \<open>GetDetailedAccountTokensByOwners\<close> needs one round per page of 25 account tokens and two more,
  \<open>GetCollectionsByCreators\<close> \<open>size div 25 + 1\<close>; the properties give the result for every larger fuel. So do the pages
  of owners (one round for each page, and one more), the requests of a crawl of rates (one round for 300 minutes), the batches of blocks (\<open>block_range_runs\<close>: as many as the range has
  blocks) and the pages of a token owner (\<open>eth_token_pages\<close>), where running out is the time limit of the workflow and an
  error. \<open>compressImage\<close> need not return and is a partial function; \<open>compressImage_terminates\<close> says when it does. \<open>int64\<close> and \<open>uint64\<close> arithmetic goes through \<open>i64\<close> and \<open>u64\<close>, with the wrap-around; the fixed fee of a sale
  is rounded as \<open>big.Float\<close> does.

  \<^bold>\<open>Not modelled.\<close> Generated code (\<open>*.pb.go\<close>, the GraphQL executor, contract bindings), the \<open>main.go\<close> files,
  which read settings and open connections, logging, metrics and tracing, the
  demonstration tools; the parts of the manifest with the status not_modelled say why.
\<close>

end
